(* ===== verification/Prelude.thy ===== *)
theory Prelude
  imports Main "HOL-Library.Word"
begin

text \<open>
  Shared vocabulary of the development: the names of the Go types, errors as values, the result
  of a Go call (a value, an error, or a panic), the state-and-error computations the stateful code
  is written in, and the generic lemmas about them.

  A Go function that returns (T, error) is a HOL function into 'a result.  A panic (nil
  dereference, index out of range) is not an error value: no caller in the program can handle it
  with if err != nil, so it has a constructor of its own that every combinator passes on.
\<close>

section \<open>Types of the program\<close>

type_synonym hash = "256 word"       \<comment> \<open>common.Hash\<close>
type_synonym address = "160 word"    \<comment> \<open>common.Address\<close>
type_synonym u64 = "64 word"         \<comment> \<open>uint64\<close>
type_synonym byte = "8 word"
type_synonym bytes = "8 word list"   \<comment> \<open>[]byte\<close>
type_synonym uuid = "128 word"       \<comment> \<open>uuid.UUID\<close>

text \<open>Error values.  \<open>Wrap m e\<close> is fmt.Errorf with the verb for wrapping, \<open>Join\<close> is errors.Join,
  \<open>External n\<close> is an error raised by a service or a library, told apart by its number.\<close>

datatype error =
    Msg string
  | Wrap string error
  | Join "error list"
  | FailedPermanently int error
  | RecordNotFound
  | NotFound
  | External nat

fun errors_Is :: "error \<Rightarrow> error \<Rightarrow> bool" where
  "errors_Is (Wrap m e) t = (Wrap m e = t \<or> errors_Is e t)"
| "errors_Is (FailedPermanently n e) t = (FailedPermanently n e = t \<or> errors_Is e t)"
| "errors_Is (Join es) t = (Join es = t \<or> (\<exists>e \<in> set es. errors_Is e t))"
| "errors_Is e t = (e = t)"

datatype 'a result = Ok 'a | Err error | Panic string

named_theorems go_simps \<open>evaluation of the state-and-error combinators\<close>
named_theorems table_simps \<open>facts about the rows of tables\<close>

fun bindR :: "'a result \<Rightarrow> ('a \<Rightarrow> 'b result) \<Rightarrow> 'b result" where
  "bindR (Ok a) f = f a"
| "bindR (Err e) f = Err e"
| "bindR (Panic p) f = Panic p"

fun mapErr :: "(error \<Rightarrow> error) \<Rightarrow> 'a result \<Rightarrow> 'a result" where
  "mapErr g (Ok a) = Ok a"
| "mapErr g (Err e) = Err (g e)"
| "mapErr g (Panic p) = Panic p"

fun is_ok :: "'a result \<Rightarrow> bool" where
  "is_ok (Ok a) = True"
| "is_ok (Err e) = False"
| "is_ok (Panic p) = False"

fun nonil :: "'a option \<Rightarrow> 'a result" where
  "nonil (Some a) = Ok a"
| "nonil None = Panic ''invalid memory address or nil pointer dereference''"

text \<open>Indexing a slice: out of range is a panic.\<close>

definition indexR :: "'a list \<Rightarrow> nat \<Rightarrow> 'a result" where
  "indexR xs i = (if i < length xs then Ok (xs ! i) else Panic ''index out of range'')"

definition updateR :: "'a list \<Rightarrow> nat \<Rightarrow> 'a \<Rightarrow> 'a list result" where
  "updateR xs i v = (if i < length xs then Ok (xs[i := v]) else Panic ''index out of range'')"

fun mapR :: "('a \<Rightarrow> 'b result) \<Rightarrow> 'a list \<Rightarrow> 'b list result" where
  "mapR f [] = Ok []"
| "mapR f (x # xs) = bindR (f x) (\<lambda>y. bindR (mapR f xs) (\<lambda>ys. Ok (y # ys)))"

fun foldR :: "('x \<Rightarrow> 'b \<Rightarrow> 'b result) \<Rightarrow> 'x list \<Rightarrow> 'b \<Rightarrow> 'b result" where
  "foldR f [] b = Ok b"
| "foldR f (x # xs) b = bindR (f x b) (foldR f xs)"

lemma bindR_eq_Ok [simp]: "bindR r f = Ok b \<longleftrightarrow> (\<exists>a. r = Ok a \<and> f a = Ok b)"
  by (cases r) auto

lemma bindR_eq_Err: "bindR r f = Err e \<longleftrightarrow> r = Err e \<or> (\<exists>a. r = Ok a \<and> f a = Err e)"
  by (cases r) auto

lemma bindR_eq_Panic: "bindR r f = Panic p \<longleftrightarrow> r = Panic p \<or> (\<exists>a. r = Ok a \<and> f a = Panic p)"
  by (cases r) auto

lemma mapErr_eq_Ok [simp]: "mapErr g r = Ok a \<longleftrightarrow> r = Ok a"
  by (cases r) auto

lemma mapErr_eq_Panic [simp]: "mapErr g r = Panic p \<longleftrightarrow> r = Panic p"
  by (cases r) auto

lemma nonil_eq_Ok [simp]: "nonil x = Ok a \<longleftrightarrow> x = Some a"
  by (cases x) auto

lemma indexR_Ok [simp]: "i < length xs \<Longrightarrow> indexR xs i = Ok (xs ! i)"
  by (simp add: indexR_def)

lemma indexR_eq_Ok: "indexR xs i = Ok x \<longleftrightarrow> i < length xs \<and> x = xs ! i"
  by (auto simp: indexR_def)

lemma mapR_Ok_iff:
  "mapR f xs = Ok ys \<longleftrightarrow> length ys = length xs \<and> (\<forall>i < length xs. f (xs ! i) = Ok (ys ! i))"
proof (induction xs arbitrary: ys)
  case Nil
  then show ?case by auto
next
  case (Cons x xs)
  show ?case
  proof (cases ys)
    case Nil
    then show ?thesis by auto
  next
    case (Cons y ys')
    then show ?thesis using Cons.IH by (auto simp: nth_Cons less_Suc_eq_0_disj split: nat.splits)
  qed
qed

lemma mapR_map_Ok: "(\<And>x. x \<in> set xs \<Longrightarrow> f x = Ok (g x)) \<Longrightarrow> mapR f xs = Ok (map g xs)"
  by (induction xs) auto

section \<open>Computations with state\<close>

text \<open>A Go routine that acts on a state: the state after the call is returned on every path, an
  error or a panic included, because Go does not undo the writes made before it.\<close>

type_synonym ('s, 'a) go = "'s \<Rightarrow> 'a result \<times> 's"

definition retG :: "'a \<Rightarrow> ('s, 'a) go" where
  "retG a = (\<lambda>s. (Ok a, s))"

definition liftR :: "'a result \<Rightarrow> ('s, 'a) go" where
  "liftR r = (\<lambda>s. (r, s))"

definition errG :: "error \<Rightarrow> ('s, 'a) go" where
  "errG e = (\<lambda>s. (Err e, s))"

definition bindG :: "('s, 'a) go \<Rightarrow> ('a \<Rightarrow> ('s, 'b) go) \<Rightarrow> ('s, 'b) go" where
  "bindG m f = (\<lambda>s. case m s of (Ok a, s') \<Rightarrow> f a s' | (Err e, s') \<Rightarrow> (Err e, s')
                    | (Panic p, s') \<Rightarrow> (Panic p, s'))"

definition thenG :: "('s, 'a) go \<Rightarrow> ('s, 'b) go \<Rightarrow> ('s, 'b) go" where
  "thenG m k = bindG m (\<lambda>_. k)"

definition mapErrG :: "(error \<Rightarrow> error) \<Rightarrow> ('s, 'a) go \<Rightarrow> ('s, 'a) go" where
  "mapErrG g m = (\<lambda>s. (mapErr g (fst (m s)), snd (m s)))"

definition getG :: "('s \<Rightarrow> 'a) \<Rightarrow> ('s, 'a) go" where
  "getG f = (\<lambda>s. (Ok (f s), s))"

definition readG :: "('s \<Rightarrow> 'a result) \<Rightarrow> ('s, 'a) go" where
  "readG f = (\<lambda>s. (f s, s))"

definition putG :: "('s \<Rightarrow> 's) \<Rightarrow> ('s, unit) go" where
  "putG f = (\<lambda>s. (Ok (), f s))"

text \<open>A loop over a slice that stops at the first error.\<close>

fun forG :: "('x \<Rightarrow> ('s, unit) go) \<Rightarrow> 'x list \<Rightarrow> ('s, unit) go" where
  "forG f [] = retG ()"
| "forG f (x # xs) = thenG (f x) (forG f xs)"

lemmas go_defs = retG_def liftR_def errG_def bindG_def thenG_def mapErrG_def getG_def readG_def putG_def

lemma retG_apply [go_simps]: "retG a s = (Ok a, s)" by (simp add: retG_def)
lemma liftR_apply [go_simps]: "liftR r s = (r, s)" by (simp add: liftR_def)
lemma errG_apply [go_simps]: "errG e s = (Err e, s)" by (simp add: errG_def)
lemma getG_apply [go_simps]: "getG f s = (Ok (f s), s)" by (simp add: getG_def)
lemma readG_apply [go_simps]: "readG f s = (f s, s)" by (simp add: readG_def)
lemma putG_apply [go_simps]: "putG f s = (Ok (), f s)" by (simp add: putG_def)

lemma bindG_Ok: "m s = (Ok a, s') \<Longrightarrow> bindG m f s = f a s'" by (simp add: bindG_def)
lemma bindG_Err: "m s = (Err e, s') \<Longrightarrow> bindG m f s = (Err e, s')" by (simp add: bindG_def)
lemma bindG_Panic: "m s = (Panic p, s') \<Longrightarrow> bindG m f s = (Panic p, s')" by (simp add: bindG_def)

lemma bindG_eq_Ok:
  "bindG m f s = (Ok b, t) \<longleftrightarrow> (\<exists>a s'. m s = (Ok a, s') \<and> f a s' = (Ok b, t))"
  by (auto simp: bindG_def split: prod.splits result.splits)

lemma bindG_retG [go_simps]: "bindG (retG a) f s = f a s" by (simp add: bindG_def retG_def)
lemma bindG_errG [go_simps]: "bindG (errG e) f s = (Err e, s)" by (simp add: bindG_def errG_def)
lemma bindG_getG [go_simps]: "bindG (getG g) f s = f (g s) s" by (simp add: bindG_def getG_def)
lemma bindG_putG [go_simps]: "bindG (putG g) f s = f () (g s)" by (simp add: bindG_def putG_def)

lemma thenG_putG [go_simps]: "thenG (putG g) k s = k (g s)" by (simp add: thenG_def bindG_putG)

lemma thenG_eq_Ok:
  "thenG m k s = (Ok b, t) \<longleftrightarrow> (\<exists>a s'. m s = (Ok a, s') \<and> k s' = (Ok b, t))"
  by (simp add: thenG_def bindG_eq_Ok)

lemma thenG_no_panic:
  assumes "\<And>p. fst (m s) \<noteq> Panic p" "\<And>t p. fst (k t) \<noteq> Panic p"
  shows "fst (thenG m k s) \<noteq> Panic p"
  using assms by (cases "m s"; cases "fst (m s)") (auto simp: thenG_def bindG_def)

lemma bindG_assoc: "bindG (bindG m f) g = bindG m (\<lambda>x. bindG (f x) g)"
  by (rule ext) (simp add: bindG_def split: prod.splits result.splits)

lemma mapErrG_eq_Ok: "mapErrG g m s = (Ok a, t) \<longleftrightarrow> m s = (Ok a, t)"
  by (cases "m s") (simp add: mapErrG_def)

lemma forG_append: "forG f (xs @ ys) = thenG (forG f xs) (forG f ys)"
proof (induction xs)
  case Nil
  show ?case by (rule ext) (simp add: go_defs)
next
  case (Cons x xs)
  then show ?case by (simp add: thenG_def bindG_assoc)
qed

text \<open>An invariant that each iteration keeps, on its error paths too, is kept by the loop.\<close>

lemma forG_invariant:
  assumes "\<And>x s. x \<in> set xs \<Longrightarrow> I s \<Longrightarrow> I (snd (f x s))" and "I s"
  shows "I (snd (forG f xs s))"
  using assms
proof (induction xs arbitrary: s)
  case Nil
  then show ?case by (simp add: retG_def)
next
  case (Cons x xs)
  have "I (snd (f x s))" using Cons.prems by simp
  then show ?case using Cons.IH Cons.prems
    by (cases "f x s"; cases "fst (f x s)") (auto simp: thenG_def bindG_def)
qed

lemma bindG_invariant:
  assumes "I s \<Longrightarrow> I (snd (m s))" and "\<And>a t. I t \<Longrightarrow> I (snd (f a t))" and "I s"
  shows "I (snd (bindG m f s))"
  using assms by (cases "m s"; cases "fst (m s)") (auto simp: bindG_def)

section \<open>Machine integers\<close>

text \<open>big.Int.Uint64 keeps the low 64 bits of the absolute value, big.Int.Int64 reads them as a
  signed number (negated when the value is negative).\<close>

definition big_Uint64 :: "int \<Rightarrow> u64" where
  "big_Uint64 x = word_of_int \<bar>x\<bar>"

definition big_Int64 :: "int \<Rightarrow> int" where
  "big_Int64 x = (let v = sint (word_of_int \<bar>x\<bar> :: u64) in
                  if x < 0 then sint (- (word_of_int \<bar>x\<bar> :: u64)) else v)"

text \<open>int64 addition wraps.\<close>

definition wrap64 :: "int \<Rightarrow> int" where
  "wrap64 x = sint (word_of_int x :: u64)"

lemma wrap64_id: "- (2 ^ 63) \<le> x \<Longrightarrow> x < 2 ^ 63 \<Longrightarrow> wrap64 x = x"
  by (simp add: wrap64_def sint_sbintrunc' signed_take_bit_int_eq_self)

lemma big_Uint64_nonneg: "0 \<le> x \<Longrightarrow> x < 2 ^ 64 \<Longrightarrow> uint (big_Uint64 x) = x"
  by (simp add: big_Uint64_def uint_word_of_int take_bit_int_eq_self)

end
