(* ===== verification/Chain.thy ===== *)
theory Chain
  imports Prelude
begin

text \<open>
  The go-ethereum values the program reads from a node: block headers, logs, transactions and
  receipts, with the fields the program uses.  The remaining fields of a header are kept opaque in
  \<open>Rest\<close>, so that two headers that differ there are different.  A decoded header always has a
  number (the JSON and RLP decoders refuse one without it), so Number is an int.
\<close>

record header =
  ParentHash :: hash
  Number :: int
  Time :: u64
  Rest :: bytes

record log =
  Address :: address
  Topics :: "hash list"
  Data :: bytes
  BlockNumber :: u64
  TxHash :: hash
  BlockHash :: hash
  Index :: u64

record transaction =
  tx_Hash :: hash
  tx_To :: "address option"
  tx_Gas :: u64
  tx_GasPrice :: int
  tx_Data :: bytes
  tx_GasFeeCap :: int
  tx_Nonce :: u64
  tx_Value :: int
  tx_Time :: int

record receipt =
  rc_BlockHash :: hash
  rc_BlockNumber :: "int option"
  rc_GasUsed :: u64
  rc_CumulativeGasUsed :: u64
  rc_EffectiveGasPrice :: "int option"
  rc_L1Fee :: "int option"
  rc_L1GasUsed :: "int option"
  rc_L1GasPrice :: "int option"
  rc_TransactionIndex :: u64
  rc_Type :: byte
  rc_Status :: u64
  rc_ContractAddress :: address

text \<open>ethereum.FilterQuery: nil heights are None.\<close>

record FilterQuery =
  fq_BlockHash :: "hash option"
  fq_FromBlock :: "int option"
  fq_ToBlock :: "int option"
  fq_Addresses :: "address list"
  fq_Topics :: "hash list list"

text \<open>ethereum.CallMsg.\<close>

record CallMsg =
  cm_From :: address
  cm_To :: "address option"
  cm_Gas :: u64
  cm_GasPrice :: "int option"
  cm_Value :: "int option"
  cm_Data :: bytes

text \<open>Big-endian bytes of an address or a hash, and the value of big-endian bytes (big.Int.SetBytes).\<close>

fun be_bytes :: "nat \<Rightarrow> int \<Rightarrow> bytes" where
  "be_bytes 0 x = []"
| "be_bytes (Suc n) x = be_bytes n (x div 256) @ [word_of_int x]"

definition SetBytes :: "bytes \<Rightarrow> int" where
  "SetBytes bs = foldl (\<lambda>acc b. acc * 256 + uint b) 0 bs"

definition address_bytes :: "address \<Rightarrow> bytes" where
  "address_bytes a = be_bytes 20 (uint a)"

definition hash_bytes :: "hash \<Rightarrow> bytes" where
  "hash_bytes h = be_bytes 32 (uint h)"

text \<open>common.BytesToAddress and common.BytesToHash keep the last 20 and 32 bytes.\<close>

definition BytesToAddress :: "bytes \<Rightarrow> address" where
  "BytesToAddress bs = word_of_int (SetBytes bs)"

definition BytesToHash :: "bytes \<Rightarrow> hash" where
  "BytesToHash bs = word_of_int (SetBytes bs)"

definition LeftPadBytes :: "bytes \<Rightarrow> nat \<Rightarrow> bytes" where
  "LeftPadBytes bs n = replicate (n - length bs) 0 @ bs"

lemma length_be_bytes [simp]: "length (be_bytes n x) = n"
  by (induction n arbitrary: x) auto

lemma SetBytes_Nil [simp]: "SetBytes [] = 0"
  by (simp add: SetBytes_def)

lemma SetBytes_snoc [simp]: "SetBytes (bs @ [b]) = SetBytes bs * 256 + uint b"
  by (simp add: SetBytes_def)

lemma SetBytes_nonneg: "0 \<le> SetBytes bs"
  by (induction bs rule: rev_induct) auto

lemma SetBytes_append: "SetBytes (xs @ ys) = SetBytes xs * 256 ^ length ys + SetBytes ys"
proof (induction ys rule: rev_induct)
  case Nil
  then show ?case by simp
next
  case (snoc y ys)
  then show ?case by (simp add: append_assoc [symmetric] algebra_simps del: append_assoc)
qed

lemma SetBytes_less: "SetBytes bs < 256 ^ length bs"
proof (induction bs rule: rev_induct)
  case Nil
  then show ?case by simp
next
  case (snoc b bs)
  have "uint b < 256" using uint_lt2p[of b] by simp
  then show ?case using snoc by simp
qed

lemma SetBytes_be_bytes: "0 \<le> x \<Longrightarrow> x < 256 ^ n \<Longrightarrow> SetBytes (be_bytes n x) = x"
proof (induction n arbitrary: x)
  case 0
  then show ?case by simp
next
  case (Suc n)
  have "x div 256 < y" if "x < 256 * y" for y :: int using that by presburger
  then have "x div 256 < 256 ^ n" using Suc.prems by simp
  moreover have "uint (word_of_int x :: byte) = x mod 256" by (simp add: uint_word_of_int)
  ultimately show ?case using Suc by simp
qed

lemma be_bytes_SetBytes: "be_bytes (length bs) (SetBytes bs) = bs"
proof (induction bs rule: rev_induct)
  case Nil
  then show ?case by simp
next
  case (snoc b bs)
  have u: "uint b < 256" using uint_lt2p[of b] by simp
  then have "(SetBytes bs * 256 + uint b) div 256 = SetBytes bs" by simp
  moreover have "word_of_int (SetBytes bs * 256 + uint b) = b"
    using u by (simp only: word_uint_eq_iff uint_word_of_int) simp
  ultimately show ?case using snoc by simp
qed

lemma BytesToAddress_address_bytes [simp]: "BytesToAddress (address_bytes a) = a"
proof -
  have "uint a < 256 ^ 20" using uint_lt2p[of a] by simp
  then show ?thesis by (simp add: BytesToAddress_def address_bytes_def SetBytes_be_bytes)
qed

lemma BytesToHash_hash_bytes [simp]: "BytesToHash (hash_bytes h) = h"
proof -
  have "uint h < 256 ^ 32" using uint_lt2p[of h] by simp
  then show ?thesis by (simp add: BytesToHash_def hash_bytes_def SetBytes_be_bytes)
qed

end
