(* ===== verification/TextFormat.thy ===== *)
theory TextFormat
  imports Chain
begin

text \<open>
  Numbers and bytes as text: the functions of Go's strconv, math/big, encoding/hex and go-ethereum's
  hexutil that the program uses to read the answers of the graph node and to write its tables, and
  the round trips between the two directions.
\<close>

section \<open>Decimal numbers\<close>

definition digits :: string where "digits = ''0123456789''"

fun decimal :: "nat \<Rightarrow> string" where
  "decimal n = (if n < 10 then [digits ! n] else decimal (n div 10) @ [digits ! (n mod 10)])"

declare decimal.simps [simp del]

text \<open>big.Int.String and strconv.Itoa.\<close>

definition int_String :: "int \<Rightarrow> string" where
  "int_String x = (if x < 0 then CHR ''-'' # decimal (nat (- x)) else decimal (nat x))"

definition digit_value :: "char \<Rightarrow> nat option" where
  "digit_value c = map_of (zip digits [0..<10]) c"

fun read_digits :: "nat \<Rightarrow> string \<Rightarrow> nat option" where
  "read_digits acc [] = Some acc"
| "read_digits acc (c # cs) = (case digit_value c of None \<Rightarrow> None | Some d \<Rightarrow> read_digits (acc * 10 + d) cs)"

definition read_decimal :: "string \<Rightarrow> nat option" where
  "read_decimal s = (if s = [] then None else read_digits 0 s)"

text \<open>big.Int.SetString with base 10: an optional sign, then digits.\<close>

definition SetString :: "string \<Rightarrow> int option" where
  "SetString s =
     (case s of
        [] \<Rightarrow> None
      | c # cs \<Rightarrow>
          if c = CHR ''-'' then map_option (\<lambda>n. - int n) (read_decimal cs)
          else if c = CHR ''+'' then map_option int (read_decimal cs)
          else map_option int (read_decimal s))"

text \<open>strconv.ParseUint with base 10 and a size in bits.\<close>

definition ErrSyntax :: error where "ErrSyntax = Msg ''invalid syntax''"
definition ErrRange :: error where "ErrRange = Msg ''value out of range''"

definition ParseUint :: "nat \<Rightarrow> string \<Rightarrow> nat result" where
  "ParseUint bits s =
     (case read_decimal s of
        None \<Rightarrow> Err ErrSyntax
      | Some n \<Rightarrow> if n < 2 ^ bits then Ok n else Err ErrRange)"

lemma digit_value_digits: "d < 10 \<Longrightarrow> digit_value (digits ! d) = Some d"
proof -
  assume "d < 10"
  then have "d \<in> {0, 1, 2, 3, 4, 5, 6, 7, 8, 9}" by auto
  then show ?thesis by (auto simp: digit_value_def digits_def upt_rec)
qed

lemma read_digits_append:
  "read_digits acc (s @ t) = (case read_digits acc s of None \<Rightarrow> None | Some n \<Rightarrow> read_digits n t)"
  by (induction s arbitrary: acc) (auto split: option.splits)

lemma decimal_not_Nil [simp]: "decimal n \<noteq> []"
  by (subst decimal.simps) simp

lemma read_digits_decimal: "read_digits 0 (decimal n) = Some n"
proof (induction n rule: decimal.induct)
  case (1 n)
  show ?case
  proof (cases "n < 10")
    case True
    then show ?thesis by (subst decimal.simps) (simp add: digit_value_digits)
  next
    case False
    then have "read_digits 0 (decimal (n div 10)) = Some (n div 10)" using 1 by simp
    then show ?thesis using False by (subst decimal.simps) (simp add: read_digits_append digit_value_digits)
  qed
qed

lemma read_decimal_decimal [simp]: "read_decimal (decimal n) = Some n"
  by (simp add: read_decimal_def read_digits_decimal)

lemma ParseUint_decimal [simp]: "n < 2 ^ bits \<Longrightarrow> ParseUint bits (decimal n) = Ok n"
  by (simp add: ParseUint_def)

lemma ParseUint_less: "ParseUint bits s = Ok n \<Longrightarrow> n < 2 ^ bits"
  by (auto simp: ParseUint_def split: option.splits if_splits)

lemma sign_no_digit: "digit_value CHR ''-'' = None" "digit_value CHR ''+'' = None"
  by (auto simp: digit_value_def digits_def upt_rec)

lemma decimal_no_sign: "decimal n = c # cs \<Longrightarrow> c \<noteq> CHR ''-'' \<and> c \<noteq> CHR ''+''"
  using read_digits_decimal[of n] by (auto simp: sign_no_digit)

lemma SetString_int_String [simp]: "SetString (int_String x) = Some x"
proof (cases "x < 0")
  case True
  then show ?thesis by (simp add: SetString_def int_String_def)
next
  case False
  then obtain c cs where c: "decimal (nat x) = c # cs" by (cases "decimal (nat x)") auto
  then have "SetString (decimal (nat x)) = map_option int (read_decimal (decimal (nat x)))"
    using decimal_no_sign[OF c] unfolding SetString_def by simp
  then show ?thesis using False by (simp add: int_String_def)
qed

section \<open>Parts of a text\<close>

text \<open>strings.HasPrefix and strings.Split on one separator.\<close>

fun HasPrefix :: "string \<Rightarrow> string \<Rightarrow> bool" where
  "HasPrefix s [] = True"
| "HasPrefix [] (p # ps) = False"
| "HasPrefix (c # s) (p # ps) = (c = p \<and> HasPrefix s ps)"

fun Split :: "string \<Rightarrow> char \<Rightarrow> string list" where
  "Split [] sep = [[]]"
| "Split (c # s) sep =
     (case Split s sep of
        [] \<Rightarrow> [[c]]
      | w # ws \<Rightarrow> if c = sep then [] # w # ws else (c # w) # ws)"

text \<open>strings.ToLower, on the letters of ASCII.\<close>

definition to_lower_char :: "char \<Rightarrow> char" where
  "to_lower_char c = (case map_of (zip ''ABCDEFGHIJKLMNOPQRSTUVWXYZ'' ''abcdefghijklmnopqrstuvwxyz'') c of
     Some d \<Rightarrow> d | None \<Rightarrow> c)"

definition ToLower :: "string \<Rightarrow> string" where
  "ToLower s = map to_lower_char s"

section \<open>Bytes in hexadecimal\<close>

definition hex_digits :: string where "hex_digits = ''0123456789abcdef''"

text \<open>hex.EncodeToString.\<close>

definition hex_byte :: "byte \<Rightarrow> string" where
  "hex_byte b = [hex_digits ! (unat b div 16), hex_digits ! (unat b mod 16)]"

definition EncodeToString :: "bytes \<Rightarrow> string" where
  "EncodeToString bs = concat (map hex_byte bs)"

definition hex_value :: "char \<Rightarrow> nat option" where
  "hex_value c = map_of (zip (hex_digits @ ''ABCDEF'') ([0..<16] @ [10..<16])) c"

text \<open>hex.DecodeString: pairs of digits; a wrong digit is reported before an odd length.\<close>

fun DecodeString :: "string \<Rightarrow> bytes result" where
  "DecodeString [] = Ok []"
| "DecodeString [c] = (case hex_value c of None \<Rightarrow> Err (Msg ''invalid byte'') | Some _ \<Rightarrow> Err (Msg ''odd length hex string''))"
| "DecodeString (c # d # s) =
     (case (hex_value c, hex_value d) of
        (Some h, Some l) \<Rightarrow> bindR (DecodeString s) (\<lambda>bs. Ok (word_of_nat (h * 16 + l) # bs))
      | _ \<Rightarrow> Err (Msg ''invalid byte''))"

text \<open>hexutil.Encode and hexutil.Decode: the same with the prefix 0x.\<close>

definition hexutil_Encode :: "bytes \<Rightarrow> string" where
  "hexutil_Encode bs = ''0x'' @ EncodeToString bs"

definition hexutil_Decode :: "string \<Rightarrow> bytes result" where
  "hexutil_Decode s =
     (if s = [] then Err (Msg ''empty hex string'')
      else case s of
        c # x # rest \<Rightarrow> if c = CHR ''0'' \<and> (x = CHR ''x'' \<or> x = CHR ''X'') then DecodeString rest
                        else Err (Msg ''hex string without 0x prefix'')
      | _ \<Rightarrow> Err (Msg ''hex string without 0x prefix''))"

lemma hex_value_digits: "d < 16 \<Longrightarrow> hex_value (hex_digits ! d) = Some d"
proof -
  assume "d < 16"
  then have "d = 0 \<or> d = 1 \<or> d = 2 \<or> d = 3 \<or> d = 4 \<or> d = 5 \<or> d = 6 \<or> d = 7 \<or> d = 8 \<or> d = 9 \<or>
    d = 10 \<or> d = 11 \<or> d = 12 \<or> d = 13 \<or> d = 14 \<or> d = 15" by presburger
  then show ?thesis by (elim disjE) (simp_all add: hex_value_def hex_digits_def upt_rec)
qed

lemma hex_byte_value: "word_of_nat (unat b div 16 * 16 + unat b mod 16) = (b :: byte)"
  by (simp del: of_nat_add of_nat_mult)

lemma DecodeString_EncodeToString [simp]: "DecodeString (EncodeToString bs) = Ok bs"
proof (induction bs)
  case Nil
  then show ?case by (simp add: EncodeToString_def)
next
  case (Cons b bs)
  have "unat b < 256" using unsigned_less[of b, where ?'a = nat] by simp
  then have "unat b div 16 < 16" "unat b mod 16 < 16" by auto
  then show ?case using Cons hex_byte_value[of b]
    by (simp add: EncodeToString_def hex_byte_def hex_value_digits del: of_nat_add of_nat_mult)
qed

lemma hexutil_Decode_Encode [simp]: "hexutil_Decode (hexutil_Encode bs) = Ok bs"
  by (simp add: hexutil_Decode_def hexutil_Encode_def)

text \<open>copy(a[:], b) into an array of 32 bytes: b fills it from the left.\<close>

definition copy32 :: "bytes \<Rightarrow> hash" where
  "copy32 bs = BytesToHash (take 32 (bs @ replicate 32 0))"

lemma copy32_hash_bytes [simp]: "copy32 (hash_bytes h) = h"
  by (simp add: copy32_def hash_bytes_def)
     (metis BytesToHash_hash_bytes hash_bytes_def)

text \<open>common.HexToHash: an optional prefix, an odd number of digits is filled up in front; text that is not
  hexadecimal reads as the bytes before its first wrong pair; then the last 32 bytes.\<close>

fun decoded_bytes :: "string \<Rightarrow> bytes" where
  "decoded_bytes (c # d # s) =
     (case (hex_value c, hex_value d) of
        (Some h, Some l) \<Rightarrow> word_of_nat (h * 16 + l) # decoded_bytes s
      | _ \<Rightarrow> [])"
| "decoded_bytes _ = []"

definition FromHex :: "string \<Rightarrow> bytes" where
  "FromHex s =
     (let r = (case s of c # x # rest \<Rightarrow> if c = CHR ''0'' \<and> (x = CHR ''x'' \<or> x = CHR ''X'') then rest else s | _ \<Rightarrow> s) in
      decoded_bytes (if length r mod 2 = 1 then CHR ''0'' # r else r))"

definition HexToHash :: "string \<Rightarrow> hash" where
  "HexToHash s = BytesToHash (FromHex s)"

definition HexToAddress :: "string \<Rightarrow> address" where
  "HexToAddress s = BytesToAddress (FromHex s)"

lemma decoded_bytes_EncodeToString [simp]: "decoded_bytes (EncodeToString bs) = bs"
proof (induction bs)
  case Nil
  then show ?case by (simp add: EncodeToString_def)
next
  case (Cons b bs)
  have "unat b < 256" using unsigned_less[of b, where ?'a = nat] by simp
  then have "unat b div 16 < 16" "unat b mod 16 < 16" by auto
  then show ?case using Cons hex_byte_value[of b]
    by (simp add: EncodeToString_def hex_byte_def hex_value_digits del: of_nat_add of_nat_mult)
qed

lemma length_EncodeToString [simp]: "length (EncodeToString bs) = 2 * length bs"
  by (induction bs) (simp_all add: EncodeToString_def hex_byte_def)

lemma FromHex_Encode [simp]: "FromHex (hexutil_Encode bs) = bs"
  by (simp add: FromHex_def hexutil_Encode_def)

lemma HexToAddress_Encode [simp]: "HexToAddress (hexutil_Encode (address_bytes a)) = a"
  by (simp add: HexToAddress_def)

section \<open>Columns of text\<close>

text \<open>A column with an address or a hash holds its text in lower case hexadecimal.\<close>

definition address_text :: "address \<Rightarrow> string" where
  "address_text a = hexutil_Encode (address_bytes a)"

definition hash_text :: "hash \<Rightarrow> string" where
  "hash_text h = hexutil_Encode (hash_bytes h)"

end
