(* ===== verification/GraphView.thy ===== *)
theory GraphView
  imports TextFormat
begin

text \<open>
  synchronizer/mantle-da/common/graphView and header: what the program reads about a data store of the
  data availability layer.  The graph node answers with text; the Convert functions read it into
  numbers and arrays, and the first field that is not readable is the error.  A data store header is
  164 bytes of fixed layout.
\<close>

section \<open>Fields\<close>

definition read_u32 :: "string \<Rightarrow> 32 word result" where
  "read_u32 s = bindR (ParseUint 32 s) (\<lambda>n. Ok (word_of_nat n))"

definition read_u64 :: "string \<Rightarrow> u64 result" where
  "read_u64 s = bindR (ParseUint 64 s) (\<lambda>n. Ok (word_of_nat n))"

definition read_array :: "string \<Rightarrow> hash result" where
  "read_array s = bindR (hexutil_Decode s) (\<lambda>bs. Ok (copy32 bs))"

definition read_big :: "error \<Rightarrow> string \<Rightarrow> int result" where
  "read_big e s = (case SetString s of None \<Rightarrow> Err e | Some x \<Rightarrow> Ok x)"

definition ErrFeeStringNotParseable :: error where
  "ErrFeeStringNotParseable = Msg ''fee string not ok''"
definition ErrEthSignedStringNotParseable :: error where
  "ErrEthSignedStringNotParseable = Msg ''eth signed string not ok''"
definition ErrEigenSignedStringNotParseable :: error where
  "ErrEigenSignedStringNotParseable = Msg ''eigen signed string not ok''"

text \<open>The loops over NonSignerPubKeyHashes copy the fresh array into a temporary copy of the text, and
  append the array: it stays zero.\<close>

definition pub_key_hashes :: "string list \<Rightarrow> hash list" where
  "pub_key_hashes ks = map (\<lambda>_. 0) ks"

section \<open>Data stores\<close>

record DataStoreGql =
  gq_Id :: string
  gq_StoreNumber :: string
  gq_DurationDataStoreId :: string
  gq_Index :: string
  gq_DataCommitment :: string
  gq_MsgHash :: string
  gq_ReferenceBlockNumber :: string
  gq_InitTime :: string
  gq_ExpireTime :: string
  gq_Duration :: "32 word"
  gq_NumSys :: string
  gq_NumPar :: string
  gq_Degree :: string
  gq_StorePeriodLength :: string
  gq_Fee :: string
  gq_Confirmer :: string
  gq_Header :: string
  gq_InitTxHash :: string
  gq_InitGasUsed :: string
  gq_InitBlockNumber :: string
  gq_Confirmed :: bool
  gq_EthSigned :: string
  gq_EigenSigned :: string
  gq_NonSignerPubKeyHashes :: "string list"
  gq_SignatoryRecord :: string
  gq_ConfirmTxHash :: string
  gq_ConfirmGasUsed :: string

record GraphDataStore =
  gd_StoreNumber :: "32 word"
  gd_DurationDataStoreId :: "32 word"
  gd_Index :: "32 word"
  gd_DataCommitment :: hash
  gd_MsgHash :: hash
  gd_ReferenceBlockNumber :: "32 word"
  gd_InitTime :: "32 word"
  gd_ExpireTime :: "32 word"
  gd_Duration :: byte
  gd_NumSys :: "32 word"
  gd_NumPar :: "32 word"
  gd_Degree :: "32 word"
  gd_StorePeriodLength :: "32 word"
  gd_Fee :: int
  gd_Header :: bytes
  gd_InitTxHash :: hash
  gd_InitGasUsed :: u64
  gd_InitBlockNumber :: int
  gd_Confirmer :: string
  gd_Confirmed :: bool
  gd_EthSigned :: int
  gd_EigenSigned :: int
  gd_PubKeyHashes :: "hash list"
  gd_SignatoryRecord :: hash
  gd_ConfirmTxHash :: hash
  gd_ConfirmGasUsed :: u64

definition DataStoreGql_Convert :: "DataStoreGql \<Rightarrow> GraphDataStore result" where
  "DataStoreGql_Convert d =
     bindR (read_u32 (gq_StoreNumber d)) (\<lambda>sn.
     bindR (read_u32 (gq_DurationDataStoreId d)) (\<lambda>ddsId.
     bindR (read_u32 (gq_Index d)) (\<lambda>index.
     bindR (read_array (gq_DataCommitment d)) (\<lambda>dataArray.
     bindR (read_array (gq_MsgHash d)) (\<lambda>msgHashArray.
     bindR (read_u32 (gq_ReferenceBlockNumber d)) (\<lambda>referenceBlockNumber.
     bindR (read_u32 (gq_InitTime d)) (\<lambda>initTime.
     bindR (read_u32 (gq_ExpireTime d)) (\<lambda>expireTime.
     bindR (read_u32 (gq_NumSys d)) (\<lambda>numSys.
     bindR (read_u32 (gq_NumPar d)) (\<lambda>numPar.
     bindR (read_u32 (gq_Degree d)) (\<lambda>degree.
     bindR (read_u32 (gq_StorePeriodLength d)) (\<lambda>storePeriodLength.
     bindR (read_big ErrFeeStringNotParseable (gq_Fee d)) (\<lambda>fee.
     bindR (read_array (gq_InitTxHash d)) (\<lambda>initHashArray.
     bindR (read_u64 (gq_InitGasUsed d)) (\<lambda>initGasUsed.
     bindR (ParseUint 32 (gq_InitBlockNumber d)) (\<lambda>initBlockNumber.
     bindR (hexutil_Decode (gq_Header d)) (\<lambda>hdr.
     bindR (read_big ErrEthSignedStringNotParseable (gq_EthSigned d)) (\<lambda>ethSigned.
     bindR (read_big ErrEigenSignedStringNotParseable (gq_EigenSigned d)) (\<lambda>eigenSigned.
     bindR (read_array (gq_ConfirmTxHash d)) (\<lambda>confirmHashArray.
     bindR (read_u64 (gq_ConfirmGasUsed d)) (\<lambda>confirmGasUsed.
     bindR (read_array (gq_SignatoryRecord d)) (\<lambda>signatoryRecordArray.
     Ok \<lparr>gd_StoreNumber = sn, gd_DurationDataStoreId = ddsId, gd_Index = index, gd_DataCommitment = dataArray,
         gd_MsgHash = msgHashArray, gd_ReferenceBlockNumber = referenceBlockNumber, gd_InitTime = initTime,
         gd_ExpireTime = expireTime, gd_Duration = ucast (gq_Duration d), gd_NumSys = numSys, gd_NumPar = numPar,
         gd_Degree = degree, gd_StorePeriodLength = storePeriodLength, gd_Fee = fee, gd_Header = hdr,
         gd_InitTxHash = initHashArray, gd_InitGasUsed = initGasUsed, gd_InitBlockNumber = int initBlockNumber,
         gd_Confirmer = gq_Confirmer d, gd_Confirmed = gq_Confirmed d, gd_EthSigned = ethSigned,
         gd_EigenSigned = eigenSigned, gd_PubKeyHashes = pub_key_hashes (gq_NonSignerPubKeyHashes d),
         gd_SignatoryRecord = signatoryRecordArray, gd_ConfirmTxHash = confirmHashArray,
         gd_ConfirmGasUsed = confirmGasUsed\<rparr>))))))))))))))))))))))"

section \<open>Data stores that are initialised only\<close>

record DataStoreInitGql =
  iq_Id :: string
  iq_StoreNumber :: string
  iq_DurationDataStoreId :: string
  iq_Index :: string
  iq_DataCommitment :: string
  iq_MsgHash :: string
  iq_ReferenceBlockNumber :: string
  iq_InitTime :: string
  iq_ExpireTime :: string
  iq_Duration :: "32 word"
  iq_StorePeriodLength :: string
  iq_Fee :: string
  iq_Header :: string
  iq_Confirmer :: string
  iq_InitTxHash :: string
  iq_InitGasUsed :: string
  iq_InitBlockNumber :: string

record DataStoreInit =
  di_StoreNumber :: "32 word"
  di_DurationDataStoreId :: "32 word"
  di_Index :: "32 word"
  di_DataCommitment :: hash
  di_MsgHash :: hash
  di_ReferenceBlockNumber :: "32 word"
  di_InitTime :: "32 word"
  di_ExpireTime :: "32 word"
  di_Duration :: byte
  di_StorePeriodLength :: "32 word"
  di_Fee :: int
  di_Header :: bytes
  di_Confirmer :: string
  di_InitTxHash :: hash
  di_InitGasUsed :: u64
  di_InitBlockNumber :: int

definition DataStoreInitGql_Convert :: "DataStoreInitGql \<Rightarrow> DataStoreInit result" where
  "DataStoreInitGql_Convert d =
     bindR (read_u32 (iq_StoreNumber d)) (\<lambda>sn.
     bindR (read_u32 (iq_DurationDataStoreId d)) (\<lambda>ddsId.
     bindR (read_u32 (iq_Index d)) (\<lambda>index.
     bindR (read_array (iq_DataCommitment d)) (\<lambda>dataArray.
     bindR (read_u32 (iq_ReferenceBlockNumber d)) (\<lambda>referenceBlockNumber.
     bindR (read_u32 (iq_InitTime d)) (\<lambda>initTime.
     bindR (read_u32 (iq_ExpireTime d)) (\<lambda>expireTime.
     bindR (read_u32 (iq_StorePeriodLength d)) (\<lambda>storePeriodLength.
     bindR (read_big ErrFeeStringNotParseable (iq_Fee d)) (\<lambda>fee.
     bindR (read_array (iq_InitTxHash d)) (\<lambda>hashArray.
     bindR (read_u64 (iq_InitGasUsed d)) (\<lambda>initGasUsed.
     bindR (read_big (Msg ''improperly formatted block number'') (iq_InitBlockNumber d)) (\<lambda>initBlockNumber.
     bindR (hexutil_Decode (iq_Header d)) (\<lambda>hdr.
     bindR (read_array (iq_MsgHash d)) (\<lambda>msgHashArray.
     Ok \<lparr>di_StoreNumber = sn, di_DurationDataStoreId = ddsId, di_Index = index, di_DataCommitment = dataArray,
         di_MsgHash = msgHashArray, di_ReferenceBlockNumber = referenceBlockNumber, di_InitTime = initTime,
         di_ExpireTime = expireTime, di_Duration = ucast (iq_Duration d), di_StorePeriodLength = storePeriodLength,
         di_Fee = fee, di_Header = hdr, di_Confirmer = iq_Confirmer d, di_InitTxHash = hashArray,
         di_InitGasUsed = initGasUsed, di_InitBlockNumber = initBlockNumber\<rparr>))))))))))))))"

text \<open>QueryInitDataStoreByTxHash and ByMsgHash: the first of the stores the node finds, if any.\<close>

definition first_init :: "DataStoreInitGql list result \<Rightarrow> DataStoreInit result" where
  "first_init answer = bindR answer (\<lambda>ds.
     case ds of [] \<Rightarrow> Err (Msg ''QueryEmpty'') | d # _ \<Rightarrow> DataStoreInitGql_Convert d)"

section \<open>Confirmations\<close>

record DataStoreConfirmGql =
  cq_EthSigned :: string
  cq_EigenSigned :: string
  cq_NonSignerPubKeyHashes :: "string list"
  cq_ConfirmTxHash :: string
  cq_ConfirmGasUsed :: string

record DataStoreConfirm =
  dc_EthSigned :: int
  dc_EigenSigned :: int
  dc_PubKeyHashes :: "hash list"
  dc_ConfirmTxHash :: hash
  dc_ConfirmGasUsed :: u64

definition DataStoreConfirmGql_Convert :: "DataStoreConfirmGql \<Rightarrow> DataStoreConfirm result" where
  "DataStoreConfirmGql_Convert d =
     bindR (read_big ErrEthSignedStringNotParseable (cq_EthSigned d)) (\<lambda>ethSigned.
     bindR (read_big ErrEigenSignedStringNotParseable (cq_EigenSigned d)) (\<lambda>eigenSigned.
     bindR (read_array (cq_ConfirmTxHash d)) (\<lambda>hashArray.
     bindR (read_u64 (cq_ConfirmGasUsed d)) (\<lambda>confirmGasUsed.
     Ok \<lparr>dc_EthSigned = ethSigned, dc_EigenSigned = eigenSigned,
         dc_PubKeyHashes = pub_key_hashes (cq_NonSignerPubKeyHashes d),
         dc_ConfirmTxHash = hashArray, dc_ConfirmGasUsed = confirmGasUsed\<rparr>))))"

section \<open>Data store headers\<close>

text \<open>The arrays of 64 and 20 bytes are words; binary.Write and binary.Read copy them as they are.\<close>

record DataStoreHeader =
  dh_KzgCommit :: "512 word"
  dh_Degree :: "32 word"
  dh_NumSys :: "32 word"
  dh_NumPar :: "32 word"
  dh_OrigDataSize :: "32 word"
  dh_Disperser :: address
  dh_LowDegreeProof :: "512 word"

definition DataStoreHeaderLength :: nat where "DataStoreHeaderLength = 164"

definition ErrHeaderInconsistentLength :: error where
  "ErrHeaderInconsistentLength = Msg ''ErrHeaderInconsistentLength''"

definition DataStoreHeader_Encode :: "DataStoreHeader \<Rightarrow> bytes result" where
  "DataStoreHeader_Encode h =
     (let b = be_bytes 64 (uint (dh_KzgCommit h)) @ be_bytes 4 (uint (dh_Degree h)) @ be_bytes 4 (uint (dh_NumSys h))
            @ be_bytes 4 (uint (dh_NumPar h)) @ be_bytes 4 (uint (dh_OrigDataSize h)) @ be_bytes 20 (uint (dh_Disperser h))
            @ be_bytes 64 (uint (dh_LowDegreeProof h)) in
      if length b \<noteq> DataStoreHeaderLength then Err ErrHeaderInconsistentLength else Ok b)"

text \<open>binary.Read of n bytes: io.EOF at the end of the input, io.ErrUnexpectedEOF within a field.\<close>

definition read_bytes :: "nat \<Rightarrow> bytes \<Rightarrow> (int \<times> bytes) result" where
  "read_bytes n b = (if b = [] then Err (Msg ''EOF'') else if length b < n then Err (Msg ''unexpected EOF'')
                     else Ok (SetBytes (take n b), drop n b))"

definition DecodeDataStoreHeader :: "bytes \<Rightarrow> DataStoreHeader result" where
  "DecodeDataStoreHeader h =
     bindR (read_bytes 64 h) (\<lambda>(kzgCommit, h).
     bindR (read_bytes 4 h) (\<lambda>(degree, h).
     bindR (read_bytes 4 h) (\<lambda>(numSys, h).
     bindR (read_bytes 4 h) (\<lambda>(numPar, h).
     bindR (read_bytes 4 h) (\<lambda>(origDataSize, h).
     bindR (read_bytes 20 h) (\<lambda>(disperser, h).
     bindR (read_bytes 64 h) (\<lambda>(lowDegreeProof, h).
     Ok \<lparr>dh_KzgCommit = word_of_int kzgCommit, dh_Degree = word_of_int degree, dh_NumSys = word_of_int numSys,
         dh_NumPar = word_of_int numPar, dh_OrigDataSize = word_of_int origDataSize,
         dh_Disperser = word_of_int disperser, dh_LowDegreeProof = word_of_int lowDegreeProof\<rparr>)))))))"

definition CreateUploadHeader :: "(bytes \<Rightarrow> hash) \<Rightarrow> DataStoreHeader \<Rightarrow> (bytes \<times> hash) result" where
  "CreateUploadHeader Keccak h = bindR (DataStoreHeader_Encode h) (\<lambda>b. Ok (b, Keccak b))"

record DataStoreRetrieveGql =
  rq_InitBlockNumber :: string
  rq_DataCommitment :: string
  rq_MsgHash :: string
  rq_Header :: string

record DataStoreRetrieve =
  dr_InitBlockNumber :: "32 word"
  dr_HeaderHash :: bytes
  dr_MsgHash :: bytes
  dr_Header :: DataStoreHeader

definition QueryDataStoreInitBlockNumber :: "DataStoreRetrieveGql result \<Rightarrow> DataStoreRetrieve result" where
  "QueryDataStoreInitBlockNumber answer =
     bindR answer (\<lambda>d.
     bindR (read_u32 (rq_InitBlockNumber d)) (\<lambda>blockNumber.
     bindR (hexutil_Decode (rq_DataCommitment d)) (\<lambda>dataCommitment.
     bindR (hexutil_Decode (rq_MsgHash d)) (\<lambda>msgHash.
     bindR (hexutil_Decode (rq_Header d)) (\<lambda>headerBytes.
     bindR (DecodeDataStoreHeader headerBytes) (\<lambda>h.
     Ok \<lparr>dr_InitBlockNumber = blockNumber, dr_HeaderHash = dataCommitment, dr_MsgHash = msgHash, dr_Header = h\<rparr>))))))"

definition GetExpiringDataStores :: "string list result \<Rightarrow> hash list result" where
  "GetExpiringDataStores answer = bindR answer (mapR read_array)"

section \<open>Round trips\<close>

definition write_u32 :: "32 word \<Rightarrow> string" where "write_u32 w = decimal (unat w)"
definition write_u64 :: "u64 \<Rightarrow> string" where "write_u64 w = decimal (unat w)"
definition write_array :: "hash \<Rightarrow> string" where "write_array h = hexutil_Encode (hash_bytes h)"

lemma read_write [simp]:
  "read_u32 (write_u32 w) = Ok w" "read_u64 (write_u64 v) = Ok v" "read_array (write_array h) = Ok h"
  "read_big e (int_String x) = Ok x"
  using unsigned_less[of w, where ?'a = nat] unsigned_less[of v, where ?'a = nat]
  by (simp_all add: read_u32_def write_u32_def read_u64_def write_u64_def read_array_def write_array_def read_big_def)

text \<open>A data store as the graph node writes it.\<close>

definition gql_of :: "GraphDataStore \<Rightarrow> string list \<Rightarrow> DataStoreGql" where
  "gql_of d keys = \<lparr>gq_Id = write_u32 (gd_StoreNumber d), gq_StoreNumber = write_u32 (gd_StoreNumber d),
     gq_DurationDataStoreId = write_u32 (gd_DurationDataStoreId d), gq_Index = write_u32 (gd_Index d),
     gq_DataCommitment = write_array (gd_DataCommitment d), gq_MsgHash = write_array (gd_MsgHash d),
     gq_ReferenceBlockNumber = write_u32 (gd_ReferenceBlockNumber d), gq_InitTime = write_u32 (gd_InitTime d),
     gq_ExpireTime = write_u32 (gd_ExpireTime d), gq_Duration = ucast (gd_Duration d),
     gq_NumSys = write_u32 (gd_NumSys d), gq_NumPar = write_u32 (gd_NumPar d), gq_Degree = write_u32 (gd_Degree d),
     gq_StorePeriodLength = write_u32 (gd_StorePeriodLength d), gq_Fee = int_String (gd_Fee d),
     gq_Confirmer = gd_Confirmer d, gq_Header = hexutil_Encode (gd_Header d),
     gq_InitTxHash = write_array (gd_InitTxHash d), gq_InitGasUsed = write_u64 (gd_InitGasUsed d),
     gq_InitBlockNumber = int_String (gd_InitBlockNumber d), gq_Confirmed = gd_Confirmed d,
     gq_EthSigned = int_String (gd_EthSigned d), gq_EigenSigned = int_String (gd_EigenSigned d),
     gq_NonSignerPubKeyHashes = keys, gq_SignatoryRecord = write_array (gd_SignatoryRecord d),
     gq_ConfirmTxHash = write_array (gd_ConfirmTxHash d), gq_ConfirmGasUsed = write_u64 (gd_ConfirmGasUsed d)\<rparr>"

lemma ucast_up_down_byte [simp]: "ucast (ucast (b :: byte) :: 32 word) = b"
  by transfer simp

lemma convert_gql_of:
  assumes "0 \<le> gd_InitBlockNumber d" "gd_InitBlockNumber d < 2 ^ 32"
  shows "DataStoreGql_Convert (gql_of d keys) = Ok (d\<lparr>gd_PubKeyHashes := replicate (length keys) 0\<rparr>)"
proof -
  have "int_String (gd_InitBlockNumber d) = decimal (nat (gd_InitBlockNumber d))" "nat (gd_InitBlockNumber d) < 2 ^ 32"
    using assms by (auto simp: int_String_def)
  then show ?thesis
    using assms(1) by (simp add: DataStoreGql_Convert_def gql_of_def pub_key_hashes_def map_replicate_const)
qed

text \<open>C32: Convert reads back every field of a data store from the text of the graph node, except for
  the key hashes of the operators that did not sign: it returns one zero hash for each of them.\<close>

theorem convert_roundtrip:
  assumes "0 \<le> gd_InitBlockNumber d" "gd_InitBlockNumber d < 2 ^ 32"
  shows "DataStoreGql_Convert (gql_of d keys) = Ok (d\<lparr>gd_PubKeyHashes := replicate (length keys) 0\<rparr>)"
  using assms by (rule convert_gql_of)

definition sample_store :: GraphDataStore where
  "sample_store = \<lparr>gd_StoreNumber = 7, gd_DurationDataStoreId = 8, gd_Index = 1, gd_DataCommitment = 11,
     gd_MsgHash = 12, gd_ReferenceBlockNumber = 100, gd_InitTime = 5, gd_ExpireTime = 50, gd_Duration = 1,
     gd_NumSys = 3, gd_NumPar = 4, gd_Degree = 9, gd_StorePeriodLength = 10, gd_Fee = 0, gd_Header = [1, 2],
     gd_InitTxHash = 13, gd_InitGasUsed = 21000, gd_InitBlockNumber = 99, gd_Confirmer = ''c'', gd_Confirmed = True,
     gd_EthSigned = 1000, gd_EigenSigned = 2000, gd_PubKeyHashes = [], gd_SignatoryRecord = 14,
     gd_ConfirmTxHash = 15, gd_ConfirmGasUsed = 30000\<rparr>"

theorem convert_roundtrip_witness:
  "DataStoreGql_Convert (gql_of sample_store [''key'']) = Ok (sample_store\<lparr>gd_PubKeyHashes := [0]\<rparr>)"
  using convert_roundtrip[of sample_store "[''key'']"] by (simp add: sample_store_def)

text \<open>A data store that has no confirmation yet is not readable: its signed stakes are empty.\<close>

lemma bindR_no_panic: "(\<And>p. r \<noteq> Panic p) \<Longrightarrow> (\<And>a p. f a \<noteq> Panic p) \<Longrightarrow> bindR r f \<noteq> Panic p"
  by (auto simp: bindR_eq_Panic)

lemma DecodeString_no_panic: "DecodeString s \<noteq> Panic p"
  by (induction s rule: DecodeString.induct) (auto simp: bindR_eq_Panic split: option.splits)

lemma hexutil_Decode_no_panic: "hexutil_Decode s \<noteq> Panic p"
  by (auto simp: hexutil_Decode_def DecodeString_no_panic split: list.splits)

lemma reads_no_panic:
  "ParseUint n s \<noteq> Panic p" "read_u32 s \<noteq> Panic p" "read_u64 s \<noteq> Panic p" "read_array s \<noteq> Panic p" "read_big e s \<noteq> Panic p"
  by (auto simp: read_u32_def read_u64_def read_array_def read_big_def ParseUint_def bindR_eq_Panic hexutil_Decode_no_panic
      split: option.splits if_splits)

lemma convert_no_panic: "DataStoreGql_Convert d \<noteq> Panic p"
  unfolding DataStoreGql_Convert_def
  by (intro bindR_no_panic reads_no_panic hexutil_Decode_no_panic) simp

lemma convert_unconfirmed: "gq_EthSigned d = [] \<Longrightarrow> DataStoreGql_Convert d \<noteq> Ok ds"
  by (simp add: DataStoreGql_Convert_def read_big_def SetString_def)

section \<open>The layout of a header\<close>

lemma SetBytes_word: "SetBytes (be_bytes n (uint (w :: 'a :: len word))) = uint w" if "LENGTH('a) = 8 * n"
proof -
  have "uint w < 2 ^ LENGTH('a)" by (rule uint_lt2p)
  also have "(2 :: int) ^ LENGTH('a) = 256 ^ n" unfolding that by (simp add: power_mult)
  finally show ?thesis by (intro SetBytes_be_bytes) auto
qed

lemma be_bytes_Nil [simp]: "be_bytes n x = [] \<longleftrightarrow> n = 0"
  by (cases n) auto

lemma read_bytes_be [simp]: "0 < n \<Longrightarrow> read_bytes n (be_bytes n x @ r) = Ok (SetBytes (be_bytes n x), r)"
  by (simp add: read_bytes_def)

lemma read_bytes_Ok: "read_bytes n b = Ok (v, r) \<Longrightarrow> length b = n + length r"
  by (auto simp: read_bytes_def split: if_splits)

lemma read_bytes_no_panic: "read_bytes n b \<noteq> Panic p"
  by (simp add: read_bytes_def)

lemma header_words:
  "SetBytes (be_bytes 64 (uint (k :: 512 word))) = uint k" "SetBytes (be_bytes 4 (uint (d :: 32 word))) = uint d"
  "SetBytes (be_bytes 20 (uint (a :: address))) = uint a"
  by (rule SetBytes_word; simp)+

lemma decode_header_length: "DecodeDataStoreHeader b = Ok h \<Longrightarrow> DataStoreHeaderLength \<le> length b"
  by (auto simp: DecodeDataStoreHeader_def DataStoreHeaderLength_def dest!: read_bytes_Ok)

lemma decode_header_no_panic: "DecodeDataStoreHeader b \<noteq> Panic p"
  unfolding DecodeDataStoreHeader_def
  by (auto simp: bindR_eq_Panic read_bytes_no_panic)

text \<open>Every header encodes to 164 bytes, decoding reads the header back and ignores bytes after it, and
  one byte less does not decode.\<close>

lemma data_store_header_roundtrip:
  "\<exists>b. DataStoreHeader_Encode h = Ok b \<and> length b = DataStoreHeaderLength \<and> DecodeDataStoreHeader (b @ rest) = Ok h
     \<and> (\<exists>e. DecodeDataStoreHeader (take (DataStoreHeaderLength - 1) b) = Err e)"
proof -
  let ?b = "be_bytes 64 (uint (dh_KzgCommit h)) @ be_bytes 4 (uint (dh_Degree h)) @ be_bytes 4 (uint (dh_NumSys h))
      @ be_bytes 4 (uint (dh_NumPar h)) @ be_bytes 4 (uint (dh_OrigDataSize h)) @ be_bytes 20 (uint (dh_Disperser h))
      @ be_bytes 64 (uint (dh_LowDegreeProof h))"
  have len: "length ?b = DataStoreHeaderLength" by (simp add: DataStoreHeaderLength_def)
  then have "DataStoreHeader_Encode h = Ok ?b" by (simp add: DataStoreHeader_Encode_def)
  moreover have "DecodeDataStoreHeader (?b @ rest) = Ok h"
    by (simp add: DecodeDataStoreHeader_def header_words del: be_bytes.simps)
  moreover have "DecodeDataStoreHeader (take (DataStoreHeaderLength - 1) ?b) \<noteq> Ok h'" for h'
    using decode_header_length[of "take (DataStoreHeaderLength - 1) ?b" h'] len by (auto simp: DataStoreHeaderLength_def)
  then have "\<exists>e. DecodeDataStoreHeader (take (DataStoreHeaderLength - 1) ?b) = Err e"
    using decode_header_no_panic by (cases "DecodeDataStoreHeader (take (DataStoreHeaderLength - 1) ?b)") auto
  ultimately show ?thesis using len by blast
qed

end
