(* ===== verification/Gorm.thy ===== *)
theory Gorm
  imports Prelude "HOL-Library.Multiset"
begin

text \<open>
  The statements the program sends to its database through gorm.  gorm and PostgreSQL are not part
  of the repository: \<open>'r gorm\<close> is the record of the statements the program uses on a table of rows
  of type 'r, a parameter of every definition that touches a table, and \<open>gorm_ok\<close> states the
  documented behaviour that theorems about table contents rely on.  A table is the list of its
  rows; the order of the list has no meaning to the statements, except that Create adds at its end.
  \<open>mem_gorm\<close> is an in-memory table, used to evaluate the model on concrete inputs.
\<close>

record 'r gorm =
  g_take :: "('r \<Rightarrow> bool) \<Rightarrow> 'r list \<Rightarrow> 'r result"                        \<comment> \<open>Where(c).Take(&r)\<close>
  g_take_desc :: "('r \<Rightarrow> bool) \<Rightarrow> ('r \<Rightarrow> int) \<Rightarrow> 'r list \<Rightarrow> 'r result"    \<comment> \<open>Where(c).Order(k DESC).Take(&r)\<close>
  g_find :: "('r \<Rightarrow> bool) \<Rightarrow> 'r list \<Rightarrow> 'r list result"                   \<comment> \<open>Where(c).Find(&rs)\<close>
  g_find_asc :: "('r \<Rightarrow> bool) \<Rightarrow> ('r \<Rightarrow> int) \<Rightarrow> 'r list \<Rightarrow> 'r list result" \<comment> \<open>Where(c).Order(k ASC).Find(&rs)\<close>
  g_create :: "'r list \<Rightarrow> 'r list \<Rightarrow> unit result \<times> 'r list"             \<comment> \<open>CreateInBatches(&rs, n)\<close>
  g_save :: "'r \<Rightarrow> 'r list \<Rightarrow> unit result \<times> 'r list"                    \<comment> \<open>Save(&r)\<close>
  g_updates :: "('r \<Rightarrow> bool) \<Rightarrow> ('r \<Rightarrow> 'r) \<Rightarrow> 'r list \<Rightarrow> unit result \<times> 'r list"  \<comment> \<open>Where(c).Updates(m)\<close>
  g_count :: "('r \<Rightarrow> bool) \<Rightarrow> 'r list \<Rightarrow> int result"                    \<comment> \<open>Where(c).Count(&n)\<close>
  g_page :: "('r \<Rightarrow> bool) \<Rightarrow> bool \<Rightarrow> ('r \<Rightarrow> int) \<Rightarrow> int \<Rightarrow> int \<Rightarrow> 'r list \<Rightarrow> 'r list result"
    \<comment> \<open>Where(c).Offset(o).Limit(n).Order(k).Find(&rs), ascending or descending\<close>

text \<open>Save writes the row with the same primary key, or inserts it when there is none.\<close>

definition upsert :: "('r \<Rightarrow> 'k) \<Rightarrow> 'r \<Rightarrow> 'r list \<Rightarrow> 'r list" where
  "upsert key r t = (if \<exists>x \<in> set t. key x = key r then map (\<lambda>x. if key x = key r then r else x) t
                     else t @ [r])"

definition take_ok :: "('r \<Rightarrow> bool) \<Rightarrow> 'r list \<Rightarrow> 'r result \<Rightarrow> bool" where
  "take_ok P t res = (case res of
       Ok r \<Rightarrow> r \<in> set t \<and> P r
     | Err e \<Rightarrow> errors_Is e RecordNotFound \<longrightarrow> (\<forall>r \<in> set t. \<not> P r)
     | Panic p \<Rightarrow> False)"

fun create_ok :: "'r list \<Rightarrow> 'r list \<Rightarrow> unit result \<times> 'r list \<Rightarrow> bool" where
  "create_ok rs t (Ok u, t') = (t' = t @ rs)"
| "create_ok rs t (Err e, t') = (\<exists>n \<le> length rs. t' = t @ take n rs)"
| "create_ok rs t (Panic p, t') = False"

fun save_ok :: "('r \<Rightarrow> 'k) \<Rightarrow> 'r \<Rightarrow> 'r list \<Rightarrow> unit result \<times> 'r list \<Rightarrow> bool" where
  "save_ok key r t (Ok u, t') = (t' = upsert key r t)"
| "save_ok key r t (Err e, t') = (t' = t)"
| "save_ok key r t (Panic p, t') = False"

fun updates_ok :: "('r \<Rightarrow> bool) \<Rightarrow> ('r \<Rightarrow> 'r) \<Rightarrow> 'r list \<Rightarrow> unit result \<times> 'r list \<Rightarrow> bool" where
  "updates_ok P f t (Ok u, t') = (t' = map (\<lambda>r. if P r then f r else r) t)"
| "updates_ok P f t (Err e, t') = (t' = t \<and> \<not> errors_Is e RecordNotFound)"
| "updates_ok P f t (Panic p, t') = False"

fun count_ok :: "('r \<Rightarrow> bool) \<Rightarrow> 'r list \<Rightarrow> int result \<Rightarrow> bool" where
  "count_ok P t (Ok n) = (n = int (length (filter P t)))"
| "count_ok P t (Err e) = True"
| "count_ok P t (Panic p) = False"

fun page_ok :: "('r \<Rightarrow> bool) \<Rightarrow> bool \<Rightarrow> ('r \<Rightarrow> int) \<Rightarrow> int \<Rightarrow> int \<Rightarrow> 'r list \<Rightarrow> 'r list result \<Rightarrow> bool" where
  "page_ok P asc k off lim t (Ok rs) =
     (0 \<le> off \<longrightarrow> 0 < lim \<longrightarrow> (\<exists>ys. mset ys = mset (filter P t) \<and>
        sorted (map (if asc then k else (\<lambda>r. - k r)) ys) \<and> rs = take (nat lim) (drop (nat off) ys)))"
| "page_ok P asc k off lim t (Err e) = True"
| "page_ok P asc k off lim t (Panic p) = False"

definition take_desc_ok :: "('r \<Rightarrow> bool) \<Rightarrow> ('r \<Rightarrow> int) \<Rightarrow> 'r list \<Rightarrow> 'r result \<Rightarrow> bool" where
  "take_desc_ok P k t res = (take_ok P t res \<and>
     (case res of Ok r \<Rightarrow> (\<forall>x \<in> set t. P x \<longrightarrow> k x \<le> k r) | Err e \<Rightarrow> True | Panic p \<Rightarrow> False))"

text \<open>Find reports ErrRecordNotFound in no case: no row is an empty list.\<close>

fun find_ok :: "('r \<Rightarrow> bool) \<Rightarrow> 'r list \<Rightarrow> 'r list result \<Rightarrow> bool" where
  "find_ok P t (Ok rs) = (mset rs = mset (filter P t))"
| "find_ok P t (Err e) = (\<not> errors_Is e RecordNotFound)"
| "find_ok P t (Panic p) = False"

fun find_asc_ok :: "('r \<Rightarrow> bool) \<Rightarrow> ('r \<Rightarrow> int) \<Rightarrow> 'r list \<Rightarrow> 'r list result \<Rightarrow> bool" where
  "find_asc_ok P k t (Ok rs) = (mset rs = mset (filter P t) \<and> sorted (map k rs))"
| "find_asc_ok P k t (Err e) = (\<not> errors_Is e RecordNotFound)"
| "find_asc_ok P k t (Panic p) = False"

definition gorm_ok :: "('r \<Rightarrow> 'k) \<Rightarrow> 'r gorm \<Rightarrow> bool" where
  "gorm_ok key G =
     ((\<forall>P t. take_ok P t (g_take G P t)) \<and>
      (\<forall>P k t. take_desc_ok P k t (g_take_desc G P k t)) \<and>
      (\<forall>P t. find_ok P t (g_find G P t)) \<and>
      (\<forall>P k t. find_asc_ok P k t (g_find_asc G P k t)) \<and>
      (\<forall>rs t. create_ok rs t (g_create G rs t)) \<and>
      (\<forall>r t. save_ok key r t (g_save G r t)) \<and>
      (\<forall>P f t. updates_ok P f t (g_updates G P f t)) \<and>
      (\<forall>P t. count_ok P t (g_count G P t)) \<and>
      (\<forall>P asc k off lim t. page_ok P asc k off lim t (g_page G P asc k off lim t)))"

lemma gorm_okD:
  assumes "gorm_ok key G"
  shows "take_ok P t (g_take G P t)" and "take_desc_ok P k t (g_take_desc G P k t)"
    and "find_ok P t (g_find G P t)" and "find_asc_ok P k t (g_find_asc G P k t)"
    and "create_ok rs t (g_create G rs t)" and "save_ok key r t (g_save G r t)"
    and "updates_ok P f t (g_updates G P f t)" and "count_ok P t (g_count G P t)"
    and "page_ok P asc k off lim t (g_page G P asc k off lim t)"
  using assms by (simp_all add: gorm_ok_def)

section \<open>A table in memory\<close>

fun first_match :: "('r \<Rightarrow> bool) \<Rightarrow> 'r list \<Rightarrow> 'r result" where
  "first_match P [] = Err RecordNotFound"
| "first_match P (r # t) = (if P r then Ok r else first_match P t)"

definition mem_gorm :: "('r \<Rightarrow> 'k) \<Rightarrow> 'r gorm" where
  "mem_gorm key =
     \<lparr>g_take = first_match,
      g_take_desc = (\<lambda>P k t. first_match P (rev (sort_key k t))),
      g_find = (\<lambda>P t. Ok (filter P t)),
      g_find_asc = (\<lambda>P k t. Ok (sort_key k (filter P t))),
      g_create = (\<lambda>rs t. (Ok (), t @ rs)),
      g_save = (\<lambda>r t. (Ok (), upsert key r t)),
      g_updates = (\<lambda>P f t. (Ok (), map (\<lambda>r. if P r then f r else r) t)),
      g_count = (\<lambda>P t. Ok (int (length (filter P t)))),
      g_page = (\<lambda>P asc k off lim t. Ok (take (nat lim) (drop (nat off)
        (sort_key (if asc then k else (\<lambda>r. - k r)) (filter P t)))))\<rparr>"

lemma mem_gorm_simps [simp]:
  "g_take (mem_gorm key) = first_match"
  "g_take_desc (mem_gorm key) P k t = first_match P (rev (sort_key k t))"
  "g_find (mem_gorm key) P t = Ok (filter P t)"
  "g_find_asc (mem_gorm key) P k t = Ok (sort_key k (filter P t))"
  "g_create (mem_gorm key) rs t = (Ok (), t @ rs)"
  "g_save (mem_gorm key) r t = (Ok (), upsert key r t)"
  "g_updates (mem_gorm key) P f t = (Ok (), map (\<lambda>r. if P r then f r else r) t)"
  "g_count (mem_gorm key) P t = Ok (int (length (filter P t)))"
  "g_page (mem_gorm key) P asc k off lim t = Ok (take (nat lim) (drop (nat off)
        (sort_key (if asc then k else (\<lambda>r. - k r)) (filter P t))))"
  by (simp_all add: mem_gorm_def)

lemma first_match_Ok: "first_match P t = Ok r \<Longrightarrow> r \<in> set t \<and> P r"
  by (induction t) (auto split: if_splits)

lemma first_match_Err: "first_match P t = Err e \<Longrightarrow> e = RecordNotFound \<and> (\<forall>r \<in> set t. \<not> P r)"
  by (induction t) (auto split: if_splits)

lemma first_match_Panic: "first_match P t \<noteq> Panic p"
  by (induction t) auto

lemma first_match_take_ok: "set t' = set t \<Longrightarrow> take_ok P t (first_match P t')"
  unfolding take_ok_def
  by (cases "first_match P t'") (auto dest: first_match_Ok first_match_Err simp: first_match_Panic)

lemma first_match_desc:
  "first_match P (rev t) = Ok r \<Longrightarrow> sorted (map k t) \<Longrightarrow> x \<in> set t \<Longrightarrow> P x \<Longrightarrow> k x \<le> k r"
proof (induction t rule: rev_induct)
  case Nil
  then show ?case by simp
next
  case (snoc y t)
  then show ?case by (auto simp: sorted_append split: if_splits dest: first_match_Ok)
qed

lemma mem_gorm_ok: "gorm_ok key (mem_gorm key)"
proof -
  have "take_desc_ok P k t (first_match P (rev (sort_key k t)))" for P t and k :: "_ \<Rightarrow> int"
  proof -
    have "take_ok P t (first_match P (rev (sort_key k t)))" by (rule first_match_take_ok) simp
    moreover have "k x \<le> k r" if "first_match P (rev (sort_key k t)) = Ok r" "x \<in> set t" "P x" for r x
      using first_match_desc[OF that(1), of k x] that(2,3) by simp
    ultimately show ?thesis
      by (cases "first_match P (rev (sort_key k t))") (auto simp: take_desc_ok_def first_match_Panic)
  qed
  moreover have "page_ok P asc k off lim t (Ok (take (nat lim) (drop (nat off)
        (sort_key (if asc then k else (\<lambda>r. - k r)) (filter P t)))))" for P asc k off lim and t :: "'a list"
    unfolding page_ok.simps by (intro impI exI conjI) (auto intro: sorted_sort_key)
  ultimately show ?thesis
    by (auto simp: gorm_ok_def first_match_take_ok simp del: page_ok.simps)
qed

text \<open>The common shape of a query: a missing row is a nil result without an error.\<close>

definition nil_if_not_found :: "'r result \<Rightarrow> 'r option result" where
  "nil_if_not_found res = (case res of
       Ok r \<Rightarrow> Ok (Some r)
     | Err e \<Rightarrow> if errors_Is e RecordNotFound then Ok None else Err e
     | Panic p \<Rightarrow> Panic p)"

definition empty_if_not_found :: "'r list result \<Rightarrow> 'r list result" where
  "empty_if_not_found res = (case res of
       Ok rs \<Rightarrow> Ok rs
     | Err e \<Rightarrow> if errors_Is e RecordNotFound then Ok [] else Err e
     | Panic p \<Rightarrow> Panic p)"

section \<open>What the statements promise\<close>

lemma gorm_take:
  assumes "gorm_ok key G"
  shows "g_take G P t = Ok r \<Longrightarrow> r \<in> set t \<and> P r"
    and "g_take G P t = Err e \<Longrightarrow> errors_Is e RecordNotFound \<Longrightarrow> \<forall>r \<in> set t. \<not> P r"
    and "g_take G P t \<noteq> Panic p"
  using gorm_okD(1)[OF assms, of P t] by (auto simp: take_ok_def split: result.splits)

lemma gorm_take_desc:
  assumes "gorm_ok key G"
  shows "g_take_desc G P k t = Ok r \<Longrightarrow> r \<in> set t \<and> P r \<and> (\<forall>x \<in> set t. P x \<longrightarrow> k x \<le> k r)"
    and "g_take_desc G P k t = Err e \<Longrightarrow> errors_Is e RecordNotFound \<Longrightarrow> \<forall>r \<in> set t. \<not> P r"
    and "g_take_desc G P k t \<noteq> Panic p"
  using gorm_okD(2)[OF assms, of P k t] by (auto simp: take_desc_ok_def take_ok_def split: result.splits)

lemma gorm_find:
  assumes "gorm_ok key G"
  shows "g_find G P t = Ok rs \<Longrightarrow> mset rs = mset (filter P t)" and "g_find G P t \<noteq> Panic p"
  using gorm_okD(3)[OF assms, of P t] by auto

lemma gorm_find_set:
  "gorm_ok key G \<Longrightarrow> g_find G P t = Ok rs \<Longrightarrow> set rs = {r \<in> set t. P r}"
  using gorm_find(1)[of key G P t rs] by (metis mset_eq_setD set_filter)

lemma gorm_find_asc:
  assumes "gorm_ok key G"
  shows "g_find_asc G P k t = Ok rs \<Longrightarrow> mset rs = mset (filter P t)"
    and "g_find_asc G P k t = Ok rs \<Longrightarrow> sorted (map k rs)"
    and "g_find_asc G P k t \<noteq> Panic p"
    and "empty_if_not_found (g_find_asc G P k t) = Ok rs \<longleftrightarrow> g_find_asc G P k t = Ok rs"
  using gorm_okD(4)[OF assms, of P k t]
  by (auto simp: empty_if_not_found_def split: result.splits)

lemma gorm_find_asc_set:
  "gorm_ok key G \<Longrightarrow> g_find_asc G P k t = Ok rs \<Longrightarrow> set rs = {r \<in> set t. P r}"
  using gorm_find_asc(1)[of key G P k t rs] by (metis mset_eq_setD set_filter)

lemma gorm_create:
  assumes "gorm_ok key G"
  shows "g_create G rs t = (Ok u, t') \<Longrightarrow> t' = t @ rs"
    and "g_create G rs t = (Err e, t') \<Longrightarrow> \<exists>n \<le> length rs. t' = t @ take n rs"
    and "g_create G rs t \<noteq> (Panic p, t')"
  using gorm_okD(5)[OF assms, of rs t] by auto

lemma gorm_save:
  assumes "gorm_ok key G"
  shows "g_save G r t = (Ok u, t') \<Longrightarrow> t' = upsert key r t"
    and "g_save G r t = (Err e, t') \<Longrightarrow> t' = t"
    and "g_save G r t \<noteq> (Panic p, t')"
  using gorm_okD(6)[OF assms, of r t] by auto

lemma gorm_updates:
  assumes "gorm_ok key G"
  shows "g_updates G P f t = (Ok u, t') \<Longrightarrow> t' = map (\<lambda>r. if P r then f r else r) t"
    and "g_updates G P f t = (Err e, t') \<Longrightarrow> t' = t \<and> \<not> errors_Is e RecordNotFound"
    and "g_updates G P f t \<noteq> (Panic p, t')"
  using gorm_okD(7)[OF assms, of P f t] by auto

lemma gorm_count:
  assumes "gorm_ok key G"
  shows "g_count G P t = Ok n \<Longrightarrow> n = int (length (filter P t))" and "g_count G P t \<noteq> Panic p"
  using gorm_okD(8)[OF assms, of P t] by auto

lemma gorm_page:
  assumes "gorm_ok key G" "g_page G P asc k off lim t = Ok rs" "0 \<le> off" "0 < lim"
  shows "\<exists>ys. mset ys = mset (filter P t) \<and> sorted (map (if asc then k else (\<lambda>r. - k r)) ys)
           \<and> rs = take (nat lim) (drop (nat off) ys)"
  using gorm_okD(9)[OF assms(1), of P asc k off lim t] assms(2-4) by simp

lemma upsert_same: "r \<in> set t \<Longrightarrow> key x = key r \<Longrightarrow> upsert key x t = map (\<lambda>y. if key y = key x then x else y) t"
  by (auto simp: upsert_def)

text \<open>A gorm struct condition: Where(&R{F: v}) compares the column of F with v, unless v is the zero
  value of its type, which gorm leaves out of the condition.\<close>

definition where_field :: "'v::zero \<Rightarrow> 'v \<Rightarrow> bool" where
  "where_field v actual = (v = 0 \<or> actual = v)"

lemma nil_if_not_found_Ok [simp]: "nil_if_not_found (Ok r) = Ok (Some r)"
  by (simp add: nil_if_not_found_def)

lemma nil_if_not_found_Some: "nil_if_not_found res = Ok (Some r) \<longleftrightarrow> res = Ok r"
  by (auto simp: nil_if_not_found_def split: result.splits)

lemma nil_if_not_found_None:
  "nil_if_not_found res = Ok None \<longleftrightarrow> (\<exists>e. res = Err e \<and> errors_Is e RecordNotFound)"
  by (auto simp: nil_if_not_found_def split: result.splits)

section \<open>Tables inside the database\<close>

text \<open>An operation on one table, as an operation on the whole database: \<open>get\<close> and \<open>upd\<close> are the
  record's selector and update for that table.\<close>

definition zoomG :: "('s \<Rightarrow> 't) \<Rightarrow> (('t \<Rightarrow> 't) \<Rightarrow> 's \<Rightarrow> 's) \<Rightarrow> ('t, 'a) go \<Rightarrow> ('s, 'a) go" where
  "zoomG get upd m s = (fst (m (get s)), upd (\<lambda>_. snd (m (get s))) s)"

lemma zoom_Ok: "zoomG get upd m s = (Ok u, s') \<Longrightarrow> m (get s) = (Ok u, snd (m (get s))) \<and> s' = upd (\<lambda>_. snd (m (get s))) s"
  by (auto simp: zoomG_def prod_eq_iff)

lemma zoom_create_Ok:
  assumes "gorm_ok key G" "zoomG get upd (g_create G rs) s = (Ok u, s')"
  shows "s' = upd (\<lambda>_. get s @ rs) s"
  using zoom_Ok[OF assms(2)] gorm_create(1)[OF assms(1), of rs "get s"] by auto

lemma zoom_create_no_panic:
  assumes "gorm_ok key G"
  shows "fst (zoomG get upd (g_create G rs) s) \<noteq> Panic p"
  using gorm_create(3)[OF assms, of rs "get s" p] by (auto simp: zoomG_def prod_eq_iff)

lemma zoom_updates_Ok:
  assumes "gorm_ok key G" "zoomG get upd (g_updates G P f) s = (Ok u, s')"
  shows "s' = upd (\<lambda>_. map (\<lambda>r. if P r then f r else r) (get s)) s"
  using zoom_Ok[OF assms(2)] gorm_updates(1)[OF assms(1), of P f "get s"] by auto

text \<open>gorm.DB.Transaction: an error or a panic of the function rolls the state back, and so does a
  commit that fails.  It is a parameter; \<open>transaction_ok\<close> is its documented behaviour, and
  \<open>mem_transaction\<close> an instance whose commits never fail.\<close>

type_synonym 's transaction_fn = "('s, unit) go \<Rightarrow> ('s, unit) go"

fun tx_result_ok :: "unit result \<times> 's \<Rightarrow> 's \<Rightarrow> unit result \<times> 's \<Rightarrow> bool" where
  "tx_result_ok (Ok u, s') s res = (res = (Ok (), s') \<or> (\<exists>e. res = (Err e, s)))"
| "tx_result_ok (Err e, s') s res = (\<exists>e'. res = (Err e', s) \<and> errors_Is e' e)"
| "tx_result_ok (Panic p, s') s res = (res = (Panic p, s))"

definition transaction_ok :: "'s transaction_fn \<Rightarrow> bool" where
  "transaction_ok tx = (\<forall>f s. tx_result_ok (f s) s (tx f s))"

definition mem_transaction :: "'s transaction_fn" where
  "mem_transaction f s = (case f s of (Ok u, s') \<Rightarrow> (Ok (), s') | (Err e, s') \<Rightarrow> (Err e, s)
                          | (Panic p, s') \<Rightarrow> (Panic p, s))"

lemma errors_Is_refl [simp]: "errors_Is e e"
  by (cases e) auto

lemma mem_transaction_ok: "transaction_ok mem_transaction"
  unfolding transaction_ok_def mem_transaction_def
  by (auto split: prod.splits result.splits)

lemma transaction_cases:
  assumes "transaction_ok tx"
  shows "(tx f s = (Ok (), snd (f s)) \<and> fst (f s) = Ok ()) \<or> (\<exists>e. tx f s = (Err e, s)) \<or>
         (\<exists>p. tx f s = (Panic p, s) \<and> fst (f s) = Panic p)"
proof -
  obtain r t where f: "f s = (r, t)" by (cases "f s") auto
  have "tx_result_ok (f s) s (tx f s)"
    using assms unfolding transaction_ok_def by blast
  then show ?thesis using f by (cases r) auto
qed

lemma transaction_Ok:
  assumes "transaction_ok tx" "tx f s = (Ok (), s')"
  shows "f s = (Ok (), s')"
  using transaction_cases[OF assms(1), of f s] assms(2) by (cases "f s") auto

lemma transaction_Err:
  assumes "transaction_ok tx" "tx f s = (Err e, s')"
  shows "s' = s"
  using transaction_cases[OF assms(1), of f s] assms(2) by auto

lemma transaction_not_Ok:
  assumes "transaction_ok tx" "tx f s = (r, s')" "r \<noteq> Ok ()"
  shows "s' = s"
  using transaction_cases[OF assms(1), of f s] assms(2,3) by auto

end
