(* ===== verification/Model.thy ===== *)
theory Model
  imports Chain Gorm
begin

text \<open>
  The rows of the database (database/common, database/event, database/business, database/exporter,
  database/v1): one record per table, with all the columns of the Go struct, the state \<open>db\<close> of all
  tables together, and the record \<open>gorms\<close> of the statement parameters, one per table.  A nullable
  big.Int column is an int option; int64 and uint64 columns are int and u64.
\<close>

record BlockHeader =
  bh_Hash :: hash
  bh_ParentHash :: hash
  bh_Number :: int
  bh_Timestamp :: u64
  bh_RLPHeader :: header

record Transactions =
  ts_GUID :: uuid
  ts_BlockHash :: hash
  ts_BlockNumber :: "int option"
  ts_FromAddress :: address
  ts_ToAddress :: address
  ts_Gas :: int
  ts_GasPrice :: int
  ts_TransactionHash :: hash
  ts_InputData :: bytes
  ts_MaxFeePerGas :: int
  ts_MaxPriorityFeePerGas :: "int option"
  ts_GasUsed :: int
  ts_CumulativeGasUsed :: int
  ts_EffectiveGasPrice :: "int option"
  ts_L1Fee :: "int option"
  ts_L1GasUsed :: "int option"
  ts_L1GasPrice :: "int option"
  ts_Nonce :: int
  ts_TransactionIndex :: int
  ts_TxType :: int
  ts_R :: "int option"
  ts_S :: "int option"
  ts_V :: "int option"
  ts_Status :: int
  ts_ContractAddress :: address
  ts_Amount :: int
  ts_YParity :: "int option"
  ts_Timestamp :: u64

record ContractEvent =
  ce_GUID :: uuid
  ce_BlockHash :: hash
  ce_ContractAddress :: address
  ce_TransactionHash :: hash
  ce_LogIndex :: u64
  ce_EventSignature :: hash
  ce_Timestamp :: u64
  ce_RLPLog :: log

record WithdrawProven =
  wp_GUID :: uuid
  wp_BlockNumber :: "int option"
  wp_WithdrawHash :: hash
  wp_MessageHash :: hash
  wp_ProvenTransactionHash :: hash
  wp_L1TokenAddress :: address
  wp_L2TokenAddress :: address
  wp_ETHAmount :: "int option"
  wp_ERC20Amount :: "int option"
  wp_Related :: bool
  wp_Timestamp :: u64

record WithdrawFinalized =
  wf_GUID :: uuid
  wf_BlockNumber :: "int option"
  wf_WithdrawHash :: hash
  wf_MessageHash :: hash
  wf_FinalizedTransactionHash :: hash
  wf_L1TokenAddress :: address
  wf_L2TokenAddress :: address
  wf_ETHAmount :: "int option"
  wf_ERC20Amount :: "int option"
  wf_Related :: bool
  wf_Timestamp :: u64

record RelayMessage =
  rm_GUID :: uuid
  rm_BlockNumber :: "int option"
  rm_DepositHash :: hash
  rm_RelayTransactionHash :: hash
  rm_MessageHash :: hash
  rm_L1TokenAddress :: address
  rm_L2TokenAddress :: address
  rm_ETHAmount :: "int option"
  rm_ERC20Amount :: "int option"
  rm_Related :: bool
  rm_Timestamp :: u64

record DataStoreEvent =
  de_GUID :: uuid
  de_DataStoreId :: u64
  de_BlockHash :: hash
  de_Timestamp :: u64

record L1ToL2 =
  l12_GUID :: uuid
  l12_L1BlockNumber :: "int option"
  l12_L2BlockNumber :: "int option"
  l12_QueueIndex :: "int option"
  l12_L1TransactionHash :: hash
  l12_L2TransactionHash :: hash
  l12_TransactionSourceHash :: hash
  l12_MessageHash :: hash
  l12_L1TxOrigin :: address
  l12_Status :: int
  l12_FromAddress :: address
  l12_ToAddress :: address
  l12_L1TokenAddress :: address
  l12_L2TokenAddress :: address
  l12_ETHAmount :: "int option"
  l12_ERC20Amount :: "int option"
  l12_GasLimit :: "int option"
  l12_Version :: int
  l12_Timestamp :: int

record L2ToL1 =
  l21_GUID :: uuid
  l21_L1BlockNumber :: "int option"
  l21_L2BlockNumber :: "int option"
  l21_MsgNonce :: "int option"
  l21_L2TransactionHash :: hash
  l21_WithdrawTransactionHash :: hash
  l21_L1ProveTxHash :: hash
  l21_L1FinalizeTxHash :: hash
  l21_MessageHash :: hash
  l21_Status :: int
  l21_FromAddress :: address
  l21_ETHAmount :: "int option"
  l21_ERC20Amount :: "int option"
  l21_GasLimit :: "int option"
  l21_TimeLeft :: "int option"
  l21_ToAddress :: address
  l21_L1TokenAddress :: address
  l21_L2TokenAddress :: address
  l21_Version :: int
  l21_Timestamp :: int

record StateRoot =
  sr_GUID :: uuid
  sr_BlockHash :: hash
  sr_TransactionHash :: hash
  sr_L1BlockNumber :: "int option"
  sr_L2BlockNumber :: "int option"
  sr_OutputIndex :: "int option"
  sr_PrevTotalElements :: "int option"
  sr_Status :: int
  sr_OutputRoot :: string
  sr_Canonical :: bool
  sr_BatchSize :: "int option"
  sr_Timestamp :: u64
  sr_BlockSize :: u64

record DataStore =
  ds_GUID :: uuid
  ds_DataStoreId :: u64
  ds_DurationDataStoreId :: u64
  ds_DataInitHash :: hash
  ds_DataConfirmHash :: hash
  ds_FromStoreNumber :: "int option"
  ds_StakeFromBlockNumber :: "int option"
  ds_InitGasUsed :: "int option"
  ds_InitBlockNumber :: "int option"
  ds_ConfirmGasUsed :: "int option"
  ds_DataHash :: string
  ds_EthSign :: string
  ds_MantleSign :: string
  ds_SignatoryRecord :: string
  ds_InitTime :: u64
  ds_ExpireTime :: u64
  ds_NumSys :: "32 word"
  ds_NumPar :: "32 word"
  ds_LowDegree :: string
  ds_Status :: bool
  ds_Confirmer :: string
  ds_Header :: string
  ds_DataCommitment :: string
  ds_Timestamp :: u64
  ds_DataSize :: "int option"

record DataStoreBlock =
  db_GUID :: uuid
  db_DataStoreID :: u64
  db_BlockData :: hash
  db_L2TxHash :: hash
  db_L2BlockNumber :: "int option"
  db_Canonical :: bool
  db_Timestamp :: u64

record L2SentMessageEvent =
  sm_GUID :: uuid
  sm_TxHash :: hash
  sm_BlockNumber :: "int option"
  sm_Target :: address
  sm_Sender :: address
  sm_Message :: string
  sm_MessageNonce :: "int option"
  sm_GasLimit :: "int option"
  sm_Signature :: hash
  sm_L1Token :: address
  sm_L2Token :: address
  sm_FromAddress :: address
  sm_ToAddress :: address
  sm_Value :: "int option"
  sm_Timestamp :: u64

text \<open>The rows of the tables bridge_checkpoints and token_lists; their primary key is a number that the
  database draws when the row is created.\<close>

record BridgeCheckpoint =
  bc_ID :: u64
  bc_SnapshotTime :: int
  bc_L1Number :: u64
  bc_L1TokenAddress :: string
  bc_L2Number :: u64
  bc_L2TokenAddress :: string
  bc_L1BridgeBalance :: string
  bc_TotalSupply :: string
  bc_Checked :: bool
  bc_Status :: int

record TokenList =
  tk_ID :: u64
  tk_ChainID :: u64
  tk_Address :: string
  tk_Name :: string
  tk_Symbol :: string
  tk_Decimals :: u64
  tk_Timestamp :: u64

text \<open>The zero values of the rows that are built field by field: a composite literal that leaves a
  field out leaves it zero, and a pointer nil.\<close>

definition zero_L1ToL2 :: L1ToL2 where
  "zero_L1ToL2 = \<lparr>l12_GUID = 0, l12_L1BlockNumber = None, l12_L2BlockNumber = None, l12_QueueIndex = None,
     l12_L1TransactionHash = 0, l12_L2TransactionHash = 0, l12_TransactionSourceHash = 0, l12_MessageHash = 0,
     l12_L1TxOrigin = 0, l12_Status = 0, l12_FromAddress = 0, l12_ToAddress = 0, l12_L1TokenAddress = 0,
     l12_L2TokenAddress = 0, l12_ETHAmount = None, l12_ERC20Amount = None, l12_GasLimit = None,
     l12_Version = 0, l12_Timestamp = 0\<rparr>"

definition zero_L2ToL1 :: L2ToL1 where
  "zero_L2ToL1 = \<lparr>l21_GUID = 0, l21_L1BlockNumber = None, l21_L2BlockNumber = None, l21_MsgNonce = None,
     l21_L2TransactionHash = 0, l21_WithdrawTransactionHash = 0, l21_L1ProveTxHash = 0,
     l21_L1FinalizeTxHash = 0, l21_MessageHash = 0, l21_Status = 0, l21_FromAddress = 0, l21_ETHAmount = None,
     l21_ERC20Amount = None, l21_GasLimit = None, l21_TimeLeft = None, l21_ToAddress = 0,
     l21_L1TokenAddress = 0, l21_L2TokenAddress = 0, l21_Version = 0, l21_Timestamp = 0\<rparr>"

definition zero_WithdrawProven :: WithdrawProven where
  "zero_WithdrawProven = \<lparr>wp_GUID = 0, wp_BlockNumber = None, wp_WithdrawHash = 0, wp_MessageHash = 0,
     wp_ProvenTransactionHash = 0, wp_L1TokenAddress = 0, wp_L2TokenAddress = 0, wp_ETHAmount = None,
     wp_ERC20Amount = None, wp_Related = False, wp_Timestamp = 0\<rparr>"

definition zero_WithdrawFinalized :: WithdrawFinalized where
  "zero_WithdrawFinalized = \<lparr>wf_GUID = 0, wf_BlockNumber = None, wf_WithdrawHash = 0, wf_MessageHash = 0,
     wf_FinalizedTransactionHash = 0, wf_L1TokenAddress = 0, wf_L2TokenAddress = 0, wf_ETHAmount = None,
     wf_ERC20Amount = None, wf_Related = False, wf_Timestamp = 0\<rparr>"

definition zero_RelayMessage :: RelayMessage where
  "zero_RelayMessage = \<lparr>rm_GUID = 0, rm_BlockNumber = None, rm_DepositHash = 0, rm_RelayTransactionHash = 0,
     rm_MessageHash = 0, rm_L1TokenAddress = 0, rm_L2TokenAddress = 0, rm_ETHAmount = None,
     rm_ERC20Amount = None, rm_Related = False, rm_Timestamp = 0\<rparr>"

section \<open>The database\<close>

record db =
  l1_block_headers :: "BlockHeader list"
  l2_block_headers :: "BlockHeader list"
  transactions :: "Transactions list"
  l1_contract_events :: "ContractEvent list"
  l2_contract_events :: "ContractEvent list"
  withdraw_proven :: "WithdrawProven list"
  withdraw_finalized :: "WithdrawFinalized list"
  relay_message :: "RelayMessage list"
  data_store_event :: "DataStoreEvent list"
  l1_to_l2 :: "L1ToL2 list"
  l2_to_l1 :: "L2ToL1 list"
  state_root :: "StateRoot list"
  data_store :: "DataStore list"
  data_store_block :: "DataStoreBlock list"
  l2_sent_message_events :: "L2SentMessageEvent list"
  bridge_checkpoints :: "BridgeCheckpoint list"
  token_lists :: "TokenList list"

definition empty_db :: db where
  "empty_db = \<lparr>l1_block_headers = [], l2_block_headers = [], transactions = [], l1_contract_events = [],
     l2_contract_events = [], withdraw_proven = [], withdraw_finalized = [], relay_message = [],
     data_store_event = [], l1_to_l2 = [], l2_to_l1 = [], state_root = [], data_store = [],
     data_store_block = [], l2_sent_message_events = [], bridge_checkpoints = [], token_lists = []\<rparr>"

text \<open>The statement parameters.  A query with an INNER JOIN runs on the pairs of rows of the two
  tables that satisfy the join condition, so it has a parameter for its own kind of row.\<close>

record gorms =
  G_headers :: "BlockHeader gorm"
  G_transactions :: "Transactions gorm"
  G_events :: "ContractEvent gorm"
  G_events_headers :: "(ContractEvent \<times> BlockHeader) gorm"
  G_proven :: "WithdrawProven gorm"
  G_finalized :: "WithdrawFinalized gorm"
  G_relay :: "RelayMessage gorm"
  G_daevent :: "DataStoreEvent gorm"
  G_l12 :: "L1ToL2 gorm"
  G_l21 :: "L2ToL1 gorm"
  G_stateroot :: "StateRoot gorm"
  G_datastore :: "DataStore gorm"
  G_dablock :: "DataStoreBlock gorm"
  G_sent :: "L2SentMessageEvent gorm"
  G_checkpoint :: "BridgeCheckpoint gorm"
  G_token :: "TokenList gorm"
  G_tx :: "db transaction_fn"

text \<open>Primary keys.  L2ToL1 and DataStoreEvent declare two primary key columns.\<close>

definition l21_key :: "L2ToL1 \<Rightarrow> uuid \<times> int option" where
  "l21_key r = (l21_GUID r, l21_L2BlockNumber r)"

definition gorms_ok :: "gorms \<Rightarrow> bool" where
  "gorms_ok G =
     (gorm_ok bh_Hash (G_headers G) \<and> gorm_ok ts_GUID (G_transactions G) \<and>
      gorm_ok ce_GUID (G_events G) \<and>
      gorm_ok (\<lambda>p. (ce_GUID (fst p), bh_Hash (snd p))) (G_events_headers G) \<and>
      gorm_ok wp_GUID (G_proven G) \<and> gorm_ok wf_GUID (G_finalized G) \<and> gorm_ok rm_GUID (G_relay G) \<and>
      gorm_ok (\<lambda>r. (de_GUID r, de_DataStoreId r)) (G_daevent G) \<and>
      gorm_ok l12_GUID (G_l12 G) \<and> gorm_ok l21_key (G_l21 G) \<and>
      gorm_ok (\<lambda>r. (sr_GUID r, sr_BlockHash r)) (G_stateroot G) \<and> gorm_ok ds_GUID (G_datastore G) \<and>
      gorm_ok (\<lambda>r. (db_GUID r, db_DataStoreID r)) (G_dablock G) \<and>
      gorm_ok sm_GUID (G_sent G) \<and> gorm_ok bc_ID (G_checkpoint G) \<and> gorm_ok tk_ID (G_token G) \<and>
      transaction_ok (G_tx G))"

lemma gorms_okD:
  assumes "gorms_ok G"
  shows "gorm_ok bh_Hash (G_headers G)" "gorm_ok ts_GUID (G_transactions G)" "gorm_ok ce_GUID (G_events G)"
    "gorm_ok (\<lambda>p. (ce_GUID (fst p), bh_Hash (snd p))) (G_events_headers G)"
    "gorm_ok wp_GUID (G_proven G)" "gorm_ok wf_GUID (G_finalized G)" "gorm_ok rm_GUID (G_relay G)"
    "gorm_ok (\<lambda>r. (de_GUID r, de_DataStoreId r)) (G_daevent G)"
    "gorm_ok l12_GUID (G_l12 G)" "gorm_ok l21_key (G_l21 G)"
    "gorm_ok (\<lambda>r. (sr_GUID r, sr_BlockHash r)) (G_stateroot G)" "gorm_ok ds_GUID (G_datastore G)"
    "gorm_ok (\<lambda>r. (db_GUID r, db_DataStoreID r)) (G_dablock G)" "gorm_ok sm_GUID (G_sent G)"
    "transaction_ok (G_tx G)" "gorm_ok bc_ID (G_checkpoint G)" "gorm_ok tk_ID (G_token G)"
  using assms by (simp_all add: gorms_ok_def)

text \<open>The in-memory database of the witnesses.\<close>

definition mem_gorms :: gorms where
  "mem_gorms = \<lparr>G_headers = mem_gorm bh_Hash, G_transactions = mem_gorm ts_GUID,
     G_events = mem_gorm ce_GUID, G_events_headers = mem_gorm (\<lambda>p. (ce_GUID (fst p), bh_Hash (snd p))),
     G_proven = mem_gorm wp_GUID, G_finalized = mem_gorm wf_GUID, G_relay = mem_gorm rm_GUID,
     G_daevent = mem_gorm (\<lambda>r. (de_GUID r, de_DataStoreId r)), G_l12 = mem_gorm l12_GUID,
     G_l21 = mem_gorm l21_key, G_stateroot = mem_gorm (\<lambda>r. (sr_GUID r, sr_BlockHash r)),
     G_datastore = mem_gorm ds_GUID, G_dablock = mem_gorm (\<lambda>r. (db_GUID r, db_DataStoreID r)),
     G_sent = mem_gorm sm_GUID, G_checkpoint = mem_gorm bc_ID, G_token = mem_gorm tk_ID, G_tx = mem_transaction\<rparr>"

lemma mem_gorms_ok: "gorms_ok mem_gorms"
  by (simp add: gorms_ok_def mem_gorms_def mem_gorm_ok mem_transaction_ok)

lemma mem_gorms_simps [simp]:
  "G_headers mem_gorms = mem_gorm bh_Hash" "G_transactions mem_gorms = mem_gorm ts_GUID"
  "G_events mem_gorms = mem_gorm ce_GUID"
  "G_events_headers mem_gorms = mem_gorm (\<lambda>p. (ce_GUID (fst p), bh_Hash (snd p)))"
  "G_proven mem_gorms = mem_gorm wp_GUID" "G_finalized mem_gorms = mem_gorm wf_GUID"
  "G_relay mem_gorms = mem_gorm rm_GUID"
  "G_daevent mem_gorms = mem_gorm (\<lambda>r. (de_GUID r, de_DataStoreId r))"
  "G_l12 mem_gorms = mem_gorm l12_GUID" "G_l21 mem_gorms = mem_gorm l21_key"
  "G_stateroot mem_gorms = mem_gorm (\<lambda>r. (sr_GUID r, sr_BlockHash r))"
  "G_datastore mem_gorms = mem_gorm ds_GUID"
  "G_dablock mem_gorms = mem_gorm (\<lambda>r. (db_GUID r, db_DataStoreID r))"
  "G_sent mem_gorms = mem_gorm sm_GUID" "G_checkpoint mem_gorms = mem_gorm bc_ID"
  "G_token mem_gorms = mem_gorm tk_ID" "G_tx mem_gorms = mem_transaction"
  by (simp_all add: mem_gorms_def)

section \<open>Sub-queries\<close>

text \<open>SELECT MAX(c) FROM t: NULL entries do not count, and the maximum of no rows is NULL.\<close>

fun sql_max :: "int option list \<Rightarrow> int option" where
  "sql_max [] = None"
| "sql_max (None # xs) = sql_max xs"
| "sql_max (Some x # xs) = (case sql_max xs of None \<Rightarrow> Some x | Some y \<Rightarrow> Some (max x y))"

lemma sql_max_None: "sql_max xs = None \<longleftrightarrow> (\<forall>x. Some x \<notin> set xs)"
  by (induction xs rule: sql_max.induct) (auto split: option.splits)

lemma sql_max_Some: "sql_max xs = Some m \<Longrightarrow> Some m \<in> set xs \<and> (\<forall>x. Some x \<in> set xs \<longrightarrow> x \<le> m)"
proof (induction xs arbitrary: m rule: sql_max.induct)
  case (3 x xs)
  show ?case
  proof (cases "sql_max xs")
    case None
    then have "m = x" "\<forall>y. Some y \<notin> set xs" using 3(2) by (simp_all flip: sql_max_None)
    then show ?thesis by simp
  next
    case (Some y)
    then show ?thesis using 3 by (fastforce simp: max_def)
  qed
qed simp_all

end
