(* ===== verification/MantleDA.thy ===== *)
theory MantleDA
  imports GraphView Model
begin

text \<open>
  business/mantle_da: the data stores of the data availability layer.  A store is looked up in the graph
  node once a second until the node's answer is readable or the polling duration has passed, its
  frames are fetched from the retriever, and both become rows of the tables data_store and
  data_store_block.  The graph node and the retriever are services: their answers are parameters.
\<close>

section \<open>Polling\<close>

text \<open>What the select statement of the polling loop receives: a tick of the interval, with the answer the
  graph node would give then; a tick whose query the graph node never answers: the query has no deadline, neither in its context
  nor in its HTTP client; the end of the polling duration; the end of the context.\<close>

datatype poll_event =
    IntervalTick "DataStoreGql result"
  | SilentTick
  | PollingTimeout
  | CtxDone

definition getDataStoreById :: "DataStoreGql result \<Rightarrow> GraphDataStore result" where
  "getDataStoreById answer = bindR answer DataStoreGql_Convert"

text \<open>None: the call never returns, since the loop still waits when the events are over or its query is not answered.\<close>

fun RetrievalDataStoreFromDa :: "32 word \<Rightarrow> poll_event list \<Rightarrow> GraphDataStore result option" where
  "RetrievalDataStoreFromDa dataStoreId [] = None"
| "RetrievalDataStoreFromDa dataStoreId (IntervalTick answer # es) =
     (if dataStoreId \<le> 0 then Some (Err (Msg ''dataStoreId less than 0''))
      else case getDataStoreById answer of
             Err e \<Rightarrow> RetrievalDataStoreFromDa dataStoreId es
           | r \<Rightarrow> Some r)"
| "RetrievalDataStoreFromDa dataStoreId (SilentTick # es) =
     (if dataStoreId \<le> 0 then Some (Err (Msg ''dataStoreId less than 0'')) else None)"
| "RetrievalDataStoreFromDa dataStoreId (PollingTimeout # es) = Some (Err (Msg ''Get frame ticker exit''))"
| "RetrievalDataStoreFromDa dataStoreId (CtxDone # es) = Some (Err (Msg ''Retrieval service shutting down''))"

section \<open>Rows\<close>

definition constructDataStore :: "uuid \<Rightarrow> u64 \<Rightarrow> GraphDataStore \<Rightarrow> DataStore" where
  "constructDataStore guid now ds =
     \<lparr>ds_GUID = guid, ds_DataStoreId = ucast (gd_StoreNumber ds), ds_DurationDataStoreId = ucast (gd_DurationDataStoreId ds),
      ds_DataInitHash = gd_InitTxHash ds, ds_DataConfirmHash = gd_ConfirmTxHash ds,
      ds_FromStoreNumber = Some (uint (gd_ReferenceBlockNumber ds)),
      ds_StakeFromBlockNumber = Some (gd_InitBlockNumber ds), ds_InitGasUsed = Some (uint (gd_InitGasUsed ds)),
      ds_InitBlockNumber = Some (gd_InitBlockNumber ds), ds_ConfirmGasUsed = Some (uint (gd_ConfirmGasUsed ds)),
      ds_DataHash = EncodeToString (hash_bytes (gd_MsgHash ds)), ds_EthSign = int_String (gd_EthSigned ds),
      ds_MantleSign = int_String (gd_EigenSigned ds),
      ds_SignatoryRecord = EncodeToString (hash_bytes (gd_SignatoryRecord ds)),
      ds_InitTime = ucast (gd_InitTime ds), ds_ExpireTime = ucast (gd_ExpireTime ds), ds_NumSys = gd_NumSys ds,
      ds_NumPar = gd_NumPar ds, ds_LowDegree = int_String (uint (gd_Degree ds)), ds_Status = gd_Confirmed ds,
      ds_Confirmer = gd_Confirmer ds, ds_Header = EncodeToString (gd_Header ds),
      ds_DataCommitment = EncodeToString (hash_bytes (gd_DataCommitment ds)), ds_Timestamp = now, ds_DataSize = Some 1\<rparr>"

text \<open>BlockData is a hash: the frames are written in hexadecimal and read as a hash, which keeps their last
  32 bytes.\<close>

definition constructDataStoreBlock :: "uuid \<Rightarrow> u64 \<Rightarrow> GraphDataStore \<Rightarrow> bytes \<Rightarrow> DataStoreBlock" where
  "constructDataStoreBlock guid now ds frames =
     \<lparr>db_GUID = guid, db_DataStoreID = ucast (gd_StoreNumber ds), db_BlockData = HexToHash (EncodeToString frames),
      db_L2TxHash = HexToHash [], db_L2BlockNumber = None, db_Canonical = True, db_Timestamp = now\<rparr>"

text \<open>The services during one call of DataFromMantleDa, by the position in the list of events, and the
  identifiers and times it draws: two of each for a store.  The request for the frames goes out with the context of the client,
  context.Background(), which has no deadline: None when the retriever never answers it.\<close>

record da_env =
  dn_polls :: "nat \<Rightarrow> poll_event list"
  dn_frames :: "nat \<Rightarrow> bytes result option"
  dn_uuid :: "nat \<Rightarrow> uuid"
  dn_now :: "nat \<Rightarrow> u64"

definition frames_or_nil :: "bytes result \<Rightarrow> bytes" where
  "frames_or_nil r = (case r of Ok bs \<Rightarrow> bs | _ \<Rightarrow> [])"

text \<open>One iteration: an error of the retrieval is logged and the store left out, an error of the frames is
  logged and the block has none.\<close>

definition da_step :: "da_env \<Rightarrow> nat \<Rightarrow> DataStoreEvent \<Rightarrow> DataStore list \<times> DataStoreBlock list
    \<Rightarrow> (DataStore list \<times> DataStoreBlock list) result option" where
  "da_step E i e = (\<lambda>(dataStores, blocks).
     case RetrievalDataStoreFromDa (ucast (de_DataStoreId e)) (dn_polls E i) of
       None \<Rightarrow> None
     | Some (Panic p) \<Rightarrow> Some (Panic p)
     | Some (Err _) \<Rightarrow> Some (Ok (dataStores, blocks))
     | Some (Ok ds) \<Rightarrow>
         (case dn_frames E i of
            None \<Rightarrow> None
          | Some frames \<Rightarrow>
              Some (Ok (dataStores @ [constructDataStore (dn_uuid E (2 * i + 1)) (dn_now E (2 * i + 1)) ds],
                        blocks @ [constructDataStoreBlock (dn_uuid E (2 * i)) (dn_now E (2 * i)) ds (frames_or_nil frames)]))))"

fun da_loop :: "da_env \<Rightarrow> nat \<Rightarrow> DataStoreEvent list \<Rightarrow> DataStore list \<times> DataStoreBlock list \<Rightarrow> 32 word
    \<Rightarrow> (DataStore list \<times> DataStoreBlock list \<times> 32 word) result option" where
  "da_loop E i [] (dataStores, blocks) latest = Some (Ok (dataStores, blocks, latest))"
| "da_loop E i (e # es) acc latest =
     (case da_step E i e acc of
        None \<Rightarrow> None
      | Some (Ok acc') \<Rightarrow> da_loop E (i + 1) es acc' (ucast (de_DataStoreId e))
      | Some (Err x) \<Rightarrow> Some (Err x)
      | Some (Panic p) \<Rightarrow> Some (Panic p))"

definition DataFromMantleDa :: "da_env \<Rightarrow> DataStoreEvent list
    \<Rightarrow> (DataStore list \<times> DataStoreBlock list \<times> 32 word) result option" where
  "DataFromMantleDa E deList = da_loop E 0 deList ([], []) 0"

section \<open>Facts\<close>

text \<open>The timer of the polling duration fires, or the context ends, within the events of each poll, and every query is answered.\<close>

definition poll_ends :: "poll_event list \<Rightarrow> bool" where
  "poll_ends es = ((PollingTimeout \<in> set es \<or> CtxDone \<in> set es) \<and> SilentTick \<notin> set es)"

definition polls_end :: "da_env \<Rightarrow> bool" where
  "polls_end E = (\<forall>i. poll_ends (dn_polls E i))"

lemma getDataStoreById_no_panic: "answer \<noteq> Panic p \<Longrightarrow> getDataStoreById answer \<noteq> Panic p"
  by (auto simp: getDataStoreById_def bindR_eq_Panic convert_no_panic)

lemma retrieval_returns: "poll_ends es \<Longrightarrow> RetrievalDataStoreFromDa n es \<noteq> None"
  by (induction n es rule: RetrievalDataStoreFromDa.induct) (auto simp: poll_ends_def split: result.splits)

text \<open>What a call returns is the first readable answer before the end of the polling.\<close>

lemma retrieval_Ok:
  "RetrievalDataStoreFromDa n es = Some (Ok ds) \<longleftrightarrow>
     n \<noteq> 0 \<and> (\<exists>pre answer post. es = map IntervalTick pre @ IntervalTick answer # post
        \<and> (\<forall>a \<in> set pre. \<exists>e. getDataStoreById a = Err e) \<and> getDataStoreById answer = Ok ds)"
  (is "_ \<longleftrightarrow> n \<noteq> 0 \<and> ?R es")
proof (induction n es rule: RetrievalDataStoreFromDa.induct)
  case (2 n answer es)
  have step: "?R (IntervalTick answer # es) \<longleftrightarrow>
      getDataStoreById answer = Ok ds \<or> ((\<exists>e. getDataStoreById answer = Err e) \<and> ?R es)" (is "?L \<longleftrightarrow> ?S")
  proof
    assume ?L
    then obtain pre a post where p: "IntervalTick answer # es = map IntervalTick pre @ IntervalTick a # post"
      "\<forall>x \<in> set pre. \<exists>e. getDataStoreById x = Err e" "getDataStoreById a = Ok ds" by blast
    show ?S
    proof (cases pre)
      case Nil
      then show ?thesis using p by simp
    next
      case (Cons x pre')
      then show ?thesis using p by auto
    qed
  next
    assume s: ?S
    show ?L
    proof (cases "getDataStoreById answer = Ok ds")
      case True
      then show ?thesis by (intro exI[of _ "[]"]) auto
    next
      case False
      then obtain pre a post where "es = map IntervalTick pre @ IntervalTick a # post"
        "\<forall>x \<in> set pre. \<exists>e. getDataStoreById x = Err e" "getDataStoreById a = Ok ds" "\<exists>e. getDataStoreById answer = Err e"
        using s by blast
      then show ?thesis by (intro exI[of _ "answer # pre"]) auto
    qed
  qed
  show ?case using 2 unfolding step by (cases "getDataStoreById answer") (auto simp: word_le_0_iff)
qed (auto simp: Cons_eq_append_conv)

section \<open>What a call returns\<close>

text \<open>The stores that can be read, with their positions in the list of events.\<close>

definition readable_stores :: "da_env \<Rightarrow> nat \<Rightarrow> DataStoreEvent list \<Rightarrow> (nat \<times> GraphDataStore) list" where
  "readable_stores E k es = concat (map (\<lambda>(i, e).
     case RetrievalDataStoreFromDa (ucast (de_DataStoreId e)) (dn_polls E i) of
       Some (Ok g) \<Rightarrow> [(i, g)] | _ \<Rightarrow> []) (enumerate k es))"

definition store_row :: "da_env \<Rightarrow> nat \<times> GraphDataStore \<Rightarrow> DataStore" where
  "store_row E x = constructDataStore (dn_uuid E (2 * fst x + 1)) (dn_now E (2 * fst x + 1)) (snd x)"

definition block_row :: "da_env \<Rightarrow> nat \<times> GraphDataStore \<Rightarrow> DataStoreBlock" where
  "block_row E x = constructDataStoreBlock (dn_uuid E (2 * fst x)) (dn_now E (2 * fst x)) (snd x)
     (case dn_frames E (fst x) of None \<Rightarrow> [] | Some frames \<Rightarrow> frames_or_nil frames)"

text \<open>The retriever answers every request for the frames of a store that could be read.\<close>

definition frames_answered :: "da_env \<Rightarrow> (nat \<times> GraphDataStore) list \<Rightarrow> bool" where
  "frames_answered E stores = (\<forall>x \<in> set stores. dn_frames E (fst x) \<noteq> None)"

text \<open>The client of the graph node returns an answer or an error.\<close>

definition answers :: "poll_event list \<Rightarrow> bool" where
  "answers es = (\<forall>a p. IntervalTick a \<in> set es \<longrightarrow> a \<noteq> Panic p)"

lemma retrieval_no_panic: "answers es \<Longrightarrow> RetrievalDataStoreFromDa n es \<noteq> Some (Panic p)"
proof (induction n es rule: RetrievalDataStoreFromDa.induct)
  case (2 n answer es)
  then have "getDataStoreById answer \<noteq> Panic p" for p
    using getDataStoreById_no_panic[of answer p] by (auto simp: answers_def)
  then show ?case using 2 by (auto simp: answers_def split: result.splits)
qed simp_all

lemma da_step_returns:
  assumes "poll_ends (dn_polls E i)" "answers (dn_polls E i)"
  shows "da_step E i e (ds, bs) = (if frames_answered E (readable_stores E i [e])
    then Some (Ok (ds @ map (store_row E) (readable_stores E i [e]), bs @ map (block_row E) (readable_stores E i [e]))) else None)"
  using retrieval_returns[OF assms(1), of "ucast (de_DataStoreId e)"]
    retrieval_no_panic[OF assms(2), of "ucast (de_DataStoreId e)"]
  by (cases "RetrievalDataStoreFromDa (ucast (de_DataStoreId e)) (dn_polls E i)"; cases "the (RetrievalDataStoreFromDa (ucast (de_DataStoreId e)) (dn_polls E i))")
     (auto simp: da_step_def readable_stores_def store_row_def block_row_def frames_answered_def)

lemma readable_stores_Nil [simp]: "readable_stores E k [] = []"
  by (simp add: readable_stores_def)

lemma readable_stores_Cons: "readable_stores E k (e # es) = readable_stores E k [e] @ readable_stores E (k + 1) es"
  by (simp add: readable_stores_def)

lemma frames_answered_Nil [simp]: "frames_answered E []"
  by (simp add: frames_answered_def)

lemma frames_answered_append: "frames_answered E (xs @ ys) \<longleftrightarrow> frames_answered E xs \<and> frames_answered E ys"
  by (auto simp: frames_answered_def)

lemma da_loop_returns:
  assumes "\<And>i. poll_ends (dn_polls E i)" "\<And>i. answers (dn_polls E i)"
  shows "da_loop E k es (ds, bs) n = (if frames_answered E (readable_stores E k es)
    then Some (Ok (ds @ map (store_row E) (readable_stores E k es),
      bs @ map (block_row E) (readable_stores E k es), if es = [] then n else ucast (de_DataStoreId (last es)))) else None)"
proof (induction es arbitrary: k ds bs n)
  case Nil
  then show ?case by simp
next
  case (Cons e es)
  show ?case
    by (simp add: da_step_returns[OF assms] Cons.IH readable_stores_Cons[of E k e es] frames_answered_append)
qed

text \<open>C15: when every polling ends, retrieving the data stores of a list of events returns exactly if the retriever answers
  the request for the frames of each store that could be read: one request without an answer, which has no deadline, and the
  call waits for ever. When it returns it does not fail: there is one row and one block for each store that could be read, in
  the order of the events, and the identifier of the last event, even when that store was not read; a store that could not be
  read is left out.\<close>

theorem data_from_da_returns:
  assumes "polls_end E" "\<forall>i. answers (dn_polls E i)"
  shows "DataFromMantleDa E es = (if frames_answered E (readable_stores E 0 es)
    then Some (Ok (map (store_row E) (readable_stores E 0 es),
      map (block_row E) (readable_stores E 0 es), if es = [] then 0 else ucast (de_DataStoreId (last es)))) else None)"
  using da_loop_returns[of E 0 es "[]" "[]" 0] assms by (simp add: DataFromMantleDa_def polls_end_def)

text \<open>Two stores; the node answers for the second at its second tick, never for the first.\<close>

definition sample_da :: da_env where
  "sample_da = \<lparr>dn_polls = (\<lambda>i. if i = 1 then [IntervalTick (Err (Msg ''no store'')), IntervalTick (Ok (gql_of sample_store [])), PollingTimeout]
      else [IntervalTick (Err (Msg ''no store'')), PollingTimeout]),
    dn_frames = (\<lambda>i. if i = 1 then Some (Ok [1, 2]) else None), dn_uuid = of_nat, dn_now = of_nat\<rparr>"

definition sample_da_event :: "u64 \<Rightarrow> DataStoreEvent" where
  "sample_da_event n = \<lparr>de_GUID = 1, de_DataStoreId = n, de_BlockHash = 2, de_Timestamp = 3\<rparr>"

theorem data_from_da_returns_witness:
  "\<exists>row block. DataFromMantleDa sample_da [sample_da_event 7, sample_da_event 8] = Some (Ok ([row], [block], 8)) \<and> ds_GUID row = 3"
proof -
  have conv: "DataStoreGql_Convert (gql_of sample_store []) = Ok sample_store"
    using convert_gql_of[of sample_store "[]"] by (simp add: sample_store_def)
  have one: "readable_stores sample_da 0 [sample_da_event 7, sample_da_event 8] = [(1, sample_store)]"
    by (simp add: readable_stores_def sample_da_def sample_da_event_def getDataStoreById_def conv word_le_0_iff)
  have "DataFromMantleDa sample_da [sample_da_event 7, sample_da_event 8]
    = Some (Ok (map (store_row sample_da) [(1, sample_store)], map (block_row sample_da) [(1, sample_store)], 8))"
    using data_from_da_returns[of sample_da "[sample_da_event 7, sample_da_event 8]"] unfolding one
    by (simp add: sample_da_def sample_da_event_def polls_end_def poll_ends_def answers_def frames_answered_def)
  then show ?thesis by (simp add: store_row_def constructDataStore_def sample_da_def)
qed

end
