(* ===== verification/UpdateLoop.thy ===== *)
theory UpdateLoop
  imports Gorm
begin

text \<open>
  The loop that a dozen functions of the database packages share: for each item of a list, take
  the row a condition selects, change some of its columns and save it.  A missing row ends the
  whole loop with a nil error (the functions return nil, they do not continue), any other error is
  returned, and an item may be skipped.  The locale \<open>row_update\<close> is the contract of such an update:
  it keeps the primary key and the columns \<open>keep\<close>; the loop then keeps the rows, their keys and
  those columns.
\<close>

fun update_each :: "'r gorm \<Rightarrow> ('x \<Rightarrow> bool result) \<Rightarrow> ('x \<Rightarrow> 'r \<Rightarrow> bool) \<Rightarrow> ('x \<Rightarrow> 'r \<Rightarrow> 'r result)
    \<Rightarrow> 'x list \<Rightarrow> ('r list, unit) go" where
  "update_each G skip cond md [] t = (Ok (), t)"
| "update_each G skip cond md (x # xs) t =
     (case skip x of
        Err e \<Rightarrow> (Err e, t)
      | Panic p \<Rightarrow> (Panic p, t)
      | Ok True \<Rightarrow> update_each G skip cond md xs t
      | Ok False \<Rightarrow>
          (case g_take G (cond x) t of
             Panic p \<Rightarrow> (Panic p, t)
           | Err e \<Rightarrow> if errors_Is e RecordNotFound then (Ok (), t) else (Err e, t)
           | Ok r \<Rightarrow>
               (case md x r of
                  Err e \<Rightarrow> (Err e, t)
                | Panic p \<Rightarrow> (Panic p, t)
                | Ok r' \<Rightarrow>
                    (case g_save G r' t of
                       (Ok u, t') \<Rightarrow> update_each G skip cond md xs t'
                     | (Err e, t') \<Rightarrow> (Err e, t')
                     | (Panic p, t') \<Rightarrow> (Panic p, t')))))"

definition never_skip :: "'x \<Rightarrow> bool result" where
  "never_skip x = Ok False"

lemma never_skip_apply [simp]: "never_skip x = Ok False"
  by (simp add: never_skip_def)

definition row_of :: "('r \<Rightarrow> 'k) \<Rightarrow> 'r list \<Rightarrow> 'k \<Rightarrow> 'r option" where
  "row_of key t k = map_of (map (\<lambda>r. (key r, r)) t) k"

lemma row_of_Some: "row_of key t k = Some r \<Longrightarrow> r \<in> set t \<and> key r = k"
  by (auto simp: row_of_def dest: map_of_SomeD)

lemma upsert_member:
  assumes "r0 \<in> set t" "key r = key r0"
  shows "map key (upsert key r t) = map key t"
    and "x \<in> set (upsert key r t) \<Longrightarrow> x = r \<or> (x \<in> set t \<and> key x \<noteq> key r)"
  using assms by (auto simp: upsert_same)

text \<open>With distinct keys, saving a taken row changes that row and no other.\<close>

lemma upsert_nth:
  assumes "distinct (map key t)" "i < length t" "key r = key (t ! i)"
  shows "upsert key r t = t[i := r]"
proof (rule nth_equalityI)
  have m: "t ! i \<in> set t" using assms(2) by simp
  show "length (upsert key r t) = length (t[i := r])"
    using assms m by (simp add: upsert_same[OF m])
  fix j assume j: "j < length (upsert key r t)"
  then have j': "j < length t" using m assms(3) by (simp add: upsert_same[OF m])
  have "key (t ! j) = key (t ! i) \<longleftrightarrow> j = i"
    using assms(1,2) j' by (metis distinct_conv_nth length_map nth_map)
  then show "upsert key r t ! j = t[i := r] ! j"
    using j' assms(3) by (auto simp: upsert_same[OF m] nth_list_update)
qed

text \<open>The contract of an update.\<close>

locale row_update =
  fixes key :: "'r \<Rightarrow> 'k" and keep :: "'r \<Rightarrow> 'v" and cond :: "'x \<Rightarrow> 'r \<Rightarrow> bool"
    and md :: "'x \<Rightarrow> 'r \<Rightarrow> 'r result"
  assumes md_key: "md x r = Ok r' \<Longrightarrow> key r' = key r"
    and md_keep: "md x r = Ok r' \<Longrightarrow> keep r' = keep r"
begin

text \<open>Row i of the table after the loop is row i of the table before it, possibly changed by items
  whose condition it met.\<close>

inductive touched :: "'x set \<Rightarrow> 'r \<Rightarrow> 'r \<Rightarrow> bool" for A where
  same: "touched A r r"
| upd: "touched A r r' \<Longrightarrow> x \<in> A \<Longrightarrow> cond x r' \<Longrightarrow> md x r' = Ok r'' \<Longrightarrow> touched A r r''"

lemma touched_mono: "touched A r r' \<Longrightarrow> A \<subseteq> B \<Longrightarrow> touched B r r'"
  by (induction rule: touched.induct) (auto intro: touched.intros)

lemma touched_trans: "touched A r' r'' \<Longrightarrow> touched A r r' \<Longrightarrow> touched A r r''"
  by (induction rule: touched.induct) (auto intro: touched.intros)

lemma touched_keep: "touched A r r' \<Longrightarrow> key r' = key r \<and> keep r' = keep r"
  by (induction rule: touched.induct) (auto dest: md_key md_keep)

lemma loop_rows:
  assumes "gorm_ok key G" "distinct (map key t)"
  shows "list_all2 (touched (set xs)) t (snd (update_each G skip cond md xs t))"
  using assms(2)
proof (induction xs arbitrary: t)
  case Nil
  then show ?case by (simp add: list_all2_refl same)
next
  case (Cons x xs)
  have refl: "list_all2 (touched (set (x # xs))) t t" by (simp add: list_all2_refl same)
  have up: "list_all2 (touched (set (x # xs))) t (snd (update_each G skip cond md xs t'))"
    if "distinct (map key t')" "list_all2 (touched {x}) t t'" for t'
  proof -
    have "list_all2 (touched (set xs)) t' (snd (update_each G skip cond md xs t'))"
      by (rule Cons.IH[OF that(1)])
    with that(2) show ?thesis
      by (rule list_all2_trans[rotated]) (auto intro: touched_trans touched_mono)
  qed
  consider (skip) "\<exists>v. skip x = v \<and> v \<noteq> Ok False" | (look) "skip x = Ok False" by blast
  then show ?case
  proof cases
    case skip
    then show ?thesis using refl up[OF Cons.prems] by (auto simp: list_all2_refl same split: result.splits bool.splits)
  next
    case look
    show ?thesis
    proof (cases "g_take G (cond x) t")
      case (Ok r)
      then have r: "r \<in> set t" "cond x r" using gorm_take(1)[OF assms(1)] by auto
      then obtain i where i: "i < length t" "r = t ! i" by (auto simp: in_set_conv_nth)
      show ?thesis
      proof (cases "md x r")
        case (Ok r')
        have k: "key r' = key (t ! i)" using md_key[OF Ok] i by simp
        obtain u t' where s: "g_save G r' t = (u, t')" by (cases "g_save G r' t") auto
        have t': "t' = (case u of Ok w \<Rightarrow> t[i := r'] | Err e \<Rightarrow> t | Panic p \<Rightarrow> t')"
          using gorm_save[OF assms(1)] s upsert_nth[OF Cons.prems i(1) k] by (cases u) auto
        have rel: "list_all2 (touched {x}) t (t[i := r'])"
          using i r Ok by (auto simp: list_all2_conv_all_nth nth_list_update intro: touched.intros)
        have "map key (t[i := r']) = map key t"
          using k i by (simp add: map_update list_update_same_conv)
        then have dis: "distinct (map key (t[i := r']))" using Cons.prems by simp
        show ?thesis
          using up[OF dis rel] refl look \<open>g_take G (cond x) t = Ok r\<close> Ok s t' gorm_save(3)[OF assms(1)]
          by (cases u) auto
      qed (use refl look \<open>g_take G (cond x) t = Ok r\<close> in auto)
    qed (use refl look in auto)
  qed
qed

lemma loop_keeps:
  assumes "gorm_ok key G" "distinct (map key t)"
  shows "map (\<lambda>r. (key r, keep r)) (snd (update_each G skip cond md xs t)) = map (\<lambda>r. (key r, keep r)) t"
proof (rule nth_equalityI)
  note R = loop_rows[OF assms, of xs skip]
  then show "length (map (\<lambda>r. (key r, keep r)) (snd (update_each G skip cond md xs t)))
      = length (map (\<lambda>r. (key r, keep r)) t)"
    by (simp add: list_all2_lengthD)
  fix i assume "i < length (map (\<lambda>r. (key r, keep r)) (snd (update_each G skip cond md xs t)))"
  then have i: "i < length (snd (update_each G skip cond md xs t))" by simp
  then have "touched (set xs) (t ! i) (snd (update_each G skip cond md xs t) ! i)" "i < length t"
    using R list_all2_lengthD[OF R] by (auto simp: list_all2_conv_all_nth)
  with i show "map (\<lambda>r. (key r, keep r)) (snd (update_each G skip cond md xs t)) ! i
      = map (\<lambda>r. (key r, keep r)) t ! i"
    by (auto dest: touched_keep)
qed

end

text \<open>An item whose row is missing ends the loop: the items after it are never looked at.\<close>

lemma update_each_stops:
  assumes "gorm_ok key G" "skip x = Ok False"
    and "\<forall>r \<in> set (snd (update_each G skip cond md pre t)). \<not> cond x r"
  shows "snd (update_each G skip cond md (pre @ x # post) t) = snd (update_each G skip cond md pre t)"
  using assms(3)
proof (induction pre arbitrary: t)
  case Nil
  then show ?case using gorm_take(1)[OF assms(1)] gorm_take(3)[OF assms(1)] assms(2)
    by (cases "g_take G (cond x) t") auto
next
  case (Cons y pre)
  show ?case
  proof (cases "skip y")
    case (Ok b)
    then show ?thesis using Cons
      by (cases b) (auto split: result.splits prod.splits)
  qed (use Cons in auto)
qed

end
