(* ===== verification/EventTables.thy ===== *)
theory EventTables
  imports Model UpdateLoop TextFormat
begin

text \<open>
  The data access layer of the chain data: database/common/blocks.go and transactions.go,
  database/event/contract_events.go, withdraw_proven.go, withdraw_finalized.go, relay_message.go
  and mantle-da/data_store_event.go.  A query is a function of the database into a result, a
  statement that writes is a computation on the database; both take the statement parameters.
  The SQL text of a condition is written as a predicate on rows.
\<close>

section \<open>Block headers\<close>

definition BlockHeaderFromHeader :: "(header \<Rightarrow> hash) \<Rightarrow> header \<Rightarrow> BlockHeader" where
  "BlockHeaderFromHeader HeaderHash h =
     \<lparr>bh_Hash = HeaderHash h, bh_ParentHash = ParentHash h, bh_Number = Number h,
      bh_Timestamp = Time h, bh_RLPHeader = h\<rparr>"

definition StoreL1BlockHeaders :: "gorms \<Rightarrow> BlockHeader list \<Rightarrow> (db, unit) go" where
  "StoreL1BlockHeaders G hs = zoomG l1_block_headers l1_block_headers_update (g_create (G_headers G) hs)"

definition StoreL2BlockHeaders :: "gorms \<Rightarrow> BlockHeader list \<Rightarrow> (db, unit) go" where
  "StoreL2BlockHeaders G hs = zoomG l2_block_headers l2_block_headers_update (g_create (G_headers G) hs)"

definition L1BlockHeaderWithScope :: "gorms \<Rightarrow> (db \<Rightarrow> BlockHeader \<Rightarrow> bool) \<Rightarrow> db \<Rightarrow> BlockHeader option result" where
  "L1BlockHeaderWithScope G scope s = nil_if_not_found (g_take (G_headers G) (scope s) (l1_block_headers s))"

definition L2BlockHeaderWithScope :: "gorms \<Rightarrow> (db \<Rightarrow> BlockHeader \<Rightarrow> bool) \<Rightarrow> db \<Rightarrow> BlockHeader option result" where
  "L2BlockHeaderWithScope G scope s = nil_if_not_found (g_take (G_headers G) (scope s) (l2_block_headers s))"

text \<open>A BlockHeader used as a filter: zero fields do not restrict (a nil number is None here).\<close>

record BlockHeader_filter =
  bf_Hash :: hash
  bf_ParentHash :: hash
  bf_Number :: "int option"
  bf_Timestamp :: u64

definition header_filter :: "BlockHeader_filter \<Rightarrow> BlockHeader \<Rightarrow> bool" where
  "header_filter f r =
     (where_field (bf_Hash f) (bh_Hash r) \<and> where_field (bf_ParentHash f) (bh_ParentHash r) \<and>
      (case bf_Number f of None \<Rightarrow> True | Some n \<Rightarrow> bh_Number r = n) \<and>
      where_field (bf_Timestamp f) (bh_Timestamp r))"

definition L1BlockHeaderWithFilter :: "gorms \<Rightarrow> BlockHeader_filter \<Rightarrow> db \<Rightarrow> BlockHeader option result" where
  "L1BlockHeaderWithFilter G f = L1BlockHeaderWithScope G (\<lambda>_. header_filter f)"

definition L2BlockHeaderWithFilter :: "gorms \<Rightarrow> BlockHeader_filter \<Rightarrow> db \<Rightarrow> BlockHeader option result" where
  "L2BlockHeaderWithFilter G f = L2BlockHeaderWithScope G (\<lambda>_. header_filter f)"

definition L1BlockHeader :: "gorms \<Rightarrow> hash \<Rightarrow> db \<Rightarrow> BlockHeader option result" where
  "L1BlockHeader G h = L1BlockHeaderWithFilter G
     \<lparr>bf_Hash = h, bf_ParentHash = 0, bf_Number = None, bf_Timestamp = 0\<rparr>"

definition L2BlockHeader :: "gorms \<Rightarrow> hash \<Rightarrow> db \<Rightarrow> BlockHeader option result" where
  "L2BlockHeader G h = L2BlockHeaderWithFilter G
     \<lparr>bf_Hash = h, bf_ParentHash = 0, bf_Number = None, bf_Timestamp = 0\<rparr>"

definition L1LatestBlockHeader :: "gorms \<Rightarrow> db \<Rightarrow> BlockHeader option result" where
  "L1LatestBlockHeader G s =
     nil_if_not_found (g_take_desc (G_headers G) (\<lambda>_. True) bh_Number (l1_block_headers s))"

definition L2LatestBlockHeader :: "gorms \<Rightarrow> db \<Rightarrow> BlockHeader option result" where
  "L2LatestBlockHeader G s =
     nil_if_not_found (g_take_desc (G_headers G) (\<lambda>_. True) bh_Number (l2_block_headers s))"

definition LatestObservedEpochForL1 :: "gorms \<Rightarrow> int option \<Rightarrow> u64 \<Rightarrow> db \<Rightarrow> BlockHeader option result" where
  "LatestObservedEpochForL1 G fromL1Height maxL1Range s =
     (let startBlockNumber = (case fromL1Height of Some n \<Rightarrow> n | None \<Rightarrow> 0) in
      nil_if_not_found (g_take_desc (G_headers G)
        (\<lambda>r. bh_Number r \<ge> startBlockNumber \<and> bh_Number r < uint maxL1Range) bh_Number (l1_block_headers s)))"

definition LatestObservedEpochForL2 :: "gorms \<Rightarrow> int option \<Rightarrow> u64 \<Rightarrow> db \<Rightarrow> BlockHeader option result" where
  "LatestObservedEpochForL2 G fromL2Height maxL1Range s =
     (let startBlockNumber = (case fromL2Height of Some n \<Rightarrow> n | None \<Rightarrow> 0) in
      nil_if_not_found (g_take_desc (G_headers G)
        (\<lambda>r. bh_Number r \<ge> startBlockNumber \<and> bh_Number r < uint maxL1Range) bh_Number (l2_block_headers s)))"

text \<open>The timestamp of a block, zero when the block is not stored.\<close>

definition L2BlockTimeStampByNum :: "gorms \<Rightarrow> u64 \<Rightarrow> db \<Rightarrow> int result" where
  "L2BlockTimeStampByNum G blockNumber s =
     bindR (nil_if_not_found (g_take (G_headers G) (\<lambda>r. bh_Number r = uint blockNumber) (l2_block_headers s)))
       (\<lambda>row. Ok (case row of None \<Rightarrow> 0 | Some r \<Rightarrow> uint (bh_Timestamp r)))"

section \<open>Transactions\<close>

definition StoreTransactions :: "gorms \<Rightarrow> Transactions list \<Rightarrow> (db, unit) go" where
  "StoreTransactions G ts = zoomG transactions transactions_update (g_create (G_transactions G) ts)"

definition TransactionList :: "Transactions list result" where
  "TransactionList = Ok []"

text \<open>int64(x) of a uint64, and big.NewInt of it.\<close>

definition NewInt64 :: "u64 \<Rightarrow> int" where
  "NewInt64 x = sint x"

definition BuildTransactions :: "uuid \<Rightarrow> transaction \<Rightarrow> receipt \<Rightarrow> Transactions result" where
  "BuildTransactions guid transaction receipt =
     bindR (nonil (tx_To transaction)) (\<lambda>to.
     Ok \<lparr>ts_GUID = guid,
         ts_BlockHash = rc_BlockHash receipt,
         ts_BlockNumber = rc_BlockNumber receipt,
         ts_FromAddress = 0,
         ts_ToAddress = to,
         ts_Gas = NewInt64 (tx_Gas transaction),
         ts_GasPrice = tx_GasPrice transaction,
         ts_TransactionHash = tx_Hash transaction,
         ts_InputData = tx_Data transaction,
         ts_MaxFeePerGas = tx_GasFeeCap transaction,
         ts_MaxPriorityFeePerGas = None,
         ts_GasUsed = NewInt64 (rc_GasUsed receipt),
         ts_CumulativeGasUsed = NewInt64 (rc_CumulativeGasUsed receipt),
         ts_EffectiveGasPrice = rc_EffectiveGasPrice receipt,
         ts_L1Fee = rc_L1Fee receipt,
         ts_L1GasUsed = rc_L1GasUsed receipt,
         ts_L1GasPrice = rc_L1GasPrice receipt,
         ts_Nonce = NewInt64 (tx_Nonce transaction),
         ts_TransactionIndex = NewInt64 (rc_TransactionIndex receipt),
         ts_TxType = uint (rc_Type receipt),
         ts_R = None, ts_S = None, ts_V = None,
         ts_Status = sint (rc_Status receipt),
         ts_ContractAddress = rc_ContractAddress receipt,
         ts_Amount = tx_Value transaction,
         ts_YParity = None,
         ts_Timestamp = word_of_int (tx_Time transaction)\<rparr>)"

section \<open>Contract events\<close>

definition ContractEventFromLog :: "uuid \<Rightarrow> log \<Rightarrow> u64 \<Rightarrow> ContractEvent" where
  "ContractEventFromLog guid l timestamp =
     (let eventSig = (if length (Topics l) > 0 then Topics l ! 0 else 0) in
      \<lparr>ce_GUID = guid, ce_BlockHash = BlockHash l, ce_ContractAddress = Address l,
       ce_TransactionHash = TxHash l, ce_LogIndex = Index l, ce_EventSignature = eventSig,
       ce_Timestamp = timestamp, ce_RLPLog = l\<rparr>)"

text \<open>The rlp serializer keeps the consensus fields of a log (address, topics, data); the AfterFind
  hook restores the position of the log from the columns of the row it was loaded from.\<close>

definition rlp_log :: "log \<Rightarrow> log" where
  "rlp_log l = l\<lparr>BlockNumber := 0, TxHash := 0, BlockHash := 0, Index := 0\<rparr>"

definition AfterFind :: "ContractEvent \<Rightarrow> ContractEvent" where
  "AfterFind c = c\<lparr>ce_RLPLog := (rlp_log (ce_RLPLog c))\<lparr>BlockHash := ce_BlockHash c,
      TxHash := ce_TransactionHash c, Index := ce_LogIndex c\<rparr>\<rparr>"

text \<open>A ContractEvent used as a filter.\<close>

record ContractEvent_filter =
  cf_GUID :: uuid
  cf_BlockHash :: hash
  cf_ContractAddress :: address
  cf_TransactionHash :: hash
  cf_LogIndex :: u64
  cf_EventSignature :: hash
  cf_Timestamp :: u64

definition no_filter :: ContractEvent_filter where
  "no_filter = \<lparr>cf_GUID = 0, cf_BlockHash = 0, cf_ContractAddress = 0, cf_TransactionHash = 0,
     cf_LogIndex = 0, cf_EventSignature = 0, cf_Timestamp = 0\<rparr>"

definition event_filter :: "ContractEvent_filter \<Rightarrow> ContractEvent \<Rightarrow> bool" where
  "event_filter f r =
     (where_field (cf_GUID f) (ce_GUID r) \<and> where_field (cf_BlockHash f) (ce_BlockHash r) \<and>
      where_field (cf_ContractAddress f) (ce_ContractAddress r) \<and>
      where_field (cf_TransactionHash f) (ce_TransactionHash r) \<and>
      where_field (cf_LogIndex f) (ce_LogIndex r) \<and>
      where_field (cf_EventSignature f) (ce_EventSignature r) \<and>
      where_field (cf_Timestamp f) (ce_Timestamp r))"

definition found_event :: "ContractEvent option result \<Rightarrow> ContractEvent option result" where
  "found_event r = bindR r (\<lambda>x. Ok (map_option AfterFind x))"

definition StoreL1ContractEvents :: "gorms \<Rightarrow> ContractEvent list \<Rightarrow> (db, unit) go" where
  "StoreL1ContractEvents G es = zoomG l1_contract_events l1_contract_events_update (g_create (G_events G) es)"

definition StoreL2ContractEvents :: "gorms \<Rightarrow> ContractEvent list \<Rightarrow> (db, unit) go" where
  "StoreL2ContractEvents G es = zoomG l2_contract_events l2_contract_events_update (g_create (G_events G) es)"

definition L1ContractEventWithFilter :: "gorms \<Rightarrow> ContractEvent_filter \<Rightarrow> db \<Rightarrow> ContractEvent option result" where
  "L1ContractEventWithFilter G f s =
     found_event (nil_if_not_found (g_take (G_events G) (event_filter f) (l1_contract_events s)))"

definition L2ContractEventWithFilter :: "gorms \<Rightarrow> ContractEvent_filter \<Rightarrow> db \<Rightarrow> ContractEvent option result" where
  "L2ContractEventWithFilter G f s =
     found_event (nil_if_not_found (g_take (G_events G) (event_filter f) (l2_contract_events s)))"

definition L1ContractEvent :: "gorms \<Rightarrow> uuid \<Rightarrow> db \<Rightarrow> ContractEvent option result" where
  "L1ContractEvent G guid = L1ContractEventWithFilter G (no_filter\<lparr>cf_GUID := guid\<rparr>)"

definition L2ContractEvent :: "gorms \<Rightarrow> uuid \<Rightarrow> db \<Rightarrow> ContractEvent option result" where
  "L2ContractEvent G guid = L2ContractEventWithFilter G (no_filter\<lparr>cf_GUID := guid\<rparr>)"

text \<open>The columns are compared with the texts as they are given.\<close>

definition contract_events_between :: "string \<Rightarrow> string \<Rightarrow> int \<Rightarrow> int \<Rightarrow> ContractEvent \<Rightarrow> bool" where
  "contract_events_between add eventSignature fromTimestamp toTimestamp r =
     (uint (ce_Timestamp r) > fromTimestamp \<and> uint (ce_Timestamp r) < toTimestamp \<and>
      address_text (ce_ContractAddress r) = add \<and> hash_text (ce_EventSignature r) = eventSignature)"

definition L1ContractEventsWithContractFilter :: "gorms \<Rightarrow> string \<Rightarrow> string \<Rightarrow> int \<Rightarrow> int \<Rightarrow> db \<Rightarrow> ContractEvent list result" where
  "L1ContractEventsWithContractFilter G add sig fromT toT s =
     bindR (empty_if_not_found (g_find (G_events G) (contract_events_between add sig fromT toT) (l1_contract_events s)))
       (\<lambda>es. Ok (map AfterFind es))"

definition L2ContractEventsWithContractFilter :: "gorms \<Rightarrow> string \<Rightarrow> string \<Rightarrow> int \<Rightarrow> int \<Rightarrow> db \<Rightarrow> ContractEvent list result" where
  "L2ContractEventsWithContractFilter G add sig fromT toT s =
     bindR (empty_if_not_found (g_find (G_events G) (contract_events_between add sig fromT toT) (l2_contract_events s)))
       (\<lambda>es. Ok (map AfterFind es))"

text \<open>INNER JOIN ... ON events.block_hash = headers.hash.\<close>

definition join_headers :: "ContractEvent list \<Rightarrow> BlockHeader list \<Rightarrow> (ContractEvent \<times> BlockHeader) list" where
  "join_headers es hs = [(e, h). e \<leftarrow> es, h \<leftarrow> hs, ce_BlockHash e = bh_Hash h]"

definition L1ContractEventsWithFilter :: "gorms \<Rightarrow> ContractEvent_filter \<Rightarrow> int option \<Rightarrow> int option \<Rightarrow> db \<Rightarrow> ContractEvent list result" where
  "L1ContractEventsWithFilter G f fromHeight toHeight s =
     (let from = (case fromHeight of None \<Rightarrow> 0 | Some n \<Rightarrow> n) in
      case toHeight of
        None \<Rightarrow> Err (Msg ''end height unspecified'')
      | Some to \<Rightarrow>
          if from > to then Err (Msg ''fromHeight is greater than toHeight'')
          else bindR (empty_if_not_found (g_find_asc (G_events_headers G)
                 (\<lambda>(e, h). event_filter f e \<and> bh_Number h \<ge> from \<and> bh_Number h \<le> to)
                 (\<lambda>(e, h). bh_Number h)
                 (join_headers (l1_contract_events s) (l1_block_headers s))))
               (\<lambda>rows. Ok (map (\<lambda>(e, h). AfterFind e) rows)))"

definition L2ContractEventsWithFilter :: "gorms \<Rightarrow> ContractEvent_filter \<Rightarrow> int option \<Rightarrow> int option \<Rightarrow> db \<Rightarrow> ContractEvent list result" where
  "L2ContractEventsWithFilter G f fromHeight toHeight s =
     (let from = (case fromHeight of None \<Rightarrow> 0 | Some n \<Rightarrow> n) in
      case toHeight of
        None \<Rightarrow> Err (Msg ''end height unspecified'')
      | Some to \<Rightarrow>
          if from > to then Err (Msg ''fromHeight is greater than toHeight'')
          else bindR (empty_if_not_found (g_find_asc (G_events_headers G)
                 (\<lambda>(e, h). event_filter f e \<and> bh_Number h \<ge> from \<and> bh_Number h \<le> to)
                 (\<lambda>(e, h). bh_Number h)
                 (join_headers (l2_contract_events s) (l2_block_headers s))))
               (\<lambda>rows. Ok (map (\<lambda>(e, h). AfterFind e) rows)))"

definition L1LatestContractEventWithFilter :: "gorms \<Rightarrow> ContractEvent_filter \<Rightarrow> db \<Rightarrow> ContractEvent option result" where
  "L1LatestContractEventWithFilter G f s = found_event (nil_if_not_found
     (g_take_desc (G_events G) (event_filter f) (\<lambda>r. uint (ce_Timestamp r)) (l1_contract_events s)))"

definition L2LatestContractEventWithFilter :: "gorms \<Rightarrow> ContractEvent_filter \<Rightarrow> db \<Rightarrow> ContractEvent option result" where
  "L2LatestContractEventWithFilter G f s = found_event (nil_if_not_found
     (g_take_desc (G_events G) (event_filter f) (\<lambda>r. uint (ce_Timestamp r)) (l2_contract_events s)))"

definition ContractEventsWithFilter :: "gorms \<Rightarrow> ContractEvent_filter \<Rightarrow> string \<Rightarrow> int option \<Rightarrow> int option \<Rightarrow> db \<Rightarrow> ContractEvent list result" where
  "ContractEventsWithFilter G f chainSelector fromHeight toHeight s =
     (if chainSelector = ''l1'' then L1ContractEventsWithFilter G f fromHeight toHeight s
      else if chainSelector = ''l2'' then L2ContractEventsWithFilter G f fromHeight toHeight s
      else Err (Msg ''expected 'l1' or 'l2' for chain selection''))"

section \<open>Proven and finalized withdrawals, relayed messages\<close>

definition max_header :: "gorms \<Rightarrow> int option list \<Rightarrow> BlockHeader list \<Rightarrow> BlockHeader option result" where
  "max_header G ns hs = nil_if_not_found (g_take (G_headers G) (\<lambda>r. Some (bh_Number r) = sql_max ns) hs)"

definition WithdrawProvenL1BlockHeader :: "gorms \<Rightarrow> db \<Rightarrow> BlockHeader option result" where
  "WithdrawProvenL1BlockHeader G s = max_header G (map wp_BlockNumber (withdraw_proven s)) (l1_block_headers s)"

definition StoreWithdrawProven :: "gorms \<Rightarrow> WithdrawProven list \<Rightarrow> (db, unit) go" where
  "StoreWithdrawProven G rs = zoomG withdraw_proven withdraw_proven_update (g_create (G_proven G) rs)"

definition proven_cond :: "WithdrawProven \<Rightarrow> WithdrawProven \<Rightarrow> bool" where
  "proven_cond x r = where_field (wp_WithdrawHash x) (wp_WithdrawHash r)"

definition MarkedWithdrawProvenRelated :: "gorms \<Rightarrow> WithdrawProven list \<Rightarrow> (db, unit) go" where
  "MarkedWithdrawProvenRelated G xs = zoomG withdraw_proven withdraw_proven_update
     (update_each (G_proven G) never_skip proven_cond (\<lambda>x r. Ok (r\<lparr>wp_Related := True\<rparr>)) xs)"

definition UpdateWithdrawProvenInfo :: "gorms \<Rightarrow> WithdrawProven list \<Rightarrow> (db, unit) go" where
  "UpdateWithdrawProvenInfo G xs = zoomG withdraw_proven withdraw_proven_update
     (update_each (G_proven G) never_skip proven_cond
       (\<lambda>x r. Ok (r\<lparr>wp_L1TokenAddress := wp_L1TokenAddress x, wp_L2TokenAddress := wp_L2TokenAddress x,
          wp_ETHAmount := wp_ETHAmount x, wp_ERC20Amount := wp_ERC20Amount x,
          wp_MessageHash := wp_MessageHash x\<rparr>)) xs)"

text \<open>The unrelated lists log an error of the query and return what was read, nothing.\<close>

definition rows_or_empty :: "'r list result \<Rightarrow> 'r list result" where
  "rows_or_empty res = (case res of Ok rs \<Rightarrow> Ok rs | Err e \<Rightarrow> Ok [] | Panic p \<Rightarrow> Panic p)"

definition WithdrawProvenUnRelatedList :: "gorms \<Rightarrow> db \<Rightarrow> WithdrawProven list result" where
  "WithdrawProvenUnRelatedList G s = rows_or_empty (g_find (G_proven G) (\<lambda>r. \<not> wp_Related r) (withdraw_proven s))"

definition WithdrawFinalizedL1BlockHeader :: "gorms \<Rightarrow> db \<Rightarrow> BlockHeader option result" where
  "WithdrawFinalizedL1BlockHeader G s =
     max_header G (map wf_BlockNumber (withdraw_finalized s)) (l1_block_headers s)"

definition StoreWithdrawFinalized :: "gorms \<Rightarrow> WithdrawFinalized list \<Rightarrow> (db, unit) go" where
  "StoreWithdrawFinalized G rs = zoomG withdraw_finalized withdraw_finalized_update (g_create (G_finalized G) rs)"

definition finalized_cond :: "WithdrawFinalized \<Rightarrow> WithdrawFinalized \<Rightarrow> bool" where
  "finalized_cond x r = where_field (wf_WithdrawHash x) (wf_WithdrawHash r)"

definition MarkedWithdrawFinalizedRelated :: "gorms \<Rightarrow> WithdrawFinalized list \<Rightarrow> (db, unit) go" where
  "MarkedWithdrawFinalizedRelated G xs = zoomG withdraw_finalized withdraw_finalized_update
     (update_each (G_finalized G) never_skip finalized_cond (\<lambda>x r. Ok (r\<lparr>wf_Related := True\<rparr>)) xs)"

definition UpdateWithdrawFinalizedInfo :: "gorms \<Rightarrow> WithdrawFinalized list \<Rightarrow> (db, unit) go" where
  "UpdateWithdrawFinalizedInfo G xs = zoomG withdraw_finalized withdraw_finalized_update
     (update_each (G_finalized G) never_skip finalized_cond
       (\<lambda>x r. Ok (r\<lparr>wf_L1TokenAddress := wf_L1TokenAddress x, wf_L2TokenAddress := wf_L2TokenAddress x,
          wf_ETHAmount := wf_ETHAmount x, wf_ERC20Amount := wf_ERC20Amount x,
          wf_MessageHash := wf_MessageHash x\<rparr>)) xs)"

definition WithdrawFinalizedUnRelatedList :: "gorms \<Rightarrow> db \<Rightarrow> WithdrawFinalized list result" where
  "WithdrawFinalizedUnRelatedList G s =
     rows_or_empty (g_find (G_finalized G) (\<lambda>r. \<not> wf_Related r) (withdraw_finalized s))"

definition RelayMessageL1BlockHeader :: "gorms \<Rightarrow> db \<Rightarrow> BlockHeader option result" where
  "RelayMessageL1BlockHeader G s = max_header G (map rm_BlockNumber (relay_message s)) (l1_block_headers s)"

definition StoreRelayMessage :: "gorms \<Rightarrow> RelayMessage list \<Rightarrow> (db, unit) go" where
  "StoreRelayMessage G rs = zoomG relay_message relay_message_update (g_create (G_relay G) rs)"

definition relay_cond :: "RelayMessage \<Rightarrow> RelayMessage \<Rightarrow> bool" where
  "relay_cond x r = where_field (rm_MessageHash x) (rm_MessageHash r)"

definition MarkedRelayMessageRelated :: "gorms \<Rightarrow> RelayMessage list \<Rightarrow> (db, unit) go" where
  "MarkedRelayMessageRelated G xs = zoomG relay_message relay_message_update
     (update_each (G_relay G) never_skip relay_cond (\<lambda>x r. Ok (r\<lparr>rm_Related := True\<rparr>)) xs)"

definition UpdateRelayMessageInfo :: "gorms \<Rightarrow> RelayMessage list \<Rightarrow> (db, unit) go" where
  "UpdateRelayMessageInfo G xs = zoomG relay_message relay_message_update
     (update_each (G_relay G) never_skip relay_cond
       (\<lambda>x r. Ok (r\<lparr>rm_L1TokenAddress := rm_L1TokenAddress x, rm_L2TokenAddress := rm_L2TokenAddress x,
          rm_ETHAmount := rm_ETHAmount x, rm_ERC20Amount := rm_ERC20Amount x,
          rm_MessageHash := rm_MessageHash x\<rparr>)) xs)"

definition RelayMessageUnRelatedList :: "gorms \<Rightarrow> db \<Rightarrow> RelayMessage list result" where
  "RelayMessageUnRelatedList G s = rows_or_empty (g_find (G_relay G) (\<lambda>r. \<not> rm_Related r) (relay_message s))"

section \<open>Data store events\<close>

definition DataStoreEventListByRange :: "gorms \<Rightarrow> u64 \<Rightarrow> u64 \<Rightarrow> db \<Rightarrow> DataStoreEvent list result" where
  "DataStoreEventListByRange G fromId endId s =
     g_find_asc (G_daevent G) (\<lambda>r. fromId < de_DataStoreId r \<and> de_DataStoreId r < endId)
       (\<lambda>r. uint (de_Timestamp r)) (data_store_event s)"

definition StoreBatchDataStoreEvent :: "gorms \<Rightarrow> DataStoreEvent list \<Rightarrow> (db, unit) go" where
  "StoreBatchDataStoreEvent G es = zoomG data_store_event data_store_event_update (g_create (G_daevent G) es)"

section \<open>Events by height\<close>

text \<open>With distinct header hashes the join has at most one row for each event.\<close>

definition header_of :: "BlockHeader list \<Rightarrow> ContractEvent \<Rightarrow> BlockHeader option" where
  "header_of hs e = List.find (\<lambda>h. ce_BlockHash e = bh_Hash h) hs"

definition in_heights :: "BlockHeader list \<Rightarrow> int \<Rightarrow> int \<Rightarrow> ContractEvent \<Rightarrow> bool" where
  "in_heights hs from to e = (case header_of hs e of None \<Rightarrow> False | Some h \<Rightarrow> from \<le> bh_Number h \<and> bh_Number h \<le> to)"

lemma filter_header_of:
  "distinct (map bh_Hash hs) \<Longrightarrow>
     filter (\<lambda>h. ce_BlockHash e = bh_Hash h) hs = (case header_of hs e of None \<Rightarrow> [] | Some h \<Rightarrow> [h])"
proof (induction hs)
  case (Cons h hs)
  then show ?case
    by (auto simp: header_of_def filter_empty_conv split: option.splits)
qed (simp add: header_of_def)

lemma join_headers_Cons:
  "join_headers (e # es) hs = map (Pair e) (filter (\<lambda>h. ce_BlockHash e = bh_Hash h) hs) @ join_headers es hs"
proof -
  have "concat (map (\<lambda>h. if ce_BlockHash e = bh_Hash h then [(e, h)] else []) hs)
      = map (Pair e) (filter (\<lambda>h. ce_BlockHash e = bh_Hash h) hs)"
    by (induction hs) auto
  then show ?thesis by (simp add: join_headers_def)
qed

lemma join_headers_range:
  assumes "distinct (map bh_Hash hs)"
  shows "map fst (filter (\<lambda>(e, h). P e \<and> bh_Number h \<ge> from \<and> bh_Number h \<le> to) (join_headers es hs))
       = filter (\<lambda>e. P e \<and> in_heights hs from to e) es"
proof (induction es)
  case Nil
  then show ?case by (simp add: join_headers_def)
next
  case (Cons e es)
  then show ?case
    by (simp add: join_headers_Cons filter_header_of[OF assms] in_heights_def split: option.splits)
qed

lemma map_fst_split: "map (\<lambda>(e, h). AfterFind e) ps = map AfterFind (map fst ps)"
  by (induction ps) auto

text \<open>The events of a range of heights, as a multiset.\<close>

definition range_events :: "ContractEvent_filter \<Rightarrow> ContractEvent list \<Rightarrow> BlockHeader list \<Rightarrow> int \<Rightarrow> int
    \<Rightarrow> ContractEvent multiset" where
  "range_events f es hs from to = mset (map AfterFind (filter (\<lambda>e. event_filter f e \<and> in_heights hs from to e) es))"

lemma find_range_events:
  assumes "gorms_ok G" "distinct (map bh_Hash hs)"
    and "empty_if_not_found (g_find_asc (G_events_headers G)
           (\<lambda>(e, h). event_filter f e \<and> bh_Number h \<ge> from \<and> bh_Number h \<le> to) k (join_headers es hs)) = Ok rows"
  shows "mset (map (\<lambda>(e, h). AfterFind e) rows) = range_events f es hs from to"
proof -
  let ?P = "\<lambda>(e, h). event_filter f e \<and> bh_Number h \<ge> from \<and> bh_Number h \<le> to"
  have "g_find_asc (G_events_headers G) ?P k (join_headers es hs) = Ok rows"
    using assms(3) by (simp only: gorm_find_asc(4)[OF gorms_okD(4)[OF assms(1)]])
  then have "mset rows = mset (filter ?P (join_headers es hs))"
    by (rule gorm_find_asc(1)[OF gorms_okD(4)[OF assms(1)]])
  then have "mset (map fst rows) = mset (map fst (filter ?P (join_headers es hs)))" by (simp only: mset_map)
  also have "\<dots> = mset (filter (\<lambda>e. event_filter f e \<and> in_heights hs from to e) es)"
    by (simp only: join_headers_range[OF assms(2)])
  finally have "image_mset AfterFind (mset (map fst rows))
      = image_mset AfterFind (mset (filter (\<lambda>e. event_filter f e \<and> in_heights hs from to e) es))" by simp
  then show ?thesis by (simp only: map_fst_split range_events_def mset_map)
qed

lemma range_events_split:
  assumes "from \<le> mid" "mid < to"
  shows "range_events f es hs from to = range_events f es hs from mid + range_events f es hs (mid + 1) to"
proof -
  have split: "in_heights hs from to e = (in_heights hs from mid e \<or> in_heights hs (mid + 1) to e)"
    "\<not> (in_heights hs from mid e \<and> in_heights hs (mid + 1) to e)" for e
    using assms by (auto simp: in_heights_def split: option.splits)
  have "mset (filter (\<lambda>e. event_filter f e \<and> in_heights hs from to e) es)
      = mset (filter (\<lambda>e. event_filter f e \<and> in_heights hs from mid e) es)
      + mset (filter (\<lambda>e. event_filter f e \<and> in_heights hs (mid + 1) to e) es)"
    using split by (induction es) auto
  then show ?thesis by (simp add: range_events_def)
qed

section \<open>Properties\<close>

text \<open>C33: adjacent windows of heights cut the events of a contract exactly: what a query for the whole
  range returns is, event for event, what the queries for its two halves return together, for both
  chains, so a processor that walks a chain window by window sees every event once.\<close>

theorem event_windows_partition:
  assumes "gorms_ok G" and "distinct (map bh_Hash (l1_block_headers s))" "distinct (map bh_Hash (l2_block_headers s))"
    and "chain = ''l1'' \<or> chain = ''l2''"
    and "ContractEventsWithFilter G f chain (Some from) (Some to) s = Ok es"
    and "ContractEventsWithFilter G f chain (Some from) (Some mid) s = Ok es1"
    and "ContractEventsWithFilter G f chain (Some (mid + 1)) (Some to) s = Ok es2"
  shows "mset es = mset es1 + mset es2"
proof -
  have m: "from \<le> mid" "mid < to"
    using assms(4,6,7) by (auto simp: ContractEventsWithFilter_def L1ContractEventsWithFilter_def
        L2ContractEventsWithFilter_def split: if_splits)
  have q: "mset rs = (if chain = ''l1'' then range_events f (l1_contract_events s) (l1_block_headers s) a b
                      else range_events f (l2_contract_events s) (l2_block_headers s) a b)"
    if "ContractEventsWithFilter G f chain (Some a) (Some b) s = Ok rs" for a b rs
    using that assms(4) find_range_events[OF assms(1,2)] find_range_events[OF assms(1,3)]
    by (auto simp: ContractEventsWithFilter_def L1ContractEventsWithFilter_def
        L2ContractEventsWithFilter_def split: if_splits)
  show ?thesis using q[OF assms(5)] q[OF assms(6)] q[OF assms(7)] range_events_split[OF m] by simp
qed

definition sample_event :: "uuid \<Rightarrow> hash \<Rightarrow> ContractEvent" where
  "sample_event g b = \<lparr>ce_GUID = g, ce_BlockHash = b, ce_ContractAddress = 9, ce_TransactionHash = 3,
     ce_LogIndex = 0, ce_EventSignature = 4, ce_Timestamp = 0,
     ce_RLPLog = \<lparr>Address = 9, Topics = [4], Data = [], BlockNumber = 0, TxHash = 3, BlockHash = b, Index = 0\<rparr>\<rparr>"

definition sample_row :: "hash \<Rightarrow> int \<Rightarrow> BlockHeader" where
  "sample_row b n = \<lparr>bh_Hash = b, bh_ParentHash = b - 1, bh_Number = n, bh_Timestamp = 0,
     bh_RLPHeader = \<lparr>ParentHash = b - 1, Number = n, Time = 0, Rest = []\<rparr>\<rparr>"

definition sample_db :: db where
  "sample_db = empty_db\<lparr>l1_block_headers := [sample_row 1 1, sample_row 2 2, sample_row 3 3],
     l1_contract_events := [sample_event 30 3, sample_event 10 1, sample_event 11 1]\<rparr>"

theorem event_windows_partition_witness:
  "mset [sample_event 10 1, sample_event 11 1, sample_event 30 3]
     = mset [sample_event 10 1, sample_event 11 1] + mset [sample_event 30 3]"
proof -
  have q: "ContractEventsWithFilter mem_gorms no_filter ''l1'' (Some 1) (Some 3) sample_db
      = Ok [sample_event 10 1, sample_event 11 1, sample_event 30 3]"
    "ContractEventsWithFilter mem_gorms no_filter ''l1'' (Some 1) (Some 2) sample_db
      = Ok [sample_event 10 1, sample_event 11 1]"
    "ContractEventsWithFilter mem_gorms no_filter ''l1'' (Some (2 + 1)) (Some 3) sample_db = Ok [sample_event 30 3]"
    by (simp_all add: ContractEventsWithFilter_def L1ContractEventsWithFilter_def sample_db_def empty_db_def
        join_headers_def sample_row_def sample_event_def event_filter_def no_filter_def where_field_def
        empty_if_not_found_def AfterFind_def rlp_log_def)
  show ?thesis
    by (rule event_windows_partition[OF mem_gorms_ok _ _ _ q])
       (simp_all add: sample_db_def empty_db_def sample_row_def)
qed

text \<open>A contract event read back from its table carries the log it was made from, except for the
  block number: the encoding drops it and the hook that restores the position of the log does not
  set it.\<close>

lemma stored_log_restored:
  "ce_RLPLog (AfterFind (ContractEventFromLog guid l ts)) = l\<lparr>BlockNumber := 0\<rparr>
   \<and> AfterFind (AfterFind (ContractEventFromLog guid l ts)) = AfterFind (ContractEventFromLog guid l ts)"
  by (simp add: AfterFind_def ContractEventFromLog_def rlp_log_def Let_def)

end
