(* ===== verification/BigintUtil.thy ===== *)
theory BigintUtil
  imports Prelude
begin

text \<open>
  common/bigint/bigint.go: the arithmetic on block heights that the header traversal is built on.
  A non-nil big.Int is an int; uint64 values are 64-bit words, so the count of a range wraps.
\<close>

definition Clamp :: "int \<Rightarrow> int \<Rightarrow> u64 \<Rightarrow> int" where
  "Clamp start endd sz =
     (let count = big_Uint64 (endd - start) + 1 in
      if count \<le> sz then endd
      else start + sint (sz - 1))"

definition Matcher :: "int \<Rightarrow> int \<Rightarrow> bool" where
  "Matcher num bi = (big_Int64 bi = num)"

text \<open>The count of an inclusive range that fits in uint64.\<close>

lemma count_of_range:
  assumes "start \<le> endd" and "endd - start < 2 ^ 64 - 1"
  shows "uint (big_Uint64 (endd - start) + 1) = endd - start + 1"
proof -
  define d where "d = endd - start"
  have d: "0 \<le> d" "d < 2 ^ 64 - 1" using assms by (simp_all add: d_def)
  have "uint (word_of_int \<bar>d\<bar> + 1 :: u64) = (d + 1) mod 2 ^ 64"
    using d by (simp add: uint_word_ariths uint_word_of_int mod_simps)
  then have "uint (big_Uint64 d + 1) = d + 1"
    using d by (simp add: big_Uint64_def)
  then show ?thesis by (simp only: d_def)
qed

lemma sint_pred:
  assumes "0 < sz" "sz \<le> 2 ^ 63"
  shows "sint (sz - 1 :: u64) = uint sz - 1"
proof -
  have "uint sz \<ge> 1" using assms(1) by (simp add: word_less_def)
  moreover have "uint sz \<le> 2 ^ 63" using assms(2) by (simp add: word_le_def)
  moreover from calculation have "uint (sz - 1) = uint sz - 1"
    by (simp add: uint_word_ariths)
  ultimately show ?thesis
    by (simp add: sint_uint signed_take_bit_int_eq_self)
qed

lemma Clamp_eq:
  assumes "start \<le> endd" "endd - start < 2 ^ 64 - 1" "0 < sz" "sz \<le> 2 ^ 63"
  shows "Clamp start endd sz = min endd (start + uint sz - 1)"
proof -
  let ?c = "big_Uint64 (endd - start) + 1"
  have c: "uint ?c = endd - start + 1" by (rule count_of_range[OF assms(1,2)])
  have "?c \<le> sz \<longleftrightarrow> endd - start + 1 \<le> uint sz"
    by (simp only: word_le_def c)
  then show ?thesis
    using sint_pred[OF assms(3,4)] by (auto simp: Clamp_def Let_def)
qed

lemma Clamp_range:
  assumes "start \<le> endd" "endd - start < 2 ^ 64 - 1" "0 < sz" "sz \<le> 2 ^ 63"
  shows "start \<le> Clamp start endd sz" and "Clamp start endd sz \<le> endd"
    and "Clamp start endd sz - start + 1 \<le> uint sz"
proof -
  have "1 \<le> uint sz" using assms(3) by (simp add: word_less_def)
  then show "start \<le> Clamp start endd sz" "Clamp start endd sz \<le> endd"
    "Clamp start endd sz - start + 1 \<le> uint sz"
    using assms Clamp_eq[OF assms] by auto
qed

text \<open>A size of zero clamps to one below the start: the range is then empty.\<close>

lemma Clamp_zero:
  assumes "start \<le> endd" "endd - start < 2 ^ 64 - 1"
  shows "Clamp start endd 0 = start - 1"
proof -
  have "\<not> (big_Uint64 (endd - start) + 1 \<le> 0)"
    using count_of_range[OF assms] assms(1) by (simp only: word_le_def) simp
  then show ?thesis by (simp add: Clamp_def Let_def)
qed

end
