(* ===== verification/Retry.thy ===== *)
theory Retry
  imports Prelude
begin

text \<open>
  synchronizer/retry: retrying an operation with delays.  The operation is a family of
  computations indexed by the attempt, because the services it calls may answer differently each
  time; the context is a map from the number of polls made to its error.  \<open>retry_Do\<close> returns the
  delays it slept beside the result.  Durations are int64 nanoseconds, read as int with wrap64
  where the code adds them; float64 rounding is written out in \<open>float64\<close>.
\<close>

text \<open>float64(x) for an integer x that is not negative: exact below 2 ^ 53, otherwise rounded to a
  significand of 53 bits, ties to even.\<close>

fun bits_len :: "nat \<Rightarrow> nat" where
  "bits_len n = (if n = 0 then 0 else Suc (bits_len (n div 2)))"

declare bits_len.simps [simp del]

definition float64 :: "int \<Rightarrow> int" where
  "float64 x = (if x < 2 ^ 53 then x else
     (let e = bits_len (nat x) - 53; q = x div 2 ^ e; r = x mod 2 ^ e;
          up = (2 * r > 2 ^ e \<or> (2 * r = 2 ^ e \<and> odd q)) in
      (q + (if up then 1 else 0)) * 2 ^ e))"

record ExponentialStrategy =
  es_Min :: int
  es_Max :: int
  es_MaxJitter :: int

text \<open>math/rand.Int63n returns a draw reduced to the range [0, n).\<close>

definition Int63n :: "nat \<Rightarrow> int \<Rightarrow> int" where
  "Int63n draw n = int draw mod n"

definition Second :: int where "Second = 1000000000"
definition Millisecond :: int where "Millisecond = 1000000"

definition ExponentialStrategy_Duration :: "ExponentialStrategy \<Rightarrow> nat \<Rightarrow> int \<Rightarrow> int" where
  "ExponentialStrategy_Duration e draw attempt =
     (let jitter = (if es_MaxJitter e > 0 then Int63n draw (es_MaxJitter e) else 0) in
      if attempt < 0 then wrap64 (es_Min e + jitter)
      else (let durFloat = float64 (float64 (es_Min e) + 2 ^ nat attempt * Second);
                dur = (if durFloat > float64 (es_Max e) then es_Max e else durFloat) in
            wrap64 (dur + jitter)))"

definition Exponential :: ExponentialStrategy where
  "Exponential = \<lparr>es_Min = 0, es_Max = 10 * Second, es_MaxJitter = 250 * Millisecond\<rparr>"

record FixedStrategy =
  fs_Dur :: int

definition FixedStrategy_Duration :: "FixedStrategy \<Rightarrow> int \<Rightarrow> int" where
  "FixedStrategy_Duration f attempt = fs_Dur f"

definition Fixed :: "int \<Rightarrow> FixedStrategy" where
  "Fixed dur = \<lparr>fs_Dur = dur\<rparr>"

text \<open>The loop of Do: \<open>left\<close> iterations remain, the current one is number i and err holds the last
  error.  \<open>ctx i\<close> is what ctx.Err() returns when iteration i starts.\<close>

fun do_loop :: "(nat \<Rightarrow> error option) \<Rightarrow> (int \<Rightarrow> int) \<Rightarrow> (nat \<Rightarrow> ('s, 'a) go) \<Rightarrow> int \<Rightarrow> nat \<Rightarrow> nat \<Rightarrow> error
    \<Rightarrow> 's \<Rightarrow> 'a result \<times> int list \<times> 's" where
  "do_loop ctx dur oper maxA 0 i err s = (Err (FailedPermanently maxA err), [], s)"
| "do_loop ctx dur oper maxA (Suc left) i err s =
     (case ctx i of
        Some ce \<Rightarrow> (Err ce, [], s)
      | None \<Rightarrow>
          (case oper i s of
             (Ok a, s') \<Rightarrow> (Ok a, [], s')
           | (Panic p, s') \<Rightarrow> (Panic p, [], s')
           | (Err e, s') \<Rightarrow>
               (let slept = (if int i \<noteq> maxA - 1 then [dur (int i)] else []);
                    rest = do_loop ctx dur oper maxA left (Suc i) e s' in
                (fst rest, slept @ fst (snd rest), snd (snd rest)))))"

definition retry_Do :: "(nat \<Rightarrow> error option) \<Rightarrow> int \<Rightarrow> (int \<Rightarrow> int) \<Rightarrow> (nat \<Rightarrow> ('s, 'a) go)
    \<Rightarrow> 's \<Rightarrow> 'a result \<times> int list \<times> 's" where
  "retry_Do ctx maxAttempts dur oper s =
     (if maxAttempts < 1 then (Err (Msg ''need at least 1 attempt to run op''), [], s)
      else do_loop ctx dur oper maxAttempts (nat maxAttempts) 0 (Msg ''nil'') s)"

text \<open>Do2 pairs the two results; on failure both are the zero values of their types.\<close>

definition retry_Do2 :: "(nat \<Rightarrow> error option) \<Rightarrow> int \<Rightarrow> (int \<Rightarrow> int) \<Rightarrow> (nat \<Rightarrow> ('s, 'a \<times> 'b) go)
    \<Rightarrow> 's \<Rightarrow> ('a \<times> 'b) result \<times> int list \<times> 's" where
  "retry_Do2 ctx maxAttempts dur oper s = retry_Do ctx maxAttempts dur oper s"

section \<open>Durations\<close>

lemma bits_len_lower: "n \<noteq> 0 \<Longrightarrow> 2 ^ (bits_len n - 1) \<le> n"
proof (induction n rule: bits_len.induct)
  case (1 n)
  show ?case
  proof (cases "n div 2 = 0")
    case True
    then show ?thesis using 1 by (simp add: bits_len.simps)
  next
    case False
    then have IH: "2 ^ (bits_len (n div 2) - 1) \<le> n div 2" using 1 by blast
    have "bits_len (n div 2) > 0" using False by (subst bits_len.simps) simp
    then obtain k where k: "bits_len (n div 2) = Suc k" by (cases "bits_len (n div 2)") auto
    have "bits_len n = Suc (Suc k)" using False k by (subst bits_len.simps) auto
    then show ?thesis using IH k by simp
  qed
qed

lemma bits_len_upper: "n < 2 ^ bits_len n"
proof (induction n rule: bits_len.induct)
  case (1 n)
  show ?case
  proof (cases "n = 0")
    case True
    then show ?thesis by simp
  next
    case False
    then have "n div 2 < 2 ^ bits_len (n div 2)" using 1 by blast
    moreover have "bits_len n = Suc (bits_len (n div 2))" using False by (subst bits_len.simps) simp
    ultimately show ?thesis by simp
  qed
qed

lemma float64_small [simp]: "x < 2 ^ 53 \<Longrightarrow> float64 x = x"
  by (simp add: float64_def)

lemma float64_large: "2 ^ 53 \<le> x \<Longrightarrow> 2 ^ 53 \<le> float64 x"
proof -
  assume x: "2 ^ 53 \<le> x"
  define e where "e = bits_len (nat x) - 53"
  have nx: "2 ^ 53 \<le> nat x" using x by simp
  have len: "53 < bits_len (nat x)"
  proof (rule ccontr)
    assume "\<not> ?thesis"
    then have "(2::nat) ^ bits_len (nat x) \<le> 2 ^ 53" by (intro power_increasing) auto
    then show False using bits_len_upper[of "nat x"] nx by linarith
  qed
  have "(2::nat) ^ (bits_len (nat x) - 1) \<le> nat x" by (rule bits_len_lower) (use nx in auto)
  moreover have "bits_len (nat x) - 1 = 52 + e" using len by (simp add: e_def)
  ultimately have "(2::nat) ^ 52 * 2 ^ e \<le> nat x" by (simp only: power_add)
  then have "int (2 ^ 52 * 2 ^ e) \<le> int (nat x)" by (rule of_nat_mono)
  then have "2 ^ 52 * 2 ^ e \<le> x" using x by simp
  then have "(2 ^ 52 * 2 ^ e) div 2 ^ e \<le> x div 2 ^ e" by (intro zdiv_mono1) auto
  then have "(2 ^ 52 :: int) \<le> x div 2 ^ e" by simp
  moreover have "1 \<le> e" using len by (simp add: e_def)
  then have "(2::int) \<le> 2 ^ e" using power_increasing[of 1 e "2::int"] by simp
  ultimately have "(2 ^ 52 :: int) * 2 \<le> (x div 2 ^ e) * 2 ^ e" by (intro mult_mono) auto
  then have q: "2 ^ 53 \<le> (x div 2 ^ e) * 2 ^ e" by simp
  have "float64 x = (x div 2 ^ e + (if 2 * (x mod 2 ^ e) > 2 ^ e \<or> (2 * (x mod 2 ^ e) = 2 ^ e \<and> odd (x div 2 ^ e)) then 1 else 0)) * 2 ^ e"
    using x by (simp add: float64_def e_def Let_def)
  also have "\<dots> \<ge> (x div 2 ^ e) * 2 ^ e" by (intro mult_right_mono) auto
  finally show ?thesis using q by linarith
qed

text \<open>A sum of float64 values above a bound below 2 ^ 53 stays above it when rounded.\<close>

lemma float64_gt: "m < 2 ^ 53 \<Longrightarrow> m < x \<Longrightarrow> m < float64 x"
  using float64_large[of x] by (cases "x < 2 ^ 53") auto

lemma float64_le: "m < 2 ^ 53 \<Longrightarrow> x \<le> m \<Longrightarrow> float64 x = x"
  by simp

section \<open>What the strategies promise\<close>

lemma Int63n_range: "0 < n \<Longrightarrow> 0 \<le> Int63n draw n \<and> Int63n draw n < n"
  by (simp add: Int63n_def)

definition jitter_of :: "ExponentialStrategy \<Rightarrow> nat \<Rightarrow> int" where
  "jitter_of e draw = (if es_MaxJitter e > 0 then Int63n draw (es_MaxJitter e) else 0)"

lemma jitter_of_range: "0 \<le> jitter_of e draw \<and> jitter_of e draw \<le> max 0 (es_MaxJitter e - 1)"
  using Int63n_range[of "es_MaxJitter e" draw] by (auto simp: jitter_of_def)

definition strategy_ok :: "ExponentialStrategy \<Rightarrow> bool" where
  "strategy_ok e = (0 \<le> es_Min e \<and> es_Min e \<le> 2 ^ 52 \<and> 0 \<le> es_Max e \<and> es_Max e \<le> 2 ^ 52
                    \<and> es_MaxJitter e \<le> 2 ^ 52)"

lemma Duration_eq:
  assumes "strategy_ok e" "0 \<le> attempt"
  shows "ExponentialStrategy_Duration e draw attempt
       = min (es_Min e + 2 ^ nat attempt * Second) (es_Max e) + jitter_of e draw"
proof -
  define x where "x = es_Min e + 2 ^ nat attempt * Second"
  have ok: "0 \<le> es_Min e" "es_Min e < 2 ^ 53" "0 \<le> es_Max e" "es_Max e < 2 ^ 53" "es_Max e \<le> 2 ^ 52"
    "es_MaxJitter e \<le> 2 ^ 52"
    using assms(1) by (auto simp: strategy_ok_def)
  have x0: "0 \<le> x" using ok by (simp add: x_def Second_def)
  have mins: "(if float64 x > float64 (es_Max e) then es_Max e else float64 x) = min x (es_Max e)"
  proof (cases "x \<le> es_Max e")
    case True
    then show ?thesis using ok by (simp add: min_def)
  next
    case False
    then have "es_Max e < float64 x" using float64_gt[OF ok(4), of x] by simp
    then show ?thesis using ok False by (simp add: min_def)
  qed
  have "0 \<le> min x (es_Max e) + jitter_of e draw" "min x (es_Max e) + jitter_of e draw < 2 ^ 63"
    using jitter_of_range[of e draw] ok x0 by (auto simp: min_def)
  then have "wrap64 (min x (es_Max e) + jitter_of e draw) = min x (es_Max e) + jitter_of e draw"
    by (intro wrap64_id) auto
  then show ?thesis
    using assms(2) ok(2) mins
    by (simp add: ExponentialStrategy_Duration_def Let_def jitter_of_def [symmetric] x_def [symmetric])
qed

lemma Exponential_ok: "strategy_ok Exponential"
  by (simp add: strategy_ok_def Exponential_def Second_def Millisecond_def)

text \<open>The contract Do relies on: every delay lies between two bounds.\<close>

locale retry_strategy =
  fixes dur :: "int \<Rightarrow> int" and lo :: int and hi :: int
  assumes dur_lower: "0 \<le> a \<Longrightarrow> lo \<le> dur a"
    and dur_upper: "0 \<le> a \<Longrightarrow> dur a \<le> hi"
begin

lemma sleeps_bounds:
  assumes "d \<in> set (fst (snd (do_loop ctx dur oper maxA left i err s)))"
  shows "lo \<le> d \<and> d \<le> hi"
  using assms
  by (induction left arbitrary: i err s)
     (auto simp: Let_def intro: dur_lower dur_upper split: option.splits prod.splits result.splits if_splits)

lemma sleeps_length:
  assumes "int i + int left = maxA"
  shows "length (fst (snd (do_loop ctx dur oper maxA left i err s))) \<le> left - 1"
  using assms
proof (induction left arbitrary: i err s)
  case 0
  then show ?case by simp
next
  case (Suc left)
  have IH: "length (fst (snd (do_loop ctx dur oper maxA left (Suc i) e t))) \<le> left - 1" for e t
    using Suc by simp
  show ?case
  proof (cases "int i = maxA - 1")
    case True
    then have "left = 0" using Suc.prems by simp
    then show ?thesis using True by (auto simp: Let_def split: option.splits prod.splits result.splits)
  next
    case False
    then have "1 \<le> left" using Suc.prems by simp
    moreover have "length (fst (snd (do_loop ctx dur oper maxA left (Suc i) e t))) \<le> left" for e t
      using IH[of e t] by simp
    ultimately show ?thesis using IH
      by (auto simp: Let_def le_diff_conv2 add.commute split: option.splits prod.splits result.splits)
  qed
qed

lemma total_delay:
  assumes "0 \<le> hi" "1 \<le> maxA"
  shows "sum_list (fst (snd (retry_Do ctx maxA dur oper s))) \<le> (maxA - 1) * hi"
proof -
  let ?d = "fst (snd (do_loop ctx dur oper maxA (nat maxA) 0 (Msg ''nil'') s))"
  have len: "int (length ?d) \<le> maxA - 1"
    using sleeps_length[of 0 "nat maxA" maxA ctx oper "Msg ''nil''" s] assms(2) by linarith
  have "sum_list ?d \<le> int (length ?d) * hi"
    using sleeps_bounds[of _ ctx oper maxA "nat maxA" 0 "Msg ''nil''" s]
    sum_list_mono[of ?d id "\<lambda>_. hi"] by (auto simp: sum_list_triv)
  also have "\<dots> \<le> (maxA - 1) * hi" using len assms(1) by (intro mult_right_mono) auto
  finally show ?thesis using assms(2) by (simp add: retry_Do_def)
qed

end

interpretation fixed: retry_strategy "FixedStrategy_Duration (Fixed d)" d d for d
  by unfold_locales (simp_all add: FixedStrategy_Duration_def Fixed_def)

interpretation expo: retry_strategy "\<lambda>a. ExponentialStrategy_Duration Exponential (draws a) a"
  Second "10 * Second + 250 * Millisecond" for draws :: "int \<Rightarrow> nat"
proof unfold_locales
  fix a :: int assume a: "0 \<le> a"
  have "(1::int) \<le> 2 ^ nat a" by simp
  then have "Second \<le> min (0 + 2 ^ nat a * Second) (10 * Second)" by (simp add: Second_def)
  moreover have "es_Min Exponential = 0" "es_Max Exponential = 10 * Second"
    by (simp_all add: Exponential_def)
  ultimately show "Second \<le> ExponentialStrategy_Duration Exponential (draws a) a"
    using Duration_eq[OF Exponential_ok a, of "draws a"] jitter_of_range[of Exponential "draws a"]
    by (metis add_increasing2)
  have "min (0 + 2 ^ nat a * Second) (10 * Second) \<le> 10 * Second" by simp
  moreover have "jitter_of Exponential (draws a) \<le> 250 * Millisecond"
    using jitter_of_range[of Exponential "draws a"] by (simp add: Exponential_def Millisecond_def)
  moreover have "es_Min Exponential = 0" "es_Max Exponential = 10 * Second"
    by (simp_all add: Exponential_def)
  ultimately show "ExponentialStrategy_Duration Exponential (draws a) a \<le> 10 * Second + 250 * Millisecond"
    using Duration_eq[OF Exponential_ok a, of "draws a"] by linarith
qed

section \<open>What Do returns\<close>

text \<open>The state after the first n attempts, each run in the state its predecessor left.\<close>

fun after :: "(nat \<Rightarrow> ('s, 'a) go) \<Rightarrow> 's \<Rightarrow> nat \<Rightarrow> 's" where
  "after oper s 0 = s"
| "after oper s (Suc n) = snd (oper n (after oper s n))"

definition fails_at :: "(nat \<Rightarrow> ('s, 'a) go) \<Rightarrow> 's \<Rightarrow> nat \<Rightarrow> error \<Rightarrow> bool" where
  "fails_at oper s n e = (fst (oper n (after oper s n)) = Err e)"

lemma after_shift: "after (\<lambda>k. oper (Suc k)) (snd (oper 0 s)) n = after oper s (Suc n)"
  by (induction n) auto

lemma do_loop_success:
  assumes "\<And>j. i \<le> j \<Longrightarrow> j < k \<Longrightarrow> ctx j = None \<and> (\<exists>e. fails_at oper s0 j e)"
    and "ctx k = None" and "oper k (after oper s0 k) = (Ok a, t)"
    and "i \<le> k" "k < i + left" "int i + int left = maxA" "s = after oper s0 i"
  shows "do_loop ctx dur oper maxA left i err s = (Ok a, map (\<lambda>j. dur (int j)) [i..<k], t)"
  using assms
proof (induction left arbitrary: i err s)
  case 0
  then show ?case by simp
next
  case (Suc left)
  show ?case
  proof (cases "i = k")
    case True
    then show ?thesis using Suc.prems by simp
  next
    case False
    then have ik: "i < k" using Suc.prems(4) by simp
    then obtain e where e: "ctx i = None" "fst (oper i s) = Err e"
      using Suc.prems(1)[of i] Suc.prems(7) by (auto simp: fails_at_def)
    then obtain s' where s': "oper i s = (Err e, s')" by (cases "oper i s") auto
    have "do_loop ctx dur oper maxA left (Suc i) e s' = (Ok a, map (\<lambda>j. dur (int j)) [Suc i..<k], t)"
      using Suc.prems ik s' by (intro Suc.IH) auto
    moreover have "int i \<noteq> maxA - 1" using Suc.prems(5,6) ik by simp
    ultimately show ?thesis using e s' ik by (simp add: Let_def upt_conv_Cons)
  qed
qed

lemma do_loop_failure:
  assumes "\<And>j. i \<le> j \<Longrightarrow> j < i + left \<Longrightarrow> ctx j = None \<and> fails_at oper s0 j (es j)"
    and "int i + int left = maxA" "0 < left" "s = after oper s0 i"
  shows "do_loop ctx dur oper maxA left i err s
       = (Err (FailedPermanently maxA (es (i + left - 1))), map (\<lambda>j. dur (int j)) [i..<i + left - 1],
          after oper s0 (i + left))"
  using assms
proof (induction left arbitrary: i err s)
  case 0
  then show ?case by simp
next
  case (Suc left)
  obtain s' where s': "oper i s = (Err (es i), s')" "ctx i = None"
    using Suc.prems(1)[of i] Suc.prems(4) by (cases "oper i s") (auto simp: fails_at_def)
  show ?case
  proof (cases left)
    case 0
    then show ?thesis using s' Suc.prems by (auto simp: Let_def)
  next
    case (Suc l)
    have "do_loop ctx dur oper maxA left (Suc i) (es i) s'
       = (Err (FailedPermanently maxA (es (Suc i + left - 1))), map (\<lambda>j. dur (int j)) [Suc i..<Suc i + left - 1],
          after oper s0 (Suc i + left))"
      using Suc.prems s' Suc by (intro Suc.IH) auto
    moreover have "int i \<noteq> maxA - 1" using Suc.prems(2) Suc by simp
    moreover have "[i..<i + Suc left - 1] = i # [Suc i..<Suc i + left - 1]"
      using Suc by (simp add: upt_conv_Cons del: upt_Suc)
    ultimately show ?thesis using s' by (simp add: Let_def del: upt_Suc)
  qed
qed

text \<open>An operation that leaves the state alone when it fails: the retried operation does too, and
  when it succeeds its effect is that of one attempt.\<close>

lemma do_loop_atomic:
  assumes "\<And>i s e s'. oper i s = (Err e, s') \<Longrightarrow> s' = s"
    and "do_loop ctx dur oper maxA left i err s = (r, d, t)"
  shows "case r of Ok a \<Rightarrow> (\<exists>k. i \<le> k \<and> k < i + left \<and> oper k s = (Ok a, t)) | Err e \<Rightarrow> t = s
         | Panic p \<Rightarrow> (\<exists>k. i \<le> k \<and> k < i + left \<and> oper k s = (Panic p, t))"
  using assms(2)
proof (induction left arbitrary: i err d)
  case 0
  then show ?case by auto
next
  case (Suc left)
  show ?case
  proof (cases "ctx i")
    case (Some ce)
    then show ?thesis using Suc.prems by auto
  next
    case None
    show ?thesis
    proof (cases "fst (oper i s)")
      case (Ok a)
      then have "r = Ok a \<and> oper i s = (Ok a, t)" using Suc.prems None by (cases "oper i s") auto
      then show ?thesis by fastforce
    next
      case (Panic p)
      then have "r = Panic p \<and> oper i s = (Panic p, t)" using Suc.prems None by (cases "oper i s") auto
      then show ?thesis by fastforce
    next
      case (Err e)
      then have op: "oper i s = (Err e, s)" using assms(1) by (cases "oper i s") auto
      obtain d' where "do_loop ctx dur oper maxA left (Suc i) e s = (r, d', t)"
        using Suc.prems None op by (cases "do_loop ctx dur oper maxA left (Suc i) e s") (auto simp: Let_def)
      from Suc.IH[OF this] show ?thesis
        by (cases r) (auto dest: Suc_leD)
    qed
  qed
qed

lemma retry_Do_atomic:
  assumes "\<And>i s e s'. oper i s = (Err e, s') \<Longrightarrow> s' = s"
    and "retry_Do ctx maxA dur oper s = (r, d, t)"
  shows "case r of Ok a \<Rightarrow> (\<exists>k. int k < maxA \<and> oper k s = (Ok a, t)) | Err e \<Rightarrow> t = s
         | Panic p \<Rightarrow> (\<exists>k. int k < maxA \<and> oper k s = (Panic p, t))"
proof (cases "maxA < 1")
  case True
  then show ?thesis using assms(2) by (auto simp: retry_Do_def)
next
  case False
  then have "do_loop ctx dur oper maxA (nat maxA) 0 (Msg ''nil'') s = (r, d, t)"
    using assms(2) by (simp add: retry_Do_def)
  from do_loop_atomic[OF assms(1) this] show ?thesis
    using False by (cases r) (auto simp: zless_nat_eq_int_zless)
qed

section \<open>Properties\<close>

text \<open>The exponential strategy waits the minimum plus 2 ^ attempt seconds, cut off at the
  maximum, plus a jitter below the configured bound; a negative attempt waits the minimum plus the
  jitter.  The float64 rounding of the code never changes this value for strategies below 2 ^ 52 ns.\<close>

lemma exponential_duration:
  assumes "strategy_ok e"
  shows "ExponentialStrategy_Duration e draw attempt
       = (if attempt < 0 then es_Min e else min (es_Min e + 2 ^ nat attempt * Second) (es_Max e)) + jitter_of e draw
     \<and> 0 \<le> jitter_of e draw \<and> jitter_of e draw \<le> max 0 (es_MaxJitter e - 1)"
proof -
  note j = jitter_of_range[of e draw]
  moreover have "ExponentialStrategy_Duration e draw attempt
       = (if attempt < 0 then es_Min e else min (es_Min e + 2 ^ nat attempt * Second) (es_Max e)) + jitter_of e draw"
  proof (cases "attempt < 0")
    case True
    have "wrap64 (es_Min e + jitter_of e draw) = es_Min e + jitter_of e draw"
      using assms j by (intro wrap64_id) (auto simp: strategy_ok_def)
    then show ?thesis
      using True by (simp add: ExponentialStrategy_Duration_def jitter_of_def [symmetric])
  next
    case False
    then show ?thesis using Duration_eq[OF assms] by simp
  qed
  ultimately show ?thesis by blast
qed

text \<open>An operation that fails k times and then succeeds, within the attempts and with a live
  context, gives its result; the strategy's delay of each failed attempt is slept, in order.\<close>

lemma retry_Do_success:
  assumes "\<forall>j < k. ctx j = None \<and> (\<exists>e. fails_at oper s j e)" and "ctx k = None"
    and "oper k (after oper s k) = (Ok a, t)" and "int k < maxA"
  shows "retry_Do ctx maxA dur oper s = (Ok a, map (\<lambda>j. dur (int j)) [0..<k], t)"
proof -
  have "do_loop ctx dur oper maxA (nat maxA) 0 (Msg ''nil'') s = (Ok a, map (\<lambda>j. dur (int j)) [0..<k], t)"
    using assms by (intro do_loop_success[where s0 = s]) auto
  then show ?thesis using assms(4) by (simp add: retry_Do_def)
qed

definition sample_oper :: "nat \<Rightarrow> (nat list, nat) go" where
  "sample_oper i s = (if i < 2 then (Err (External i), s @ [i]) else (Ok i, s @ [i]))"

lemma sample_oper_fails: "\<forall>j < 2. fails_at sample_oper s j (External j)"
  by (simp add: fails_at_def sample_oper_def)

text \<open>When every attempt fails and the context stays alive, Do makes exactly the attempts it
  was given, sleeps between them and not after the last one, and returns ErrFailedPermanently with
  the number of attempts and the last error.\<close>

lemma retry_Do_failure:
  assumes "\<forall>j < nat maxA. ctx j = None \<and> fails_at oper s j (es j)" and "0 < maxA"
  shows "retry_Do ctx maxA dur oper s
       = (Err (FailedPermanently maxA (es (nat maxA - 1))), map (\<lambda>j. dur (int j)) [0..<nat maxA - 1],
          after oper s (nat maxA))"
proof -
  have "do_loop ctx dur oper maxA (nat maxA) 0 (Msg ''nil'') s
      = (Err (FailedPermanently maxA (es (0 + nat maxA - 1))), map (\<lambda>j. dur (int j)) [0..<0 + nat maxA - 1],
          after oper s (0 + nat maxA))"
    using assms by (intro do_loop_failure) auto
  then show ?thesis using assms(2) by (simp add: retry_Do_def)
qed

end
