(* ===== verification/EthClient.thy ===== *)
theory EthClient
  imports Chain BigintUtil Retry
begin

text \<open>
  synchronizer/node/client.go: the client of an Ethereum node.  The JSON-RPC connection is the
  record \<open>rpc\<close> of the replies it gives, one field per method the client calls; it is a parameter
  of every definition.  The client's methods are the fields of \<open>EthClient\<close>, and \<open>clnt\<close> builds
  them from a connection, as the struct of that name does.  The header hash is the parameter
  \<open>HeaderHash\<close> (keccak of the RLP encoding).  A batch reply holds for each element an error or a
  decoded header: its Result is a pointer into a slice the caller made, so it is never nil, and a
  null body is a decoding error.
\<close>

section \<open>Requests\<close>

text \<open>The block parameter of a request: a tag, a number in hexadecimal, or one of the named negative
  numbers of the rpc package.\<close>

datatype block_arg = ArgTag string | ArgHex int | ArgBlockNumber int

definition toBlockNumArg :: "int option \<Rightarrow> block_arg" where
  "toBlockNumArg number =
     (case number of
        None \<Rightarrow> ArgTag ''latest''
      | Some n \<Rightarrow> if n \<ge> 0 then ArgHex n else ArgBlockNumber (big_Int64 n))"

record filter_arg =
  fa_address :: "address list"
  fa_topics :: "hash list list"
  fa_blockHash :: "hash option"
  fa_fromBlock :: "block_arg option"
  fa_toBlock :: "block_arg option"

definition toFilterArg :: "FilterQuery \<Rightarrow> filter_arg result" where
  "toFilterArg q =
     (let arg = \<lparr>fa_address = fq_Addresses q, fa_topics = fq_Topics q, fa_blockHash = None,
                 fa_fromBlock = None, fa_toBlock = None\<rparr> in
      case fq_BlockHash q of
        Some h \<Rightarrow>
          if fq_FromBlock q \<noteq> None \<or> fq_ToBlock q \<noteq> None
          then Err (Msg ''cannot specify both BlockHash and FromBlock/ToBlock'')
          else Ok (arg\<lparr>fa_blockHash := Some h\<rparr>)
      | None \<Rightarrow>
          Ok (arg\<lparr>fa_fromBlock := Some (case fq_FromBlock q of None \<Rightarrow> ArgHex 0
                                        | Some n \<Rightarrow> toBlockNumArg (Some n)),
                  fa_toBlock := Some (toBlockNumArg (fq_ToBlock q))\<rparr>))"

record call_arg =
  ca_from :: address
  ca_to :: "address option"
  ca_input :: "bytes option"
  ca_value :: "int option"
  ca_gas :: "u64 option"
  ca_gasPrice :: "int option"

definition toCallArg :: "CallMsg \<Rightarrow> call_arg" where
  "toCallArg msg =
     \<lparr>ca_from = cm_From msg, ca_to = cm_To msg,
      ca_input = (if length (cm_Data msg) > 0 then Some (cm_Data msg) else None),
      ca_value = cm_Value msg,
      ca_gas = (if cm_Gas msg \<noteq> 0 then Some (cm_Gas msg) else None),
      ca_gasPrice = cm_GasPrice msg\<rparr>"

section \<open>The connection and the client\<close>

record rpc =
  rpc_headerByNumber :: "block_arg \<Rightarrow> header option result"
  rpc_headerByHash :: "hash \<Rightarrow> header option result"
  rpc_blockByHash :: "hash \<Rightarrow> transaction list option result"
  rpc_blockByNumber :: "block_arg \<Rightarrow> transaction list option result"
  rpc_transaction :: "hash \<Rightarrow> transaction option result"
  rpc_receipt :: "hash \<Rightarrow> receipt option result"
  rpc_getProof :: "address \<Rightarrow> block_arg \<Rightarrow> hash result"
  rpc_getBalance :: "address \<Rightarrow> block_arg \<Rightarrow> int result"
  rpc_call :: "call_arg \<Rightarrow> block_arg \<Rightarrow> bytes result"
  rpc_batchHeaders :: "block_arg list \<Rightarrow> (nat \<Rightarrow> error + header) result"
  rpc_batchFilter :: "block_arg \<Rightarrow> filter_arg \<Rightarrow> ((error + header) \<times> (error + log list)) result"

record Logs =
  Logs_Logs :: "log list"
  ToBlockHeader :: header

record EthClient =
  ec_BlockHeaderByNumber :: "int option \<Rightarrow> header option result"
  ec_LatestSafeBlockHeader :: "header option result"
  ec_LatestFinalizedBlockHeader :: "header option result"
  ec_BlockHeaderByHash :: "hash \<Rightarrow> header option result"
  ec_BlockHeadersByRange :: "int \<Rightarrow> int \<Rightarrow> header list result"
  ec_TxsByHash :: "hash \<Rightarrow> transaction list result"
  ec_TxsByNumber :: "u64 \<Rightarrow> transaction list result"
  ec_TxDetailByHash :: "hash \<Rightarrow> transaction result"
  ec_TxReceiptDetailByHash :: "hash \<Rightarrow> receipt result"
  ec_StorageHash :: "address \<Rightarrow> int option \<Rightarrow> hash result"
  ec_FilterLogs :: "FilterQuery \<Rightarrow> Logs result"
  ec_GetBalanceByBlockNumber :: "address \<Rightarrow> int option \<Rightarrow> int result"
  ec_GetERC20Balance :: "address \<Rightarrow> address \<Rightarrow> int option \<Rightarrow> int result"
  ec_GetERC20TotalSupply :: "address \<Rightarrow> int option \<Rightarrow> int result"

text \<open>A reply that must be there: null is ethereum.NotFound.\<close>

definition required :: "'a option result \<Rightarrow> 'a result" where
  "required r = bindR r (\<lambda>v. case v of None \<Rightarrow> Err NotFound | Some a \<Rightarrow> Ok a)"

definition TxsByHash :: "rpc \<Rightarrow> hash \<Rightarrow> transaction list result" where
  "TxsByHash c h = required (rpc_blockByHash c h)"

definition TxsByNumber :: "rpc \<Rightarrow> u64 \<Rightarrow> transaction list result" where
  "TxsByNumber c n = required (rpc_blockByNumber c (ArgHex (uint n)))"

definition hashID_CheckID :: "hash \<Rightarrow> hash \<times> u64 \<Rightarrow> unit result" where
  "hashID_CheckID h i = (if h \<noteq> fst i then Err (Msg ''expected block hash'') else Ok ())"

definition numberID_CheckID :: "u64 \<Rightarrow> hash \<times> u64 \<Rightarrow> unit result" where
  "numberID_CheckID n i = (if n \<noteq> snd i then Err (Msg ''expected block number'') else Ok ())"

definition BlockHeaderByHash :: "(header \<Rightarrow> hash) \<Rightarrow> rpc \<Rightarrow> hash \<Rightarrow> header option result" where
  "BlockHeaderByHash HeaderHash c h =
     bindR (required (rpc_headerByHash c h)) (\<lambda>header.
       if HeaderHash header \<noteq> h then Err (Msg ''header mismatch'') else Ok (Some header))"

definition LatestSafeBlockHeader :: "rpc \<Rightarrow> header option result" where
  "LatestSafeBlockHeader c =
     bindR (required (rpc_headerByNumber c (ArgTag ''safe''))) (\<lambda>h. Ok (Some h))"

definition LatestFinalizedBlockHeader :: "rpc \<Rightarrow> header option result" where
  "LatestFinalizedBlockHeader c =
     bindR (required (rpc_headerByNumber c (ArgTag ''finalized''))) (\<lambda>h. Ok (Some h))"

definition BlockHeaderByNumber :: "rpc \<Rightarrow> int option \<Rightarrow> header option result" where
  "BlockHeaderByNumber c number =
     bindR (required (rpc_headerByNumber c (toBlockNumArg number))) (\<lambda>h. Ok (Some h))"

text \<open>The loop over the batch elements: \<open>prev\<close> is the header of the element before, None for the
  first one (the size is then zero).  An element's error ends the list, or is returned when it is
  the first; a header that does not follow its parent fails the whole call.\<close>

fun range_loop :: "(header \<Rightarrow> hash) \<Rightarrow> header option \<Rightarrow> (error + header) list \<Rightarrow> header list result" where
  "range_loop HeaderHash prev [] = Ok []"
| "range_loop HeaderHash prev (Inl e # elems) =
     (case prev of None \<Rightarrow> Err e | Some p \<Rightarrow> Ok [])"
| "range_loop HeaderHash prev (Inr h # elems) =
     (case prev of
        None \<Rightarrow> bindR (range_loop HeaderHash (Some h) elems) (\<lambda>hs. Ok (h # hs))
      | Some p \<Rightarrow>
          if ParentHash h \<noteq> HeaderHash p
          then Err (Msg ''queried header does not follow parent'')
          else bindR (range_loop HeaderHash (Some h) elems) (\<lambda>hs. Ok (h # hs)))"

definition BlockHeadersByRange :: "(header \<Rightarrow> hash) \<Rightarrow> rpc \<Rightarrow> int \<Rightarrow> int \<Rightarrow> header list result" where
  "BlockHeadersByRange HeaderHash c startHeight endHeight =
     (if startHeight = endHeight
      then bindR (BlockHeaderByNumber c (Some startHeight)) (\<lambda>header.
             bindR (nonil header) (\<lambda>h. Ok [h]))
      else (let count = unat (big_Uint64 (endHeight - startHeight) + 1);
                batchElems = map (\<lambda>i. toBlockNumArg (Some (startHeight + int i))) [0..<count] in
            bindR (rpc_batchHeaders c batchElems) (\<lambda>reply.
              range_loop HeaderHash None (map reply [0..<count]))))"

definition TxDetailByHash :: "rpc \<Rightarrow> hash \<Rightarrow> transaction result" where
  "TxDetailByHash c h = required (rpc_transaction c h)"

definition TxReceiptDetailByHash :: "rpc \<Rightarrow> hash \<Rightarrow> receipt result" where
  "TxReceiptDetailByHash c h = required (rpc_receipt c h)"

definition StorageHash :: "rpc \<Rightarrow> address \<Rightarrow> int option \<Rightarrow> hash result" where
  "StorageHash c addr blockNumber = rpc_getProof c addr (toBlockNumArg blockNumber)"

definition FilterLogs :: "rpc \<Rightarrow> FilterQuery \<Rightarrow> Logs result" where
  "FilterLogs c query =
     bindR (toFilterArg query) (\<lambda>arg.
     bindR (rpc_batchFilter c (toBlockNumArg (fq_ToBlock query)) arg) (\<lambda>reply.
       case fst reply of
         Inl e \<Rightarrow> Err (Wrap ''unable to query for the `FilterQuery#ToBlock` header'' e)
       | Inr header \<Rightarrow>
           (case snd reply of
              Inl e \<Rightarrow> Err (Wrap ''unable to query logs'' e)
            | Inr logs \<Rightarrow> Ok \<lparr>Logs_Logs = logs, ToBlockHeader = header\<rparr>)))"

definition BalanceAt :: "rpc \<Rightarrow> address \<Rightarrow> int option \<Rightarrow> int result" where
  "BalanceAt c account blockNumber = rpc_getBalance c account (toBlockNumArg blockNumber)"

definition GetBalanceByBlockNumber :: "rpc \<Rightarrow> address \<Rightarrow> int option \<Rightarrow> int result" where
  "GetBalanceByBlockNumber c addr blockNumber = BalanceAt c addr blockNumber"

definition CallContract :: "rpc \<Rightarrow> CallMsg \<Rightarrow> int option \<Rightarrow> bytes result" where
  "CallContract c msg blockNumber = rpc_call c (toCallArg msg) (toBlockNumArg blockNumber)"

definition call_msg :: "address \<Rightarrow> bytes \<Rightarrow> CallMsg" where
  "call_msg a d = \<lparr>cm_From = 0, cm_To = Some a, cm_Gas = 0, cm_GasPrice = None, cm_Value = None,
                   cm_Data = d\<rparr>"

text \<open>A call that reverts reads as no bytes, and so as the number zero; every other error is
  returned.\<close>

definition reverted_is_empty :: "bytes result \<Rightarrow> bytes result" where
  "reverted_is_empty r = (case r of Err e \<Rightarrow> if e = Msg ''execution reverted'' then Ok [] else Err e
                          | Ok b \<Rightarrow> Ok b | Panic p \<Rightarrow> Panic p)"

definition GetERC20Balance :: "(string \<Rightarrow> bytes) \<Rightarrow> rpc \<Rightarrow> address \<Rightarrow> address \<Rightarrow> int option \<Rightarrow> int result" where
  "GetERC20Balance Keccak c contractAddress ownerAddress blocknumber =
     (let data = take 4 (Keccak ''balanceOf(address)'') @ LeftPadBytes (address_bytes ownerAddress) 32 in
      bindR (reverted_is_empty (CallContract c (call_msg contractAddress data) blocknumber))
        (\<lambda>res. Ok (SetBytes res)))"

definition GetERC20TotalSupply :: "(string \<Rightarrow> bytes) \<Rightarrow> rpc \<Rightarrow> address \<Rightarrow> int option \<Rightarrow> int result" where
  "GetERC20TotalSupply Keccak c contract blocknumber =
     (let data = take 4 (Keccak ''totalSupply()'') in
      bindR (reverted_is_empty (CallContract c (call_msg contract data) blocknumber))
        (\<lambda>res. Ok (SetBytes res)))"

definition clnt :: "(header \<Rightarrow> hash) \<Rightarrow> (string \<Rightarrow> bytes) \<Rightarrow> rpc \<Rightarrow> EthClient" where
  "clnt HeaderHash Keccak c =
     \<lparr>ec_BlockHeaderByNumber = BlockHeaderByNumber c,
      ec_LatestSafeBlockHeader = LatestSafeBlockHeader c,
      ec_LatestFinalizedBlockHeader = LatestFinalizedBlockHeader c,
      ec_BlockHeaderByHash = BlockHeaderByHash HeaderHash c,
      ec_BlockHeadersByRange = BlockHeadersByRange HeaderHash c,
      ec_TxsByHash = TxsByHash c,
      ec_TxsByNumber = TxsByNumber c,
      ec_TxDetailByHash = TxDetailByHash c,
      ec_TxReceiptDetailByHash = TxReceiptDetailByHash c,
      ec_StorageHash = StorageHash c,
      ec_FilterLogs = FilterLogs c,
      ec_GetBalanceByBlockNumber = GetBalanceByBlockNumber c,
      ec_GetERC20Balance = GetERC20Balance Keccak c,
      ec_GetERC20TotalSupply = GetERC20TotalSupply Keccak c\<rparr>"

text \<open>DialEthClient: at most five attempts to reach the node with exponential delays.  \<open>available i\<close>
  and \<open>dialled i\<close> are what the URL probe and rpc.DialContext give on attempt i.\<close>

definition defaultDialAttempts :: int where "defaultDialAttempts = 5"

definition DialEthClient :: "(header \<Rightarrow> hash) \<Rightarrow> (string \<Rightarrow> bytes) \<Rightarrow> (nat \<Rightarrow> error option) \<Rightarrow> (int \<Rightarrow> nat)
    \<Rightarrow> (nat \<Rightarrow> bool) \<Rightarrow> (nat \<Rightarrow> error + rpc) \<Rightarrow> EthClient result" where
  "DialEthClient HeaderHash Keccak ctx draws available dialled =
     (let oper = (\<lambda>i. \<lambda>s :: unit.
            if \<not> available i then (Err (Msg ''address unavailable''), s)
            else (case dialled i of Inl e \<Rightarrow> (Err (Wrap ''failed to dial address'' e), s)
                  | Inr c \<Rightarrow> (Ok c, s))) in
      bindR (fst (retry_Do ctx defaultDialAttempts
                    (\<lambda>a. ExponentialStrategy_Duration Exponential (draws a) a) oper ()))
        (\<lambda>c. Ok (clnt HeaderHash Keccak c)))"

section \<open>Linked headers\<close>

text \<open>Each header names the one before it as its parent.\<close>

fun linked :: "(header \<Rightarrow> hash) \<Rightarrow> header list \<Rightarrow> bool" where
  "linked HeaderHash [] = True"
| "linked HeaderHash [h] = True"
| "linked HeaderHash (h # h' # hs) = (ParentHash h' = HeaderHash h \<and> linked HeaderHash (h' # hs))"

lemma linked_append:
  "linked H (xs @ ys) \<longleftrightarrow> linked H xs \<and> linked H ys \<and>
     (xs \<noteq> [] \<longrightarrow> ys \<noteq> [] \<longrightarrow> ParentHash (hd ys) = H (last xs))"
proof (induction H xs rule: linked.induct)
  case (1 H)
  then show ?case by simp
next
  case (2 H h)
  then show ?case by (cases ys) auto
next
  case (3 H h h' hs)
  then show ?case by auto
qed

lemma linked_nth: "linked H hs \<Longrightarrow> Suc i < length hs \<Longrightarrow> ParentHash (hs ! Suc i) = H (hs ! i)"
proof (induction H hs arbitrary: i rule: linked.induct)
  case (3 H h h' hs)
  then show ?case by (cases i) auto
qed simp_all

lemma range_loop_Some:
  "range_loop H (Some p) elems = Ok hs \<Longrightarrow>
     linked H (p # hs) \<and> length hs \<le> length elems \<and> (\<forall>i < length hs. elems ! i = Inr (hs ! i))"
proof (induction elems arbitrary: p hs)
  case Nil
  then show ?case by simp
next
  case (Cons el elems)
  show ?case
  proof (cases el)
    case (Inl e)
    then show ?thesis using Cons.prems by simp
  next
    case (Inr h)
    then obtain hs' where "ParentHash h = H p" "range_loop H (Some h) elems = Ok hs'" "hs = h # hs'"
      using Cons.prems by (auto split: if_splits)
    then show ?thesis using Cons.IH[of h hs'] Inr by (auto simp: nth_Cons less_Suc_eq_0_disj split: nat.splits)
  qed
qed

lemma range_loop_None:
  assumes "range_loop H None elems = Ok hs"
  shows "linked H hs" and "length hs \<le> length elems" and "\<forall>i < length hs. elems ! i = Inr (hs ! i)"
    and "elems \<noteq> [] \<Longrightarrow> hs \<noteq> []"
proof -
  have "linked H hs \<and> length hs \<le> length elems \<and> (\<forall>i < length hs. elems ! i = Inr (hs ! i))
    \<and> (elems \<noteq> [] \<longrightarrow> hs \<noteq> [])"
  proof (cases elems)
    case Nil
    then show ?thesis using assms by simp
  next
    case (Cons el elems')
    show ?thesis
    proof (cases el)
      case (Inl e)
      then show ?thesis using assms Cons by simp
    next
      case (Inr h)
      then obtain hs' where hs': "range_loop H (Some h) elems' = Ok hs'" "hs = h # hs'"
        using assms Cons by auto
      then show ?thesis using range_loop_Some[OF hs'(1)] Cons Inr
        by (auto simp: nth_Cons less_Suc_eq_0_disj split: nat.splits)
    qed
  qed
  then show "linked H hs" "length hs \<le> length elems" "\<forall>i < length hs. elems ! i = Inr (hs ! i)"
    "elems \<noteq> [] \<Longrightarrow> hs \<noteq> []"
    by auto
qed

lemma BlockHeadersByRange_linked:
  assumes "BlockHeadersByRange H c s e = Ok hs"
  shows "linked H hs"
  using assms range_loop_None(1)
  by (auto simp: BlockHeadersByRange_def Let_def split: if_splits)

lemma BlockHeadersByRange_length:
  assumes "BlockHeadersByRange H c s e = Ok hs" "s \<le> e" "e - s < 2 ^ 64 - 1"
  shows "int (length hs) \<le> e - s + 1" and "hs \<noteq> []"
proof -
  let ?count = "unat (big_Uint64 (e - s) + 1)"
  have count: "int ?count = e - s + 1"
    using count_of_range[OF assms(2,3)] by (metis uint_nat)
  have "int (length hs) \<le> e - s + 1 \<and> hs \<noteq> []"
  proof (cases "s = e")
    case True
    then show ?thesis using assms by (auto simp: BlockHeadersByRange_def)
  next
    case False
    then obtain reply where r: "range_loop H None (map reply [0..<?count]) = Ok hs"
      using assms by (auto simp: BlockHeadersByRange_def Let_def)
    have "0 < ?count" using count assms(2) by linarith
    then have "hs \<noteq> []" using range_loop_None(4)[OF r] by (simp add: upt_conv_Cons)
    moreover have "length hs \<le> ?count" using range_loop_None(2)[OF r] by simp
    ultimately show ?thesis using count by linarith
  qed
  then show "int (length hs) \<le> e - s + 1" "hs \<noteq> []" by auto
qed

end
