(* ===== verification/Deposit.thy ===== *)
theory Deposit
  imports Chain
begin

text \<open>
  event/processors/common: the deposit transaction that a TransactionDeposited log of the portal
  stands for (deposit_log.go, types.go) and the hash that identifies it (deposit_source.go).
  Keccak-256 is a parameter.  The decoder reads the opaque data of version zero as mint (32 bytes), value
  (32), ETH value (32), gas (8), creation flag (1) and the call data; \<open>encode_deposit\<close> is the packing of these
  fields, against which the decoder is proved.  The comment of UnmarshalDepositLogEvent gives a packing without the
  ETH value, \<open>commented_packing\<close>, which the decoder does not read.
\<close>

record DepositTx =
  dt_SourceHash :: hash
  dt_From :: address
  dt_To :: "address option"
  dt_Mint :: "int option"
  dt_Value :: "int option"
  dt_Gas :: u64
  dt_IsSystemTransaction :: bool
  dt_EthValue :: "int option"
  dt_Data :: bytes

definition zero_DepositTx :: DepositTx where
  "zero_DepositTx = \<lparr>dt_SourceHash = 0, dt_From = 0, dt_To = None, dt_Mint = None, dt_Value = None, dt_Gas = 0,
     dt_IsSystemTransaction = False, dt_EthValue = None, dt_Data = []\<rparr>"

section \<open>Source hashes\<close>

record UserDepositSource =
  ud_L1BlockHash :: hash
  ud_LogIndex :: u64

record L1InfoDepositSource =
  li_L1BlockHash :: hash
  li_SeqNumber :: u64

definition UserDepositSourceDomain :: int where "UserDepositSourceDomain = 0"
definition L1InfoDepositSourceDomain :: int where "L1InfoDepositSourceDomain = 1"

definition source_input :: "hash \<Rightarrow> u64 \<Rightarrow> bytes" where
  "source_input h i = hash_bytes h @ replicate 24 0 @ be_bytes 8 (uint i)"

definition domain_input :: "int \<Rightarrow> hash \<Rightarrow> bytes" where
  "domain_input domain i = replicate 24 0 @ be_bytes 8 domain @ hash_bytes i"

definition UserDepositSource_SourceHash :: "(bytes \<Rightarrow> hash) \<Rightarrow> UserDepositSource \<Rightarrow> hash" where
  "UserDepositSource_SourceHash keccak dep =
     (let depositIDHash = keccak (source_input (ud_L1BlockHash dep) (ud_LogIndex dep)) in
      keccak (domain_input UserDepositSourceDomain depositIDHash))"

definition L1InfoDepositSource_SourceHash :: "(bytes \<Rightarrow> hash) \<Rightarrow> L1InfoDepositSource \<Rightarrow> hash" where
  "L1InfoDepositSource_SourceHash keccak dep =
     (let depositIDHash = keccak (source_input (li_L1BlockHash dep) (li_SeqNumber dep)) in
      keccak (domain_input L1InfoDepositSourceDomain depositIDHash))"

section \<open>Decoding\<close>

definition string_bytes :: "string \<Rightarrow> bytes" where
  "string_bytes s = map of_char s"

definition DepositEventABIHash :: "(bytes \<Rightarrow> hash) \<Rightarrow> hash" where
  "DepositEventABIHash keccak = keccak (string_bytes ''TransactionDeposited(address,address,uint256,bytes)'')"

definition DepositEventVersion0 :: hash where "DepositEventVersion0 = 0"

text \<open>xs[a:b] of a slice; the callers have checked the bounds.\<close>

definition slice :: "'a list \<Rightarrow> nat \<Rightarrow> nat \<Rightarrow> 'a list" where
  "slice xs a b = take (b - a) (drop a xs)"

definition nil_if_zero :: "int \<Rightarrow> int option" where
  "nil_if_zero n = (if n = 0 then None else Some n)"

definition unmarshalDepositVersion0 :: "DepositTx \<Rightarrow> address \<Rightarrow> bytes \<Rightarrow> DepositTx result" where
  "unmarshalDepositVersion0 dep to opaqueData =
     (if length opaqueData < 32 + 32 + 32 + 8 + 1 then Err (Msg ''unexpected opaqueData length'')
      else (let mint = SetBytes (slice opaqueData 0 32);
                val = SetBytes (slice opaqueData 32 64);
                ethValue = SetBytes (slice opaqueData 64 96);
                gas = SetBytes (slice opaqueData 96 104) in
        if \<not> (0 \<le> gas \<and> gas < 2 ^ 64) then Err (Msg ''bad gas value'')
        else bindR (indexR opaqueData 104) (\<lambda>isCreation.
          Ok (dep\<lparr>dt_Mint := nil_if_zero mint, dt_Value := Some val, dt_EthValue := nil_if_zero ethValue,
            dt_Gas := big_Uint64 gas, dt_To := (if isCreation = 0 then Some to else dt_To dep),
            dt_Data := drop 105 opaqueData\<rparr>))))"

definition UnmarshalDepositLogEvent :: "(bytes \<Rightarrow> hash) \<Rightarrow> log \<Rightarrow> DepositTx result" where
  "UnmarshalDepositLogEvent keccak ev =
     (if length (Topics ev) \<noteq> 4 then Err (Msg ''expected 4 event topics'')
      else if Topics ev ! 0 \<noteq> DepositEventABIHash keccak then Err (Msg ''invalid deposit event selector'')
      else if length (Data ev) < 64 then Err (Msg ''incomplate opaqueData slice header'')
      else if length (Data ev) mod 32 \<noteq> 0 then Err (Msg ''expected log data to be multiple of 32 bytes'')
      else (let from = BytesToAddress (drop 12 (hash_bytes (Topics ev ! 1)));
                to = BytesToAddress (drop 12 (hash_bytes (Topics ev ! 2)));
                version = Topics ev ! 3;
                opaqueContentOffset = SetBytes (slice (Data ev) 0 32);
                opaqueContentLength = SetBytes (slice (Data ev) 32 64);
                room = int (length (Data ev)) - 64 in
        if opaqueContentOffset \<ge> 2 ^ 64 \<or> opaqueContentOffset \<noteq> 32
        then Err (Msg ''invalid opaqueData slice header offset'')
        else if opaqueContentLength \<ge> 2 ^ 64 \<or> opaqueContentLength > room \<or> opaqueContentLength + 32 \<le> room
        then Err (Msg ''invalid opaqueData slice header length'')
        else (let opaqueData = slice (Data ev) 64 (64 + nat opaqueContentLength);
                  source = \<lparr>ud_L1BlockHash = BlockHash ev, ud_LogIndex = Index ev\<rparr>;
                  dep = zero_DepositTx\<lparr>dt_SourceHash := UserDepositSource_SourceHash keccak source,
                          dt_From := from, dt_IsSystemTransaction := False\<rparr> in
          if version = DepositEventVersion0
          then mapErr (Wrap ''failed to decode deposit'') (unmarshalDepositVersion0 dep to opaqueData)
          else Err (Msg ''invalid deposit version''))))"

section \<open>The packing of a deposit\<close>

text \<open>abi.encodePacked of the fields that unmarshalDepositVersion0 reads, and the ABI encoding of the bytes: offset, length, content
  padded with zeros to a multiple of 32.\<close>

definition encode_deposit :: "int \<Rightarrow> int \<Rightarrow> int \<Rightarrow> u64 \<Rightarrow> bool \<Rightarrow> bytes \<Rightarrow> bytes" where
  "encode_deposit mint val eth gas creation dat =
     be_bytes 32 mint @ be_bytes 32 val @ be_bytes 32 eth @ be_bytes 8 (uint gas) @ [if creation then 1 else 0] @ dat"

definition padding :: "nat \<Rightarrow> nat" where
  "padding n = (32 - n mod 32) mod 32"

definition encode_bytes :: "bytes \<Rightarrow> bytes" where
  "encode_bytes bs = be_bytes 32 32 @ be_bytes 32 (int (length bs)) @ bs @ replicate (padding (length bs)) 0"

definition encode_address :: "address \<Rightarrow> hash" where
  "encode_address a = word_of_int (uint a)"

lemma slice_append1 [simp]: "length xs = n \<Longrightarrow> slice (xs @ ys) 0 n = xs"
  by (simp add: slice_def)

lemma slice_shift: "length xs = n \<Longrightarrow> n \<le> a \<Longrightarrow> slice (xs @ ys) a b = slice ys (a - n) (b - n)"
  by (simp add: slice_def)

lemma length_encode_deposit [simp]: "length (encode_deposit mint val eth gas c dat) = 105 + length dat"
  by (simp add: encode_deposit_def)

lemma padding_lt: "padding n < 32"
  by (simp add: padding_def)

lemma padded_mod: "(n + padding n) mod 32 = 0"
proof -
  have "(n + padding n) mod 32 = (n mod 32 + (32 - n mod 32)) mod 32"
    by (simp only: padding_def mod_add_right_eq mod_add_left_eq)
  also have "n mod 32 + (32 - n mod 32) = 32" by (simp add: less_imp_le)
  finally show ?thesis by simp
qed

lemma SetBytes_32 [simp]: "0 \<le> x \<Longrightarrow> x < 2 ^ 256 \<Longrightarrow> SetBytes (be_bytes 32 x) = x"
  by (rule SetBytes_be_bytes) simp_all

lemma unmarshal_encoded:
  assumes "0 \<le> mint" "mint < 2 ^ 256" "0 \<le> val" "val < 2 ^ 256" "0 \<le> eth" "eth < 2 ^ 256"
  shows "unmarshalDepositVersion0 dep to (encode_deposit mint val eth gas creation dat)
       = Ok (dep\<lparr>dt_Mint := nil_if_zero mint, dt_Value := Some val, dt_EthValue := nil_if_zero eth, dt_Gas := gas,
              dt_To := (if creation then dt_To dep else Some to), dt_Data := dat\<rparr>)"
proof -
  let ?o = "encode_deposit mint val eth gas creation dat"
  have g: "uint gas < 2 ^ 64" using uint_lt2p[of gas] by simp
  have s: "slice ?o 0 32 = be_bytes 32 mint" "slice ?o 32 64 = be_bytes 32 val" "slice ?o 64 96 = be_bytes 32 eth"
    "slice ?o 96 104 = be_bytes 8 (uint gas)"
    by (simp_all add: encode_deposit_def slice_def)
  have gas: "SetBytes (slice ?o 96 104) = uint gas"
    unfolding s by (rule SetBytes_be_bytes) (use g in simp_all)
  have amounts: "SetBytes (slice ?o 0 32) = mint" "SetBytes (slice ?o 32 64) = val" "SetBytes (slice ?o 64 96) = eth"
    unfolding s by (rule SetBytes_32; fact)+
  have flag: "indexR ?o 104 = Ok (if creation then 1 else 0)"
    by (simp add: indexR_def encode_deposit_def nth_append)
  have dat: "drop 105 ?o = dat" by (simp add: encode_deposit_def)
  have gas': "big_Uint64 (uint gas) = gas" by (simp add: big_Uint64_def)
  have guards: "\<not> length ?o < 32 + 32 + 32 + 8 + 1" "\<not> \<not> (0 \<le> uint gas \<and> uint gas < 2 ^ 64)"
    using g by simp_all
  show ?thesis
    unfolding unmarshalDepositVersion0_def Let_def gas flag dat amounts gas'
    by (simp only: guards if_False bindR.simps) simp
qed

lemma address_of_topic: "BytesToAddress (drop 12 (hash_bytes (encode_address a))) = a"
proof -
  have a: "uint a < 2 ^ 160" using uint_lt2p[of a] by simp
  have u: "uint (encode_address a) = uint a"
    unfolding encode_address_def uint_word_of_int using a by simp
  have "be_bytes (m + n) x = be_bytes m (x div 256 ^ n) @ be_bytes n x" for m n x
    by (induction n arbitrary: x) (simp_all add: zdiv_zmult2_eq mult.commute)
  from this[of 12 20] have "drop 12 (hash_bytes (encode_address a)) = be_bytes 20 (uint a)"
    by (simp add: hash_bytes_def u)
  then show ?thesis by (simp add: address_bytes_def [symmetric])
qed

lemma decode_deposit_log:
  assumes "0 \<le> mint" "mint < 2 ^ 256" "0 \<le> val" "val < 2 ^ 256" "0 \<le> eth" "eth < 2 ^ 256"
    and "length dat < 2 ^ 63"
    and "Topics ev = [DepositEventABIHash keccak, encode_address from, encode_address to, 0]"
    and "Data ev = encode_bytes (encode_deposit mint val eth gas creation dat)"
  shows "UnmarshalDepositLogEvent keccak ev = Ok
     \<lparr>dt_SourceHash = UserDepositSource_SourceHash keccak \<lparr>ud_L1BlockHash = BlockHash ev, ud_LogIndex = Index ev\<rparr>,
      dt_From = from, dt_To = (if creation then None else Some to), dt_Mint = nil_if_zero mint,
      dt_Value = Some val, dt_Gas = gas, dt_IsSystemTransaction = False, dt_EthValue = nil_if_zero eth,
      dt_Data = dat\<rparr>"
proof -
  let ?o = "encode_deposit mint val eth gas creation dat" and ?p = "padding (105 + length dat)"
  have D: "Data ev = be_bytes 32 32 @ be_bytes 32 (int (105 + length dat)) @ ?o @ replicate ?p 0"
    using assms(9) by (simp add: encode_bytes_def)
  have len: "length (Data ev) = 64 + (105 + length dat + ?p)" by (simp add: D)
  moreover have "(64 + k) mod 32 = k mod 32" for k :: nat using mod_mult_self1[of k 2 32] by (simp add: add.commute)
  ultimately have len_mod: "length (Data ev) mod 32 = 0" using padded_mod[of "105 + length dat"] by metis
  have off: "SetBytes (slice (Data ev) 0 32) = 32" unfolding D by simp
  have small: "int (105 + length dat) < 2 ^ 64" using assms(7) by simp
  then have sz: "SetBytes (slice (Data ev) 32 64) = int (105 + length dat)"
    unfolding D by (simp add: slice_shift)
  have content: "slice (Data ev) 64 (64 + nat (int (105 + length dat))) = ?o"
    unfolding D by (simp add: slice_def)
  have room: "\<not> (int (105 + length dat) \<ge> 2 ^ 64 \<or> int (105 + length dat) > int (length (Data ev)) - 64
      \<or> int (105 + length dat) + 32 \<le> int (length (Data ev)) - 64)"
    using len small padding_lt[of "105 + length dat"] by linarith
  have T: "length (Topics ev) = 4" "Topics ev ! 0 = DepositEventABIHash keccak"
    "Topics ev ! 1 = encode_address from" "Topics ev ! 2 = encode_address to" "Topics ev ! 3 = 0"
    using assms(8) by simp_all
  have guards: "\<not> length (Data ev) < 64" "\<not> ((32::int) \<ge> 2 ^ 64 \<or> (32::int) \<noteq> 32)" using len by simp_all
  show ?thesis
    unfolding UnmarshalDepositLogEvent_def Let_def T off sz content address_of_topic len_mod
    by (simp only: room guards T(1) simp_thms if_False if_True not_False_eq_True refl
        unmarshal_encoded[OF assms(1-6)] mapErr.simps DepositEventVersion0_def)
       (simp add: zero_DepositTx_def)
qed

section \<open>Properties\<close>

text \<open>The packing that the comment in deposit_log.go gives: it has no ETH value. The decoder refuses it when the call data has
  fewer than 32 bytes; otherwise it takes the gas, the flag and 23 bytes of the call data for the ETH value, the next
  bytes for the gas and the flag, and leaves the first 32 bytes of the call data out.\<close>

definition commented_packing :: "int \<Rightarrow> int \<Rightarrow> u64 \<Rightarrow> bool \<Rightarrow> bytes \<Rightarrow> bytes" where
  "commented_packing mint val gas creation dat =
     be_bytes 32 mint @ be_bytes 32 val @ be_bytes 8 (uint gas) @ [if creation then 1 else 0] @ dat"

lemma commented_packing_misread:
  "length dat < 32 \<Longrightarrow> \<exists>e. unmarshalDepositVersion0 dep to (commented_packing mint val gas creation dat) = Err e"
  "32 \<le> length dat \<Longrightarrow> \<exists>d. unmarshalDepositVersion0 dep to (commented_packing mint val gas creation dat) = Ok d
     \<and> dt_EthValue d = nil_if_zero (SetBytes (be_bytes 8 (uint gas) @ [if creation then 1 else 0] @ take 23 dat))
     \<and> dt_Gas d = big_Uint64 (SetBytes (slice dat 23 31)) \<and> (dt_To d = Some to \<longleftrightarrow> dat ! 31 = 0 \<or> dt_To dep = Some to)
     \<and> dt_Data d = drop 32 dat"
proof -
  let ?o = "commented_packing mint val gas creation dat"
  have len: "length ?o = 73 + length dat" by (simp add: commented_packing_def)
  show "length dat < 32 \<Longrightarrow> \<exists>e. unmarshalDepositVersion0 dep to ?o = Err e"
    by (simp add: unmarshalDepositVersion0_def len)
  assume d: "32 \<le> length dat"
  have s: "slice ?o 64 96 = be_bytes 8 (uint gas) @ [if creation then 1 else 0] @ take 23 dat" "slice ?o 96 104 = slice dat 23 31"
    "drop 105 ?o = drop 32 dat" "indexR ?o 104 = Ok (dat ! 31)"
    using d by (simp_all add: commented_packing_def slice_def indexR_def nth_append)
  have "SetBytes (slice dat 23 31) < 256 ^ 8" using SetBytes_less[of "slice dat 23 31"] d by (simp add: slice_def)
  then have g: "0 \<le> SetBytes (slice dat 23 31) \<and> SetBytes (slice dat 23 31) < 2 ^ 64" using SetBytes_nonneg by simp
  show "\<exists>d. unmarshalDepositVersion0 dep to ?o = Ok d
     \<and> dt_EthValue d = nil_if_zero (SetBytes (be_bytes 8 (uint gas) @ [if creation then 1 else 0] @ take 23 dat))
     \<and> dt_Gas d = big_Uint64 (SetBytes (slice dat 23 31)) \<and> (dt_To d = Some to \<longleftrightarrow> dat ! 31 = 0 \<or> dt_To dep = Some to)
     \<and> dt_Data d = drop 32 dat"
    using d g by (simp add: unmarshalDepositVersion0_def len s Let_def)
qed

text \<open>C39: the decoder reads every deposit that is packed as it expects, as mint, value, ETH value, gas, creation flag and
  call data: when the amounts fit their fields, the log that carries the packed fields is decoded to that deposit, with the
  sender and the recipient of the topics, a nil mint or ETH value exactly when the field is zero, and no recipient
  exactly when the deposit creates a contract.\<close>

theorem deposit_log_roundtrip:
  assumes "0 \<le> mint" "mint < 2 ^ 256" "0 \<le> val" "val < 2 ^ 256" "0 \<le> eth" "eth < 2 ^ 256"
    and "length dat < 2 ^ 63"
    and "Topics ev = [DepositEventABIHash keccak, encode_address from, encode_address to, 0]"
    and "Data ev = encode_bytes (encode_deposit mint val eth gas creation dat)"
  shows "UnmarshalDepositLogEvent keccak ev = Ok
     \<lparr>dt_SourceHash = UserDepositSource_SourceHash keccak \<lparr>ud_L1BlockHash = BlockHash ev, ud_LogIndex = Index ev\<rparr>,
      dt_From = from, dt_To = (if creation then None else Some to), dt_Mint = nil_if_zero mint,
      dt_Value = Some val, dt_Gas = gas, dt_IsSystemTransaction = False, dt_EthValue = nil_if_zero eth,
      dt_Data = dat\<rparr>"
  by (rule decode_deposit_log[OF assms])

definition sample_deposit_log :: "(bytes \<Rightarrow> hash) \<Rightarrow> log" where
  "sample_deposit_log keccak = \<lparr>Address = 1, Topics = [DepositEventABIHash keccak, encode_address 2, encode_address 3, 0],
     Data = encode_bytes (encode_deposit 0 7 9 21000 False [5, 6]), BlockNumber = 1, TxHash = 4, BlockHash = 5, Index = 6\<rparr>"

theorem deposit_log_roundtrip_witness:
  "map_option dt_Data (case UnmarshalDepositLogEvent BytesToHash (sample_deposit_log BytesToHash) of
       Ok d \<Rightarrow> Some d | _ \<Rightarrow> None) = Some [5, 6]
   \<and> map_option dt_Mint (case UnmarshalDepositLogEvent BytesToHash (sample_deposit_log BytesToHash) of
       Ok d \<Rightarrow> Some d | _ \<Rightarrow> None) = Some None"
  using deposit_log_roundtrip[of 0 7 9 "[5, 6]" "sample_deposit_log BytesToHash" BytesToHash 2 3 21000 False]
  by (simp add: sample_deposit_log_def nil_if_zero_def)

end
