(* ===== verification/BusinessTables.thy ===== *)
theory BusinessTables
  imports EventTables
begin

text \<open>
  The data access layer of the bridge: database/business/l1_to_l2.go, l2_to_l1.go, stateroot.go,
  datastore.go and database/v1.  The loops that update rows are instances of \<open>update_each\<close>, and
  each of them is an interpretation of \<open>row_update\<close> with the columns it leaves alone.
\<close>

section \<open>Status codes\<close>

definition L2ToL1Pending :: int where "L2ToL1Pending = 0"
definition L2ToL1ReadyForProved :: int where "L2ToL1ReadyForProved = 1"
definition L2ToL1InChallengePeriod :: int where "L2ToL1InChallengePeriod = 2"
definition L2ToL1ReadyForClaim :: int where "L2ToL1ReadyForClaim = 3"
definition L2ToL1Claimed :: int where "L2ToL1Claimed = 4"
definition L1ToL2Pending :: int where "L1ToL2Pending = 1"
definition L1ToL2Claimed :: int where "L1ToL2Claimed = 2"

lemmas status_defs = L2ToL1Pending_def L2ToL1ReadyForProved_def L2ToL1InChallengePeriod_def
  L2ToL1ReadyForClaim_def L2ToL1Claimed_def L1ToL2Pending_def L1ToL2Claimed_def

text \<open>The guard of the Mark functions: an entry whose L1 block number is zero is skipped, a nil
  number is a nil dereference.\<close>

definition skip_zero_block :: "int option \<Rightarrow> bool result" where
  "skip_zero_block n = bindR (nonil n) (\<lambda>b. Ok (big_Uint64 b \<le> 0))"

section \<open>Deposits: l1_to_l2\<close>

definition StoreL1ToL2Transactions :: "gorms \<Rightarrow> L1ToL2 list \<Rightarrow> (db, unit) go" where
  "StoreL1ToL2Transactions G rs = zoomG l1_to_l2 l1_to_l2_update (g_create (G_l12 G) rs)"

definition l12_by_txhash :: "L1ToL2 \<Rightarrow> L1ToL2 \<Rightarrow> bool" where
  "l12_by_txhash x r = where_field (l12_L1TransactionHash x) (l12_L1TransactionHash r)"

definition l12_by_message :: "L1ToL2 \<Rightarrow> L1ToL2 \<Rightarrow> bool" where
  "l12_by_message x r = where_field (l12_MessageHash x) (l12_MessageHash r)"

definition set_l12_info :: "L1ToL2 \<Rightarrow> L1ToL2 \<Rightarrow> L1ToL2 result" where
  "set_l12_info x r = Ok (r\<lparr>l12_L1TokenAddress := l12_L1TokenAddress x, l12_L2TokenAddress := l12_L2TokenAddress x,
     l12_FromAddress := l12_FromAddress x, l12_ToAddress := l12_ToAddress x,
     l12_ERC20Amount := l12_ERC20Amount x\<rparr>)"

definition UpdateL1ToL2InfoByTxHash :: "gorms \<Rightarrow> L1ToL2 list \<Rightarrow> (db, unit) go" where
  "UpdateL1ToL2InfoByTxHash G xs = zoomG l1_to_l2 l1_to_l2_update
     (update_each (G_l12 G) never_skip l12_by_txhash set_l12_info xs)"

definition set_l12_message :: "L1ToL2 \<Rightarrow> L1ToL2 \<Rightarrow> L1ToL2 result" where
  "set_l12_message x r = Ok (r\<lparr>l12_MessageHash := l12_MessageHash x\<rparr>)"

definition UpdateMessageHashByTxHash :: "gorms \<Rightarrow> L1ToL2 list \<Rightarrow> (db, unit) go" where
  "UpdateMessageHashByTxHash G xs = zoomG l1_to_l2 l1_to_l2_update
     (update_each (G_l12 G) never_skip l12_by_txhash set_l12_message xs)"

definition set_l12_claimed :: "L1ToL2 \<Rightarrow> L1ToL2 \<Rightarrow> L1ToL2 result" where
  "set_l12_claimed x r = Ok (r\<lparr>l12_L2BlockNumber := l12_L2BlockNumber x,
     l12_L2TransactionHash := l12_L2TransactionHash x, l12_Status := L1ToL2Claimed\<rparr>)"

definition MarkL1ToL2TransactionDepositFinalized :: "gorms \<Rightarrow> L1ToL2 list \<Rightarrow> (db, unit) go" where
  "MarkL1ToL2TransactionDepositFinalized G xs = zoomG l1_to_l2 l1_to_l2_update
     (update_each (G_l12 G) (\<lambda>x. skip_zero_block (l12_L1BlockNumber x)) l12_by_message set_l12_claimed xs)"

definition set_l12_relayed :: "L1ToL2 \<Rightarrow> L1ToL2 \<Rightarrow> L1ToL2 result" where
  "set_l12_relayed x r = Ok (r\<lparr>l12_L2TransactionHash := l12_L2TransactionHash x\<rparr>)"

definition RelayedL1ToL2Transaction :: "gorms \<Rightarrow> L1ToL2 list \<Rightarrow> (db, unit) go" where
  "RelayedL1ToL2Transaction G xs = zoomG l1_to_l2 l1_to_l2_update
     (update_each (G_l12 G) never_skip l12_by_message set_l12_relayed xs)"

definition set_l12_finalized :: "L1ToL2 \<Rightarrow> L1ToL2 \<Rightarrow> L1ToL2 result" where
  "set_l12_finalized x r = Ok (r\<lparr>l12_L2TransactionHash := l12_L2TransactionHash x,
     l12_L2BlockNumber := l12_L2BlockNumber x, l12_Status := l12_Status x\<rparr>)"

definition FinalizedL1ToL2Transaction :: "gorms \<Rightarrow> L1ToL2 list \<Rightarrow> (db, unit) go" where
  "FinalizedL1ToL2Transaction G xs = zoomG l1_to_l2 l1_to_l2_update
     (update_each (G_l12 G) never_skip l12_by_message set_l12_finalized xs)"

text \<open>A page of the list: page and pageSize are ints; the address 0x00 (None here) selects all rows;
  an error of a query is logged, and the count or the rows are then zero or empty.\<close>

definition page_or_empty :: "'r list result \<Rightarrow> 'r list" where
  "page_or_empty res = (case res of Ok rs \<Rightarrow> rs | _ \<Rightarrow> [])"

definition count_or_zero :: "int result \<Rightarrow> int" where
  "count_or_zero res = (case res of Ok n \<Rightarrow> n | _ \<Rightarrow> 0)"

definition L1ToL2List :: "gorms \<Rightarrow> address option \<Rightarrow> int \<Rightarrow> int \<Rightarrow> bool \<Rightarrow> db \<Rightarrow> L1ToL2 list \<times> int" where
  "L1ToL2List G addr page pageSize asc s =
     (let c = (case addr of Some a \<Rightarrow> (\<lambda>r. l12_FromAddress r = a \<or> l12_ToAddress r = a) | None \<Rightarrow> (\<lambda>_. True));
          total = count_or_zero (g_count (G_l12 G) c (l1_to_l2 s));
          rows = g_page (G_l12 G) c asc l12_Timestamp (wrap64 ((page - 1) * pageSize)) pageSize (l1_to_l2 s) in
      (page_or_empty rows, total))"

definition L1ToL2TransactionDeposit :: "gorms \<Rightarrow> hash \<Rightarrow> db \<Rightarrow> L1ToL2 option result" where
  "L1ToL2TransactionDeposit G messageHash s =
     nil_if_not_found (g_take (G_l12 G) (\<lambda>r. where_field messageHash (l12_MessageHash r)) (l1_to_l2 s))"

definition L1ToL2Transaction :: "gorms \<Rightarrow> hash \<Rightarrow> db \<Rightarrow> L1ToL2 option result" where
  "L1ToL2Transaction G msgHash s =
     nil_if_not_found (g_take (G_l12 G) (\<lambda>r. where_field msgHash (l12_MessageHash r)) (l1_to_l2 s))"

text \<open>The number of a stored block; it passes through a uint64.\<close>

definition number_of_row :: "BlockHeader option \<Rightarrow> int option" where
  "number_of_row = map_option (\<lambda>r. uint (word_of_int (bh_Number r) :: u64))"

definition L1ToL2_GetBlockNumberFromHash :: "gorms \<Rightarrow> hash \<Rightarrow> db \<Rightarrow> int option result" where
  "L1ToL2_GetBlockNumberFromHash G h s =
     bindR (nil_if_not_found (g_take (G_headers G) (\<lambda>r. bh_Hash r = h) (l1_block_headers s)))
       (\<lambda>row. Ok (number_of_row row))"

definition L1ToL2_GetL2BlockNumberFromHash :: "gorms \<Rightarrow> hash \<Rightarrow> db \<Rightarrow> int option result" where
  "L1ToL2_GetL2BlockNumberFromHash G h s =
     bindR (nil_if_not_found (g_take (G_headers G) (\<lambda>r. bh_Hash r = h) (l2_block_headers s)))
       (\<lambda>row. Ok (number_of_row row))"

definition L1L2LatestL1BlockHeader :: "gorms \<Rightarrow> db \<Rightarrow> BlockHeader option result" where
  "L1L2LatestL1BlockHeader G s = max_header G (map l12_L1BlockNumber (l1_to_l2 s)) (l1_block_headers s)"

definition L1L2LatestL2BlockHeader :: "gorms \<Rightarrow> db \<Rightarrow> BlockHeader option result" where
  "L1L2LatestL2BlockHeader G s =
     nil_if_not_found (g_take_desc (G_headers G) (\<lambda>_. True) bh_Number (l2_block_headers s))"

definition L1L2LatestFinalizedL2BlockHeader :: "gorms \<Rightarrow> db \<Rightarrow> BlockHeader option result" where
  "L1L2LatestFinalizedL2BlockHeader G s =
     max_header G (map l12_L2BlockNumber (filter (\<lambda>r. l12_Status r = L1ToL2Claimed) (l1_to_l2 s))) (l2_block_headers s)"

definition L1L2LatestTimestamp :: "gorms \<Rightarrow> db \<Rightarrow> int" where
  "L1L2LatestTimestamp G s =
     (case g_take_desc (G_l12 G) (\<lambda>_. True) l12_Timestamp (l1_to_l2 s) of Ok r \<Rightarrow> l12_Timestamp r | _ \<Rightarrow> 0)"

section \<open>Withdrawals: l2_to_l1\<close>

definition StoreL2ToL1Transactions :: "gorms \<Rightarrow> L2ToL1 list \<Rightarrow> (db, unit) go" where
  "StoreL2ToL1Transactions G rs = zoomG l2_to_l1 l2_to_l1_update (g_create (G_l21 G) rs)"

definition L2ToL1List :: "gorms \<Rightarrow> address option \<Rightarrow> int \<Rightarrow> int \<Rightarrow> bool \<Rightarrow> db \<Rightarrow> L2ToL1 list \<times> int" where
  "L2ToL1List G addr page pageSize asc s =
     (let c = (case addr of Some a \<Rightarrow> (\<lambda>r. l21_FromAddress r = a \<or> l21_ToAddress r = a) | None \<Rightarrow> (\<lambda>_. True));
          total = count_or_zero (g_count (G_l21 G) c (l2_to_l1 s));
          rows = g_page (G_l21 G) c asc l21_Timestamp (wrap64 ((page - 1) * pageSize)) pageSize (l2_to_l1 s) in
      (page_or_empty rows, total))"

definition l21_by_txhash :: "L2ToL1 \<Rightarrow> L2ToL1 \<Rightarrow> bool" where
  "l21_by_txhash x r = where_field (l21_L2TransactionHash x) (l21_L2TransactionHash r)"

definition l21_by_message :: "L2ToL1 \<Rightarrow> L2ToL1 \<Rightarrow> bool" where
  "l21_by_message x r = where_field (l21_MessageHash x) (l21_MessageHash r)"

definition l21_by_withdrawal :: "L2ToL1 \<Rightarrow> L2ToL1 \<Rightarrow> bool" where
  "l21_by_withdrawal x r = where_field (l21_WithdrawTransactionHash x) (l21_WithdrawTransactionHash r)"

definition set_l21_info :: "L2ToL1 \<Rightarrow> L2ToL1 \<Rightarrow> L2ToL1 result" where
  "set_l21_info x r = Ok (r\<lparr>l21_L1BlockNumber := l21_L1BlockNumber x, l21_FromAddress := l21_FromAddress x,
     l21_ToAddress := l21_ToAddress x, l21_ETHAmount := l21_ETHAmount x, l21_ERC20Amount := l21_ERC20Amount x,
     l21_L1TokenAddress := l21_L1TokenAddress x, l21_L2TokenAddress := l21_L2TokenAddress x\<rparr>)"

definition UpdateL2ToL1InfoByTxHash :: "gorms \<Rightarrow> L2ToL1 list \<Rightarrow> (db, unit) go" where
  "UpdateL2ToL1InfoByTxHash G xs = zoomG l2_to_l1 l2_to_l1_update
     (update_each (G_l21 G) never_skip l21_by_txhash set_l21_info xs)"

definition UpdateL2ToL1InfoByMessageHash :: "gorms \<Rightarrow> L2ToL1 list \<Rightarrow> (db, unit) go" where
  "UpdateL2ToL1InfoByMessageHash G xs = zoomG l2_to_l1 l2_to_l1_update
     (update_each (G_l21 G) never_skip l21_by_message set_l21_info xs)"

text \<open>A proven withdrawal is in its challenge period while time is left, otherwise it can be claimed.\<close>

definition set_l21_proven :: "L2ToL1 \<Rightarrow> L2ToL1 \<Rightarrow> L2ToL1 result" where
  "set_l21_proven x r = bindR (nonil (l21_TimeLeft r)) (\<lambda>timeLeft.
     Ok (r\<lparr>l21_L1BlockNumber := l21_L1BlockNumber x, l21_L1ProveTxHash := l21_L1ProveTxHash x,
       l21_Status := (if big_Uint64 timeLeft > 0 then L2ToL1InChallengePeriod else L2ToL1ReadyForClaim)\<rparr>))"

definition set_l21_claimed :: "L2ToL1 \<Rightarrow> L2ToL1 \<Rightarrow> L2ToL1 result" where
  "set_l21_claimed x r = Ok (r\<lparr>l21_L1BlockNumber := l21_L1BlockNumber x,
     l21_L1FinalizeTxHash := l21_L1FinalizeTxHash x, l21_Status := L2ToL1Claimed\<rparr>)"

definition MarkL2ToL1TransactionWithdrawalProven :: "gorms \<Rightarrow> L2ToL1 list \<Rightarrow> (db, unit) go" where
  "MarkL2ToL1TransactionWithdrawalProven G xs = zoomG l2_to_l1 l2_to_l1_update
     (update_each (G_l21 G) (\<lambda>x. skip_zero_block (l21_L1BlockNumber x)) l21_by_withdrawal set_l21_proven xs)"

definition MarkL2ToL1TransactionWithdrawalProvenV0 :: "gorms \<Rightarrow> L2ToL1 list \<Rightarrow> (db, unit) go" where
  "MarkL2ToL1TransactionWithdrawalProvenV0 G xs = zoomG l2_to_l1 l2_to_l1_update
     (update_each (G_l21 G) (\<lambda>x. skip_zero_block (l21_L1BlockNumber x)) l21_by_message set_l21_proven xs)"

definition MarkL2ToL1TransactionWithdrawalFinalized :: "gorms \<Rightarrow> L2ToL1 list \<Rightarrow> (db, unit) go" where
  "MarkL2ToL1TransactionWithdrawalFinalized G xs = zoomG l2_to_l1 l2_to_l1_update
     (update_each (G_l21 G) (\<lambda>x. skip_zero_block (l21_L1BlockNumber x)) l21_by_withdrawal set_l21_claimed xs)"

definition MarkL2ToL1TransactionWithdrawalFinalizedV0 :: "gorms \<Rightarrow> L2ToL1 list \<Rightarrow> (db, unit) go" where
  "MarkL2ToL1TransactionWithdrawalFinalizedV0 G xs = zoomG l2_to_l1 l2_to_l1_update
     (update_each (G_l21 G) (\<lambda>x. skip_zero_block (l21_L1BlockNumber x)) l21_by_message set_l21_claimed xs)"

text \<open>A comparison with a NULL column is not true in SQL.\<close>

definition sql_le :: "int option \<Rightarrow> int \<Rightarrow> bool" where
  "sql_le x y = (case x of None \<Rightarrow> False | Some n \<Rightarrow> n \<le> y)"

definition sql_less :: "int option \<Rightarrow> int \<Rightarrow> bool" where
  "sql_less x y = (case x of None \<Rightarrow> False | Some n \<Rightarrow> n < y)"

definition sql_gt :: "int option \<Rightarrow> int \<Rightarrow> bool" where
  "sql_gt x y = (case x of None \<Rightarrow> False | Some n \<Rightarrow> n > y)"

definition UpdateReadyForProvedStatus :: "gorms \<Rightarrow> u64 \<Rightarrow> u64 \<Rightarrow> (db, unit) go" where
  "UpdateReadyForProvedStatus G l2BlockNumber fraudProofWindows = zoomG l2_to_l1 l2_to_l1_update
     (g_updates (G_l21 G) (\<lambda>r. sql_le (l21_L2BlockNumber r) (uint l2BlockNumber) \<and> l21_Status r = 0)
       (\<lambda>r. r\<lparr>l21_Status := L2ToL1ReadyForProved, l21_TimeLeft := Some (uint fraudProofWindows)\<rparr>))"

definition time_left_step :: "L2ToL1 \<Rightarrow> L2ToL1" where
  "time_left_step r = r\<lparr>l21_TimeLeft := map_option (\<lambda>n. max (n - 1) 0) (l21_TimeLeft r)\<rparr>"

text \<open>Two statements: count the challenge period down, then release the rows that have none left.\<close>

definition UpdateTimeLeft :: "gorms \<Rightarrow> (db, unit) go" where
  "UpdateTimeLeft G =
     (\<lambda>s. case zoomG l2_to_l1 l2_to_l1_update (g_updates (G_l21 G)
              (\<lambda>r. sql_gt (l21_TimeLeft r) 0 \<and> l21_Status r = L2ToL1InChallengePeriod) time_left_step) s of
         (Err e, s') \<Rightarrow> if errors_Is e RecordNotFound then (Ok (), s') else (Err e, s')
       | (Panic p, s') \<Rightarrow> (Panic p, s')
       | (Ok _, s') \<Rightarrow>
           (case zoomG l2_to_l1 l2_to_l1_update (g_updates (G_l21 G)
              (\<lambda>r. l21_TimeLeft r = Some 0 \<and> l21_Status r = L2ToL1InChallengePeriod)
              (\<lambda>r. r\<lparr>l21_Status := L2ToL1ReadyForClaim\<rparr>)) s' of
              (Err e, s'') \<Rightarrow> if errors_Is e RecordNotFound then (Ok (), s'') else (Err e, s'')
            | (Panic p, s'') \<Rightarrow> (Panic p, s'')
            | (Ok _, s'') \<Rightarrow> (Ok (), s'')))"

definition L2ToL1_GetBlockNumberFromHash :: "gorms \<Rightarrow> hash \<Rightarrow> db \<Rightarrow> int option result" where
  "L2ToL1_GetBlockNumberFromHash G h s =
     bindR (nil_if_not_found (g_take (G_headers G) (\<lambda>r. bh_Hash r = h) (l2_block_headers s)))
       (\<lambda>row. Ok (number_of_row row))"

definition L2ToL1TransactionWithdrawal :: "gorms \<Rightarrow> hash \<Rightarrow> db \<Rightarrow> L2ToL1 option result" where
  "L2ToL1TransactionWithdrawal G withdrawalHash s =
     nil_if_not_found (g_take (G_l21 G) (\<lambda>r. where_field withdrawalHash (l21_WithdrawTransactionHash r)) (l2_to_l1 s))"

definition L2ToL1TransactionTxHash :: "gorms \<Rightarrow> hash \<Rightarrow> db \<Rightarrow> L2ToL1 option result" where
  "L2ToL1TransactionTxHash G txHash s =
     nil_if_not_found (g_take (G_l21 G) (\<lambda>r. where_field txHash (l21_L2TransactionHash r)) (l2_to_l1 s))"

definition L2L1LatestBlockL2Header :: "gorms \<Rightarrow> db \<Rightarrow> BlockHeader option result" where
  "L2L1LatestBlockL2Header G s = max_header G (map l21_L2BlockNumber (l2_to_l1 s)) (l2_block_headers s)"

definition L2L1LatestBlockL1Header :: "gorms \<Rightarrow> db \<Rightarrow> BlockHeader option result" where
  "L2L1LatestBlockL1Header G s =
     nil_if_not_found (g_take_desc (G_headers G) (\<lambda>_. True) bh_Number (l1_block_headers s))"

definition L2L1LatestFinalizedBlockL1Header :: "gorms \<Rightarrow> db \<Rightarrow> BlockHeader option result" where
  "L2L1LatestFinalizedBlockL1Header G s =
     max_header G (map l21_L1BlockNumber (filter (\<lambda>r. l21_Status r = L2ToL1Claimed) (l2_to_l1 s))) (l1_block_headers s)"

definition UpdateV1L2Tol1WithdrawalHash :: "gorms \<Rightarrow> hash \<Rightarrow> hash \<Rightarrow> (db, unit) go" where
  "UpdateV1L2Tol1WithdrawalHash G txHash withdrawHash = zoomG l2_to_l1 l2_to_l1_update
     (g_updates (G_l21 G) (\<lambda>r. l21_L2TransactionHash r = txHash)
       (\<lambda>r. r\<lparr>l21_WithdrawTransactionHash := withdrawHash\<rparr>))"

definition L2L1LatestFinalizedL1BlockNumber :: "gorms \<Rightarrow> db \<Rightarrow> int" where
  "L2L1LatestFinalizedL1BlockNumber G s =
     (case g_take_desc (G_l21 G) (\<lambda>r. sql_gt (l21_L1BlockNumber r) 0)
             (\<lambda>r. case l21_L1BlockNumber r of None \<Rightarrow> 0 | Some n \<Rightarrow> n) (l2_to_l1 s) of
        Ok r \<Rightarrow> (case l21_L1BlockNumber r of None \<Rightarrow> 0 | Some n \<Rightarrow> n) | _ \<Rightarrow> 0)"

section \<open>The contracts of the update loops\<close>

interpretation l12info: row_update l12_GUID
  "\<lambda>r. (l12_L1BlockNumber r, l12_L1TransactionHash r, l12_MessageHash r, l12_Status r, l12_ETHAmount r)"
  l12_by_txhash set_l12_info
  by unfold_locales (auto simp: set_l12_info_def)

interpretation l12message: row_update l12_GUID
  "\<lambda>r. (l12_L1BlockNumber r, l12_L1TransactionHash r, l12_Status r, l12_ETHAmount r, l12_ERC20Amount r)"
  l12_by_txhash set_l12_message
  by unfold_locales (auto simp: set_l12_message_def)

interpretation l12claimed: row_update l12_GUID
  "\<lambda>r. (l12_L1BlockNumber r, l12_L1TransactionHash r, l12_MessageHash r, l12_ETHAmount r, l12_ERC20Amount r)"
  l12_by_message set_l12_claimed
  by unfold_locales (auto simp: set_l12_claimed_def)

interpretation l12relayed: row_update l12_GUID
  "\<lambda>r. (l12_L1TransactionHash r, l12_MessageHash r, l12_Status r, l12_ETHAmount r, l12_ERC20Amount r)"
  l12_by_message set_l12_relayed
  by unfold_locales (auto simp: set_l12_relayed_def)

interpretation l12finalized: row_update l12_GUID
  "\<lambda>r. (l12_L1BlockNumber r, l12_L1TransactionHash r, l12_MessageHash r, l12_ETHAmount r, l12_ERC20Amount r)"
  l12_by_message set_l12_finalized
  by unfold_locales (auto simp: set_l12_finalized_def)

interpretation l21info: row_update l21_key
  "\<lambda>r. (l21_L2TransactionHash r, l21_MessageHash r, l21_WithdrawTransactionHash r, l21_Status r, l21_TimeLeft r)"
  l21_by_txhash set_l21_info
  by unfold_locales (auto simp: set_l21_info_def l21_key_def)

interpretation l21proven: row_update l21_key
  "\<lambda>r. (l21_L2TransactionHash r, l21_MessageHash r, l21_WithdrawTransactionHash r, l21_TimeLeft r,
        l21_L1FinalizeTxHash r, l21_ETHAmount r, l21_ERC20Amount r)"
  l21_by_withdrawal set_l21_proven
  by unfold_locales (auto simp: set_l21_proven_def l21_key_def)

interpretation l21claimed: row_update l21_key
  "\<lambda>r. (l21_L2TransactionHash r, l21_MessageHash r, l21_WithdrawTransactionHash r, l21_TimeLeft r,
        l21_L1ProveTxHash r, l21_ETHAmount r, l21_ERC20Amount r)"
  l21_by_withdrawal set_l21_claimed
  by unfold_locales (auto simp: set_l21_claimed_def l21_key_def)

lemmas l12_update_defs = UpdateL1ToL2InfoByTxHash_def UpdateMessageHashByTxHash_def
  MarkL1ToL2TransactionDepositFinalized_def RelayedL1ToL2Transaction_def FinalizedL1ToL2Transaction_def

lemmas l21_update_defs = UpdateL2ToL1InfoByTxHash_def UpdateL2ToL1InfoByMessageHash_def
  MarkL2ToL1TransactionWithdrawalProven_def MarkL2ToL1TransactionWithdrawalProvenV0_def
  MarkL2ToL1TransactionWithdrawalFinalized_def MarkL2ToL1TransactionWithdrawalFinalizedV0_def

section \<open>The challenge period\<close>

text \<open>What one run of UpdateTimeLeft does to a row.\<close>

definition tick_row :: "L2ToL1 \<Rightarrow> L2ToL1" where
  "tick_row r =
     (let r1 = (if sql_gt (l21_TimeLeft r) 0 \<and> l21_Status r = L2ToL1InChallengePeriod then time_left_step r else r) in
      if l21_TimeLeft r1 = Some 0 \<and> l21_Status r1 = L2ToL1InChallengePeriod
      then r1\<lparr>l21_Status := L2ToL1ReadyForClaim\<rparr> else r1)"

lemma UpdateTimeLeft_rows:
  assumes "gorms_ok G" "UpdateTimeLeft G s = (Ok (), s')"
  shows "s' = s\<lparr>l2_to_l1 := map tick_row (l2_to_l1 s)\<rparr>"
proof -
  let ?P1 = "\<lambda>r. sql_gt (l21_TimeLeft r) 0 \<and> l21_Status r = L2ToL1InChallengePeriod"
  let ?P2 = "\<lambda>r. l21_TimeLeft r = Some 0 \<and> l21_Status r = L2ToL1InChallengePeriod"
  let ?f2 = "\<lambda>r. r\<lparr>l21_Status := L2ToL1ReadyForClaim\<rparr>"
  let ?z = "\<lambda>P f. zoomG l2_to_l1 l2_to_l1_update (g_updates (G_l21 G) P f)"
  have nz: "\<not> errors_Is e RecordNotFound" if "?z P f t = (Err e, t')" for P f t e t'
    using gorm_updates(2)[OF gorms_okD(10)[OF assms(1)], of P f "l2_to_l1 t" e] that
    by (auto simp: zoomG_def prod_eq_iff)
  obtain r1 s1 where z1: "?z ?P1 time_left_step s = (r1, s1)" by (cases "?z ?P1 time_left_step s") auto
  then have r1: "r1 = Ok ()" using assms(2) nz[of ?P1 time_left_step s] by (cases r1) (auto simp: UpdateTimeLeft_def)
  obtain r2 s2 where z2: "?z ?P2 ?f2 s1 = (r2, s2)" by (cases "?z ?P2 ?f2 s1") auto
  then have r2: "r2 = Ok ()" using assms(2) z1 r1 nz[of ?P2 ?f2 s1] by (cases r2) (auto simp: UpdateTimeLeft_def)
  have s1: "?z ?P1 time_left_step s = (Ok (), s1)" "?z ?P2 ?f2 s1 = (Ok (), s')"
    using assms(2) z1 r1 z2 r2 by (simp_all add: UpdateTimeLeft_def)
  have "s1 = s\<lparr>l2_to_l1 := map (\<lambda>r. if ?P1 r then time_left_step r else r) (l2_to_l1 s)\<rparr>"
    by (rule zoom_updates_Ok[OF gorms_okD(10)[OF assms(1)] s1(1)])
  then show ?thesis
    using zoom_updates_Ok[OF gorms_okD(10)[OF assms(1)] s1(2)] by (simp add: tick_row_def Let_def comp_def)
qed

lemma tick_row_other: "l21_Status r \<noteq> L2ToL1InChallengePeriod \<Longrightarrow> tick_row r = r"
  by (simp add: tick_row_def Let_def)

lemma tick_row_counts:
  assumes "l21_Status r = L2ToL1InChallengePeriod" "l21_TimeLeft r = Some k" "0 \<le> k"
  shows "tick_row r = r\<lparr>l21_TimeLeft := Some (max (k - 1) 0),
      l21_Status := if 1 < k then L2ToL1InChallengePeriod else L2ToL1ReadyForClaim\<rparr>"
  using assms by (auto simp: tick_row_def Let_def sql_gt_def time_left_step_def)

lemma tick_row_iter:
  assumes "l21_Status r = L2ToL1InChallengePeriod" "l21_TimeLeft r = Some k" "0 \<le> k"
  shows "(tick_row ^^ Suc n) r = r\<lparr>l21_TimeLeft := Some (max (k - int (Suc n)) 0),
      l21_Status := if int (Suc n) < k then L2ToL1InChallengePeriod else L2ToL1ReadyForClaim\<rparr>"
proof (induction n)
  case 0
  then show ?case using tick_row_counts[OF assms] by simp
next
  case (Suc n)
  let ?r = "(tick_row ^^ Suc n) r"
  have "tick_row ?r = ?r\<lparr>l21_TimeLeft := Some (max (k - int (Suc (Suc n))) 0),
      l21_Status := if int (Suc (Suc n)) < k then L2ToL1InChallengePeriod else L2ToL1ReadyForClaim\<rparr>"
  proof (cases "int (Suc n) < k")
    case True
    then have "l21_Status ?r = L2ToL1InChallengePeriod" "l21_TimeLeft ?r = Some (k - int (Suc n))" "0 \<le> k - int (Suc n)"
      using Suc.IH by simp_all
    note T = tick_row_counts[OF this]
    have "max (k - int (Suc n) - 1) 0 = max (k - int (Suc (Suc n))) 0" by simp
    moreover have "(1 < k - int (Suc n)) = (int (Suc (Suc n)) < k)" by auto
    ultimately show ?thesis using T by simp
  next
    case False
    then have "?r = r\<lparr>l21_TimeLeft := Some 0, l21_Status := L2ToL1ReadyForClaim\<rparr>" using Suc.IH by simp
    then show ?thesis using False by (simp add: tick_row_other status_defs)
  qed
  then show ?case using Suc.IH by simp
qed

section \<open>Properties\<close>

lemma ticks_rows:
  assumes "\<forall>G \<in> set Gs. gorms_ok G" "forG UpdateTimeLeft Gs s = (Ok (), s')"
  shows "l2_to_l1 s' = map (tick_row ^^ length Gs) (l2_to_l1 s)"
  using assms
proof (induction Gs arbitrary: s)
  case Nil
  then show ?case by (simp add: retG_def)
next
  case (Cons G Gs)
  then obtain t where t: "UpdateTimeLeft G s = (Ok (), t)" "forG UpdateTimeLeft Gs t = (Ok (), s')"
    by (auto simp: thenG_eq_Ok)
  have "t = s\<lparr>l2_to_l1 := map tick_row (l2_to_l1 s)\<rparr>"
    using Cons.prems(1) by (intro UpdateTimeLeft_rows[OF _ t(1)]) simp
  then show ?case using Cons.IH[OF _ t(2)] Cons.prems(1) by (simp add: funpow_swap1 comp_def)
qed

text \<open>C37: a withdrawal in its challenge period with k ticks left becomes claimable at the k-th run of
  UpdateTimeLeft (at the first one when none are left) and not before; its remaining time counts down
  by one a run and never becomes negative, and no run touches a row in another status.\<close>

theorem challenge_period_ends:
  assumes "\<forall>G \<in> set Gs. gorms_ok G" and "Gs \<noteq> []"
    and "forG UpdateTimeLeft Gs s = (Ok (), s')" and "i < length (l2_to_l1 s)"
  shows "length (l2_to_l1 s') = length (l2_to_l1 s)
     \<and> (l21_Status (l2_to_l1 s ! i) \<noteq> L2ToL1InChallengePeriod \<longrightarrow> l2_to_l1 s' ! i = l2_to_l1 s ! i)
     \<and> (\<forall>k. l21_Status (l2_to_l1 s ! i) = L2ToL1InChallengePeriod \<longrightarrow> l21_TimeLeft (l2_to_l1 s ! i) = Some k \<longrightarrow> 0 \<le> k \<longrightarrow>
          l2_to_l1 s' ! i = (l2_to_l1 s ! i)\<lparr>l21_TimeLeft := Some (max (k - int (length Gs)) 0),
            l21_Status := if int (length Gs) < k then L2ToL1InChallengePeriod else L2ToL1ReadyForClaim\<rparr>)"
proof -
  obtain n where n: "length Gs = Suc n" using assms(2) by (cases Gs) auto
  have rows: "l2_to_l1 s' = map (tick_row ^^ Suc n) (l2_to_l1 s)"
    using ticks_rows[OF assms(1,3)] n by simp
  have other: "(tick_row ^^ m) r = r" if "l21_Status r \<noteq> L2ToL1InChallengePeriod" for m r
    using tick_row_other[OF that] by (induction m) simp_all
  show ?thesis using rows assms(4) tick_row_iter other unfolding n by (simp del: funpow.simps)
qed

definition sample_withdrawal :: "hash \<Rightarrow> int \<Rightarrow> int \<Rightarrow> L2ToL1" where
  "sample_withdrawal h status left = zero_L2ToL1\<lparr>l21_GUID := ucast h, l21_L1BlockNumber := Some 0,
     l21_L2BlockNumber := Some 7, l21_L2TransactionHash := h, l21_WithdrawTransactionHash := h,
     l21_Status := status, l21_TimeLeft := Some left\<rparr>"

theorem challenge_period_ends_witness:
  "l2_to_l1 (snd (forG UpdateTimeLeft [mem_gorms, mem_gorms]
      (empty_db\<lparr>l2_to_l1 := [sample_withdrawal 1 L2ToL1InChallengePeriod 2]\<rparr>))) ! 0
   = sample_withdrawal 1 L2ToL1ReadyForClaim 0"
proof -
  let ?s = "empty_db\<lparr>l2_to_l1 := [sample_withdrawal 1 L2ToL1InChallengePeriod 2]\<rparr>"
  have "fst (forG UpdateTimeLeft [mem_gorms, mem_gorms] ?s) = Ok ()"
    by (simp add: go_defs UpdateTimeLeft_def zoomG_def)
  then have "forG UpdateTimeLeft [mem_gorms, mem_gorms] ?s
      = (Ok (), snd (forG UpdateTimeLeft [mem_gorms, mem_gorms] ?s))" by (simp only: prod_eq_iff fst_conv snd_conv simp_thms)
  from challenge_period_ends[OF _ _ this, of 0] show ?thesis
    by (simp add: mem_gorms_ok sample_withdrawal_def)
qed

text \<open>What the Mark functions may do to a row, from the rule the loops share.\<close>

lemma touched_claimed:
  "l21claimed.touched A r r' \<Longrightarrow> r' = r \<or> (\<exists>x \<in> A. l21_by_withdrawal x r \<and> r' = r\<lparr>l21_L1BlockNumber := l21_L1BlockNumber x,
     l21_L1FinalizeTxHash := l21_L1FinalizeTxHash x, l21_Status := L2ToL1Claimed\<rparr>)"
proof (induction rule: l21claimed.touched.induct)
  case (upd r r' x r'')
  then have "l21_WithdrawTransactionHash r' = l21_WithdrawTransactionHash r" by auto
  then have "l21_by_withdrawal x r" using upd by (simp add: l21_by_withdrawal_def)
  moreover have "r'' = r\<lparr>l21_L1BlockNumber := l21_L1BlockNumber x,
     l21_L1FinalizeTxHash := l21_L1FinalizeTxHash x, l21_Status := L2ToL1Claimed\<rparr>"
    using upd by (auto simp: set_l21_claimed_def)
  ultimately show ?case using upd.hyps(2) by blast
qed simp

lemma touched_proven:
  "l21proven.touched A r r' \<Longrightarrow> r' = r \<or> (\<exists>x \<in> A. \<exists>left. l21_by_withdrawal x r \<and> l21_TimeLeft r = Some left
     \<and> r' = r\<lparr>l21_L1BlockNumber := l21_L1BlockNumber x, l21_L1ProveTxHash := l21_L1ProveTxHash x,
         l21_Status := (if big_Uint64 left > 0 then L2ToL1InChallengePeriod else L2ToL1ReadyForClaim)\<rparr>)"
proof (induction rule: l21proven.touched.induct)
  case (upd r r' x r'')
  then have k: "l21_WithdrawTransactionHash r' = l21_WithdrawTransactionHash r" "l21_TimeLeft r' = l21_TimeLeft r" by auto
  obtain left where left: "l21_TimeLeft r' = Some left" using upd.hyps(4) by (auto simp: set_l21_proven_def)
  have "l21_by_withdrawal x r" using upd k by (simp add: l21_by_withdrawal_def)
  moreover have "r'' = r\<lparr>l21_L1BlockNumber := l21_L1BlockNumber x, l21_L1ProveTxHash := l21_L1ProveTxHash x,
         l21_Status := (if big_Uint64 left > 0 then L2ToL1InChallengePeriod else L2ToL1ReadyForClaim)\<rparr>"
    using upd left by (auto simp: set_l21_proven_def)
  ultimately show ?case using upd.hyps(2) left k by auto
qed simp

text \<open>Marking withdrawals finalized keeps the table's rows in place: each row is either unchanged or,
  when its withdrawal hash was named, claimed with the L1 block and transaction of an entry that names
  it; amounts, tokens, the message hash and the proving transaction never change.\<close>

lemma mark_finalized_rows:
  assumes "gorms_ok G" and "distinct (map l21_key (l2_to_l1 s))"
  shows "list_all2 (\<lambda>r r'. r' = r \<or> (\<exists>x \<in> set xs. l21_by_withdrawal x r \<and> r' = r\<lparr>l21_L1BlockNumber := l21_L1BlockNumber x,
       l21_L1FinalizeTxHash := l21_L1FinalizeTxHash x, l21_Status := L2ToL1Claimed\<rparr>))
     (l2_to_l1 s) (l2_to_l1 (snd (MarkL2ToL1TransactionWithdrawalFinalized G xs s)))"
proof -
  have "list_all2 (l21claimed.touched (set xs)) (l2_to_l1 s)
      (l2_to_l1 (snd (MarkL2ToL1TransactionWithdrawalFinalized G xs s)))"
    using l21claimed.loop_rows[OF gorms_okD(10)[OF assms(1)] assms(2)]
    by (simp add: MarkL2ToL1TransactionWithdrawalFinalized_def zoomG_def)
  then show ?thesis by (rule list_all2_mono) (rule touched_claimed)
qed

definition finalize_entry :: "hash \<Rightarrow> int \<Rightarrow> hash \<Rightarrow> L2ToL1" where
  "finalize_entry h block tx = zero_L2ToL1\<lparr>l21_WithdrawTransactionHash := h, l21_L1BlockNumber := Some block,
     l21_L1FinalizeTxHash := tx, l21_L1ProveTxHash := tx\<rparr>"

definition withdrawals_db :: "L2ToL1 list \<Rightarrow> db" where
  "withdrawals_db rows = empty_db\<lparr>l2_to_l1 := rows\<rparr>"

lemma l2_to_l1_withdrawals_db [simp]: "l2_to_l1 (withdrawals_db rows) = rows"
  by (simp add: withdrawals_db_def)

text \<open>Marking a withdrawal proven sets its status from the time left alone: whatever status the row
  had, claimed included, it is in its challenge period again when time is left and claimable
  otherwise; a row of which no time was recorded is never changed.\<close>

lemma mark_proven_rows:
  assumes "gorms_ok G" and "distinct (map l21_key (l2_to_l1 s))"
  shows "list_all2 (\<lambda>r r'. r' = r \<or> (\<exists>x \<in> set xs. \<exists>left. l21_by_withdrawal x r \<and> l21_TimeLeft r = Some left
       \<and> r' = r\<lparr>l21_L1BlockNumber := l21_L1BlockNumber x, l21_L1ProveTxHash := l21_L1ProveTxHash x,
         l21_Status := (if big_Uint64 left > 0 then L2ToL1InChallengePeriod else L2ToL1ReadyForClaim)\<rparr>))
     (l2_to_l1 s) (l2_to_l1 (snd (MarkL2ToL1TransactionWithdrawalProven G xs s)))"
proof -
  have "list_all2 (l21proven.touched (set xs)) (l2_to_l1 s)
      (l2_to_l1 (snd (MarkL2ToL1TransactionWithdrawalProven G xs s)))"
    using l21proven.loop_rows[OF gorms_okD(10)[OF assms(1)] assms(2)]
    by (simp add: MarkL2ToL1TransactionWithdrawalProven_def zoomG_def)
  then show ?thesis by (rule list_all2_mono) (rule touched_proven)
qed

lemma proven_reverts_claimed:
  "l2_to_l1 (snd (MarkL2ToL1TransactionWithdrawalProven mem_gorms [finalize_entry 1 50 9]
      (withdrawals_db [sample_withdrawal 1 L2ToL1Claimed 5])))
   = [sample_withdrawal 1 L2ToL1InChallengePeriod 5\<lparr>l21_L1BlockNumber := Some 50, l21_L1ProveTxHash := 9\<rparr>]"
  by (simp add: MarkL2ToL1TransactionWithdrawalProven_def zoomG_def skip_zero_block_def finalize_entry_def
      l21_by_withdrawal_def where_field_def sample_withdrawal_def set_l21_proven_def upsert_def status_defs
      big_Uint64_def zero_L2ToL1_def l21_key_def)

text \<open>An entry whose withdrawal is not in the table ends the whole update without an error: the
  entries after it are not applied.\<close>

lemma mark_finalized_stops_at_missing:
  assumes "gorms_ok G" and "l21_L1BlockNumber x = Some n" "0 < big_Uint64 n"
    and "\<forall>r \<in> set (l2_to_l1 (snd (MarkL2ToL1TransactionWithdrawalFinalized G pre s))). \<not> l21_by_withdrawal x r"
  shows "snd (MarkL2ToL1TransactionWithdrawalFinalized G (pre @ x # post) s)
       = snd (MarkL2ToL1TransactionWithdrawalFinalized G pre s)"
proof -
  let ?skip = "\<lambda>x. skip_zero_block (l21_L1BlockNumber x)"
  have "?skip x = Ok False" using assms(2,3) by (simp add: skip_zero_block_def)
  from update_each_stops[where skip = ?skip, OF gorms_okD(10)[OF assms(1)] this, of l21_by_withdrawal set_l21_claimed pre "l2_to_l1 s" post]
  show ?thesis using assms(4)
    by (simp add: MarkL2ToL1TransactionWithdrawalFinalized_def zoomG_def)
qed

end
