(* ===== verification/RootTables.thy ===== *)
theory RootTables
  imports BusinessTables
begin

text \<open>
  The data access layer of state roots and data stores: database/business/stateroot.go,
  datastore.go and database/v1/l2sent_message_events.go.
\<close>

section \<open>State roots\<close>

text \<open>Block sizes of the roots of a batch: the first against the block number of an earlier root,
  the others against their predecessor.  A nil block number is a nil dereference.\<close>

definition sub_u64 :: "int option \<Rightarrow> int option \<Rightarrow> u64 result" where
  "sub_u64 a b = bindR (nonil a) (\<lambda>x. bindR (nonil b) (\<lambda>y. Ok (big_Uint64 (x - y))))"

fun block_sizes :: "int option \<Rightarrow> StateRoot list \<Rightarrow> StateRoot list result" where
  "block_sizes prev [] = Ok []"
| "block_sizes prev (r # rs) =
     bindR (sub_u64 (sr_L2BlockNumber r) prev) (\<lambda>d.
     bindR (block_sizes (sr_L2BlockNumber r) rs) (\<lambda>rs'.
     Ok (r\<lparr>sr_BlockSize := d\<rparr> # rs')))"

text \<open>The query for the first size takes some root with a smaller timestamp: it has no order.\<close>

definition StoreBatchStateRoots :: "gorms \<Rightarrow> StateRoot list \<Rightarrow> (db, unit) go" where
  "StoreBatchStateRoots G roots s =
     (case roots of
        [] \<Rightarrow> (Panic ''index out of range'', s)
      | r # rs \<Rightarrow>
          (case nil_if_not_found (g_take (G_stateroot G) (\<lambda>x. sr_Timestamp x < sr_Timestamp r) (state_root s)) of
             Err e \<Rightarrow> (Err e, s)
           | Panic p \<Rightarrow> (Panic p, s)
           | Ok row \<Rightarrow>
               (let firstBlockSize = (case row of None \<Rightarrow> Some 0 | Some x \<Rightarrow>
                       (case sr_L2BlockNumber x of None \<Rightarrow> Some 0
                        | Some n \<Rightarrow> Some (uint (word_of_int n :: u64)))) in
                case block_sizes firstBlockSize (r # rs) of
                  Err e \<Rightarrow> (Err e, s)
                | Panic p \<Rightarrow> (Panic p, s)
                | Ok roots' \<Rightarrow> zoomG state_root state_root_update (g_create (G_stateroot G) roots') s)))"

definition StateRootList :: "gorms \<Rightarrow> int \<Rightarrow> int \<Rightarrow> bool \<Rightarrow> db \<Rightarrow> StateRoot list \<times> int" where
  "StateRootList G page pageSize asc s =
     (page_or_empty (g_page (G_stateroot G) (\<lambda>_. True) asc (\<lambda>r. uint (sr_Timestamp r))
        (wrap64 ((page - 1) * pageSize)) pageSize (state_root s)),
      count_or_zero (g_count (G_stateroot G) (\<lambda>_. True) (state_root s)))"

text \<open>Find into a scalar leaves it zero when there is no row.\<close>

definition GetLatestStateRootL2BlockNumber :: "gorms \<Rightarrow> db \<Rightarrow> int result" where
  "GetLatestStateRootL2BlockNumber G s =
     bindR (nil_if_not_found (g_take_desc (G_stateroot G) (\<lambda>_. True) (\<lambda>r. uint (sr_Timestamp r)) (state_root s)))
       (\<lambda>row. Ok (case row of None \<Rightarrow> 0 | Some r \<Rightarrow> (case sr_L2BlockNumber r of None \<Rightarrow> 0 | Some n \<Rightarrow> n)))"

definition UpdateSafeStatus :: "gorms \<Rightarrow> int \<Rightarrow> (db, unit) go" where
  "UpdateSafeStatus G safeBlockNumber = zoomG state_root state_root_update
     (g_updates (G_stateroot G)
       (\<lambda>r. sql_less (sr_L1BlockNumber r) (uint (big_Uint64 safeBlockNumber)) \<and> sr_Status r = 0)
       (\<lambda>r. r\<lparr>sr_Status := 1\<rparr>))"

definition UpdateFinalizedStatus :: "gorms \<Rightarrow> int \<Rightarrow> (db, unit) go" where
  "UpdateFinalizedStatus G finalizedBlockNumber = zoomG state_root state_root_update
     (g_updates (G_stateroot G)
       (\<lambda>r. sql_less (sr_L1BlockNumber r) (uint (big_Uint64 finalizedBlockNumber)))
       (\<lambda>r. r\<lparr>sr_Status := 2\<rparr>))"

definition zero_state_root :: StateRoot where
  "zero_state_root = \<lparr>sr_GUID = 0, sr_BlockHash = 0, sr_TransactionHash = 0, sr_L1BlockNumber = None,
     sr_L2BlockNumber = None, sr_OutputIndex = None, sr_PrevTotalElements = None, sr_Status = 0,
     sr_OutputRoot = [], sr_Canonical = False, sr_BatchSize = None, sr_Timestamp = 0, sr_BlockSize = 0\<rparr>"

text \<open>An error other than a missing row is logged, and the zero row is returned.\<close>

definition StateRootByIndex :: "gorms \<Rightarrow> int \<Rightarrow> db \<Rightarrow> StateRoot option result" where
  "StateRootByIndex G index s =
     (case g_take (G_stateroot G) (\<lambda>r. sr_OutputIndex r = Some (uint (big_Uint64 index))) (state_root s) of
        Ok r \<Rightarrow> Ok (Some r)
      | Err e \<Rightarrow> if errors_Is e RecordNotFound then Ok None else Ok (Some zero_state_root)
      | Panic p \<Rightarrow> Panic p)"

definition StateRootL1BlockHeader :: "gorms \<Rightarrow> db \<Rightarrow> BlockHeader option result" where
  "StateRootL1BlockHeader G s = max_header G (map sr_L1BlockNumber (state_root s)) (l1_block_headers s)"

section \<open>Data stores\<close>

definition DataStoreBlockById :: "gorms \<Rightarrow> int \<Rightarrow> db \<Rightarrow> DataStoreBlock list result" where
  "DataStoreBlockById G i s =
     rows_or_empty (g_find (G_dablock G) (\<lambda>r. db_DataStoreID r = big_Uint64 i) (data_store_block s))"

definition StoreBatchDataStoreBlocks :: "gorms \<Rightarrow> DataStoreBlock list \<Rightarrow> (db, unit) go" where
  "StoreBatchDataStoreBlocks G bs = zoomG data_store_block data_store_block_update (g_create (G_dablock G) bs)"

definition StoreBatchDataStores :: "gorms \<Rightarrow> DataStore list \<Rightarrow> (db, unit) go" where
  "StoreBatchDataStores G ds = zoomG data_store data_store_update (g_create (G_datastore G) ds)"

definition zero_data_store :: DataStore where
  "zero_data_store = \<lparr>ds_GUID = 0, ds_DataStoreId = 0, ds_DurationDataStoreId = 0, ds_DataInitHash = 0,
     ds_DataConfirmHash = 0, ds_FromStoreNumber = None, ds_StakeFromBlockNumber = None, ds_InitGasUsed = None,
     ds_InitBlockNumber = None, ds_ConfirmGasUsed = None, ds_DataHash = [], ds_EthSign = [], ds_MantleSign = [],
     ds_SignatoryRecord = [], ds_InitTime = 0, ds_ExpireTime = 0, ds_NumSys = 0, ds_NumPar = 0,
     ds_LowDegree = [], ds_Status = False, ds_Confirmer = [], ds_Header = [], ds_DataCommitment = [],
     ds_Timestamp = 0, ds_DataSize = None\<rparr>"

definition DataStoreById :: "gorms \<Rightarrow> int \<Rightarrow> db \<Rightarrow> DataStore option result" where
  "DataStoreById G i s =
     (case g_take (G_datastore G) (\<lambda>r. ds_DataStoreId r = big_Uint64 i) (data_store s) of
        Ok r \<Rightarrow> Ok (Some r)
      | Err e \<Rightarrow> if errors_Is e RecordNotFound then Ok None else Ok (Some zero_data_store)
      | Panic p \<Rightarrow> Panic p)"

definition LatestDataStoreId :: "gorms \<Rightarrow> db \<Rightarrow> u64" where
  "LatestDataStoreId G s =
     (case g_take_desc (G_datastore G) (\<lambda>_. True) (\<lambda>r. uint (ds_DataStoreId r)) (data_store s) of
        Ok r \<Rightarrow> ds_DataStoreId r | _ \<Rightarrow> 0)"

definition DataStoreList :: "gorms \<Rightarrow> int \<Rightarrow> int \<Rightarrow> bool \<Rightarrow> db \<Rightarrow> DataStore list \<times> int" where
  "DataStoreList G page pageSize asc s =
     (page_or_empty (g_page (G_datastore G) (\<lambda>_. True) asc (\<lambda>r. uint (ds_Timestamp r))
        (wrap64 ((page - 1) * pageSize)) pageSize (data_store s)),
      count_or_zero (g_count (G_datastore G) (\<lambda>_. True) (data_store s)))"

definition DataStoreL1BlockHeader :: "gorms \<Rightarrow> db \<Rightarrow> BlockHeader option result" where
  "DataStoreL1BlockHeader G s = max_header G (map ds_FromStoreNumber (data_store s)) (l1_block_headers s)"

definition L2SentMessageList :: "gorms \<Rightarrow> db \<Rightarrow> L2SentMessageEvent list" where
  "L2SentMessageList G s = page_or_empty (g_find (G_sent G) (\<lambda>_. True) (l2_sent_message_events s))"

section \<open>Facts about the sizes\<close>

lemma block_sizes_Ok:
  assumes "block_sizes prev rs = Ok rs'"
  shows "length rs' = length rs" and "map sr_L2BlockNumber rs' = map sr_L2BlockNumber rs"
proof -
  have "length rs' = length rs \<and> map sr_L2BlockNumber rs' = map sr_L2BlockNumber rs"
    using assms by (induction prev rs arbitrary: rs' rule: block_sizes.induct) auto
  then show "length rs' = length rs" "map sr_L2BlockNumber rs' = map sr_L2BlockNumber rs" by auto
qed

text \<open>For block numbers in ascending order the sizes add up to the distance covered.\<close>

lemma block_sizes_sum:
  assumes "block_sizes (Some p) rs = Ok rs'" "map sr_L2BlockNumber rs = map Some ns"
    and "sorted (p # ns)" "last (p # ns) - p < 2 ^ 64" "0 \<le> p"
  shows "sum_list (map (\<lambda>r. uint (sr_BlockSize r)) rs') = last (p # ns) - p"
  using assms
proof (induction rs arbitrary: p rs' ns)
  case Nil
  then show ?case by simp
next
  case (Cons r rs)
  from Cons.prems(2) obtain n ns' where ns: "ns = n # ns'" "sr_L2BlockNumber r = Some n"
    "map sr_L2BlockNumber rs = map Some ns'" by (cases ns) auto
  with Cons.prems(1) obtain rs'' where rs'': "block_sizes (Some n) rs = Ok rs''"
    "rs' = r\<lparr>sr_BlockSize := big_Uint64 (n - p)\<rparr> # rs''"
    by (auto simp: sub_u64_def)
  have mono: "p \<le> n" "n \<le> last (n # ns')" using Cons.prems(3) ns(1) by auto
  have "last (p # ns) = last (n # ns')" using ns(1) by simp
  moreover have "uint (big_Uint64 (n - p)) = n - p"
    using mono Cons.prems(4) ns(1) by (intro big_Uint64_nonneg) auto
  moreover have "sum_list (map (\<lambda>r. uint (sr_BlockSize r)) rs'') = last (n # ns') - n"
    using Cons.prems ns mono by (intro Cons.IH[OF rs''(1) ns(3)]) auto
  ultimately show ?case using rs''(2) by simp
qed

section \<open>Properties\<close>

text \<open>When a batch of state roots with ascending block numbers is stored, the rows keep their order
  and block numbers, and their sizes add up to the distance from the block number of the earlier
  root that was found (zero when there is none) to the last block of the batch.\<close>

lemma state_root_sizes:
  assumes "gorms_ok G" and "map sr_L2BlockNumber (r # rs) = map Some ns"
    and "nil_if_not_found (g_take (G_stateroot G) (\<lambda>x. sr_Timestamp x < sr_Timestamp r) (state_root s)) = Ok row"
    and "prev = (case row of None \<Rightarrow> 0 | Some x \<Rightarrow> (case sr_L2BlockNumber x of None \<Rightarrow> 0 | Some n \<Rightarrow> n))"
    and "0 \<le> prev" and "sorted (prev # ns)" and "last ns < 2 ^ 64"
    and "StoreBatchStateRoots G (r # rs) s = (Ok (), s')"
  shows "\<exists>stored. state_root s' = state_root s @ stored \<and> map sr_L2BlockNumber stored = map Some ns
     \<and> sum_list (map (\<lambda>x. uint (sr_BlockSize x)) stored) = last ns - prev"
proof -
  obtain n ns' where ns: "ns = n # ns'" using assms(2) by (cases ns) auto
  have "prev \<le> last ns" using assms(6) ns by auto
  then have prev: "prev < 2 ^ 64" using assms(7) by linarith
  have first: "(case row of None \<Rightarrow> Some 0 | Some x \<Rightarrow> (case sr_L2BlockNumber x of None \<Rightarrow> Some 0
      | Some n \<Rightarrow> Some (uint (word_of_int n :: u64)))) = Some prev"
    using assms(4,5) prev by (auto split: option.splits simp: uint_word_of_int take_bit_int_eq_self)
  have run: "(case block_sizes (Some prev) (r # rs) of Err e \<Rightarrow> (Err e, s) | Panic p \<Rightarrow> (Panic p, s)
      | Ok roots' \<Rightarrow> zoomG state_root state_root_update (g_create (G_stateroot G) roots') s) = (Ok (), s')"
    using assms(8) unfolding StoreBatchStateRoots_def by (simp only: list.case assms(3) result.case Let_def first)
  then obtain stored where b: "block_sizes (Some prev) (r # rs) = Ok stored"
    by (cases "block_sizes (Some prev) (r # rs)") auto
  have "zoomG state_root state_root_update (g_create (G_stateroot G) stored) s = (Ok (), s')"
    using run unfolding b by simp
  from zoom_create_Ok[OF gorms_okD(11)[OF assms(1)] this] have "state_root s' = state_root s @ stored" by simp
  moreover have "last (prev # ns) = last ns" using ns by simp
  then have "sum_list (map (\<lambda>x. uint (sr_BlockSize x)) stored) = last ns - prev"
    using block_sizes_sum[OF b assms(2,6)] assms(5,7) by simp
  ultimately show ?thesis using block_sizes_Ok(2)[OF b] assms(2) by auto
qed

definition sample_root :: "u64 \<Rightarrow> int \<Rightarrow> StateRoot" where
  "sample_root time n = zero_state_root\<lparr>sr_GUID := ucast time, sr_Timestamp := time, sr_L2BlockNumber := Some n\<rparr>"

end
