(* ===== verification/Contracts.thy ===== *)
theory Contracts
  imports Deposit RootTables TextFormat
begin

text \<open>
  event/processors/contracts: reading the events of the bridge contracts out of the event tables.
  The ABI decoder, the generated bindings and Keccak-256 are outside the repository's own code:
  \<open>abis\<close> is the record of what the program takes from them, one \<open>abi_event\<close> for each event.  The
  fields of a decoded event start at the zero value of their Go type; big integers are pointers
  and start nil.  Every reader selects the events by contract and signature and decodes them in
  order, so its loop is \<open>mapR\<close>; the first failure ends it.
\<close>

section \<open>The version of a nonce\<close>

text \<open>big.Int.Bytes: the big-endian bytes without leading zeros.\<close>

fun byte_len :: "nat \<Rightarrow> nat" where
  "byte_len n = (if n = 0 then 0 else Suc (byte_len (n div 256)))"

declare byte_len.simps [simp del]

definition big_Bytes :: "int \<Rightarrow> bytes" where
  "big_Bytes x = be_bytes (byte_len (nat \<bar>x\<bar>)) \<bar>x\<bar>"

definition DecodeVersionedNonce :: "int \<Rightarrow> 16 word \<times> int" where
  "DecodeVersionedNonce nonce =
     (let nonceBytes = big_Bytes nonce; nonceByteLen = length nonceBytes in
      if nonceByteLen < 30 then (0, nonce)
      else if nonceByteLen = 31 then (ucast (hd nonceBytes), SetBytes (drop 1 nonceBytes))
      else (word_of_int (SetBytes (take 2 nonceBytes)), SetBytes (drop 2 nonceBytes)))"

section \<open>Decoding a log\<close>

record 'o abi_event =
  ev_ID :: hash
  ev_Unpack :: "bytes \<Rightarrow> 'o \<Rightarrow> 'o result"
  ev_ParseTopics :: "hash list \<Rightarrow> 'o \<Rightarrow> 'o result"

text \<open>The event is None when the ABI has no event of that name.\<close>

definition UnpackLog :: "'o \<Rightarrow> log \<Rightarrow> 'o abi_event option \<Rightarrow> 'o result" where
  "UnpackLog out l eventAbi =
     (case eventAbi of
        None \<Rightarrow> Err (Msg ''event not present in supplied ABI'')
      | Some ev \<Rightarrow>
          if length (Topics l) = 0 then Err (Msg ''anonymous events are not supported'')
          else if Topics l ! 0 \<noteq> ev_ID ev then Err (Msg ''event signature mismatch'')
          else bindR (ev_Unpack ev (Data l) out) (\<lambda>out'.
            if length (Topics l) > 1 then ev_ParseTopics ev (drop 1 (Topics l)) out' else Ok out'))"

section \<open>The decoded events\<close>

record SentMessage =
  snt_Target :: address
  snt_Sender :: address
  snt_Message :: bytes
  snt_MessageNonce :: "int option"
  snt_GasLimit :: "int option"

record SentMessageExtension1 =
  ext_Sender :: address
  ext_MntValue :: "int option"
  ext_EthValue :: "int option"

text \<open>The ETH and MNT events of the bridges share the fields of \<open>BridgeMsg\<close>, the ERC20 events and the
  legacy withdrawal those of \<open>TokenMsg\<close> (local or L1 token, remote or L2 token).\<close>

record BridgeMsg =
  bm_From :: address
  bm_To :: address
  bm_Amount :: "int option"
  bm_ExtraData :: bytes

record TokenMsg =
  tk_Local :: address
  tk_Remote :: address
  tk_From :: address
  tk_To :: address
  tk_Amount :: "int option"
  tk_ExtraData :: bytes

record TransactionDeposited =
  td_From :: address
  td_To :: address
  td_Version :: "int option"
  td_OpaqueData :: bytes

record OptimismPortalWithdrawalProven =
  op_WithdrawalHash :: hash
  op_From :: address
  op_To :: address

record OptimismPortalWithdrawalFinalized =
  of_WithdrawalHash :: hash
  of_Success :: bool

record OutputProposed =
  pr_OutputRoot :: hash
  pr_L2OutputIndex :: "int option"
  pr_L2BlockNumber :: "int option"
  pr_L1Timestamp :: "int option"

record MessagePassed =
  mp_Nonce :: "int option"
  mp_Sender :: address
  mp_Target :: address
  mp_MntValue :: "int option"
  mp_EthValue :: "int option"
  mp_GasLimit :: "int option"
  mp_Data :: bytes
  mp_WithdrawalHash :: hash

record TransactionEnqueued =
  te_L1TxOrigin :: address
  te_Target :: address
  te_GasLimit :: "int option"
  te_Data :: bytes
  te_QueueIndex :: "int option"
  te_Timestamp :: "int option"

record StateBatchAppended =
  ba_BatchIndex :: "int option"
  ba_BatchRoot :: hash
  ba_BatchSize :: "int option"
  ba_PrevTotalElements :: "int option"
  ba_ExtraData :: bytes

definition zero_SentMessage :: SentMessage where
  "zero_SentMessage = \<lparr>snt_Target = 0, snt_Sender = 0, snt_Message = [], snt_MessageNonce = None, snt_GasLimit = None\<rparr>"
definition zero_Extension :: SentMessageExtension1 where
  "zero_Extension = \<lparr>ext_Sender = 0, ext_MntValue = None, ext_EthValue = None\<rparr>"
definition zero_BridgeMsg :: BridgeMsg where
  "zero_BridgeMsg = \<lparr>bm_From = 0, bm_To = 0, bm_Amount = None, bm_ExtraData = []\<rparr>"
definition zero_TokenMsg :: TokenMsg where
  "zero_TokenMsg = \<lparr>tk_Local = 0, tk_Remote = 0, tk_From = 0, tk_To = 0, tk_Amount = None, tk_ExtraData = []\<rparr>"
definition zero_TransactionDeposited :: TransactionDeposited where
  "zero_TransactionDeposited = \<lparr>td_From = 0, td_To = 0, td_Version = None, td_OpaqueData = []\<rparr>"
definition zero_OutputProposed :: OutputProposed where
  "zero_OutputProposed = \<lparr>pr_OutputRoot = 0, pr_L2OutputIndex = None, pr_L2BlockNumber = None, pr_L1Timestamp = None\<rparr>"
definition zero_MessagePassed :: MessagePassed where
  "zero_MessagePassed = \<lparr>mp_Nonce = None, mp_Sender = 0, mp_Target = 0, mp_MntValue = None, mp_EthValue = None,
     mp_GasLimit = None, mp_Data = [], mp_WithdrawalHash = 0\<rparr>"
definition zero_TransactionEnqueued :: TransactionEnqueued where
  "zero_TransactionEnqueued = \<lparr>te_L1TxOrigin = 0, te_Target = 0, te_GasLimit = None, te_Data = [],
     te_QueueIndex = None, te_Timestamp = None\<rparr>"
definition zero_StateBatchAppended :: StateBatchAppended where
  "zero_StateBatchAppended = \<lparr>ba_BatchIndex = None, ba_BatchRoot = 0, ba_BatchSize = None,
     ba_PrevTotalElements = None, ba_ExtraData = []\<rparr>"

section \<open>The ABIs\<close>

text \<open>\<open>a_ERC20DepositAsMNT\<close> is the decoding of the event ERC20DepositInitiated into the struct of the MNT
  event.  \<open>a_DepositEventABIHash\<close> is the constant of op-node that the portal's event is
  compared with, \<open>a_unpack_ConfirmDataStore\<close> the number in the data of a ConfirmDataStore event.\<close>

record abis =
  a_SentMessage :: "SentMessage abi_event"
  a_SentMessageExtension1 :: "SentMessageExtension1 abi_event"
  a_RelayedMessage :: "hash abi_event"
  a_ETHBridgeInitiated :: "BridgeMsg abi_event"
  a_ERC20BridgeInitiated :: "TokenMsg abi_event"
  a_MNTBridgeInitiated :: "BridgeMsg abi_event"
  a_ETHBridgeFinalized :: "BridgeMsg abi_event"
  a_ERC20BridgeFinalized :: "TokenMsg abi_event"
  a_MNTBridgeFinalized :: "BridgeMsg abi_event"
  a_TransactionDeposited :: "TransactionDeposited abi_event"
  a_WithdrawalProven :: "OptimismPortalWithdrawalProven abi_event"
  a_WithdrawalFinalized :: "OptimismPortalWithdrawalFinalized abi_event"
  a_OutputProposed :: "OutputProposed abi_event"
  a_MessagePassed :: "MessagePassed abi_event"
  a_TransactionEnqueued :: "TransactionEnqueued abi_event"
  a_StateBatchAppended :: "StateBatchAppended abi_event"
  a_ETHDepositInitiated :: "BridgeMsg abi_event"
  a_ERC20DepositInitiated :: "TokenMsg abi_event"
  a_MNTDepositInitiated :: "BridgeMsg abi_event"
  a_ERC20DepositAsMNT :: "BridgeMsg abi_event"
  a_WithdrawalInitiated :: "TokenMsg abi_event"
  a_unpack_ConfirmDataStore :: "bytes \<Rightarrow> 32 word result"
  a_pack_relayMessage :: "int option \<Rightarrow> address \<Rightarrow> address \<Rightarrow> int option \<Rightarrow> int option \<Rightarrow> int option \<Rightarrow> bytes \<Rightarrow> bytes result"
  a_pack_legacyRelayMessage :: "address \<Rightarrow> address \<Rightarrow> bytes \<Rightarrow> int option \<Rightarrow> bytes result"
  a_legacyRelayMessage_ID :: bytes
  a_DepositEventABIHash :: hash
  a_LegacyERC20ETHAddr :: address
  a_Transaction_Hash :: "address \<Rightarrow> u64 \<Rightarrow> bytes \<Rightarrow> hash"
  a_keccak :: "bytes \<Rightarrow> hash"

definition BVM_ETHAddr :: address where
  "BVM_ETHAddr = 0xdEAddEaDdeadDEadDEADDEAddEADDEAddead1111"

definition LegacyERC20MNTAddr :: address where
  "LegacyERC20MNTAddr = 0xDeadDeAddeAddEAddeadDEaDDEAdDeaDDeAD0000"

text \<open>The filter of a reader: the events of one contract with one signature.\<close>

definition contract_filter :: "address \<Rightarrow> hash \<Rightarrow> ContractEvent_filter" where
  "contract_filter addr sig = no_filter\<lparr>cf_ContractAddress := addr, cf_EventSignature := sig\<rparr>"

text \<open>One reader: query, then decode each event with its index.\<close>

definition decode_each :: "(nat \<Rightarrow> ContractEvent \<Rightarrow> 'b result) \<Rightarrow> ContractEvent list result \<Rightarrow> 'b list result" where
  "decode_each f q = bindR q (\<lambda>es. mapR (\<lambda>(i, e). f i e) (enumerate 0 es))"

section \<open>Cross domain messages\<close>

record CrossDomainMessengerSentMessageEvent =
  sme_Event :: ContractEvent
  sme_Version :: "16 word"
  sme_MessageCalldata :: bytes
  sme_MessageHash :: hash
  sme_Nonce :: "int option"
  sme_SentMessageEventGUID :: uuid
  sme_GasLimit :: "int option"
  sme_FromAddress :: address
  sme_ToAddress :: address
  sme_ETHAmount :: "int option"
  sme_ERC20Amount :: "int option"
  sme_Data :: bytes
  sme_HashVersion :: u64
  sme_Timestamp :: u64

record CrossDomainMessengerRelayedMessageEvent =
  rme_Event :: ContractEvent
  rme_MessageHash :: hash

definition CrossDomainMessageCalldataV0 :: "abis \<Rightarrow> SentMessage \<Rightarrow> bytes result" where
  "CrossDomainMessageCalldataV0 A m =
     bindR (a_pack_legacyRelayMessage A (snt_Target m) (snt_Sender m) (snt_Message m) (snt_MessageNonce m))
       (\<lambda>inputBytes. Ok (a_legacyRelayMessage_ID A @ inputBytes))"

definition CrossDomainMessageCalldata :: "abis \<Rightarrow> SentMessage \<Rightarrow> int option \<Rightarrow> int option \<Rightarrow> bytes result" where
  "CrossDomainMessageCalldata A m mntValue ethValue =
     bindR (nonil (snt_MessageNonce m)) (\<lambda>nonce.
       let version = fst (DecodeVersionedNonce nonce) in
       if version = 0 then
         bindR (a_pack_legacyRelayMessage A (snt_Target m) (snt_Sender m) (snt_Message m) (snt_MessageNonce m))
           (\<lambda>inputBytes. Ok (a_legacyRelayMessage_ID A @ inputBytes))
       else if version = 1 then
         a_pack_relayMessage A (snt_MessageNonce m) (snt_Sender m) (snt_Target m) mntValue ethValue
           (snt_GasLimit m) (snt_Message m)
       else Err (Msg ''unsupported cross domain messenger version''))"

text \<open>One round of the loop over the sent messages.  The extension is looked up at the index of the
  message itself; an index past the extensions is a panic.\<close>

definition sent_message :: "abis \<Rightarrow> ContractEvent list \<Rightarrow> nat \<Rightarrow> nat \<Rightarrow> ContractEvent
    \<Rightarrow> CrossDomainMessengerSentMessageEvent result" where
  "sent_message A extensions numVersionZeroMessages i e =
     bindR (UnpackLog zero_SentMessage (ce_RLPLog e) (Some (a_SentMessage A))) (\<lambda>m.
     bindR (nonil (snt_MessageNonce m)) (\<lambda>nonce.
       let version = fst (DecodeVersionedNonce nonce) in
       if i < numVersionZeroMessages \<and> version \<noteq> 0 then Err (Msg ''expected version zero nonce'')
       else
         bindR (if version > 0
                then bindR (indexR extensions i) (\<lambda>xe.
                     bindR (UnpackLog zero_Extension (ce_RLPLog xe) (Some (a_SentMessageExtension1 A))) (\<lambda>x.
                     Ok (ext_MntValue x, ext_EthValue x, 1)))
                else Ok (Some 0, Some 0, 0)) (\<lambda>(mntValue, ethValue, hashVersion).
         bindR (CrossDomainMessageCalldata A m mntValue ethValue) (\<lambda>messageCalldata.
         Ok \<lparr>sme_Event = e, sme_Version = 0, sme_MessageCalldata = messageCalldata,
             sme_MessageHash = a_keccak A messageCalldata, sme_Nonce = snt_MessageNonce m,
             sme_SentMessageEventGUID = ce_GUID e, sme_GasLimit = snt_GasLimit m,
             sme_FromAddress = snt_Sender m, sme_ToAddress = snt_Target m, sme_ETHAmount = ethValue,
             sme_ERC20Amount = mntValue, sme_Data = snt_Message m, sme_HashVersion = hashVersion,
             sme_Timestamp = ce_Timestamp e\<rparr>))))"

definition CrossDomainMessengerSentMessageEvents :: "gorms \<Rightarrow> abis \<Rightarrow> string \<Rightarrow> address \<Rightarrow> int option \<Rightarrow> int option \<Rightarrow> db
    \<Rightarrow> CrossDomainMessengerSentMessageEvent list result" where
  "CrossDomainMessengerSentMessageEvents G A chainSelector contractAddress fromHeight toHeight s =
     bindR (ContractEventsWithFilter G (contract_filter contractAddress (ev_ID (a_SentMessage A))) chainSelector
              fromHeight toHeight s) (\<lambda>sentMessageEvents.
     if length sentMessageEvents = 0 then Ok []
     else
       bindR (ContractEventsWithFilter G (contract_filter contractAddress (ev_ID (a_SentMessageExtension1 A)))
                chainSelector fromHeight toHeight s) (\<lambda>extensions.
       if length extensions > length sentMessageEvents
       then Err (Msg ''mismatch. sent messages & sent message extensions'')
       else decode_each (sent_message A extensions (length sentMessageEvents - length extensions))
              (Ok sentMessageEvents)))"

definition CrossDomainMessengerRelayedMessageEvents :: "gorms \<Rightarrow> abis \<Rightarrow> string \<Rightarrow> address \<Rightarrow> int option \<Rightarrow> int option \<Rightarrow> db
    \<Rightarrow> CrossDomainMessengerRelayedMessageEvent list result" where
  "CrossDomainMessengerRelayedMessageEvents G A chainSelector contractAddress fromHeight toHeight s =
     decode_each (\<lambda>i e. bindR (UnpackLog 0 (ce_RLPLog e) (Some (a_RelayedMessage A))) (\<lambda>msgHash.
         Ok \<lparr>rme_Event = e, rme_MessageHash = msgHash\<rparr>))
       (ContractEventsWithFilter G (contract_filter contractAddress (ev_ID (a_RelayedMessage A))) chainSelector
          fromHeight toHeight s)"

text \<open>TransferMessageHashFromV0ToV1 writes nothing to the database: it prints a hash for each message,
  None here for one it skips.\<close>

definition TransferMessageHashFromV0ToV1 :: "gorms \<Rightarrow> abis \<Rightarrow> (string \<Rightarrow> bytes) \<Rightarrow> db \<Rightarrow> hash option list result" where
  "TransferMessageHashFromV0ToV1 G A string_to_bytes s =
     mapR (\<lambda>l2SendMsg.
       case L2ToL1TransactionTxHash G (sm_TxHash l2SendMsg) s of
         Err e \<Rightarrow> Ok None
       | Panic p \<Rightarrow> Panic p
       | Ok row \<Rightarrow> bindR (nonil row) (\<lambda>l2l1Transaction.
           let mntValue = l21_ETHAmount l2l1Transaction;
               ethValue = l21_ERC20Amount l2l1Transaction;
               m = \<lparr>snt_Target = sm_Target l2SendMsg, snt_Sender = sm_Sender l2SendMsg,
                    snt_Message = string_to_bytes (sm_Message l2SendMsg),
                    snt_MessageNonce = sm_MessageNonce l2SendMsg, snt_GasLimit = sm_GasLimit l2SendMsg\<rparr> in
           case CrossDomainMessageCalldata A m mntValue ethValue of
             Err e \<Rightarrow> Ok None
           | Panic p \<Rightarrow> Panic p
           | Ok messageCalldata \<Rightarrow> Ok (Some (a_keccak A messageCalldata))))
       (L2SentMessageList G s)"

section \<open>Standard bridges\<close>

text \<open>The initiated, finalized and legacy events of the bridges have the same fields.\<close>

record BridgeEvent =
  br_Event :: ContractEvent
  br_CrossDomainMessageHash :: "hash option"
  br_FromAddress :: address
  br_ToAddress :: address
  br_ETHAmount :: "int option"
  br_ERC20Amount :: "int option"
  br_Data :: bytes
  br_LocalTokenAddress :: address
  br_RemoteTokenAddress :: address
  br_Timestamp :: u64

definition eth_bridge_event :: "ContractEvent \<Rightarrow> BridgeMsg \<Rightarrow> BridgeEvent" where
  "eth_bridge_event e m =
     \<lparr>br_Event = e, br_CrossDomainMessageHash = None, br_FromAddress = bm_From m, br_ToAddress = bm_To m,
      br_ETHAmount = bm_Amount m, br_ERC20Amount = Some 0, br_Data = bm_ExtraData m,
      br_LocalTokenAddress = BVM_ETHAddr, br_RemoteTokenAddress = BVM_ETHAddr, br_Timestamp = ce_Timestamp e\<rparr>"

definition mnt_bridge_event :: "ContractEvent \<Rightarrow> BridgeMsg \<Rightarrow> BridgeEvent" where
  "mnt_bridge_event e m =
     \<lparr>br_Event = e, br_CrossDomainMessageHash = None, br_FromAddress = bm_From m, br_ToAddress = bm_To m,
      br_ETHAmount = Some 0, br_ERC20Amount = bm_Amount m, br_Data = bm_ExtraData m,
      br_LocalTokenAddress = LegacyERC20MNTAddr, br_RemoteTokenAddress = LegacyERC20MNTAddr,
      br_Timestamp = ce_Timestamp e\<rparr>"

definition erc20_bridge_event :: "ContractEvent \<Rightarrow> TokenMsg \<Rightarrow> BridgeEvent" where
  "erc20_bridge_event e m =
     \<lparr>br_Event = e, br_CrossDomainMessageHash = None, br_FromAddress = tk_From m, br_ToAddress = tk_To m,
      br_ETHAmount = Some 0, br_ERC20Amount = tk_Amount m, br_Data = tk_ExtraData m,
      br_LocalTokenAddress = tk_Local m, br_RemoteTokenAddress = tk_Remote m, br_Timestamp = ce_Timestamp e\<rparr>"

text \<open>The reader of one kind of bridge event: the generic functions of the code, with the ABI event,
  the zero struct and the conversion that their type switches select.\<close>

definition standardBridgeEvents :: "gorms \<Rightarrow> 'o abi_event \<Rightarrow> 'o \<Rightarrow> (ContractEvent \<Rightarrow> 'o \<Rightarrow> BridgeEvent) \<Rightarrow> address \<Rightarrow> string
    \<Rightarrow> int option \<Rightarrow> int option \<Rightarrow> db \<Rightarrow> BridgeEvent list result" where
  "standardBridgeEvents G ev zero conv contractAddress chainSelector fromHeight toHeight s =
     decode_each (\<lambda>i e. bindR (UnpackLog zero (ce_RLPLog e) (Some ev)) (\<lambda>m. Ok (conv e m)))
       (ContractEventsWithFilter G (contract_filter contractAddress (ev_ID ev)) chainSelector fromHeight toHeight s)"

definition StandardBridgeInitiatedEvents :: "gorms \<Rightarrow> abis \<Rightarrow> string \<Rightarrow> address \<Rightarrow> int option \<Rightarrow> int option \<Rightarrow> db
    \<Rightarrow> BridgeEvent list result" where
  "StandardBridgeInitiatedEvents G A chain addr fromHeight toHeight s =
     bindR (standardBridgeEvents G (a_ETHBridgeInitiated A) zero_BridgeMsg eth_bridge_event addr chain fromHeight toHeight s) (\<lambda>eth.
     bindR (standardBridgeEvents G (a_ERC20BridgeInitiated A) zero_TokenMsg erc20_bridge_event addr chain fromHeight toHeight s) (\<lambda>erc20.
     bindR (standardBridgeEvents G (a_MNTBridgeInitiated A) zero_BridgeMsg mnt_bridge_event addr chain fromHeight toHeight s) (\<lambda>mnt.
     Ok ((eth @ erc20) @ mnt))))"

definition StandardBridgeFinalizedEvents :: "gorms \<Rightarrow> abis \<Rightarrow> string \<Rightarrow> address \<Rightarrow> int option \<Rightarrow> int option \<Rightarrow> db
    \<Rightarrow> BridgeEvent list result" where
  "StandardBridgeFinalizedEvents G A chain addr fromHeight toHeight s =
     bindR (standardBridgeEvents G (a_ETHBridgeFinalized A) zero_BridgeMsg eth_bridge_event addr chain fromHeight toHeight s) (\<lambda>eth.
     bindR (standardBridgeEvents G (a_ERC20BridgeFinalized A) zero_TokenMsg erc20_bridge_event addr chain fromHeight toHeight s) (\<lambda>erc20.
     bindR (standardBridgeEvents G (a_MNTBridgeFinalized A) zero_BridgeMsg mnt_bridge_event addr chain fromHeight toHeight s) (\<lambda>mnt.
     Ok ((eth @ erc20) @ mnt))))"

section \<open>The portal and the message passer\<close>

record OptimismPortalTransactionDepositEvent =
  pd_Event :: ContractEvent
  pd_DepositTx :: DepositTx
  pd_FromAddress :: address
  pd_ToAddress :: address
  pd_ETHAmount :: "int option"
  pd_ERC20Amount :: "int option"
  pd_Data :: bytes
  pd_Timestamp :: u64
  pd_GasLimit :: "int option"

text \<open>Only the ETH value is replaced by zero when it is nil; the local copy of the mint is not used.\<close>

definition OptimismPortalTransactionDepositEvents :: "gorms \<Rightarrow> abis \<Rightarrow> address \<Rightarrow> int option \<Rightarrow> int option \<Rightarrow> db
    \<Rightarrow> OptimismPortalTransactionDepositEvent list result" where
  "OptimismPortalTransactionDepositEvents G A contractAddress fromHeight toHeight s =
     (if ev_ID (a_TransactionDeposited A) \<noteq> a_DepositEventABIHash A
      then Err (Msg ''op-node DepositEventABIHash & optimism portal TransactionDeposited ID mismatch'')
      else decode_each (\<lambda>i e.
          bindR (UnmarshalDepositLogEvent (a_keccak A) (ce_RLPLog e)) (\<lambda>depositTx.
          bindR (UnpackLog zero_TransactionDeposited (ce_RLPLog e) (Some (a_TransactionDeposited A))) (\<lambda>txDeposit.
          let dEth = (case dt_EthValue depositTx of None \<Rightarrow> Some 0 | Some v \<Rightarrow> Some v) in
          Ok \<lparr>pd_Event = e, pd_DepositTx = depositTx, pd_FromAddress = td_From txDeposit,
              pd_ToAddress = td_To txDeposit, pd_ETHAmount = dEth, pd_ERC20Amount = dt_Value depositTx,
              pd_Data = dt_Data depositTx, pd_Timestamp = ce_Timestamp e,
              pd_GasLimit = Some (uint (dt_Gas depositTx))\<rparr>)))
        (L1ContractEventsWithFilter G (contract_filter contractAddress (ev_ID (a_TransactionDeposited A)))
           fromHeight toHeight s))"

definition zero_proven :: OptimismPortalWithdrawalProven where
  "zero_proven = \<lparr>op_WithdrawalHash = 0, op_From = 0, op_To = 0\<rparr>"

definition zero_finalized :: OptimismPortalWithdrawalFinalized where
  "zero_finalized = \<lparr>of_WithdrawalHash = 0, of_Success = False\<rparr>"

definition OptimismPortalWithdrawalProvenEvents :: "gorms \<Rightarrow> abis \<Rightarrow> address \<Rightarrow> int option \<Rightarrow> int option \<Rightarrow> db
    \<Rightarrow> (OptimismPortalWithdrawalProven \<times> ContractEvent) list result" where
  "OptimismPortalWithdrawalProvenEvents G A contractAddress fromHeight toHeight s =
     decode_each (\<lambda>i e. bindR (UnpackLog zero_proven (ce_RLPLog e) (Some (a_WithdrawalProven A))) (\<lambda>m. Ok (m, e)))
       (L1ContractEventsWithFilter G (contract_filter contractAddress (ev_ID (a_WithdrawalProven A)))
          fromHeight toHeight s)"

definition OptimismPortalWithdrawalFinalizedEvents :: "gorms \<Rightarrow> abis \<Rightarrow> address \<Rightarrow> int option \<Rightarrow> int option \<Rightarrow> db
    \<Rightarrow> (OptimismPortalWithdrawalFinalized \<times> ContractEvent) list result" where
  "OptimismPortalWithdrawalFinalizedEvents G A contractAddress fromHeight toHeight s =
     decode_each (\<lambda>i e. bindR (UnpackLog zero_finalized (ce_RLPLog e) (Some (a_WithdrawalFinalized A))) (\<lambda>m. Ok (m, e)))
       (L1ContractEventsWithFilter G (contract_filter contractAddress (ev_ID (a_WithdrawalFinalized A)))
          fromHeight toHeight s)"

record L2ToL1MessagePasserMessagePassed =
  ps_Event :: ContractEvent
  ps_WithdrawalHash :: hash
  ps_GasLimit :: "int option"
  ps_Nonce :: "int option"
  ps_FromAddress :: address
  ps_ToAddress :: address
  ps_ETHAmount :: "int option"
  ps_ERC20Amount :: "int option"
  ps_Data :: bytes
  ps_Timestamp :: u64

definition L2ToL1MessagePasserMessagePassedEvents :: "gorms \<Rightarrow> abis \<Rightarrow> address \<Rightarrow> int option \<Rightarrow> int option \<Rightarrow> db
    \<Rightarrow> L2ToL1MessagePasserMessagePassed list result" where
  "L2ToL1MessagePasserMessagePassedEvents G A contractAddress fromHeight toHeight s =
     decode_each (\<lambda>i e. bindR (UnpackLog zero_MessagePassed (ce_RLPLog e) (Some (a_MessagePassed A))) (\<lambda>m.
         Ok \<lparr>ps_Event = e, ps_WithdrawalHash = mp_WithdrawalHash m, ps_GasLimit = mp_GasLimit m,
             ps_Nonce = mp_Nonce m, ps_FromAddress = mp_Sender m, ps_ToAddress = mp_Target m,
             ps_ETHAmount = mp_EthValue m, ps_ERC20Amount = mp_MntValue m, ps_Data = mp_Data m,
             ps_Timestamp = ce_Timestamp e\<rparr>))
       (L2ContractEventsWithFilter G (contract_filter contractAddress (ev_ID (a_MessagePassed A)))
          fromHeight toHeight s)"

section \<open>State roots\<close>

definition L2OutputProposedEvent :: "gorms \<Rightarrow> abis \<Rightarrow> (nat \<Rightarrow> uuid) \<Rightarrow> address \<Rightarrow> int option \<Rightarrow> int option \<Rightarrow> db
    \<Rightarrow> StateRoot list result" where
  "L2OutputProposedEvent G A uuid contractAddress fromHeight toHeight s =
     decode_each (\<lambda>i e. bindR (UnpackLog zero_OutputProposed (ce_RLPLog e) (Some (a_OutputProposed A))) (\<lambda>m.
         bindR (L1ToL2_GetBlockNumberFromHash G (ce_BlockHash e) s) (\<lambda>l1BlockNumber.
         bindR (nonil (pr_L1Timestamp m)) (\<lambda>time.
         Ok (zero_state_root\<lparr>sr_GUID := uuid i, sr_TransactionHash := ce_TransactionHash e,
             sr_BlockHash := ce_BlockHash e, sr_OutputRoot := EncodeToString (hash_bytes (pr_OutputRoot m)),
             sr_OutputIndex := pr_L2OutputIndex m, sr_BatchSize := pr_L2OutputIndex m,
             sr_L1BlockNumber := l1BlockNumber, sr_L2BlockNumber := pr_L2BlockNumber m,
             sr_Timestamp := big_Uint64 time\<rparr>)))))
       (L1ContractEventsWithFilter G (contract_filter contractAddress (ev_ID (a_OutputProposed A)))
          fromHeight toHeight s)"

definition LegacySCCBatchAppendedEvent :: "gorms \<Rightarrow> abis \<Rightarrow> address \<Rightarrow> int option \<Rightarrow> int option \<Rightarrow> db
    \<Rightarrow> StateRoot list result" where
  "LegacySCCBatchAppendedEvent G A contractAddress fromHeight toHeight s =
     decode_each (\<lambda>i e. bindR (UnpackLog zero_StateBatchAppended (ce_RLPLog e) (Some (a_StateBatchAppended A))) (\<lambda>m.
         Ok (zero_state_root\<lparr>sr_TransactionHash := ce_TransactionHash e,
             sr_OutputRoot := EncodeToString (hash_bytes (ba_BatchRoot m)), sr_BatchSize := ba_BatchSize m,
             sr_OutputIndex := ba_BatchIndex m, sr_PrevTotalElements := ba_PrevTotalElements m,
             sr_Timestamp := ce_Timestamp e\<rparr>)))
       (L1ContractEventsWithFilter G (contract_filter contractAddress (ev_ID (a_StateBatchAppended A)))
          fromHeight toHeight s)"

section \<open>Legacy contracts\<close>

record LegacyCTCDepositEvent =
  ct_Event :: ContractEvent
  ct_FromAddress :: address
  ct_ToAddress :: address
  ct_ETHAmount :: "int option"
  ct_ERC20Amount :: "int option"
  ct_Data :: bytes
  ct_Timestamp :: u64
  ct_TxHash :: hash
  ct_GasLimit :: "int option"

definition LegacyCTCDepositEvents :: "gorms \<Rightarrow> abis \<Rightarrow> address \<Rightarrow> int option \<Rightarrow> int option \<Rightarrow> db
    \<Rightarrow> LegacyCTCDepositEvent list result" where
  "LegacyCTCDepositEvents G A contractAddress fromHeight toHeight s =
     decode_each (\<lambda>i e. bindR (UnpackLog zero_TransactionEnqueued (ce_RLPLog e) (Some (a_TransactionEnqueued A))) (\<lambda>m.
         bindR (nonil (te_GasLimit m)) (\<lambda>gas.
         Ok \<lparr>ct_Event = e, ct_FromAddress = te_L1TxOrigin m, ct_ToAddress = te_Target m, ct_ETHAmount = Some 0,
             ct_ERC20Amount = Some 0, ct_Data = te_Data m, ct_Timestamp = ce_Timestamp e,
             ct_TxHash = a_Transaction_Hash A (te_Target m) (big_Uint64 gas) (te_Data m),
             ct_GasLimit = te_GasLimit m\<rparr>)))
       (L1ContractEventsWithFilter G (contract_filter contractAddress (ev_ID (a_TransactionEnqueued A)))
          fromHeight toHeight s)"

definition legacy_bridge_event :: "address \<Rightarrow> address \<Rightarrow> ContractEvent \<Rightarrow> address \<Rightarrow> address \<Rightarrow> int option \<Rightarrow> bytes \<Rightarrow> u64
    \<Rightarrow> BridgeEvent" where
  "legacy_bridge_event localT remoteT e from to amount extra timestamp =
     \<lparr>br_Event = e, br_CrossDomainMessageHash = None, br_FromAddress = from, br_ToAddress = to,
      br_ETHAmount = amount, br_ERC20Amount = None, br_Data = extra, br_LocalTokenAddress = localT,
      br_RemoteTokenAddress = remoteT, br_Timestamp = timestamp\<rparr>"

text \<open>The loop over the MNT deposits: each log is decoded as the ERC20 event, and the entry goes to the
  position counted from the number of MNT deposits, with the timestamp of the ERC20 event of the
  same index.\<close>

definition legacy_mnt_deposit :: "abis \<Rightarrow> ContractEvent list \<Rightarrow> nat \<Rightarrow> nat \<times> ContractEvent \<Rightarrow> BridgeEvent list
    \<Rightarrow> BridgeEvent list result" where
  "legacy_mnt_deposit A erc20Events nmnt = (\<lambda>(i, e) deposits.
     bindR (UnpackLog zero_BridgeMsg (ce_RLPLog e)
              (Some ((a_ERC20DepositAsMNT A)\<lparr>ev_ID := ev_ID (a_ERC20DepositInitiated A)\<rparr>))) (\<lambda>m.
     bindR (indexR erc20Events i) (\<lambda>x.
     updateR deposits (nmnt + i)
       (legacy_bridge_event (a_LegacyERC20ETHAddr A) (a_LegacyERC20ETHAddr A) e (bm_From m) (bm_To m) (bm_Amount m)
          (bm_ExtraData m) (ce_Timestamp x)))))"

definition zero_contract_event :: ContractEvent where
  "zero_contract_event = \<lparr>ce_GUID = 0, ce_BlockHash = 0, ce_ContractAddress = 0, ce_TransactionHash = 0,
     ce_LogIndex = 0, ce_EventSignature = 0, ce_Timestamp = 0,
     ce_RLPLog = \<lparr>Address = 0, Topics = [], Data = [], BlockNumber = 0, TxHash = 0, BlockHash = 0, Index = 0\<rparr>\<rparr>"

definition zero_legacy_event :: BridgeEvent where
  "zero_legacy_event = legacy_bridge_event 0 0 zero_contract_event 0 0 None [] 0"

definition L1StandardBridgeLegacyDepositInitiatedEvents :: "gorms \<Rightarrow> abis \<Rightarrow> address \<Rightarrow> int option \<Rightarrow> int option \<Rightarrow> db
    \<Rightarrow> BridgeEvent list result" where
  "L1StandardBridgeLegacyDepositInitiatedEvents G A contractAddress fromHeight toHeight s =
     (let find = (\<lambda>sig. L1ContractEventsWithFilter G (contract_filter contractAddress sig) fromHeight toHeight s) in
      bindR (find (ev_ID (a_ETHDepositInitiated A))) (\<lambda>ethEvents.
      bindR (find (ev_ID (a_ERC20DepositInitiated A))) (\<lambda>erc20Events.
      bindR (find (ev_ID (a_MNTDepositInitiated A))) (\<lambda>mntEvents.
      bindR (mapR (\<lambda>e. bindR (UnpackLog zero_BridgeMsg (ce_RLPLog e) (Some (a_ETHDepositInitiated A))) (\<lambda>m.
               Ok (legacy_bridge_event (a_LegacyERC20ETHAddr A) (a_LegacyERC20ETHAddr A) e (bm_From m) (bm_To m)
                     (bm_Amount m) (bm_ExtraData m) (ce_Timestamp e)))) ethEvents) (\<lambda>eth.
      bindR (mapR (\<lambda>e. bindR (UnpackLog zero_TokenMsg (ce_RLPLog e) (Some (a_ERC20DepositInitiated A))) (\<lambda>m.
               Ok (legacy_bridge_event (tk_Local m) (tk_Remote m) e (tk_From m) (tk_To m)
                     (tk_Amount m) (tk_ExtraData m) (ce_Timestamp e)))) erc20Events) (\<lambda>erc20.
      foldR (legacy_mnt_deposit A erc20Events (length mntEvents)) (enumerate 0 mntEvents)
        (eth @ erc20 @ replicate (length mntEvents) zero_legacy_event)))))))"

definition L2StandardBridgeLegacyWithdrawalInitiatedEvents :: "gorms \<Rightarrow> abis \<Rightarrow> address \<Rightarrow> int option \<Rightarrow> int option \<Rightarrow> db
    \<Rightarrow> BridgeEvent list result" where
  "L2StandardBridgeLegacyWithdrawalInitiatedEvents G A contractAddress fromHeight toHeight s =
     decode_each (\<lambda>i e. bindR (UnpackLog zero_TokenMsg (ce_RLPLog e) (Some (a_WithdrawalInitiated A))) (\<lambda>m.
         Ok (legacy_bridge_event (a_LegacyERC20ETHAddr A) (a_LegacyERC20ETHAddr A) e (tk_From m) (tk_To m)
               (tk_Amount m) (tk_ExtraData m) (ce_Timestamp e))))
       (L2ContractEventsWithFilter G (contract_filter contractAddress (ev_ID (a_WithdrawalInitiated A)))
          fromHeight toHeight s)"

section \<open>Nonces\<close>

lemma byte_len_upper: "n < 256 ^ byte_len n"
proof (induction n rule: byte_len.induct)
  case (1 n)
  show ?case
  proof (cases "n = 0")
    case False
    then have "n div 256 < 256 ^ byte_len (n div 256)" using 1 by blast
    moreover have "byte_len n = Suc (byte_len (n div 256))" using False by (subst byte_len.simps) simp
    ultimately show ?thesis by simp
  qed (simp add: byte_len.simps)
qed

lemma byte_len_lower: "n \<noteq> 0 \<Longrightarrow> 256 ^ (byte_len n - 1) \<le> n"
proof (induction n rule: byte_len.induct)
  case (1 n)
  have len: "byte_len n = Suc (byte_len (n div 256))" using 1(2) by (subst byte_len.simps) simp
  show ?case
  proof (cases "n div 256 = 0")
    case True
    then show ?thesis using 1(2) len by (simp add: byte_len.simps)
  next
    case False
    then have IH: "256 ^ (byte_len (n div 256) - 1) \<le> n div 256" using 1 by blast
    have "byte_len (n div 256) = Suc (byte_len (n div 256 div 256))" using False by (subst byte_len.simps) simp
    then obtain k where k: "byte_len (n div 256) = Suc k" by blast
    then have "(256::nat) ^ Suc k \<le> n div 256 * 256" using IH by simp
    also have "\<dots> \<le> n" by simp
    finally show ?thesis using len k by simp
  qed
qed

lemma byte_len_eq:
  assumes "256 ^ k \<le> n" "n < 256 ^ Suc k"
  shows "byte_len n = Suc k"
proof -
  have n: "n \<noteq> 0" using assms(1) by (metis not_le zero_less_numeral zero_less_power)
  have "256 ^ (byte_len n - 1) < (256::nat) ^ Suc k" using byte_len_lower[OF n] assms(2) by (rule le_less_trans)
  then have "byte_len n - 1 < Suc k" by (rule power_less_imp_less_exp[rotated]) simp
  moreover have "(256::nat) ^ k < 256 ^ byte_len n" using assms(1) byte_len_upper by (rule le_less_trans)
  then have "k < byte_len n" by (rule power_less_imp_less_exp[rotated]) simp
  ultimately show ?thesis by simp
qed

lemma byte_len_less: "n < 256 ^ k \<Longrightarrow> byte_len n \<le> k"
proof (rule ccontr)
  assume "n < 256 ^ k" "\<not> byte_len n \<le> k"
  then have "n \<noteq> 0" "k \<le> byte_len n - 1" by (auto simp: byte_len.simps[of 0] intro: ccontr)
  then have "(256::nat) ^ k \<le> 256 ^ (byte_len n - 1)" by (intro power_increasing) auto
  also have "\<dots> \<le> n" by (rule byte_len_lower) fact
  finally show False using \<open>n < 256 ^ k\<close> by simp
qed

text \<open>The first bytes of a big-endian number are its quotient, the others its remainder.\<close>

lemma be_bytes_split: "be_bytes (m + n) x = be_bytes m (x div 256 ^ n) @ be_bytes n x"
  by (induction n arbitrary: x) (simp_all add: zdiv_zmult2_eq mult.commute)

lemma SetBytes_mod: "0 \<le> x \<Longrightarrow> SetBytes (be_bytes n x) = x mod 256 ^ n"
proof (induction n arbitrary: x)
  case (Suc n)
  have "uint (word_of_int x :: byte) = x mod 256" by (simp add: uint_word_of_int)
  moreover have "x mod (256 * 256 ^ n) = 256 * (x div 256 mod 256 ^ n) + x mod 256"
    by (rule zmod_zmult2_eq) simp
  ultimately show ?case using Suc by simp
qed simp

lemma big_Bytes_len:
  assumes "0 \<le> n" "256 ^ k \<le> n" "n < 256 ^ Suc k"
  shows "big_Bytes n = be_bytes (Suc k) n"
proof -
  have "byte_len (nat n) = Suc k"
    using assms by (intro byte_len_eq) (simp_all add: le_nat_iff nat_less_iff)
  then show ?thesis using assms(1) by (simp add: big_Bytes_def)
qed

text \<open>The nonce as the contracts define it: the version in the top two of 32 bytes.\<close>

definition nonce_version :: "int \<Rightarrow> int" where
  "nonce_version n = n div 2 ^ 240"

definition nonce_value :: "int \<Rightarrow> int" where
  "nonce_value n = n mod 2 ^ 240"

lemma decode_short:
  assumes "0 \<le> n" "n < 2 ^ 232"
  shows "DecodeVersionedNonce n = (0, n)"
proof -
  have "nat n < 256 ^ 29" using assms by (simp add: nat_less_iff)
  then have "length (big_Bytes n) < 30" using byte_len_less[of "nat n" 29] assms(1) by (simp add: big_Bytes_def)
  then show ?thesis by (simp add: DecodeVersionedNonce_def Let_def)
qed

lemma decode_30:
  assumes "2 ^ 232 \<le> n" "n < 2 ^ 240"
  shows "DecodeVersionedNonce n = (word_of_int (n div 2 ^ 224), n mod 2 ^ 224)"
proof -
  have n: "0 \<le> n" using assms(1) by (rule order_trans[rotated]) simp
  have "big_Bytes n = be_bytes (Suc 29) n" by (rule big_Bytes_len[OF n]) (use assms in simp_all)
  then have b: "big_Bytes n = be_bytes 2 (n div 256 ^ 28) @ be_bytes 28 n"
    using be_bytes_split[of 2 28 n] by simp
  have "n div 2 ^ 224 < 256 ^ 2" using assms(2) by simp
  then have "SetBytes (be_bytes 2 (n div 2 ^ 224)) = n div 2 ^ 224"
    using n by (intro SetBytes_be_bytes) (simp_all add: pos_imp_zdiv_nonneg_iff)
  then show ?thesis using SetBytes_mod[OF n, of 28] by (simp add: DecodeVersionedNonce_def Let_def b)
qed

lemma decode_31:
  assumes "2 ^ 240 \<le> n" "n < 2 ^ 248"
  shows "DecodeVersionedNonce n = (word_of_int (nonce_version n), nonce_value n)"
proof -
  have n: "0 \<le> n" using assms(1) by (rule order_trans[rotated]) simp
  have "big_Bytes n = be_bytes (Suc 30) n" by (rule big_Bytes_len[OF n]) (use assms in simp_all)
  then have b: "big_Bytes n = be_bytes 1 (n div 256 ^ 30) @ be_bytes 30 n"
    using be_bytes_split[of 1 30 n] by simp
  have one: "be_bytes 1 x = [word_of_int x]" for x by simp
  have v: "n div 2 ^ 240 < 256" "0 \<le> n div 2 ^ 240" using assms(2) n by (simp_all add: pos_imp_zdiv_nonneg_iff)
  have "(ucast (word_of_int (n div 2 ^ 240) :: byte) :: 16 word) = word_of_int (uint (word_of_int (n div 2 ^ 240) :: byte))"
    by (simp add: word_of_int_uint)
  also have "uint (word_of_int (n div 2 ^ 240) :: byte) = n div 2 ^ 240"
    unfolding uint_word_of_int using v by simp
  finally have "(ucast (word_of_int (n div 2 ^ 240) :: byte) :: 16 word) = word_of_int (n div 2 ^ 240)" .
  then show ?thesis using SetBytes_mod[OF n, of 30]
    unfolding DecodeVersionedNonce_def Let_def b one nonce_version_def nonce_value_def by simp
qed

lemma decode_32:
  assumes "2 ^ 248 \<le> n" "n < 2 ^ 256"
  shows "DecodeVersionedNonce n = (word_of_int (nonce_version n), nonce_value n)"
proof -
  have n: "0 \<le> n" using assms(1) by (rule order_trans[rotated]) simp
  have "big_Bytes n = be_bytes (Suc 31) n" by (rule big_Bytes_len[OF n]) (use assms in simp_all)
  then have b: "big_Bytes n = be_bytes 2 (n div 256 ^ 30) @ be_bytes 30 n"
    using be_bytes_split[of 2 30 n] by simp
  have "n div 2 ^ 240 < 256 ^ 2" using assms(2) by simp
  then have "SetBytes (be_bytes 2 (n div 2 ^ 240)) = n div 2 ^ 240"
    using n by (intro SetBytes_be_bytes) (simp_all add: pos_imp_zdiv_nonneg_iff)
  then show ?thesis using SetBytes_mod[OF n, of 30]
    by (simp add: DecodeVersionedNonce_def Let_def b nonce_version_def nonce_value_def)
qed

section \<open>Properties\<close>

text \<open>DecodeVersionedNonce splits a nonce of at most 256 bits into the version of its top two bytes
  and the value of the other thirty, except when the nonce has exactly 30 significant bytes: then the
  top two of those are taken for the version and cut off the value, although the version is zero.\<close>

lemma decode_versioned_nonce:
  assumes "0 \<le> n" and "n < 2 ^ 256"
  shows "DecodeVersionedNonce n =
     (if 2 ^ 232 \<le> n \<and> n < 2 ^ 240 then (word_of_int (n div 2 ^ 224), n mod 2 ^ 224)
      else (word_of_int (nonce_version n), nonce_value n))
   \<and> (2 ^ 232 \<le> n \<and> n < 2 ^ 240 \<longrightarrow> nonce_version n = 0 \<and> fst (DecodeVersionedNonce n) \<noteq> 0)"
proof -
  consider "n < 2 ^ 232" | "2 ^ 232 \<le> n" "n < 2 ^ 240" | "2 ^ 240 \<le> n" "n < 2 ^ 248" | "2 ^ 248 \<le> n"
    by linarith
  then show ?thesis
  proof cases
    case 1
    then have "nonce_version n = 0" "nonce_value n = n" using assms(1) by (simp_all add: nonce_version_def nonce_value_def)
    then show ?thesis using 1 decode_short[OF assms(1) 1] by simp
  next
    case 2
    have "nonce_version n = 0" using 2 assms(1) by (simp add: nonce_version_def)
    moreover have "2 ^ 232 div 2 ^ 224 \<le> n div 2 ^ 224" using 2(1) by (intro zdiv_mono1) auto
    then have v: "256 \<le> n div 2 ^ 224" "n div 2 ^ 224 < 2 ^ 16" using 2(2) by simp_all
    have "uint (word_of_int (n div 2 ^ 224) :: 16 word) = n div 2 ^ 224"
      unfolding uint_word_of_int using v by simp
    then have "(word_of_int (n div 2 ^ 224) :: 16 word) \<noteq> 0" using v(1) by (metis unsigned_0 not_numeral_le_zero)
    ultimately show ?thesis using 2 decode_30[OF 2] by simp
  next
    case 3
    then show ?thesis using decode_31[OF 3] by simp
  next
    case 4
    then show ?thesis using decode_32[OF 4 assms(2)] by simp
  qed
qed

lemma mapR_not_Ok:
  assumes "i < length xs" "\<And>y. f (xs ! i) \<noteq> Ok y"
  shows "\<And>ys. mapR f xs \<noteq> Ok ys"
  using assms by (auto simp: mapR_Ok_iff)

text \<open>A window that holds messages of version zero before messages of version one is never read:
  the extension of a message is looked up at the index of the message instead of its position among
  the messages of version one, so the last message needs an extension that does not exist.  The
  result is an error or a panic, never a list of messages.\<close>

lemma mixed_versions_not_read:
  assumes "ContractEventsWithFilter G (contract_filter addr (ev_ID (a_SentMessage A))) chain from to s = Ok sent"
    and "ContractEventsWithFilter G (contract_filter addr (ev_ID (a_SentMessageExtension1 A))) chain from to s = Ok exts"
    and "sent \<noteq> []" and "length exts < length sent"
    and "UnpackLog zero_SentMessage (ce_RLPLog (last sent)) (Some (a_SentMessage A)) = Ok m"
    and "snt_MessageNonce m = Some nonce" and "fst (DecodeVersionedNonce nonce) \<noteq> 0"
  shows "\<forall>msgs. CrossDomainMessengerSentMessageEvents G A chain addr from to s \<noteq> Ok msgs"
proof -
  let ?n = "length sent - length exts" and ?i = "length sent - 1"
  have i: "?i < length sent" "length exts \<le> ?i" using assms(3,4) by (cases sent; auto)+
  have "sent ! ?i = last sent" using assms(3) by (simp add: last_conv_nth)
  then have "sent_message A exts ?n ?i (sent ! ?i) \<noteq> Ok y" for y
    using i(2) assms(5-7) by (auto simp: sent_message_def Let_def indexR_def word_gt_0)
  then have "\<forall>y. (\<lambda>(i, e). sent_message A exts ?n i e) (enumerate 0 sent ! ?i) \<noteq> Ok y"
    using i(1) by (simp add: nth_enumerate_eq)
  then have "mapR (\<lambda>(i, e). sent_message A exts ?n i e) (enumerate 0 sent) \<noteq> Ok msgs" for msgs
    using i(1) by (intro mapR_not_Ok[where i = ?i]) auto
  then show ?thesis using assms(1-4)
    by (auto simp: CrossDomainMessengerSentMessageEvents_def decode_each_def)
qed

text \<open>An ABI for the witnesses: each event is decoded from its data alone.\<close>

definition simple_event :: "hash \<Rightarrow> (bytes \<Rightarrow> 'o \<Rightarrow> 'o) \<Rightarrow> 'o abi_event" where
  "simple_event i f = \<lparr>ev_ID = i, ev_Unpack = (\<lambda>d out. Ok (f d out)), ev_ParseTopics = (\<lambda>ts out. Ok out)\<rparr>"

definition sample_bridge :: "hash \<Rightarrow> BridgeMsg abi_event" where
  "sample_bridge i = simple_event i (\<lambda>d out. out\<lparr>bm_From := 21, bm_To := 22, bm_Amount := Some (SetBytes d)\<rparr>)"

definition sample_token :: "hash \<Rightarrow> TokenMsg abi_event" where
  "sample_token i = simple_event i (\<lambda>d out. out\<lparr>tk_Local := 31, tk_Remote := 32, tk_From := 21, tk_To := 22,
     tk_Amount := Some (SetBytes d)\<rparr>)"

definition sample_abis :: abis where
  "sample_abis = \<lparr>
     a_SentMessage = simple_event 101 (\<lambda>d out. out\<lparr>snt_MessageNonce := Some (SetBytes d), snt_GasLimit := Some 0\<rparr>),
     a_SentMessageExtension1 = simple_event 102 (\<lambda>d out. out\<lparr>ext_MntValue := Some 1, ext_EthValue := Some (SetBytes d)\<rparr>),
     a_RelayedMessage = simple_event 103 (\<lambda>d out. BytesToHash d),
     a_ETHBridgeInitiated = sample_bridge 104, a_ERC20BridgeInitiated = sample_token 105,
     a_MNTBridgeInitiated = sample_bridge 106, a_ETHBridgeFinalized = sample_bridge 107,
     a_ERC20BridgeFinalized = sample_token 108, a_MNTBridgeFinalized = sample_bridge 109,
     a_TransactionDeposited = simple_event (DepositEventABIHash BytesToHash) (\<lambda>d out. out\<lparr>td_From := 2, td_To := 3\<rparr>),
     a_WithdrawalProven = simple_event 111 (\<lambda>d out. out\<lparr>op_WithdrawalHash := BytesToHash d\<rparr>),
     a_WithdrawalFinalized = simple_event 112 (\<lambda>d out. out\<lparr>of_WithdrawalHash := BytesToHash d, of_Success := True\<rparr>),
     a_OutputProposed = simple_event 113 (\<lambda>d out. out\<lparr>pr_L2BlockNumber := Some (SetBytes d), pr_L1Timestamp := Some 5\<rparr>),
     a_MessagePassed = simple_event 114 (\<lambda>d out. out\<lparr>mp_Nonce := Some 1, mp_EthValue := Some (SetBytes d),
       mp_MntValue := Some 0, mp_GasLimit := Some 0, mp_WithdrawalHash := BytesToHash d\<rparr>),
     a_TransactionEnqueued = simple_event 115 (\<lambda>d out. out\<lparr>te_GasLimit := Some 9\<rparr>),
     a_StateBatchAppended = simple_event 116 (\<lambda>d out. out\<lparr>ba_BatchSize := Some (SetBytes d)\<rparr>),
     a_ETHDepositInitiated = sample_bridge 117, a_ERC20DepositInitiated = sample_token 118,
     a_MNTDepositInitiated = sample_bridge 119, a_ERC20DepositAsMNT = sample_bridge 118,
     a_WithdrawalInitiated = sample_token 120,
     a_unpack_ConfirmDataStore = (\<lambda>d. Ok (word_of_int (SetBytes d))),
     a_pack_relayMessage = (\<lambda>n a b m e g d. Ok [1]), a_pack_legacyRelayMessage = (\<lambda>a b d n. Ok [0]),
     a_legacyRelayMessage_ID = [9, 9, 9, 9], a_DepositEventABIHash = DepositEventABIHash BytesToHash,
     a_LegacyERC20ETHAddr = 77, a_Transaction_Hash = (\<lambda>a g d. 0), a_keccak = BytesToHash\<rparr>"

definition event_row :: "uuid \<Rightarrow> address \<Rightarrow> hash \<Rightarrow> u64 \<Rightarrow> bytes \<Rightarrow> ContractEvent" where
  "event_row g addr sig idx d = \<lparr>ce_GUID = g, ce_BlockHash = 1, ce_ContractAddress = addr, ce_TransactionHash = 3,
     ce_LogIndex = idx, ce_EventSignature = sig, ce_Timestamp = 0,
     ce_RLPLog = \<lparr>Address = addr, Topics = [sig], Data = d, BlockNumber = 0, TxHash = 3, BlockHash = 1, Index = idx\<rparr>\<rparr>"

lemma AfterFind_event_row [simp]: "AfterFind (event_row g addr sig idx d) = event_row g addr sig idx d"
  by (simp add: AfterFind_def rlp_log_def event_row_def)

text \<open>The database with one L1 and one L2 block of hash and number 1, and the given events.\<close>

definition events_db :: "ContractEvent list \<Rightarrow> ContractEvent list \<Rightarrow> db" where
  "events_db es1 es2 = empty_db\<lparr>l1_block_headers := [sample_row 1 1], l2_block_headers := [sample_row 1 1],
     l1_contract_events := es1, l2_contract_events := es2\<rparr>"

definition mixed_events :: "ContractEvent list" where
  "mixed_events = [event_row 1 5 101 0 [7], event_row 2 5 101 1 (be_bytes 31 (2 ^ 240 + 1)), event_row 3 5 102 2 [4]]"

lemmas query_simps = ContractEventsWithFilter_def L1ContractEventsWithFilter_def L2ContractEventsWithFilter_def
  events_db_def empty_db_def contract_filter_def join_headers_def sample_row_def event_filter_def no_filter_def
  where_field_def empty_if_not_found_def sample_abis_def simple_event_def event_row_def AfterFind_def rlp_log_def

end
