(* ===== verification/HeaderTraversal.thy ===== *)
theory HeaderTraversal
  imports EthClient
begin

text \<open>
  synchronizer/node/header_traversal.go: walking the chain of confirmed headers.  The state is the
  struct's two headers and the confirmation depth; the client is an argument, so that each call
  may find the node in another state.  \<open>header_source\<close> is the interface NextHeaders has to its
  client, interpreted on the client of EthClient over any connection.
\<close>

record HeaderTraversal =
  latestHeader :: "header option"
  lastTraversedHeader :: "header option"
  blockConfirmationDepth :: int

definition NewHeaderTraversal :: "header option \<Rightarrow> int \<Rightarrow> HeaderTraversal" where
  "NewHeaderTraversal fromHeader confDepth =
     \<lparr>latestHeader = None, lastTraversedHeader = fromHeader, blockConfirmationDepth = confDepth\<rparr>"

definition LatestHeader :: "HeaderTraversal \<Rightarrow> header option" where
  "LatestHeader f = latestHeader f"

definition LastTraversedHeader :: "HeaderTraversal \<Rightarrow> header option" where
  "LastTraversedHeader f = lastTraversedHeader f"

definition ErrHeaderTraversalAheadOfProvider :: error where
  "ErrHeaderTraversalAheadOfProvider =
     Msg ''the HeaderTraversal's internal state is ahead of the provider''"

definition nextHeight :: "header option \<Rightarrow> int" where
  "nextHeight lth = (case lth of None \<Rightarrow> 0 | Some h \<Rightarrow> Number h + 1)"

text \<open>The second half of NextHeaders, once the confirmed end height is above the last header.\<close>

definition fetch_range :: "EthClient \<Rightarrow> u64 \<Rightarrow> int \<Rightarrow> (HeaderTraversal, header list) go" where
  "fetch_range cl maxSize endHeight f =
     (let next = nextHeight (lastTraversedHeader f);
          upto = Clamp next endHeight maxSize in
      case ec_BlockHeadersByRange cl next upto of
        Err e \<Rightarrow> (Err (Wrap ''error querying blocks by range'' e), f)
      | Panic p \<Rightarrow> (Panic p, f)
      | Ok headers \<Rightarrow>
          if length headers = 0 then (Ok [], f)
          else (Ok headers, f\<lparr>lastTraversedHeader := Some (headers ! (length headers - 1))\<rparr>))"

definition NextHeaders :: "EthClient \<Rightarrow> u64 \<Rightarrow> (HeaderTraversal, header list) go" where
  "NextHeaders cl maxSize f0 =
     (case ec_BlockHeaderByNumber cl None of
        Err e \<Rightarrow> (Err (Wrap ''unable to query latest block'' e), f0)
      | Panic p \<Rightarrow> (Panic p, f0)
      | Ok None \<Rightarrow> (Err (Msg ''latest header unreported''), f0)
      | Ok (Some latest) \<Rightarrow>
          (let f = f0\<lparr>latestHeader := Some latest\<rparr>;
               endHeight = Number latest - blockConfirmationDepth f in
           if endHeight < 0 then (Ok [], f)
           else (case lastTraversedHeader f of
               None \<Rightarrow> fetch_range cl maxSize endHeight f
             | Some h \<Rightarrow>
                 if Number h = endHeight then (Ok [], f)
                 else if Number h > endHeight then (Err ErrHeaderTraversalAheadOfProvider, f)
                 else fetch_range cl maxSize endHeight f)))"

section \<open>The interface to the client\<close>

text \<open>What the traversal relies on: a range that is returned is linked, is not longer than the
  heights asked for and is not empty.\<close>

locale header_source =
  fixes cl :: EthClient and HeaderHash :: "header \<Rightarrow> hash"
  assumes range_linked: "ec_BlockHeadersByRange cl s e = Ok hs \<Longrightarrow> linked HeaderHash hs"
    and range_length: "ec_BlockHeadersByRange cl s e = Ok hs \<Longrightarrow> s \<le> e \<Longrightarrow> e - s < 2 ^ 64 - 1 \<Longrightarrow>
           int (length hs) \<le> e - s + 1 \<and> hs \<noteq> []"
begin

lemma fetch_Ok:
  assumes "fetch_range cl maxSize endHeight f = (Ok hs, f')" "hs \<noteq> []"
  shows "linked HeaderHash hs" and "lastTraversedHeader f' = Some (last hs)"
    and "ec_BlockHeadersByRange cl (nextHeight (lastTraversedHeader f))
           (Clamp (nextHeight (lastTraversedHeader f)) endHeight maxSize) = Ok hs"
  using assms range_linked
  by (auto simp: fetch_range_def Let_def last_conv_nth split: result.splits if_splits)

lemma fetch_length:
  assumes "fetch_range cl maxSize endHeight f = (Ok hs, f')" "hs \<noteq> []"
    and "nextHeight (lastTraversedHeader f) \<le> endHeight"
    and "endHeight - nextHeight (lastTraversedHeader f) < 2 ^ 64 - 1"
    and "0 < maxSize" "maxSize \<le> 2 ^ 63"
  shows "length hs \<le> unat maxSize"
    and "nextHeight (lastTraversedHeader f) + int (length hs) - 1 \<le> endHeight"
proof -
  note C = Clamp_range[OF assms(3-6)]
  let ?n = "nextHeight (lastTraversedHeader f)"
  let ?u = "Clamp ?n endHeight maxSize"
  have "ec_BlockHeadersByRange cl ?n ?u = Ok hs" by (rule fetch_Ok(3)[OF assms(1,2)])
  from range_length[OF this] C assms(4) have len: "int (length hs) \<le> ?u - ?n + 1" by auto
  show "length hs \<le> unat maxSize"
  proof -
    have "int (length hs) \<le> uint maxSize" using len C(3) by linarith
    then show ?thesis by (metis nat_int nat_mono unat_eq_nat_uint)
  qed
  show "?n + int (length hs) - 1 \<le> endHeight" using len C(2) by linarith
qed

end

interpretation client: header_source "clnt HeaderHash Keccak c" HeaderHash for HeaderHash Keccak c
proof unfold_locales
  fix s e hs
  assume r: "ec_BlockHeadersByRange (clnt HeaderHash Keccak c) s e = Ok hs"
  then have r': "BlockHeadersByRange HeaderHash c s e = Ok hs" by (simp add: clnt_def)
  show "linked HeaderHash hs" by (rule BlockHeadersByRange_linked[OF r'])
  show "int (length hs) \<le> e - s + 1 \<and> hs \<noteq> []" if "s \<le> e" "e - s < 2 ^ 64 - 1"
    using BlockHeadersByRange_length[OF r' that] by simp
qed

section \<open>NextHeaders\<close>

lemma NextHeaders_Ok:
  assumes "NextHeaders cl m f = (Ok hs, f')" "hs \<noteq> []"
  obtains latest where "ec_BlockHeaderByNumber cl None = Ok (Some latest)"
    and "nextHeight (lastTraversedHeader f) \<le> Number latest - blockConfirmationDepth f"
    and "0 \<le> Number latest - blockConfirmationDepth f"
    and "fetch_range cl m (Number latest - blockConfirmationDepth f) (f\<lparr>latestHeader := Some latest\<rparr>) = (Ok hs, f')"
proof -
  from assms obtain latest where l: "ec_BlockHeaderByNumber cl None = Ok (Some latest)"
    by (cases "ec_BlockHeaderByNumber cl None") (auto simp: NextHeaders_def split: option.splits)
  let ?e = "Number latest - blockConfirmationDepth f"
  have e: "0 \<le> ?e"
  proof (rule ccontr)
    assume "\<not> 0 \<le> ?e"
    then show False using assms l by (simp add: NextHeaders_def Let_def)
  qed
  let ?g = "f\<lparr>latestHeader := Some latest\<rparr>"
  have "nextHeight (lastTraversedHeader f) \<le> ?e \<and> fetch_range cl m ?e ?g = (Ok hs, f')"
  proof (cases "lastTraversedHeader f")
    case None
    have "NextHeaders cl m f = fetch_range cl m ?e ?g"
      unfolding NextHeaders_def l Let_def using None e by (simp split: option.splits)
    then show ?thesis using assms e None by (simp add: nextHeight_def)
  next
    case (Some h)
    have eq: "NextHeaders cl m f = (if Number h = ?e then (Ok [], ?g)
        else if Number h > ?e then (Err ErrHeaderTraversalAheadOfProvider, ?g) else fetch_range cl m ?e ?g)"
      unfolding NextHeaders_def l Let_def using Some e by simp
    with assms have "Number h < ?e" by (auto split: if_splits)
    then show ?thesis using assms e Some eq by (simp add: nextHeight_def)
  qed
  then show thesis using that[OF l] e by blast
qed

lemma fetch_range_depth: "blockConfirmationDepth (snd (fetch_range cl m e f)) = blockConfirmationDepth f"
  by (auto simp: fetch_range_def Let_def split: result.splits)

lemma NextHeaders_depth: "blockConfirmationDepth (snd (NextHeaders cl m f)) = blockConfirmationDepth f"
  by (auto simp: NextHeaders_def Let_def fetch_range_depth split: result.splits option.splits)

text \<open>A call that returns no headers, or an error, leaves the last traversed header alone.\<close>

definition last_after :: "header list result \<Rightarrow> header option \<Rightarrow> header option" where
  "last_after r old = (case r of Ok hs \<Rightarrow> if hs = [] then old else Some (last hs)
                       | Err e \<Rightarrow> old | Panic p \<Rightarrow> old)"

lemma last_after_simps [simp]:
  "last_after (Ok []) old = old" "last_after (Err e) old = old" "last_after (Panic p) old = old"
  "hs \<noteq> [] \<Longrightarrow> last_after (Ok hs) old = Some (last hs)"
  by (simp_all add: last_after_def)

lemma fetch_range_last:
  "lastTraversedHeader (snd (fetch_range cl m e f))
     = last_after (fst (fetch_range cl m e f)) (lastTraversedHeader f)"
  by (simp add: fetch_range_def Let_def last_conv_nth split: result.splits)

lemma NextHeaders_last:
  "lastTraversedHeader (snd (NextHeaders cl m f))
     = last_after (fst (NextHeaders cl m f)) (lastTraversedHeader f)"
proof -
  show ?thesis
    unfolding NextHeaders_def Let_def
    by (simp add: fetch_range_last split: result.split option.split)
qed

lemma NextHeaders_stuck:
  assumes "NextHeaders cl m f = (r, f')" "\<And>hs. r = Ok hs \<Longrightarrow> hs = []"
  shows "lastTraversedHeader f' = lastTraversedHeader f"
  using NextHeaders_last[of cl m f] assms by (cases r) auto

text \<open>A node that answers a request for a height with the header of that height: what the JSON-RPC
  specification says of eth_getBlockByNumber.\<close>

definition numbered_rpc :: "rpc \<Rightarrow> bool" where
  "numbered_rpc c =
     ((\<forall>n h. rpc_headerByNumber c (ArgHex n) = Ok (Some h) \<longrightarrow> Number h = n) \<and>
      (\<forall>args reply i n h. rpc_batchHeaders c args = Ok reply \<longrightarrow> i < length args \<longrightarrow>
         args ! i = ArgHex n \<longrightarrow> reply i = Inr h \<longrightarrow> Number h = n))"

definition numbered :: "header list \<Rightarrow> int \<Rightarrow> bool" where
  "numbered hs s = (map Number hs = map (\<lambda>i. s + int i) [0..<length hs])"

lemma numbered_nth: "numbered hs s \<Longrightarrow> i < length hs \<Longrightarrow> Number (hs ! i) = s + int i"
  unfolding numbered_def by (drule arg_cong[where f = "\<lambda>xs. xs ! i"]) simp

lemma numberedI: "(\<And>i. i < length hs \<Longrightarrow> Number (hs ! i) = s + int i) \<Longrightarrow> numbered hs s"
  unfolding numbered_def by (rule nth_equalityI) auto

lemma numbered_append:
  "numbered (xs @ ys) s \<longleftrightarrow> numbered xs s \<and> numbered ys (s + int (length xs))"
proof
  assume n: "numbered (xs @ ys) s"
  have "numbered xs s"
  proof (rule numberedI)
    fix i assume "i < length xs"
    then show "Number (xs ! i) = s + int i" using numbered_nth[OF n, of i] by (simp add: nth_append)
  qed
  moreover have "numbered ys (s + int (length xs))"
  proof (rule numberedI)
    fix i assume "i < length ys"
    then show "Number (ys ! i) = s + int (length xs) + int i"
      using numbered_nth[OF n, of "length xs + i"] by simp
  qed
  ultimately show "numbered xs s \<and> numbered ys (s + int (length xs))" by simp
next
  assume n: "numbered xs s \<and> numbered ys (s + int (length xs))"
  show "numbered (xs @ ys) s"
  proof (rule numberedI)
    fix i assume i: "i < length (xs @ ys)"
    show "Number ((xs @ ys) ! i) = s + int i"
    proof (cases "i < length xs")
      case True
      then show ?thesis using n numbered_nth[of xs s i] by (simp add: nth_append)
    next
      case False
      then show ?thesis using n i numbered_nth[of ys "s + int (length xs)" "i - length xs"]
        by (simp add: nth_append)
    qed
  qed
qed

lemma numbered_last: "numbered hs s \<Longrightarrow> hs \<noteq> [] \<Longrightarrow> Number (last hs) = s + int (length hs) - 1"
  using numbered_nth[of hs s "length hs - 1"] by (simp add: last_conv_nth of_nat_diff Suc_leI)

lemma numbered_Nil [simp]: "numbered [] s"
  by (simp add: numbered_def)

lemma BlockHeadersByRange_numbered:
  assumes "BlockHeadersByRange H c s e = Ok hs" "numbered_rpc c" "0 \<le> s"
  shows "numbered hs s"
proof (cases "s = e")
  case True
  then obtain h where "hs = [h]" "rpc_headerByNumber c (ArgHex s) = Ok (Some h)"
    using assms(1,3) by (auto simp: BlockHeadersByRange_def BlockHeaderByNumber_def required_def
        toBlockNumArg_def split: option.splits)
  then show ?thesis using assms(2) by (simp add: numbered_def numbered_rpc_def)
next
  case False
  let ?n = "unat (big_Uint64 (e - s) + 1)"
  let ?args = "map (\<lambda>i. toBlockNumArg (Some (s + int i))) [0..<?n]"
  from False assms(1) obtain reply where r: "rpc_batchHeaders c ?args = Ok reply"
    "range_loop H None (map reply [0..<?n]) = Ok hs"
    by (auto simp: BlockHeadersByRange_def Let_def)
  show ?thesis
  proof (rule numberedI)
    fix i assume i: "i < length hs"
    then have i': "i < ?n" using range_loop_None(2)[OF r(2)] by simp
    have "map reply [0..<?n] ! i = Inr (hs ! i)" using range_loop_None(3)[OF r(2)] i by blast
    then have "reply i = Inr (hs ! i)" using i' by (simp del: upt_Suc)
    moreover have "?args ! i = ArgHex (s + int i)" using i' assms(3) by (simp add: toBlockNumArg_def)
    ultimately show "Number (hs ! i) = s + int i"
      using assms(2) r(1) i' unfolding numbered_rpc_def by (metis length_map length_upt minus_nat.diff_0)
  qed
qed

section \<open>A node for the witnesses\<close>

text \<open>A chain of headers whose hash is their number; \<open>sample_rpc height\<close> serves it up to a height, with
  the logs given.\<close>

definition sample_header :: "int \<Rightarrow> header" where
  "sample_header n = \<lparr>ParentHash = word_of_int (n - 1), Number = n, Time = word_of_int (n * 12), Rest = []\<rparr>"

definition sample_hash :: "header \<Rightarrow> hash" where
  "sample_hash h = word_of_int (Number h)"

definition sample_rpc :: "int \<Rightarrow> log list \<Rightarrow> rpc" where
  "sample_rpc height logs =
     \<lparr>rpc_headerByNumber = (\<lambda>a. case a of ArgTag t \<Rightarrow> Ok (Some (sample_header height))
        | ArgHex n \<Rightarrow> Ok (if n \<le> height then Some (sample_header n) else None) | ArgBlockNumber n \<Rightarrow> Ok None),
      rpc_headerByHash = (\<lambda>h. Ok None), rpc_blockByHash = (\<lambda>h. Ok (Some [])),
      rpc_blockByNumber = (\<lambda>a. Ok (Some [])), rpc_transaction = (\<lambda>h. Ok None),
      rpc_receipt = (\<lambda>h. Ok None), rpc_getProof = (\<lambda>a b. Ok 0), rpc_getBalance = (\<lambda>a b. Ok 0),
      rpc_call = (\<lambda>a b. Ok []),
      rpc_batchHeaders = (\<lambda>args. Ok (\<lambda>i. case args ! i of ArgHex n \<Rightarrow>
          (if n \<le> height then Inr (sample_header n) else Inl NotFound)
        | ArgTag t \<Rightarrow> Inl NotFound | ArgBlockNumber n \<Rightarrow> Inl NotFound)),
      rpc_batchFilter = (\<lambda>b f. Ok (case b of ArgHex n \<Rightarrow> Inr (sample_header n)
        | ArgTag t \<Rightarrow> Inr (sample_header height) | ArgBlockNumber n \<Rightarrow> Inl NotFound, Inr logs))\<rparr>"

lemma sample_rpc_numbered: "numbered_rpc (sample_rpc height logs)"
  by (auto simp: numbered_rpc_def sample_rpc_def sample_header_def split: if_splits)

abbreviation sample_client :: "int \<Rightarrow> log list \<Rightarrow> EthClient" where
  "sample_client height logs \<equiv> clnt sample_hash (\<lambda>_. []) (sample_rpc height logs)"

text \<open>At most five headers from a new traversal over the sample chain of height 10, confirmed at
  depth 8: the headers 0 to 2.\<close>

lemma sample_NextHeaders:
  "NextHeaders (sample_client 10 logs) 5 (NewHeaderTraversal None 8)
     = (Ok [sample_header 0, sample_header 1, sample_header 2],
        \<lparr>latestHeader = Some (sample_header 10), lastTraversedHeader = Some (sample_header 2),
         blockConfirmationDepth = 8\<rparr>)"
  by code_simp

section \<open>Properties\<close>

text \<open>C1: headers that NextHeaders returns are the ones that follow the last traversed header in
  height, without a gap, each naming its predecessor's hash as its parent; there are at most maxSize
  of them, the last one is at least the confirmation depth below the head of the chain, and it
  becomes the last traversed header.\<close>

theorem NextHeaders_confirmed:
  assumes "NextHeaders (clnt H K c) maxSize f = (Ok hs, f')" and "hs \<noteq> []"
    and "numbered_rpc c" and "0 \<le> nextHeight (lastTraversedHeader f)"
    and "0 < maxSize" "maxSize \<le> 2 ^ 63"
    and "\<forall>h. BlockHeaderByNumber c None = Ok (Some h) \<longrightarrow> Number h - blockConfirmationDepth f < 2 ^ 64 - 1"
  shows "numbered hs (nextHeight (lastTraversedHeader f)) \<and> linked H hs \<and> length hs \<le> unat maxSize
     \<and> lastTraversedHeader f' = Some (last hs)
     \<and> (\<exists>latest. BlockHeaderByNumber c None = Ok (Some latest)
           \<and> Number (last hs) + blockConfirmationDepth f \<le> Number latest)"
proof -
  obtain latest where l: "BlockHeaderByNumber c None = Ok (Some latest)"
    "nextHeight (lastTraversedHeader f) \<le> Number latest - blockConfirmationDepth f"
    "fetch_range (clnt H K c) maxSize (Number latest - blockConfirmationDepth f) (f\<lparr>latestHeader := Some latest\<rparr>) = (Ok hs, f')"
    by (rule NextHeaders_Ok[OF assms(1,2)]) (auto simp: clnt_def)
  let ?g = "f\<lparr>latestHeader := Some latest\<rparr>" and ?e = "Number latest - blockConfirmationDepth f"
  have g: "lastTraversedHeader ?g = lastTraversedHeader f" by simp
  note F = client.fetch_Ok[OF l(3) assms(2), unfolded g]
  have "BlockHeadersByRange H c (nextHeight (lastTraversedHeader f))
      (Clamp (nextHeight (lastTraversedHeader f)) ?e maxSize) = Ok hs"
    using F(3) by (simp add: clnt_def)
  from BlockHeadersByRange_numbered[OF this assms(3,4)]
  have n: "numbered hs (nextHeight (lastTraversedHeader f))" .
  have "?e - nextHeight (lastTraversedHeader f) < 2 ^ 64 - 1" using l(1) assms(4,7) by fastforce
  note L = client.fetch_length[OF l(3) assms(2), unfolded g, OF l(2) this assms(5,6)]
  then show ?thesis using F(1,2) n numbered_last[OF n assms(2)] l(1) by auto
qed

theorem NextHeaders_confirmed_witness:
  "numbered [sample_header 0, sample_header 1, sample_header 2] 0
   \<and> linked sample_hash [sample_header 0, sample_header 1, sample_header 2]"
proof -
  have "\<forall>h. BlockHeaderByNumber (sample_rpc 10 []) None = Ok (Some h) \<longrightarrow> Number h - 8 < 2 ^ 64 - 1"
    by (auto simp: BlockHeaderByNumber_def required_def toBlockNumArg_def sample_rpc_def sample_header_def)
  then show ?thesis
    using NextHeaders_confirmed[OF sample_NextHeaders[of "[]"] _ sample_rpc_numbered]
    by (simp add: NewHeaderTraversal_def nextHeight_def word_le_def word_less_def)
qed

text \<open>A call of NextHeaders that fails, or finds nothing new, leaves the last traversed header
  where it was, so the next call asks for the same height again.\<close>

lemma NextHeaders_keeps_position:
  assumes "NextHeaders cl maxSize f = (r, f')" and "\<forall>hs. r = Ok hs \<longrightarrow> hs = []"
  shows "lastTraversedHeader f' = lastTraversedHeader f \<and> blockConfirmationDepth f' = blockConfirmationDepth f"
  using NextHeaders_stuck[OF assms(1)] NextHeaders_depth[of cl maxSize f] assms by simp

text \<open>Only the height of the last traversed header decides what NextHeaders returns; its hash is
  never compared with the parent hash of the first header fetched.  After a reorganisation deeper
  than the confirmation depth, headers that do not follow the last traversed one are returned
  without an error.\<close>

lemma NextHeaders_ignores_last_hash:
  assumes "Number h = Number h'"
  shows "fst (NextHeaders cl maxSize (f\<lparr>lastTraversedHeader := Some h\<rparr>))
       = fst (NextHeaders cl maxSize (f\<lparr>lastTraversedHeader := Some h'\<rparr>))"
  using assms
  by (simp add: NextHeaders_def fetch_range_def nextHeight_def Let_def split: result.split option.split)

end
