(* ===== verification/Synchronizer.thy ===== *)
theory Synchronizer
  imports HeaderTraversal
begin

text \<open>
  synchronizer/synchronizer.go: the loop that turns confirmed headers into batches with their
  logs.  The channel syncerBatches is the list of the batches sent so far, oldest first (it is
  unbuffered: a send returns when the consumer has taken the batch).  The worker is the loop of
  clock.LoopFn, which calls tick until it is closed and then runs the close function once per
  call of its Close.
\<close>

section \<open>Batches\<close>

record SynchronizerBatch =
  Headers :: "header list"
  HeaderMap :: "hash \<rightharpoonup> header"
  bLogs :: "log list"
  HeadersWithLog :: "hash \<rightharpoonup> bool"

record Synchronizer =
  headerBufferSize :: u64
  headerTraversal :: HeaderTraversal
  contracts :: "address list"
  syncerBatches :: "SynchronizerBatch list"
  batchesClosed :: bool
  headers :: "header list"
  worker :: "unit option"

definition NewSynchronizer :: "u64 \<Rightarrow> header option \<Rightarrow> int \<Rightarrow> address list \<Rightarrow> Synchronizer" where
  "NewSynchronizer bufferSize fromHeader confDepth cs =
     \<lparr>headerBufferSize = bufferSize, headerTraversal = NewHeaderTraversal fromHeader confDepth,
      contracts = cs, syncerBatches = [], batchesClosed = False, headers = [], worker = None\<rparr>"

definition Start :: "(Synchronizer, unit) go" where
  "Start s = (if worker s \<noteq> None then (Err (Msg ''already started''), s)
              else (Ok (), s\<lparr>worker := Some ()\<rparr>))"

definition Close :: "(Synchronizer, unit) go" where
  "Close s = (case worker s of
                None \<Rightarrow> (Ok (), s)
              | Some w \<Rightarrow> if batchesClosed s then (Panic ''close of closed channel'', s)
                          else (Ok (), s\<lparr>batchesClosed := True\<rparr>))"

text \<open>The loops of processBatch: the map from hash to header, and the pass over the logs.\<close>

fun header_map :: "(header \<Rightarrow> hash) \<Rightarrow> header list \<Rightarrow> (hash \<rightharpoonup> header) \<Rightarrow> (hash \<rightharpoonup> header)" where
  "header_map H [] m = m"
| "header_map H (h # hs) m = header_map H hs (m(H h \<mapsto> h))"

fun log_loop :: "(hash \<rightharpoonup> header) \<Rightarrow> log list \<Rightarrow> (hash \<rightharpoonup> bool) \<Rightarrow> (hash \<rightharpoonup> bool) result" where
  "log_loop hm [] withLog = Ok withLog"
| "log_loop hm (l # ls) withLog =
     (if hm (BlockHash l) = None then Err (Msg ''parsed log with a block hash not in the batch'')
      else log_loop hm ls (withLog(BlockHash l \<mapsto> True)))"

definition processBatch :: "(header \<Rightarrow> hash) \<Rightarrow> EthClient \<Rightarrow> header list \<Rightarrow> (Synchronizer, unit) go" where
  "processBatch H cl hs s =
     (if length hs = 0 then (Ok (), s)
      else (let firstHeader = hs ! 0; lastHeader = hs ! (length hs - 1);
                headerMap = header_map H hs Map.empty;
                filterQuery = \<lparr>fq_BlockHash = None, fq_FromBlock = Some (Number firstHeader),
                  fq_ToBlock = Some (Number lastHeader), fq_Addresses = contracts s, fq_Topics = []\<rparr> in
        case ec_FilterLogs cl filterQuery of
          Err e \<Rightarrow> (Err e, s)
        | Panic p \<Rightarrow> (Panic p, s)
        | Ok logs \<Rightarrow>
            if Number (ToBlockHeader logs) \<noteq> Number lastHeader
            then (Err (Msg ''mismatch in FilterLog#ToBlock number''), s)
            else if H (ToBlockHeader logs) \<noteq> H lastHeader
            then (Err (Msg ''mismatch in FitlerLog#ToBlock block hash!!!''), s)
            else (case log_loop headerMap (Logs_Logs logs) Map.empty of
                Err e \<Rightarrow> (Err e, s)
              | Panic p \<Rightarrow> (Panic p, s)
              | Ok headersWithLog \<Rightarrow>
                  (Ok (), s\<lparr>syncerBatches := syncerBatches s @
                     [\<lparr>Headers = hs, HeaderMap = headerMap, bLogs = Logs_Logs logs,
                       HeadersWithLog = headersWithLog\<rparr>]\<rparr>))))"

text \<open>The second half of tick: process the pending headers, forget them when that succeeds.\<close>

definition process_pending :: "(header \<Rightarrow> hash) \<Rightarrow> EthClient \<Rightarrow> (Synchronizer, unit) go" where
  "process_pending H cl s =
     (case processBatch H cl (headers s) s of
        (Ok _, s') \<Rightarrow> (Ok (), s'\<lparr>headers := []\<rparr>)
      | (Err e, s') \<Rightarrow> (Ok (), s')
      | (Panic p, s') \<Rightarrow> (Panic p, s'))"

definition tick :: "(header \<Rightarrow> hash) \<Rightarrow> EthClient \<Rightarrow> (Synchronizer, unit) go" where
  "tick H cl s =
     (if length (headers s) > 0 then process_pending H cl s
      else (case NextHeaders cl (headerBufferSize s) (headerTraversal s) of
          (Panic p, f) \<Rightarrow> (Panic p, s\<lparr>headerTraversal := f\<rparr>)
        | (Err e, f) \<Rightarrow> process_pending H cl (s\<lparr>headerTraversal := f\<rparr>)
        | (Ok newHeaders, f) \<Rightarrow>
            if length newHeaders = 0 then process_pending H cl (s\<lparr>headerTraversal := f\<rparr>)
            else process_pending H cl (s\<lparr>headerTraversal := f, headers := newHeaders\<rparr>)))"

text \<open>The loop: every tick may find the node in another state.  A panic ends the process.\<close>

inductive sync_step :: "(header \<Rightarrow> hash) \<Rightarrow> (EthClient \<Rightarrow> bool) \<Rightarrow> Synchronizer \<Rightarrow> Synchronizer \<Rightarrow> bool"
  for H and P where
  step_start: "Start s = (Ok (), s') \<Longrightarrow> sync_step H P s s'"
| step_tick: "worker s = Some w \<Longrightarrow> \<not> batchesClosed s \<Longrightarrow> P cl \<Longrightarrow> tick H cl s = (Ok (), s') \<Longrightarrow> sync_step H P s s'"
| step_close: "Close s = (Ok (), s') \<Longrightarrow> sync_step H P s s'"

inductive sync_reach :: "(header \<Rightarrow> hash) \<Rightarrow> (EthClient \<Rightarrow> bool) \<Rightarrow> Synchronizer \<Rightarrow> Synchronizer \<Rightarrow> bool"
  for H and P and s0 where
  reach_init: "sync_reach H P s0 s0"
| reach_step: "sync_reach H P s0 s \<Longrightarrow> sync_step H P s s' \<Longrightarrow> sync_reach H P s0 s'"

inductive_cases sync_stepE: "sync_step H P s s'"
inductive_simps sync_step_simps: "sync_step H P s s'"

section \<open>What a batch holds\<close>

lemma header_map_None: "header_map H hs m h = None \<longleftrightarrow> m h = None \<and> h \<notin> H ` set hs"
  by (induction hs arbitrary: m) auto

lemma header_map_Some: "header_map H hs m h = Some hx \<Longrightarrow> m h = Some hx \<or> (hx \<in> set hs \<and> H hx = h)"
  by (induction hs arbitrary: m) (fastforce split: if_splits)+

lemma log_loop_Ok:
  assumes "log_loop hm ls w = Ok w'"
  shows "(\<forall>l \<in> set ls. hm (BlockHash l) \<noteq> None) \<and> (\<forall>h. w' h = (if h \<in> BlockHash ` set ls then Some True else w h))"
  using assms by (induction ls arbitrary: w) (auto split: if_splits)

lemma log_loop_total:
  "(\<forall>l \<in> set ls. hm (BlockHash l) \<noteq> None) \<Longrightarrow> \<exists>w'. log_loop hm ls w = Ok w'"
  by (induction ls arbitrary: w) auto

lemma log_loop_no_panic: "log_loop hm ls w \<noteq> Panic p"
  by (induction ls arbitrary: w) auto

definition batch_ok :: "(header \<Rightarrow> hash) \<Rightarrow> SynchronizerBatch \<Rightarrow> bool" where
  "batch_ok H b =
     (Headers b \<noteq> [] \<and>
      (\<forall>h. (HeaderMap b h = None) = (h \<notin> H ` set (Headers b))) \<and>
      (\<forall>h hx. HeaderMap b h = Some hx \<longrightarrow> hx \<in> set (Headers b) \<and> H hx = h) \<and>
      (\<forall>l \<in> set (bLogs b). BlockHash l \<in> H ` set (Headers b)) \<and>
      (\<forall>h. HeadersWithLog b h = (if h \<in> BlockHash ` set (bLogs b) then Some True else None)))"

text \<open>processBatch sends at most one batch, made of the headers it was given and well formed; on an
  error nothing changes.\<close>

lemma processBatch_cases:
  assumes "processBatch H cl hs s = (r, s')"
  shows "(\<exists>b. r = Ok () \<and> s' = s\<lparr>syncerBatches := syncerBatches s @ [b]\<rparr> \<and> Headers b = hs \<and> batch_ok H b)
       \<or> (s' = s \<and> (r = Ok () \<longrightarrow> hs = []))"
proof -
  let ?b = "\<lambda>(logs :: Logs) w. \<lparr>Headers = hs, HeaderMap = header_map H hs Map.empty, bLogs = Logs_Logs logs, HeadersWithLog = w\<rparr>"
  have "(s' = s \<and> (r = Ok () \<longrightarrow> hs = [])) \<or>
    (\<exists>(logs :: Logs) w. hs \<noteq> [] \<and> log_loop (header_map H hs Map.empty) (Logs_Logs logs) Map.empty = Ok w \<and>
       r = Ok () \<and> s' = s\<lparr>syncerBatches := syncerBatches s @ [?b logs w]\<rparr>)"
    using assms by (auto simp: processBatch_def Let_def split: if_splits result.splits)
  moreover have "batch_ok H (?b logs w)"
    if "hs \<noteq> []" "log_loop (header_map H hs Map.empty) (Logs_Logs logs) Map.empty = Ok w" for logs w
    using log_loop_Ok[OF that(2)] that(1) header_map_Some[of H hs Map.empty]
    by (auto simp: batch_ok_def header_map_None)
  ultimately show ?thesis by fastforce
qed

section \<open>Delivery\<close>

text \<open>Everything sent or pending, in order.\<close>

definition delivered :: "Synchronizer \<Rightarrow> header list" where
  "delivered s = concat (map Headers (syncerBatches s))"

definition sync_inv :: "(header \<Rightarrow> hash) \<Rightarrow> header option \<Rightarrow> Synchronizer \<Rightarrow> bool" where
  "sync_inv H from s =
     (let all = delivered s @ headers s in
      numbered all (nextHeight from) \<and>
      lastTraversedHeader (headerTraversal s) = (if all = [] then from else Some (last all)) \<and>
      (\<forall>b \<in> set (syncerBatches s). batch_ok H b \<and> linked H (Headers b)) \<and>
      linked H (headers s))"

definition good_client :: "(header \<Rightarrow> hash) \<Rightarrow> EthClient \<Rightarrow> bool" where
  "good_client H cl = (\<exists>K c. cl = clnt H K c \<and> numbered_rpc c)"

lemma delivered_update [simp]:
  "delivered (s\<lparr>headerTraversal := f\<rparr>) = delivered s" "delivered (s\<lparr>headers := hs\<rparr>) = delivered s"
  "delivered (s\<lparr>worker := w\<rparr>) = delivered s" "delivered (s\<lparr>batchesClosed := c\<rparr>) = delivered s"
  "delivered (s\<lparr>syncerBatches := syncerBatches s @ [b]\<rparr>) = delivered s @ Headers b"
  by (simp_all add: delivered_def)

lemma process_pending_inv:
  assumes "sync_inv H from s" "process_pending H cl s = (Ok (), s')"
  shows "sync_inv H from s'"
proof -
  obtain r t where p: "processBatch H cl (headers s) s = (r, t)"
    by (cases "processBatch H cl (headers s) s") auto
  from processBatch_cases[OF p] show ?thesis
  proof (elim disjE exE conjE)
    fix b assume b: "r = Ok ()" "t = s\<lparr>syncerBatches := syncerBatches s @ [b]\<rparr>" "Headers b = headers s" "batch_ok H b"
    then have "s' = t\<lparr>headers := []\<rparr>" using assms(2) p by (simp add: process_pending_def)
    then show ?thesis using assms(1) b by (auto simp: sync_inv_def Let_def)
  next
    assume t: "t = s" "r = Ok () \<longrightarrow> headers s = []"
    then have "s' = s" using assms(2) p by (cases r) (auto simp: process_pending_def)
    then show ?thesis using assms(1) by simp
  qed
qed

lemma numbered_next:
  assumes "numbered all n" "lst = (if all = [] then from else Some (last all))" "n = nextHeight from"
  shows "nextHeight lst = n + int (length all)"
  using assms numbered_last[OF assms(1)] by (auto simp: nextHeight_def)

lemma NextHeaders_good:
  assumes "good_client H cl" "NextHeaders cl m f = (Ok hs, f')" "hs \<noteq> []"
    and "0 \<le> nextHeight (lastTraversedHeader f)"
  shows "linked H hs" and "lastTraversedHeader f' = Some (last hs)"
    and "numbered hs (nextHeight (lastTraversedHeader f))"
proof -
  from assms(1) obtain K c where c: "cl = clnt H K c" "numbered_rpc c" by (auto simp: good_client_def)
  obtain e g where fr: "fetch_range cl m e g = (Ok hs, f')" "lastTraversedHeader g = lastTraversedHeader f"
    by (rule NextHeaders_Ok[OF assms(2,3)]) (auto intro: that)
  note F = client.fetch_Ok[OF fr(1)[unfolded c(1)] assms(3)]
  show "linked H hs" "lastTraversedHeader f' = Some (last hs)" by (rule F)+
  from F(3) have "BlockHeadersByRange H c (nextHeight (lastTraversedHeader f))
      (Clamp (nextHeight (lastTraversedHeader f)) e m) = Ok hs"
    by (simp add: fr(2)) (simp add: clnt_def)
  then show "numbered hs (nextHeight (lastTraversedHeader f))"
    by (rule BlockHeadersByRange_numbered[OF _ c(2) assms(4)])
qed

lemma tick_inv:
  assumes "sync_inv H from s" "good_client H cl" "tick H cl s = (Ok (), s')" "0 \<le> nextHeight from"
  shows "sync_inv H from s'"
proof (cases "headers s = []")
  case False
  then show ?thesis using assms process_pending_inv by (simp add: tick_def)
next
  case True
  let ?f = "headerTraversal s"
  obtain r f where n: "NextHeaders cl (headerBufferSize s) ?f = (r, f)"
    by (cases "NextHeaders cl (headerBufferSize s) ?f") auto
  show ?thesis
  proof (cases "\<exists>hs. r = Ok hs \<and> hs \<noteq> []")
    case False
    have "lastTraversedHeader f = lastTraversedHeader ?f"
      by (rule NextHeaders_stuck[OF n]) (use False in auto)
    then have "sync_inv H from (s\<lparr>headerTraversal := f\<rparr>)"
      using assms(1) by (simp add: sync_inv_def Let_def)
    moreover have "process_pending H cl (s\<lparr>headerTraversal := f\<rparr>) = (Ok (), s')"
      using assms(3) n False True by (cases r) (auto simp: tick_def)
    ultimately show ?thesis by (rule process_pending_inv)
  next
    case new: True
    then obtain hs where hs: "r = Ok hs" "hs \<noteq> []" by auto
    have I: "numbered (delivered s) (nextHeight from)"
      "lastTraversedHeader ?f = (if delivered s = [] then from else Some (last (delivered s)))"
      using assms(1) True by (auto simp: sync_inv_def Let_def)
    have nh: "nextHeight (lastTraversedHeader ?f) = nextHeight from + int (length (delivered s))"
      by (rule numbered_next[OF I refl])
    note G = NextHeaders_good[OF assms(2) n[unfolded hs(1)] hs(2)]
    have "sync_inv H from (s\<lparr>headerTraversal := f, headers := hs\<rparr>)"
      using assms(1,4) I nh G hs(2) by (simp add: sync_inv_def Let_def numbered_append)
    moreover have "process_pending H cl (s\<lparr>headerTraversal := f, headers := hs\<rparr>) = (Ok (), s')"
      using assms(3) n hs True by (simp add: tick_def)
    ultimately show ?thesis by (rule process_pending_inv)
  qed
qed

lemma sync_step_inv:
  assumes "sync_step H (good_client H) s s'" "sync_inv H from s" "0 \<le> nextHeight from"
  shows "sync_inv H from s'"
  using assms(1)
proof cases
  case step_start
  then have "s' = s\<lparr>worker := Some ()\<rparr>" by (auto simp: Start_def split: if_splits)
  then show ?thesis using assms(2) by (simp add: sync_inv_def)
next
  case (step_tick w cl)
  then show ?thesis using tick_inv assms by blast
next
  case step_close
  then have "s' = s \<or> s' = s\<lparr>batchesClosed := True\<rparr>" by (auto simp: Close_def split: if_splits option.splits)
  then show ?thesis using assms(2) by (auto simp: sync_inv_def Let_def)
qed

lemma sync_reach_inv:
  assumes "sync_reach H (good_client H) s0 s" "sync_inv H from s0" "0 \<le> nextHeight from"
  shows "sync_inv H from s"
  using assms by (induction rule: sync_reach.induct) (auto intro: sync_step_inv)

lemma sync_inv_init: "sync_inv H from (NewSynchronizer n from d cs)"
  by (simp add: sync_inv_def NewSynchronizer_def NewHeaderTraversal_def delivered_def)

section \<open>Properties\<close>

text \<open>C2: whatever the node answers on each poll, errors included, the headers of the batches sent so
  far are the heights that follow the starting header, each exactly once and in order; every batch is
  linked by parent hashes, holds logs of its own headers only, and its two maps describe exactly its
  headers and the headers that have logs.\<close>

theorem synchronizer_delivers:
  assumes "sync_reach H (good_client H) (NewSynchronizer bufferSize from depth cs) s"
    and "0 \<le> nextHeight from"
  shows "numbered (delivered s) (nextHeight from)
     \<and> list_all (\<lambda>b. batch_ok H b \<and> linked H (Headers b)) (syncerBatches s)"
proof -
  have "sync_inv H from s"
    by (rule sync_reach_inv[OF assms(1) sync_inv_init assms(2)])
  then show ?thesis
    by (auto simp: sync_inv_def Let_def numbered_append list_all_iff)
qed

definition sample_syncer :: Synchronizer where
  "sample_syncer = snd (tick sample_hash (sample_client 10 [])
     (snd (Start (NewSynchronizer 5 None 8 []))))"

lemma sample_tick: "fst (tick sample_hash (sample_client 10 []) (snd (Start (NewSynchronizer 5 None 8 [])))) = Ok ()
   \<and> delivered sample_syncer = [sample_header 0, sample_header 1, sample_header 2]"
  by code_simp

theorem synchronizer_delivers_witness:
  "numbered [sample_header 0, sample_header 1, sample_header 2] 0 \<and> length (syncerBatches sample_syncer) = 1"
proof -
  let ?s0 = "NewSynchronizer 5 None 8 []" and ?P = "good_client sample_hash"
  let ?s1 = "snd (Start ?s0)"
  have good: "?P (sample_client 10 [])" using sample_rpc_numbered by (auto simp: good_client_def)
  have start: "Start ?s0 = (Ok (), ?s1)" and w: "worker ?s1 = Some ()" "\<not> batchesClosed ?s1"
    by (simp_all add: Start_def NewSynchronizer_def)
  have "sync_reach sample_hash ?P ?s0 ?s1" by (rule reach_step[OF reach_init step_start[OF start]])
  moreover have "tick sample_hash (sample_client 10 []) ?s1 = (Ok (), sample_syncer)"
    using sample_tick by (simp add: sample_syncer_def prod_eq_iff)
  then have "sync_step sample_hash ?P ?s1 sample_syncer"
    by (intro step_tick[where cl = "sample_client 10 []"]) (use w good in auto)
  ultimately have r: "sync_reach sample_hash ?P ?s0 sample_syncer" by (rule reach_step)
  have "length (syncerBatches sample_syncer) = 1" by code_simp
  then show ?thesis using synchronizer_delivers[OF r] sample_tick by (simp add: nextHeight_def)
qed

text \<open>Headers that could not be processed stay pending and are tried again: while a batch fails, a
  tick neither drops it, nor asks for further headers, nor sends anything; once the logs can be
  fetched and match, the same headers are sent in one batch.\<close>

lemma tick_retries_pending:
  assumes "headers s \<noteq> []"
  shows "tick H cl s =
     (case processBatch H cl (headers s) s of
        (Err e, t) \<Rightarrow> (Ok (), s)
      | (Ok u, t) \<Rightarrow> (Ok (), t\<lparr>headers := []\<rparr>)
      | (Panic p, t) \<Rightarrow> (Panic p, s))
     \<and> (\<forall>t. processBatch H cl (headers s) s = (Ok (), t) \<longrightarrow>
          (\<exists>b. t = s\<lparr>syncerBatches := syncerBatches s @ [b]\<rparr> \<and> Headers b = headers s \<and> batch_ok H b))"
proof -
  obtain r t where p: "processBatch H cl (headers s) s = (r, t)"
    by (cases "processBatch H cl (headers s) s") auto
  have "r \<noteq> Ok () \<Longrightarrow> t = s" using processBatch_cases[OF p] by auto
  then have "tick H cl s = (case (r, t) of
        (Err e, t) \<Rightarrow> (Ok (), s) | (Ok u, t) \<Rightarrow> (Ok (), t\<lparr>headers := []\<rparr>) | (Panic p, t) \<Rightarrow> (Panic p, s))"
    using assms p by (cases r) (simp_all add: tick_def process_pending_def)
  then show ?thesis using processBatch_cases[of H cl "headers s" s] assms p by auto
qed

text \<open>A batch is refused when the node's answer is not consistent with the headers in hand: the
  block it filtered up to must have the height and the hash of the last header, and each log must
  name the hash of a header of the batch.  In every other case in which the query succeeds the
  batch is sent.\<close>

lemma processBatch_consistency:
  assumes "hs \<noteq> []" and "ec_FilterLogs cl \<lparr>fq_BlockHash = None, fq_FromBlock = Some (Number (hd hs)),
      fq_ToBlock = Some (Number (last hs)), fq_Addresses = contracts s, fq_Topics = []\<rparr> = Ok logs"
  shows "(fst (processBatch H cl hs s) = Ok ()) =
     (Number (ToBlockHeader logs) = Number (last hs) \<and> H (ToBlockHeader logs) = H (last hs)
      \<and> BlockHash ` set (Logs_Logs logs) \<subseteq> H ` set hs)"
proof -
  have hd: "hs ! 0 = hd hs" "hs ! (length hs - Suc 0) = last hs"
    using assms(1) by (simp_all add: hd_conv_nth last_conv_nth)
  have loop: "(\<exists>w. log_loop (header_map H hs Map.empty) (Logs_Logs logs) Map.empty = Ok w)
      = (BlockHash ` set (Logs_Logs logs) \<subseteq> H ` set hs)"
  proof
    assume "\<exists>w. log_loop (header_map H hs Map.empty) (Logs_Logs logs) Map.empty = Ok w"
    then show "BlockHash ` set (Logs_Logs logs) \<subseteq> H ` set hs"
      using log_loop_Ok by (fastforce simp: header_map_None)
  next
    assume "BlockHash ` set (Logs_Logs logs) \<subseteq> H ` set hs"
    then have "\<forall>l \<in> set (Logs_Logs logs). header_map H hs Map.empty (BlockHash l) \<noteq> None"
      by (auto simp: header_map_None)
    then show "\<exists>w. log_loop (header_map H hs Map.empty) (Logs_Logs logs) Map.empty = Ok w"
      by (rule log_loop_total)
  qed
  show ?thesis
    using assms loop log_loop_no_panic[of "header_map H hs Map.empty" "Logs_Logs logs" Map.empty]
    by (cases "log_loop (header_map H hs Map.empty) (Logs_Logs logs) Map.empty")
       (simp_all add: processBatch_def Let_def hd)
qed

end
