(* ===== verification/ChainSync.thy ===== *)
theory ChainSync
  imports EventTables Synchronizer TextFormat
begin

text \<open>
  synchronizer/l1_sync.go and l2_sync.go: the consumers of the batches, with the parts of
  config/config.go and common/tasks they rest on.  A batch is stored in one transaction, retried
  up to ten times; attempt i runs against the statement parameters \<open>Gs i\<close>.  The uuids of new rows are
  parameters.
\<close>

section \<open>Tasks\<close>

text \<open>tasks.Group.Go: what becomes of a task's outcome.  An error goes to the errgroup, where Wait
  finds it; a panic is recovered and handed to HandleCrit, and the task itself then has no error.\<close>

record task_outcome =
  to_crit :: "string option"
  to_err :: "error option"

definition Group_Go :: "unit result \<Rightarrow> task_outcome" where
  "Group_Go r = (case r of
       Ok u \<Rightarrow> \<lparr>to_crit = None, to_err = None\<rparr>
     | Err e \<Rightarrow> \<lparr>to_crit = None, to_err = Some e\<rparr>
     | Panic p \<Rightarrow> \<lparr>to_crit = Some p, to_err = None\<rparr>)"

section \<open>Configuration\<close>

record L1Contracts =
  AddressManager :: address
  SystemConfigProxy :: address
  OptimismPortalProxy :: address
  L2OutputOracleProxy :: address
  L1CrossDomainMessengerProxy :: address
  L1StandardBridgeProxy :: address
  L1ERC721BridgeProxy :: address
  DataLayrServiceManagerAddr :: address
  LegacyCanonicalTransactionChain :: address
  LegacyStateCommitmentChain :: address

record L2Contracts =
  L2ToL1MessagePasser :: address
  L2CrossDomainMessenger :: address
  L2StandardBridge :: address
  L2ERC721Bridge :: address

text \<open>ForEach visits the fields in the order of their declaration and stops at the first error of
  the callback.\<close>

definition l1_contract_fields :: "L1Contracts \<Rightarrow> (string \<times> address) list" where
  "l1_contract_fields c =
     [(''AddressManager'', AddressManager c), (''SystemConfigProxy'', SystemConfigProxy c),
      (''OptimismPortalProxy'', OptimismPortalProxy c), (''L2OutputOracleProxy'', L2OutputOracleProxy c),
      (''L1CrossDomainMessengerProxy'', L1CrossDomainMessengerProxy c),
      (''L1StandardBridgeProxy'', L1StandardBridgeProxy c), (''L1ERC721BridgeProxy'', L1ERC721BridgeProxy c),
      (''DataLayrServiceManagerAddr'', DataLayrServiceManagerAddr c),
      (''LegacyCanonicalTransactionChain'', LegacyCanonicalTransactionChain c),
      (''LegacyStateCommitmentChain'', LegacyStateCommitmentChain c)]"

definition l2_contract_fields :: "L2Contracts \<Rightarrow> (string \<times> address) list" where
  "l2_contract_fields c =
     [(''L2ToL1MessagePasser'', L2ToL1MessagePasser c), (''L2CrossDomainMessenger'', L2CrossDomainMessenger c),
      (''L2StandardBridge'', L2StandardBridge c), (''L2ERC721Bridge'', L2ERC721Bridge c)]"

fun ForEach :: "(string \<times> address) list \<Rightarrow> (string \<Rightarrow> address \<Rightarrow> 's \<Rightarrow> 's result) \<Rightarrow> 's \<Rightarrow> 's result" where
  "ForEach [] cb acc = Ok acc"
| "ForEach ((name, addr) # fs) cb acc = bindR (cb name addr acc) (ForEach fs cb)"

definition L1Contracts_ForEach :: "L1Contracts \<Rightarrow> (string \<Rightarrow> address \<Rightarrow> 's \<Rightarrow> 's result) \<Rightarrow> 's \<Rightarrow> 's result" where
  "L1Contracts_ForEach c = ForEach (l1_contract_fields c)"

definition L2Contracts_ForEach :: "L2Contracts \<Rightarrow> (string \<Rightarrow> address \<Rightarrow> 's \<Rightarrow> 's result) \<Rightarrow> 's \<Rightarrow> 's result" where
  "L2Contracts_ForEach c = ForEach (l2_contract_fields c)"

record ChainConfig =
  ChainID :: u64
  L1StartingHeight :: u64
  L2StartingHeight :: u64
  L1BedrockStartingHeight :: u64
  L2BedrockStartingHeight :: u64
  cc_L1Contracts :: L1Contracts
  cc_L2Contracts :: L2Contracts
  L1ConfirmationDepth :: u64
  L2ConfirmationDepth :: u64
  L1PollingInterval :: u64
  L2PollingInterval :: u64
  L1HeaderBufferSize :: u64
  L2HeaderBufferSize :: u64

definition defaultLoopInterval :: u64 where "defaultLoopInterval = 5000"
definition defaultHeaderBufferSize :: u64 where "defaultHeaderBufferSize = 500"

text \<open>LoadConfig, on the chain configuration read from the flags.\<close>

definition LoadConfig :: "L2Contracts \<Rightarrow> ChainConfig \<Rightarrow> ChainConfig" where
  "LoadConfig predeploys cfg0 =
     (let cfg = cfg0\<lparr>cc_L2Contracts := predeploys\<rparr>;
          cfg = (if L1PollingInterval cfg = 0 then cfg\<lparr>L1PollingInterval := defaultLoopInterval\<rparr> else cfg);
          cfg = (if L2PollingInterval cfg = 0 then cfg\<lparr>L2PollingInterval := defaultLoopInterval\<rparr> else cfg);
          cfg = (if L1HeaderBufferSize cfg = 0 then cfg\<lparr>L1HeaderBufferSize := defaultHeaderBufferSize\<rparr> else cfg);
          cfg = (if L2HeaderBufferSize cfg = 0 then cfg\<lparr>L2HeaderBufferSize := defaultHeaderBufferSize\<rparr> else cfg) in
      cfg)"

record Config =
  LoopIntervalMsec :: u64
  HeaderBufferSize :: u64
  StartHeight :: int
  ConfirmationDepth :: int

section \<open>Construction\<close>

definition l1_contract_cb :: "string \<Rightarrow> address \<Rightarrow> address list \<Rightarrow> address list result" where
  "l1_contract_cb name addr acc =
     (if addr = 0 \<and> \<not> HasPrefix name ''Legacy'' then Err (Msg ''all L1Contracts must be configured'')
      else Ok (acc @ [addr]))"

definition l2_contract_cb :: "string \<Rightarrow> address \<Rightarrow> address list \<Rightarrow> address list result" where
  "l2_contract_cb name addr acc =
     (if addr = 0 then Err (Msg ''all L2Contracts must be configured'') else Ok (acc @ [addr]))"

record ChainSyncer =
  cs_Synchronizer :: Synchronizer
  cs_LatestHeader :: "header option"
  cs_cancelled :: bool
  cs_task :: "task_outcome option"

text \<open>Where the traversal starts: at the latest stored header, else at the configured height (the
  header of that height is fetched and counts as already traversed), else at genesis.\<close>

definition start_header :: "EthClient \<Rightarrow> Config \<Rightarrow> BlockHeader option \<Rightarrow> header option result" where
  "start_header client cfg latest =
     (case latest of
        Some row \<Rightarrow> Ok (Some (bh_RLPHeader row))
      | None \<Rightarrow>
          if StartHeight cfg \<noteq> 0
          then mapErr (Wrap ''could not fetch starting block header'')
                 (ec_BlockHeaderByNumber client (Some (StartHeight cfg)))
          else Ok None)"

definition new_syncer :: "Config \<Rightarrow> header option \<Rightarrow> address list \<Rightarrow> ChainSyncer" where
  "new_syncer cfg fromHeader cs =
     \<lparr>cs_Synchronizer = NewSynchronizer (HeaderBufferSize cfg) fromHeader (ConfirmationDepth cfg) cs,
      cs_LatestHeader = fromHeader, cs_cancelled = False, cs_task = None\<rparr>"

definition NewL1Sync :: "gorms \<Rightarrow> Config \<Rightarrow> EthClient \<Rightarrow> L1Contracts \<Rightarrow> string \<Rightarrow> db
    \<Rightarrow> ChainSyncer result" where
  "NewL1Sync G cfg client cts transferBigValueInEthereum s =
     bindR (L1Contracts_ForEach cts l1_contract_cb []) (\<lambda>l1Contracts.
     bindR (L1LatestBlockHeader G s) (\<lambda>latestHeader.
     bindR (start_header client cfg latestHeader) (\<lambda>fromHeader.
     Ok (new_syncer cfg fromHeader
           (l1Contracts @ map HexToAddress (Split transferBigValueInEthereum CHR '' ''))))))"

definition NewL2Sync :: "gorms \<Rightarrow> Config \<Rightarrow> EthClient \<Rightarrow> L2Contracts \<Rightarrow> string \<Rightarrow> db
    \<Rightarrow> ChainSyncer result" where
  "NewL2Sync G cfg client cts transferBigValueInMantle s =
     bindR (L2Contracts_ForEach cts l2_contract_cb []) (\<lambda>l2Contracts.
     bindR (L2LatestBlockHeader G s) (\<lambda>latestHeader.
     bindR (start_header client cfg latestHeader) (\<lambda>fromHeader.
     Ok (new_syncer cfg fromHeader
           (l2Contracts @ map HexToAddress (Split transferBigValueInMantle CHR '' ''))))))"

text \<open>errors.Join(result, err), where result is nil until the first error.\<close>

definition join_err :: "error option \<Rightarrow> error \<Rightarrow> error option" where
  "join_err res e = (case res of None \<Rightarrow> Some (Join [e]) | Some r \<Rightarrow> Some (Join [r, e]))"

definition as_result :: "error option \<Rightarrow> unit result" where
  "as_result r = (case r of None \<Rightarrow> Ok () | Some e \<Rightarrow> Err e)"

text \<open>Close of L1Sync and L2Sync: the loop is closed, the context cancelled, the batch handler
  awaited; both errors are reported.\<close>

definition ChainSync_Close :: "string \<Rightarrow> (ChainSyncer, unit) go" where
  "ChainSync_Close internal c =
     (case Close (cs_Synchronizer c) of
        (Panic p, y) \<Rightarrow> (Panic p, c\<lparr>cs_Synchronizer := y\<rparr>)
      | (r, y) \<Rightarrow>
          (let result = (case r of Err e \<Rightarrow> join_err None (Wrap internal e) | _ \<Rightarrow> None);
               c' = c\<lparr>cs_Synchronizer := y, cs_cancelled := True\<rparr>;
               waited = (case cs_task c of None \<Rightarrow> None | Some t \<Rightarrow> to_err t);
               result = (case waited of None \<Rightarrow> result
                         | Some e \<Rightarrow> join_err result (Wrap ''failed to await batch handler completion'' e)) in
           (as_result result, c')))"

definition L1Sync_Close :: "(ChainSyncer, unit) go" where
  "L1Sync_Close = ChainSync_Close ''failed to close internal Synchronizer''"

definition L2Sync_Close :: "(ChainSyncer, unit) go" where
  "L2Sync_Close = ChainSync_Close ''failed to close internal l2 Synchronizer''"

section \<open>Handling a batch\<close>

definition retryStrategy :: ExponentialStrategy where
  "retryStrategy = \<lparr>es_Min = 1000, es_Max = 20000, es_MaxJitter = 250\<rparr>"

text \<open>The events of a batch; the timestamp is that of the header the log's block hash maps to, and a
  hash that is not in the map is a nil dereference.\<close>

fun batch_events :: "(nat \<Rightarrow> uuid) \<Rightarrow> (hash \<rightharpoonup> header) \<Rightarrow> nat \<Rightarrow> log list \<Rightarrow> ContractEvent list result" where
  "batch_events uuid hm i [] = Ok []"
| "batch_events uuid hm i (l # ls) =
     bindR (nonil (hm (BlockHash l))) (\<lambda>h.
     bindR (batch_events uuid hm (Suc i) ls) (\<lambda>es.
     Ok (ContractEventFromLog (uuid i) l (Time h) # es)))"

definition l1_batch_headers :: "(header \<Rightarrow> hash) \<Rightarrow> SynchronizerBatch \<Rightarrow> BlockHeader list" where
  "l1_batch_headers H batch =
     map (BlockHeaderFromHeader H) (filter (\<lambda>h. HeadersWithLog batch (H h) \<noteq> None) (Headers batch))"

text \<open>The environment of the handler: the polls of the context, the jitter draws, the statement
  parameters of each attempt, the uuids.\<close>

record sync_env =
  se_ctx :: "nat \<Rightarrow> error option"
  se_draws :: "int \<Rightarrow> nat"
  se_Gs :: "nat \<Rightarrow> gorms"
  se_uuid :: "nat \<Rightarrow> uuid"
  se_txuuid :: "nat \<Rightarrow> nat \<Rightarrow> uuid"

definition retried :: "sync_env \<Rightarrow> (nat \<Rightarrow> (db, unit) go) \<Rightarrow> (db, unit) go" where
  "retried env oper s =
     (let r = retry_Do (se_ctx env) 10
                (\<lambda>a. ExponentialStrategy_Duration retryStrategy (se_draws env a) a) oper s in
      (fst r, snd (snd r)))"

definition l1_handleBatch :: "(header \<Rightarrow> hash) \<Rightarrow> sync_env \<Rightarrow> SynchronizerBatch \<Rightarrow> (db, unit) go" where
  "l1_handleBatch H env batch s =
     (let l1BlockHeaders = l1_batch_headers H batch in
      if length l1BlockHeaders = 0 then (Ok (), s)
      else (case batch_events (se_uuid env) (HeaderMap batch) 0 (bLogs batch) of
          Err e \<Rightarrow> (Err e, s)
        | Panic p \<Rightarrow> (Panic p, s)
        | Ok l1ContractEvents \<Rightarrow>
            retried env
              (\<lambda>i. mapErrG (Wrap ''unable to persist batch'')
                     (G_tx (se_Gs env i)
                       (thenG (StoreL1BlockHeaders (se_Gs env i) l1BlockHeaders)
                              (StoreL1ContractEvents (se_Gs env i) l1ContractEvents)))) s))"

fun block_txs :: "sync_env \<Rightarrow> EthClient \<Rightarrow> nat \<Rightarrow> nat \<Rightarrow> transaction list \<Rightarrow> Transactions list result" where
  "block_txs env cl i j [] = Ok []"
| "block_txs env cl i j (t # ts) =
     bindR (ec_TxDetailByHash cl (tx_Hash t)) (\<lambda>tx.
     bindR (ec_TxReceiptDetailByHash cl (tx_Hash t)) (\<lambda>txReceipt.
     bindR (BuildTransactions (se_txuuid env i j) tx txReceipt) (\<lambda>transaction.
     bindR (block_txs env cl i (Suc j) ts) (\<lambda>rest. Ok (transaction # rest)))))"

fun batch_txs :: "sync_env \<Rightarrow> EthClient \<Rightarrow> nat \<Rightarrow> BlockHeader list \<Rightarrow> Transactions list result" where
  "batch_txs env cl i [] = Ok []"
| "batch_txs env cl i (h # hs) =
     bindR (ec_TxsByHash cl (bh_Hash h)) (\<lambda>transactionList.
     bindR (block_txs env cl i 0 transactionList) (\<lambda>txs.
     bindR (batch_txs env cl (Suc i) hs) (\<lambda>rest. Ok (txs @ rest))))"

definition l2_handleBatch :: "(header \<Rightarrow> hash) \<Rightarrow> sync_env \<Rightarrow> EthClient \<Rightarrow> SynchronizerBatch \<Rightarrow> (db, unit) go" where
  "l2_handleBatch H env cl batch s =
     (let l2BlockHeaders = map (BlockHeaderFromHeader H) (Headers batch) in
      case batch_txs env cl 0 l2BlockHeaders of
        Err e \<Rightarrow> (Err e, s)
      | Panic p \<Rightarrow> (Panic p, s)
      | Ok txList \<Rightarrow>
          (case batch_events (se_uuid env) (HeaderMap batch) 0 (bLogs batch) of
             Err e \<Rightarrow> (Err e, s)
           | Panic p \<Rightarrow> (Panic p, s)
           | Ok l2ContractEvents \<Rightarrow>
               retried env
                 (\<lambda>i. bindG
                   (G_tx (se_Gs env i)
                     (thenG (StoreL2BlockHeaders (se_Gs env i) l2BlockHeaders)
                     (thenG (if length l2ContractEvents > 0
                             then StoreL2ContractEvents (se_Gs env i) l2ContractEvents else retG ())
                            (if length txList > 0
                             then StoreTransactions (se_Gs env i) txList else retG ()))))
                   (\<lambda>_. liftR (bindR (indexR l2BlockHeaders (length l2BlockHeaders - 1)) (\<lambda>_. Ok ()))))
                 s))"

text \<open>The consumer tasks: the batches in the order they were sent, until one fails.\<close>

definition l1_consumer :: "(header \<Rightarrow> hash) \<Rightarrow> (SynchronizerBatch \<Rightarrow> sync_env) \<Rightarrow> SynchronizerBatch list \<Rightarrow> (db, unit) go" where
  "l1_consumer H env =
     forG (\<lambda>batch. mapErrG (Wrap ''failed to handle batch, stopping L2 Synchronizer'')
                     (l1_handleBatch H (env batch) batch))"

definition l2_consumer :: "(header \<Rightarrow> hash) \<Rightarrow> (SynchronizerBatch \<Rightarrow> sync_env) \<Rightarrow> (SynchronizerBatch \<Rightarrow> EthClient)
    \<Rightarrow> SynchronizerBatch list \<Rightarrow> (db, unit) go" where
  "l2_consumer H env cl =
     forG (\<lambda>batch. mapErrG (Wrap ''failed to handle batch, stopping L2 Synchronizer'')
                     (l2_handleBatch H (env batch) (cl batch) batch))"

text \<open>Start: the producer's loop, then the consumer task over the batches it will send.\<close>

definition ChainSync_Start :: "string \<Rightarrow> (SynchronizerBatch list \<Rightarrow> (db, unit) go) \<Rightarrow> SynchronizerBatch list
    \<Rightarrow> (ChainSyncer \<times> db, unit) go" where
  "ChainSync_Start internal consumer batches = (\<lambda>(c, s).
     (case Start (cs_Synchronizer c) of
        (Ok u, y) \<Rightarrow>
          (let out = consumer batches s in
           (Ok (), (c\<lparr>cs_Synchronizer := y, cs_task := Some (Group_Go (fst out))\<rparr>, snd out)))
      | (Err e, y) \<Rightarrow> (Err (Wrap internal e), (c\<lparr>cs_Synchronizer := y\<rparr>, s))
      | (Panic p, y) \<Rightarrow> (Panic p, (c\<lparr>cs_Synchronizer := y\<rparr>, s))))"

definition L1Sync_Start :: "(header \<Rightarrow> hash) \<Rightarrow> (SynchronizerBatch \<Rightarrow> sync_env) \<Rightarrow> SynchronizerBatch list
    \<Rightarrow> (ChainSyncer \<times> db, unit) go" where
  "L1Sync_Start H env = ChainSync_Start ''failed to start internal Synchronizer'' (l1_consumer H env)"

definition L2Sync_Start :: "(header \<Rightarrow> hash) \<Rightarrow> (SynchronizerBatch \<Rightarrow> sync_env) \<Rightarrow> (SynchronizerBatch \<Rightarrow> EthClient)
    \<Rightarrow> SynchronizerBatch list \<Rightarrow> (ChainSyncer \<times> db, unit) go" where
  "L2Sync_Start H env cl = ChainSync_Start ''failed to start internal l2 Synchronizer'' (l2_consumer H env cl)"

section \<open>What a stored batch looks like\<close>

lemma batch_events_Ok:
  assumes "batch_events uuid hm i ls = Ok es"
  shows "map ce_RLPLog es = ls" and "map ce_BlockHash es = map BlockHash ls"
    and "\<forall>e \<in> set es. \<exists>h. hm (ce_BlockHash e) = Some h \<and> ce_Timestamp e = Time h"
proof -
  have "map ce_RLPLog es = ls \<and> map ce_BlockHash es = map BlockHash ls \<and>
    (\<forall>e \<in> set es. \<exists>h. hm (ce_BlockHash e) = Some h \<and> ce_Timestamp e = Time h)"
    using assms by (induction ls arbitrary: i es) (auto simp: ContractEventFromLog_def Let_def)
  then show "map ce_RLPLog es = ls" "map ce_BlockHash es = map BlockHash ls"
    "\<forall>e \<in> set es. \<exists>h. hm (ce_BlockHash e) = Some h \<and> ce_Timestamp e = Time h" by auto
qed

lemma batch_events_total:
  assumes "\<forall>l \<in> set ls. hm (BlockHash l) \<noteq> None"
  shows "\<exists>es. batch_events uuid hm i ls = Ok es"
  using assms by (induction ls arbitrary: i) auto

lemma retried_atomic:
  assumes "\<And>i s e s'. oper i s = (Err e, s') \<Longrightarrow> s' = s" and "retried env oper s = (r, t)"
  shows "case r of Ok a \<Rightarrow> (\<exists>k. oper k s = (Ok a, t)) | Err e \<Rightarrow> t = s
         | Panic p \<Rightarrow> (\<exists>k. oper k s = (Panic p, t))"
proof -
  let ?d = "\<lambda>a. ExponentialStrategy_Duration retryStrategy (se_draws env a) a"
  obtain d where "retry_Do (se_ctx env) 10 ?d oper s = (r, d, t)"
    using assms(2) by (cases "retry_Do (se_ctx env) 10 ?d oper s") (auto simp: retried_def)
  from retry_Do_atomic[OF assms(1) this]
  have "case r of Ok a \<Rightarrow> (\<exists>k. int k < 10 \<and> oper k s = (Ok a, t)) | Err e \<Rightarrow> t = s
         | Panic p \<Rightarrow> (\<exists>k. int k < 10 \<and> oper k s = (Panic p, t))" by simp
  then show ?thesis by (cases r) auto
qed

lemma store_two:
  assumes "gorms_ok G" "thenG (StoreL1BlockHeaders G hs) (StoreL1ContractEvents G es) s = (Ok (), s')"
  shows "s' = s\<lparr>l1_block_headers := l1_block_headers s @ hs, l1_contract_events := l1_contract_events s @ es\<rparr>"
proof -
  obtain t where t: "StoreL1BlockHeaders G hs s = (Ok (), t)" "StoreL1ContractEvents G es t = (Ok (), s')"
    using assms(2) by (auto simp: thenG_eq_Ok)
  have "t = s\<lparr>l1_block_headers := l1_block_headers s @ hs\<rparr>"
    using zoom_create_Ok[OF gorms_okD(1)[OF assms(1)] t(1)[unfolded StoreL1BlockHeaders_def]] by simp
  then show ?thesis
    using zoom_create_Ok[OF gorms_okD(3)[OF assms(1)] t(2)[unfolded StoreL1ContractEvents_def]] by simp
qed

text \<open>The handler of an L1 batch stores it completely or not at all.\<close>

lemma l1_handleBatch_cases:
  assumes "\<And>i. gorms_ok (se_Gs env i)" "batch_ok H batch" "l1_handleBatch H env batch s = (r, s')"
  shows "(r = Ok () \<and> l1_batch_headers H batch = [] \<and> s' = s) \<or>
         (\<exists>es. r = Ok () \<and> batch_events (se_uuid env) (HeaderMap batch) 0 (bLogs batch) = Ok es \<and>
            s' = s\<lparr>l1_block_headers := l1_block_headers s @ l1_batch_headers H batch,
                   l1_contract_events := l1_contract_events s @ es\<rparr>) \<or>
         (\<exists>e. r = Err e \<and> s' = s)"
proof (cases "l1_batch_headers H batch = []")
  case True
  then show ?thesis using assms(3) by (simp add: l1_handleBatch_def)
next
  case False
  have "\<forall>l \<in> set (bLogs batch). HeaderMap batch (BlockHash l) \<noteq> None"
    using assms(2) by (auto simp: batch_ok_def)
  then obtain es where es: "batch_events (se_uuid env) (HeaderMap batch) 0 (bLogs batch) = Ok es"
    using batch_events_total by blast
  let ?f = "\<lambda>i. thenG (StoreL1BlockHeaders (se_Gs env i) (l1_batch_headers H batch))
                     (StoreL1ContractEvents (se_Gs env i) es)"
  let ?op = "\<lambda>i. mapErrG (Wrap ''unable to persist batch'') (G_tx (se_Gs env i) (?f i))"
  have tx: "transaction_ok (G_tx (se_Gs env i))" for i using gorms_okD(15)[OF assms(1)] .
  have "?op i s = (Err e, t) \<Longrightarrow> t = s" for i s e t
    using transaction_not_Ok[OF tx[of i], of "?f i" s "fst (G_tx (se_Gs env i) (?f i) s)"]
    by (cases "G_tx (se_Gs env i) (?f i) s"; cases "fst (G_tx (se_Gs env i) (?f i) s)") (auto simp: mapErrG_def)
  moreover have run: "retried env ?op s = (r, s')"
    using assms(3) False es by (simp add: l1_handleBatch_def)
  ultimately have R: "case r of Ok a \<Rightarrow> (\<exists>k. ?op k s = (Ok a, s')) | Err e \<Rightarrow> s' = s
         | Panic p \<Rightarrow> (\<exists>k. ?op k s = (Panic p, s'))"
    by (rule retried_atomic)
  show ?thesis
  proof (cases r)
    case (Ok a)
    then obtain k where "?op k s = (Ok a, s')" using R by auto
    then have "G_tx (se_Gs env k) (?f k) s = (Ok (), s')" by (simp add: mapErrG_eq_Ok)
    from store_two[OF assms(1) transaction_Ok[OF tx this]] show ?thesis
      using Ok es by auto
  next
    case (Err e)
    then show ?thesis using R by simp
  next
    case (Panic p)
    then obtain k where "?op k s = (Panic p, s')" using R by auto
    then have "fst (G_tx (se_Gs env k) (?f k) s) = Panic p"
      by (cases "G_tx (se_Gs env k) (?f k) s") (simp add: mapErrG_def)
    then have "fst (?f k s) = Panic p" using transaction_cases[OF tx[of k], of "?f k" s] by auto
    moreover have "fst (?f k s) \<noteq> Panic p"
      unfolding StoreL1BlockHeaders_def StoreL1ContractEvents_def
      by (intro thenG_no_panic zoom_create_no_panic[OF gorms_okD(1)[OF assms(1)]]
          zoom_create_no_panic[OF gorms_okD(3)[OF assms(1)]])
    ultimately have False by simp
    then show ?thesis ..
  qed
qed

text \<open>Every stored event belongs to a stored header.\<close>

definition events_have_headers :: "db \<Rightarrow> bool" where
  "events_have_headers s =
     (\<forall>e \<in> set (l1_contract_events s). ce_BlockHash e \<in> bh_Hash ` set (l1_block_headers s))"

lemma l1_headers_cover:
  assumes "batch_ok H batch" "l \<in> set (bLogs batch)"
  shows "BlockHash l \<in> bh_Hash ` set (l1_batch_headers H batch)"
proof -
  from assms obtain h where h: "h \<in> set (Headers batch)" "BlockHash l = H h" by (auto simp: batch_ok_def)
  have "BlockHash l \<in> BlockHash ` set (bLogs batch)" using assms(2) by (rule imageI)
  then have "HeadersWithLog batch (BlockHash l) \<noteq> None"
    using assms(1) unfolding batch_ok_def by simp
  then have "HeadersWithLog batch (H h) \<noteq> None" using h by simp
  with h have "BlockHeaderFromHeader H h \<in> set (l1_batch_headers H batch)"
    by (simp add: l1_batch_headers_def)
  then have "bh_Hash (BlockHeaderFromHeader H h) \<in> bh_Hash ` set (l1_batch_headers H batch)" by (rule imageI)
  then show ?thesis using h by (simp add: BlockHeaderFromHeader_def)
qed

lemma l1_no_headers_no_logs: "batch_ok H batch \<Longrightarrow> l1_batch_headers H batch = [] \<Longrightarrow> bLogs batch = []"
  using l1_headers_cover[of H batch "hd (bLogs batch)"] by (cases "bLogs batch") auto

text \<open>One batch: all of it or, with an error, nothing.\<close>

lemma l1_handleBatch_all_or_nothing:
  assumes "\<And>i. gorms_ok (se_Gs env i)" "batch_ok H batch" "l1_handleBatch H env batch s = (r, s')"
  shows "(r = Ok () \<and> (\<exists>es. map ce_RLPLog es = bLogs batch \<and>
            s' = s\<lparr>l1_block_headers := l1_block_headers s @ l1_batch_headers H batch,
                   l1_contract_events := l1_contract_events s @ es\<rparr>))
       \<or> (\<exists>e. r = Err e \<and> s' = s)"
  using l1_handleBatch_cases[OF assms] l1_no_headers_no_logs[OF assms(2)] batch_events_Ok(1) by fastforce

text \<open>When every transaction and receipt can be read, a block either gives its rows or panics, and it
  panics when one of its transactions creates a contract.\<close>

abbreviation nil_deref :: string where
  "nil_deref \<equiv> ''invalid memory address or nil pointer dereference''"

definition txs_readable :: "EthClient \<Rightarrow> transaction list \<Rightarrow> bool" where
  "txs_readable cl ts = (\<forall>t \<in> set ts. \<exists>d r. ec_TxDetailByHash cl (tx_Hash t) = Ok d
                                        \<and> ec_TxReceiptDetailByHash cl (tx_Hash t) = Ok r)"

lemma txs_readable_Cons [simp]:
  "txs_readable cl (t # ts) = ((\<exists>d r. ec_TxDetailByHash cl (tx_Hash t) = Ok d
      \<and> ec_TxReceiptDetailByHash cl (tx_Hash t) = Ok r) \<and> txs_readable cl ts)"
  by (simp add: txs_readable_def)

lemma BuildTransactions_cases:
  "BuildTransactions u d r = Panic nil_deref \<and> tx_To d = None
   \<or> (\<exists>row. BuildTransactions u d r = Ok row) \<and> tx_To d \<noteq> None"
  by (cases "tx_To d") (auto simp: BuildTransactions_def)

lemma block_txs_readable:
  "txs_readable cl ts \<Longrightarrow> block_txs env cl i j ts = Panic nil_deref \<or> (\<exists>rows. block_txs env cl i j ts = Ok rows)"
proof (induction ts arbitrary: j)
  case (Cons x ts)
  then obtain d r where "ec_TxDetailByHash cl (tx_Hash x) = Ok d" "ec_TxReceiptDetailByHash cl (tx_Hash x) = Ok r"
    by auto
  then show ?case
    using Cons.IH[of "Suc j"] Cons.prems BuildTransactions_cases[of "se_txuuid env i j" d r] by auto
qed simp

lemma block_txs_creation:
  assumes "ec_TxDetailByHash cl (tx_Hash t) = Ok d" "tx_To d = None"
  shows "txs_readable cl ts \<Longrightarrow> t \<in> set ts \<Longrightarrow> block_txs env cl i j ts = Panic nil_deref"
proof (induction ts arbitrary: j)
  case (Cons x ts)
  then obtain d' r where x: "ec_TxDetailByHash cl (tx_Hash x) = Ok d'" "ec_TxReceiptDetailByHash cl (tx_Hash x) = Ok r"
    by auto
  show ?case
  proof (cases "x = t")
    case True
    then show ?thesis using x assms BuildTransactions_cases[of "se_txuuid env i j" d' r] by auto
  next
    case False
    then have "block_txs env cl i (Suc j) ts = Panic nil_deref" using Cons by auto
    then show ?thesis using x BuildTransactions_cases[of "se_txuuid env i j" d' r] by auto
  qed
qed simp

definition blocks_readable :: "EthClient \<Rightarrow> BlockHeader list \<Rightarrow> bool" where
  "blocks_readable cl hs = (\<forall>h \<in> set hs. \<exists>ts. ec_TxsByHash cl (bh_Hash h) = Ok ts \<and> txs_readable cl ts)"

lemma batch_txs_creation:
  assumes "ec_TxsByHash cl (bh_Hash h) = Ok ts" "t \<in> set ts"
    and "ec_TxDetailByHash cl (tx_Hash t) = Ok d" "tx_To d = None"
  shows "blocks_readable cl hs \<Longrightarrow> h \<in> set hs \<Longrightarrow> batch_txs env cl i hs = Panic nil_deref"
proof (induction hs arbitrary: i)
  case (Cons x hs)
  then obtain ts' where x: "ec_TxsByHash cl (bh_Hash x) = Ok ts'" "txs_readable cl ts'"
    by (auto simp: blocks_readable_def)
  have rest: "blocks_readable cl hs" using Cons.prems by (simp add: blocks_readable_def)
  show ?case
  proof (cases "x = h")
    case True
    then show ?thesis using x assms block_txs_creation[OF assms(3,4) x(2)] by simp
  next
    case False
    then have "batch_txs env cl (Suc i) hs = Panic nil_deref" using Cons rest by auto
    then show ?thesis using x block_txs_readable[OF x(2), of env i 0] by auto
  qed
qed simp

section \<open>Properties\<close>

text \<open>The delays between the attempts to store a batch do not grow: the bounds are written as
  bare numbers and are read as nanoseconds, so every delay is 20 microseconds and a jitter of less
  than 250 nanoseconds, and the ten attempts together wait less than 183 microseconds.\<close>

lemma batch_retry_delay:
  assumes "0 \<le> attempt"
  shows "ExponentialStrategy_Duration retryStrategy draw attempt = 20000 + int draw mod 250"
proof -
  have "strategy_ok retryStrategy" by (simp add: strategy_ok_def retryStrategy_def)
  moreover have "(1::int) \<le> 2 ^ nat attempt" by simp
  then have "\<not> (1000000 * 2 ^ nat attempt \<le> (19::int))" by linarith
  ultimately show ?thesis using Duration_eq[of retryStrategy attempt draw] assms
    by (simp add: retryStrategy_def Second_def jitter_of_def Int63n_def min_def)
qed

text \<open>C4: the L1 consumer stores batches in the order they were sent, each completely (the headers
  that have logs, and all the logs) or not at all; the first batch that cannot be stored in ten
  attempts ends it, and neither that batch nor any later one leaves a trace.\<close>

theorem l1_consumer_stores_prefix:
  assumes "\<And>b i. gorms_ok (se_Gs (env b) i)" and "\<forall>b \<in> set bs. batch_ok H b"
    and "l1_consumer H env bs s = (r, s')"
  shows "\<exists>n \<le> length bs. \<exists>es. map ce_RLPLog es = concat (map bLogs (take n bs))
     \<and> s' = s\<lparr>l1_block_headers := l1_block_headers s @ concat (map (l1_batch_headers H) (take n bs)),
             l1_contract_events := l1_contract_events s @ es\<rparr>
     \<and> (if n = length bs then r = Ok () else \<exists>e. r = Err e)"
  using assms(2,3)
proof (induction bs arbitrary: s)
  case Nil
  then show ?case by (auto simp: l1_consumer_def retG_def)
next
  case (Cons b bs)
  obtain rb sb where b: "l1_handleBatch H (env b) b s = (rb, sb)" by (cases "l1_handleBatch H (env b) b s") auto
  have run: "(case rb of Ok u \<Rightarrow> l1_consumer H env bs sb
      | Err e \<Rightarrow> (Err (Wrap ''failed to handle batch, stopping L2 Synchronizer'' e), sb) | Panic p \<Rightarrow> (Panic p, sb)) = (r, s')"
    using Cons.prems(2) b by (cases rb) (auto simp: l1_consumer_def thenG_def bindG_def mapErrG_def)
  from l1_handleBatch_all_or_nothing[OF assms(1) _ b] Cons.prems(1)
  have "(rb = Ok () \<and> (\<exists>es. map ce_RLPLog es = bLogs b \<and>
            sb = s\<lparr>l1_block_headers := l1_block_headers s @ l1_batch_headers H b,
                   l1_contract_events := l1_contract_events s @ es\<rparr>)) \<or> (\<exists>e. rb = Err e \<and> sb = s)" by simp
  then show ?case
  proof (elim disjE exE conjE)
    fix e assume "rb = Err e" "sb = s"
    then show ?thesis using run by (intro exI[of _ 0]) auto
  next
    fix es assume ok: "rb = Ok ()" "map ce_RLPLog es = bLogs b"
      "sb = s\<lparr>l1_block_headers := l1_block_headers s @ l1_batch_headers H b,
                   l1_contract_events := l1_contract_events s @ es\<rparr>"
    then have "l1_consumer H env bs sb = (r, s')" using run by simp
    from Cons.IH[OF _ this] Cons.prems(1) obtain n es' where "n \<le> length bs"
      "map ce_RLPLog es' = concat (map bLogs (take n bs))"
      "s' = sb\<lparr>l1_block_headers := l1_block_headers sb @ concat (map (l1_batch_headers H) (take n bs)),
             l1_contract_events := l1_contract_events sb @ es'\<rparr>"
      "if n = length bs then r = Ok () else \<exists>e. r = Err e" by auto
    with ok show ?thesis by (intro exI[of _ "Suc n"]) (auto intro!: exI[of _ "es @ es'"])
  qed
qed

definition sample_env :: sync_env where
  "sample_env = \<lparr>se_ctx = (\<lambda>_. None), se_draws = (\<lambda>_. 0), se_Gs = (\<lambda>_. mem_gorms), se_uuid = of_nat,
     se_txuuid = (\<lambda>i j. of_nat (1000 * i + j))\<rparr>"

definition sample_log :: log where
  "sample_log = \<lparr>Address = 1, Topics = [7], Data = [], BlockNumber = 1, TxHash = 3, BlockHash = 1, Index = 0\<rparr>"

definition sample_batch :: SynchronizerBatch where
  "sample_batch = \<lparr>Headers = [sample_header 0, sample_header 1],
     HeaderMap = header_map sample_hash [sample_header 0, sample_header 1] Map.empty,
     bLogs = [sample_log], HeadersWithLog = Map.empty(1 \<mapsto> True)\<rparr>"

lemma sample_batch_ok: "batch_ok sample_hash sample_batch"
  by (auto simp: batch_ok_def sample_batch_def sample_log_def sample_hash_def sample_header_def)

lemma sample_env_ok: "gorms_ok (se_Gs sample_env i)"
  by (simp add: sample_env_def mem_gorms_ok)

theorem l1_consumer_stores_prefix_witness:
  "\<exists>n es. n \<le> length [sample_batch] \<and> map ce_RLPLog es = concat (map bLogs (take n [sample_batch]))
     \<and> snd (l1_consumer sample_hash (\<lambda>_. sample_env) [sample_batch] empty_db)
       = empty_db\<lparr>l1_block_headers := concat (map (l1_batch_headers sample_hash) (take n [sample_batch])),
             l1_contract_events := es\<rparr>"
  using l1_consumer_stores_prefix[of "\<lambda>_. sample_env" "[sample_batch]" sample_hash empty_db,
      OF sample_env_ok _ prod.collapse[symmetric]] sample_batch_ok
  by (auto simp: empty_db_def)

text \<open>C38: an L1 contract event is never stored without its block header: the batch handler keeps this
  of the database, on its error paths too.\<close>

theorem l1_events_have_headers:
  assumes "\<And>i. gorms_ok (se_Gs env i)" and "batch_ok H batch" and "events_have_headers s"
  shows "events_have_headers (snd (l1_handleBatch H env batch s))"
proof -
  have "\<forall>e \<in> set es. ce_BlockHash e \<in> bh_Hash ` set (l1_batch_headers H batch)"
    if "batch_events (se_uuid env) (HeaderMap batch) 0 (bLogs batch) = Ok es" for es
  proof
    fix e assume "e \<in> set es"
    then have "ce_BlockHash e \<in> set (map ce_BlockHash es)" by simp
    then have "ce_BlockHash e \<in> BlockHash ` set (bLogs batch)" by (simp only: batch_events_Ok(2)[OF that] set_map)
    then show "ce_BlockHash e \<in> bh_Hash ` set (l1_batch_headers H batch)"
      by (auto dest: l1_headers_cover[OF assms(2)])
  qed
  then show ?thesis
    using l1_handleBatch_cases[OF assms(1,2) prod.collapse[symmetric], of s] assms(3)
    unfolding events_have_headers_def by (auto simp: image_Un)
qed

theorem l1_events_have_headers_witness:
  "events_have_headers (snd (l1_handleBatch sample_hash sample_env sample_batch empty_db))
   \<and> map ce_BlockHash (l1_contract_events (snd (l1_handleBatch sample_hash sample_env sample_batch empty_db))) = [1]"
proof -
  have "map ce_BlockHash (l1_contract_events (snd (l1_handleBatch sample_hash sample_env sample_batch empty_db))) = [1]"
    by code_simp
  moreover have "events_have_headers empty_db" by (simp add: events_have_headers_def empty_db_def)
  ultimately show ?thesis
    using l1_events_have_headers[of sample_env, OF sample_env_ok sample_batch_ok] by blast
qed

text \<open>One contract creation in an L2 block ends the indexing of L2: when everything can be read
  from the node, the handler panics on the missing recipient, nothing of the batch is stored, and
  the panic reaches the group's critical handler while the task itself ends without an error.\<close>

lemma l2_batch_contract_creation:
  assumes "blocks_readable cl (map (BlockHeaderFromHeader H) (Headers batch))"
    and "h \<in> set (Headers batch)" and "ec_TxsByHash cl (H h) = Ok ts" and "t \<in> set ts"
    and "ec_TxDetailByHash cl (tx_Hash t) = Ok d" and "tx_To d = None"
  shows "l2_handleBatch H env cl batch s = (Panic nil_deref, s)
     \<and> Group_Go (fst (l2_consumer H (\<lambda>_. env) (\<lambda>_. cl) (batch # rest) s))
         = \<lparr>to_crit = Some nil_deref, to_err = None\<rparr>"
proof -
  have "batch_txs env cl 0 (map (BlockHeaderFromHeader H) (Headers batch)) = Panic nil_deref"
    by (rule batch_txs_creation[where h = "BlockHeaderFromHeader H h"])
       (use assms in \<open>simp_all add: BlockHeaderFromHeader_def\<close>)
  then have "l2_handleBatch H env cl batch s = (Panic nil_deref, s)"
    by (simp add: l2_handleBatch_def Let_def)
  then show ?thesis by (simp add: l2_consumer_def thenG_def bindG_def mapErrG_def Group_Go_def)
qed

definition creation_tx :: transaction where
  "creation_tx = \<lparr>tx_Hash = 5, tx_To = None, tx_Gas = 0, tx_GasPrice = 0, tx_Data = [], tx_GasFeeCap = 0,
     tx_Nonce = 0, tx_Value = 0, tx_Time = 0\<rparr>"

definition sample_receipt :: receipt where
  "sample_receipt = \<lparr>rc_BlockHash = 1, rc_BlockNumber = Some 1, rc_GasUsed = 0, rc_CumulativeGasUsed = 0,
     rc_EffectiveGasPrice = None, rc_L1Fee = None, rc_L1GasUsed = None, rc_L1GasPrice = None,
     rc_TransactionIndex = 0, rc_Type = 0, rc_Status = 1, rc_ContractAddress = 0\<rparr>"

definition creation_client :: EthClient where
  "creation_client = clnt sample_hash (\<lambda>_. []) (sample_rpc 10 []\<lparr>rpc_blockByHash := (\<lambda>h. Ok (Some [creation_tx])),
     rpc_transaction := (\<lambda>h. Ok (Some creation_tx)), rpc_receipt := (\<lambda>h. Ok (Some sample_receipt))\<rparr>)"

end
