(* ===== verification/BridgeProcessors.thy ===== *)
theory BridgeProcessors
  imports Contracts ChainSync
begin

text \<open>
  event/processors/bridge: what one window of blocks changes in the tables of the bridge.  Each
  processor reads the events of the window, builds the rows and stores or updates them; the first
  error ends it.  Every processor runs inside a transaction of its caller (EventProcessor).  The
  metrics and the log have no effect on the tables and are left out; \<open>uuid i\<close> is the i-th identifier
  the processor draws.
\<close>

section \<open>Events by position\<close>

text \<open>logKey: the hash of the block and the index of the log in it.  A later event with the same
  position replaces an earlier one; the index arithmetic is on uint64 and wraps.\<close>

type_synonym logKey = "hash \<times> u64"

definition log_key :: "ContractEvent \<Rightarrow> logKey" where
  "log_key e = (ce_BlockHash e, ce_LogIndex e)"

definition log_map :: "('x \<Rightarrow> ContractEvent) \<Rightarrow> 'x list \<Rightarrow> logKey \<rightharpoonup> 'x" where
  "log_map ev xs = fold (\<lambda>x m. m(log_key (ev x) \<mapsto> x)) xs (\<lambda>_. None)"

text \<open>The event k logs after e; its absence is an error that names the missing event.\<close>

definition following :: "(logKey \<rightharpoonup> 'x) \<Rightarrow> ContractEvent \<Rightarrow> u64 \<Rightarrow> string \<Rightarrow> 'x result" where
  "following m e k missing =
     (case m (ce_BlockHash e, ce_LogIndex e + k) of Some x \<Rightarrow> Ok x | None \<Rightarrow> Err (Msg missing))"

text \<open>A statement that runs only when there are rows.\<close>

definition when_any :: "('r list \<Rightarrow> ('s, unit) go) \<Rightarrow> 'r list \<Rightarrow> ('s, unit) go" where
  "when_any store rows = (if length rows > 0 then store rows else retG ())"

text \<open>A loop that builds one row for each event, with the index of the event, reading the database.\<close>

definition build_rows :: "(nat \<Rightarrow> 'x \<Rightarrow> db \<Rightarrow> 'r result) \<Rightarrow> 'x list \<Rightarrow> (db, 'r list) go" where
  "build_rows row xs = readG (\<lambda>s. mapR (\<lambda>(i, x). row i x s) (enumerate 0 xs))"

section \<open>Deposits, on L1\<close>

definition deposit_row :: "gorms \<Rightarrow> (nat \<Rightarrow> uuid) \<Rightarrow> nat \<Rightarrow> OptimismPortalTransactionDepositEvent \<Rightarrow> db \<Rightarrow> L1ToL2 result" where
  "deposit_row G uuid i d s =
     bindR (L1ToL2_GetBlockNumberFromHash G (ce_BlockHash (pd_Event d)) s) (\<lambda>blockNumber.
     Ok (zero_L1ToL2\<lparr>l12_GUID := uuid i, l12_L1BlockNumber := blockNumber, l12_L2BlockNumber := Some 0,
       l12_L1TransactionHash := ce_TransactionHash (pd_Event d),
       l12_TransactionSourceHash := dt_SourceHash (pd_DepositTx d), l12_L1TxOrigin := dt_From (pd_DepositTx d),
       l12_Status := L1ToL2Pending, l12_ETHAmount := dt_EthValue (pd_DepositTx d),
       l12_ERC20Amount := dt_Value (pd_DepositTx d), l12_GasLimit := pd_GasLimit d, l12_Version := 1,
       l12_Timestamp := sint (ce_Timestamp (pd_Event d))\<rparr>))"

definition l1_message_row :: "CrossDomainMessengerSentMessageEvent \<Rightarrow> L1ToL2" where
  "l1_message_row m = zero_L1ToL2\<lparr>l12_L1TransactionHash := ce_TransactionHash (sme_Event m),
     l12_MessageHash := sme_MessageHash m, l12_Version := uint (sme_Version m)\<rparr>"

text \<open>A bridge transfer is tied to its deposit and its message by their positions: one and two logs
  after it, six and seven for MNT.  A transfer with another signature leaves a zero row.\<close>

definition l1_linked_row :: "(logKey \<rightharpoonup> OptimismPortalTransactionDepositEvent)
    \<Rightarrow> (logKey \<rightharpoonup> CrossDomainMessengerSentMessageEvent) \<Rightarrow> u64 \<Rightarrow> u64 \<Rightarrow> BridgeEvent \<Rightarrow> L1ToL2 result" where
  "l1_linked_row portalDeposits sentMessages dk mk b =
     bindR (following portalDeposits (br_Event b) dk ''expected TransactionDeposit following BridgeInitiated event'') (\<lambda>d.
     bindR (following sentMessages (br_Event b) mk ''expected SentMessage following TransactionDeposit event'') (\<lambda>m.
     Ok (zero_L1ToL2\<lparr>l12_L1TransactionHash := ce_TransactionHash (pd_Event d),
       l12_FromAddress := br_FromAddress b, l12_ToAddress := br_ToAddress b,
       l12_L1TokenAddress := br_LocalTokenAddress b, l12_L2TokenAddress := br_RemoteTokenAddress b,
       l12_ERC20Amount := br_ERC20Amount b\<rparr>)))"

definition l1_bridge_row :: "abis \<Rightarrow> (logKey \<rightharpoonup> OptimismPortalTransactionDepositEvent)
    \<Rightarrow> (logKey \<rightharpoonup> CrossDomainMessengerSentMessageEvent) \<Rightarrow> BridgeEvent \<Rightarrow> L1ToL2 result" where
  "l1_bridge_row A portalDeposits sentMessages b =
     (let sig = ce_EventSignature (br_Event b) in
      if sig = ev_ID (a_ETHBridgeInitiated A) then l1_linked_row portalDeposits sentMessages 1 2 b
      else if sig = ev_ID (a_MNTBridgeInitiated A) then l1_linked_row portalDeposits sentMessages 6 7 b
      else if sig = ev_ID (a_ERC20BridgeInitiated A) then l1_linked_row portalDeposits sentMessages 1 2 b
      else Ok zero_L1ToL2)"

definition L1ProcessInitiatedBridgeEvents :: "gorms \<Rightarrow> abis \<Rightarrow> (nat \<Rightarrow> uuid) \<Rightarrow> L1Contracts \<Rightarrow> int option \<Rightarrow> int option
    \<Rightarrow> (db, unit) go" where
  "L1ProcessInitiatedBridgeEvents G A uuid c fromHeight toHeight =
     bindG (readG (OptimismPortalTransactionDepositEvents G A (OptimismPortalProxy c) fromHeight toHeight)) (\<lambda>deposits.
     bindG (build_rows (deposit_row G uuid) deposits) (\<lambda>l1ToL2s.
     thenG (when_any (StoreL1ToL2Transactions G) l1ToL2s) (
     bindG (readG (CrossDomainMessengerSentMessageEvents G A ''l1'' (L1CrossDomainMessengerProxy c) fromHeight toHeight)) (\<lambda>sent.
     thenG (when_any (UpdateMessageHashByTxHash G) (map l1_message_row sent)) (
     bindG (readG (StandardBridgeInitiatedEvents G A ''l1'' (L1StandardBridgeProxy c) fromHeight toHeight)) (\<lambda>bridges.
     bindG (liftR (mapR (l1_bridge_row A (log_map pd_Event deposits) (log_map sme_Event sent)) bridges)) (\<lambda>l1ToL2s2.
     when_any (UpdateL1ToL2InfoByTxHash G) l1ToL2s2)))))))"

section \<open>Proven and finalized withdrawals, on L1\<close>

text \<open>The number of the block of an event, one when the block is not stored.\<close>

definition number_or_one :: "int option \<Rightarrow> int option" where
  "number_or_one n = (case n of None \<Rightarrow> Some 1 | Some k \<Rightarrow> Some k)"

definition proven_row :: "gorms \<Rightarrow> (nat \<Rightarrow> uuid) \<Rightarrow> nat \<Rightarrow> OptimismPortalWithdrawalProven \<times> ContractEvent \<Rightarrow> db
    \<Rightarrow> WithdrawProven result" where
  "proven_row G uuid i p s =
     bindR (L1ToL2_GetBlockNumberFromHash G (ce_BlockHash (snd p)) s) (\<lambda>n.
     Ok (zero_WithdrawProven\<lparr>wp_GUID := uuid i, wp_WithdrawHash := op_WithdrawalHash (fst p),
       wp_ProvenTransactionHash := ce_TransactionHash (snd p), wp_BlockNumber := number_or_one n,
       wp_ETHAmount := Some 0, wp_ERC20Amount := Some 0, wp_Timestamp := ce_Timestamp (snd p)\<rparr>))"

definition L1ProcessProvenBridgeEvents :: "gorms \<Rightarrow> abis \<Rightarrow> (nat \<Rightarrow> uuid) \<Rightarrow> L1Contracts \<Rightarrow> int option \<Rightarrow> int option
    \<Rightarrow> (db, unit) go" where
  "L1ProcessProvenBridgeEvents G A uuid c fromHeight toHeight =
     bindG (readG (OptimismPortalWithdrawalProvenEvents G A (OptimismPortalProxy c) fromHeight toHeight)) (\<lambda>provens.
     bindG (build_rows (proven_row G uuid) provens) (\<lambda>withdrawProvenList.
     when_any (StoreWithdrawProven G) withdrawProvenList))"

definition finalized_row :: "gorms \<Rightarrow> (nat \<Rightarrow> uuid) \<Rightarrow> nat \<Rightarrow> OptimismPortalWithdrawalFinalized \<times> ContractEvent \<Rightarrow> db
    \<Rightarrow> WithdrawFinalized result" where
  "finalized_row G uuid i p s =
     bindR (L1ToL2_GetBlockNumberFromHash G (ce_BlockHash (snd p)) s) (\<lambda>n.
     Ok (zero_WithdrawFinalized\<lparr>wf_GUID := uuid i, wf_WithdrawHash := of_WithdrawalHash (fst p),
       wf_FinalizedTransactionHash := ce_TransactionHash (snd p), wf_BlockNumber := number_or_one n,
       wf_ETHAmount := Some 0, wf_ERC20Amount := Some 0, wf_Timestamp := ce_Timestamp (snd p)\<rparr>))"

text \<open>The list of the bridge transfers has one entry for each relayed message, not for each
  transfer: entry i is written for the i-th transfer.\<close>

definition finalized_bridge_entry :: "(logKey \<rightharpoonup> CrossDomainMessengerRelayedMessageEvent)
    \<Rightarrow> nat \<times> BridgeEvent \<Rightarrow> WithdrawFinalized list \<Rightarrow> WithdrawFinalized list result" where
  "finalized_bridge_entry relayedMessages = (\<lambda>(i, b) rows.
     bindR (following relayedMessages (br_Event b) 1 ''expected RelayedMessage following BridgeFinalized event'') (\<lambda>m.
     bindR (indexR rows i) (\<lambda>r.
     updateR rows i (r\<lparr>wf_L1TokenAddress := br_LocalTokenAddress b, wf_L2TokenAddress := br_RemoteTokenAddress b,
       wf_ETHAmount := br_ETHAmount b, wf_ERC20Amount := br_ERC20Amount b, wf_MessageHash := rme_MessageHash m\<rparr>))))"

text \<open>The update runs once for each distinct local token of the transfers.\<close>

definition L1ProcessFinalizedBridgeEvents :: "gorms \<Rightarrow> abis \<Rightarrow> (nat \<Rightarrow> uuid) \<Rightarrow> L1Contracts \<Rightarrow> int option \<Rightarrow> int option
    \<Rightarrow> (db, unit) go" where
  "L1ProcessFinalizedBridgeEvents G A uuid c fromHeight toHeight =
     bindG (readG (OptimismPortalWithdrawalFinalizedEvents G A (OptimismPortalProxy c) fromHeight toHeight)) (\<lambda>finalized.
     bindG (build_rows (finalized_row G uuid) finalized) (\<lambda>withdrawFinalizedList.
     thenG (when_any (StoreWithdrawFinalized G) withdrawFinalizedList) (
     bindG (readG (CrossDomainMessengerRelayedMessageEvents G A ''l1'' (L1CrossDomainMessengerProxy c) fromHeight toHeight)) (\<lambda>relayed.
     bindG (readG (StandardBridgeFinalizedEvents G A ''l1'' (L1StandardBridgeProxy c) fromHeight toHeight)) (\<lambda>bridges.
     bindG (liftR (foldR (finalized_bridge_entry (log_map rme_Event relayed)) (enumerate 0 bridges)
              (replicate (length relayed) zero_WithdrawFinalized))) (\<lambda>rows.
     forG (\<lambda>tokenAddr. UpdateWithdrawFinalizedInfo G rows) (remdups (map br_LocalTokenAddress bridges))))))))"

section \<open>Withdrawals, on L2\<close>

definition MNTWithdrawEventSignature :: hash where
  "MNTWithdrawEventSignature = 0x74bbfec0d26a17c2367408038090a9a4e1cd1671129dc8fdf57f146a499fe3d5"
definition ETHWithdrawEventSignature :: hash where
  "ETHWithdrawEventSignature = 0x2849b43074093a05396b6f2a937dee8565b15a48a7b3d4bffb732a5017380af5"
definition ERC20WithdrawEventSignature :: hash where
  "ERC20WithdrawEventSignature = 0x7ff126db8024424bbfd9826e8ab82ff59136289ea440b04b39a0df1b03b9cabf"

definition withdrawal_row :: "gorms \<Rightarrow> (nat \<Rightarrow> uuid) \<Rightarrow> nat \<Rightarrow> L2ToL1MessagePasserMessagePassed \<Rightarrow> db \<Rightarrow> L2ToL1 result" where
  "withdrawal_row G uuid i m s =
     bindR (L2ToL1_GetBlockNumberFromHash G (ce_BlockHash (ps_Event m)) s) (\<lambda>blockNumber.
     Ok (zero_L2ToL1\<lparr>l21_GUID := uuid i, l21_L1BlockNumber := Some 0, l21_L2BlockNumber := blockNumber,
       l21_MsgNonce := ps_Nonce m, l21_L2TransactionHash := ce_TransactionHash (ps_Event m),
       l21_WithdrawTransactionHash := ps_WithdrawalHash m, l21_Status := L2ToL1Pending,
       l21_ETHAmount := ps_ETHAmount m, l21_ERC20Amount := ps_ERC20Amount m, l21_GasLimit := ps_GasLimit m,
       l21_TimeLeft := Some 0, l21_Version := 1, l21_Timestamp := sint (ce_Timestamp (ps_Event m))\<rparr>))"

definition l2_message_row :: "CrossDomainMessengerSentMessageEvent \<Rightarrow> L2ToL1" where
  "l2_message_row m = zero_L2ToL1\<lparr>l21_L2TransactionHash := ce_TransactionHash (sme_Event m),
     l21_FromAddress := sme_FromAddress m, l21_ToAddress := sme_ToAddress m,
     l21_ERC20Amount := sme_ERC20Amount m, l21_ETHAmount := sme_ETHAmount m,
     l21_MessageHash := sme_MessageHash m, l21_GasLimit := sme_GasLimit m, l21_Version := uint (sme_Version m)\<rparr>"

definition l2_linked_row :: "(logKey \<rightharpoonup> L2ToL1MessagePasserMessagePassed)
    \<Rightarrow> (logKey \<rightharpoonup> CrossDomainMessengerSentMessageEvent) \<Rightarrow> u64 \<Rightarrow> u64 \<Rightarrow> BridgeEvent \<Rightarrow> L2ToL1 result" where
  "l2_linked_row messagesPassed sentMessages pk mk b =
     bindR (following messagesPassed (br_Event b) pk ''expected MessagePassed following BridgeInitiated event'') (\<lambda>p.
     bindR (following sentMessages (br_Event b) mk ''expected SentMessage following MessagePassed event'') (\<lambda>m.
     Ok (zero_L2ToL1\<lparr>l21_WithdrawTransactionHash := ps_WithdrawalHash p,
       l21_L2TransactionHash := ce_TransactionHash (br_Event b), l21_FromAddress := br_FromAddress b,
       l21_ToAddress := br_ToAddress b, l21_ETHAmount := br_ETHAmount b, l21_ERC20Amount := br_ERC20Amount b,
       l21_L1TokenAddress := br_LocalTokenAddress b, l21_L2TokenAddress := br_RemoteTokenAddress b\<rparr>)))"

definition l2_bridge_row :: "(logKey \<rightharpoonup> L2ToL1MessagePasserMessagePassed)
    \<Rightarrow> (logKey \<rightharpoonup> CrossDomainMessengerSentMessageEvent) \<Rightarrow> BridgeEvent \<Rightarrow> L2ToL1 result" where
  "l2_bridge_row messagesPassed sentMessages b =
     (let sig = ce_EventSignature (br_Event b) in
      if sig = ETHWithdrawEventSignature then l2_linked_row messagesPassed sentMessages 5 6 b
      else if sig = MNTWithdrawEventSignature then l2_linked_row messagesPassed sentMessages 1 2 b
      else if sig = ERC20WithdrawEventSignature then l2_linked_row messagesPassed sentMessages 1 2 b
      else Ok zero_L2ToL1)"

definition L2ProcessInitiatedBridgeEvents :: "gorms \<Rightarrow> abis \<Rightarrow> (nat \<Rightarrow> uuid) \<Rightarrow> L2Contracts \<Rightarrow> int option \<Rightarrow> int option
    \<Rightarrow> (db, unit) go" where
  "L2ProcessInitiatedBridgeEvents G A uuid c fromHeight toHeight =
     bindG (readG (L2ToL1MessagePasserMessagePassedEvents G A (L2ToL1MessagePasser c) fromHeight toHeight)) (\<lambda>passed.
     bindG (build_rows (withdrawal_row G uuid) passed) (\<lambda>l2ToL1s.
     thenG (when_any (StoreL2ToL1Transactions G) l2ToL1s) (
     bindG (readG (CrossDomainMessengerSentMessageEvents G A ''l2'' (L2CrossDomainMessenger c) fromHeight toHeight)) (\<lambda>sent.
     thenG (when_any (UpdateL2ToL1InfoByTxHash G) (map l2_message_row sent)) (
     bindG (readG (StandardBridgeInitiatedEvents G A ''l2'' (L2StandardBridge c) fromHeight toHeight)) (\<lambda>bridges.
     bindG (liftR (mapR (l2_bridge_row (log_map ps_Event passed) (log_map sme_Event sent)) bridges)) (\<lambda>l2ToL1s2.
     when_any (UpdateL2ToL1InfoByTxHash G) l2ToL1s2)))))))"

section \<open>Relayed deposits, on L2\<close>

definition relay_row :: "gorms \<Rightarrow> (nat \<Rightarrow> uuid) \<Rightarrow> (logKey \<rightharpoonup> CrossDomainMessengerRelayedMessageEvent) \<Rightarrow> nat
    \<Rightarrow> BridgeEvent \<Rightarrow> db \<Rightarrow> RelayMessage result" where
  "relay_row G uuid relayedMessages i b s =
     bindR (following relayedMessages (br_Event b) 1 ''expected RelayedMessage following BridgeFinalized event'') (\<lambda>m.
     bindR (L2ToL1_GetBlockNumberFromHash G (ce_BlockHash (rme_Event m)) s) (\<lambda>n.
     Ok (zero_RelayMessage\<lparr>rm_GUID := uuid i, rm_BlockNumber := number_or_one n,
       rm_RelayTransactionHash := ce_TransactionHash (rme_Event m), rm_MessageHash := rme_MessageHash m,
       rm_L1TokenAddress := br_RemoteTokenAddress b, rm_L2TokenAddress := br_LocalTokenAddress b,
       rm_ETHAmount := br_ETHAmount b, rm_ERC20Amount := br_ERC20Amount b,
       rm_Timestamp := ce_Timestamp (rme_Event m)\<rparr>)))"

text \<open>The deposit of each relayed message is looked up; the result is only logged.\<close>

definition L2ProcessFinalizedBridgeEvents :: "gorms \<Rightarrow> abis \<Rightarrow> (nat \<Rightarrow> uuid) \<Rightarrow> L2Contracts \<Rightarrow> int option \<Rightarrow> int option
    \<Rightarrow> (db, unit) go" where
  "L2ProcessFinalizedBridgeEvents G A uuid c fromHeight toHeight =
     bindG (readG (CrossDomainMessengerRelayedMessageEvents G A ''l2'' (L2CrossDomainMessenger c) fromHeight toHeight)) (\<lambda>relayed.
     bindG (build_rows (\<lambda>i m. L1ToL2Transaction G (rme_MessageHash m)) relayed) (\<lambda>messages.
     bindG (readG (StandardBridgeFinalizedEvents G A ''l2'' (L2StandardBridge c) fromHeight toHeight)) (\<lambda>bridges.
     bindG (build_rows (relay_row G uuid (log_map rme_Event relayed)) bridges) (\<lambda>relayMessageList.
     when_any (StoreRelayMessage G) relayMessageList))))"

section \<open>Legacy contracts\<close>

text \<open>The rows are collected in a slice as long as the map of the deposits, which is still empty.\<close>

definition legacy_deposit_row :: "gorms \<Rightarrow> db \<Rightarrow> nat \<times> LegacyCTCDepositEvent \<Rightarrow> L1ToL2 list \<Rightarrow> L1ToL2 list result" where
  "legacy_deposit_row G s = (\<lambda>(i, d) rows.
     bindR (nonil (ct_ETHAmount d)) (\<lambda>minted.
     bindR (L1ToL2_GetBlockNumberFromHash G (ce_BlockHash (ct_Event d)) s) (\<lambda>blockNumber.
     updateR rows i (zero_L1ToL2\<lparr>l12_L1BlockNumber := blockNumber,
       l12_L1TransactionHash := ce_TransactionHash (ct_Event d), l12_L1TxOrigin := ct_FromAddress d,
       l12_ETHAmount := ct_ETHAmount d, l12_ERC20Amount := ct_ERC20Amount d, l12_GasLimit := ct_GasLimit d,
       l12_Timestamp := sint (ce_Timestamp (ct_Event d))\<rparr>))))"

definition legacy_message_row :: "CrossDomainMessengerSentMessageEvent \<Rightarrow> L1ToL2" where
  "legacy_message_row m = zero_L1ToL2\<lparr>l12_L1TransactionHash := ce_TransactionHash (sme_Event m),
     l12_MessageHash := sme_MessageHash m\<rparr>"

definition legacy_bridge_row :: "(logKey \<rightharpoonup> CrossDomainMessengerSentMessageEvent) \<Rightarrow> (logKey \<rightharpoonup> LegacyCTCDepositEvent)
    \<Rightarrow> BridgeEvent \<Rightarrow> L1ToL2 result" where
  "legacy_bridge_row sentMessages ctcTxDeposits b =
     bindR (following sentMessages (br_Event b) (- 1) ''expected SentMessage preceding DepositInitiated event'') (\<lambda>m.
     bindR (following ctcTxDeposits (br_Event b) (- 2) ''expected TransactionEnqueued preceding DepostInitiated event'') (\<lambda>d.
     Ok (zero_L1ToL2\<lparr>l12_L1TransactionHash := ce_TransactionHash (ct_Event d),
       l12_FromAddress := br_FromAddress b, l12_ToAddress := br_ToAddress b,
       l12_L1TokenAddress := br_LocalTokenAddress b, l12_L2TokenAddress := br_RemoteTokenAddress b,
       l12_ERC20Amount := br_ERC20Amount b\<rparr>)))"

definition LegacyL1ProcessInitiatedBridgeEvents :: "gorms \<Rightarrow> abis \<Rightarrow> L1Contracts \<Rightarrow> int option \<Rightarrow> int option
    \<Rightarrow> (db, unit) go" where
  "LegacyL1ProcessInitiatedBridgeEvents G A c fromHeight toHeight =
     bindG (readG (LegacyCTCDepositEvents G A (LegacyCanonicalTransactionChain c) fromHeight toHeight)) (\<lambda>events.
     let ctcTxDeposits = (\<lambda>_. None) in
     bindG (readG (\<lambda>s. foldR (legacy_deposit_row G s) (enumerate 0 events) [])) (\<lambda>l1ToL2s.
     thenG (if length events > 0 then StoreL1ToL2Transactions G l1ToL2s else retG ()) (
     bindG (readG (CrossDomainMessengerSentMessageEvents G A ''l1'' (L1CrossDomainMessengerProxy c) fromHeight toHeight)) (\<lambda>sent.
     thenG (when_any (UpdateMessageHashByTxHash G) (map legacy_message_row sent)) (
     bindG (readG (L1StandardBridgeLegacyDepositInitiatedEvents G A (L1StandardBridgeProxy c) fromHeight toHeight)) (\<lambda>bridges.
     bindG (liftR (mapR (legacy_bridge_row (log_map sme_Event sent) ctcTxDeposits) bridges)) (\<lambda>l1ToL2s2.
     when_any (UpdateL1ToL2InfoByTxHash G) l1ToL2s2)))))))"

definition legacy_withdrawal_row :: "gorms \<Rightarrow> abis \<Rightarrow> (nat \<Rightarrow> uuid) \<Rightarrow> address \<Rightarrow> nat \<Rightarrow> CrossDomainMessengerSentMessageEvent
    \<Rightarrow> db \<Rightarrow> L2ToL1 result" where
  "legacy_withdrawal_row G A uuid messenger i m s =
     bindR (nonil (sme_ETHAmount m)) (\<lambda>withdrawn.
     bindR (L1ToL2_GetBlockNumberFromHash G (ce_BlockHash (sme_Event m)) s) (\<lambda>l1blockNumber.
     Ok (zero_L2ToL1\<lparr>l21_GUID := uuid i, l21_L1BlockNumber := l1blockNumber, l21_MsgNonce := sme_Nonce m,
       l21_L2TransactionHash := ce_TransactionHash (sme_Event m),
       l21_WithdrawTransactionHash := a_keccak A (sme_MessageCalldata m @ address_bytes messenger),
       l21_ETHAmount := sme_ETHAmount m, l21_ERC20Amount := sme_ERC20Amount m, l21_GasLimit := sme_GasLimit m,
       l21_TimeLeft := Some 0, l21_Timestamp := sint (ce_Timestamp (sme_Event m))\<rparr>)))"

text \<open>The row that a legacy bridge transfer updates has no transaction hash.\<close>

definition legacy_withdrawal_bridge_row :: "(logKey \<rightharpoonup> CrossDomainMessengerSentMessageEvent) \<Rightarrow> BridgeEvent \<Rightarrow> L2ToL1 result" where
  "legacy_withdrawal_bridge_row sentMessages b =
     bindR (following sentMessages (br_Event b) (- 1) ''expected SentMessage preceding DepositInitiated event'') (\<lambda>m.
     Ok (zero_L2ToL1\<lparr>l21_MessageHash := sme_MessageHash m, l21_FromAddress := br_FromAddress b,
       l21_ToAddress := br_ToAddress b, l21_L1TokenAddress := br_LocalTokenAddress b,
       l21_L2TokenAddress := br_RemoteTokenAddress b\<rparr>))"

definition LegacyL2ProcessInitiatedBridgeEvents :: "gorms \<Rightarrow> abis \<Rightarrow> (nat \<Rightarrow> uuid) \<Rightarrow> L2Contracts \<Rightarrow> int option \<Rightarrow> int option
    \<Rightarrow> (db, unit) go" where
  "LegacyL2ProcessInitiatedBridgeEvents G A uuid c fromHeight toHeight =
     bindG (readG (CrossDomainMessengerSentMessageEvents G A ''l2'' (L2CrossDomainMessenger c) fromHeight toHeight)) (\<lambda>sent.
     bindG (build_rows (legacy_withdrawal_row G A uuid (L2CrossDomainMessenger c)) sent) (\<lambda>l2ToL1Cs.
     thenG (when_any (StoreL2ToL1Transactions G) l2ToL1Cs) (
     bindG (readG (L2StandardBridgeLegacyWithdrawalInitiatedEvents G A (L2StandardBridge c) fromHeight toHeight)) (\<lambda>bridges.
     bindG (liftR (mapR (legacy_withdrawal_bridge_row (log_map sme_Event sent)) bridges)) (\<lambda>l2ToL1Bs.
     when_any (UpdateL2ToL1InfoByTxHash G) l2ToL1Bs)))))"

definition legacy_finalized_row :: "CrossDomainMessengerRelayedMessageEvent \<Rightarrow> L2ToL1" where
  "legacy_finalized_row m = zero_L2ToL1\<lparr>l21_MessageHash := rme_MessageHash m,
     l21_L1FinalizeTxHash := ce_TransactionHash (rme_Event m)\<rparr>"

definition LegacyL1ProcessFinalizedBridgeEvents :: "gorms \<Rightarrow> abis \<Rightarrow> L1Contracts \<Rightarrow> int option \<Rightarrow> int option \<Rightarrow> (db, unit) go" where
  "LegacyL1ProcessFinalizedBridgeEvents G A c fromHeight toHeight =
     bindG (readG (CrossDomainMessengerRelayedMessageEvents G A ''l1'' (L1CrossDomainMessengerProxy c) fromHeight toHeight)) (\<lambda>relayed.
     when_any (MarkL2ToL1TransactionWithdrawalFinalized G) (map legacy_finalized_row relayed))"

definition legacy_relayed_row :: "CrossDomainMessengerRelayedMessageEvent \<Rightarrow> L1ToL2" where
  "legacy_relayed_row m = zero_L1ToL2\<lparr>l12_MessageHash := rme_MessageHash m,
     l12_L2TransactionHash := ce_TransactionHash (rme_Event m)\<rparr>"

definition LegacyL2ProcessFinalizedBridgeEvents :: "gorms \<Rightarrow> abis \<Rightarrow> L2Contracts \<Rightarrow> int option \<Rightarrow> int option \<Rightarrow> (db, unit) go" where
  "LegacyL2ProcessFinalizedBridgeEvents G A c fromHeight toHeight =
     bindG (readG (CrossDomainMessengerRelayedMessageEvents G A ''l2'' (L2CrossDomainMessenger c) fromHeight toHeight)) (\<lambda>relayed.
     when_any (UpdateMessageHashByTxHash G) (map legacy_relayed_row relayed))"

section \<open>Rollup events\<close>

definition LegacyL1ProcessSCCEvent :: "gorms \<Rightarrow> abis \<Rightarrow> L1Contracts \<Rightarrow> int option \<Rightarrow> int option \<Rightarrow> (db, unit) go" where
  "LegacyL1ProcessSCCEvent G A c fromHeight toHeight =
     bindG (readG (LegacySCCBatchAppendedEvent G A (LegacyStateCommitmentChain c) fromHeight toHeight))
       (when_any (StoreBatchStateRoots G))"

definition L2OutputEvent :: "gorms \<Rightarrow> abis \<Rightarrow> (nat \<Rightarrow> uuid) \<Rightarrow> L1Contracts \<Rightarrow> int option \<Rightarrow> int option \<Rightarrow> (db, unit) go" where
  "L2OutputEvent G A uuid c fromHeight toHeight =
     bindG (readG (L2OutputProposedEvent G A uuid (L2OutputOracleProxy c) fromHeight toHeight))
       (when_any (StoreBatchStateRoots G))"

definition ConfirmDataStoreEventABIHash :: "(bytes \<Rightarrow> hash) \<Rightarrow> hash" where
  "ConfirmDataStoreEventABIHash keccak = keccak (string_bytes ''ConfirmDataStore(uint32,bytes32)'')"

definition constructDataStoreEvent :: "uuid \<Rightarrow> u64 \<Rightarrow> 32 word \<Rightarrow> hash \<Rightarrow> DataStoreEvent" where
  "constructDataStoreEvent guid now dataStoreId blockHash =
     \<lparr>de_GUID = guid, de_DataStoreId = ucast dataStoreId, de_BlockHash = blockHash, de_Timestamp = now\<rparr>"

text \<open>One log: another contract, another event, no data or data that cannot be unpacked is skipped;
  a log without topics is a panic.\<close>

definition parse_da_log :: "abis \<Rightarrow> (nat \<Rightarrow> uuid) \<Rightarrow> (nat \<Rightarrow> u64) \<Rightarrow> address \<Rightarrow> log \<Rightarrow> DataStoreEvent list \<Rightarrow> DataStoreEvent list result" where
  "parse_da_log A uuid now manager l events =
     (if Address l \<noteq> manager then Ok events
      else bindR (indexR (Topics l) 0) (\<lambda>topic.
        if topic \<noteq> ConfirmDataStoreEventABIHash (a_keccak A) then Ok events
        else if length (Data l) > 0 then
          (case a_unpack_ConfirmDataStore A (Data l) of
             Err e \<Rightarrow> Ok events
           | Panic p \<Rightarrow> Panic p
           | Ok dataStoreId \<Rightarrow> Ok (events @ [constructDataStoreEvent (uuid (length events)) (now (length events)) dataStoreId (BlockHash l)]))
        else Ok events))"

definition ParseMantleDaEvent :: "abis \<Rightarrow> (nat \<Rightarrow> uuid) \<Rightarrow> (nat \<Rightarrow> u64) \<Rightarrow> address \<Rightarrow> log list \<Rightarrow> DataStoreEvent list result" where
  "ParseMantleDaEvent A uuid now manager logs = foldR (parse_da_log A uuid now manager) logs []"

definition zero_log :: log where
  "zero_log = ce_RLPLog zero_contract_event"

text \<open>The logs are appended to a slice that was made with as many zero logs; an error of the store is
  logged and dropped.\<close>

definition L1ProcessMantleDAEvents :: "gorms \<Rightarrow> abis \<Rightarrow> (nat \<Rightarrow> uuid) \<Rightarrow> (nat \<Rightarrow> u64) \<Rightarrow> L1Contracts \<Rightarrow> int option \<Rightarrow> int option
    \<Rightarrow> (db, unit) go" where
  "L1ProcessMantleDAEvents G A uuid now c fromHeight toHeight =
     bindG (readG (L1ContractEventsWithFilter G (no_filter\<lparr>cf_ContractAddress := DataLayrServiceManagerAddr c\<rparr>)
              fromHeight toHeight)) (\<lambda>events.
     let logs = replicate (length events) zero_log @ map ce_RLPLog events in
     if length logs \<noteq> 0 then
       bindG (liftR (ParseMantleDaEvent A uuid now (DataLayrServiceManagerAddr c) logs)) (\<lambda>dataStoreEvents s.
         if length dataStoreEvents \<noteq> 0 then
           (case StoreBatchDataStoreEvent G dataStoreEvents s of
              (Ok u, s') \<Rightarrow> (Ok (), s')
            | (Err e, s') \<Rightarrow> (Ok (), s')
            | (Panic p, s') \<Rightarrow> (Panic p, s'))
         else (Ok (), s))
     else retG ())"

end
