(* ===== verification/BridgeProperties.thy ===== *)
theory BridgeProperties
  imports BridgeProcessors
begin

text \<open>
  What the processors of event/processors/bridge do to the tables: the rows a window appends, the
  columns an update keeps (\<open>deposit_core\<close>, \<open>withdrawal_core\<close>, with the loops as interpretations of
  \<open>row_update\<close>), the events a transfer needs beside it, and the windows that cannot be processed.
\<close>

section \<open>Deposits\<close>

definition deposit_core :: "L1ToL2 \<Rightarrow> L1ToL2" where
  "deposit_core r = r\<lparr>l12_MessageHash := 0, l12_FromAddress := 0, l12_ToAddress := 0, l12_L1TokenAddress := 0,
     l12_L2TokenAddress := 0, l12_ERC20Amount := None\<rparr>"

interpretation infocore: row_update l12_GUID deposit_core l12_by_txhash set_l12_info
  by unfold_locales (auto simp: set_l12_info_def deposit_core_def)

interpretation messagecore: row_update l12_GUID deposit_core l12_by_txhash set_l12_message
  by unfold_locales (auto simp: set_l12_message_def deposit_core_def)

text \<open>A statement that changes one table and keeps a projection of its rows.\<close>

definition keeps_rows :: "(db \<Rightarrow> 'r list) \<Rightarrow> (('r list \<Rightarrow> 'r list) \<Rightarrow> db \<Rightarrow> db) \<Rightarrow> ('r \<Rightarrow> 'v) \<Rightarrow> (db, unit) go \<Rightarrow> db \<Rightarrow> bool" where
  "keeps_rows get upd proj m s = (\<exists>t. snd (m s) = upd (\<lambda>_. t) s \<and> map proj t = map proj (get s))"

lemma when_any_cases: "when_any f xs = (if xs = [] then retG () else f xs)"
  by (simp add: when_any_def)

lemma keeps_loop:
  assumes "\<And>s. upd (\<lambda>_. get s) s = s" "f = (\<lambda>xs. zoomG get upd (m xs))" "map p (snd (m xs (get s))) = map p (get s)"
  shows "keeps_rows get upd p (when_any f xs) s"
proof (cases "xs = []")
  case True
  then show ?thesis using assms(1)
    by (auto simp: keeps_rows_def when_any_cases retG_def intro!: exI[of _ "get s"])
next
  case False
  then show ?thesis using assms(2,3) by (auto simp: keeps_rows_def when_any_cases zoomG_def)
qed

lemma keeps_info:
  assumes "gorms_ok G" "distinct (map l12_GUID (l1_to_l2 s))"
  shows "keeps_rows l1_to_l2 l1_to_l2_update (\<lambda>r. (l12_GUID r, deposit_core r)) (when_any (UpdateL1ToL2InfoByTxHash G) xs) s"
  by (rule keeps_loop[OF _ UpdateL1ToL2InfoByTxHash_def[THEN ext] infocore.loop_keeps[OF gorms_okD(9)[OF assms(1)] assms(2)]]) simp

lemma keeps_message:
  assumes "gorms_ok G" "distinct (map l12_GUID (l1_to_l2 s))"
  shows "keeps_rows l1_to_l2 l1_to_l2_update (\<lambda>r. (l12_GUID r, deposit_core r)) (when_any (UpdateMessageHashByTxHash G) xs) s"
  by (rule keeps_loop[OF _ UpdateMessageHashByTxHash_def[THEN ext] messagecore.loop_keeps[OF gorms_okD(9)[OF assms(1)] assms(2)]]) simp

lemma keeps_keys:
  assumes "keeps_rows get upd (\<lambda>r. (key r, c r)) m s" "m s = (Ok (), s')" "distinct (map key (get s))"
  shows "\<exists>t. s' = upd (\<lambda>_. t) s \<and> map (\<lambda>r. (key r, c r)) t = map (\<lambda>r. (key r, c r)) (get s) \<and> distinct (map key t)"
proof -
  obtain t where t: "s' = upd (\<lambda>_. t) s" "map (\<lambda>r. (key r, c r)) t = map (\<lambda>r. (key r, c r)) (get s)"
    using assms(1,2) by (auto simp: keeps_rows_def)
  then have "map fst (map (\<lambda>r. (key r, c r)) t) = map fst (map (\<lambda>r. (key r, c r)) (get s))" by simp
  then have "map key t = map key (get s)" by (simp add: comp_def)
  then show ?thesis using t assms(3) by auto
qed

lemma store_any:
  assumes "gorms_ok G" "when_any (StoreL1ToL2Transactions G) rows s = (Ok (), s')"
  shows "s' = s\<lparr>l1_to_l2 := l1_to_l2 s @ rows\<rparr>"
  using assms(2) zoom_create_Ok[OF gorms_okD(9)[OF assms(1)], of l1_to_l2 l1_to_l2_update rows s "()" s']
  by (auto simp: when_any_cases StoreL1ToL2Transactions_def retG_def split: if_splits)

lemma build_rows_Ok:
  "build_rows row xs s = (Ok rows, s') \<Longrightarrow> s' = s \<and> length rows = length xs \<and> (\<forall>i < length xs. row i (xs ! i) s = Ok (rows ! i))"
  by (auto simp: build_rows_def readG_def mapR_Ok_iff nth_enumerate_eq)

lemma events_update [simp]:
  "ContractEventsWithFilter G f ch from to (s\<lparr>l1_to_l2 := x\<rparr>) = ContractEventsWithFilter G f ch from to s"
  "ContractEventsWithFilter G f ch from to (s\<lparr>l2_to_l1 := y\<rparr>) = ContractEventsWithFilter G f ch from to s"
  "ContractEventsWithFilter G f ch from to (s\<lparr>withdraw_finalized := z\<rparr>) = ContractEventsWithFilter G f ch from to s"
  by (simp_all add: ContractEventsWithFilter_def L1ContractEventsWithFilter_def L2ContractEventsWithFilter_def Let_def
      cong: if_cong option.case_cong)

lemma sent_update [simp]:
  "CrossDomainMessengerSentMessageEvents G A ch addr from to (s\<lparr>l1_to_l2 := x\<rparr>) = CrossDomainMessengerSentMessageEvents G A ch addr from to s"
  "CrossDomainMessengerSentMessageEvents G A ch addr from to (s\<lparr>l2_to_l1 := y\<rparr>) = CrossDomainMessengerSentMessageEvents G A ch addr from to s"
  unfolding CrossDomainMessengerSentMessageEvents_def events_update by (rule refl)+

lemma bridge_update [simp]:
  "StandardBridgeInitiatedEvents G A ch addr from to (s\<lparr>l1_to_l2 := x\<rparr>) = StandardBridgeInitiatedEvents G A ch addr from to s"
  "StandardBridgeInitiatedEvents G A ch addr from to (s\<lparr>l2_to_l1 := y\<rparr>) = StandardBridgeInitiatedEvents G A ch addr from to s"
  "StandardBridgeFinalizedEvents G A ch addr from to (s\<lparr>withdraw_finalized := z\<rparr>) = StandardBridgeFinalizedEvents G A ch addr from to s"
  "CrossDomainMessengerRelayedMessageEvents G A ch addr from to (s\<lparr>withdraw_finalized := z\<rparr>) = CrossDomainMessengerRelayedMessageEvents G A ch addr from to s"
  by (simp_all add: StandardBridgeInitiatedEvents_def StandardBridgeFinalizedEvents_def standardBridgeEvents_def
      CrossDomainMessengerRelayedMessageEvents_def)

lemma deposit_row_guid: "deposit_row G uuid i d s = Ok r \<Longrightarrow> l12_GUID r = uuid i"
  by (auto simp: deposit_row_def)

lemma l1_initiated_rows:
  assumes "gorms_ok G"
    and run: "L1ProcessInitiatedBridgeEvents G A uuid c from to s = (Ok (), s')"
    and deps: "OptimismPortalTransactionDepositEvents G A (OptimismPortalProxy c) from to s = Ok deposits"
    and dis: "distinct (map l12_GUID (l1_to_l2 s) @ map uuid [0..<length deposits])"
  shows "\<exists>rows t. s' = s\<lparr>l1_to_l2 := t\<rparr> \<and> length rows = length deposits
     \<and> (\<forall>i < length deposits. deposit_row G uuid i (deposits ! i) s = Ok (rows ! i))
     \<and> map (\<lambda>r. (l12_GUID r, deposit_core r)) t = map (\<lambda>r. (l12_GUID r, deposit_core r)) (l1_to_l2 s @ rows)
     \<and> (\<exists>sent bridges links. CrossDomainMessengerSentMessageEvents G A ''l1'' (L1CrossDomainMessengerProxy c) from to s = Ok sent
          \<and> StandardBridgeInitiatedEvents G A ''l1'' (L1StandardBridgeProxy c) from to s = Ok bridges
          \<and> mapR (l1_bridge_row A (log_map pd_Event deposits) (log_map sme_Event sent)) bridges = Ok links)"
proof -
  let ?p = "\<lambda>r. (l12_GUID r, deposit_core r)"
  from run deps have "\<exists>rows s0 s1 sent s2 bridges links.
      build_rows (deposit_row G uuid) deposits s = (Ok rows, s0)
    \<and> when_any (StoreL1ToL2Transactions G) rows s0 = (Ok (), s1)
    \<and> CrossDomainMessengerSentMessageEvents G A ''l1'' (L1CrossDomainMessengerProxy c) from to s1 = Ok sent
    \<and> when_any (UpdateMessageHashByTxHash G) (map l1_message_row sent) s1 = (Ok (), s2)
    \<and> StandardBridgeInitiatedEvents G A ''l1'' (L1StandardBridgeProxy c) from to s2 = Ok bridges
    \<and> mapR (l1_bridge_row A (log_map pd_Event deposits) (log_map sme_Event sent)) bridges = Ok links
    \<and> when_any (UpdateL1ToL2InfoByTxHash G) links s2 = (Ok (), s')"
    unfolding L1ProcessInitiatedBridgeEvents_def
    by (simp add: bindG_eq_Ok thenG_eq_Ok readG_def liftR_def)
  then obtain rows s0 s1 sent s2 bridges links where
      b: "build_rows (deposit_row G uuid) deposits s = (Ok rows, s0)"
    and st: "when_any (StoreL1ToL2Transactions G) rows s0 = (Ok (), s1)"
    and se: "CrossDomainMessengerSentMessageEvents G A ''l1'' (L1CrossDomainMessengerProxy c) from to s1 = Ok sent"
    and ms: "when_any (UpdateMessageHashByTxHash G) (map l1_message_row sent) s1 = (Ok (), s2)"
    and br: "StandardBridgeInitiatedEvents G A ''l1'' (L1StandardBridgeProxy c) from to s2 = Ok bridges"
    and li: "mapR (l1_bridge_row A (log_map pd_Event deposits) (log_map sme_Event sent)) bridges = Ok links"
    and inf: "when_any (UpdateL1ToL2InfoByTxHash G) links s2 = (Ok (), s')" by blast
  from build_rows_Ok[OF b] have r: "s0 = s" "length rows = length deposits"
    "\<forall>i < length deposits. deposit_row G uuid i (deposits ! i) s = Ok (rows ! i)" by auto
  have s1: "s1 = s\<lparr>l1_to_l2 := l1_to_l2 s @ rows\<rparr>" using store_any[OF assms(1) st] r by simp
  have "map l12_GUID rows = map uuid [0..<length deposits]"
    using r deposit_row_guid by (intro nth_equalityI) auto
  then have d1: "distinct (map l12_GUID (l1_to_l2 s1))" using dis s1 by simp
  from keeps_keys[OF keeps_message[OF assms(1) d1] ms d1]
  obtain t2 where t2: "s2 = s1\<lparr>l1_to_l2 := t2\<rparr>" "map ?p t2 = map ?p (l1_to_l2 s1)" "distinct (map l12_GUID t2)"
    by blast
  then have d2: "distinct (map l12_GUID (l1_to_l2 s2))" by simp
  from keeps_keys[OF keeps_info[OF assms(1) d2] inf d2]
  obtain t3 where t3: "s' = s2\<lparr>l1_to_l2 := t3\<rparr>" "map ?p t3 = map ?p (l1_to_l2 s2)" by blast
  have "s' = s\<lparr>l1_to_l2 := t3\<rparr>" "map ?p t3 = map ?p (l1_to_l2 s @ rows)" using s1 t2 t3 by simp_all
  moreover have "CrossDomainMessengerSentMessageEvents G A ''l1'' (L1CrossDomainMessengerProxy c) from to s = Ok sent"
    "StandardBridgeInitiatedEvents G A ''l1'' (L1StandardBridgeProxy c) from to s = Ok bridges"
    using se br s1 t2(1) by simp_all
  ultimately show ?thesis using r li by blast
qed

lemma log_map_snoc: "log_map ev (xs @ [x]) = (log_map ev xs)(log_key (ev x) \<mapsto> x)"
  by (simp add: log_map_def)

lemma log_map_Nil: "log_map ev [] = (\<lambda>_. None)"
  by (simp add: log_map_def)

lemma log_map_Some: "log_map ev xs k = Some x \<Longrightarrow> x \<in> set xs \<and> log_key (ev x) = k"
  by (induction xs rule: rev_induct) (auto simp: log_map_snoc log_map_Nil split: if_splits)

lemma log_map_None: "log_map ev xs k = None \<longleftrightarrow> (\<forall>x \<in> set xs. log_key (ev x) \<noteq> k)"
  by (induction xs rule: rev_induct) (auto simp: log_map_snoc log_map_Nil)

text \<open>Where the processor expects the deposit and the message of a transfer, counted in logs.\<close>

definition transfer_offsets :: "abis \<Rightarrow> hash \<Rightarrow> (u64 \<times> u64) option" where
  "transfer_offsets A sig =
     (if sig = ev_ID (a_ETHBridgeInitiated A) then Some (1, 2)
      else if sig = ev_ID (a_MNTBridgeInitiated A) then Some (6, 7)
      else if sig = ev_ID (a_ERC20BridgeInitiated A) then Some (1, 2) else None)"

lemma l1_bridge_row_linked:
  assumes "l1_bridge_row A (log_map pd_Event ds) (log_map sme_Event ms) b = Ok r"
    and "transfer_offsets A (ce_EventSignature (br_Event b)) = Some (dk, mk)"
  shows "(\<exists>d \<in> set ds. log_key (pd_Event d) = (ce_BlockHash (br_Event b), ce_LogIndex (br_Event b) + dk))
       \<and> (\<exists>m \<in> set ms. log_key (sme_Event m) = (ce_BlockHash (br_Event b), ce_LogIndex (br_Event b) + mk))"
  using assms
  by (auto simp: l1_bridge_row_def transfer_offsets_def Let_def l1_linked_row_def following_def
      split: if_splits option.splits dest!: log_map_Some)



text \<open>C5: a window of L1 blocks that is processed without an error changes the table of the deposits only: it
  keeps every row up to the columns the bridge events fill in, and appends one pending row for each
  TransactionDeposited event of the portal, in order, with the event's transaction, source hash,
  sender, ETH value, gas limit and time and the number of its block.\<close>

theorem l1_deposits_stored:
  assumes "gorms_ok G"
    and "L1ProcessInitiatedBridgeEvents G A uuid c from to s = (Ok (), s')"
    and "OptimismPortalTransactionDepositEvents G A (OptimismPortalProxy c) from to s = Ok deposits"
    and "distinct (map l12_GUID (l1_to_l2 s) @ map uuid [0..<length deposits])"
  shows "s' = s\<lparr>l1_to_l2 := l1_to_l2 s'\<rparr>
     \<and> length (l1_to_l2 s') = length (l1_to_l2 s) + length deposits
     \<and> (\<forall>i < length (l1_to_l2 s). deposit_core (l1_to_l2 s' ! i) = deposit_core (l1_to_l2 s ! i))
     \<and> (\<forall>i < length deposits. \<exists>n. L1ToL2_GetBlockNumberFromHash G (ce_BlockHash (pd_Event (deposits ! i))) s = Ok n
          \<and> deposit_core (l1_to_l2 s' ! (length (l1_to_l2 s) + i))
            = zero_L1ToL2\<lparr>l12_GUID := uuid i, l12_L1BlockNumber := n, l12_L2BlockNumber := Some 0,
                l12_L1TransactionHash := ce_TransactionHash (pd_Event (deposits ! i)),
                l12_TransactionSourceHash := dt_SourceHash (pd_DepositTx (deposits ! i)),
                l12_L1TxOrigin := dt_From (pd_DepositTx (deposits ! i)), l12_Status := L1ToL2Pending,
                l12_ETHAmount := dt_EthValue (pd_DepositTx (deposits ! i)),
                l12_GasLimit := pd_GasLimit (deposits ! i), l12_Version := 1,
                l12_Timestamp := sint (ce_Timestamp (pd_Event (deposits ! i)))\<rparr>)"
proof -
  obtain rows t where t: "s' = s\<lparr>l1_to_l2 := t\<rparr>" "length rows = length deposits"
      "\<forall>i < length deposits. deposit_row G uuid i (deposits ! i) s = Ok (rows ! i)"
      "map (\<lambda>r. (l12_GUID r, deposit_core r)) t = map (\<lambda>r. (l12_GUID r, deposit_core r)) (l1_to_l2 s @ rows)"
    using l1_initiated_rows[OF assms] by blast
  have len: "length t = length (l1_to_l2 s) + length deposits"
    using arg_cong[OF t(4), of length] t(2) by simp
  have core: "deposit_core (t ! i) = deposit_core ((l1_to_l2 s @ rows) ! i)" if "i < length t" for i
    using arg_cong[OF t(4), of "\<lambda>xs. snd (xs ! i)"] that len t(2) by (simp del: map_append)
  have new: "\<exists>n. L1ToL2_GetBlockNumberFromHash G (ce_BlockHash (pd_Event (deposits ! i))) s = Ok n
          \<and> deposit_core (rows ! i)
            = zero_L1ToL2\<lparr>l12_GUID := uuid i, l12_L1BlockNumber := n, l12_L2BlockNumber := Some 0,
                l12_L1TransactionHash := ce_TransactionHash (pd_Event (deposits ! i)),
                l12_TransactionSourceHash := dt_SourceHash (pd_DepositTx (deposits ! i)),
                l12_L1TxOrigin := dt_From (pd_DepositTx (deposits ! i)), l12_Status := L1ToL2Pending,
                l12_ETHAmount := dt_EthValue (pd_DepositTx (deposits ! i)),
                l12_GasLimit := pd_GasLimit (deposits ! i), l12_Version := 1,
                l12_Timestamp := sint (ce_Timestamp (pd_Event (deposits ! i)))\<rparr>" if i: "i < length deposits" for i
  proof -
    have "deposit_row G uuid i (deposits ! i) s = Ok (rows ! i)" using t(3) i by blast
    then obtain n where n: "L1ToL2_GetBlockNumberFromHash G (ce_BlockHash (pd_Event (deposits ! i))) s = Ok n"
      and r: "deposit_row G uuid i (deposits ! i) s = Ok (rows ! i)" by (auto simp: deposit_row_def)
    show ?thesis using n r[unfolded deposit_row_def n bindR.simps, THEN sym]
      by (intro exI[of _ n]) (simp add: deposit_core_def zero_L1ToL2_def)
  qed
  show ?thesis
    using t(1) len core new by (intro conjI allI impI) (simp_all add: nth_append)
qed

definition sample_contracts :: L1Contracts where
  "sample_contracts = \<lparr>AddressManager = 10, SystemConfigProxy = 11, OptimismPortalProxy = 1, L2OutputOracleProxy = 12,
     L1CrossDomainMessengerProxy = 2, L1StandardBridgeProxy = 3, L1ERC721BridgeProxy = 13,
     DataLayrServiceManagerAddr = 14, LegacyCanonicalTransactionChain = 15, LegacyStateCommitmentChain = 16\<rparr>"

definition deposit_event :: ContractEvent where
  "deposit_event = \<lparr>ce_GUID = 1, ce_BlockHash = 1, ce_ContractAddress = 1, ce_TransactionHash = 4, ce_LogIndex = 6,
     ce_EventSignature = DepositEventABIHash BytesToHash, ce_Timestamp = 9,
     ce_RLPLog = sample_deposit_log BytesToHash\<rparr>"

definition sample_deposit :: OptimismPortalTransactionDepositEvent where
  "sample_deposit = \<lparr>pd_Event = AfterFind deposit_event,
     pd_DepositTx = \<lparr>dt_SourceHash = UserDepositSource_SourceHash BytesToHash \<lparr>ud_L1BlockHash = 1, ud_LogIndex = 6\<rparr>,
       dt_From = 2, dt_To = Some 3, dt_Mint = None, dt_Value = Some 7, dt_Gas = 21000,
       dt_IsSystemTransaction = False, dt_EthValue = Some 9, dt_Data = [5, 6]\<rparr>,
     pd_FromAddress = 2, pd_ToAddress = 3, pd_ETHAmount = Some 9, pd_ERC20Amount = Some 7, pd_Data = [5, 6],
     pd_Timestamp = 9, pd_GasLimit = Some 21000\<rparr>"

lemma sample_deposit_read:
  "OptimismPortalTransactionDepositEvents mem_gorms sample_abis 1 (Some 1) (Some 1) (events_db [deposit_event] [])
   = Ok [sample_deposit]"
proof -
  have q: "L1ContractEventsWithFilter mem_gorms (contract_filter 1 (ev_ID (a_TransactionDeposited sample_abis))) (Some 1) (Some 1)
      (events_db [deposit_event] []) = Ok [AfterFind deposit_event]"
    by (simp add: query_simps deposit_event_def)
  have d: "UnmarshalDepositLogEvent BytesToHash (ce_RLPLog (AfterFind deposit_event)) = Ok (pd_DepositTx sample_deposit)"
    using decode_deposit_log[of 0 7 9 "[5, 6]" "ce_RLPLog (AfterFind deposit_event)" BytesToHash 2 3 21000 False]
    by (simp add: deposit_event_def sample_deposit_log_def AfterFind_def rlp_log_def nil_if_zero_def sample_deposit_def)
  have u: "UnpackLog zero_TransactionDeposited (ce_RLPLog (AfterFind deposit_event)) (Some (a_TransactionDeposited sample_abis))
      = Ok (zero_TransactionDeposited\<lparr>td_From := 2, td_To := 3\<rparr>)"
    by (simp add: UnpackLog_def deposit_event_def sample_deposit_log_def AfterFind_def rlp_log_def sample_abis_def simple_event_def)
  have k: "a_keccak sample_abis = BytesToHash" "ev_ID (a_TransactionDeposited sample_abis) = a_DepositEventABIHash sample_abis"
    by (simp_all add: sample_abis_def simple_event_def)
  show ?thesis unfolding OptimismPortalTransactionDepositEvents_def q decode_each_def
    by (simp add: k d u) (simp add: sample_deposit_def deposit_event_def AfterFind_def)
qed

text \<open>An ETH transfer whose deposit is not in the window.\<close>

definition orphan_events :: "ContractEvent list" where
  "orphan_events = [event_row 1 3 104 7 [5]]"



lemma sample_deposit_run:
  "fst (L1ProcessInitiatedBridgeEvents mem_gorms sample_abis of_nat sample_contracts (Some 1) (Some 1)
     (events_db [deposit_event] [])) = Ok ()"
proof -
  let ?s = "events_db [deposit_event] []"
  have p: "OptimismPortalTransactionDepositEvents mem_gorms sample_abis (OptimismPortalProxy sample_contracts) (Some 1) (Some 1) ?s
      = Ok [sample_deposit]" using sample_deposit_read by (simp add: sample_contracts_def)
  have none: "ContractEventsWithFilter mem_gorms (contract_filter a sig) ''l1'' (Some 1) (Some 1) ?s = Ok []"
    if "a \<noteq> 1" "a \<noteq> 0" for a sig
    using that by (simp add: query_simps deposit_event_def)
  have n: "L1ToL2_GetBlockNumberFromHash mem_gorms 1 ?s = Ok (Some 1)"
    by (simp add: L1ToL2_GetBlockNumberFromHash_def events_db_def empty_db_def sample_row_def number_of_row_def)
  have sent: "CrossDomainMessengerSentMessageEvents mem_gorms sample_abis ''l1'' (L1CrossDomainMessengerProxy sample_contracts)
      (Some 1) (Some 1) ?s = Ok []"
    by (simp add: CrossDomainMessengerSentMessageEvents_def none sample_contracts_def)
  have bridges: "StandardBridgeInitiatedEvents mem_gorms sample_abis ''l1'' (L1StandardBridgeProxy sample_contracts)
      (Some 1) (Some 1) ?s = Ok []"
    by (simp add: StandardBridgeInitiatedEvents_def standardBridgeEvents_def decode_each_def none sample_contracts_def)
  have h: "ce_BlockHash (pd_Event sample_deposit) = 1" by (simp add: sample_deposit_def AfterFind_def deposit_event_def)
  have "\<exists>r. deposit_row mem_gorms of_nat 0 sample_deposit ?s = Ok r"
    by (simp add: deposit_row_def n h)
  then obtain r where r: "deposit_row mem_gorms of_nat 0 sample_deposit ?s = Ok r" ..
  show ?thesis
    unfolding L1ProcessInitiatedBridgeEvents_def
    by (simp add: go_defs p build_rows_def r when_any_cases StoreL1ToL2Transactions_def zoomG_def sent bridges)
qed

lemma sample_deposit_read_portal:
  "OptimismPortalTransactionDepositEvents mem_gorms sample_abis (OptimismPortalProxy sample_contracts) (Some 1) (Some 1)
     (events_db [deposit_event] []) = Ok [sample_deposit]"
  using sample_deposit_read by (simp add: sample_contracts_def)

theorem l1_deposits_stored_witness:
  "map l12_TransactionSourceHash (l1_to_l2 (snd (L1ProcessInitiatedBridgeEvents mem_gorms sample_abis of_nat
      sample_contracts (Some 1) (Some 1) (events_db [deposit_event] [])))) = [dt_SourceHash (pd_DepositTx sample_deposit)]"
proof -
  let ?s = "events_db [deposit_event] []"
  let ?run = "L1ProcessInitiatedBridgeEvents mem_gorms sample_abis of_nat sample_contracts (Some 1) (Some 1) ?s"
  have "?run = (Ok (), snd ?run)" using sample_deposit_run by (simp add: prod_eq_iff)
  note T = l1_deposits_stored[OF mem_gorms_ok this sample_deposit_read_portal]
  have one: "length [sample_deposit] = 1" "l1_to_l2 ?s = []" by (simp_all add: events_db_def empty_db_def)
  have "length (l1_to_l2 (snd ?run)) = 1" "l12_TransactionSourceHash (deposit_core (l1_to_l2 (snd ?run) ! 0))
      = dt_SourceHash (pd_DepositTx sample_deposit)"
    using T unfolding one by auto
  then show ?thesis by (cases "l1_to_l2 (snd ?run)") (auto simp: deposit_core_def)
qed

text \<open>A bridge transfer is tied to its deposit and its message by position: when the window has no
  TransactionDeposited one log after the transfer (six for MNT) or no SentMessage two logs after it
  (seven for MNT), the window is not processed.\<close>

lemma l1_transfer_needs_deposit:
  assumes "gorms_ok G"
    and "OptimismPortalTransactionDepositEvents G A (OptimismPortalProxy c) from to s = Ok deposits"
    and "distinct (map l12_GUID (l1_to_l2 s) @ map uuid [0..<length deposits])"
    and "CrossDomainMessengerSentMessageEvents G A ''l1'' (L1CrossDomainMessengerProxy c) from to s = Ok sent"
    and "StandardBridgeInitiatedEvents G A ''l1'' (L1StandardBridgeProxy c) from to s = Ok bridges"
    and "b \<in> set bridges" "transfer_offsets A (ce_EventSignature (br_Event b)) = Some (dk, mk)"
    and "(\<forall>d \<in> set deposits. log_key (pd_Event d) \<noteq> (ce_BlockHash (br_Event b), ce_LogIndex (br_Event b) + dk))
       \<or> (\<forall>m \<in> set sent. log_key (sme_Event m) \<noteq> (ce_BlockHash (br_Event b), ce_LogIndex (br_Event b) + mk))"
  shows "fst (L1ProcessInitiatedBridgeEvents G A uuid c from to s) \<noteq> Ok ()"
proof
  assume "fst (L1ProcessInitiatedBridgeEvents G A uuid c from to s) = Ok ()"
  then have "L1ProcessInitiatedBridgeEvents G A uuid c from to s
      = (Ok (), snd (L1ProcessInitiatedBridgeEvents G A uuid c from to s))" by (simp add: prod_eq_iff)
  from l1_initiated_rows[OF assms(1) this assms(2,3)] assms(4,5)
  obtain links where "mapR (l1_bridge_row A (log_map pd_Event deposits) (log_map sme_Event sent)) bridges = Ok links"
    by auto
  then obtain r where "l1_bridge_row A (log_map pd_Event deposits) (log_map sme_Event sent) b = Ok r"
    using assms(6) by (auto simp: mapR_Ok_iff in_set_conv_nth)
  from l1_bridge_row_linked[OF this assms(7)] assms(8) show False by blast
qed

section \<open>Reading the sample events\<close>

lemmas read_simps = decode_each_def UnpackLog_def sample_bridge_def sample_token_def

lemma l1_events_at:
  "ContractEventsWithFilter G f ''l1'' from to s = L1ContractEventsWithFilter G f from to s"
  "ContractEventsWithFilter G f ''l2'' from to s = L2ContractEventsWithFilter G f from to s"
  by (simp_all add: ContractEventsWithFilter_def)

definition sample_l2_contracts :: L2Contracts where
  "sample_l2_contracts = \<lparr>L2ToL1MessagePasser = 1, L2CrossDomainMessenger = 2, L2StandardBridge = 3, L2ERC721Bridge = 4\<rparr>"

lemma event_queries:
  assumes "a \<noteq> 0" "sig \<noteq> 0" "\<forall>e \<in> set es. ce_BlockHash e = 1"
  shows "L1ContractEventsWithFilter mem_gorms (contract_filter a sig) (Some 1) (Some 1) (events_db es fs)
     = Ok (map AfterFind (filter (\<lambda>e. ce_ContractAddress e = a \<and> ce_EventSignature e = sig) es))"
    and "L2ContractEventsWithFilter mem_gorms (contract_filter a sig) (Some 1) (Some 1) (events_db fs es)
     = Ok (map AfterFind (filter (\<lambda>e. ce_ContractAddress e = a \<and> ce_EventSignature e = sig) es))"
proof -
  have j: "join_headers es [sample_row 1 1] = map (\<lambda>e. (e, sample_row 1 1)) es"
    using assms(3) by (induction es) (simp_all add: join_headers_def sample_row_def)
  have k: "sort_key (\<lambda>(e, h). bh_Number h) (map (\<lambda>e. (e, sample_row 1 1)) xs) = map (\<lambda>e. (e, sample_row 1 1)) xs"
    for xs :: "ContractEvent list"
    by (rule sort_key_id_if_sorted) (simp add: comp_def sorted_wrt_map)
  have f: "filter (\<lambda>(e, h). event_filter (contract_filter a sig) e \<and> 1 \<le> bh_Number h \<and> bh_Number h \<le> 1)
      (map (\<lambda>e. (e, sample_row 1 1)) es)
      = map (\<lambda>e. (e, sample_row 1 1)) (filter (\<lambda>e. ce_ContractAddress e = a \<and> ce_EventSignature e = sig) es)"
    using assms(1,2) by (simp add: filter_map comp_def sample_row_def event_filter_def contract_filter_def no_filter_def where_field_def)
  show "L1ContractEventsWithFilter mem_gorms (contract_filter a sig) (Some 1) (Some 1) (events_db es fs)
     = Ok (map AfterFind (filter (\<lambda>e. ce_ContractAddress e = a \<and> ce_EventSignature e = sig) es))"
    by (simp add: L1ContractEventsWithFilter_def events_db_def empty_db_def j f k empty_if_not_found_def comp_def)
  show "L2ContractEventsWithFilter mem_gorms (contract_filter a sig) (Some 1) (Some 1) (events_db fs es)
     = Ok (map AfterFind (filter (\<lambda>e. ce_ContractAddress e = a \<and> ce_EventSignature e = sig) es))"
    by (simp add: L2ContractEventsWithFilter_def events_db_def empty_db_def j f k empty_if_not_found_def comp_def)
qed

lemma event_row_sel [simp]:
  "ce_BlockHash (event_row g a sig i d) = 1" "ce_ContractAddress (event_row g a sig i d) = a"
  "ce_EventSignature (event_row g a sig i d) = sig" "ce_LogIndex (event_row g a sig i d) = i"
  "ce_TransactionHash (event_row g a sig i d) = 3" "ce_Timestamp (event_row g a sig i d) = 0"
  "Topics (ce_RLPLog (event_row g a sig i d)) = [sig]" "Data (ce_RLPLog (event_row g a sig i d)) = d"
  "Address (ce_RLPLog (event_row g a sig i d)) = a" "BlockHash (ce_RLPLog (event_row g a sig i d)) = 1"
  by (simp_all add: event_row_def)

lemma sample_ids [simp]:
  "ev_ID (a_SentMessage sample_abis) = 101" "ev_ID (a_RelayedMessage sample_abis) = 103"
  "ev_ID (a_ETHBridgeFinalized sample_abis) = 107" "ev_ID (a_ERC20BridgeFinalized sample_abis) = 108"
  "ev_ID (a_MNTBridgeFinalized sample_abis) = 109" "ev_ID (a_WithdrawalFinalized sample_abis) = 112"
  "ev_ID (a_ETHBridgeInitiated sample_abis) = 104" "ev_ID (a_ERC20BridgeInitiated sample_abis) = 105"
  "ev_ID (a_MNTBridgeInitiated sample_abis) = 106" "ev_ID (a_TransactionEnqueued sample_abis) = 115"
  "ev_ID (a_ETHDepositInitiated sample_abis) = 117" "ev_ID (a_ERC20DepositInitiated sample_abis) = 118"
  "ev_ID (a_MNTDepositInitiated sample_abis) = 119" "ev_ID (a_MessagePassed sample_abis) = 114"
  by (simp_all add: sample_abis_def simple_event_def sample_bridge_def sample_token_def)

lemma sample_number [simp]:
  "L1ToL2_GetBlockNumberFromHash mem_gorms 1 (events_db es fs) = Ok (Some 1)"
  "L2ToL1_GetBlockNumberFromHash mem_gorms 1 (events_db es fs) = Ok (Some 1)"
  by (simp_all add: L1ToL2_GetBlockNumberFromHash_def L2ToL1_GetBlockNumberFromHash_def events_db_def empty_db_def
      sample_row_def number_of_row_def)

section \<open>Withdrawals\<close>

definition withdrawal_core :: "L2ToL1 \<Rightarrow> L2ToL1" where
  "withdrawal_core r = r\<lparr>l21_L1BlockNumber := None, l21_FromAddress := 0, l21_ToAddress := 0, l21_ETHAmount := None,
     l21_ERC20Amount := None, l21_L1TokenAddress := 0, l21_L2TokenAddress := 0\<rparr>"

interpretation withdrawalcore: row_update l21_key withdrawal_core l21_by_txhash set_l21_info
  by unfold_locales (auto simp: set_l21_info_def withdrawal_core_def l21_key_def)

lemma keeps_withdrawal:
  assumes "gorms_ok G" "distinct (map l21_key (l2_to_l1 s))"
  shows "keeps_rows l2_to_l1 l2_to_l1_update (\<lambda>r. (l21_key r, withdrawal_core r)) (when_any (UpdateL2ToL1InfoByTxHash G) xs) s"
  by (rule keeps_loop[OF _ UpdateL2ToL1InfoByTxHash_def[THEN ext] withdrawalcore.loop_keeps[OF gorms_okD(10)[OF assms(1)] assms(2)]]) simp

lemma store_withdrawals:
  assumes "gorms_ok G" "when_any (StoreL2ToL1Transactions G) rows s = (Ok (), s')"
  shows "s' = s\<lparr>l2_to_l1 := l2_to_l1 s @ rows\<rparr>"
  using assms(2) zoom_create_Ok[OF gorms_okD(10)[OF assms(1)], of l2_to_l1 l2_to_l1_update rows s "()" s']
  by (auto simp: when_any_cases StoreL2ToL1Transactions_def retG_def split: if_splits)

lemma withdrawal_row_key: "withdrawal_row G uuid i m s = Ok r \<Longrightarrow> l21_GUID r = uuid i"
  by (auto simp: withdrawal_row_def)

text \<open>The rows that have the same GUID as another have the same key only if their blocks are equal
  too; new GUIDs are enough for new keys.\<close>

lemma distinct_keys: "distinct (map l21_GUID rs) \<Longrightarrow> distinct (map l21_key rs)"
  by (auto simp: distinct_map inj_on_def l21_key_def)

lemma distinct_keys_append:
  assumes "distinct (map l21_key rs)" "distinct (map l21_GUID ss)" "\<forall>r \<in> set rs. \<forall>x \<in> set ss. l21_GUID r \<noteq> l21_GUID x"
  shows "distinct (map l21_key (rs @ ss))"
  using assms distinct_keys[of ss] by (auto simp: l21_key_def)

lemma l2_initiated_rows:
  assumes "gorms_ok G"
    and run: "L2ProcessInitiatedBridgeEvents G A uuid c from to s = (Ok (), s')"
    and pass: "L2ToL1MessagePasserMessagePassedEvents G A (L2ToL1MessagePasser c) from to s = Ok passed"
    and old: "distinct (map l21_key (l2_to_l1 s))"
    and new: "distinct (map uuid [0..<length passed])" "\<forall>r \<in> set (l2_to_l1 s). \<forall>i < length passed. l21_GUID r \<noteq> uuid i"
  shows "\<exists>rows t. s' = s\<lparr>l2_to_l1 := t\<rparr> \<and> length rows = length passed
     \<and> (\<forall>i < length passed. withdrawal_row G uuid i (passed ! i) s = Ok (rows ! i))
     \<and> map (\<lambda>r. (l21_key r, withdrawal_core r)) t = map (\<lambda>r. (l21_key r, withdrawal_core r)) (l2_to_l1 s @ rows)"
proof -
  let ?p = "\<lambda>r. (l21_key r, withdrawal_core r)"
  from run pass have "\<exists>rows s0 s1 sent s2 links.
      build_rows (withdrawal_row G uuid) passed s = (Ok rows, s0)
    \<and> when_any (StoreL2ToL1Transactions G) rows s0 = (Ok (), s1)
    \<and> when_any (UpdateL2ToL1InfoByTxHash G) (map l2_message_row sent) s1 = (Ok (), s2)
    \<and> when_any (UpdateL2ToL1InfoByTxHash G) links s2 = (Ok (), s')"
    unfolding L2ProcessInitiatedBridgeEvents_def
    by (simp add: bindG_eq_Ok thenG_eq_Ok readG_def liftR_def) blast
  then obtain rows s0 s1 sent s2 links where
      b: "build_rows (withdrawal_row G uuid) passed s = (Ok rows, s0)"
    and st: "when_any (StoreL2ToL1Transactions G) rows s0 = (Ok (), s1)"
    and ms: "when_any (UpdateL2ToL1InfoByTxHash G) (map l2_message_row sent) s1 = (Ok (), s2)"
    and inf: "when_any (UpdateL2ToL1InfoByTxHash G) links s2 = (Ok (), s')" by blast
  from build_rows_Ok[OF b] have r: "s0 = s" "length rows = length passed"
    "\<forall>i < length passed. withdrawal_row G uuid i (passed ! i) s = Ok (rows ! i)" by auto
  have s1: "s1 = s\<lparr>l2_to_l1 := l2_to_l1 s @ rows\<rparr>" using store_withdrawals[OF assms(1) st] r by simp
  have g: "map l21_GUID rows = map uuid [0..<length passed]"
    using r withdrawal_row_key by (intro nth_equalityI) auto
  have "\<forall>x \<in> set rows. \<exists>i < length passed. l21_GUID x = uuid i"
    using r withdrawal_row_key by (metis in_set_conv_nth)
  then have d1: "distinct (map l21_key (l2_to_l1 s1))"
    using distinct_keys_append[OF old, of rows] new g s1 by force
  from keeps_keys[OF keeps_withdrawal[OF assms(1) d1] ms d1]
  obtain t2 where t2: "s2 = s1\<lparr>l2_to_l1 := t2\<rparr>" "map ?p t2 = map ?p (l2_to_l1 s1)" "distinct (map l21_key t2)"
    by blast
  then have d2: "distinct (map l21_key (l2_to_l1 s2))" by simp
  from keeps_keys[OF keeps_withdrawal[OF assms(1) d2] inf d2]
  obtain t3 where t3: "s' = s2\<lparr>l2_to_l1 := t3\<rparr>" "map ?p t3 = map ?p (l2_to_l1 s2)" by blast
  have "s' = s\<lparr>l2_to_l1 := t3\<rparr>" "map ?p t3 = map ?p (l2_to_l1 s @ rows)" using s1 t2 t3 by simp_all
  then show ?thesis using r by blast
qed

text \<open>C6: a window of L2 blocks that is processed without an error appends one pending withdrawal with no time
  left for each MessagePassed event, with its withdrawal hash, nonce and gas limit, and keeps the
  earlier rows up to the L1 block and the columns the bridge events fill in.  The message hash of a
  withdrawal stays zero: none of the updates sets it.\<close>

theorem l2_withdrawals_stored:
  assumes "gorms_ok G"
    and "L2ProcessInitiatedBridgeEvents G A uuid c from to s = (Ok (), s')"
    and "L2ToL1MessagePasserMessagePassedEvents G A (L2ToL1MessagePasser c) from to s = Ok passed"
    and "distinct (map l21_key (l2_to_l1 s))"
    and "distinct (map uuid [0..<length passed])" "\<forall>r \<in> set (l2_to_l1 s). \<forall>i < length passed. l21_GUID r \<noteq> uuid i"
  shows "s' = s\<lparr>l2_to_l1 := l2_to_l1 s'\<rparr>
     \<and> length (l2_to_l1 s') = length (l2_to_l1 s) + length passed
     \<and> (\<forall>i < length (l2_to_l1 s). withdrawal_core (l2_to_l1 s' ! i) = withdrawal_core (l2_to_l1 s ! i))
     \<and> (\<forall>i < length passed. \<exists>n. L2ToL1_GetBlockNumberFromHash G (ce_BlockHash (ps_Event (passed ! i))) s = Ok n
          \<and> withdrawal_core (l2_to_l1 s' ! (length (l2_to_l1 s) + i))
            = zero_L2ToL1\<lparr>l21_GUID := uuid i, l21_L2BlockNumber := n, l21_MsgNonce := ps_Nonce (passed ! i),
                l21_L2TransactionHash := ce_TransactionHash (ps_Event (passed ! i)),
                l21_WithdrawTransactionHash := ps_WithdrawalHash (passed ! i), l21_MessageHash := 0,
                l21_Status := L2ToL1Pending, l21_GasLimit := ps_GasLimit (passed ! i), l21_TimeLeft := Some 0,
                l21_Version := 1, l21_Timestamp := sint (ce_Timestamp (ps_Event (passed ! i)))\<rparr>)"
proof -
  obtain rows t where t: "s' = s\<lparr>l2_to_l1 := t\<rparr>" "length rows = length passed"
      "\<forall>i < length passed. withdrawal_row G uuid i (passed ! i) s = Ok (rows ! i)"
      "map (\<lambda>r. (l21_key r, withdrawal_core r)) t = map (\<lambda>r. (l21_key r, withdrawal_core r)) (l2_to_l1 s @ rows)"
    using l2_initiated_rows[OF assms] by blast
  have len: "length t = length (l2_to_l1 s) + length passed"
    using arg_cong[OF t(4), of length] t(2) by simp
  have core: "withdrawal_core (t ! i) = withdrawal_core ((l2_to_l1 s @ rows) ! i)" if "i < length t" for i
    using arg_cong[OF t(4), of "\<lambda>xs. snd (xs ! i)"] that len t(2) by (simp del: map_append)
  have new: "\<exists>n. L2ToL1_GetBlockNumberFromHash G (ce_BlockHash (ps_Event (passed ! i))) s = Ok n
          \<and> withdrawal_core (rows ! i)
            = zero_L2ToL1\<lparr>l21_GUID := uuid i, l21_L2BlockNumber := n, l21_MsgNonce := ps_Nonce (passed ! i),
                l21_L2TransactionHash := ce_TransactionHash (ps_Event (passed ! i)),
                l21_WithdrawTransactionHash := ps_WithdrawalHash (passed ! i), l21_MessageHash := 0,
                l21_Status := L2ToL1Pending, l21_GasLimit := ps_GasLimit (passed ! i), l21_TimeLeft := Some 0,
                l21_Version := 1, l21_Timestamp := sint (ce_Timestamp (ps_Event (passed ! i)))\<rparr>"
    if i: "i < length passed" for i
  proof -
    have r: "withdrawal_row G uuid i (passed ! i) s = Ok (rows ! i)" using t(3) i by blast
    then obtain n where n: "L2ToL1_GetBlockNumberFromHash G (ce_BlockHash (ps_Event (passed ! i))) s = Ok n"
      by (auto simp: withdrawal_row_def)
    show ?thesis using n r[unfolded withdrawal_row_def n bindR.simps, THEN sym]
      by (intro exI[of _ n]) (simp add: withdrawal_core_def zero_L2ToL1_def)
  qed
  show ?thesis
    using t(1) len core new by (intro conjI allI impI) (simp_all add: nth_append)
qed

theorem l2_withdrawals_stored_witness:
  "map l21_WithdrawTransactionHash (l2_to_l1 (snd (L2ProcessInitiatedBridgeEvents mem_gorms sample_abis of_nat
     sample_l2_contracts (Some 1) (Some 1) (events_db [] [event_row 1 1 114 0 [8]])))) = [8]"
proof -
  let ?s = "events_db [] [event_row 1 1 114 0 [8]]"
  let ?run = "L2ProcessInitiatedBridgeEvents mem_gorms sample_abis of_nat sample_l2_contracts (Some 1) (Some 1) ?s"
  have "\<exists>m. L2ToL1MessagePasserMessagePassedEvents mem_gorms sample_abis 1 (Some 1) (Some 1) ?s = Ok [m]
      \<and> ps_WithdrawalHash m = 8 \<and> ce_BlockHash (ps_Event m) = 1"
    by (simp add: L2ToL1MessagePasserMessagePassedEvents_def event_queries read_simps)
       (simp add: sample_abis_def simple_event_def BytesToHash_def SetBytes_def)
  then obtain m where p: "L2ToL1MessagePasserMessagePassedEvents mem_gorms sample_abis (L2ToL1MessagePasser sample_l2_contracts)
      (Some 1) (Some 1) ?s = Ok [m]" and m: "ps_WithdrawalHash m = 8" "ce_BlockHash (ps_Event m) = 1"
    by (auto simp: sample_l2_contracts_def)
  have sent: "CrossDomainMessengerSentMessageEvents mem_gorms sample_abis ''l2'' (L2CrossDomainMessenger sample_l2_contracts)
      (Some 1) (Some 1) ?s = Ok []"
    by (simp add: CrossDomainMessengerSentMessageEvents_def l1_events_at event_queries sample_l2_contracts_def)
  have bridges: "StandardBridgeInitiatedEvents mem_gorms sample_abis ''l2'' (L2StandardBridge sample_l2_contracts)
      (Some 1) (Some 1) ?s = Ok []"
    by (simp add: StandardBridgeInitiatedEvents_def standardBridgeEvents_def decode_each_def l1_events_at event_queries sample_l2_contracts_def)
  have "\<exists>r. withdrawal_row mem_gorms of_nat 0 m ?s = Ok r" by (simp add: withdrawal_row_def m)
  then obtain r where r: "withdrawal_row mem_gorms of_nat 0 m ?s = Ok r" ..
  have "fst ?run = Ok ()"
    unfolding L2ProcessInitiatedBridgeEvents_def
    by (simp add: go_defs p build_rows_def r when_any_cases StoreL2ToL1Transactions_def zoomG_def sent bridges)
  then have run: "?run = (Ok (), snd ?run)" by (simp add: prod_eq_iff)
  have one: "length [m] = 1" "l2_to_l1 ?s = []" by (simp_all add: events_db_def empty_db_def)
  have "length (l2_to_l1 (snd ?run)) = 1" "l21_WithdrawTransactionHash (withdrawal_core (l2_to_l1 (snd ?run) ! 0)) = 8"
    using l2_withdrawals_stored[OF mem_gorms_ok run p] m unfolding one by auto
  then show ?thesis by (cases "l2_to_l1 (snd ?run)") (auto simp: withdrawal_core_def)
qed

section \<open>Finalized transfers\<close>

text \<open>Entry i of the list exists for the i-th transfer, because the transfers before it and itself
  have different relayed messages.\<close>

lemma linked_transfers:
  assumes "distinct (map (log_key \<circ> br_Event) bs)"
    and "\<forall>b \<in> set bs. \<exists>m \<in> set ms. log_key (rme_Event m) = (ce_BlockHash (br_Event b), ce_LogIndex (br_Event b) + 1)"
  shows "length bs \<le> length ms"
proof -
  let ?f = "\<lambda>k :: logKey. (fst k, snd k + 1)"
  have "(?f \<circ> (log_key \<circ> br_Event)) ` set bs \<subseteq> (log_key \<circ> rme_Event) ` set ms"
    using assms(2) by (force simp: log_key_def)
  then have "card ((?f \<circ> (log_key \<circ> br_Event)) ` set bs) \<le> card ((log_key \<circ> rme_Event) ` set ms)"
    by (intro card_mono) auto
  moreover have "inj_on ?f X" for X by (auto simp: inj_on_def)
  then have "card ((?f \<circ> (log_key \<circ> br_Event)) ` set bs) = card ((log_key \<circ> br_Event) ` set bs)"
    unfolding image_comp[symmetric] by (intro card_image)
  moreover have "card ((log_key \<circ> br_Event) ` set bs) = length bs"
    using distinct_card[OF assms(1)] by simp
  moreover have "card ((log_key \<circ> rme_Event) ` set ms) \<le> length ms"
    by (rule order_trans[OF card_image_le card_length]) simp
  ultimately show ?thesis by simp
qed

definition has_relayed :: "CrossDomainMessengerRelayedMessageEvent list \<Rightarrow> BridgeEvent \<Rightarrow> bool" where
  "has_relayed ms b = (\<exists>m \<in> set ms. log_key (rme_Event m) = (ce_BlockHash (br_Event b), ce_LogIndex (br_Event b) + 1))"

lemma following_linked: "following (log_map rme_Event ms) (br_Event b) 1 e = Ok m \<Longrightarrow> has_relayed ms b"
  by (auto simp: following_def has_relayed_def split: option.splits dest!: log_map_Some)

lemma finalized_entries:
  assumes "distinct (map (log_key \<circ> br_Event) (pre @ bs))" "\<forall>b \<in> set pre. has_relayed ms b" "length rows = length ms"
  shows "foldR (finalized_bridge_entry (log_map rme_Event ms)) (enumerate (length pre) bs) rows \<noteq> Panic p
    \<and> (\<forall>rows'. foldR (finalized_bridge_entry (log_map rme_Event ms)) (enumerate (length pre) bs) rows = Ok rows'
         \<longrightarrow> (\<forall>b \<in> set bs. has_relayed ms b))"
  using assms
proof (induction bs arbitrary: pre rows)
  case (Cons b bs)
  show ?case
  proof (cases "following (log_map rme_Event ms) (br_Event b) 1 ''expected RelayedMessage following BridgeFinalized event''")
    case (Ok m)
    have l: "\<forall>x \<in> set (pre @ [b]). has_relayed ms x" using following_linked[OF Ok] Cons.prems(2) by auto
    then have "length (pre @ [b]) \<le> length ms"
      using Cons.prems(1) by (intro linked_transfers) (auto simp: has_relayed_def comp_def)
    then have "length pre < length rows" using Cons.prems(3) by simp
    then obtain rows1 where "finalized_bridge_entry (log_map rme_Event ms) (length pre, b) rows = Ok rows1"
      "length rows1 = length ms"
      using Ok Cons.prems(3) by (auto simp: finalized_bridge_entry_def updateR_def)
    then show ?thesis using Cons.IH[of "pre @ [b]" rows1] Cons.prems(1) l by simp
  qed (auto simp: finalized_bridge_entry_def following_def split: option.splits)
qed simp

lemma update_each_no_panic:
  assumes "gorm_ok key G" "\<And>x p. skip x \<noteq> Panic p" "\<And>x r p. md x r \<noteq> Panic p"
  shows "fst (update_each G skip cond md xs t) \<noteq> Panic p"
proof (induction xs arbitrary: t)
  case (Cons x xs)
  then show ?case
    using assms(2)[of x] assms(3)[of x] gorm_take(3)[OF assms(1), of "cond x" t] gorm_save(3)[OF assms(1)]
    by (auto split: result.splits bool.splits prod.splits)
qed simp

lemma forG_no_panic: "(\<And>x s p. x \<in> set xs \<Longrightarrow> fst (f x s) \<noteq> Panic p) \<Longrightarrow> fst (forG f xs s) \<noteq> Panic p"
  by (induction xs arbitrary: s p) (simp add: retG_def, simp, rule thenG_no_panic, simp_all)

lemma number_no_panic: "gorms_ok G \<Longrightarrow> L1ToL2_GetBlockNumberFromHash G h s \<noteq> Panic p"
  using gorm_take(3)[OF gorms_okD(1)]
  by (auto simp: L1ToL2_GetBlockNumberFromHash_def bindR_eq_Panic nil_if_not_found_def split: result.splits)

lemma mapR_Panic: "mapR f xs = Panic p \<Longrightarrow> \<exists>x \<in> set xs. f x = Panic p"
  by (induction xs) (auto simp: bindR_eq_Panic)

lemma bindG_no_panic:
  "(\<And>p. fst (m s) \<noteq> Panic p) \<Longrightarrow> (\<And>a t. m s = (Ok a, t) \<Longrightarrow> fst (f a t) \<noteq> Panic p) \<Longrightarrow> fst (bindG m f s) \<noteq> Panic p"
  by (cases "m s"; cases "fst (m s)") (auto simp: bindG_def)

text \<open>The finalized transfers of a window never index past the list that is made with one entry for each
  relayed message, because different transfers need different messages; and a window that is
  processed has a relayed message one log after each of its transfers.\<close>

lemma l1_finalized_never_panics:
  assumes "gorms_ok G"
    and "OptimismPortalWithdrawalFinalizedEvents G A (OptimismPortalProxy c) from to s = Ok finalized"
    and "CrossDomainMessengerRelayedMessageEvents G A ''l1'' (L1CrossDomainMessengerProxy c) from to s = Ok relayed"
    and "StandardBridgeFinalizedEvents G A ''l1'' (L1StandardBridgeProxy c) from to s = Ok bridges"
    and "distinct (map (log_key \<circ> br_Event) bridges)"
  shows "fst (L1ProcessFinalizedBridgeEvents G A uuid c from to s) \<noteq> Panic p
     \<and> (fst (L1ProcessFinalizedBridgeEvents G A uuid c from to s) = Ok () \<longrightarrow> (\<forall>b \<in> set bridges. has_relayed relayed b))"
proof -
  let ?q = "readG (OptimismPortalWithdrawalFinalizedEvents G A (OptimismPortalProxy c) from to)"
  let ?rows = "build_rows (finalized_row G uuid) finalized"
  let ?entries = "foldR (finalized_bridge_entry (log_map rme_Event relayed)) (enumerate 0 bridges)
              (replicate (length relayed) zero_WithdrawFinalized)"
  let ?rest = "bindG (liftR ?entries) (\<lambda>rows. forG (\<lambda>tokenAddr. UpdateWithdrawFinalizedInfo G rows)
                 (remdups (map br_LocalTokenAddress bridges)))"
  have rest: "fst (?rest t) \<noteq> Panic p" "fst (?rest t) = Ok () \<longrightarrow> (\<forall>b \<in> set bridges. has_relayed relayed b)" for t p
  proof -
    have e: "?entries \<noteq> Panic p'" "\<forall>rows'. ?entries = Ok rows' \<longrightarrow> (\<forall>b \<in> set bridges. has_relayed relayed b)" for p'
      using finalized_entries[of "[]" bridges relayed "replicate (length relayed) zero_WithdrawFinalized" p'] assms(5)
      by simp_all
    have u: "fst (UpdateWithdrawFinalizedInfo G rows t) \<noteq> Panic p" for rows t p
      unfolding UpdateWithdrawFinalizedInfo_def zoomG_def fst_conv
      by (rule update_each_no_panic[OF gorms_okD(6)[OF assms(1)]]) simp_all
    show "fst (?rest t) \<noteq> Panic p" by (intro bindG_no_panic forG_no_panic u) (simp_all add: liftR_def e)
    show "fst (?rest t) = Ok () \<longrightarrow> (\<forall>b \<in> set bridges. has_relayed relayed b)"
      using e(2) by (cases ?entries) (auto simp: bindG_def liftR_def)
  qed
  have store: "fst (when_any (StoreWithdrawFinalized G) rows s) \<noteq> Panic p" for rows p
    by (simp add: when_any_cases StoreWithdrawFinalized_def retG_def zoom_create_no_panic[OF gorms_okD(6)[OF assms(1)]])
  have table: "\<exists>t. snd (when_any (StoreWithdrawFinalized G) rows s) = s\<lparr>withdraw_finalized := t\<rparr>" for rows
    by (auto simp: when_any_cases StoreWithdrawFinalized_def retG_def zoomG_def intro: exI[of _ "withdraw_finalized s"])
  have rows: "fst (?rows s) \<noteq> Panic p" "snd (?rows s) = s" for p
    using number_no_panic[OF assms(1)]
    by (auto simp: build_rows_def readG_def finalized_row_def bindR_eq_Panic dest!: mapR_Panic)
  have tail: "bindG (readG (CrossDomainMessengerRelayedMessageEvents G A ''l1'' (L1CrossDomainMessengerProxy c) from to)) (\<lambda>relayed'.
        bindG (readG (StandardBridgeFinalizedEvents G A ''l1'' (L1StandardBridgeProxy c) from to)) (k relayed')) (s\<lparr>withdraw_finalized := t\<rparr>)
       = k relayed bridges (s\<lparr>withdraw_finalized := t\<rparr>)" for k :: "_ \<Rightarrow> _ \<Rightarrow> (db, unit) go" and t
    using assms(3,4) by (simp add: bindG_def readG_def)
  have r0: "?q s = (Ok finalized, s)"
    by (simp add: readG_def assms(2))
  obtain r1 where r1: "?rows s = (r1, s)" "\<forall>p. r1 \<noteq> Panic p" using rows by (cases "?rows s") auto
  note run = L1ProcessFinalizedBridgeEvents_def thenG_def bindG_Ok[of ?q s, OF r0]
  show ?thesis
  proof (cases r1)
    case (Ok rs)
    obtain r2 t where r2: "when_any (StoreWithdrawFinalized G) rs s = (r2, s\<lparr>withdraw_finalized := t\<rparr>)" "\<forall>p. r2 \<noteq> Panic p"
      using store[of rs] table[of rs] by (cases "when_any (StoreWithdrawFinalized G) rs s") auto
    show ?thesis
    proof (cases r2)
      case (Ok u)
      show ?thesis using rest[of "s\<lparr>withdraw_finalized := t\<rparr>"]
        by (simp add: run bindG_Ok[of ?rows s, OF r1(1)[unfolded \<open>r1 = Ok rs\<close>]] bindG_Ok[of "when_any (StoreWithdrawFinalized G) rs" s, OF r2(1)[unfolded Ok]] tail)
    next
      case (Err e)
      show ?thesis by (simp add: run bindG_Ok[of ?rows s, OF r1(1)[unfolded \<open>r1 = Ok rs\<close>]] bindG_Err[of "when_any (StoreWithdrawFinalized G) rs" s, OF r2(1)[unfolded Err]])
    qed (use r2 in simp)
  next
    case (Err e)
    show ?thesis by (simp add: run bindG_Err[of ?rows s, OF r1(1)[unfolded Err]])
  qed (use r1 in simp)
qed

section \<open>Legacy deposits and withdrawals\<close>

text \<open>The map of the deposits of the window is never filled.\<close>

lemma legacy_bridges_update:
  "L1StandardBridgeLegacyDepositInitiatedEvents G A addr from to (s\<lparr>l1_to_l2 := x\<rparr>)
   = L1StandardBridgeLegacyDepositInitiatedEvents G A addr from to s"
proof -
  have "L1ContractEventsWithFilter G f from to (s\<lparr>l1_to_l2 := x\<rparr>) = L1ContractEventsWithFilter G f from to s" for f
    using events_update(1)[of G f "''l1''"] by (simp add: ContractEventsWithFilter_def)
  then show ?thesis by (simp add: L1StandardBridgeLegacyDepositInitiatedEvents_def)
qed

text \<open>A window of legacy blocks with a deposit whose block can be looked up is a panic and stores nothing:
  the rows are written to a slice of length zero.\<close>

lemma legacy_deposits_panic:
  assumes "gorms_ok G"
    and "LegacyCTCDepositEvents G A (LegacyCanonicalTransactionChain c) from to s = Ok events" "events \<noteq> []"
    and "L1ToL2_GetBlockNumberFromHash G (ce_BlockHash (ct_Event (hd events))) s = Ok n"
    and "ct_ETHAmount (hd events) = Some eth"
  shows "LegacyL1ProcessInitiatedBridgeEvents G A c from to s = (Panic ''index out of range'', s)"
proof -
  let ?q = "readG (LegacyCTCDepositEvents G A (LegacyCanonicalTransactionChain c) from to)"
  let ?rows = "\<lambda>s. foldR (legacy_deposit_row G s) (enumerate 0 events) []"
  obtain e es where e: "events = e # es" using assms(3) by (cases events) auto
  have q: "?q s = (Ok events, s)" by (simp add: readG_def assms(2))
  have "?rows s = Panic ''index out of range''"
    using assms(4,5) by (simp add: e legacy_deposit_row_def updateR_def)
  then have r: "readG ?rows s = (Panic ''index out of range'', s)" by (simp add: readG_def)
  show ?thesis
    by (simp add: LegacyL1ProcessInitiatedBridgeEvents_def bindG_Ok[of ?q s, OF q] bindG_Panic[of "readG ?rows" s, OF r])
qed

text \<open>A window of legacy blocks with a relayed message is a panic: the rows to be marked have no L1 block
  number, which the update dereferences.\<close>

lemma legacy_finalized_panics:
  assumes "CrossDomainMessengerRelayedMessageEvents G A ''l1'' (L1CrossDomainMessengerProxy c) from to s = Ok relayed"
    and "relayed \<noteq> []"
  shows "LegacyL1ProcessFinalizedBridgeEvents G A c from to s
     = (Panic ''invalid memory address or nil pointer dereference'', s)"
proof -
  let ?q = "readG (CrossDomainMessengerRelayedMessageEvents G A ''l1'' (L1CrossDomainMessengerProxy c) from to)"
  obtain m ms where m: "relayed = m # ms" using assms(2) by (cases relayed) auto
  have q: "?q s = (Ok relayed, s)" by (simp add: readG_def assms(1))
  show ?thesis
    by (simp add: LegacyL1ProcessFinalizedBridgeEvents_def bindG_Ok[of ?q s, OF q] m when_any_cases
        MarkL2ToL1TransactionWithdrawalFinalized_def zoomG_def skip_zero_block_def legacy_finalized_row_def zero_L2ToL1_def)
qed

text \<open>A window of legacy blocks with a bridge deposit is never processed: the map of the deposits it looks
  into is never filled.\<close>

lemma legacy_transfers_fail:
  assumes "L1StandardBridgeLegacyDepositInitiatedEvents G A (L1StandardBridgeProxy c) from to s = Ok bridges"
    and "bridges \<noteq> []"
  shows "fst (LegacyL1ProcessInitiatedBridgeEvents G A c from to s) \<noteq> Ok ()"
proof
  assume "fst (LegacyL1ProcessInitiatedBridgeEvents G A c from to s) = Ok ()"
  then obtain s' where "LegacyL1ProcessInitiatedBridgeEvents G A c from to s = (Ok (), s')" by (metis prod.collapse)
  then have "\<exists>(es :: LegacyCTCDepositEvent list) rows s1 sent s2 bs links.
      (if es \<noteq> [] then StoreL1ToL2Transactions G rows else retG ()) s = (Ok (), s1)
    \<and> when_any (UpdateMessageHashByTxHash G) (map legacy_message_row sent) s1 = (Ok (), s2)
    \<and> L1StandardBridgeLegacyDepositInitiatedEvents G A (L1StandardBridgeProxy c) from to s2 = Ok bs
    \<and> mapR (legacy_bridge_row (log_map sme_Event sent) (\<lambda>_. None)) bs = Ok links"
    unfolding LegacyL1ProcessInitiatedBridgeEvents_def Let_def
    by (simp add: bindG_eq_Ok thenG_eq_Ok readG_def liftR_def split del: if_split) blast
  then obtain es :: "LegacyCTCDepositEvent list" and rows s1 sent s2 bs links where
      st: "(if es \<noteq> [] then StoreL1ToL2Transactions G rows else retG ()) s = (Ok (), s1)"
    and up: "when_any (UpdateMessageHashByTxHash G) (map legacy_message_row sent) s1 = (Ok (), s2)"
    and br: "L1StandardBridgeLegacyDepositInitiatedEvents G A (L1StandardBridgeProxy c) from to s2 = Ok bs"
    and li: "mapR (legacy_bridge_row (log_map sme_Event sent) (\<lambda>_. None)) bs = Ok links"
    by blast
  have "\<exists>x. s1 = s\<lparr>l1_to_l2 := x\<rparr>"
    using st by (cases "es = []") (auto simp: StoreL1ToL2Transactions_def zoomG_def retG_def intro: exI[of _ "l1_to_l2 s"])
  moreover have "\<exists>y. s2 = s1\<lparr>l1_to_l2 := y\<rparr>"
    using up by (cases "sent = []") (auto simp: when_any_def UpdateMessageHashByTxHash_def zoomG_def retG_def intro: exI[of _ "l1_to_l2 s1"])
  ultimately obtain x y where x: "s1 = s\<lparr>l1_to_l2 := x\<rparr>" and y: "s2 = s1\<lparr>l1_to_l2 := y\<rparr>" by blast
  have "bs = bridges" using br assms(1) x y by (simp add: legacy_bridges_update)
  then obtain b bs' where "bs = b # bs'" using assms(2) by (cases bs) auto
  then show False using li by (auto simp: legacy_bridge_row_def following_def)
qed

section \<open>Data store events\<close>

definition confirmed_store :: "abis \<Rightarrow> address \<Rightarrow> log \<Rightarrow> (u64 \<times> hash) option" where
  "confirmed_store A manager l =
     (if Address l = manager \<and> Topics l ! 0 = ConfirmDataStoreEventABIHash (a_keccak A) \<and> Data l \<noteq> []
      then (case a_unpack_ConfirmDataStore A (Data l) of Ok n \<Rightarrow> Some (ucast n, BlockHash l) | _ \<Rightarrow> None) else None)"

lemma parse_logs:
  assumes "\<forall>l \<in> set ls. Address l = manager \<longrightarrow> Topics l \<noteq> []" "\<And>d p. a_unpack_ConfirmDataStore A d \<noteq> Panic p"
  shows "\<exists>es'. foldR (parse_da_log A uuid now manager) ls es = Ok es'
     \<and> map (\<lambda>e. (de_DataStoreId e, de_BlockHash e)) es' = map (\<lambda>e. (de_DataStoreId e, de_BlockHash e)) es @ List.map_filter (confirmed_store A manager) ls"
  using assms
proof (induction ls arbitrary: es)
  case (Cons l ls)
  have "\<exists>es1. parse_da_log A uuid now manager l es = Ok es1
     \<and> map (\<lambda>e. (de_DataStoreId e, de_BlockHash e)) es1
       = map (\<lambda>e. (de_DataStoreId e, de_BlockHash e)) es @ List.map_filter (confirmed_store A manager) [l]"
    using Cons.prems
    by (auto simp: parse_da_log_def confirmed_store_def indexR_def constructDataStoreEvent_def List.map_filter_def
        split: result.splits)
  then show ?case using Cons.IH Cons.prems by (fastforce simp: List.map_filter_def split: option.splits)
qed (simp add: List.map_filter_def)


lemma map_filter_zero: "Address zero_log = 0" by (simp add: zero_log_def zero_contract_event_def)

text \<open>Processing the data availability events never fails and stores, in order, a prefix of the confirmed
  data stores of the service manager's logs: all of them, or those of the batches that were written
  before a store error, which is dropped.  The zero logs in front are skipped as long as the
  manager's address is not zero.\<close>

lemma da_events_stored:
  assumes "gorms_ok G"
    and "L1ContractEventsWithFilter G (no_filter\<lparr>cf_ContractAddress := DataLayrServiceManagerAddr c\<rparr>) from to s = Ok events"
    and "DataLayrServiceManagerAddr c \<noteq> 0"
    and "\<forall>e \<in> set events. Topics (ce_RLPLog e) \<noteq> []" "\<And>d p. a_unpack_ConfirmDataStore A d \<noteq> Panic p"
    and "L1ProcessMantleDAEvents G A uuid now c from to s = (r, s')"
  shows "r = Ok () \<and> s' = s\<lparr>data_store_event := data_store_event s'\<rparr>
     \<and> (\<exists>k. map (\<lambda>e. (de_DataStoreId e, de_BlockHash e)) (data_store_event s')
          = map (\<lambda>e. (de_DataStoreId e, de_BlockHash e)) (data_store_event s)
            @ take k (List.map_filter (confirmed_store A (DataLayrServiceManagerAddr c)) (map ce_RLPLog events)))"
proof -
  let ?m = "DataLayrServiceManagerAddr c" and ?v = "\<lambda>e. (de_DataStoreId e, de_BlockHash e)"
  let ?logs = "replicate (length events) zero_log @ map ce_RLPLog events"
  let ?q = "readG (L1ContractEventsWithFilter G (no_filter\<lparr>cf_ContractAddress := ?m\<rparr>) from to)"
  have q: "?q s = (Ok events, s)" by (simp add: readG_def assms(2))
  have t: "\<forall>l \<in> set ?logs. Address l = ?m \<longrightarrow> Topics l \<noteq> []" using assms(3,4) map_filter_zero by auto
  from parse_logs[OF t assms(5), of uuid now "[]"] obtain es where
    es: "ParseMantleDaEvent A uuid now ?m ?logs = Ok es" "map ?v es = List.map_filter (confirmed_store A ?m) ?logs"
    by (auto simp: ParseMantleDaEvent_def)
  have "List.map_filter (confirmed_store A ?m) (replicate n zero_log) = []" for n
    using assms(3) map_filter_zero by (induction n) (auto simp: List.map_filter_def confirmed_store_def)
  then have v: "map ?v es = List.map_filter (confirmed_store A ?m) (map ce_RLPLog events)"
    using es(2) by (simp add: List.map_filter_def)
  have p: "liftR (ParseMantleDaEvent A uuid now ?m ?logs) s = (Ok es, s)" by (simp add: liftR_def es(1))
  obtain r' t where st: "StoreBatchDataStoreEvent G es s = (r', s\<lparr>data_store_event := t\<rparr>)"
    by (simp add: StoreBatchDataStoreEvent_def zoomG_def)
  have tk: "(\<forall>p. r' \<noteq> Panic p) \<and> (\<exists>k. t = data_store_event s @ take k es)"
  proof -
    have g: "g_create (G_daevent G) es (data_store_event s) = (r', t)"
      using st by (auto simp: StoreBatchDataStoreEvent_def zoomG_def prod_eq_iff dest: arg_cong[of _ _ data_store_event])
    have "create_ok es (data_store_event s) (r', t)" using gorm_okD(5)[OF gorms_okD(8)[OF assms(1)]] g by metis
    then show ?thesis by (cases r') (auto intro: exI[of _ "length es"])
  qed
  then obtain k where k: "t = data_store_event s @ take k es" by blast
  show ?thesis
  proof (cases "events = []")
    case True
    then have "r = Ok ()" "s' = s" using assms(6)
      by (simp_all add: L1ProcessMantleDAEvents_def bindG_Ok[of ?q s, OF q] retG_def)
    then show ?thesis using True by (simp add: List.map_filter_def)
  next
    case False
    have run: "L1ProcessMantleDAEvents G A uuid now c from to s = (if es \<noteq> [] then (case StoreBatchDataStoreEvent G es s of
              (Ok u, s') \<Rightarrow> (Ok (), s') | (Err e, s') \<Rightarrow> (Ok (), s') | (Panic p, s') \<Rightarrow> (Panic p, s')) else (Ok (), s))"
      using False by (simp add: L1ProcessMantleDAEvents_def bindG_Ok[of ?q s, OF q] Let_def
          bindG_Ok[of "liftR (ParseMantleDaEvent A uuid now ?m ?logs)" s, OF p])
    show ?thesis
    proof (cases "es = []")
      case True
      then show ?thesis using run assms(6) v by (auto intro: exI[of _ 0])
    next
      case False
      then have "r = Ok ()" "s' = s\<lparr>data_store_event := t\<rparr>"
        using run assms(6) st tk by (cases r'; simp)+
      then show ?thesis using k v by (auto simp: take_map[symmetric] intro!: exI[of _ k])
    qed
  qed
qed

end
