(* ===== verification/EventProcessor.thy ===== *)
theory EventProcessor
  imports BridgeProperties
begin

text \<open>
  event/processors/event.go: the processor that turns the stored events into rows, window by window.
  It keeps one cursor for each of its seven tasks, the header of the last block the task has
  processed.  A task takes the stored headers after its cursor, at most \<open>blocksLimit\<close> of them, and runs
  its bridge processor on that window in a transaction; the cursor moves when the transaction has
  committed.  Heights below the Bedrock height go to the legacy processors.
\<close>

record EventProcessor =
  ep_chainConfig :: ChainConfig
  LatestL1L2InitL1Header :: "BlockHeader option"
  LatestL1L2L2Header :: "BlockHeader option"
  LatestL1L2FinalizedL2Header :: "BlockHeader option"
  LatestStateRootL1Header :: "BlockHeader option"
  LatestMantleDAL1Header :: "BlockHeader option"
  LatestL2L1InitL2Header :: "BlockHeader option"
  LatestProvenL1Header :: "BlockHeader option"
  LatestFinalizedL1Header :: "BlockHeader option"

text \<open>What one run of a task takes from outside: the statements, the ABIs, identifiers and the time.\<close>

record proc_env =
  pe_G :: gorms
  pe_A :: abis
  pe_uuid :: "nat \<Rightarrow> uuid"
  pe_now :: "nat \<Rightarrow> u64"

definition NewBridgeProcessor :: "gorms \<Rightarrow> ChainConfig \<Rightarrow> db \<Rightarrow> EventProcessor result" where
  "NewBridgeProcessor G chainConfig s =
     bindR (L1L2LatestL1BlockHeader G s) (\<lambda>latestL1L2InitL1Header.
     bindR (L1L2LatestL2BlockHeader G s) (\<lambda>latestL1L2L2Header.
     bindR (L1L2LatestFinalizedL2BlockHeader G s) (\<lambda>latestL1L2FinalizedL2Header.
     bindR (StateRootL1BlockHeader G s) (\<lambda>latestStateRootL1Header.
     bindR (DataStoreL1BlockHeader G s) (\<lambda>latestMantleDAL1Header.
     bindR (L2L1LatestBlockL2Header G s) (\<lambda>latestL2L1InitL2Header.
     bindR (WithdrawProvenL1BlockHeader G s) (\<lambda>latestProvenL1Header.
     bindR (WithdrawFinalizedL1BlockHeader G s) (\<lambda>latestFinalizedL1Header.
     Ok \<lparr>ep_chainConfig = chainConfig, LatestL1L2InitL1Header = latestL1L2InitL1Header,
         LatestL1L2L2Header = latestL1L2L2Header, LatestL1L2FinalizedL2Header = latestL1L2FinalizedL2Header,
         LatestStateRootL1Header = latestStateRootL1Header, LatestMantleDAL1Header = latestMantleDAL1Header,
         LatestL2L1InitL2Header = latestL2L1InitL2Header, LatestProvenL1Header = latestProvenL1Header,
         LatestFinalizedL1Header = latestFinalizedL1Header\<rparr>))))))))"

section \<open>Windows\<close>

definition blocksLimit :: nat where "blocksLimit = 10000"

text \<open>SELECT MAX(number) FROM (SELECT * FROM headers WHERE c ORDER BY number ASC LIMIT 10000).\<close>

definition window_max :: "(int \<Rightarrow> bool) \<Rightarrow> BlockHeader list \<Rightarrow> int option" where
  "window_max c hs = sql_max (map Some (take blocksLimit (sort (filter c (map bh_Number hs)))))"

definition window_scope :: "(db \<Rightarrow> BlockHeader list) \<Rightarrow> (int \<Rightarrow> bool) \<Rightarrow> db \<Rightarrow> BlockHeader \<Rightarrow> bool" where
  "window_scope table c s r = (Some (bh_Number r) = window_max c (table s))"

text \<open>Where a task continues: after its cursor, or after the starting height (a uint, read as an int64).\<close>

definition last_number :: "BlockHeader option \<Rightarrow> u64 \<Rightarrow> int" where
  "last_number cursor startingHeight =
     (case cursor of Some h \<Rightarrow> bh_Number h | None \<Rightarrow> sint startingHeight)"

text \<open>The body of a task: query the last header of the window, run the transaction, move the cursor.\<close>

definition run_window :: "gorms \<Rightarrow> string \<Rightarrow> BlockHeader option result \<Rightarrow> int \<Rightarrow> (int \<Rightarrow> int \<Rightarrow> (db, unit) go)
    \<Rightarrow> (BlockHeader option \<Rightarrow> EventProcessor \<Rightarrow> EventProcessor) \<Rightarrow> (EventProcessor \<Rightarrow> EventProcessor)
    \<Rightarrow> (EventProcessor \<times> db, unit) go" where
  "run_window G failed latest lastNumber body setCursor none = (\<lambda>(ep, s).
     case latest of
       Err e \<Rightarrow> (Err (Wrap failed e), (ep, s))
     | Panic p \<Rightarrow> (Panic p, (ep, s))
     | Ok None \<Rightarrow> (Ok (), (none ep, s))
     | Ok (Some header) \<Rightarrow>
         (case G_tx G (body (lastNumber + 1) (bh_Number header)) s of
            (Ok u, s') \<Rightarrow> (Ok (), (setCursor (Some header) ep, s'))
          | (Err e, s') \<Rightarrow> (Err e, (ep, s'))
          | (Panic p, s') \<Rightarrow> (Panic p, (ep, s'))))"

text \<open>The heights before Bedrock go to the legacy processor, the others to the current one.\<close>

definition split_at_bedrock :: "u64 \<Rightarrow> (int \<Rightarrow> int \<Rightarrow> ('s, unit) go) \<Rightarrow> (int \<Rightarrow> int \<Rightarrow> ('s, unit) go) \<Rightarrow> int \<Rightarrow> int
    \<Rightarrow> ('s, unit) go" where
  "split_at_bedrock bedrockStartingHeight legacy current from to =
     (let bedrock = sint bedrockStartingHeight in
      if bedrock > from then
        (let legacyTo = (if bedrock \<le> to then bedrock - 1 else to) in
         thenG (legacy from legacyTo) (if legacyTo = to then retG () else current bedrock to))
      else current from to)"

section \<open>The tasks\<close>

definition processInitiatedL1Events :: "proc_env \<Rightarrow> (EventProcessor \<times> db, unit) go" where
  "processInitiatedL1Events E = (\<lambda>(ep, s).
     let cfg = ep_chainConfig ep; G = pe_G E;
         lastL1BlockNumber = last_number (LatestL1L2InitL1Header ep) (L1StartingHeight cfg) in
     run_window G ''failed to query new L1 state''
       (L1BlockHeaderWithScope G (window_scope l1_block_headers (\<lambda>n. n > lastL1BlockNumber)) s) lastL1BlockNumber
       (split_at_bedrock (L1BedrockStartingHeight cfg)
         (\<lambda>a b. LegacyL1ProcessInitiatedBridgeEvents G (pe_A E) (cc_L1Contracts cfg) (Some a) (Some b))
         (\<lambda>a b. L1ProcessInitiatedBridgeEvents G (pe_A E) (pe_uuid E) (cc_L1Contracts cfg) (Some a) (Some b)))
       (\<lambda>h. LatestL1L2InitL1Header_update (\<lambda>_. h)) id (ep, s))"

definition processInitiatedL2Events :: "proc_env \<Rightarrow> (EventProcessor \<times> db, unit) go" where
  "processInitiatedL2Events E = (\<lambda>(ep, s).
     let cfg = ep_chainConfig ep; G = pe_G E;
         lastL2BlockNumber = last_number (LatestL2L1InitL2Header ep) (L2StartingHeight cfg) in
     run_window G ''failed to query new L2 state''
       (L2BlockHeaderWithScope G (window_scope l2_block_headers (\<lambda>n. n > lastL2BlockNumber)) s) lastL2BlockNumber
       (split_at_bedrock (L2BedrockStartingHeight cfg)
         (\<lambda>a b. LegacyL2ProcessInitiatedBridgeEvents G (pe_A E) (pe_uuid E) (cc_L2Contracts cfg) (Some a) (Some b))
         (\<lambda>a b. L2ProcessInitiatedBridgeEvents G (pe_A E) (pe_uuid E) (cc_L2Contracts cfg) (Some a) (Some b)))
       (\<lambda>h. LatestL2L1InitL2Header_update (\<lambda>_. h)) id (ep, s))"

definition processProvenL1Events :: "proc_env \<Rightarrow> (EventProcessor \<times> db, unit) go" where
  "processProvenL1Events E = (\<lambda>(ep, s).
     let cfg = ep_chainConfig ep; G = pe_G E;
         lastProvenL1BlockNumber = last_number (LatestProvenL1Header ep) (L1StartingHeight cfg) in
     run_window G ''failed to query for latest unfinalized L1 state''
       (L1BlockHeaderWithScope G (window_scope l1_block_headers (\<lambda>n. n > lastProvenL1BlockNumber)) s) lastProvenL1BlockNumber
       (\<lambda>a b. L1ProcessProvenBridgeEvents G (pe_A E) (pe_uuid E) (cc_L1Contracts cfg) (Some a) (Some b))
       (\<lambda>h. LatestProvenL1Header_update (\<lambda>_. h)) id (ep, s))"

definition processFinalizedL1Events :: "proc_env \<Rightarrow> (EventProcessor \<times> db, unit) go" where
  "processFinalizedL1Events E = (\<lambda>(ep, s).
     let cfg = ep_chainConfig ep; G = pe_G E;
         lastFinalizedL1BlockNumber = last_number (LatestFinalizedL1Header ep) (L1StartingHeight cfg) in
     run_window G ''failed to query for latest unfinalized L1 state''
       (L1BlockHeaderWithScope G (window_scope l1_block_headers (\<lambda>n. n > lastFinalizedL1BlockNumber)) s)
       lastFinalizedL1BlockNumber
       (split_at_bedrock (L1BedrockStartingHeight cfg)
         (\<lambda>a b. LegacyL1ProcessFinalizedBridgeEvents G (pe_A E) (cc_L1Contracts cfg) (Some a) (Some b))
         (\<lambda>a b. L1ProcessFinalizedBridgeEvents G (pe_A E) (pe_uuid E) (cc_L1Contracts cfg) (Some a) (Some b)))
       (\<lambda>h. LatestFinalizedL1Header_update (\<lambda>_. h)) id (ep, s))"

text \<open>The task that reads the relayed messages goes no further than the latest L2 header.  When there
  is no new header it sets its cursor to the result of the query, which is nil.\<close>

definition processFinalizedL2Events :: "proc_env \<Rightarrow> (EventProcessor \<times> db, unit) go" where
  "processFinalizedL2Events E = (\<lambda>(ep, s).
     let cfg = ep_chainConfig ep; G = pe_G E;
         lastFinalizedL2BlockNumber = last_number (LatestL1L2FinalizedL2Header ep) (L2StartingHeight cfg) in
     (case L1L2LatestL2BlockHeader G s of
        Err e \<Rightarrow> (Err e, (ep, s))
      | Panic p \<Rightarrow> (Panic p, (ep, s))
      | Ok l2BlockHeader \<Rightarrow>
          (let ep' = (case l2BlockHeader of None \<Rightarrow> ep | Some h \<Rightarrow> ep\<lparr>LatestL1L2L2Header := Some h\<rparr>);
               latestL1L2BlockNumber = last_number l2BlockHeader (L2StartingHeight cfg) in
           run_window G ''failed to query for latest unfinalized L2 state''
             (L2BlockHeaderWithScope G (window_scope l2_block_headers
                (\<lambda>n. n > lastFinalizedL2BlockNumber \<and> n \<le> latestL1L2BlockNumber)) s)
             lastFinalizedL2BlockNumber
             (split_at_bedrock (L2BedrockStartingHeight cfg)
               (\<lambda>a b. LegacyL2ProcessFinalizedBridgeEvents G (pe_A E) (cc_L2Contracts cfg) (Some a) (Some b))
               (\<lambda>a b. L2ProcessFinalizedBridgeEvents G (pe_A E) (pe_uuid E) (cc_L2Contracts cfg) (Some a) (Some b)))
             (\<lambda>h. LatestL1L2FinalizedL2Header_update (\<lambda>_. h)) (LatestL1L2FinalizedL2Header_update (\<lambda>_. None))
             (ep', s))))"

definition processRollupStateRoot :: "proc_env \<Rightarrow> (EventProcessor \<times> db, unit) go" where
  "processRollupStateRoot E = (\<lambda>(ep, s).
     let cfg = ep_chainConfig ep; G = pe_G E;
         lastStateRootL1BlockNumber = last_number (LatestStateRootL1Header ep) (L1StartingHeight cfg) in
     run_window G ''failed to query new L1 state''
       (L1BlockHeaderWithScope G (window_scope l1_block_headers (\<lambda>n. n > lastStateRootL1BlockNumber)) s) lastStateRootL1BlockNumber
       (\<lambda>a b. L2OutputEvent G (pe_A E) (pe_uuid E) (cc_L1Contracts cfg) (Some a) (Some b))
       (\<lambda>h. LatestStateRootL1Header_update (\<lambda>_. h)) id (ep, s))"

definition processRollupMantleDA :: "proc_env \<Rightarrow> (EventProcessor \<times> db, unit) go" where
  "processRollupMantleDA E = (\<lambda>(ep, s).
     let cfg = ep_chainConfig ep; G = pe_G E;
         lastRollupMantleDaL1BlockNumber = last_number (LatestMantleDAL1Header ep) (L1StartingHeight cfg) in
     run_window G ''failed to query new L1 state''
       (L1BlockHeaderWithScope G (window_scope l1_block_headers (\<lambda>n. n > lastRollupMantleDaL1BlockNumber)) s)
       lastRollupMantleDaL1BlockNumber
       (\<lambda>a b. L1ProcessMantleDAEvents G (pe_A E) (pe_uuid E) (pe_now E) (cc_L1Contracts cfg) (Some a) (Some b))
       (\<lambda>h. LatestMantleDAL1Header_update (\<lambda>_. h)) id (ep, s))"

text \<open>One tick of a worker: its tasks in order; an error of one is kept and the next still runs, a
  panic ends the tick.\<close>

fun run_tasks :: "('s, unit) go list \<Rightarrow> error option \<Rightarrow> 's \<Rightarrow> unit result \<times> 's" where
  "run_tasks [] errs st = (as_result errs, st)"
| "run_tasks (t # ts) errs st =
     (case t st of
        (Ok u, st') \<Rightarrow> run_tasks ts errs st'
      | (Err e, st') \<Rightarrow> run_tasks ts (join_err errs e) st'
      | (Panic p, st') \<Rightarrow> (Panic p, st'))"

definition onL1Data :: "(nat \<Rightarrow> proc_env) \<Rightarrow> (EventProcessor \<times> db, unit) go" where
  "onL1Data E = run_tasks
     [processInitiatedL1Events (E 0), processFinalizedL2Events (E 1), processRollupMantleDA (E 2),
      processRollupStateRoot (E 3)] None"

definition onL2Data :: "(nat \<Rightarrow> proc_env) \<Rightarrow> (EventProcessor \<times> db, unit) go" where
  "onL2Data E = run_tasks
     [processInitiatedL2Events (E 0), processProvenL1Events (E 1), processFinalizedL1Events (E 2)] None"

text \<open>A worker runs once for each tick of its ticker and hands the error to the metrics only.\<close>

fun ticker_worker :: "('e \<Rightarrow> ('s, unit) go) \<Rightarrow> 'e list \<Rightarrow> ('s, unit) go" where
  "ticker_worker onData [] st = (Ok (), st)"
| "ticker_worker onData (E # Es) st =
     (case onData E st of
        (Panic p, st') \<Rightarrow> (Panic p, st')
      | (r, st') \<Rightarrow> ticker_worker onData Es st')"

text \<open>Start launches one worker for each side of the bridge; Close waits for both, and the first error of
  a task is its result.  A worker returns nil whatever its ticks report.\<close>

definition l1_worker :: "(nat \<Rightarrow> proc_env) list \<Rightarrow> (EventProcessor \<times> db, unit) go" where
  "l1_worker = ticker_worker onL1Data"

definition l2_worker :: "(nat \<Rightarrow> proc_env) list \<Rightarrow> (EventProcessor \<times> db, unit) go" where
  "l2_worker = ticker_worker onL2Data"

definition EventProcessor_Close :: "task_outcome list \<Rightarrow> unit result" where
  "EventProcessor_Close outcomes = as_result (List.find (\<lambda>_. True) (List.map_filter to_err outcomes))"

section \<open>Windows\<close>

lemma sorted_take_drop: "sorted xs \<Longrightarrow> x \<in> set (take n xs) \<Longrightarrow> y \<in> set (drop n xs) \<Longrightarrow> x \<le> y"
  by (metis append_take_drop_id sorted_append)

lemma sql_max_map_Some: "sql_max (map Some xs) = Some m \<Longrightarrow> m \<in> set xs \<and> (\<forall>x \<in> set xs. x \<le> m)"
  using sql_max_Some[of "map Some xs" m] by auto

lemma sql_max_exists: "xs \<noteq> [] \<Longrightarrow> \<exists>m. sql_max (map Some xs) = Some m"
  using sql_max_None[of "map Some xs"] by (cases "sql_max (map Some xs)") (auto simp: neq_Nil_conv)

lemma window_max_Some:
  assumes "window_max c hs = Some m"
  shows "c m" "\<exists>h \<in> set hs. bh_Number h = m"
    and "length (filter (\<lambda>h. c (bh_Number h) \<and> bh_Number h < m) hs) < blocksLimit"
    and "\<exists>h \<in> set hs. c (bh_Number h) \<and> m < bh_Number h \<Longrightarrow>
      blocksLimit \<le> length (filter (\<lambda>h. c (bh_Number h) \<and> bh_Number h \<le> m) hs)"
proof -
  let ?xs = "sort (filter c (map bh_Number hs))"
  from assms have m: "m \<in> set (take blocksLimit ?xs)" "\<forall>x \<in> set (take blocksLimit ?xs). x \<le> m"
    using sql_max_map_Some by (auto simp: window_max_def)
  then have "m \<in> set ?xs" using in_set_takeD by metis
  then show "c m" "\<exists>h \<in> set hs. bh_Number h = m" by auto
  have count: "length (filter (\<lambda>h. c (bh_Number h) \<and> P (bh_Number h)) hs) = length (filter P ?xs)" for P
  proof -
    have "mset (filter P ?xs) = mset (filter P (filter c (map bh_Number hs)))"
      by (simp add: filter_filter_mset)
    then have "length (filter P ?xs) = length (filter P (filter c (map bh_Number hs)))" by (rule mset_eq_length)
    then show ?thesis by (simp add: filter_map comp_def conj_commute)
  qed
  have split: "?xs = take blocksLimit ?xs @ drop blocksLimit ?xs" by simp
  have late: "\<forall>y \<in> set (drop blocksLimit ?xs). m \<le> y"
    using sorted_take_drop[OF sorted_sort m(1)] by blast
  have "filter (\<lambda>x. x < m) (drop blocksLimit ?xs) = []" using late by (auto simp: filter_empty_conv)
  then have "length (filter (\<lambda>x. x < m) ?xs) = length (filter (\<lambda>x. x < m) (take blocksLimit ?xs))"
    by (subst split, simp only: filter_append, simp)
  also have "\<dots> < length (take blocksLimit ?xs)" using m(1) by (intro length_filter_less) auto
  also have "\<dots> \<le> blocksLimit" by simp
  finally show "length (filter (\<lambda>h. c (bh_Number h) \<and> bh_Number h < m) hs) < blocksLimit"
    by (simp only: count[of "\<lambda>x. x < m"])
  assume "\<exists>h \<in> set hs. c (bh_Number h) \<and> m < bh_Number h"
  then obtain y where "y \<in> set ?xs" "m < y" by auto
  then have "y \<in> set (drop blocksLimit ?xs)" using m(2) split by (metis Un_iff not_less set_append)
  then have "blocksLimit < length ?xs" by (cases "blocksLimit < length ?xs") auto
  then have "length (take blocksLimit ?xs) = blocksLimit" by simp
  moreover have "filter (\<lambda>x. x \<le> m) (take blocksLimit ?xs) = take blocksLimit ?xs" using m(2) by (simp add: filter_True)
  ultimately have "blocksLimit \<le> length (filter (\<lambda>x. x \<le> m) ?xs)"
    by (subst split, simp only: filter_append, simp)
  then show "blocksLimit \<le> length (filter (\<lambda>h. c (bh_Number h) \<and> bh_Number h \<le> m) hs)"
    by (simp only: count[of "\<lambda>x. x \<le> m"])
qed

lemma window_max_None: "window_max c hs = None \<longleftrightarrow> (\<forall>h \<in> set hs. \<not> c (bh_Number h))"
proof -
  have "window_max c hs = None \<longleftrightarrow> take blocksLimit (sort (filter c (map bh_Number hs))) = []"
    unfolding window_max_def using sql_max_exists sql_max_None[of "map Some []"] by (metis list.simps(8) option.distinct(1) sql_max.simps(1))
  also have "\<dots> \<longleftrightarrow> sort (filter c (map bh_Number hs)) = []" by (simp add: blocksLimit_def)
  also have "\<dots> \<longleftrightarrow> filter c (map bh_Number hs) = []" by (metis length_0_conv length_sort)
  finally show ?thesis by (auto simp: filter_empty_conv)
qed

text \<open>What a query with such a scope returns.\<close>

lemma scope_query:
  assumes "gorm_ok key g" "nil_if_not_found (g_take g (window_scope table c s) (table s)) = Ok res"
  shows "(case res of None \<Rightarrow> \<forall>h \<in> set (table s). \<not> c (bh_Number h)
      | Some h \<Rightarrow> h \<in> set (table s) \<and> window_max c (table s) = Some (bh_Number h))"
proof (cases res)
  case None
  then obtain e where e: "g_take g (window_scope table c s) (table s) = Err e" "errors_Is e RecordNotFound"
    using assms(2) nil_if_not_found_None by metis
  then have "\<forall>r \<in> set (table s). \<not> window_scope table c s r" using gorm_take(2)[OF assms(1)] by blast
  then have "window_max c (table s) = None"
    using window_max_Some(2)[of c "table s"] by (cases "window_max c (table s)") (auto simp: window_scope_def)
  then show ?thesis using None by (simp add: window_max_None)
next
  case (Some h)
  then have "g_take g (window_scope table c s) (table s) = Ok h"
    using assms(2) nil_if_not_found_Some by metis
  then show ?thesis using Some gorm_take(1)[OF assms(1), of "window_scope table c s" "table s" h]
    by (simp add: window_scope_def)
qed

section \<open>One run of a task\<close>

lemma run_window_not_Ok:
  assumes "transaction_ok (G_tx G)" "run_window G f latest n body setC none (ep, s) = (r, (ep', s'))" "r \<noteq> Ok ()"
  shows "ep' = ep \<and> s' = s"
proof (cases latest)
  case (Ok h)
  show ?thesis
  proof (cases h)
    case (Some x)
    obtain r' t where t: "G_tx G (body (n + 1) (bh_Number x)) s = (r', t)" by (cases "G_tx G (body (n + 1) (bh_Number x)) s") auto
    then show ?thesis using assms(2,3) Ok Some transaction_not_Ok[OF assms(1) t]
      by (cases r') (auto simp: run_window_def)
  qed (use assms Ok in \<open>auto simp: run_window_def\<close>)
qed (use assms in \<open>auto simp: run_window_def\<close>)

lemma run_window_Ok:
  assumes "transaction_ok (G_tx G)" "run_window G f latest n body setC none (ep, s) = (Ok (), (ep', s'))"
  shows "(latest = Ok None \<and> ep' = none ep \<and> s' = s)
    \<or> (\<exists>h. latest = Ok (Some h) \<and> body (n + 1) (bh_Number h) s = (Ok (), s') \<and> ep' = setC (Some h) ep)"
proof (cases latest)
  case (Ok h)
  show ?thesis
  proof (cases h)
    case (Some x)
    obtain r' t where t: "G_tx G (body (n + 1) (bh_Number x)) s = (r', t)" by (cases "G_tx G (body (n + 1) (bh_Number x)) s") auto
    have "r' = Ok ()" using t assms(2) Ok Some by (cases r') (auto simp: run_window_def)
    then show ?thesis using assms(2) Ok Some t transaction_Ok[OF assms(1)] by (auto simp: run_window_def)
  qed (use assms Ok in \<open>auto simp: run_window_def\<close>)
qed (use assms in \<open>auto simp: run_window_def\<close>)

lemma bedrock_split_eq:
  assumes "from \<le> to"
  shows "split_at_bedrock h legacy current from to =
     thenG (if from < sint h then legacy from (min to (sint h - 1)) else retG ())
           (if sint h \<le> to then current (max from (sint h)) to else retG ())"
proof -
  have one: "thenG (retG ()) k = k" for k :: "('a, unit) go" by (rule ext) (simp add: go_defs)
  have "split_at_bedrock h legacy current from to
      = thenG (legacy from to) (retG ())" if "from < sint h" "to < sint h"
    using that by (simp add: split_at_bedrock_def Let_def)
  moreover have "split_at_bedrock h legacy current from to
      = thenG (legacy from (sint h - 1)) (current (sint h) to)" if "from < sint h" "sint h \<le> to"
    using that by (simp add: split_at_bedrock_def Let_def)
  moreover have "split_at_bedrock h legacy current from to = current from to" if "sint h \<le> from"
    using that by (simp add: split_at_bedrock_def Let_def)
  ultimately show ?thesis using assms one
    by (cases "from < sint h"; cases "sint h \<le> to") (simp_all add: min_def max_def)
qed

section \<open>All tasks\<close>

definition tasks :: "(proc_env \<Rightarrow> (EventProcessor \<times> db, unit) go) list" where
  "tasks = [processInitiatedL1Events, processFinalizedL2Events, processRollupMantleDA, processRollupStateRoot,
     processInitiatedL2Events, processProvenL1Events, processFinalizedL1Events]"

text \<open>The processor without the header that only the log shows.\<close>

definition cursors :: "EventProcessor \<Rightarrow> EventProcessor" where
  "cursors ep = ep\<lparr>LatestL1L2L2Header := None\<rparr>"

lemma task_runs_window:
  assumes "task \<in> set tasks" "task E (ep, s) = (r, (ep', s'))"
  shows "(r \<noteq> Ok () \<and> ep' = ep \<and> s' = s) \<or> (\<exists>f latest n body setC none ep0. cursors ep0 = cursors ep
      \<and> run_window (pe_G E) f latest n body setC none (ep0, s) = (r, (ep', s')))"
proof -
  have refl: ?thesis if "run_window (pe_G E) f latest n body setC none (ep, s) = (r, (ep', s'))" for f latest n body setC none
    using that by blast
  have fin: ?thesis if "task = processFinalizedL2Events"
  proof -
    have "cursors (case h of None \<Rightarrow> ep | Some x \<Rightarrow> ep\<lparr>LatestL1L2L2Header := Some x\<rparr>) = cursors ep" for h
      by (simp add: cursors_def split: option.splits)
    then show ?thesis using assms(2) that
      by (cases "L1L2LatestL2BlockHeader (pe_G E) s") (auto simp: processFinalizedL2Events_def Let_def)
  qed
  show ?thesis
    using assms fin refl
    by (auto simp: tasks_def Let_def processInitiatedL1Events_def processRollupMantleDA_def processRollupStateRoot_def
        processInitiatedL2Events_def processProvenL1Events_def processFinalizedL1Events_def)
qed

definition l1_body :: "proc_env \<Rightarrow> ChainConfig \<Rightarrow> int \<Rightarrow> int \<Rightarrow> (db, unit) go" where
  "l1_body E cfg = split_at_bedrock (L1BedrockStartingHeight cfg)
     (\<lambda>a b. LegacyL1ProcessInitiatedBridgeEvents (pe_G E) (pe_A E) (cc_L1Contracts cfg) (Some a) (Some b))
     (\<lambda>a b. L1ProcessInitiatedBridgeEvents (pe_G E) (pe_A E) (pe_uuid E) (cc_L1Contracts cfg) (Some a) (Some b))"

lemma initiated_l1_not_Ok:
  assumes "gorms_ok (pe_G E)" "processInitiatedL1Events E (ep, s) = (r, (ep', s'))" "r \<noteq> Ok ()"
  shows "ep' = ep \<and> s' = s"
  by (rule run_window_not_Ok[OF gorms_okD(15)[OF assms(1)] assms(2)[unfolded processInitiatedL1Events_def Let_def prod.case] assms(3)])

lemma initiated_l1_Ok:
  assumes "gorms_ok (pe_G E)" "processInitiatedL1Events E (ep, s) = (Ok (), (ep', s'))"
  defines "n \<equiv> last_number (LatestL1L2InitL1Header ep) (L1StartingHeight (ep_chainConfig ep))"
  shows "(ep' = ep \<and> s' = s \<and> (\<forall>h \<in> set (l1_block_headers s). bh_Number h \<le> n))
    \<or> (\<exists>h \<in> set (l1_block_headers s). n < bh_Number h \<and> ep' = ep\<lparr>LatestL1L2InitL1Header := Some h\<rparr>
         \<and> window_max (\<lambda>k. n < k) (l1_block_headers s) = Some (bh_Number h)
         \<and> l1_body E (ep_chainConfig ep) (n + 1) (bh_Number h) s = (Ok (), s'))"
proof -
  let ?q = "L1BlockHeaderWithScope (pe_G E) (window_scope l1_block_headers (\<lambda>k. n < k)) s"
  have "run_window (pe_G E) ''failed to query new L1 state'' ?q n (l1_body E (ep_chainConfig ep))
      (\<lambda>h. LatestL1L2InitL1Header_update (\<lambda>_. h)) id (ep, s) = (Ok (), (ep', s'))"
    using assms(2) by (simp add: processInitiatedL1Events_def Let_def n_def l1_body_def)
  from run_window_Ok[OF gorms_okD(15)[OF assms(1)] this]
  show ?thesis
  proof (elim disjE exE conjE)
    assume "?q = Ok None" "ep' = id ep" "s' = s"
    then show ?thesis using scope_query[OF gorms_okD(1)[OF assms(1)], of l1_block_headers "\<lambda>k. n < k" s None]
      by (auto simp: L1BlockHeaderWithScope_def)
  next
    fix h assume h: "?q = Ok (Some h)" "l1_body E (ep_chainConfig ep) (n + 1) (bh_Number h) s = (Ok (), s')"
      "ep' = ep\<lparr>LatestL1L2InitL1Header := Some h\<rparr>"
    then have q: "h \<in> set (l1_block_headers s)" "window_max (\<lambda>k. n < k) (l1_block_headers s) = Some (bh_Number h)"
      using scope_query[OF gorms_okD(1)[OF assms(1)], of l1_block_headers "\<lambda>k. n < k" s "Some h"]
      by (simp_all add: L1BlockHeaderWithScope_def)
    then show ?thesis using h window_max_Some(1)[OF q(2)] by blast
  qed
qed

text \<open>The runs of the task that reads the deposits, among the other tasks and the synchronizers: these
  change the database and the other cursors.  A run is recorded with the window it processed.\<close>

record window =
  w_env :: proc_env
  w_from :: int
  w_to :: int
  w_before :: db
  w_after :: db

inductive l1_runs :: "ChainConfig \<Rightarrow> EventProcessor \<Rightarrow> window list \<Rightarrow> bool" for cfg where
  started: "ep_chainConfig ep = cfg \<Longrightarrow> LatestL1L2InitL1Header ep = None \<Longrightarrow> l1_runs cfg ep []"
| others: "l1_runs cfg ep ws \<Longrightarrow> ep_chainConfig ep' = cfg \<Longrightarrow> LatestL1L2InitL1Header ep' = LatestL1L2InitL1Header ep
    \<Longrightarrow> l1_runs cfg ep' ws"
| failed: "l1_runs cfg ep ws \<Longrightarrow> gorms_ok (pe_G E) \<Longrightarrow> processInitiatedL1Events E (ep, s) = (r, (ep', s')) \<Longrightarrow> r \<noteq> Ok ()
    \<Longrightarrow> l1_runs cfg ep' ws"
| idle: "l1_runs cfg ep ws \<Longrightarrow> gorms_ok (pe_G E) \<Longrightarrow> processInitiatedL1Events E (ep, s) = (Ok (), (ep', s'))
    \<Longrightarrow> LatestL1L2InitL1Header ep' = LatestL1L2InitL1Header ep \<Longrightarrow> l1_runs cfg ep' ws"
| processed: "l1_runs cfg ep ws \<Longrightarrow> gorms_ok (pe_G E) \<Longrightarrow> processInitiatedL1Events E (ep, s) = (Ok (), (ep', s'))
    \<Longrightarrow> LatestL1L2InitL1Header ep' = Some h \<Longrightarrow> LatestL1L2InitL1Header ep \<noteq> Some h
    \<Longrightarrow> l1_runs cfg ep' (ws @ [\<lparr>w_env = E, w_from = last_number (LatestL1L2InitL1Header ep) (L1StartingHeight cfg) + 1,
          w_to = bh_Number h, w_before = s, w_after = s'\<rparr>])"

inductive_cases l1_runs_snocE: "l1_runs cfg ep (ws @ [w])"

lemma upto_join: "a \<le> b + 1 \<Longrightarrow> b \<le> c \<Longrightarrow> [a..b] @ [b + 1..c] = [a..c :: int]"
  using upto_split2[of a b c] by (cases "a = b + 1") auto

lemma l1_runs_config: "l1_runs cfg ep ws \<Longrightarrow> ep_chainConfig ep = cfg"
proof (induction rule: l1_runs.induct)
  case (failed ep ws E s r ep' s')
  then show ?case using initiated_l1_not_Ok[OF failed(2,3,4)] by simp
next
  case (idle ep ws E s ep' s')
  then show ?case using initiated_l1_Ok[OF idle(2,3)] by auto
next
  case (processed ep ws E s ep' s' h)
  then show ?case using initiated_l1_Ok[OF processed(2,3)] by auto
qed simp_all

definition l2_finalized_body :: "proc_env \<Rightarrow> ChainConfig \<Rightarrow> int \<Rightarrow> int \<Rightarrow> (db, unit) go" where
  "l2_finalized_body E cfg = split_at_bedrock (L2BedrockStartingHeight cfg)
     (\<lambda>a b. LegacyL2ProcessFinalizedBridgeEvents (pe_G E) (pe_A E) (cc_L2Contracts cfg) (Some a) (Some b))
     (\<lambda>a b. L2ProcessFinalizedBridgeEvents (pe_G E) (pe_A E) (pe_uuid E) (cc_L2Contracts cfg) (Some a) (Some b))"

lemma finalized_l2_Ok:
  assumes "gorms_ok (pe_G E)" "processFinalizedL2Events E (ep, s) = (Ok (), (ep', s'))"
  defines "n \<equiv> last_number (LatestL1L2FinalizedL2Header ep) (L2StartingHeight (ep_chainConfig ep))"
  shows "ep_chainConfig ep' = ep_chainConfig ep \<and>
    ((LatestL1L2FinalizedL2Header ep' = None \<and> s' = s \<and> (\<forall>h \<in> set (l2_block_headers s). bh_Number h \<le> n))
    \<or> (\<exists>h \<in> set (l2_block_headers s). n < bh_Number h \<and> LatestL1L2FinalizedL2Header ep' = Some h
         \<and> l2_finalized_body E (ep_chainConfig ep) (n + 1) (bh_Number h) s = (Ok (), s')))"
proof -
  let ?G = "pe_G E"
  from assms(2) obtain top where latest: "L1L2LatestL2BlockHeader ?G s = Ok top"
    by (cases "L1L2LatestL2BlockHeader ?G s") (auto simp: processFinalizedL2Events_def)
  let ?ep = "case top of None \<Rightarrow> ep | Some h \<Rightarrow> ep\<lparr>LatestL1L2L2Header := Some h\<rparr>"
  let ?m = "last_number top (L2StartingHeight (ep_chainConfig ep))"
  let ?c = "\<lambda>k. n < k \<and> k \<le> ?m"
  let ?q = "L2BlockHeaderWithScope ?G (window_scope l2_block_headers ?c) s"
  have all: "bh_Number h \<le> ?m" if "h \<in> set (l2_block_headers s)" for h
  proof (cases top)
    case None
    then obtain e where "g_take_desc (G_headers ?G) (\<lambda>_. True) bh_Number (l2_block_headers s) = Err e" "errors_Is e RecordNotFound"
      using latest by (auto simp: L1L2LatestL2BlockHeader_def nil_if_not_found_None)
    from gorm_take_desc(2)[OF gorms_okD(1)[OF assms(1)] this] that show ?thesis by simp
  next
    case (Some t)
    then have "g_take_desc (G_headers ?G) (\<lambda>_. True) bh_Number (l2_block_headers s) = Ok t"
      using latest by (simp add: L1L2LatestL2BlockHeader_def nil_if_not_found_Some)
    then show ?thesis using Some that gorm_take_desc(1)[OF gorms_okD(1)[OF assms(1)]] by (auto simp: last_number_def)
  qed
  have same: "ep_chainConfig ?ep = ep_chainConfig ep" "ep_chainConfig (?ep\<lparr>LatestL1L2FinalizedL2Header := x\<rparr>) = ep_chainConfig ep" for x
    by (simp_all split: option.splits)
  have "run_window ?G ''failed to query for latest unfinalized L2 state'' ?q n (l2_finalized_body E (ep_chainConfig ep))
      (\<lambda>h. LatestL1L2FinalizedL2Header_update (\<lambda>_. h)) (LatestL1L2FinalizedL2Header_update (\<lambda>_. None)) (?ep, s) = (Ok (), (ep', s'))"
    using assms(2) latest by (simp add: processFinalizedL2Events_def Let_def n_def l2_finalized_body_def)
  from run_window_Ok[OF gorms_okD(15)[OF assms(1)] this]
  show ?thesis
  proof (elim disjE exE conjE)
    assume "?q = Ok None" "ep' = ?ep\<lparr>LatestL1L2FinalizedL2Header := None\<rparr>" "s' = s"
    then show ?thesis using scope_query[OF gorms_okD(1)[OF assms(1)], of l2_block_headers ?c s None] all same
      by (auto simp: L2BlockHeaderWithScope_def)
  next
    fix h assume h: "?q = Ok (Some h)" "l2_finalized_body E (ep_chainConfig ep) (n + 1) (bh_Number h) s = (Ok (), s')"
      "ep' = ?ep\<lparr>LatestL1L2FinalizedL2Header := Some h\<rparr>"
    then have q: "h \<in> set (l2_block_headers s)" "window_max ?c (l2_block_headers s) = Some (bh_Number h)"
      using scope_query[OF gorms_okD(1)[OF assms(1)], of l2_block_headers ?c s "Some h"]
      by (simp_all add: L2BlockHeaderWithScope_def)
    then show ?thesis using h same window_max_Some(1)[OF q(2)] by (auto intro!: bexI[of _ h])
  qed
qed

definition sample_config :: "u64 \<Rightarrow> ChainConfig" where
  "sample_config bedrock = \<lparr>ChainID = 1, L1StartingHeight = 0, L2StartingHeight = 0, L1BedrockStartingHeight = bedrock,
     L2BedrockStartingHeight = bedrock, cc_L1Contracts = sample_contracts, cc_L2Contracts = sample_l2_contracts,
     L1ConfirmationDepth = 0, L2ConfirmationDepth = 0, L1PollingInterval = 0, L2PollingInterval = 0,
     L1HeaderBufferSize = 0, L2HeaderBufferSize = 0\<rparr>"

definition sample_processor :: "BlockHeader option \<Rightarrow> EventProcessor" where
  "sample_processor cursor = \<lparr>ep_chainConfig = sample_config 0, LatestL1L2InitL1Header = None, LatestL1L2L2Header = None,
     LatestL1L2FinalizedL2Header = cursor, LatestStateRootL1Header = None, LatestMantleDAL1Header = None,
     LatestL2L1InitL2Header = None, LatestProvenL1Header = None, LatestFinalizedL1Header = None\<rparr>"

definition mem_env :: proc_env where
  "mem_env = \<lparr>pe_G = mem_gorms, pe_A = sample_abis, pe_uuid = of_nat, pe_now = (\<lambda>_. 0)\<rparr>"

lemma mem_env_simps [simp]: "pe_G mem_env = mem_gorms" "pe_A mem_env = sample_abis"
  by (simp_all add: mem_env_def)

lemma sample_window: "window_max (\<lambda>n. 0 < n) [sample_row 1 1] = Some 1" "window_max (\<lambda>n. 0 < n \<and> n \<le> 1) [sample_row 1 1] = Some 1"
  "window_max (\<lambda>n. 1 < n \<and> n \<le> 1) [sample_row 1 1] = None"
  by (simp_all add: window_max_def sample_row_def blocksLimit_def)

lemma sample_header_query:
  "L1BlockHeaderWithScope mem_gorms (window_scope l1_block_headers (\<lambda>n. 0 < n)) (events_db es fs) = Ok (Some (sample_row 1 1))"
  "L2BlockHeaderWithScope mem_gorms (window_scope l2_block_headers (\<lambda>n. 0 < n \<and> n \<le> 1)) (events_db es fs) = Ok (Some (sample_row 1 1))"
  "L2BlockHeaderWithScope mem_gorms (window_scope l2_block_headers (\<lambda>n. 1 < n \<and> n \<le> 1)) (events_db es fs) = Ok None"
  "L1L2LatestL2BlockHeader mem_gorms (events_db es fs) = Ok (Some (sample_row 1 1))"
  by (simp_all add: L1BlockHeaderWithScope_def L2BlockHeaderWithScope_def L1L2LatestL2BlockHeader_def window_scope_def events_db_def
      empty_db_def sample_window nil_if_not_found_def) (simp_all add: sample_row_def)

lemma sample_number_1: "bh_Number (sample_row 1 1) = 1" by (simp add: sample_row_def)

text \<open>A proven withdrawal whose log has no topics cannot be decoded.\<close>

definition bad_event :: ContractEvent where
  "bad_event = (event_row 1 1 111 0 [])\<lparr>ce_RLPLog := zero_log\<rparr>"

lemma empty_queries: "L1ContractEventsWithFilter mem_gorms f (Some 1) (Some 1) (events_db [] []) = Ok []"
  "L2ContractEventsWithFilter mem_gorms f (Some 1) (Some 1) (events_db [] []) = Ok []"
  by (simp_all add: query_simps)

lemma sample_run:
  "processInitiatedL1Events mem_env (sample_processor None, events_db [] [])
   = (Ok (), (sample_processor None)\<lparr>LatestL1L2InitL1Header := Some (sample_row 1 1)\<rparr>, events_db [] [])"
proof -
  have p: "ev_ID (a_TransactionDeposited sample_abis) = a_DepositEventABIHash sample_abis"
    by (simp add: sample_abis_def simple_event_def)
  have "L1ProcessInitiatedBridgeEvents mem_gorms sample_abis of_nat sample_contracts (Some 1) (Some 1) (events_db [] [])
      = (Ok (), events_db [] [])"
    by (simp add: L1ProcessInitiatedBridgeEvents_def go_defs OptimismPortalTransactionDepositEvents_def p decode_each_def
        empty_queries build_rows_def when_any_cases CrossDomainMessengerSentMessageEvents_def l1_events_at
        StandardBridgeInitiatedEvents_def standardBridgeEvents_def)
  then show ?thesis
    by (simp add: processInitiatedL1Events_def Let_def sample_processor_def sample_config_def last_number_def run_window_def
        sample_header_query sample_number_1 mem_transaction_def split_at_bedrock_def mem_env_def)
qed

text \<open>C19: a task of the event processor that reports an error or panics leaves the database as it was and
  every cursor where it was, so the window is taken again; only the latest L2 header that the log
  shows may have been refreshed.\<close>

theorem failed_task_changes_nothing:
  assumes "gorms_ok (pe_G E)" "task \<in> set tasks" "task E (ep, s) = (r, (ep', s'))" "r \<noteq> Ok ()"
  shows "s' = s \<and> cursors ep' = cursors ep"
  using task_runs_window[OF assms(2,3)] run_window_not_Ok[OF gorms_okD(15)[OF assms(1)]] assms(4) by metis

theorem failed_task_changes_nothing_witness:
  "snd (snd (processProvenL1Events mem_env (sample_processor None, events_db [bad_event] []))) = events_db [bad_event] []"
proof -
  let ?run = "processProvenL1Events mem_env (sample_processor None, events_db [bad_event] [])"
  have "L1ContractEventsWithFilter mem_gorms (contract_filter 1 111) (Some 1) (Some 1) (events_db [bad_event] []) = Ok [AfterFind bad_event]"
    by (simp add: event_queries bad_event_def event_row_def)
  then have "\<exists>e. OptimismPortalWithdrawalProvenEvents mem_gorms sample_abis 1 (Some 1) (Some 1) (events_db [bad_event] []) = Err e"
    by (simp add: OptimismPortalWithdrawalProvenEvents_def decode_each_def sample_abis_def simple_event_def UnpackLog_def
        bad_event_def AfterFind_def rlp_log_def zero_log_def zero_contract_event_def)
  then obtain e where e: "OptimismPortalWithdrawalProvenEvents mem_gorms sample_abis 1 (Some 1) (Some 1) (events_db [bad_event] []) = Err e" ..
  have "fst ?run = Err e"
    by (simp add: processProvenL1Events_def Let_def sample_processor_def sample_config_def last_number_def run_window_def
        sample_header_query sample_number_1 mem_transaction_def L1ProcessProvenBridgeEvents_def bindG_def readG_def
        sample_contracts_def e)
  then have r: "fst ?run \<noteq> Ok ()" by simp
  have t: "processProvenL1Events \<in> set tasks" by (simp add: tasks_def)
  have g: "gorms_ok (pe_G mem_env)" by (simp add: mem_gorms_ok)
  have eq: "?run = (fst ?run, fst (snd ?run), snd (snd ?run))" by simp
  show ?thesis using failed_task_changes_nothing[OF g t eq r] by simp
qed

text \<open>C36: a window is split at the Bedrock height: its heights below it go to the legacy processor, and only
  if that succeeds the others go to the current one; each height goes to exactly one of them.\<close>

theorem bedrock_split:
  assumes "from \<le> to"
  shows "split_at_bedrock h legacy current from to =
     thenG (if from < sint h then legacy from (min to (sint h - 1)) else retG ())
           (if sint h \<le> to then current (max from (sint h)) to else retG ())"
  by (rule bedrock_split_eq[OF assms])

theorem bedrock_split_witness:
  "snd (split_at_bedrock 2 (\<lambda>a b s. (Ok (), s @ [(False, a, b)])) (\<lambda>a b s. (Ok (), s @ [(True, a, b)])) 1 3 [])
   = [(False, 1, 1), (True, 2, 3)]"
  using bedrock_split[of 1 3 2 "\<lambda>a b s. (Ok (), s @ [(False, a, b)])" "\<lambda>a b s. (Ok (), s @ [(True, a, b)])"]
  by (simp add: go_defs)

text \<open>C8: the task that reads the deposits processes every height after the starting height up to its cursor
  exactly once and in order, whatever the other tasks and the synchronizers do between its runs and
  however often it fails: the windows of its successful runs, each of which is committed whole, follow
  each other without a gap or an overlap.\<close>

theorem l1_heights_in_order:
  assumes "l1_runs cfg ep ws"
  shows "concat (map (\<lambda>w. [w_from w..w_to w]) ws)
      = [sint (L1StartingHeight cfg) + 1..last_number (LatestL1L2InitL1Header ep) (L1StartingHeight cfg)]
    \<and> sint (L1StartingHeight cfg) \<le> last_number (LatestL1L2InitL1Header ep) (L1StartingHeight cfg)
    \<and> (\<forall>w \<in> set ws. w_from w \<le> w_to w \<and> gorms_ok (pe_G (w_env w))
         \<and> l1_body (w_env w) cfg (w_from w) (w_to w) (w_before w) = (Ok (), w_after w))"
  using assms
proof (induction rule: l1_runs.induct)
  case (started ep)
  then show ?case by (simp add: last_number_def)
next
  case (others ep ws ep')
  then show ?case by simp
next
  case (failed ep ws E s r ep' s')
  then have "ep' = ep" using initiated_l1_not_Ok[OF failed(2,3,4)] by simp
  then show ?case using failed by simp
next
  case (idle ep ws E s ep' s')
  then show ?case by simp
next
  case (processed ep ws E s ep' s' h)
  let ?n = "last_number (LatestL1L2InitL1Header ep) (L1StartingHeight cfg)"
  have cfg: "ep_chainConfig ep = cfg" by (rule l1_runs_config[OF processed(1)])
  have "?n < bh_Number h" "l1_body E cfg (?n + 1) (bh_Number h) s = (Ok (), s')"
    using initiated_l1_Ok[OF processed(2,3)] processed(4,5) unfolding cfg by auto
  moreover have "last_number (LatestL1L2InitL1Header ep') (L1StartingHeight cfg) = bh_Number h"
    using processed(4) by (simp add: last_number_def)
  ultimately show ?case
    using processed.IH processed(2) upto_join[of "sint (L1StartingHeight cfg) + 1" ?n "bh_Number h"] by auto
qed

theorem l1_heights_in_order_witness:
  "l1_body mem_env (sample_config 0) 1 1 (events_db [] []) = (Ok (), events_db [] [])"
proof -
  have "l1_runs (sample_config 0) (sample_processor None) []"
    by (rule l1_runs.started) (simp_all add: sample_processor_def)
  then have "l1_runs (sample_config 0) ((sample_processor None)\<lparr>LatestL1L2InitL1Header := Some (sample_row 1 1)\<rparr>)
      ([] @ [\<lparr>w_env = mem_env, w_from = last_number (LatestL1L2InitL1Header (sample_processor None)) (L1StartingHeight (sample_config 0)) + 1,
          w_to = bh_Number (sample_row 1 1), w_before = events_db [] [], w_after = events_db [] []\<rparr>])"
    by (rule l1_runs.processed[OF _ _ sample_run]) (simp_all add: mem_gorms_ok sample_processor_def)
  from l1_heights_in_order[OF this] show ?thesis
    by (simp add: last_number_def sample_processor_def sample_config_def sample_number_1)
qed

text \<open>A window ends at a stored block after the cursor and holds at most the first 10000 blocks that are
  stored there; it stops short of a stored block only when it is full.\<close>

lemma window_bounds:
  assumes "gorms_ok (pe_G E)" "processInitiatedL1Events E (ep, s) = (Ok (), (ep', s'))"
    and "LatestL1L2InitL1Header ep' = Some h" "LatestL1L2InitL1Header ep \<noteq> Some h"
  defines "n \<equiv> last_number (LatestL1L2InitL1Header ep) (L1StartingHeight (ep_chainConfig ep))"
  shows "h \<in> set (l1_block_headers s) \<and> n < bh_Number h
    \<and> length (filter (\<lambda>x. n < bh_Number x \<and> bh_Number x < bh_Number h) (l1_block_headers s)) < blocksLimit
    \<and> ((\<exists>x \<in> set (l1_block_headers s). bh_Number h < bh_Number x)
        \<longrightarrow> blocksLimit \<le> length (filter (\<lambda>x. n < bh_Number x \<and> bh_Number x \<le> bh_Number h) (l1_block_headers s)))"
proof -
  have h: "h \<in> set (l1_block_headers s)" "n < bh_Number h" "window_max (\<lambda>k. n < k) (l1_block_headers s) = Some (bh_Number h)"
    using initiated_l1_Ok[OF assms(1,2)] assms(3,4) unfolding n_def by auto
  show ?thesis using h window_max_Some(3,4)[OF h(3)] by (metis order_less_trans)
qed

text \<open>When there is no new L2 block, the task that reads the relayed messages forgets its position, and its
  next run that succeeds starts again at the starting height: the windows it had processed are
  processed a second time.\<close>

lemma finalized_l2_starts_over:
  assumes "gorms_ok (pe_G E)" "gorms_ok (pe_G E')"
    and "processFinalizedL2Events E (ep, s) = (Ok (), (ep', s'))"
    and "\<forall>h \<in> set (l2_block_headers s). bh_Number h
           \<le> last_number (LatestL1L2FinalizedL2Header ep) (L2StartingHeight (ep_chainConfig ep))"
    and "processFinalizedL2Events E' (ep', t) = (Ok (), (ep'', t'))"
    and "\<exists>h \<in> set (l2_block_headers t). sint (L2StartingHeight (ep_chainConfig ep)) < bh_Number h"
  shows "LatestL1L2FinalizedL2Header ep' = None \<and> s' = s
    \<and> (\<exists>h \<in> set (l2_block_headers t). LatestL1L2FinalizedL2Header ep'' = Some h
         \<and> l2_finalized_body E' (ep_chainConfig ep) (sint (L2StartingHeight (ep_chainConfig ep)) + 1) (bh_Number h) t = (Ok (), t'))"
proof -
  have 1: "ep_chainConfig ep' = ep_chainConfig ep" "LatestL1L2FinalizedL2Header ep' = None" "s' = s"
    using finalized_l2_Ok[OF assms(1,3)] assms(4) by force+
  then have "last_number (LatestL1L2FinalizedL2Header ep') (L2StartingHeight (ep_chainConfig ep')) = sint (L2StartingHeight (ep_chainConfig ep))"
    by (simp add: last_number_def)
  then show ?thesis using finalized_l2_Ok[OF assms(2,5)] assms(6) 1 by force
qed

end
