(* ===== verification/Checkpoints.thy ===== *)
theory Checkpoints
  imports MantleDA EventTables EthClient EventProcessor
begin


text \<open>
  The balance check of the bridge: database/exporter/checkpoint.go, database/business/token_list.go and
  the functions syncTokenBalance and syncTokenList of business/run.go.  A checkpoint records the
  balance of the bridge on L1 and the supply on L2 for one token at two heights; a later run compares
  the differences of the two and, when they disagree, corrects the new one by the deposits and
  withdrawals that are under way.
\<close>

section \<open>The tables\<close>

text \<open>SELECT MAX(id) FROM bridge_checkpoints GROUP BY l1_token_address.\<close>

definition latest_of_token :: "BridgeCheckpoint list \<Rightarrow> BridgeCheckpoint \<Rightarrow> bool" where
  "latest_of_token t r = list_ex (\<lambda>g. Some (uint (bc_ID r))
     = sql_max (map (\<lambda>x. Some (uint (bc_ID x))) (filter (\<lambda>x. bc_L1TokenAddress x = bc_L1TokenAddress g) t))) t"

definition GetLatestBridgeCheckpoint :: "gorms \<Rightarrow> db \<Rightarrow> BridgeCheckpoint list" where
  "GetLatestBridgeCheckpoint G s =
     page_or_empty (g_find (G_checkpoint G) (latest_of_token (bridge_checkpoints s)) (bridge_checkpoints s))"

text \<open>Create: the database draws the primary key.\<close>

definition StoreBridgeCheckpoint :: "gorms \<Rightarrow> (db \<Rightarrow> u64) \<Rightarrow> BridgeCheckpoint \<Rightarrow> (db, unit) go" where
  "StoreBridgeCheckpoint G next_id c = (\<lambda>s.
     zoomG bridge_checkpoints bridge_checkpoints_update (g_create (G_checkpoint G) [c\<lparr>bc_ID := next_id s\<rparr>]) s)"

text \<open>The four queries: an error leaves the list empty, except that a missing row would be nil.\<close>

definition rows_or_nil :: "'r list result \<Rightarrow> 'r list option" where
  "rows_or_nil res = (case res of
       Ok rs \<Rightarrow> Some rs
     | Err e \<Rightarrow> if errors_Is e RecordNotFound then None else Some []
     | Panic p \<Rightarrow> Some [])"

definition deposit_unrelayed :: "u64 \<Rightarrow> u64 \<Rightarrow> string \<Rightarrow> L1ToL2 \<Rightarrow> bool" where
  "deposit_unrelayed L1Number l1Latest token r =
     (sql_gt (l12_L1BlockNumber r) (uint L1Number) \<and> sql_le (l12_L1BlockNumber r) (uint l1Latest)
      \<and> address_text (l12_L1TokenAddress r) = token \<and> l12_L2TransactionHash r = 0)"

definition GetL1DepositUnrelay :: "gorms \<Rightarrow> u64 \<Rightarrow> u64 \<Rightarrow> string \<Rightarrow> db \<Rightarrow> L1ToL2 list option" where
  "GetL1DepositUnrelay G L1Number l1Latest token s =
     rows_or_nil (g_find (G_l12 G) (deposit_unrelayed L1Number l1Latest token) (l1_to_l2 s))"

definition withdraw_unclaimed :: "u64 \<Rightarrow> u64 \<Rightarrow> string \<Rightarrow> L2ToL1 \<Rightarrow> bool" where
  "withdraw_unclaimed L2Number l2Latest token r =
     (sql_gt (l21_L2BlockNumber r) (uint L2Number) \<and> sql_le (l21_L2BlockNumber r) (uint l2Latest)
      \<and> address_text (l21_L2TokenAddress r) = token \<and> l21_L1FinalizeTxHash r = 0)"

definition GetL2WithdrawUnclaimed :: "gorms \<Rightarrow> u64 \<Rightarrow> u64 \<Rightarrow> string \<Rightarrow> db \<Rightarrow> L2ToL1 list option" where
  "GetL2WithdrawUnclaimed G L2Number l2Latest token s =
     rows_or_nil (g_find (G_l21 G) (withdraw_unclaimed L2Number l2Latest token) (l2_to_l1 s))"

definition deposit_relayed :: "u64 \<Rightarrow> u64 \<Rightarrow> string \<Rightarrow> L1ToL2 \<Rightarrow> bool" where
  "deposit_relayed L1Number L2Number token r =
     (sql_less (l12_L1BlockNumber r) (uint L1Number) \<and> sql_gt (l12_L2BlockNumber r) (uint L2Number)
      \<and> address_text (l12_L1TokenAddress r) = token \<and> l12_L2TransactionHash r \<noteq> 0)"

definition GetL1DepositRelayed :: "gorms \<Rightarrow> u64 \<Rightarrow> u64 \<Rightarrow> string \<Rightarrow> db \<Rightarrow> L1ToL2 list option" where
  "GetL1DepositRelayed G L1Number L2Number token s =
     rows_or_nil (g_find (G_l12 G) (deposit_relayed L1Number L2Number token) (l1_to_l2 s))"

definition withdraw_claimed :: "u64 \<Rightarrow> u64 \<Rightarrow> string \<Rightarrow> L2ToL1 \<Rightarrow> bool" where
  "withdraw_claimed L1Number l1Latest token r =
     (sql_gt (l21_L1BlockNumber r) (uint L1Number) \<and> sql_le (l21_L1BlockNumber r) (uint l1Latest)
      \<and> address_text (l21_L2TokenAddress r) = token \<and> l21_L1FinalizeTxHash r \<noteq> 0)"

definition GetL2WithdrawClaimed :: "gorms \<Rightarrow> u64 \<Rightarrow> u64 \<Rightarrow> string \<Rightarrow> db \<Rightarrow> L2ToL1 list option" where
  "GetL2WithdrawClaimed G L1Number l1Latest token s =
     rows_or_nil (g_find (G_l21 G) (withdraw_claimed L1Number l1Latest token) (l2_to_l1 s))"

section \<open>The token list\<close>

text \<open>Find into a struct takes a row if there is one; its error is not looked at.  Updates changes every row
  with the name and the chain; Save inserts a row without an
  identifier and writes the row with its identifier otherwise.\<close>

definition SaveTokenList :: "gorms \<Rightarrow> (db \<Rightarrow> u64) \<Rightarrow> TokenList \<Rightarrow> (db, unit) go" where
  "SaveTokenList G next_id token = (\<lambda>s.
     let a = ToLower (tk_Address token);
         same = (\<lambda>r. tk_Name r = tk_Name token \<and> tk_ChainID r = tk_ChainID token);
         found = (case g_take (G_token G) same (token_lists s) of Ok r \<Rightarrow> tk_ID r | _ \<Rightarrow> 0) in
     if found \<noteq> 0
     then zoomG token_lists token_lists_update (g_updates (G_token G) same
            (\<lambda>r. r\<lparr>tk_Address := a, tk_Symbol := tk_Symbol token, tk_Decimals := tk_Decimals token,
                   tk_Timestamp := tk_Timestamp token\<rparr>)) s
     else zoomG token_lists token_lists_update
            (if tk_ID token = 0 then g_create (G_token G) [token\<lparr>tk_ID := next_id s, tk_Address := a\<rparr>]
             else g_save (G_token G) (token\<lparr>tk_Address := a\<rparr>)) s)"

definition GetSymbolByAddress :: "gorms \<Rightarrow> string \<Rightarrow> db \<Rightarrow> string result" where
  "GetSymbolByAddress G addr s =
     bindR (g_take (G_token G) (\<lambda>r. tk_Address r = ToLower addr) (token_lists s)) (\<lambda>r. Ok (tk_Symbol r))"

section \<open>syncTokenList\<close>

text \<open>The answer of the token list service and the two JSON decodings are parameters; a missing key is the
  empty text, which does not decode.  An error of one token is logged and the next one is saved.\<close>

record token_env =
  te_get :: "string \<Rightarrow> bytes result"
  te_object :: "bytes \<Rightarrow> (string \<Rightarrow> bytes option) result"
  te_tokens :: "bytes \<Rightarrow> TokenList list result"
  te_now :: "nat \<Rightarrow> u64"
  te_next_id :: "db \<Rightarrow> u64"

fun save_tokens :: "gorms \<Rightarrow> token_env \<Rightarrow> nat \<Rightarrow> TokenList list \<Rightarrow> (db, unit) go" where
  "save_tokens G E i [] s = (Ok (), s)"
| "save_tokens G E i (t # ts) s =
     (case SaveTokenList G (te_next_id E) (t\<lparr>tk_Timestamp := te_now E i\<rparr>) s of
        (Panic p, s') \<Rightarrow> (Panic p, s')
      | (_, s') \<Rightarrow> save_tokens G E (i + 1) ts s')"

definition syncTokenList :: "gorms \<Rightarrow> token_env \<Rightarrow> string \<Rightarrow> (db, unit) go" where
  "syncTokenList G E tokenListUrl =
     bindG (liftR (te_get E tokenListUrl)) (\<lambda>body.
     bindG (liftR (te_object E body)) (\<lambda>loader.
     bindG (liftR (te_tokens E (case loader ''tokens'' of None \<Rightarrow> [] | Some raw \<Rightarrow> raw))) (\<lambda>tokenList.
     save_tokens G E 0 tokenList)))"

section \<open>syncTokenBalance\<close>

text \<open>What a run takes from outside: the two nodes for the i-th token, the time, the next identifier.\<close>

record balance_env =
  be_l1 :: "nat \<Rightarrow> EthClient"
  be_l2 :: "nat \<Rightarrow> EthClient"
  be_now :: "nat \<Rightarrow> int"
  be_next_id :: "db \<Rightarrow> u64"

definition zero_address_text :: string where
  "zero_address_text = ''0x0000000000000000000000000000000000000000''"

definition bridge_balance :: "EthClient \<Rightarrow> address \<Rightarrow> string \<Rightarrow> int \<Rightarrow> int result" where
  "bridge_balance client bridge l1Address n =
     (if l1Address = zero_address_text then ec_GetBalanceByBlockNumber client bridge (Some n)
      else ec_GetERC20Balance client (HexToAddress l1Address) bridge (Some n))"

text \<open>The amount of a transfer: of ETH when its token is the zero address; a nil amount is a nil
  dereference.\<close>

definition deposit_amount :: "L1ToL2 \<Rightarrow> int result" where
  "deposit_amount r = nonil (if l12_L1TokenAddress r = 0 then l12_ETHAmount r else l12_ERC20Amount r)"

definition withdraw_amount :: "L2ToL1 \<Rightarrow> int result" where
  "withdraw_amount r = nonil (if l21_L1TokenAddress r = 0 then l21_ETHAmount r else l21_ERC20Amount r)"

definition sub_all :: "('r \<Rightarrow> int result) \<Rightarrow> 'r list option \<Rightarrow> int \<Rightarrow> int result" where
  "sub_all amount rows x = bindR (nonil rows) (\<lambda>rs. foldR (\<lambda>r x. bindR (amount r) (\<lambda>a. Ok (x - a))) rs x)"

definition add_all :: "('r \<Rightarrow> int result) \<Rightarrow> 'r list option \<Rightarrow> int \<Rightarrow> int result" where
  "add_all amount rows x = bindR (nonil rows) (\<lambda>rs. foldR (\<lambda>r x. bindR (amount r) (\<lambda>a. Ok (x + a))) rs x)"

text \<open>The correction of the new difference by the transfers under way.\<close>

definition corrected_difference :: "gorms \<Rightarrow> BridgeCheckpoint \<Rightarrow> int \<Rightarrow> int \<Rightarrow> db \<Rightarrow> int \<Rightarrow> int result" where
  "corrected_difference G c l1Latest l2Latest s diff =
     (let unrelayed = GetL1DepositUnrelay G (bc_L1Number c) (big_Uint64 l1Latest) (bc_L1TokenAddress c) s;
          withdraws = GetL2WithdrawUnclaimed G (bc_L2Number c) (big_Uint64 l2Latest) (bc_L2TokenAddress c) s;
          deposits = GetL1DepositRelayed G (bc_L1Number c) (bc_L2Number c) (bc_L1TokenAddress c) s;
          claimed = GetL2WithdrawClaimed G (bc_L1Number c) (big_Uint64 l1Latest) (bc_L2TokenAddress c) s in
      bindR (sub_all deposit_amount deposits diff) (\<lambda>d1.
      bindR (sub_all withdraw_amount withdraws d1) (\<lambda>d2.
      bindR (add_all deposit_amount unrelayed d2) (\<lambda>d3.
      add_all withdraw_amount claimed d3))))"

text \<open>The loop over the earlier checkpoints.  None is its early return, with a nil error, when an earlier
  checkpoint is not readable; otherwise the difference it has computed, which the next checkpoint of
  the same token would start from.\<close>

fun check_loop :: "gorms \<Rightarrow> balance_env \<Rightarrow> string \<Rightarrow> BridgeCheckpoint \<Rightarrow> int \<Rightarrow> int
    \<Rightarrow> BridgeCheckpoint list \<Rightarrow> int \<Rightarrow> (db, int option) go" where
  "check_loop G E l1Address new l1Latest l2Latest [] diff = retG (Some diff)"
| "check_loop G E l1Address new l1Latest l2Latest (c # cs) diff =
     (if bc_L1TokenAddress c \<noteq> l1Address then check_loop G E l1Address new l1Latest l2Latest cs diff
      else case (SetString (bc_L1BridgeBalance c), SetString (bc_TotalSupply c)) of
        (Some balance, Some supply) \<Rightarrow>
          (if diff = balance - supply
           then thenG (StoreBridgeCheckpoint G (be_next_id E) (new\<lparr>bc_Checked := True\<rparr>))
                  (check_loop G E l1Address (new\<lparr>bc_Checked := True\<rparr>) l1Latest l2Latest cs diff)
           else bindG (readG (\<lambda>s. corrected_difference G c l1Latest l2Latest s diff)) (\<lambda>diff'.
                let new' = (if diff' = balance - supply then new\<lparr>bc_Checked := True\<rparr> else new) in
                thenG (StoreBridgeCheckpoint G (be_next_id E) new')
                  (check_loop G E l1Address new' l1Latest l2Latest cs diff')))
      | _ \<Rightarrow> retG None)"

text \<open>One token; True: the loop over the tokens goes on.\<close>

definition check_token :: "gorms \<Rightarrow> balance_env \<Rightarrow> address \<Rightarrow> string list \<Rightarrow> BridgeCheckpoint list \<Rightarrow> nat \<Rightarrow> string
    \<Rightarrow> (db, bool) go" where
  "check_token G E bridge l2Addresses checkpoints i l1Address =
     bindG (readG (\<lambda>s. bindR (L1LatestBlockHeader G s) nonil)) (\<lambda>h1.
     bindG (readG (\<lambda>s. bindR (L2LatestBlockHeader G s) nonil)) (\<lambda>h2.
     bindG (liftR (bridge_balance (be_l1 E i) bridge l1Address (bh_Number h1))) (\<lambda>latestBalance.
     bindG (liftR (indexR l2Addresses i)) (\<lambda>l2Address.
     bindG (liftR (ec_GetERC20TotalSupply (be_l2 E i) (HexToAddress l2Address) (Some (bh_Number h2)))) (\<lambda>latestTotalSupply.
     let new = \<lparr>bc_ID = 0, bc_SnapshotTime = be_now E i, bc_L1Number = big_Uint64 (bh_Number h1),
                bc_L1TokenAddress = l1Address, bc_L2Number = big_Uint64 (bh_Number h2), bc_L2TokenAddress = l2Address,
                bc_L1BridgeBalance = int_String latestBalance, bc_TotalSupply = int_String latestTotalSupply,
                bc_Checked = False, bc_Status = 1\<rparr> in
     if length checkpoints = 0
     then thenG (G_tx G (StoreBridgeCheckpoint G (be_next_id E) (new\<lparr>bc_Checked := True\<rparr>))) (retG True)
     else bindG (check_loop G E l1Address new (bh_Number h1) (bh_Number h2) checkpoints (latestBalance - latestTotalSupply))
            (\<lambda>r. retG (r \<noteq> None)))))))"

fun check_tokens :: "gorms \<Rightarrow> balance_env \<Rightarrow> address \<Rightarrow> string list \<Rightarrow> BridgeCheckpoint list \<Rightarrow> nat \<Rightarrow> string list
    \<Rightarrow> (db, unit) go" where
  "check_tokens G E bridge l2Addresses checkpoints i [] = retG ()"
| "check_tokens G E bridge l2Addresses checkpoints i (a # as) =
     bindG (check_token G E bridge l2Addresses checkpoints i a) (\<lambda>go_on.
       if go_on then check_tokens G E bridge l2Addresses checkpoints (i + 1) as else retG ())"

definition syncTokenBalance :: "gorms \<Rightarrow> balance_env \<Rightarrow> address \<Rightarrow> string \<Rightarrow> string \<Rightarrow> (db, unit) go" where
  "syncTokenBalance G E bridge l1AddressList l2AddressList =
     bindG (getG (GetLatestBridgeCheckpoint G)) (\<lambda>checkpoints.
       check_tokens G E bridge (Split l2AddressList CHR '' '') checkpoints 0 (Split l1AddressList CHR '' ''))"


section \<open>What the check decides\<close>

definition value_or_zero :: "int result \<Rightarrow> int" where
  "value_or_zero r = (case r of Ok a \<Rightarrow> a | _ \<Rightarrow> 0)"

lemma value_or_zero_Ok [simp]: "value_or_zero (Ok a) = a"
  by (simp add: value_or_zero_def)

text \<open>The amounts of the rows of a table that satisfy a condition.\<close>

definition total :: "('r \<Rightarrow> int result) \<Rightarrow> ('r \<Rightarrow> bool) \<Rightarrow> 'r list \<Rightarrow> int" where
  "total amount P t = sum_list (map (\<lambda>r. value_or_zero (amount r)) (filter P t))"

text \<open>What the four queries together add to the difference.\<close>

definition correction :: "BridgeCheckpoint \<Rightarrow> int \<Rightarrow> int \<Rightarrow> db \<Rightarrow> int" where
  "correction c l1Latest l2Latest s =
     total deposit_amount (deposit_unrelayed (bc_L1Number c) (big_Uint64 l1Latest) (bc_L1TokenAddress c)) (l1_to_l2 s)
     + total withdraw_amount (withdraw_claimed (bc_L1Number c) (big_Uint64 l1Latest) (bc_L2TokenAddress c)) (l2_to_l1 s)
     - total deposit_amount (deposit_relayed (bc_L1Number c) (bc_L2Number c) (bc_L1TokenAddress c)) (l1_to_l2 s)
     - total withdraw_amount (withdraw_unclaimed (bc_L2Number c) (big_Uint64 l2Latest) (bc_L2TokenAddress c)) (l2_to_l1 s)"

lemma sub_all_value:
  "sub_all amount (Some rs) x = Ok y \<Longrightarrow> y = x - sum_list (map (\<lambda>r. value_or_zero (amount r)) rs)"
  by (induction rs arbitrary: x) (fastforce simp: sub_all_def)+

lemma add_all_value:
  "add_all amount (Some rs) x = Ok y \<Longrightarrow> y = x + sum_list (map (\<lambda>r. value_or_zero (amount r)) rs)"
  by (induction rs arbitrary: x) (fastforce simp: add_all_def)+

definition finds :: "'r gorm \<Rightarrow> bool" where
  "finds G = (\<forall>P t. \<exists>rs. g_find G P t = Ok rs)"

lemma found_total:
  assumes "gorm_ok key G" "finds G" "rows_or_nil (g_find G P t) = rows"
  shows "\<exists>rs. rows = Some rs \<and> sum_list (map (\<lambda>r. value_or_zero (amount r)) rs) = total amount P t"
proof -
  obtain rs where rs: "g_find G P t = Ok rs" using assms(2) unfolding finds_def by blast
  have "sum_list (map (\<lambda>r. value_or_zero (amount r)) rs) = total amount P t"
    unfolding total_def using gorm_find(1)[OF assms(1) rs]
    by (metis (mono_tags, lifting) mset_map sum_mset_sum_list)
  then show ?thesis using rs assms(3) by (auto simp: rows_or_nil_def)
qed

lemma corrected_value:
  assumes "gorms_ok G" "finds (G_l12 G)" "finds (G_l21 G)"
    and "corrected_difference G c l1Latest l2Latest s diff = Ok d"
  shows "d = diff + correction c l1Latest l2Latest s"
proof -
  note l12 = found_total[OF gorms_okD(9)[OF assms(1)] assms(2), where amount = deposit_amount]
  note l21 = found_total[OF gorms_okD(10)[OF assms(1)] assms(3), where amount = withdraw_amount]
  from l12[OF GetL1DepositUnrelay_def[symmetric]] obtain u where u:
    "GetL1DepositUnrelay G (bc_L1Number c) (big_Uint64 l1Latest) (bc_L1TokenAddress c) s = Some u"
    "sum_list (map (\<lambda>r. value_or_zero (deposit_amount r)) u) =
       total deposit_amount (deposit_unrelayed (bc_L1Number c) (big_Uint64 l1Latest) (bc_L1TokenAddress c)) (l1_to_l2 s)"
    by blast
  from l12[OF GetL1DepositRelayed_def[symmetric]] obtain r where r:
    "GetL1DepositRelayed G (bc_L1Number c) (bc_L2Number c) (bc_L1TokenAddress c) s = Some r"
    "sum_list (map (\<lambda>r. value_or_zero (deposit_amount r)) r) =
       total deposit_amount (deposit_relayed (bc_L1Number c) (bc_L2Number c) (bc_L1TokenAddress c)) (l1_to_l2 s)"
    by blast
  from l21[OF GetL2WithdrawUnclaimed_def[symmetric]] obtain w where w:
    "GetL2WithdrawUnclaimed G (bc_L2Number c) (big_Uint64 l2Latest) (bc_L2TokenAddress c) s = Some w"
    "sum_list (map (\<lambda>r. value_or_zero (withdraw_amount r)) w) =
       total withdraw_amount (withdraw_unclaimed (bc_L2Number c) (big_Uint64 l2Latest) (bc_L2TokenAddress c)) (l2_to_l1 s)"
    by blast
  from l21[OF GetL2WithdrawClaimed_def[symmetric]] obtain k where k:
    "GetL2WithdrawClaimed G (bc_L1Number c) (big_Uint64 l1Latest) (bc_L2TokenAddress c) s = Some k"
    "sum_list (map (\<lambda>r. value_or_zero (withdraw_amount r)) k) =
       total withdraw_amount (withdraw_claimed (bc_L1Number c) (big_Uint64 l1Latest) (bc_L2TokenAddress c)) (l2_to_l1 s)"
    by blast
  obtain d1 d2 d3 where d: "sub_all deposit_amount (Some r) diff = Ok d1" "sub_all withdraw_amount (Some w) d1 = Ok d2"
    "add_all deposit_amount (Some u) d2 = Ok d3" "add_all withdraw_amount (Some k) d3 = Ok d"
    using assms(4) by (auto simp: corrected_difference_def u(1) r(1) w(1) k(1))
  show ?thesis
    using sub_all_value[OF d(1)] sub_all_value[OF d(2)] add_all_value[OF d(3)] add_all_value[OF d(4)]
    by (simp add: correction_def u(2) r(2) w(2) k(2))
qed

lemma check_loop_skips:
  "\<forall>c \<in> set cs. bc_L1TokenAddress c \<noteq> l1Address \<Longrightarrow> check_loop G E l1Address new l1 l2 cs diff = retG (Some diff)"
  by (induction cs) auto

lemma StoreBridgeCheckpoint_Ok:
  assumes "gorms_ok G" "StoreBridgeCheckpoint G next_id c s = (Ok (), s')"
  shows "s' = s\<lparr>bridge_checkpoints := bridge_checkpoints s @ [c\<lparr>bc_ID := next_id s\<rparr>]\<rparr>"
  using zoom_create_Ok[OF gorms_okD(16)[OF assms(1)]] assms(2) by (auto simp: StoreBridgeCheckpoint_def)

lemma check_loop_one:
  assumes "gorms_ok G" "finds (G_l12 G)" "finds (G_l21 G)"
    and "filter (\<lambda>c. bc_L1TokenAddress c = l1Address) cs = [c]"
    and "SetString (bc_L1BridgeBalance c) = Some b0" "SetString (bc_TotalSupply c) = Some s0"
    and "check_loop G E l1Address new l1 l2 cs diff s = (Ok r, s')"
  shows "r \<noteq> None \<and> (\<exists>d. s' = s\<lparr>bridge_checkpoints := bridge_checkpoints s @ [d]\<rparr>
     \<and> d = new\<lparr>bc_ID := be_next_id E s, bc_Checked := bc_Checked new
            \<or> diff = b0 - s0 \<or> diff + correction c l1 l2 s = b0 - s0\<rparr>)"
  using assms(4,7)
proof (induction cs)
  case Nil
  then show ?case by simp
next
  case (Cons x xs)
  show ?case
  proof (cases "bc_L1TokenAddress x = l1Address")
    case False
    then show ?thesis using Cons by simp
  next
    case True
    then have x: "x = c" "\<forall>c \<in> set xs. bc_L1TokenAddress c \<noteq> l1Address"
      using Cons.prems(1) by (auto simp: filter_empty_conv)
    note sk = check_loop_skips[OF x(2)]
    show ?thesis
    proof (cases "diff = b0 - s0")
      case eq: True
      then have run: "thenG (StoreBridgeCheckpoint G (be_next_id E) (new\<lparr>bc_Checked := True\<rparr>))
                  (check_loop G E l1Address (new\<lparr>bc_Checked := True\<rparr>) l1 l2 xs diff) s = (Ok r, s')"
        using Cons.prems(2) True x(1) assms(5,6) by simp
      then obtain s1 where "StoreBridgeCheckpoint G (be_next_id E) (new\<lparr>bc_Checked := True\<rparr>) s = (Ok (), s1)"
        "retG (Some diff) s1 = (Ok r, s')" by (auto simp: thenG_eq_Ok sk)
      then show ?thesis using StoreBridgeCheckpoint_Ok[OF assms(1), of "be_next_id E" "new\<lparr>bc_Checked := True\<rparr>" s s1] eq
        by (auto simp: retG_def)
    next
      case ne: False
      have "\<exists>d s1. corrected_difference G c l1 l2 s diff = Ok d
          \<and> StoreBridgeCheckpoint G (be_next_id E) (if d = b0 - s0 then new\<lparr>bc_Checked := True\<rparr> else new) s = (Ok (), s1)
          \<and> retG (Some d) s1 = (Ok r, s')"
        using Cons.prems(2) True x(1) assms(5,6) ne by (auto simp: thenG_eq_Ok bindG_eq_Ok readG_def sk Let_def)
      then obtain d s1 where d: "corrected_difference G c l1 l2 s diff = Ok d"
        "StoreBridgeCheckpoint G (be_next_id E) (if d = b0 - s0 then new\<lparr>bc_Checked := True\<rparr> else new) s = (Ok (), s1)"
        "retG (Some d) s1 = (Ok r, s')" by blast
      show ?thesis using StoreBridgeCheckpoint_Ok[OF assms(1) d(2)] d(3) corrected_value[OF assms(1-3) d(1)] ne
        by (auto simp: retG_def)
    qed
  qed
qed

text \<open>For a token with one earlier checkpoint, a run of the balance check that does not fail stores exactly
  one new checkpoint; it is marked as checked when the difference of the bridge's balance and the
  token's supply is the earlier one, as it is or with the correction of the code.\<close>

lemma check_decision:
  assumes "gorms_ok G" "finds (G_l12 G)" "finds (G_l21 G)"
    and "filter (\<lambda>c. bc_L1TokenAddress c = l1Address) checkpoints = [c]"
    and "SetString (bc_L1BridgeBalance c) = Some b0" "SetString (bc_TotalSupply c) = Some s0"
    and "check_token G E bridge l2Addresses checkpoints i l1Address s = (Ok go_on, s')"
  shows "\<exists>h1 h2 balance supply new.
      L1LatestBlockHeader G s = Ok (Some h1) \<and> L2LatestBlockHeader G s = Ok (Some h2)
    \<and> bridge_balance (be_l1 E i) bridge l1Address (bh_Number h1) = Ok balance
    \<and> ec_GetERC20TotalSupply (be_l2 E i) (HexToAddress (l2Addresses ! i)) (Some (bh_Number h2)) = Ok supply
    \<and> go_on \<and> s' = s\<lparr>bridge_checkpoints := bridge_checkpoints s @ [new]\<rparr>
    \<and> SetString (bc_L1BridgeBalance new) = Some balance \<and> SetString (bc_TotalSupply new) = Some supply
    \<and> bc_Checked new = (balance - supply = b0 - s0
        \<or> balance - supply + correction c (bh_Number h1) (bh_Number h2) s = b0 - s0)"
proof -
  have ne: "checkpoints \<noteq> []" using assms(4) by auto
  obtain h1 h2 balance l2 "supply" r where run: "L1LatestBlockHeader G s = Ok (Some h1)" "L2LatestBlockHeader G s = Ok (Some h2)"
    "bridge_balance (be_l1 E i) bridge l1Address (bh_Number h1) = Ok balance" "indexR l2Addresses i = Ok l2"
    "ec_GetERC20TotalSupply (be_l2 E i) (HexToAddress l2) (Some (bh_Number h2)) = Ok supply"
    "check_loop G E l1Address \<lparr>bc_ID = 0, bc_SnapshotTime = be_now E i, bc_L1Number = big_Uint64 (bh_Number h1),
        bc_L1TokenAddress = l1Address, bc_L2Number = big_Uint64 (bh_Number h2), bc_L2TokenAddress = l2,
        bc_L1BridgeBalance = int_String balance, bc_TotalSupply = int_String supply,
        bc_Checked = False, bc_Status = 1\<rparr> (bh_Number h1) (bh_Number h2) checkpoints (balance - supply) s = (Ok r, s')"
    "go_on = (r \<noteq> None)"
    using assms(7) ne unfolding check_token_def Let_def
    by (auto simp: bindG_eq_Ok readG_def liftR_def retG_def)
  show ?thesis
    using check_loop_one[OF assms(1-6) run(6)] run(1-5,7) by (auto simp: indexR_eq_Ok)
qed

section \<open>The ledger of the transfers\<close>

text \<open>What happened to a transfer after the block \<open>a\<close> and up to the block \<open>b\<close> of the chain it happened on: a deposit was
  locked on L1 or minted on L2, a withdrawal was burned on L2 or paid out on L1.\<close>

definition in_window :: "int \<Rightarrow> int \<Rightarrow> int option \<Rightarrow> bool" where
  "in_window a b n = (case n of None \<Rightarrow> False | Some k \<Rightarrow> a < k \<and> k \<le> b)"

definition locked :: "int \<Rightarrow> int \<Rightarrow> L1ToL2 \<Rightarrow> bool" where
  "locked a b r = in_window a b (l12_L1BlockNumber r)"

definition minted :: "int \<Rightarrow> int \<Rightarrow> L1ToL2 \<Rightarrow> bool" where
  "minted a b r = (l12_L2TransactionHash r \<noteq> 0 \<and> in_window a b (l12_L2BlockNumber r))"

definition burned :: "int \<Rightarrow> int \<Rightarrow> L2ToL1 \<Rightarrow> bool" where
  "burned a b r = in_window a b (l21_L2BlockNumber r)"

definition paid_out :: "int \<Rightarrow> int \<Rightarrow> L2ToL1 \<Rightarrow> bool" where
  "paid_out a b r = (l21_L1FinalizeTxHash r \<noteq> 0 \<and> in_window a b (l21_L1BlockNumber r))"

abbreviation token_deposits :: "string \<Rightarrow> db \<Rightarrow> L1ToL2 list" where
  "token_deposits token s \<equiv> filter (\<lambda>r. address_text (l12_L1TokenAddress r) = token) (l1_to_l2 s)"

abbreviation token_withdrawals :: "string \<Rightarrow> db \<Rightarrow> L2ToL1 list" where
  "token_withdrawals token s \<equiv> filter (\<lambda>r. address_text (l21_L2TokenAddress r) = token) (l2_to_l1 s)"

text \<open>The bridge's balance moves by the deposits locked and the withdrawals paid out on L1, the supply by the deposits minted and the
  withdrawals burned on L2.\<close>

definition balance_moves :: "BridgeCheckpoint \<Rightarrow> int \<Rightarrow> db \<Rightarrow> int" where
  "balance_moves c m s =
     total deposit_amount (locked (uint (bc_L1Number c)) m) (token_deposits (bc_L1TokenAddress c) s)
     - total withdraw_amount (paid_out (uint (bc_L1Number c)) m) (token_withdrawals (bc_L2TokenAddress c) s)"

definition supply_moves :: "BridgeCheckpoint \<Rightarrow> int \<Rightarrow> db \<Rightarrow> int" where
  "supply_moves c m s =
     total deposit_amount (minted (uint (bc_L2Number c)) m) (token_deposits (bc_L1TokenAddress c) s)
     - total withdraw_amount (burned (uint (bc_L2Number c)) m) (token_withdrawals (bc_L2TokenAddress c) s)"

text \<open>Deposits locked since the checkpoint of which nothing is known on L2, deposits locked before the checkpoint and minted since,
  and withdrawals both burned and paid out since.\<close>

definition deposits_waiting :: "BridgeCheckpoint \<Rightarrow> int \<Rightarrow> db \<Rightarrow> int" where
  "deposits_waiting c m s = total deposit_amount (\<lambda>r. locked (uint (bc_L1Number c)) m r \<and> l12_L2TransactionHash r = 0)
     (token_deposits (bc_L1TokenAddress c) s)"

definition deposits_arrived :: "BridgeCheckpoint \<Rightarrow> int \<Rightarrow> int \<Rightarrow> db \<Rightarrow> int" where
  "deposits_arrived c m1 m2 s = total deposit_amount
     (\<lambda>r. minted (uint (bc_L2Number c)) m2 r \<and> \<not> locked (uint (bc_L1Number c)) m1 r) (token_deposits (bc_L1TokenAddress c) s)"

definition round_trips :: "BridgeCheckpoint \<Rightarrow> int \<Rightarrow> int \<Rightarrow> db \<Rightarrow> int" where
  "round_trips c m1 m2 s = total withdraw_amount
     (\<lambda>r. burned (uint (bc_L2Number c)) m2 r \<and> paid_out (uint (bc_L1Number c)) m1 r) (token_withdrawals (bc_L2TokenAddress c) s)"

text \<open>The tables know the two chains up to the same moment at both checkpoints: a deposit locked since the checkpoint has not been
  minted before it, one minted since was locked in a block before the checkpoint's or since, and a withdrawal burned since has
  not been paid out before.\<close>

definition in_step :: "BridgeCheckpoint \<Rightarrow> int \<Rightarrow> int \<Rightarrow> db \<Rightarrow> bool" where
  "in_step c m1 m2 s = (
     (\<forall>r \<in> set (token_deposits (bc_L1TokenAddress c) s).
        (locked (uint (bc_L1Number c)) m1 r \<and> l12_L2TransactionHash r \<noteq> 0 \<longrightarrow> minted (uint (bc_L2Number c)) m2 r)
      \<and> (minted (uint (bc_L2Number c)) m2 r \<longrightarrow> locked (uint (bc_L1Number c)) m1 r \<or> sql_less (l12_L1BlockNumber r) (uint (bc_L1Number c)))
      \<and> (l12_L2TransactionHash r \<noteq> 0 \<longrightarrow> sql_le (l12_L2BlockNumber r) m2))
   \<and> (\<forall>r \<in> set (token_withdrawals (bc_L2TokenAddress c) s).
        burned (uint (bc_L2Number c)) m2 r \<and> l21_L1FinalizeTxHash r \<noteq> 0 \<longrightarrow> paid_out (uint (bc_L1Number c)) m1 r))"

lemma total_filter: "total amount P (filter Q t) = total amount (\<lambda>r. P r \<and> Q r) t"
  by (simp add: total_def conj_commute)

lemma total_cong: "\<forall>r \<in> set t. P r = Q r \<Longrightarrow> total amount P t = total amount Q t"
  unfolding total_def by (intro arg_cong[of _ _ "\<lambda>xs. sum_list (map _ xs)"] filter_cong) auto

lemma total_split: "total amount P t = total amount (\<lambda>r. P r \<and> Q r) t + total amount (\<lambda>r. P r \<and> \<not> Q r) t"
  unfolding total_def by (induction t) auto

lemma window_sql: "in_window a b n \<longleftrightarrow> sql_gt n a \<and> sql_le n b"
  by (simp add: in_window_def sql_gt_def sql_le_def split: option.split)

lemmas ledger_defs = locked_def minted_def burned_def paid_out_def window_sql

text \<open>The correction adds where the ledger takes off and the other way round for deposits, and adds the round trips.\<close>

lemma correction_of_ledger:
  assumes "in_step c m1 m2 s" "0 \<le> m1" "m1 < 2 ^ 64" "0 \<le> m2" "m2 < 2 ^ 64"
  shows "correction c m1 m2 s = 2 * (deposits_waiting c m1 s - deposits_arrived c m1 m2 s) + round_trips c m1 m2 s
    - (balance_moves c m1 s - supply_moves c m2 s)"
proof -
  let ?D = "token_deposits (bc_L1TokenAddress c) s" and ?W = "token_withdrawals (bc_L2TokenAddress c) s"
  let ?l = "locked (uint (bc_L1Number c)) m1" and ?m = "minted (uint (bc_L2Number c)) m2"
  let ?b = "burned (uint (bc_L2Number c)) m2" and ?p = "paid_out (uint (bc_L1Number c)) m1"
  have m: "uint (big_Uint64 m1) = m1" "uint (big_Uint64 m2) = m2"
    using assms(2-5) by (simp_all add: big_Uint64_def uint_word_of_int take_bit_int_eq_self)
  have u: "total deposit_amount (deposit_unrelayed (bc_L1Number c) (big_Uint64 m1) (bc_L1TokenAddress c)) (l1_to_l2 s)
      = deposits_waiting c m1 s"
    unfolding deposits_waiting_def total_filter deposit_unrelayed_def m by (intro total_cong) (auto simp: ledger_defs)
  have row: "deposit_relayed (bc_L1Number c) (bc_L2Number c) (bc_L1TokenAddress c) r
      = ((?m r \<and> \<not> ?l r) \<and> address_text (l12_L1TokenAddress r) = bc_L1TokenAddress c)" if "r \<in> set (l1_to_l2 s)" for r
  proof (cases "address_text (l12_L1TokenAddress r) = bc_L1TokenAddress c")
    case True
    then have "?m r \<longrightarrow> ?l r \<or> sql_less (l12_L1BlockNumber r) (uint (bc_L1Number c))"
      "l12_L2TransactionHash r \<noteq> 0 \<longrightarrow> sql_le (l12_L2BlockNumber r) m2"
      using assms(1) that by (auto simp: in_step_def)
    then show ?thesis unfolding deposit_relayed_def ledger_defs
      by (cases "l12_L1BlockNumber r"; cases "l12_L2BlockNumber r") (auto simp: sql_less_def sql_gt_def sql_le_def)
  qed (simp add: deposit_relayed_def)
  have r: "total deposit_amount (deposit_relayed (bc_L1Number c) (bc_L2Number c) (bc_L1TokenAddress c)) (l1_to_l2 s)
      = deposits_arrived c m1 m2 s"
    unfolding deposits_arrived_def total_filter using row by (intro total_cong) blast
  have k: "total withdraw_amount (withdraw_claimed (bc_L1Number c) (big_Uint64 m1) (bc_L2TokenAddress c)) (l2_to_l1 s)
      = total withdraw_amount ?p ?W"
    unfolding total_filter withdraw_claimed_def m by (intro total_cong) (auto simp: ledger_defs)
  have w: "total withdraw_amount (withdraw_unclaimed (bc_L2Number c) (big_Uint64 m2) (bc_L2TokenAddress c)) (l2_to_l1 s)
      = total withdraw_amount (\<lambda>r. ?b r \<and> \<not> ?p r) ?W"
    unfolding total_filter withdraw_unclaimed_def m using assms(1)
    by (intro total_cong) (auto simp: in_step_def ledger_defs)
  have "total deposit_amount (\<lambda>r. ?l r \<and> l12_L2TransactionHash r \<noteq> 0) ?D = total deposit_amount (\<lambda>r. ?m r \<and> ?l r) ?D"
    using assms(1) by (intro total_cong) (auto simp: in_step_def minted_def)
  then have l: "total deposit_amount ?l ?D = deposits_waiting c m1 s + total deposit_amount (\<lambda>r. ?m r \<and> ?l r) ?D"
    using total_split[of deposit_amount ?l ?D "\<lambda>r. l12_L2TransactionHash r = 0"] by (simp add: deposits_waiting_def)
  have d: "total deposit_amount ?m ?D = total deposit_amount (\<lambda>r. ?m r \<and> ?l r) ?D + deposits_arrived c m1 m2 s"
    using total_split[of deposit_amount ?m ?D ?l] by (simp add: deposits_arrived_def)
  have b: "total withdraw_amount ?b ?W = round_trips c m1 m2 s + total withdraw_amount (\<lambda>r. ?b r \<and> \<not> ?p r) ?W"
    using total_split[of withdraw_amount ?b ?W ?p] by (simp add: round_trips_def)
  show ?thesis unfolding correction_def balance_moves_def supply_moves_def u r k w l d b by simp
qed


text \<open>A token that has no checkpoint when other tokens have is never given one.\<close>

lemma new_token_no_checkpoint:
  assumes "checkpoints \<noteq> []" "\<forall>c \<in> set checkpoints. bc_L1TokenAddress c \<noteq> l1Address"
    and "check_token G E bridge l2Addresses checkpoints i l1Address s = (Ok go_on, s')"
  shows "s' = s"
  using assms(1,3) unfolding check_token_def Let_def
  by (auto simp: bindG_eq_Ok readG_def liftR_def retG_def check_loop_skips[OF assms(2)])


text \<open>A node on which every account holds \<open>balance\<close> and every token has the supply \<open>total\<close>.\<close>

definition balance_client :: "int \<Rightarrow> int \<Rightarrow> EthClient" where
  "balance_client balance total_supply =
     \<lparr>ec_BlockHeaderByNumber = (\<lambda>_. Err NotFound), ec_LatestSafeBlockHeader = Err NotFound,
      ec_LatestFinalizedBlockHeader = Err NotFound, ec_BlockHeaderByHash = (\<lambda>_. Err NotFound),
      ec_BlockHeadersByRange = (\<lambda>_ _. Err NotFound), ec_TxsByHash = (\<lambda>_. Err NotFound), ec_TxsByNumber = (\<lambda>_. Err NotFound),
      ec_TxDetailByHash = (\<lambda>_. Err NotFound), ec_TxReceiptDetailByHash = (\<lambda>_. Err NotFound),
      ec_StorageHash = (\<lambda>_ _. Err NotFound), ec_FilterLogs = (\<lambda>_. Err NotFound),
      ec_GetBalanceByBlockNumber = (\<lambda>_ _. Ok balance), ec_GetERC20Balance = (\<lambda>_ _ _. Ok balance),
      ec_GetERC20TotalSupply = (\<lambda>_ _. Ok total_supply)\<rparr>"

definition balance_env_of :: "int \<Rightarrow> int \<Rightarrow> balance_env" where
  "balance_env_of balance total_supply =
     \<lparr>be_l1 = (\<lambda>_. balance_client balance total_supply), be_l2 = (\<lambda>_. balance_client balance total_supply),
      be_now = int, be_next_id = (\<lambda>s. word_of_nat (length (bridge_checkpoints s)) + 1)\<rparr>"

definition sample_checkpoint :: BridgeCheckpoint where
  "sample_checkpoint = \<lparr>bc_ID = 1, bc_SnapshotTime = 0, bc_L1Number = 5, bc_L1TokenAddress = address_text 7, bc_L2Number = 5,
     bc_L2TokenAddress = address_text 8, bc_L1BridgeBalance = int_String 100, bc_TotalSupply = int_String 90,
     bc_Checked = True, bc_Status = 1\<rparr>"

text \<open>A withdrawal of 30 burned before the checkpoint that L1 has paid out since.\<close>

definition checked_db :: db where
  "checked_db = empty_db\<lparr>l1_block_headers := [sample_row 1 9], l2_block_headers := [sample_row 2 9],
     bridge_checkpoints := [sample_checkpoint],
     l2_to_l1 := [zero_L2ToL1\<lparr>l21_L1BlockNumber := Some 8, l21_L1FinalizeTxHash := 77, l21_L1TokenAddress := 7,
       l21_L2BlockNumber := Some 4, l21_L2TokenAddress := 8, l21_ERC20Amount := Some 30\<rparr>]\<rparr>"

lemma mem_finds: "finds (mem_gorm key)"
  by (simp add: finds_def)

lemma balance_client_simps [simp]:
  "bridge_balance (balance_client b t) br a n = Ok b" "ec_GetERC20TotalSupply (balance_client b t) x y = Ok t"
  by (simp_all add: bridge_balance_def balance_client_def)

lemma sample_row_number [simp]: "bh_Number (sample_row b n) = n"
  by (simp add: sample_row_def)


text \<open>A ledger that holds is not accepted while deposits are waiting and nothing else is on its way: the code adds them once
  more instead of taking them off.\<close>

lemma waiting_deposit_refused:
  assumes "in_step c m1 m2 s" "0 \<le> m1" "m1 < 2 ^ 64" "0 \<le> m2" "m2 < 2 ^ 64"
    and "deposits_arrived c m1 m2 s = 0" "round_trips c m1 m2 s = 0" "deposits_waiting c m1 s \<noteq> 0"
  shows "balance_moves c m1 s - supply_moves c m2 s + correction c m1 m2 s \<noteq> 0"
  using correction_of_ledger[OF assms(1-5)] assms(6-8) by simp

end
