(* ===== verification/BusinessProcessor.thy ===== *)
theory BusinessProcessor
  imports Checkpoints
begin


text \<open>
  business/run.go: the business processor.  Six tasks run at their own intervals: the rollup task copies
  the data stores and moves the state roots on, the withdrawal task moves the withdrawals from pending
  to claimed, the deposit task marks relayed deposits, and the others count down the challenge
  periods, check the balances and load the token list.
\<close>

section \<open>State and environment\<close>

text \<open>The clients and the data availability layer are services: a task gets their answers with its
  environment.\<close>

record BusinessProcessor =
  bp_startDataStoreId :: "32 word"
  bp_fraudProofWindows :: u64
  bp_L1AccountCheckingAddress :: string
  bp_L2AccountCheckingAddress :: string
  bp_L1StandardBridge :: address
  bp_tokenListUrl :: string

record business_env =
  bn_G :: gorms
  bn_l1Client :: EthClient
  bn_da :: da_env
  bn_token :: token_env
  bn_balance :: balance_env
  bn_begin_err :: "error option"       \<comment> \<open>a transaction that cannot be begun\<close>

definition NewBusinessProcessor :: "u64 \<Rightarrow> 32 word \<Rightarrow> string \<Rightarrow> string \<Rightarrow> L1Contracts \<Rightarrow> string \<Rightarrow> BusinessProcessor" where
  "NewBusinessProcessor fraudProofWindows startDataStoreId l1Accounts l2Accounts l1Contracts tokenListUrl =
     \<lparr>bp_startDataStoreId = startDataStoreId, bp_fraudProofWindows = fraudProofWindows,
      bp_L1AccountCheckingAddress = l1Accounts, bp_L2AccountCheckingAddress = l2Accounts,
      bp_L1StandardBridge = L1StandardBridgeProxy l1Contracts, bp_tokenListUrl = tokenListUrl\<rparr>"

text \<open>A transaction whose function works on bp.db and not on the transaction it is given: its statements
  are committed one by one, whatever becomes of the transaction, which is empty.\<close>

definition outside_tx :: "business_env \<Rightarrow> (db, unit) go \<Rightarrow> (db, unit) go" where
  "outside_tx E body s =
     (case bn_begin_err E of
        Some e \<Rightarrow> (Err e, s)
      | None \<Rightarrow> (let out = body s in (fst (G_tx (bn_G E) (\<lambda>t. (fst out, t)) (snd out)), snd out)))"

text \<open>A transaction whose function also writes fields of the processor, which nothing rolls back.\<close>

definition with_tx :: "business_env \<Rightarrow> (BusinessProcessor \<times> db, unit) go \<Rightarrow> (BusinessProcessor \<times> db, unit) go" where
  "with_tx E body = (\<lambda>(bp, s).
     case bn_begin_err E of
       Some e \<Rightarrow> (Err e, (bp, s))
     | None \<Rightarrow>
         (let out = G_tx (bn_G E) (\<lambda>t. (fst (body (bp, t)), snd (snd (body (bp, t))))) s in
          (fst out, (fst (snd (body (bp, s))), snd out))))"

section \<open>The rollup task\<close>

definition maxEpochRange :: u64 where "maxEpochRange = 2000"

definition start_data_store :: "gorms \<Rightarrow> BusinessProcessor \<Rightarrow> db \<Rightarrow> 32 word" where
  "start_data_store G bp s =
     (if LatestDataStoreId G s \<noteq> 0 then ucast (LatestDataStoreId G s) else bp_startDataStoreId bp)"

text \<open>None: the data availability layer is still being polled.\<close>

definition mantle_da_body :: "business_env \<Rightarrow> (DataStore list \<times> DataStoreBlock list \<times> 32 word) result
    \<Rightarrow> (BusinessProcessor \<times> db, unit) go" where
  "mantle_da_body E data = (\<lambda>(bp, s).
     case data of
       Err e \<Rightarrow> (Err e, (bp, s))
     | Panic p \<Rightarrow> (Panic p, (bp, s))
     | Ok (dataStores, blocks, latest) \<Rightarrow>
         (let bp' = bp\<lparr>bp_startDataStoreId := latest\<rparr>;
              out = thenG (when_any (StoreBatchDataStores (bn_G E)) dataStores)
                          (when_any (StoreBatchDataStoreBlocks (bn_G E)) blocks) s in
          (fst out, (bp', snd out))))"

definition syncMantleDaData :: "business_env \<Rightarrow> BusinessProcessor \<times> db \<Rightarrow> (unit result \<times> BusinessProcessor \<times> db) option" where
  "syncMantleDaData E = (\<lambda>(bp, s).
     let start = start_data_store (bn_G E) bp s;
         bp1 = bp\<lparr>bp_startDataStoreId := start\<rparr> in
     (case DataStoreEventListByRange (bn_G E) (ucast start) (ucast start + maxEpochRange) s of
        Err e \<Rightarrow> Some (with_tx E (\<lambda>(_, t). (Err e, (bp1, t))) (bp, s))
      | Panic p \<Rightarrow> Some (with_tx E (\<lambda>(_, t). (Panic p, (bp1, t))) (bp, s))
      | Ok dataStoreList \<Rightarrow>
          (case DataFromMantleDa (bn_da E) dataStoreList of
             None \<Rightarrow> None
           | Some data \<Rightarrow> Some (with_tx E (\<lambda>(_, t). mantle_da_body E data (bp1, t)) (bp, s)))))"

definition syncStateRootStatus :: "business_env \<Rightarrow> (db, unit) go" where
  "syncStateRootStatus E =
     bindG (liftR (ec_LatestSafeBlockHeader (bn_l1Client E))) (\<lambda>safe.
     bindG (liftR (ec_LatestFinalizedBlockHeader (bn_l1Client E))) (\<lambda>finalized.
     bindG (liftR (nonil safe)) (\<lambda>safe.
     thenG (UpdateSafeStatus (bn_G E) (Number safe))
     (bindG (liftR (nonil finalized)) (\<lambda>finalized.
      UpdateFinalizedStatus (bn_G E) (Number finalized))))))"

text \<open>An operation on the database only.\<close>

definition on_db :: "(db, unit) go \<Rightarrow> (BusinessProcessor \<times> db, unit) go" where
  "on_db m = (\<lambda>(bp, s). (fst (m s), (bp, snd (m s))))"

definition onRollup :: "business_env \<Rightarrow> BusinessProcessor \<times> db \<Rightarrow> (unit result \<times> BusinessProcessor \<times> db) option" where
  "onRollup E st =
     (case syncMantleDaData E st of
        None \<Rightarrow> None
      | Some (Ok u, st') \<Rightarrow> Some (on_db (syncStateRootStatus E) st')
      | Some (Err e, st') \<Rightarrow> Some (Err e, st')
      | Some (Panic p, st') \<Rightarrow> Some (Panic p, st'))"

section \<open>The deposit task\<close>

definition is_found :: "'a option result \<Rightarrow> bool" where
  "is_found r = (case r of Ok (Some x) \<Rightarrow> True | _ \<Rightarrow> False)"

text \<open>The row to be marked has the transaction and the block of the relay, no message hash.\<close>

definition relayed_deposit :: "RelayMessage \<Rightarrow> L1ToL2" where
  "relayed_deposit r = zero_L1ToL2\<lparr>l12_L2TransactionHash := rm_RelayTransactionHash r, l12_L1BlockNumber := rm_BlockNumber r\<rparr>"

definition markedL1ToL2Finalized :: "business_env \<Rightarrow> (db, unit) go" where
  "markedL1ToL2Finalized E = (let G = bn_G E in
     bindG (readG (RelayMessageUnRelatedList G)) (\<lambda>finalizedList.
     bindG (getG (\<lambda>s. filter (\<lambda>r. is_found (L1ToL2TransactionDeposit G (rm_MessageHash r) s)) finalizedList)) (\<lambda>needMark.
     outside_tx E
       (if length needMark > 0
        then thenG (MarkL1ToL2TransactionDepositFinalized G (map relayed_deposit needMark))
                   (MarkedRelayMessageRelated G needMark)
        else retG ()))))"

definition onDepositTxStatus :: "business_env \<Rightarrow> (db, unit) go" where
  "onDepositTxStatus E = markedL1ToL2Finalized E"

section \<open>The withdrawal task\<close>

definition syncL2ToL1StateRoot :: "business_env \<Rightarrow> u64 \<Rightarrow> (db, unit) go" where
  "syncL2ToL1StateRoot E fraudProofWindows =
     bindG (readG (GetLatestStateRootL2BlockNumber (bn_G E))) (\<lambda>blockNumber.
       if blockNumber = 0 then retG ()
       else UpdateReadyForProvedStatus (bn_G E) (word_of_int blockNumber) fraudProofWindows)"

text \<open>The events whose withdrawal is indexed, split by its version.\<close>

definition indexed_of_version :: "gorms \<Rightarrow> (int \<Rightarrow> bool) \<Rightarrow> ('e \<Rightarrow> hash) \<Rightarrow> db \<Rightarrow> 'e list \<Rightarrow> 'e list" where
  "indexed_of_version G ver withdrawHash s es =
     filter (\<lambda>e. case L2ToL1TransactionWithdrawal G (withdrawHash e) s of
                   Ok (Some w) \<Rightarrow> ver (l21_Version w) | _ \<Rightarrow> False) es"

definition proven_withdrawal :: "WithdrawProven \<Rightarrow> L2ToL1" where
  "proven_withdrawal p = zero_L2ToL1\<lparr>l21_WithdrawTransactionHash := wp_WithdrawHash p,
     l21_L1ProveTxHash := wp_ProvenTransactionHash p, l21_L1BlockNumber := wp_BlockNumber p\<rparr>"

definition finalized_withdrawal :: "WithdrawFinalized \<Rightarrow> L2ToL1" where
  "finalized_withdrawal f = zero_L2ToL1\<lparr>l21_WithdrawTransactionHash := wf_WithdrawHash f,
     l21_L1FinalizeTxHash := wf_FinalizedTransactionHash f, l21_L1BlockNumber := wf_BlockNumber f\<rparr>"

text \<open>Mark the withdrawals, then the events as related, when there are any.\<close>

definition mark_both :: "('x list \<Rightarrow> (db, unit) go) \<Rightarrow> ('e list \<Rightarrow> (db, unit) go) \<Rightarrow> ('e \<Rightarrow> 'x) \<Rightarrow> 'e list \<Rightarrow> (db, unit) go" where
  "mark_both mark relate row es = (if length es > 0 then thenG (mark (map row es)) (relate es) else retG ())"

definition markedL2ToL1Proven :: "business_env \<Rightarrow> (db, unit) go" where
  "markedL2ToL1Proven E = (let G = bn_G E in
     bindG (readG (WithdrawProvenUnRelatedList G)) (\<lambda>provenList.
     bindG (getG (\<lambda>s. indexed_of_version G (\<lambda>v. v \<noteq> 0) wp_WithdrawHash s provenList)) (\<lambda>needMark.
     bindG (getG (\<lambda>s. indexed_of_version G (\<lambda>v. v = 0) wp_WithdrawHash s provenList)) (\<lambda>needMarkV0.
     outside_tx E
       (thenG (mark_both (MarkL2ToL1TransactionWithdrawalProven G) (MarkedWithdrawProvenRelated G) proven_withdrawal needMark)
              (mark_both (MarkL2ToL1TransactionWithdrawalProven G) (MarkedWithdrawProvenRelated G) proven_withdrawal needMarkV0))))))"

definition markedL2ToL1Finalized :: "business_env \<Rightarrow> (db, unit) go" where
  "markedL2ToL1Finalized E = (let G = bn_G E in
     bindG (readG (WithdrawFinalizedUnRelatedList G)) (\<lambda>withdrawList.
     bindG (getG (\<lambda>s. indexed_of_version G (\<lambda>v. v \<noteq> 0) wf_WithdrawHash s withdrawList)) (\<lambda>needMark.
     bindG (getG (\<lambda>s. indexed_of_version G (\<lambda>v. v = 0) wf_WithdrawHash s withdrawList)) (\<lambda>needMarkV0.
     outside_tx E
       (thenG (mark_both (MarkL2ToL1TransactionWithdrawalFinalized G) (MarkedWithdrawFinalizedRelated G)
                 finalized_withdrawal needMark)
              (mark_both (MarkL2ToL1TransactionWithdrawalFinalizedV0 G) (MarkedWithdrawFinalizedRelated G)
                 finalized_withdrawal needMarkV0))))))"

definition onWithdrawTxStatus :: "business_env \<Rightarrow> u64 \<Rightarrow> (db, unit) go" where
  "onWithdrawTxStatus E fraudProofWindows =
     thenG (syncL2ToL1StateRoot E fraudProofWindows) (thenG (markedL2ToL1Proven E) (markedL2ToL1Finalized E))"

section \<open>The tasks\<close>

text \<open>Start: one ticker for each; the error of a tick is logged and the next tick runs.\<close>

datatype business_task = Rollup | TimeLeft | DepositStatus | WithdrawStatus | BridgeCheck | TokenListSync

definition run_task :: "business_task \<Rightarrow> business_env \<Rightarrow> BusinessProcessor \<times> db
    \<Rightarrow> (unit result \<times> BusinessProcessor \<times> db) option" where
  "run_task task E st = (let bp = fst st; G = bn_G E in
     case task of
       Rollup \<Rightarrow> onRollup E st
     | TimeLeft \<Rightarrow> Some (on_db (UpdateTimeLeft G) st)
     | DepositStatus \<Rightarrow> Some (on_db (onDepositTxStatus E) st)
     | WithdrawStatus \<Rightarrow> Some (on_db (onWithdrawTxStatus E (bp_fraudProofWindows bp)) st)
     | BridgeCheck \<Rightarrow> Some (on_db (syncTokenBalance G (bn_balance E) (bp_L1StandardBridge bp)
                        (bp_L1AccountCheckingAddress bp) (bp_L2AccountCheckingAddress bp)) st)
     | TokenListSync \<Rightarrow> Some (on_db (syncTokenList G (bn_token E) (bp_tokenListUrl bp)) st))"

end
