(* ===== verification/Lifecycle.thy ===== *)
theory Lifecycle
  imports BusinessProcessor
begin


text \<open>
  The life of a withdrawal, across the whole program.  \<open>life_step\<close> is the abstract machine of its status
  and its time left; the tasks of the event processor, the tasks of the business processor and the
  synchronizers run in any order on one database, and every row of l2_to_l1 follows the machine
  through all of them.
\<close>

section \<open>Relations that computations keep\<close>

definition keeps_rel :: "('s \<Rightarrow> 's \<Rightarrow> bool) \<Rightarrow> ('s, 'a) go \<Rightarrow> bool" where
  "keeps_rel R m = (\<forall>s. R s (snd (m s)))"

locale state_relation =
  fixes R :: "'s \<Rightarrow> 's \<Rightarrow> bool"
  assumes same: "R s s" and comp: "R s t \<Longrightarrow> R t u \<Longrightarrow> R s u"
begin

lemma bind: "keeps_rel R m \<Longrightarrow> (\<And>a s s'. m s = (Ok a, s') \<Longrightarrow> keeps_rel R (f a)) \<Longrightarrow> keeps_rel R (bindG m f)"
  unfolding keeps_rel_def bindG_def
  by (auto split: prod.splits result.splits) (metis comp snd_conv)+

lemma seq: "keeps_rel R m \<Longrightarrow> keeps_rel R k \<Longrightarrow> keeps_rel R (thenG m k)"
  unfolding thenG_def by (rule bind)

lemma pure: "keeps_rel R (retG a)" "keeps_rel R (liftR r)" "keeps_rel R (readG g)" "keeps_rel R (getG h)" "keeps_rel R (errG e)"
  by (simp_all add: keeps_rel_def go_defs same)

lemma err: "keeps_rel R m \<Longrightarrow> keeps_rel R (mapErrG g m)"
  by (simp add: keeps_rel_def mapErrG_def)

lemma cond: "(b \<Longrightarrow> keeps_rel R m) \<Longrightarrow> (\<not> b \<Longrightarrow> keeps_rel R k) \<Longrightarrow> keeps_rel R (if b then m else k)"
  by simp

lemma loop: "(\<And>x. x \<in> set xs \<Longrightarrow> keeps_rel R (f x)) \<Longrightarrow> keeps_rel R (forG f xs)"
  by (induction xs) (auto intro: pure seq)

lemma tx: "transaction_ok T \<Longrightarrow> keeps_rel R m \<Longrightarrow> keeps_rel R (T m)"
  unfolding keeps_rel_def using transaction_cases[of T m] same by (metis snd_conv)

lemma reached: "keeps_rel R m \<Longrightarrow> m s = (r, s') \<Longrightarrow> R s s'"
  unfolding keeps_rel_def by (metis snd_conv)

end

section \<open>The machine\<close>

definition life :: "L2ToL1 \<Rightarrow> int \<times> int option" where
  "life r = (l21_Status r, l21_TimeLeft r)"

inductive life_step :: "u64 \<Rightarrow> int \<times> int option \<Rightarrow> int \<times> int option \<Rightarrow> bool" for w where
  ready: "life_step w (L2ToL1Pending, t) (L2ToL1ReadyForProved, Some (uint w))"
| proven: "big_Uint64 n > 0 \<Longrightarrow> life_step w (st, Some n) (L2ToL1InChallengePeriod, Some n)"
| proven_over: "big_Uint64 n = 0 \<Longrightarrow> life_step w (st, Some n) (L2ToL1ReadyForClaim, Some n)"
| tick: "n > 0 \<Longrightarrow> life_step w (L2ToL1InChallengePeriod, Some n) (L2ToL1InChallengePeriod, Some (n - 1))"
| released: "life_step w (L2ToL1InChallengePeriod, Some 0) (L2ToL1ReadyForClaim, Some 0)"
| claimed: "life_step w (st, t) (L2ToL1Claimed, t)"

abbreviation lives :: "u64 \<Rightarrow> int \<times> int option \<Rightarrow> int \<times> int option \<Rightarrow> bool" where
  "lives w \<equiv> (life_step w)\<^sup>*\<^sup>*"

definition born :: "int \<times> int option" where
  "born = (L2ToL1Pending, Some 0)"

text \<open>The rows of a table after some steps: the earlier ones, in their places and with their keys, moved
  along the machine, then new ones that have come from their birth along it.\<close>

definition rows_live :: "u64 \<Rightarrow> L2ToL1 list \<Rightarrow> L2ToL1 list \<Rightarrow> bool" where
  "rows_live w t t' = (\<exists>old new. t' = old @ new
     \<and> list_all2 (\<lambda>r r'. l21_key r' = l21_key r \<and> lives w (life r) (life r')) t old
     \<and> (\<forall>r \<in> set new. lives w born (life r)))"

definition extends :: "L2ToL1 list \<Rightarrow> L2ToL1 list \<Rightarrow> bool" where
  "extends t t' = (\<exists>ks. map l21_key t' = map l21_key t @ ks)"

text \<open>The primary key of the table keeps its rows apart; the relation asks for it at the end only.\<close>

definition withdrawals_live :: "u64 \<Rightarrow> db \<Rightarrow> db \<Rightarrow> bool" where
  "withdrawals_live w s s' = (extends (l2_to_l1 s) (l2_to_l1 s')
     \<and> (distinct (map l21_key (l2_to_l1 s')) \<longrightarrow> rows_live w (l2_to_l1 s) (l2_to_l1 s')))"

lemma extends_refl [simp]: "extends t t" by (simp add: extends_def)

lemma extends_trans: "extends t u \<Longrightarrow> extends u v \<Longrightarrow> extends t v"
  by (auto simp: extends_def)

lemma extends_distinct: "extends t t' \<Longrightarrow> distinct (map l21_key t') \<Longrightarrow> distinct (map l21_key t)"
  by (auto simp: extends_def)

lemma rows_live_refl [simp]: "rows_live w t t"
  unfolding rows_live_def by (rule exI[of _ t], rule exI[of _ "[]"]) (simp add: list_all2_refl)

lemma rows_live_trans:
  assumes "rows_live w t u" "rows_live w u v"
  shows "rows_live w t v"
proof -
  let ?L = "\<lambda>r r'. l21_key r' = l21_key r \<and> lives w (life r) (life r')"
  obtain o1 n1 where 1: "u = o1 @ n1" "list_all2 ?L t o1" "\<forall>r \<in> set n1. lives w born (life r)"
    using assms(1) by (auto simp: rows_live_def)
  obtain o2 n2 where 2: "v = o2 @ n2" "list_all2 ?L u o2" "\<forall>r \<in> set n2. lives w born (life r)"
    using assms(2) by (auto simp: rows_live_def)
  obtain a b where ab: "o2 = a @ b" "list_all2 ?L o1 a" "list_all2 ?L n1 b"
    using 2(2) 1(1) by (auto simp: list_all2_append1)
  have "list_all2 ?L t a"
    by (rule list_all2_trans[OF _ 1(2) ab(2)]) (auto intro: rtranclp_trans)
  moreover have "\<forall>r \<in> set b. lives w born (life r)"
  proof
    fix r assume "r \<in> set b"
    then obtain j where j: "j < length b" "r = b ! j" by (auto simp: in_set_conv_nth)
    then have "lives w (life (n1 ! j)) (life r)" "n1 ! j \<in> set n1"
      using ab(3) by (auto simp: list_all2_conv_all_nth)
    then show "lives w born (life r)" using 1(3) by (meson rtranclp_trans)
  qed
  ultimately show ?thesis
    unfolding rows_live_def using 2 ab(1) by (intro exI[of _ a] exI[of _ "b @ n2"]) auto
qed

interpretation wl: state_relation "withdrawals_live w"
proof
  show "withdrawals_live w s s" for s by (simp add: withdrawals_live_def)
  show "withdrawals_live w s u" if "withdrawals_live w s t" "withdrawals_live w t u" for s t u
    using that extends_trans extends_distinct rows_live_trans unfolding withdrawals_live_def by meson
qed

text \<open>A computation that leaves the table alone.\<close>

lemma untouched: "(\<And>s. l2_to_l1 (snd (m s)) = l2_to_l1 s) \<Longrightarrow> keeps_rel (withdrawals_live w) m"
  by (simp add: keeps_rel_def withdrawals_live_def)

section \<open>Statements on the table\<close>

lemma zoom_l21: "l2_to_l1 (snd (zoomG l2_to_l1 l2_to_l1_update m s)) = snd (m (l2_to_l1 s))"
  by (simp add: zoomG_def)

text \<open>An update loop whose change of a row is a step of the machine, or leaves its life as it was.\<close>

lemma update_loop_keys:
  assumes "gorm_ok l21_key G" "\<And>x r r'. md x r = Ok r' \<Longrightarrow> l21_key r' = l21_key r"
  shows "map l21_key (snd (update_each G skip cond md xs t)) = map l21_key t"
proof (induction xs arbitrary: t)
  case Nil
  then show ?case by simp
next
  case (Cons x xs)
  show ?case
  proof (cases "skip x = Ok False \<and> (\<exists>r r'. g_take G (cond x) t = Ok r \<and> md x r = Ok r')")
    case True
    then obtain r r' where r: "skip x = Ok False" "g_take G (cond x) t = Ok r" "md x r = Ok r'" by blast
    obtain u t' where s: "g_save G r' t = (u, t')" by (cases "g_save G r' t") auto
    have k: "map l21_key (upsert l21_key r' t) = map l21_key t"
      using gorm_take(1)[OF assms(1) r(2)] assms(2)[OF r(3)] by (intro upsert_member(1)) auto
    show ?thesis
      using s r k Cons.IH[of t'] gorm_save[OF assms(1), of r' t] by (cases u) auto
  next
    case False
    then show ?thesis using Cons.IH[of t] by (auto split: result.splits bool.splits)
  qed
qed

lemma live_update_loop:
  assumes "gorms_ok G"
    and md: "\<And>x r r'. md x r = Ok r' \<Longrightarrow> l21_key r' = l21_key r \<and> lives w (life r) (life r')"
  shows "keeps_rel (withdrawals_live w) (zoomG l2_to_l1 l2_to_l1_update (update_each (G_l21 G) skip cond md xs))"
  unfolding keeps_rel_def withdrawals_live_def zoom_l21
proof (intro allI conjI impI)
  fix s
  let ?t = "l2_to_l1 s" and ?t' = "snd (update_each (G_l21 G) skip cond md xs (l2_to_l1 s))"
  have K: "map l21_key ?t' = map l21_key ?t"
    by (rule update_loop_keys[OF gorms_okD(10)[OF assms(1)]]) (use md in blast)
  then show "extends ?t ?t'" by (simp add: extends_def)
  assume "distinct (map l21_key ?t')"
  then have dis: "distinct (map l21_key ?t)" using K by simp
  have ru: "row_update l21_key (\<lambda>_. ()) md" by unfold_locales (use md in auto)
  have "list_all2 (row_update.touched cond md (set xs)) ?t ?t'"
    by (rule row_update.loop_rows[OF ru gorms_okD(10)[OF assms(1)] dis])
  moreover have "l21_key r' = l21_key r \<and> lives w (life r) (life r')"
    if "row_update.touched cond md (set xs) r r'" for r r'
    using that
  proof (induction rule: row_update.touched.induct[OF ru, consumes 1])
    case (2 r r' x r'')
    then show ?case using md[of x r' r''] by (auto intro: rtranclp_trans)
  qed simp
  ultimately have "list_all2 (\<lambda>r r'. l21_key r' = l21_key r \<and> lives w (life r) (life r')) ?t ?t'"
    by (rule list_all2_mono)
  then show "rows_live w ?t ?t'"
    unfolding rows_live_def by (intro exI[of _ ?t'] exI[of _ "[]"]) simp
qed

text \<open>A statement that updates the rows that meet a condition.\<close>

lemma live_updates:
  assumes "gorms_ok G"
    and f: "\<And>r. P r \<Longrightarrow> l21_key (f r) = l21_key r \<and> lives w (life r) (life (f r))"
  shows "keeps_rel (withdrawals_live w) (zoomG l2_to_l1 l2_to_l1_update (g_updates (G_l21 G) P f))"
  unfolding keeps_rel_def withdrawals_live_def zoom_l21
proof (intro allI)
  fix s
  let ?t = "l2_to_l1 s" and ?t' = "snd (g_updates (G_l21 G) P f (l2_to_l1 s))"
  have "?t' = ?t \<or> ?t' = map (\<lambda>r. if P r then f r else r) ?t"
    using gorm_updates[OF gorms_okD(10)[OF assms(1)], of P f ?t]
    by (cases "g_updates (G_l21 G) P f ?t"; cases "fst (g_updates (G_l21 G) P f ?t)") auto
  moreover have "list_all2 (\<lambda>r r'. l21_key r' = l21_key r \<and> lives w (life r) (life r')) ?t (map (\<lambda>r. if P r then f r else r) ?t)"
    using f by (auto simp: list_all2_conv_all_nth)
  then have "rows_live w ?t (map (\<lambda>r. if P r then f r else r) ?t)"
    unfolding rows_live_def by (intro exI[of _ "map (\<lambda>r. if P r then f r else r) ?t"] exI[of _ "[]"]) simp
  moreover have "extends ?t (map (\<lambda>r. if P r then f r else r) ?t)"
    using f by (auto simp: extends_def comp_def intro!: exI[of _ "[]"])
  ultimately show "extends ?t ?t' \<and> (distinct (map l21_key ?t') \<longrightarrow> rows_live w ?t ?t')" by auto
qed

lemma live_store:
  assumes "gorms_ok G" "\<forall>r \<in> set rows. life r = born"
  shows "keeps_rel (withdrawals_live w) (StoreL2ToL1Transactions G rows)"
  unfolding keeps_rel_def withdrawals_live_def StoreL2ToL1Transactions_def zoom_l21
proof (intro allI)
  fix s
  let ?t = "l2_to_l1 s" and ?t' = "snd (g_create (G_l21 G) rows (l2_to_l1 s))"
  obtain new where new: "?t' = ?t @ new" "set new \<subseteq> set rows"
    using gorm_create[OF gorms_okD(10)[OF assms(1)], of rows ?t]
    by (cases "g_create (G_l21 G) rows ?t"; cases "fst (g_create (G_l21 G) rows ?t)") (auto dest: in_set_takeD)
  have "rows_live w ?t ?t'"
    unfolding rows_live_def using new assms(2)
    by (intro exI[of _ ?t] exI[of _ new]) (auto simp: list_all2_refl)
  then show "extends ?t ?t' \<and> (distinct (map l21_key ?t') \<longrightarrow> rows_live w ?t ?t')"
    using new by (simp add: extends_def)
qed


section \<open>The statements of the program\<close>

lemma life_info: "set_l21_info x r = Ok r' \<Longrightarrow> l21_key r' = l21_key r \<and> lives w (life r) (life r')"
  by (auto simp: set_l21_info_def l21_key_def life_def)

lemma life_proven: "set_l21_proven x r = Ok r' \<Longrightarrow> l21_key r' = l21_key r \<and> lives w (life r) (life r')"
proof -
  assume "set_l21_proven x r = Ok r'"
  then obtain n where n: "l21_TimeLeft r = Some n"
    "r' = r\<lparr>l21_L1BlockNumber := l21_L1BlockNumber x, l21_L1ProveTxHash := l21_L1ProveTxHash x,
       l21_Status := (if big_Uint64 n > 0 then L2ToL1InChallengePeriod else L2ToL1ReadyForClaim)\<rparr>"
    by (auto simp: set_l21_proven_def)
  have "life_step w (life r) (life r')"
  proof (cases "big_Uint64 n > 0")
    case True
    then show ?thesis using life_step.proven[OF True, of w "l21_Status r"] n by (simp add: life_def)
  next
    case False
    then have z: "big_Uint64 n = 0" by (simp add: word_gt_0)
    show ?thesis using life_step.proven_over[OF z, of w "l21_Status r"] n z by (simp add: life_def)
  qed
  then show ?thesis using n by (simp add: l21_key_def)
qed

lemma life_claimed: "set_l21_claimed x r = Ok r' \<Longrightarrow> l21_key r' = l21_key r \<and> lives w (life r) (life r')"
  using life_step.claimed[of w "l21_Status r" "l21_TimeLeft r"]
  by (auto simp: set_l21_claimed_def l21_key_def life_def)

lemma live_loops:
  assumes "gorms_ok G"
  shows "keeps_rel (withdrawals_live w) (UpdateL2ToL1InfoByTxHash G xs)"
    and "keeps_rel (withdrawals_live w) (MarkL2ToL1TransactionWithdrawalProven G xs)"
    and "keeps_rel (withdrawals_live w) (MarkL2ToL1TransactionWithdrawalFinalized G xs)"
    and "keeps_rel (withdrawals_live w) (MarkL2ToL1TransactionWithdrawalFinalizedV0 G xs)"
  unfolding l21_update_defs
  by (rule live_update_loop[OF assms]; erule life_info life_proven life_claimed)+

lemma live_ready:
  assumes "gorms_ok G"
  shows "keeps_rel (withdrawals_live w) (UpdateReadyForProvedStatus G n w)"
  unfolding UpdateReadyForProvedStatus_def
  by (rule live_updates[OF assms])
     (use life_step.ready[of w] in \<open>auto simp: l21_key_def life_def L2ToL1Pending_def\<close>)

lemma live_time_left:
  assumes "gorms_ok G"
  shows "keeps_rel (withdrawals_live w) (UpdateTimeLeft G)"
proof -
  let ?z1 = "zoomG l2_to_l1 l2_to_l1_update (g_updates (G_l21 G)
      (\<lambda>r. sql_gt (l21_TimeLeft r) 0 \<and> l21_Status r = L2ToL1InChallengePeriod) time_left_step)"
  let ?z2 = "zoomG l2_to_l1 l2_to_l1_update (g_updates (G_l21 G)
      (\<lambda>r. l21_TimeLeft r = Some 0 \<and> l21_Status r = L2ToL1InChallengePeriod) (\<lambda>r. r\<lparr>l21_Status := L2ToL1ReadyForClaim\<rparr>))"
  have 1: "keeps_rel (withdrawals_live w) ?z1"
  proof (rule live_updates[OF assms])
    fix r :: L2ToL1 assume r: "sql_gt (l21_TimeLeft r) 0 \<and> l21_Status r = L2ToL1InChallengePeriod"
    then obtain n where "l21_TimeLeft r = Some n" "n > 0" by (auto simp: sql_gt_def split: option.splits)
    then show "l21_key (time_left_step r) = l21_key r \<and> lives w (life r) (life (time_left_step r))"
      using life_step.tick[of n w] r by (auto simp: time_left_step_def l21_key_def life_def)
  qed
  have 2: "keeps_rel (withdrawals_live w) ?z2"
    by (rule live_updates[OF assms]) (use life_step.released[of w] in \<open>auto simp: l21_key_def life_def\<close>)
  have 3: "snd (UpdateTimeLeft G s) = snd (?z1 s) \<or> snd (UpdateTimeLeft G s) = snd (?z2 (snd (?z1 s)))" for s
  proof -
    obtain r1 s1 where z1: "?z1 s = (r1, s1)" by (cases "?z1 s") auto
    obtain r2 s2 where z2: "?z2 s1 = (r2, s2)" by (cases "?z2 s1") auto
    show ?thesis unfolding UpdateTimeLeft_def z1 by (cases r1; cases r2) (simp_all add: z2)
  qed
  show ?thesis
    unfolding keeps_rel_def
  proof
    fix s
    have a: "withdrawals_live w s (snd (?z1 s))" using 1 unfolding keeps_rel_def by (rule spec)
    have b: "withdrawals_live w (snd (?z1 s)) (snd (?z2 (snd (?z1 s))))" using 2 unfolding keeps_rel_def by (rule spec)
    show "withdrawals_live w s (snd (UpdateTimeLeft G s))"
      using 3[of s] by (rule disjE) (simp only: a, simp only: wl.comp[OF a b])
  qed
qed

text \<open>Statements on other tables.\<close>

lemmas other_table_defs = StoreL1ToL2Transactions_def l12_update_defs StoreWithdrawProven_def StoreWithdrawFinalized_def
  StoreRelayMessage_def MarkedWithdrawProvenRelated_def MarkedWithdrawFinalizedRelated_def MarkedRelayMessageRelated_def
  UpdateWithdrawFinalizedInfo_def StoreBatchDataStoreEvent_def StoreBatchDataStores_def StoreBatchDataStoreBlocks_def
  UpdateSafeStatus_def UpdateFinalizedStatus_def StoreBridgeCheckpoint_def

lemma live_others:
  "keeps_rel (withdrawals_live w) (StoreL1ToL2Transactions G a1)" "keeps_rel (withdrawals_live w) (UpdateL1ToL2InfoByTxHash G a2)"
  "keeps_rel (withdrawals_live w) (UpdateMessageHashByTxHash G a3)"
  "keeps_rel (withdrawals_live w) (MarkL1ToL2TransactionDepositFinalized G a4)"
  "keeps_rel (withdrawals_live w) (StoreWithdrawProven G a5)" "keeps_rel (withdrawals_live w) (StoreWithdrawFinalized G a6)"
  "keeps_rel (withdrawals_live w) (StoreRelayMessage G a7)" "keeps_rel (withdrawals_live w) (MarkedWithdrawProvenRelated G a8)"
  "keeps_rel (withdrawals_live w) (MarkedWithdrawFinalizedRelated G a9)"
  "keeps_rel (withdrawals_live w) (MarkedRelayMessageRelated G b1)"
  "keeps_rel (withdrawals_live w) (UpdateWithdrawFinalizedInfo G b2)"
  "keeps_rel (withdrawals_live w) (StoreBatchDataStores G b4)" "keeps_rel (withdrawals_live w) (StoreBatchDataStoreBlocks G b5)"
  "keeps_rel (withdrawals_live w) (UpdateSafeStatus G b6)" "keeps_rel (withdrawals_live w) (UpdateFinalizedStatus G b7)"
  "keeps_rel (withdrawals_live w) (StoreBridgeCheckpoint G nid b8)"
  by (rule untouched; simp add: other_table_defs zoomG_def)+

lemma live_state_roots: "keeps_rel (withdrawals_live w) (StoreBatchStateRoots G roots)"
  by (rule untouched) (auto simp: StoreBatchStateRoots_def zoomG_def Let_def split: list.splits result.splits)

lemma live_da_events: "keeps_rel (withdrawals_live w) (L1ProcessMantleDAEvents G A uuid now c from to)"
  by (rule untouched)
     (auto simp: L1ProcessMantleDAEvents_def bindG_def readG_def liftR_def retG_def Let_def StoreBatchDataStoreEvent_def zoomG_def
        split: prod.splits result.splits)

lemma live_when_any: "(\<And>xs. keeps_rel (withdrawals_live w) (f xs)) \<Longrightarrow> keeps_rel (withdrawals_live w) (when_any f xs)"
  by (simp add: when_any_cases wl.pure)

lemma live_build: "keeps_rel (withdrawals_live w) (build_rows row xs)"
  by (simp add: build_rows_def wl.pure)

lemmas live_rules = wl.bind wl.seq wl.pure wl.cond wl.loop wl.err live_when_any live_build live_others live_state_roots

section \<open>The bridge processors\<close>

lemma rows_born:
  assumes "build_rows row xs s = (Ok rows, s')" "\<And>i x r. row i x s = Ok r \<Longrightarrow> life r = born"
  shows "\<forall>r \<in> set rows. life r = born"
  using build_rows_Ok[OF assms(1)] assms(2) by (metis in_set_conv_nth)

lemma withdrawal_row_born: "withdrawal_row G uuid i m s = Ok r \<Longrightarrow> life r = born"
  by (auto simp: withdrawal_row_def life_def born_def)

lemma legacy_withdrawal_row_born: "legacy_withdrawal_row G A uuid c i m s = Ok r \<Longrightarrow> life r = born"
  by (auto simp: legacy_withdrawal_row_def life_def born_def zero_L2ToL1_def L2ToL1Pending_def)

lemma live_bridge:
  assumes "gorms_ok G"
  shows "keeps_rel (withdrawals_live w) (L1ProcessInitiatedBridgeEvents G A u c1 a b)"
    and "keeps_rel (withdrawals_live w) (L1ProcessProvenBridgeEvents G A u c1 a b)"
    and "keeps_rel (withdrawals_live w) (L1ProcessFinalizedBridgeEvents G A u c1 a b)"
    and "keeps_rel (withdrawals_live w) (L2ProcessFinalizedBridgeEvents G A u c2 a b)"
    and "keeps_rel (withdrawals_live w) (LegacyL1ProcessInitiatedBridgeEvents G A c1 a b)"
    and "keeps_rel (withdrawals_live w) (LegacyL1ProcessFinalizedBridgeEvents G A c1 a b)"
    and "keeps_rel (withdrawals_live w) (LegacyL2ProcessFinalizedBridgeEvents G A c2 a b)"
    and "keeps_rel (withdrawals_live w) (L2OutputEvent G A u c1 a b)"
  unfolding L1ProcessInitiatedBridgeEvents_def L1ProcessProvenBridgeEvents_def L1ProcessFinalizedBridgeEvents_def
    L2ProcessFinalizedBridgeEvents_def LegacyL1ProcessInitiatedBridgeEvents_def LegacyL1ProcessFinalizedBridgeEvents_def
    LegacyL2ProcessFinalizedBridgeEvents_def L2OutputEvent_def Let_def
  by (intro live_rules live_loops[OF assms])+

lemma live_l2_initiated:
  assumes "gorms_ok G"
  shows "keeps_rel (withdrawals_live w) (L2ProcessInitiatedBridgeEvents G A u c a b)"
    and "keeps_rel (withdrawals_live w) (LegacyL2ProcessInitiatedBridgeEvents G A u c a b)"
proof -
  have store: "keeps_rel (withdrawals_live w) (when_any (StoreL2ToL1Transactions G) rows)" if "\<forall>r \<in> set rows. life r = born" for rows
    using live_store[OF assms that] by (simp add: when_any_cases wl.pure)
  show "keeps_rel (withdrawals_live w) (L2ProcessInitiatedBridgeEvents G A u c a b)"
    unfolding L2ProcessInitiatedBridgeEvents_def
    by (intro wl.bind wl.seq wl.pure live_build live_when_any live_loops[OF assms] store)
       (erule rows_born, erule withdrawal_row_born)
  show "keeps_rel (withdrawals_live w) (LegacyL2ProcessInitiatedBridgeEvents G A u c a b)"
    unfolding LegacyL2ProcessInitiatedBridgeEvents_def
    by (intro wl.bind wl.seq wl.pure live_build live_when_any live_loops[OF assms] store)
       (erule rows_born, erule legacy_withdrawal_row_born)
qed


section \<open>The tasks\<close>

lemma run_window_live:
  assumes "transaction_ok (G_tx G)" "\<And>a b. keeps_rel (withdrawals_live w) (body a b)"
    and "run_window G f latest n body setC none (ep, s) = (r, (ep', s'))"
  shows "withdrawals_live w s s'"
proof -
  have tx: "withdrawals_live w s (snd (G_tx G (body a b) s))" for a b
    using wl.tx[OF assms(1,2)] unfolding keeps_rel_def by blast
  show ?thesis
  proof (cases latest)
    case (Ok h)
    then show ?thesis using assms(3) tx wl.same
      by (cases h) (auto simp: run_window_def split: prod.splits result.splits, (metis snd_conv)+)
  qed (use assms(3) wl.same in \<open>auto simp: run_window_def\<close>)
qed

lemma live_split:
  assumes "\<And>a b. keeps_rel (withdrawals_live w) (legacy a b)" "\<And>a b. keeps_rel (withdrawals_live w) (current a b)"
  shows "keeps_rel (withdrawals_live w) (split_at_bedrock h legacy current from to)"
  unfolding split_at_bedrock_def Let_def by (intro wl.cond wl.seq wl.pure assms)

lemma event_task_live:
  assumes "gorms_ok (pe_G E)" "task \<in> set tasks" "task E (ep, s) = (r, (ep', s'))"
  shows "withdrawals_live w s s'"
proof -
  note T = gorms_okD(15)[OF assms(1)]
  note B = live_split live_bridge[OF assms(1)] live_l2_initiated[OF assms(1)] live_da_events
  have fin: ?thesis if "processFinalizedL2Events E (ep, s) = (r, (ep', s'))"
  proof (cases "L1L2LatestL2BlockHeader (pe_G E) s")
    case (Ok h)
    show ?thesis
      by (rule run_window_live[OF T _ that[unfolded processFinalizedL2Events_def Let_def prod.case Ok result.case]])
         (intro B)
  qed (use that wl.same in \<open>auto simp: processFinalizedL2Events_def Let_def\<close>)
  have win: ?thesis
    if "run_window (pe_G E) f latest n body setC none (ep, s) = (r, (ep', s'))"
      "\<And>a b. keeps_rel (withdrawals_live w) (body a b)" for f latest n body setC none
    by (rule run_window_live[OF T that(2) that(1)])
  show ?thesis
    using assms(2,3) fin
    unfolding tasks_def processInitiatedL1Events_def processRollupMantleDA_def processRollupStateRoot_def
      processInitiatedL2Events_def processProvenL1Events_def processFinalizedL1Events_def Let_def list.set prod.case
    by (elim insertE emptyE) (simp_all only: prod.case, (erule win, intro B)+)
qed

lemma outside_live:
  assumes "keeps_rel (withdrawals_live w) m"
  shows "keeps_rel (withdrawals_live w) (outside_tx E m)"
  using assms wl.same by (auto simp: keeps_rel_def outside_tx_def Let_def split: option.splits)

lemma mark_both_live:
  assumes "\<And>xs. keeps_rel (withdrawals_live w) (mark xs)" "\<And>es. keeps_rel (withdrawals_live w) (relate es)"
  shows "keeps_rel (withdrawals_live w) (mark_both mark relate row es)"
  unfolding mark_both_def by (intro wl.cond wl.seq wl.pure assms)

lemma withdraw_task_live:
  assumes "gorms_ok (bn_G E)"
  shows "keeps_rel (withdrawals_live w) (onWithdrawTxStatus E w)"
  unfolding onWithdrawTxStatus_def syncL2ToL1StateRoot_def markedL2ToL1Proven_def markedL2ToL1Finalized_def Let_def
  by (intro wl.seq wl.bind wl.pure wl.cond live_ready[OF assms] outside_live mark_both_live live_loops[OF assms] live_others)

lemma deposit_task_live: "keeps_rel (withdrawals_live w) (onDepositTxStatus E)"
  unfolding onDepositTxStatus_def markedL1ToL2Finalized_def Let_def
  by (intro wl.seq wl.bind wl.pure wl.cond outside_live live_others)

lemma state_root_status_live: "keeps_rel (withdrawals_live w) (syncStateRootStatus E)"
  unfolding syncStateRootStatus_def
  by (intro wl.seq wl.bind wl.pure live_others)

lemma check_loop_live: "keeps_rel (withdrawals_live w) (check_loop G E a new l1 l2 cs diff)"
proof (induction cs arbitrary: new diff)
  case Nil
  then show ?case by (simp add: wl.pure)
next
  case (Cons c cs)
  show ?case
    by (cases "SetString (bc_L1BridgeBalance c)"; cases "SetString (bc_TotalSupply c)")
       (simp_all only: check_loop.simps Let_def prod.case option.case,
         (intro wl.pure wl.seq wl.bind wl.cond live_others Cons)+)
qed

lemma balance_live:
  assumes "gorms_ok G"
  shows "keeps_rel (withdrawals_live w) (syncTokenBalance G E bridge l1s l2s)"
proof -
  have 1: "keeps_rel (withdrawals_live w) (check_token G E bridge as cs i a)" for as cs i a
    unfolding check_token_def Let_def
    by (intro wl.bind wl.seq wl.pure wl.cond check_loop_live wl.tx[OF gorms_okD(15)[OF assms]] live_others)
  have "keeps_rel (withdrawals_live w) (check_tokens G E bridge as cs i bs)" for as cs i bs
    by (induction bs arbitrary: i) (auto intro!: wl.pure wl.bind 1)
  then show ?thesis unfolding syncTokenBalance_def by (intro wl.bind wl.pure)
qed

lemma token_list_live: "keeps_rel (withdrawals_live w) (syncTokenList G E url)"
proof -
  have 1: "l2_to_l1 (snd (SaveTokenList G nid t s)) = l2_to_l1 s" for nid t s
    by (simp add: SaveTokenList_def Let_def zoomG_def)
  have "l2_to_l1 (snd (save_tokens G E i ts s)) = l2_to_l1 s" for i ts s
  proof (induction ts arbitrary: i s)
    case (Cons t ts)
    obtain r s1 where "SaveTokenList G (te_next_id E) (t\<lparr>tk_Timestamp := te_now E i\<rparr>) s = (r, s1)" "l2_to_l1 s1 = l2_to_l1 s"
      using 1 by (metis prod.collapse)
    then show ?case using Cons by (cases r) auto
  qed simp
  then have "keeps_rel (withdrawals_live w) (save_tokens G E i ts)" for i ts by (rule untouched)
  then show ?thesis unfolding syncTokenList_def by (intro wl.bind wl.pure)
qed

lemma mantle_da_live:
  assumes "gorms_ok (bn_G E)" "syncMantleDaData E (bp, s) = Some (r, (bp', s'))"
  shows "withdrawals_live w s s' \<and> bp_fraudProofWindows bp' = bp_fraudProofWindows bp"
proof -
  have body: "keeps_rel (withdrawals_live w) (\<lambda>t. (fst (mantle_da_body E d (b, t)), snd (snd (mantle_da_body E d (b, t)))))" for d b
    by (rule untouched)
       (auto simp: mantle_da_body_def Let_def thenG_def bindG_def when_any_cases StoreBatchDataStores_def
         StoreBatchDataStoreBlocks_def zoomG_def retG_def split: result.splits prod.splits)
  have windows: "bp_fraudProofWindows (fst (snd (mantle_da_body E d (b, t)))) = bp_fraudProofWindows b" for d b t
    by (auto simp: mantle_da_body_def Let_def split: result.splits)
  have tx: ?thesis if "with_tx E (\<lambda>(_, t). f t) (bp, s) = (r, (bp', s'))"
      "keeps_rel (withdrawals_live w) (\<lambda>t. (fst (f t), snd (snd (f t))))"
      "bp_fraudProofWindows (fst (snd (f s))) = bp_fraudProofWindows bp" for f
    using that wl.tx[OF gorms_okD(15)[OF assms(1)] that(2)] wl.same
    by (auto simp: with_tx_def Let_def keeps_rel_def split: option.splits)
  have const: "keeps_rel (withdrawals_live w) (\<lambda>t. (fst (x, b, t), snd (snd (x, b, t))))" for x :: "unit result" and b :: BusinessProcessor
    by (simp add: keeps_rel_def wl.same)
  let ?bp1 = "bp\<lparr>bp_startDataStoreId := start_data_store (bn_G E) bp s\<rparr>"
  show ?thesis
  proof (cases "DataStoreEventListByRange (bn_G E) (ucast (start_data_store (bn_G E) bp s))
      (ucast (start_data_store (bn_G E) bp s) + maxEpochRange) s")
    case (Ok l)
    then obtain d where "with_tx E (\<lambda>(_, t). mantle_da_body E d (?bp1, t)) (bp, s) = (r, (bp', s'))"
      using assms(2) by (auto simp: syncMantleDaData_def Let_def split: option.splits)
    from tx[OF this body] show ?thesis by (simp add: windows)
  next
    case (Err e)
    then have "with_tx E (\<lambda>(_, t). (Err e, (?bp1, t))) (bp, s) = (r, (bp', s'))"
      using assms(2) by (auto simp: syncMantleDaData_def Let_def)
    from tx[OF this const] show ?thesis by simp
  next
    case (Panic p)
    then have "with_tx E (\<lambda>(_, t). (Panic p, (?bp1, t))) (bp, s) = (r, (bp', s'))"
      using assms(2) by (auto simp: syncMantleDaData_def Let_def)
    from tx[OF this const] show ?thesis by simp
  qed
qed


lemma business_task_live:
  assumes "gorms_ok (bn_G E)" "run_task t E (bp, s) = Some (r, (bp', s'))"
  shows "withdrawals_live (bp_fraudProofWindows bp) s s' \<and> bp_fraudProofWindows bp' = bp_fraudProofWindows bp"
proof -
  have db: ?thesis if "on_db m (bp0, s0) = (r, (bp', s'))" "keeps_rel (withdrawals_live (bp_fraudProofWindows bp)) m"
      "withdrawals_live (bp_fraudProofWindows bp) s s0" "bp_fraudProofWindows bp0 = bp_fraudProofWindows bp" for m bp0 s0
    using that wl.comp by (auto simp: on_db_def keeps_rel_def)
  note D = db[OF _ _ wl.same refl]
  show ?thesis
  proof (cases t)
    case Rollup
    then obtain r1 bp1 s1 where 1: "syncMantleDaData E (bp, s) = Some (r1, (bp1, s1))"
      "(case r1 of Ok u \<Rightarrow> on_db (syncStateRootStatus E) (bp1, s1) | Err e \<Rightarrow> (Err e, (bp1, s1)) | Panic p \<Rightarrow> (Panic p, (bp1, s1)))
        = (r, (bp', s'))"
      using assms(2) by (auto simp: run_task_def onRollup_def Let_def split: option.splits result.splits)
    note M = mantle_da_live[OF assms(1) 1(1), of "bp_fraudProofWindows bp"]
    show ?thesis
    proof (cases r1)
      case (Ok u)
      then have "on_db (syncStateRootStatus E) (bp1, s1) = (r, (bp', s'))" using 1(2) by simp
      then show ?thesis using db[OF _ state_root_status_live] M by blast
    qed (use 1(2) M in auto)
  next
    case TimeLeft
    then have "on_db (UpdateTimeLeft (bn_G E)) (bp, s) = (r, (bp', s'))" using assms(2) by (simp add: run_task_def Let_def)
    then show ?thesis by (rule D[OF _ live_time_left[OF assms(1)]])
  next
    case DepositStatus
    then have "on_db (onDepositTxStatus E) (bp, s) = (r, (bp', s'))" using assms(2) by (simp add: run_task_def Let_def)
    then show ?thesis by (rule D[OF _ deposit_task_live])
  next
    case WithdrawStatus
    then have "on_db (onWithdrawTxStatus E (bp_fraudProofWindows bp)) (bp, s) = (r, (bp', s'))"
      using assms(2) by (simp add: run_task_def Let_def)
    then show ?thesis by (rule D[OF _ withdraw_task_live[OF assms(1)]])
  next
    case BridgeCheck
    then have "on_db (syncTokenBalance (bn_G E) (bn_balance E) (bp_L1StandardBridge bp)
                        (bp_L1AccountCheckingAddress bp) (bp_L2AccountCheckingAddress bp)) (bp, s) = (r, (bp', s'))"
      using assms(2) by (simp add: run_task_def Let_def)
    then show ?thesis by (rule D[OF _ balance_live[OF assms(1)]])
  next
    case TokenListSync
    then have "on_db (syncTokenList (bn_G E) (bn_token E) (bp_tokenListUrl bp)) (bp, s) = (r, (bp', s'))"
      using assms(2) by (simp add: run_task_def Let_def)
    then show ?thesis by (rule D[OF _ token_list_live])
  qed
qed

section \<open>The synchronizers\<close>

lemma do_loop_live:
  assumes "\<And>i. keeps_rel (withdrawals_live w) (oper i)"
  shows "withdrawals_live w s (snd (snd (do_loop ctx dur oper maxA left i err s)))"
proof (induction left arbitrary: i err s)
  case 0
  then show ?case by (simp add: wl.same)
next
  case (Suc left)
  obtain r s1 where r: "oper i s = (r, s1)" by (cases "oper i s") auto
  then have s1: "withdrawals_live w s s1" using wl.reached[OF assms r] by blast
  show ?case
    using r s1 wl.comp[OF s1 Suc.IH] by (cases r) (auto simp: Let_def wl.same split: option.splits)
qed

lemma retried_live:
  assumes "\<And>i. keeps_rel (withdrawals_live w) (oper i)"
  shows "keeps_rel (withdrawals_live w) (retried env oper)"
  using do_loop_live[OF assms] wl.same by (simp add: keeps_rel_def retried_def Let_def retry_Do_def)

lemma live_batch_tables:
  "keeps_rel (withdrawals_live w) (StoreL1BlockHeaders G a1)" "keeps_rel (withdrawals_live w) (StoreL2BlockHeaders G a2)"
  "keeps_rel (withdrawals_live w) (StoreL1ContractEvents G a3)" "keeps_rel (withdrawals_live w) (StoreL2ContractEvents G a4)"
  "keeps_rel (withdrawals_live w) (StoreTransactions G a5)"
  by (rule untouched; simp add: StoreL1BlockHeaders_def StoreL2BlockHeaders_def StoreL1ContractEvents_def
      StoreL2ContractEvents_def StoreTransactions_def zoomG_def)+

lemma l1_batch_live:
  assumes "\<And>i. gorms_ok (se_Gs env i)"
  shows "keeps_rel (withdrawals_live w) (l1_handleBatch H env batch)"
proof -
  have "keeps_rel (withdrawals_live w) (retried env
      (\<lambda>i. mapErrG (Wrap ''unable to persist batch'') (G_tx (se_Gs env i)
         (thenG (StoreL1BlockHeaders (se_Gs env i) hs) (StoreL1ContractEvents (se_Gs env i) es)))))" for hs es
    by (intro retried_live wl.err wl.tx[OF gorms_okD(15)[OF assms]] wl.seq live_batch_tables)
  then show ?thesis
    by (auto simp: keeps_rel_def l1_handleBatch_def Let_def wl.same split: result.splits)
qed

lemma l2_batch_live:
  assumes "\<And>i. gorms_ok (se_Gs env i)"
  shows "keeps_rel (withdrawals_live w) (l2_handleBatch H env cl batch)"
proof -
  have R: "keeps_rel (withdrawals_live w) (retried env
      (\<lambda>i. bindG (G_tx (se_Gs env i)
          (thenG (StoreL2BlockHeaders (se_Gs env i) hs)
          (thenG (if length es > 0 then StoreL2ContractEvents (se_Gs env i) es else retG ())
                 (if length txs > 0 then StoreTransactions (se_Gs env i) txs else retG ()))))
        (\<lambda>_. liftR (bindR (indexR hs (length hs - 1)) (\<lambda>_. Ok ())))))" for hs es txs
    by (intro retried_live wl.bind wl.tx[OF gorms_okD(15)[OF assms]] wl.seq wl.cond wl.pure live_batch_tables)
  show ?thesis
    unfolding keeps_rel_def
  proof
    fix s
    let ?hs = "map (BlockHeaderFromHeader H) (Headers batch)"
    show "withdrawals_live w s (snd (l2_handleBatch H env cl batch s))"
    proof (cases "batch_txs env cl 0 ?hs")
      case txs: (Ok txs)
      show ?thesis
      proof (cases "batch_events (se_uuid env) (HeaderMap batch) 0 (bLogs batch)")
        case (Ok es)
        then show ?thesis using txs R[of ?hs es txs, unfolded keeps_rel_def, THEN spec, of s]
          by (simp add: l2_handleBatch_def Let_def)
      qed (use txs in \<open>simp_all add: l2_handleBatch_def Let_def wl.same\<close>)
    qed (simp_all add: l2_handleBatch_def Let_def wl.same)
  qed
qed

section \<open>The program\<close>

text \<open>The processors and their database.  A step is one run of a task of the event processor or of the
  business processor, with any answers of the services, or one batch of a synchronizer; what fails or
  panics has its step too.  The primary key of the table of the withdrawals keeps its rows apart.\<close>

type_synonym program = "EventProcessor \<times> BusinessProcessor \<times> db"

inductive program_step :: "program \<Rightarrow> program \<Rightarrow> bool" where
  event: "task \<in> set tasks \<Longrightarrow> gorms_ok (pe_G E) \<Longrightarrow> task E (ep, s) = (r, (ep', s')) \<Longrightarrow>
    distinct (map l21_key (l2_to_l1 s')) \<Longrightarrow> program_step (ep, bp, s) (ep', bp, s')"
| business: "gorms_ok (bn_G B) \<Longrightarrow> run_task t B (bp, s) = Some (r, (bp', s')) \<Longrightarrow>
    distinct (map l21_key (l2_to_l1 s')) \<Longrightarrow> program_step (ep, bp, s) (ep, bp', s')"
| l1_batch: "(\<And>i. gorms_ok (se_Gs env i)) \<Longrightarrow> l1_handleBatch H env batch s = (r, s') \<Longrightarrow>
    distinct (map l21_key (l2_to_l1 s')) \<Longrightarrow> program_step (ep, bp, s) (ep, bp, s')"
| l2_batch: "(\<And>i. gorms_ok (se_Gs env i)) \<Longrightarrow> l2_handleBatch H env cl batch s = (r, s') \<Longrightarrow>
    distinct (map l21_key (l2_to_l1 s')) \<Longrightarrow> program_step (ep, bp, s) (ep, bp, s')"

inductive_cases program_stepE: "program_step (ep, bp, s) st"

lemma program_step_live:
  assumes "program_step st st'"
  shows "withdrawals_live (bp_fraudProofWindows (fst (snd st))) (snd (snd st)) (snd (snd st'))
    \<and> distinct (map l21_key (l2_to_l1 (snd (snd st')))) \<and> bp_fraudProofWindows (fst (snd st')) = bp_fraudProofWindows (fst (snd st))"
  using assms
proof cases
  case (event task E ep s r ep' s' bp)
  then show ?thesis using event_task_live[OF event(4,3,5)] by simp
next
  case (business B t bp s r bp' s' ep)
  then show ?thesis using business_task_live[OF business(3,4)] by simp
next
  case (l1_batch env H batch s r s' ep bp)
  then show ?thesis using wl.reached[OF l1_batch_live[OF l1_batch(3)] l1_batch(4)] by simp
next
  case (l2_batch env H cl batch s r s' ep bp)
  then show ?thesis using wl.reached[OF l2_batch_live[OF l2_batch(3)] l2_batch(4)] by simp
qed

lemma program_run_live:
  assumes "program_step\<^sup>*\<^sup>* st st'" "distinct (map l21_key (l2_to_l1 (snd (snd st))))"
  shows "rows_live (bp_fraudProofWindows (fst (snd st))) (l2_to_l1 (snd (snd st))) (l2_to_l1 (snd (snd st')))
    \<and> bp_fraudProofWindows (fst (snd st')) = bp_fraudProofWindows (fst (snd st))"
  using assms
proof (induction rule: rtranclp_induct)
  case base
  then show ?case by simp
next
  case (step y z)
  have "rows_live (bp_fraudProofWindows (fst (snd st))) (l2_to_l1 (snd (snd y))) (l2_to_l1 (snd (snd z)))"
    using program_step_live[OF step(2)] step.IH[OF step.prems] by (simp add: withdrawals_live_def)
  then show ?case using program_step_live[OF step(2)] step.IH[OF step.prems] rows_live_trans by auto
qed

text \<open>C3: the program refines the life cycle of a withdrawal: through any sequence of runs of the event
  processor, the business processor and the synchronizers, in any order and with any failures, every
  withdrawal of the table keeps its place and its key and its status and time left move along the
  abstract machine only, and every withdrawal that is added has come along it from its birth.\<close>

theorem withdrawal_lifecycle:
  assumes "program_step\<^sup>*\<^sup>* (ep, bp, s) (ep', bp', s')" "distinct (map l21_key (l2_to_l1 s))"
  shows "rows_live (bp_fraudProofWindows bp) (l2_to_l1 s) (l2_to_l1 s')"
  using program_run_live[OF assms(1)] assms(2) by simp

section \<open>Well-formed withdrawals\<close>

text \<open>The status is one of the five, time left fits the column and a withdrawal in its challenge period has a
  time left.\<close>

definition wf_life :: "int \<times> int option \<Rightarrow> bool" where
  "wf_life l = (fst l \<in> {L2ToL1Pending, L2ToL1ReadyForProved, L2ToL1InChallengePeriod, L2ToL1ReadyForClaim, L2ToL1Claimed}
     \<and> (case snd l of None \<Rightarrow> fst l \<noteq> L2ToL1InChallengePeriod | Some n \<Rightarrow> 0 \<le> n \<and> n < 2 ^ 64))"

lemma life_step_wf: "life_step w l l' \<Longrightarrow> wf_life l \<Longrightarrow> wf_life l'"
proof (induction rule: life_step.induct)
  case (ready t)
  have "uint w < 2 ^ 64" using uint_lt2p[of w] by simp
  then show ?case by (simp add: wf_life_def)
qed (auto simp: wf_life_def status_defs split: option.splits)

lemma lives_wf: "lives w l l' \<Longrightarrow> wf_life l \<Longrightarrow> wf_life l'"
  by (induction rule: rtranclp_induct) (auto intro: life_step_wf)

lemma born_wf: "wf_life born"
  by (simp add: wf_life_def born_def)

lemma rows_live_wf:
  assumes "rows_live w t t'" "\<forall>r \<in> set t. wf_life (life r)" "r \<in> set t'"
  shows "wf_life (life r)"
proof -
  obtain old new where t': "t' = old @ new"
    "list_all2 (\<lambda>r r'. l21_key r' = l21_key r \<and> lives w (life r) (life r')) t old" "\<forall>r \<in> set new. lives w born (life r)"
    using assms(1) by (auto simp: rows_live_def)
  show ?thesis
  proof (cases "r \<in> set new")
    case True
    then show ?thesis using t'(3) lives_wf born_wf by blast
  next
    case False
    then obtain j where "j < length old" "r = old ! j" using assms(3) t'(1) by (auto simp: in_set_conv_nth)
    then have "lives w (life (t ! j)) (life r)" "t ! j \<in> set t" using t'(2) by (auto simp: list_all2_conv_all_nth)
    then show ?thesis using lives_wf assms(2) by blast
  qed
qed

text \<open>C11: the table of the withdrawals stays well formed in every state the program reaches: every status is one of
  the five of the life cycle, the time left of a withdrawal is a uint64, and it is never missing in
  the challenge period, where the count down and the release look at it.\<close>

theorem withdrawals_well_formed:
  assumes "program_step\<^sup>*\<^sup>* (ep, bp, s) (ep', bp', s')" "distinct (map l21_key (l2_to_l1 s))"
    and "\<forall>r \<in> set (l2_to_l1 s). wf_life (life r)" "r \<in> set (l2_to_l1 s')"
  shows "wf_life (life r)"
proof -
  have "rows_live (bp_fraudProofWindows bp) (l2_to_l1 s) (l2_to_l1 s')"
    using program_run_live[OF assms(1)] assms(2) by simp
  then show ?thesis using rows_live_wf assms(3,4) by blast
qed


section \<open>A run of the business processor\<close>

definition sample_business_env :: business_env where
  "sample_business_env = \<lparr>bn_G = mem_gorms, bn_l1Client = balance_client 0 0,
     bn_da = \<lparr>dn_polls = (\<lambda>_. [PollingTimeout]), dn_frames = (\<lambda>_. Some (Err (Msg ''no frames''))), dn_uuid = of_nat, dn_now = of_nat\<rparr>,
     bn_token = \<lparr>te_get = (\<lambda>_. Err (Msg ''no answer'')), te_object = (\<lambda>_. Err (Msg ''no object'')),
       te_tokens = (\<lambda>_. Ok []), te_now = of_nat, te_next_id = (\<lambda>_. 1)\<rparr>,
     bn_balance = balance_env_of 0 0, bn_begin_err = None\<rparr>"

definition sample_business :: BusinessProcessor where
  "sample_business = NewBusinessProcessor 10 3 [] [] sample_contracts []"

text \<open>A withdrawal with one tick of its challenge period left.\<close>

definition proven_row_of :: "int \<Rightarrow> int option \<Rightarrow> L2ToL1" where
  "proven_row_of status left = zero_L2ToL1\<lparr>l21_GUID := 1, l21_L2BlockNumber := Some 3, l21_Status := status, l21_TimeLeft := left\<rparr>"

lemma time_left_run:
  "run_task TimeLeft sample_business_env (sample_business, empty_db\<lparr>l2_to_l1 := [proven_row_of 2 (Some 1)]\<rparr>)
   = Some (Ok (), (sample_business, empty_db\<lparr>l2_to_l1 := [proven_row_of 3 (Some 0)]\<rparr>))"
  by (simp add: run_task_def Let_def on_db_def sample_business_env_def UpdateTimeLeft_def zoomG_def proven_row_of_def
      sql_gt_def time_left_step_def status_defs)

lemma sample_step:
  "program_step (sample_processor None, sample_business, empty_db\<lparr>l2_to_l1 := [proven_row_of 2 (Some 1)]\<rparr>)
     (sample_processor None, sample_business, empty_db\<lparr>l2_to_l1 := [proven_row_of 3 (Some 0)]\<rparr>)"
  by (rule program_step.business[OF _ time_left_run]) (simp_all add: sample_business_env_def mem_gorms_ok)

theorem withdrawal_lifecycle_witness:
  "rows_live 10 [proven_row_of 2 (Some 1)] [proven_row_of 3 (Some 0)]"
  using withdrawal_lifecycle[OF r_into_rtranclp[of program_step, OF sample_step]]
  by (simp add: sample_business_def NewBusinessProcessor_def)

theorem withdrawals_well_formed_witness: "wf_life (life (proven_row_of 3 (Some 0)))"
proof -
  have "wf_life (life (proven_row_of 2 (Some 1)))"
    by (simp add: wf_life_def life_def proven_row_of_def status_defs)
  then show ?thesis
    by (intro withdrawals_well_formed[OF r_into_rtranclp[of program_step, OF sample_step]]) simp_all
qed

section \<open>The deposit that is marked\<close>

text \<open>A documented database that answers Take with row i of the table whenever it is a match.\<close>

definition prefers :: "nat \<Rightarrow> ('r \<Rightarrow> bool) \<Rightarrow> 'r list \<Rightarrow> 'r result" where
  "prefers i P t = (if i < length t \<and> P (t ! i) then Ok (t ! i) else first_match P t)"

definition gorms_preferring :: "nat \<Rightarrow> gorms" where
  "gorms_preferring i = mem_gorms\<lparr>G_l12 := (mem_gorm l12_GUID)\<lparr>g_take := prefers i\<rparr>\<rparr>"

lemma prefers_take: "take_ok P t (prefers i P t)"
  using first_match_take_ok[of t t P] by (auto simp: prefers_def take_ok_def)

lemma gorm_ok_take: "gorm_ok key G \<Longrightarrow> (\<And>P t. take_ok P t (f P t)) \<Longrightarrow> gorm_ok key (G\<lparr>g_take := f\<rparr>)"
  by (simp add: gorm_ok_def del: page_ok.simps)

lemma gorms_preferring_ok: "gorms_ok (gorms_preferring i)"
  using mem_gorms_ok gorm_ok_take[OF mem_gorm_ok[of l12_GUID], of "prefers i", OF prefers_take]
  by (simp add: gorms_ok_def gorms_preferring_def)

text \<open>The task that marks relayed deposits looks for the deposit without its message hash: when one
  relayed message is waiting and its deposit is indexed, a database that answers as documented can make
  the task mark any row of the table as claimed by it, whatever that row's message is; the row also
  loses its L2 block number.\<close>

lemma any_deposit_marked:
  assumes "i < length (l1_to_l2 s)" "distinct (map l12_GUID (l1_to_l2 s))"
    and "relay_message s = [r]" "\<not> rm_Related r" "d \<in> set (l1_to_l2 s)" "l12_MessageHash d = rm_MessageHash r"
    and "rm_BlockNumber r = Some n" "0 < n" "n < 2 ^ 64" "bn_begin_err E = None"
  shows "\<exists>G. gorms_ok G \<and> markedL1ToL2Finalized (E\<lparr>bn_G := G\<rparr>) s
    = (Ok (), s\<lparr>l1_to_l2 := (l1_to_l2 s)[i := (l1_to_l2 s ! i)\<lparr>l12_L2BlockNumber := None,
         l12_L2TransactionHash := rm_RelayTransactionHash r, l12_Status := L1ToL2Claimed\<rparr>],
         relay_message := [r\<lparr>rm_Related := True\<rparr>]\<rparr>)"
proof (intro exI conjI)
  let ?G = "gorms_preferring i" and ?t = "l1_to_l2 s"
  let ?row = "(?t ! i)\<lparr>l12_L2BlockNumber := None, l12_L2TransactionHash := rm_RelayTransactionHash r, l12_Status := L1ToL2Claimed\<rparr>"
  show "gorms_ok ?G" by (rule gorms_preferring_ok)
  have G: "G_relay ?G = mem_gorm rm_GUID" "g_take (G_l12 ?G) = prefers i" "g_save (G_l12 ?G) = (\<lambda>r t. (Ok (), upsert l12_GUID r t))"
    "G_tx ?G = mem_transaction"
    by (simp_all add: gorms_preferring_def mem_gorm_def)
  have list: "RelayMessageUnRelatedList ?G s = Ok [r]"
    using assms(3,4) by (simp add: RelayMessageUnRelatedList_def G rows_or_empty_def)
  have "prefers i (\<lambda>x. where_field (rm_MessageHash r) (l12_MessageHash x)) ?t \<noteq> Err e" for e
    using first_match_Err[of "\<lambda>x. where_field (rm_MessageHash r) (l12_MessageHash x)" ?t e] assms(5,6)
    by (auto simp: prefers_def where_field_def)
  moreover have "prefers i P ?t \<noteq> Panic p" for P p by (simp add: prefers_def first_match_Panic)
  ultimately have found: "is_found (L1ToL2TransactionDeposit ?G (rm_MessageHash r) s)"
    by (cases "prefers i (\<lambda>x. where_field (rm_MessageHash r) (l12_MessageHash x)) ?t")
       (auto simp: is_found_def L1ToL2TransactionDeposit_def G)
  have n: "big_Uint64 n \<noteq> 0" using big_Uint64_nonneg[of n] assms(8,9) by auto
  have take: "prefers i (l12_by_message (relayed_deposit r)) ?t = Ok (?t ! i)"
    using assms(1) by (simp add: prefers_def l12_by_message_def relayed_deposit_def zero_L1ToL2_def where_field_def)
  have skip: "skip_zero_block (l12_L1BlockNumber (relayed_deposit r)) = Ok False"
    using n assms(7) by (simp add: skip_zero_block_def relayed_deposit_def zero_L1ToL2_def word_le_0_iff)
  have set: "set_l12_claimed (relayed_deposit r) x = Ok (x\<lparr>l12_L2BlockNumber := None,
      l12_L2TransactionHash := rm_RelayTransactionHash r, l12_Status := L1ToL2Claimed\<rparr>)" for x
    by (simp add: set_l12_claimed_def relayed_deposit_def zero_L1ToL2_def)
  have save: "upsert l12_GUID ?row ?t = ?t[i := ?row]"
    by (rule upsert_nth[OF assms(2,1)]) simp
  have mark: "MarkL1ToL2TransactionDepositFinalized ?G [relayed_deposit r] s = (Ok (), s\<lparr>l1_to_l2 := ?t[i := ?row]\<rparr>)"
    using save by (simp add: MarkL1ToL2TransactionDepositFinalized_def zoomG_def G take skip set)
  have relate: "MarkedRelayMessageRelated ?G [r] (s\<lparr>l1_to_l2 := x\<rparr>)
      = (Ok (), s\<lparr>l1_to_l2 := x, relay_message := [r\<lparr>rm_Related := True\<rparr>]\<rparr>)" for x
    using assms(3) by (simp add: MarkedRelayMessageRelated_def zoomG_def G relay_cond_def where_field_def upsert_def)
  show "markedL1ToL2Finalized (E\<lparr>bn_G := ?G\<rparr>) s
    = (Ok (), s\<lparr>l1_to_l2 := ?t[i := ?row], relay_message := [r\<lparr>rm_Related := True\<rparr>]\<rparr>)"
    using found assms(10)
    by (simp add: markedL1ToL2Finalized_def Let_def bindG_def readG_def getG_def list outside_tx_def thenG_def mark relate
        G mem_transaction_def)
qed

text \<open>A waiting message of the second deposit, on which the database marks the first.\<close>

definition relayed_sample :: RelayMessage where
  "relayed_sample = zero_RelayMessage\<lparr>rm_GUID := 1, rm_BlockNumber := Some 5, rm_MessageHash := 8, rm_RelayTransactionHash := 99\<rparr>"

definition deposit_of :: "uuid \<Rightarrow> hash \<Rightarrow> L1ToL2" where
  "deposit_of u h = zero_L1ToL2\<lparr>l12_GUID := u, l12_MessageHash := h, l12_Status := L1ToL2Pending\<rparr>"

end
