(* ===== verification/Serializers.thy ===== *)
theory Serializers
  imports Checkpoints
begin


text \<open>
  database/utils/serializers and common/util.go: how the fields of the tables are written to and read from
  the columns.  The columns' values come from the driver; reflection is used to find out the type of
  a field, so a field is given by what its type offers.  The numbers of the driver and the RLP encoder
  are libraries and parameters here.
\<close>

section \<open>Fields\<close>

text \<open>A column's value: NULL, a text or something else the driver may deliver.\<close>

datatype sql_value = SqlNull | SqlText string | SqlOther

text \<open>A field: the methods Bytes and SetBytes of its type, when it has them.  The value of a field is None
  for a nil pointer.\<close>

record 'a field_type =
  ft_Bytes :: "('a \<Rightarrow> bytes) option"
  ft_SetBytes :: "(bytes \<Rightarrow> 'a) option"

definition decode_hex :: "sql_value \<Rightarrow> bytes result" where
  "decode_hex dbValue = (case dbValue of
       SqlText hexStr \<Rightarrow> mapErr (Wrap ''failed to decode database value'') (hexutil_Decode hexStr)
     | _ \<Rightarrow> Err (Msg ''expected hex string as the database value''))"

definition BytesSerializer_Scan :: "'a field_type \<Rightarrow> 'a option \<Rightarrow> sql_value \<Rightarrow> 'a option result" where
  "BytesSerializer_Scan field dst dbValue =
     (if dbValue = SqlNull then Ok dst
      else bindR (decode_hex dbValue) (\<lambda>b.
        case ft_SetBytes field of
          None \<Rightarrow> Err (Msg ''field does not satisfy the `SetBytes([]byte)` interface'')
        | Some setBytes \<Rightarrow> Ok (Some (setBytes b))))"

definition BytesSerializer_Value :: "'a field_type \<Rightarrow> 'a option \<Rightarrow> sql_value result" where
  "BytesSerializer_Value field fieldValue =
     (case fieldValue of
        None \<Rightarrow> Ok SqlNull
      | Some v \<Rightarrow> (case ft_Bytes field of
            None \<Rightarrow> Err (Msg ''field does not satisfy the `Bytes() []byte` interface'')
          | Some f \<Rightarrow> Ok (SqlText (hexutil_Encode (f v)))))"

definition hash_field :: "hash field_type" where
  "hash_field = \<lparr>ft_Bytes = Some hash_bytes, ft_SetBytes = Some BytesToHash\<rparr>"

definition address_field :: "address field_type" where
  "address_field = \<lparr>ft_Bytes = Some address_bytes, ft_SetBytes = Some BytesToAddress\<rparr>"

section \<open>Numbers\<close>

text \<open>pgtype.Numeric: a mantissa, which may be nil, and an exponent.\<close>

record numeric_driver =
  nd_Scan :: "sql_value \<Rightarrow> (int option \<times> int) result"
  nd_Value :: "int \<times> int \<Rightarrow> sql_value result"

definition u256BigIntOverflow :: int where "u256BigIntOverflow = 2 ^ 256"

text \<open>\<open>is_big\<close>: the type of the field is *big.Int.\<close>

definition U256Serializer_Scan :: "numeric_driver \<Rightarrow> bool \<Rightarrow> int option \<Rightarrow> sql_value \<Rightarrow> int option result" where
  "U256Serializer_Scan D is_big dst dbValue =
     (if dbValue = SqlNull then Ok dst
      else if \<not> is_big then Err (Msg ''can only deserialize into a *big.Int'')
      else bindR (nd_Scan D dbValue) (\<lambda>(scanned, exp).
        bindR (nonil scanned) (\<lambda>bigInt.
        let n = (if exp > 0 then bigInt * 10 ^ nat exp else bigInt) in
        if n \<ge> u256BigIntOverflow then Err (Msg ''deserialized number larger than u256 can hold'')
        else Ok (Some n))))"

definition U256Serializer_Value :: "numeric_driver \<Rightarrow> bool \<Rightarrow> int option \<Rightarrow> sql_value result" where
  "U256Serializer_Value D is_big fieldValue =
     (case fieldValue of
        None \<Rightarrow> Ok SqlNull
      | Some n \<Rightarrow> if \<not> is_big then Err (Msg ''can only serialize a *big.Int'') else nd_Value D (n, 0))"

section \<open>RLP\<close>

record 'a rlp_codec =
  rlp_EncodeToBytes :: "'a \<Rightarrow> bytes result"
  rlp_DecodeBytes :: "bytes \<Rightarrow> 'a result"

definition RLPSerializer_Scan :: "'a rlp_codec \<Rightarrow> 'a option \<Rightarrow> sql_value \<Rightarrow> 'a option result" where
  "RLPSerializer_Scan R dst dbValue =
     (if dbValue = SqlNull then Ok dst
      else bindR (decode_hex dbValue) (\<lambda>b.
        bindR (mapErr (Wrap ''failed to decode rlp bytes'') (rlp_DecodeBytes R b)) (\<lambda>v. Ok (Some v))))"

definition RLPSerializer_Value :: "'a rlp_codec \<Rightarrow> 'a option \<Rightarrow> sql_value result" where
  "RLPSerializer_Value R fieldValue =
     (case fieldValue of
        None \<Rightarrow> Ok SqlNull
      | Some v \<Rightarrow> bindR (mapErr (Wrap ''failed to encode rlp bytes'') (rlp_EncodeToBytes R v))
                    (\<lambda>rlpBytes. Ok (SqlText (hexutil_Encode rlpBytes))))"

section \<open>Utilities\<close>

definition PrefixEnvVar :: "string \<Rightarrow> string \<Rightarrow> string list" where
  "PrefixEnvVar prefix suffix = [prefix @ ''_'' @ suffix]"

text \<open>strings.Split never gives an empty list, so the first part is the name of the variable.\<close>

definition validateEnvVars :: "string \<Rightarrow> string list \<Rightarrow> string set \<Rightarrow> string list" where
  "validateEnvVars prefix providedEnvVars definedEnvVars =
     filter (\<lambda>envVar. let key = hd (Split envVar CHR ''='') in HasPrefix key prefix \<and> key \<notin> definedEnvVars) providedEnvVars"

section \<open>Written fields are read back\<close>

text \<open>A field whose type reads its own bytes.\<close>

locale bytes_field =
  fixes field :: "'a field_type" and to_bytes :: "'a \<Rightarrow> bytes" and of_bytes :: "bytes \<Rightarrow> 'a"
  assumes methods: "ft_Bytes field = Some to_bytes" "ft_SetBytes field = Some of_bytes"
    and read_back: "of_bytes (to_bytes v) = v"
begin

lemma written_read: "BytesSerializer_Value field x = Ok c \<and> BytesSerializer_Scan field None c = Ok x
    \<longleftrightarrow> BytesSerializer_Value field x = Ok c"
  by (cases x) (auto simp: BytesSerializer_Value_def BytesSerializer_Scan_def decode_hex_def methods read_back)

lemma round: "bindR (BytesSerializer_Value field x) (BytesSerializer_Scan field None) = Ok x"
  by (cases x) (auto simp: BytesSerializer_Value_def BytesSerializer_Scan_def decode_hex_def methods read_back)

end

interpretation hash_col: bytes_field hash_field hash_bytes BytesToHash
  by unfold_locales (simp_all add: hash_field_def)

interpretation address_col: bytes_field address_field address_bytes BytesToAddress
  by unfold_locales (simp_all add: address_field_def)

lemma bytes_columns:
  "bindR (BytesSerializer_Value hash_field x) (BytesSerializer_Scan hash_field None) = Ok x"
  "bindR (BytesSerializer_Value address_field y) (BytesSerializer_Scan address_field None) = Ok y"
  by (rule hash_col.round) (rule address_col.round)

text \<open>What the driver promises of a number it has written: it reads it with an exponent that is not negative.\<close>

definition numeric_ok :: "numeric_driver \<Rightarrow> bool" where
  "numeric_ok D = (\<forall>n. \<exists>c m e. nd_Value D (n, 0) = Ok c \<and> c \<noteq> SqlNull \<and> nd_Scan D c = Ok (Some m, e) \<and> 0 \<le> e \<and> n = m * 10 ^ nat e)"

text \<open>A number that is written to a column is read back unchanged if it is less than two to the 256, and
  reading it fails otherwise; NULL stands for the missing number.\<close>

lemma u256_column:
  assumes "numeric_ok D"
  shows "bindR (U256Serializer_Value D True x) (U256Serializer_Scan D True None)
    = (case x of Some n \<Rightarrow> if n < 2 ^ 256 then Ok x else Err (Msg ''deserialized number larger than u256 can hold'') | None \<Rightarrow> Ok x)"
proof (cases x)
  case None
  then show ?thesis by (simp add: U256Serializer_Value_def U256Serializer_Scan_def)
next
  case (Some n)
  obtain c m e where c: "nd_Value D (n, 0) = Ok c" "c \<noteq> SqlNull" "nd_Scan D c = Ok (Some m, e)" "0 \<le> e" "n = m * 10 ^ nat e"
    using assms unfolding numeric_ok_def by blast
  have "(if e > 0 then m * 10 ^ nat e else m) = n" using c(4,5) by auto
  then show ?thesis using Some c(1-3)
    by (auto simp: U256Serializer_Value_def U256Serializer_Scan_def u256BigIntOverflow_def Let_def)
qed

definition sample_numeric :: numeric_driver where
  "sample_numeric = \<lparr>nd_Scan = (\<lambda>c. case c of SqlText s \<Rightarrow> (case SetString s of Some n \<Rightarrow> Ok (Some n, 0) | None \<Rightarrow> Err ErrSyntax) | _ \<Rightarrow> Err ErrSyntax),
     nd_Value = (\<lambda>(m, e). Ok (SqlText (int_String m)))\<rparr>"

end
