(* ===== verification/Amounts.thy ===== *)
theory Amounts
  imports Serializers
begin


text \<open>
  The sums of the bridge's amounts that the exporter asks the database for: the grouped queries of
  database/business/l1_to_l2.go and l2_to_l1.go.
\<close>

section \<open>Sums by tokens\<close>

text \<open>A row of an answer: the query selects two sums and the two columns of the group, so the other fields of
  the Go struct stay zero.  SUM over no value is NULL.\<close>

record AmountRow =
  am_ETHAmount :: "int option"
  am_ERC20Amount :: "int option"
  am_L1TokenAddress :: address
  am_L2TokenAddress :: address

definition am_tokens :: "AmountRow \<Rightarrow> address \<times> address" where
  "am_tokens g = (am_L1TokenAddress g, am_L2TokenAddress g)"

definition sql_sum :: "int option list \<Rightarrow> int option" where
  "sql_sum xs = (if \<exists>x \<in> set xs. x \<noteq> None then Some (\<Sum>x\<leftarrow>xs. case x of Some n \<Rightarrow> n | None \<Rightarrow> 0) else None)"

text \<open>SELECT sum(eth_amount), sum(erc20_amount), l1_token_address, l2_token_address ... WHERE c GROUP BY
  l1_token_address, l2_token_address: one statement of the database, and so a parameter.\<close>

type_synonym 'r grouped = "('r \<Rightarrow> bool) \<Rightarrow> 'r list \<Rightarrow> AmountRow list result"

text \<open>The documented behaviour: one row for each pair of tokens that occurs; Find does not report a missing row.\<close>

definition group_row :: "('r \<Rightarrow> int option) \<Rightarrow> ('r \<Rightarrow> int option) \<Rightarrow> ('r \<Rightarrow> address \<times> address) \<Rightarrow> 'r list \<Rightarrow> address \<times> address
    \<Rightarrow> AmountRow" where
  "group_row eth erc20 tokens rows p = (let same = filter (\<lambda>r. tokens r = p) rows in
     \<lparr>am_ETHAmount = sql_sum (map eth same), am_ERC20Amount = sql_sum (map erc20 same),
      am_L1TokenAddress = fst p, am_L2TokenAddress = snd p\<rparr>)"

definition grouped_ok :: "('r \<Rightarrow> int option) \<Rightarrow> ('r \<Rightarrow> int option) \<Rightarrow> ('r \<Rightarrow> address \<times> address) \<Rightarrow> 'r grouped \<Rightarrow> bool" where
  "grouped_ok eth erc20 tokens Q = (\<forall>P t. case Q P t of
       Ok gs \<Rightarrow> distinct (map am_tokens gs) \<and> set gs = group_row eth erc20 tokens (filter P t) ` tokens ` set (filter P t)
     | Err e \<Rightarrow> \<not> errors_Is e RecordNotFound
     | Panic p \<Rightarrow> False)"

text \<open>An evaluation in memory.\<close>

definition mem_grouped :: "('r \<Rightarrow> int option) \<Rightarrow> ('r \<Rightarrow> int option) \<Rightarrow> ('r \<Rightarrow> address \<times> address) \<Rightarrow> 'r grouped" where
  "mem_grouped eth erc20 tokens P t =
     Ok (map (group_row eth erc20 tokens (filter P t)) (remdups (map tokens (filter P t))))"

definition l12_tokens :: "L1ToL2 \<Rightarrow> address \<times> address" where
  "l12_tokens r = (l12_L1TokenAddress r, l12_L2TokenAddress r)"

definition l21_tokens :: "L2ToL1 \<Rightarrow> address \<times> address" where
  "l21_tokens r = (l21_L1TokenAddress r, l21_L2TokenAddress r)"

section \<open>The queries\<close>

definition GetDepositsAmountByTimestamp :: "L1ToL2 grouped \<Rightarrow> int \<Rightarrow> int \<Rightarrow> db \<Rightarrow> AmountRow list result" where
  "GetDepositsAmountByTimestamp Q startTimestamp endTimestamp s =
     empty_if_not_found (Q (\<lambda>r. l12_Timestamp r > startTimestamp \<and> l12_Timestamp r \<le> endTimestamp) (l1_to_l2 s))"

definition GetWithdrawsUnclaimedAmount :: "L2ToL1 grouped \<Rightarrow> string \<Rightarrow> db \<Rightarrow> AmountRow list result" where
  "GetWithdrawsUnclaimedAmount Q l1FinalizeTxHash s =
     empty_if_not_found (Q (\<lambda>r. hash_text (l21_L1FinalizeTxHash r) = l1FinalizeTxHash) (l2_to_l1 s))"

definition GetWithdrawsClaimedAmount :: "L2ToL1 grouped \<Rightarrow> string \<Rightarrow> int \<Rightarrow> int \<Rightarrow> db \<Rightarrow> AmountRow list result" where
  "GetWithdrawsClaimedAmount Q l1FinalizeTxHash startBlockNumber endBlockNumber s =
     empty_if_not_found (Q (\<lambda>r. hash_text (l21_L1FinalizeTxHash r) \<noteq> l1FinalizeTxHash
        \<and> sql_gt (l21_L1BlockNumber r) startBlockNumber \<and> sql_le (l21_L1BlockNumber r) endBlockNumber) (l2_to_l1 s))"

section \<open>What the sums add up to\<close>

definition num :: "int option \<Rightarrow> int" where
  "num x = (case x of Some n \<Rightarrow> n | None \<Rightarrow> 0)"

lemma num_simps [simp]: "num (Some n) = n" "num None = 0"
  by (simp_all add: num_def)

lemma sql_sum_num: "num (sql_sum xs) = (\<Sum>x\<leftarrow>xs. num x)"
proof (cases "\<exists>x \<in> set xs. x \<noteq> None")
  case True
  then show ?thesis unfolding sql_sum_def num_def by simp
next
  case False
  then have "(\<Sum>x\<leftarrow>xs. num x) = 0" by (induction xs) auto
  then show ?thesis using False by (simp add: sql_sum_def)
qed

lemma mem_grouped_ok: "grouped_ok eth erc20 tokens (mem_grouped eth erc20 tokens)"
proof -
  have "am_tokens \<circ> group_row eth erc20 tokens rows = id" for rows
    by (rule ext) (simp add: am_tokens_def group_row_def Let_def)
  then show ?thesis by (auto simp: grouped_ok_def mem_grouped_def)
qed

text \<open>The sum of one pair of tokens, over the rows of an answer and over the table.\<close>

definition answered :: "(AmountRow \<Rightarrow> int option) \<Rightarrow> address \<times> address \<Rightarrow> AmountRow list \<Rightarrow> int" where
  "answered amount p gs = (\<Sum>g\<leftarrow>filter (\<lambda>g. am_tokens g = p) gs. num (amount g))"

definition stored :: "('r \<Rightarrow> int option) \<Rightarrow> ('r \<Rightarrow> address \<times> address) \<Rightarrow> address \<times> address \<Rightarrow> ('r \<Rightarrow> bool) \<Rightarrow> 'r list \<Rightarrow> int" where
  "stored amount tokens p P t = (\<Sum>r\<leftarrow>filter (\<lambda>r. P r \<and> tokens r = p) t. num (amount r))"

lemma answered_append: "answered amount p (gs @ hs) = answered amount p gs + answered amount p hs"
  by (simp add: answered_def)

lemma filter_distinct_key: "distinct (map f xs) \<Longrightarrow> x \<in> set xs \<Longrightarrow> filter (\<lambda>y. f y = f x) xs = [x]"
proof (induction xs)
  case (Cons y ys)
  show ?case
  proof (cases "y = x")
    case True
    then have "\<forall>z \<in> set ys. f z \<noteq> f x" using Cons.prems(1) by (metis distinct.simps(2) image_eqI list.map(2) set_map)
    then have "filter (\<lambda>z. f z = f x) ys = []" by (simp add: filter_empty_conv)
    then show ?thesis using True by simp
  next
    case False
    then have "x \<in> set ys" "f y \<noteq> f x" using Cons.prems by auto
    then show ?thesis using Cons by simp
  qed
qed simp

lemma grouped_found:
  assumes "grouped_ok eth erc20 tokens Q"
  shows "empty_if_not_found (Q P t) = Q P t" "Q P t \<noteq> Panic p"
  using assms[unfolded grouped_ok_def, rule_format, of P t] by (auto simp: empty_if_not_found_def split: result.splits)

text \<open>Both sums of an answer are those of the selected rows.\<close>

lemma grouped_total:
  assumes "grouped_ok eth erc20 tokens Q" "Q P t = Ok gs"
  shows "answered am_ERC20Amount p gs = stored erc20 tokens p P t" "answered am_ETHAmount p gs = stored eth tokens p P t"
proof -
  let ?row = "group_row eth erc20 tokens (filter P t)"
  have d: "distinct (map am_tokens gs)" and gs: "set gs = ?row ` tokens ` set (filter P t)"
    using assms(1)[unfolded grouped_ok_def, rule_format, of P t] unfolding assms(2) result.case by blast+
  have tok: "am_tokens (?row q) = q" for q by (simp add: am_tokens_def group_row_def Let_def)
  have "answered am_ERC20Amount p gs = stored erc20 tokens p P t \<and> answered am_ETHAmount p gs = stored eth tokens p P t"
  proof (cases "p \<in> tokens ` set (filter P t)")
    case True
    then have "?row p \<in> set gs" unfolding gs by (rule imageI)
    then have "filter (\<lambda>g. am_tokens g = p) gs = [?row p]" by (rule filter_distinct_key[OF d, of "?row p", unfolded tok])
    then show ?thesis by (simp add: answered_def stored_def group_row_def Let_def sql_sum_num comp_def)
  next
    case False
    then have "filter (\<lambda>g. am_tokens g = p) gs = []" unfolding filter_empty_conv gs using tok by blast
    moreover have "filter (\<lambda>r. P r \<and> tokens r = p) t = []" unfolding filter_empty_conv using False by auto
    ultimately show ?thesis by (simp add: answered_def stored_def)
  qed
  then show "answered am_ERC20Amount p gs = stored erc20 tokens p P t" "answered am_ETHAmount p gs = stored eth tokens p P t"
    by auto
qed

end
