(* ===== verification/Crossdomain.thy ===== *)
theory Crossdomain
  imports Contracts
begin


text \<open>
  event/processors/bridge/ovm1: the withdrawals from before the upgrade of the rollup.  Legacy
  withdrawals are encoded, hashed, read from a witness file and turned into withdrawals of the
  present message passer.  The ABI encoder of go-ethereum, the ABIs of the contracts and Keccak-256
  are the record of parameters \<open>abi_codec\<close>; \<open>codec_ok\<close> states what its documentation promises.
\<close>

section \<open>Aliases of contract addresses\<close>

text \<open>uint256.Int: 256 bits, wrapping; Bytes20 keeps the low 160.\<close>

definition offsetAddr :: address where
  "offsetAddr = HexToAddress ''0x1111000000000000000000000000000000001111''"

definition offsetU256 :: "256 word" where
  "offsetU256 = ucast offsetAddr"

definition ApplyL1ToL2Alias :: "address \<Rightarrow> address" where
  "ApplyL1ToL2Alias addr = ucast (ucast addr + offsetU256)"

definition UndoL1ToL2Alias :: "address \<Rightarrow> address" where
  "UndoL1ToL2Alias addr = ucast (ucast addr - offsetU256)"

section \<open>Versioned nonces\<close>

unbundle bit_operations_syntax

definition NonceMask :: int where
  "NonceMask = 0xffffffffffffffffffffffffffffffffffffffffffffffffffffffffffff"

text \<open>crossdomain.DecodeVersionedNonce returns the nonce first; \<open>Contracts.DecodeVersionedNonce\<close> models
  the function of the same name in event/processors/contracts.\<close>

definition xDecodeVersionedNonce :: "int \<Rightarrow> int \<times> int" where
  "xDecodeVersionedNonce versioned = (versioned AND NonceMask, drop_bit 240 versioned)"

definition EncodeVersionedNonce :: "int \<Rightarrow> int \<Rightarrow> int" where
  "EncodeVersionedNonce nonce version = nonce OR push_bit 240 version"

section \<open>The ABI encoder\<close>

datatype abi_type = Uint256Type | AddressType | BytesType | Bytes32Type

text \<open>Arguments: a big integer is a pointer and may be nil, an address is passed by value or by pointer.\<close>

datatype abi_value =
    AInt "int option"
  | AAddress address
  | AAddressPtr "address option"
  | ABytes bytes

text \<open>\<open>ac_relayMessage0\<close>, \<open>ac_relayMessage1\<close> and \<open>ac_L1relayMessage\<close> are ABI.Pack(''relayMessage'', ...) of the two
  ABIs of encoding.go and of the L1 messenger; the last one, the ABI of the legacy standard bridge and
  that of the legacy message passer are read when they are used, which may fail.  A MethodById gives
  the name of the method and the types of its inputs, the passer's also its signature.\<close>

record abi_codec =
  ac_Pack :: "abi_type list \<Rightarrow> abi_value list \<Rightarrow> bytes result"
  ac_Unpack :: "abi_type list \<Rightarrow> bytes \<Rightarrow> abi_value list result"
  ac_relayMessage0 :: "abi_value list \<Rightarrow> bytes result"
  ac_relayMessage1 :: "abi_value list \<Rightarrow> bytes result"
  ac_L1relayMessage :: "(abi_value list \<Rightarrow> bytes result) result"
  ac_bridge_MethodById :: "(bytes \<Rightarrow> (string \<times> abi_type list) result) result"
  ac_passer_MethodById :: "(bytes \<Rightarrow> (string \<times> string \<times> abi_type list) result) result"
  ac_Keccak256 :: "bytes \<Rightarrow> hash"

definition EncodeCrossDomainMessageV0 :: "abi_codec \<Rightarrow> address \<Rightarrow> address \<Rightarrow> bytes \<Rightarrow> int option \<Rightarrow> bytes result" where
  "EncodeCrossDomainMessageV0 X target sender message nonce =
     ac_relayMessage0 X [AAddress target, AAddress sender, ABytes message, AInt nonce]"

definition EncodeCrossDomainMessageV1 :: "abi_codec \<Rightarrow> int option \<Rightarrow> address \<Rightarrow> address \<Rightarrow> int option \<Rightarrow> int option
    \<Rightarrow> int option \<Rightarrow> bytes \<Rightarrow> bytes result" where
  "EncodeCrossDomainMessageV1 X nonce sender target mntValue ethValue gasLimit data =
     ac_relayMessage1 X [AInt nonce, AAddress sender, AAddress target, AInt mntValue, AInt ethValue, AInt gasLimit, ABytes data]"

definition HashCrossDomainMessageV0 :: "abi_codec \<Rightarrow> address \<Rightarrow> address \<Rightarrow> bytes \<Rightarrow> int option \<Rightarrow> hash result" where
  "HashCrossDomainMessageV0 X target sender data nonce =
     bindR (EncodeCrossDomainMessageV0 X target sender data nonce) (\<lambda>encoded. Ok (ac_Keccak256 X encoded))"

definition HashCrossDomainMessageV1 :: "abi_codec \<Rightarrow> int option \<Rightarrow> address \<Rightarrow> address \<Rightarrow> int option \<Rightarrow> int option
    \<Rightarrow> int option \<Rightarrow> bytes \<Rightarrow> hash result" where
  "HashCrossDomainMessageV1 X nonce sender target mntValue ethValue gasLimit data =
     bindR (EncodeCrossDomainMessageV1 X nonce sender target mntValue ethValue gasLimit data)
       (\<lambda>encoded. Ok (ac_Keccak256 X encoded))"

section \<open>Cross domain messages\<close>

record CrossDomainMessage =
  cdm_Nonce :: "int option"
  cdm_Sender :: address
  cdm_Target :: address
  cdm_MntValue :: "int option"
  cdm_EthValue :: "int option"
  cdm_GasLimit :: "int option"
  cdm_Data :: bytes

definition NewCrossDomainMessage :: "int option \<Rightarrow> address \<Rightarrow> address \<Rightarrow> int option \<Rightarrow> int option \<Rightarrow> int option \<Rightarrow> bytes
    \<Rightarrow> CrossDomainMessage" where
  "NewCrossDomainMessage nonce sender target mntValue ethValue gasLimit data =
     \<lparr>cdm_Nonce = nonce, cdm_Sender = sender, cdm_Target = target, cdm_MntValue = mntValue,
      cdm_EthValue = ethValue, cdm_GasLimit = gasLimit, cdm_Data = data\<rparr>"

definition CrossDomainMessage_Version :: "CrossDomainMessage \<Rightarrow> u64 result" where
  "CrossDomainMessage_Version c =
     bindR (nonil (cdm_Nonce c)) (\<lambda>n. Ok (big_Uint64 (snd (xDecodeVersionedNonce n))))"

definition ErrUnknownVersion :: error where
  "ErrUnknownVersion = Msg ''unknown version''"

definition CrossDomainMessage_Encode :: "abi_codec \<Rightarrow> CrossDomainMessage \<Rightarrow> bytes result" where
  "CrossDomainMessage_Encode X c = bindR (CrossDomainMessage_Version c) (\<lambda>version.
     if version = 0 then EncodeCrossDomainMessageV0 X (cdm_Target c) (cdm_Sender c) (cdm_Data c) (cdm_Nonce c)
     else if version = 1 then EncodeCrossDomainMessageV1 X (cdm_Nonce c) (cdm_Sender c) (cdm_Target c)
            (cdm_MntValue c) (cdm_EthValue c) (cdm_GasLimit c) (cdm_Data c)
     else Err ErrUnknownVersion)"

definition CrossDomainMessage_Hash :: "abi_codec \<Rightarrow> CrossDomainMessage \<Rightarrow> hash result" where
  "CrossDomainMessage_Hash X c = bindR (CrossDomainMessage_Version c) (\<lambda>version.
     if version = 0 then HashCrossDomainMessageV0 X (cdm_Target c) (cdm_Sender c) (cdm_Data c) (cdm_Nonce c)
     else if version = 1 then HashCrossDomainMessageV1 X (cdm_Nonce c) (cdm_Sender c) (cdm_Target c)
            (cdm_MntValue c) (cdm_EthValue c) (cdm_GasLimit c) (cdm_Data c)
     else Err ErrUnknownVersion)"

definition CrossDomainMessage_HashV1 :: "abi_codec \<Rightarrow> CrossDomainMessage \<Rightarrow> hash result" where
  "CrossDomainMessage_HashV1 X c = HashCrossDomainMessageV1 X (cdm_Nonce c) (cdm_Sender c) (cdm_Target c)
     (cdm_MntValue c) (cdm_EthValue c) (cdm_GasLimit c) (cdm_Data c)"

section \<open>Withdrawals\<close>

record Withdrawal =
  wd_Nonce :: "int option"
  wd_Sender :: "address option"
  wd_Target :: "address option"
  wd_MNTValue :: "int option"
  wd_ETHValue :: "int option"
  wd_GasLimit :: "int option"
  wd_Data :: bytes

definition NewWithdrawal :: "int option \<Rightarrow> address option \<Rightarrow> address option \<Rightarrow> int option \<Rightarrow> int option \<Rightarrow> int option
    \<Rightarrow> bytes \<Rightarrow> Withdrawal" where
  "NewWithdrawal nonce sender target mntValue ethValue gasLimit data =
     \<lparr>wd_Nonce = nonce, wd_Sender = sender, wd_Target = target, wd_MNTValue = mntValue,
      wd_ETHValue = ethValue, wd_GasLimit = gasLimit, wd_Data = data\<rparr>"

definition withdrawal_types :: "abi_type list" where
  "withdrawal_types = [Uint256Type, AddressType, AddressType, Uint256Type, Uint256Type, Uint256Type, BytesType]"

definition Withdrawal_Encode :: "abi_codec \<Rightarrow> Withdrawal \<Rightarrow> bytes result" where
  "Withdrawal_Encode X w =
     mapErr (Wrap ''cannot encode withdrawal'')
       (ac_Pack X withdrawal_types [AInt (wd_Nonce w), AAddressPtr (wd_Sender w), AAddressPtr (wd_Target w),
          AInt (wd_MNTValue w), AInt (wd_ETHValue w), AInt (wd_GasLimit w), ABytes (wd_Data w)])"

text \<open>decoded[i].(T): an index that is out of range panics, a value of another type is an error.\<close>

fun as_big :: "abi_value \<Rightarrow> int option option" where
  "as_big (AInt n) = Some n" | "as_big v = None"

fun as_address :: "abi_value \<Rightarrow> address option" where
  "as_address (AAddress a) = Some a" | "as_address v = None"

fun as_bytes :: "abi_value \<Rightarrow> bytes option" where
  "as_bytes (ABytes b) = Some b" | "as_bytes v = None"

definition decoded_at :: "(abi_value \<Rightarrow> 'a option) \<Rightarrow> string \<Rightarrow> abi_value list \<Rightarrow> nat \<Rightarrow> 'a result" where
  "decoded_at cast failed decoded i =
     bindR (indexR decoded i) (\<lambda>v. case cast v of Some a \<Rightarrow> Ok a | None \<Rightarrow> Err (Msg failed))"

definition Withdrawal_Decode :: "abi_codec \<Rightarrow> bytes \<Rightarrow> Withdrawal result" where
  "Withdrawal_Decode X data = bindR (ac_Unpack X withdrawal_types data) (\<lambda>decoded.
     bindR (decoded_at as_big ''cannot abi decode nonce'' decoded 0) (\<lambda>nonce.
     bindR (decoded_at as_address ''cannot abi decode sender'' decoded 1) (\<lambda>sender.
     bindR (decoded_at as_address ''cannot abi decode target'' decoded 2) (\<lambda>target.
     bindR (decoded_at as_big ''cannot abi decode mntValue'' decoded 3) (\<lambda>mntValue.
     bindR (decoded_at as_big ''cannot abi decode ethValue'' decoded 4) (\<lambda>ethValue.
     bindR (decoded_at as_big ''cannot abi decode gasLimit'' decoded 5) (\<lambda>gasLimit.
     bindR (decoded_at as_bytes ''cannot abi decode data'' decoded 6) (\<lambda>msgData.
     Ok \<lparr>wd_Nonce = nonce, wd_Sender = Some sender, wd_Target = Some target, wd_MNTValue = mntValue,
         wd_ETHValue = ethValue, wd_GasLimit = gasLimit, wd_Data = msgData\<rparr>))))))))"

definition Withdrawal_Hash :: "abi_codec \<Rightarrow> Withdrawal \<Rightarrow> hash result" where
  "Withdrawal_Hash X w = bindR (Withdrawal_Encode X w) (\<lambda>encoded. Ok (ac_Keccak256 X encoded))"

text \<open>The slot of the mapping at position 0 of the message passer.\<close>

definition slot_of :: "abi_codec \<Rightarrow> hash \<Rightarrow> hash" where
  "slot_of X h = ac_Keccak256 X (hash_bytes h @ replicate 32 0)"

definition Withdrawal_StorageSlot :: "abi_codec \<Rightarrow> Withdrawal \<Rightarrow> hash result" where
  "Withdrawal_StorageSlot X w = bindR (Withdrawal_Hash X w) (\<lambda>h. Ok (slot_of X h))"

record TypesWithdrawalTransaction =
  wt_Nonce :: "int option"
  wt_Sender :: address
  wt_Target :: address
  wt_MntValue :: "int option"
  wt_EthValue :: "int option"
  wt_GasLimit :: "int option"
  wt_Data :: bytes

definition WithdrawalTransaction :: "Withdrawal \<Rightarrow> TypesWithdrawalTransaction result" where
  "WithdrawalTransaction w = bindR (nonil (wd_Sender w)) (\<lambda>sender. bindR (nonil (wd_Target w)) (\<lambda>target.
     Ok \<lparr>wt_Nonce = wd_Nonce w, wt_Sender = sender, wt_Target = target, wt_MntValue = wd_MNTValue w,
         wt_EthValue = wd_ETHValue w, wt_GasLimit = wd_GasLimit w, wt_Data = wd_Data w\<rparr>))"


section \<open>Legacy withdrawals\<close>

text \<open>event/op-bindings/predeploys.\<close>

definition L2CrossDomainMessengerAddr :: address where
  "L2CrossDomainMessengerAddr = HexToAddress ''0x4200000000000000000000000000000000000007''"

definition L2StandardBridgeAddr :: address where
  "L2StandardBridgeAddr = HexToAddress ''0x4200000000000000000000000000000000000010''"

definition L2ToL1MessagePasserAddr :: address where
  "L2ToL1MessagePasserAddr = HexToAddress ''0x4200000000000000000000000000000000000016''"

definition LegacyMessagePasserAddr :: address where
  "LegacyMessagePasserAddr = HexToAddress ''0x4200000000000000000000000000000000000000''"

definition WETH9Addr :: address where
  "WETH9Addr = HexToAddress ''0x4200000000000000000000000000000000000006''"

definition GovernanceTokenAddr :: address where
  "GovernanceTokenAddr = HexToAddress ''0x4200000000000000000000000000000000000042''"

definition IsProxied :: "address \<Rightarrow> bool" where
  "IsProxied predeployAddr = (predeployAddr \<noteq> WETH9Addr \<and> predeployAddr \<noteq> GovernanceTokenAddr)"

record LegacyWithdrawal =
  lw_MessageSender :: address
  lw_XDomainTarget :: address
  lw_XDomainSender :: address
  lw_XDomainData :: bytes
  lw_XDomainNonce :: "int option"

definition NewLegacyWithdrawal :: "address \<Rightarrow> address \<Rightarrow> address \<Rightarrow> bytes \<Rightarrow> int option \<Rightarrow> LegacyWithdrawal" where
  "NewLegacyWithdrawal msgSender target sender data nonce =
     \<lparr>lw_MessageSender = msgSender, lw_XDomainTarget = target, lw_XDomainSender = sender,
      lw_XDomainData = data, lw_XDomainNonce = nonce\<rparr>"

definition LegacyWithdrawal_Encode :: "abi_codec \<Rightarrow> LegacyWithdrawal \<Rightarrow> bytes result" where
  "LegacyWithdrawal_Encode X w =
     bindR (mapErr (Wrap ''cannot encode LegacyWithdrawal'')
              (EncodeCrossDomainMessageV0 X (lw_XDomainTarget w) (lw_XDomainSender w) (lw_XDomainData w) (lw_XDomainNonce w)))
       (\<lambda>enc. Ok (enc @ address_bytes L2CrossDomainMessengerAddr))"

definition relayMessage_selector :: "abi_codec \<Rightarrow> bytes" where
  "relayMessage_selector X =
     take 4 (hash_bytes (ac_Keccak256 X (string_bytes ''relayMessage(address,address,bytes,uint256)'')))"

definition legacy_types :: "abi_type list" where
  "legacy_types = [AddressType, AddressType, BytesType, Uint256Type]"

definition LegacyWithdrawal_Decode :: "abi_codec \<Rightarrow> bytes \<Rightarrow> LegacyWithdrawal result" where
  "LegacyWithdrawal_Decode X data =
     (if length data < 20 + 4 then Err (Msg ''withdrawal data too short'')
      else if take 4 data \<noteq> relayMessage_selector X then Err (Msg ''invalid selector'')
      else
        let msgSender = drop (length data - 20) data; raw = slice data 4 (length data - 20) in
        bindR (ac_Unpack X legacy_types raw) (\<lambda>decoded.
        bindR (decoded_at as_address ''cannot abi decode target'' decoded 0) (\<lambda>target.
        bindR (decoded_at as_address ''cannot abi decode sender'' decoded 1) (\<lambda>sender.
        bindR (decoded_at as_bytes ''cannot abi decode data'' decoded 2) (\<lambda>msgData.
        bindR (decoded_at as_big ''cannot abi decode nonce'' decoded 3) (\<lambda>nonce.
        Ok \<lparr>lw_MessageSender = BytesToAddress msgSender, lw_XDomainTarget = target, lw_XDomainSender = sender,
            lw_XDomainData = msgData, lw_XDomainNonce = nonce\<rparr>))))))"

definition LegacyWithdrawal_Hash :: "abi_codec \<Rightarrow> LegacyWithdrawal \<Rightarrow> hash result" where
  "LegacyWithdrawal_Hash X w =
     bindR (mapErr (Wrap ''cannot hash LegacyWithdrawal'') (LegacyWithdrawal_Encode X w))
       (\<lambda>encoded. Ok (ac_Keccak256 X encoded))"

definition LegacyWithdrawal_StorageSlot :: "abi_codec \<Rightarrow> LegacyWithdrawal \<Rightarrow> hash result" where
  "LegacyWithdrawal_StorageSlot X w =
     bindR (mapErr (Wrap ''cannot compute storage slot'') (LegacyWithdrawal_Hash X w)) (\<lambda>h. Ok (slot_of X h))"

text \<open>ETHValue and MNTValue differ in the method that carries a value.  A selector that the bridge does not have
  means no value.\<close>

definition bridge_value :: "abi_codec \<Rightarrow> string \<Rightarrow> LegacyWithdrawal \<Rightarrow> int option result" where
  "bridge_value X finalize w =
     bindR (ac_bridge_MethodById X) (\<lambda>methodById.
       case methodById (lw_XDomainData w) of
         Err e \<Rightarrow> Ok (Some 0)
       | Panic p \<Rightarrow> Panic p
       | Ok (name, inputs) \<Rightarrow>
           if lw_XDomainSender w = L2StandardBridgeAddr \<and> name = finalize then
             (if length (lw_XDomainData w) < 4 then Panic ''slice bounds out of range''
              else bindR (ac_Unpack X inputs (drop 4 (lw_XDomainData w))) (\<lambda>data.
                     if length data < 3 then Err (Msg ''not enough data'')
                     else decoded_at as_big ''not big.Int'' data 2))
           else Ok (Some 0))"

definition LegacyWithdrawal_ETHValue :: "abi_codec \<Rightarrow> LegacyWithdrawal \<Rightarrow> int option result" where
  "LegacyWithdrawal_ETHValue X = bridge_value X ''finalizeETHWithdrawal''"

definition LegacyWithdrawal_MNTValue :: "abi_codec \<Rightarrow> LegacyWithdrawal \<Rightarrow> int option result" where
  "LegacyWithdrawal_MNTValue X = bridge_value X ''finalizeMantleWithdrawal''"

definition LegacyWithdrawal_CrossDomainMessage :: "LegacyWithdrawal \<Rightarrow> CrossDomainMessage" where
  "LegacyWithdrawal_CrossDomainMessage w =
     \<lparr>cdm_Nonce = lw_XDomainNonce w, cdm_Sender = lw_XDomainSender w, cdm_Target = lw_XDomainTarget w,
      cdm_MntValue = Some 0, cdm_EthValue = Some 0, cdm_GasLimit = Some 0, cdm_Data = lw_XDomainData w\<rparr>"

section \<open>Migration\<close>

definition abiTrue :: hash where "abiTrue = 1"

definition errLegacyStorageSlotNotFound :: error where
  "errLegacyStorageSlotNotFound = Msg ''cannot find storage slot''"

definition RelayConstantOverhead :: u64 where "RelayConstantOverhead = 200000"

text \<open>params.TxDataNonZeroGasEIP2028 of go-ethereum.\<close>

definition RelayPerByteDataCost :: u64 where "RelayPerByteDataCost = 16"
definition MinGasDynamicOverheadNumerator :: u64 where "MinGasDynamicOverheadNumerator = 64"
definition MinGasDynamicOverheadDenominator :: u64 where "MinGasDynamicOverheadDenominator = 63"
definition RelayCallOverhead :: u64 where "RelayCallOverhead = 40000"
definition RelayReservedGas :: u64 where "RelayReservedGas = 40000"
definition RelayGasCheckBuffer :: u64 where "RelayGasCheckBuffer = 5000"

definition MigrateWithdrawalGasLimit :: "bytes \<Rightarrow> int \<Rightarrow> u64" where
  "MigrateWithdrawalGasLimit data chainID =
     (let dataCost = of_nat (length data) * RelayPerByteDataCost;
          overhead = (if chainID = 420 then 200000
                      else RelayConstantOverhead
                         + (MinGasDynamicOverheadNumerator * 1000000) div MinGasDynamicOverheadDenominator
                         + RelayCallOverhead + RelayReservedGas + RelayGasCheckBuffer);
          gasLimit = dataCost + overhead in
      if gasLimit > 25000000 then 25000000 else gasLimit)"

text \<open>The logging in between calls String on both values and on the three addresses.\<close>

definition CalcWithdrawalHash :: "abi_codec \<Rightarrow> LegacyWithdrawal \<Rightarrow> address option \<Rightarrow> int \<Rightarrow> Withdrawal result" where
  "CalcWithdrawalHash X withdrawal l1CrossDomainMessenger chainID =
     bindR (mapErr (Wrap ''cannot migrate withdrawal'') (LegacyWithdrawal_ETHValue X withdrawal)) (\<lambda>ethValue.
     bindR (mapErr (Wrap ''cannot migrate withdrawal'') (LegacyWithdrawal_MNTValue X withdrawal)) (\<lambda>mntValue.
     bindR (ac_L1relayMessage X) (\<lambda>pack.
     bindR (nonil (lw_XDomainNonce withdrawal)) (\<lambda>nonce.
     let versionedNonce = EncodeVersionedNonce nonce 0 in
     bindR (mapErr (Wrap ''cannot abi encode relayMessage'')
       (pack [AInt (Some versionedNonce), AAddress (lw_XDomainSender withdrawal), AAddress (lw_XDomainTarget withdrawal),
              AInt mntValue, AInt ethValue, AInt (Some 0), ABytes (lw_XDomainData withdrawal)])) (\<lambda>data.
     let gasLimit = MigrateWithdrawalGasLimit data chainID in
     Ok (NewWithdrawal (Some versionedNonce) (Some L2CrossDomainMessengerAddr) l1CrossDomainMessenger
           mntValue ethValue (Some (uint gasLimit)) data))))))"

text \<open>ovm1.CalcTransaction.\<close>

definition CalcTransaction :: "abi_codec \<Rightarrow> LegacyWithdrawal \<Rightarrow> address option \<Rightarrow> int \<Rightarrow> hash result" where
  "CalcTransaction X legacyWithdrawal l1CrossdomainMessengerAddress l2ChainID =
     bindR (CalcWithdrawalHash X legacyWithdrawal l1CrossdomainMessengerAddress l2ChainID) (Withdrawal_Hash X)"

text \<open>The state database: the storage of the accounts.\<close>

type_synonym evm_state = "address \<Rightarrow> hash \<Rightarrow> hash"

definition SetState :: "address \<Rightarrow> hash \<Rightarrow> hash \<Rightarrow> evm_state \<Rightarrow> evm_state" where
  "SetState a slot v st = st(a := (st a)(slot := v))"

definition migrate_one :: "abi_codec \<Rightarrow> address option \<Rightarrow> bool \<Rightarrow> int \<Rightarrow> LegacyWithdrawal \<Rightarrow> (evm_state, unit) go" where
  "migrate_one X l1CrossDomainMessenger noCheck chainID legacy =
     bindG (liftR (LegacyWithdrawal_StorageSlot X legacy)) (\<lambda>legacySlot.
     bindG (getG (\<lambda>st. st LegacyMessagePasserAddr legacySlot)) (\<lambda>legacyValue.
     if \<not> noCheck \<and> legacyValue \<noteq> abiTrue then errG (Wrap ''slot'' errLegacyStorageSlotNotFound)
     else
       bindG (liftR (CalcWithdrawalHash X legacy l1CrossDomainMessenger chainID)) (\<lambda>withdrawal.
       bindG (liftR (mapErr (Wrap ''cannot compute withdrawal storage slot'') (Withdrawal_StorageSlot X withdrawal))) (\<lambda>slot.
       putG (SetState L2ToL1MessagePasserAddr slot abiTrue)))))"

definition MigrateWithdrawals :: "abi_codec \<Rightarrow> LegacyWithdrawal list \<Rightarrow> address option \<Rightarrow> bool \<Rightarrow> int \<Rightarrow> (evm_state, unit) go" where
  "MigrateWithdrawals X withdrawals l1CrossDomainMessenger noCheck chainID =
     forG (migrate_one X l1CrossDomainMessenger noCheck chainID) withdrawals"


section \<open>Messages of the witness file\<close>

record WitnessMessage =
  wm_Who :: address
  wm_Msg :: bytes

text \<open>A call of the message passer that is no withdrawal: the message, then its sender.\<close>

definition InvalidMessage_Encode :: "WitnessMessage \<Rightarrow> bytes result" where
  "InvalidMessage_Encode m = Ok (wm_Msg m @ address_bytes (wm_Who m))"

definition InvalidMessage_Hash :: "abi_codec \<Rightarrow> WitnessMessage \<Rightarrow> hash result" where
  "InvalidMessage_Hash X m =
     bindR (mapErr (Wrap ''cannot hash'') (InvalidMessage_Encode m)) (\<lambda>bytes. Ok (ac_Keccak256 X bytes))"

definition InvalidMessage_StorageSlot :: "abi_codec \<Rightarrow> WitnessMessage \<Rightarrow> hash result" where
  "InvalidMessage_StorageSlot X m =
     bindR (mapErr (Wrap ''cannot compute storage slot'') (InvalidMessage_Hash X m)) (\<lambda>h. Ok (slot_of X h))"

definition decodeWitnessCalldata :: "abi_codec \<Rightarrow> bytes \<Rightarrow> bytes result" where
  "decodeWitnessCalldata X msg =
     (case ac_passer_MethodById X of
        Err e \<Rightarrow> Panic ''should always be able to get message passer abi''
      | Panic p \<Rightarrow> Panic p
      | Ok methodById \<Rightarrow>
          if length msg < 4 then Err (Msg ''message too short'')
          else bindR (methodById (take 4 msg)) (\<lambda>(sig, name, inputs).
            if sig \<noteq> ''passMessageToL1(bytes)'' then Err (Msg ''unknown method'')
            else bindR (ac_Unpack X inputs (drop 4 msg)) (\<lambda>out.
                 bindR (indexR out 0) (\<lambda>v. case as_bytes v of
                     Some cast \<Rightarrow> Ok cast
                   | None \<Rightarrow> Panic ''should always be able to cast type []byte''))))"

text \<open>hexutil.MustDecode.\<close>

definition MustDecode :: "string \<Rightarrow> bytes result" where
  "MustDecode s = (case hexutil_Decode s of Err e \<Rightarrow> Panic ''hexutil'' | r \<Rightarrow> r)"

type_synonym witness_data = "WitnessMessage list \<times> (address \<rightharpoonup> bool)"

definition ErrInvalidLine :: error where "ErrInvalidLine = Msg ''invalid line''"

definition read_line :: "abi_codec \<Rightarrow> string \<Rightarrow> witness_data \<Rightarrow> witness_data result" where
  "read_line X line = (\<lambda>(witnesses, addresses).
     let splits = Split line CHR ''|'' in
     if length splits < 2 then Err ErrInvalidLine
     else if splits ! 0 = ''MSG'' then
       (if length splits \<noteq> 3 then Err ErrInvalidLine
        else
          let msg = (if HasPrefix (splits ! 2) ''0x'' then splits ! 2 else ''0x'' @ splits ! 2) in
          bindR (MustDecode msg) (\<lambda>msgB.
            case decodeWitnessCalldata X msgB of
              Err e \<Rightarrow> Ok (witnesses, addresses)
            | Panic p \<Rightarrow> Panic p
            | Ok calldata \<Rightarrow>
                Ok (witnesses @ [\<lparr>wm_Who = HexToAddress (splits ! 1), wm_Msg = calldata\<rparr>], addresses)))
     else if splits ! 0 = ''ETH'' then Ok (witnesses, addresses(HexToAddress (splits ! 1) \<mapsto> True))
     else Err ErrInvalidLine)"

text \<open>ReadWitnessData, on the lines the scanner yields from the file.\<close>

definition ReadWitnessData :: "abi_codec \<Rightarrow> string list \<Rightarrow> witness_data result" where
  "ReadWitnessData X ls = foldR (read_line X) ls ([], Map.empty)"

definition ToLegacyWithdrawal :: "abi_codec \<Rightarrow> WitnessMessage \<Rightarrow> LegacyWithdrawal result" where
  "ToLegacyWithdrawal X m = LegacyWithdrawal_Decode X (wm_Msg m @ address_bytes (wm_Who m))"

text \<open>What a migration needs: the holders of the legacy token from before and after the upgrade, the allowances they
  had given, and the messages.\<close>

record Allowance =
  al_From :: address
  al_To :: address

type_synonym OVMETHAddresses = "address \<rightharpoonup> bool"

record MigrationData =
  md_OvmAddresses :: OVMETHAddresses
  md_EvmAddresses :: OVMETHAddresses
  md_OvmAllowances :: "Allowance list"
  md_OvmMessages :: "WitnessMessage list"
  md_EvmMessages :: "WitnessMessage list"

text \<open>A message from before the upgrade of the virtual machine must be a withdrawal, a later one may be
  anything.\<close>

definition evm_message :: "abi_codec \<Rightarrow> WitnessMessage \<Rightarrow> LegacyWithdrawal list \<times> WitnessMessage list
    \<Rightarrow> (LegacyWithdrawal list \<times> WitnessMessage list) result" where
  "evm_message X m = (\<lambda>(messages, invalidMessages).
     case ToLegacyWithdrawal X m of
       Ok w \<Rightarrow> Ok (messages @ [w], invalidMessages)
     | Err e \<Rightarrow> Ok (messages, invalidMessages @ [m])
     | Panic p \<Rightarrow> Panic p)"

definition ToWithdrawals :: "abi_codec \<Rightarrow> MigrationData \<Rightarrow> (LegacyWithdrawal list \<times> WitnessMessage list) result" where
  "ToWithdrawals X d =
     bindR (mapR (\<lambda>m. mapErr (Wrap ''error serializing OVM message'') (ToLegacyWithdrawal X m)) (md_OvmMessages d))
       (\<lambda>messages. foldR (evm_message X) (md_EvmMessages d) (messages, []))"

section \<open>Pending withdrawals\<close>

text \<open>An event of the L2 messenger's contract as the binding's iterator yields it.\<close>

record SentMessageLog =
  sl_Target :: address
  sl_Sender :: address
  sl_Message :: bytes
  sl_MessageNonce :: "int option"
  sl_GasLimit :: "int option"
  sl_TxHash :: hash

record PendingWithdrawal =
  pw_LegacyWithdrawal :: LegacyWithdrawal
  pw_TransactionHash :: hash

text \<open>The two contracts: the events of a range of blocks, without an end to the latest block, and whether a
  message has been relayed, by the position of the call.\<close>

record Messengers =
  mg_FilterSentMessage :: "u64 \<Rightarrow> u64 option \<Rightarrow> SentMessageLog list result"
  mg_SuccessfulMessages :: "nat \<Rightarrow> hash \<Rightarrow> bool result"

definition pending_step :: "abi_codec \<Rightarrow> Messengers \<Rightarrow> int option \<Rightarrow> nat \<times> SentMessageLog \<Rightarrow> PendingWithdrawal list
    \<Rightarrow> PendingWithdrawal list result" where
  "pending_step X messengers version = (\<lambda>(i, ev) withdrawals.
     let msg = NewCrossDomainMessage (sl_MessageNonce ev) (sl_Sender ev) (sl_Target ev) (Some 0) (Some 0)
                 (sl_GasLimit ev) (sl_Message ev) in
     bindR (case version of
              None \<Rightarrow> Ok ()
            | Some v \<Rightarrow> bindR (CrossDomainMessage_Version msg) (\<lambda>got.
                if big_Uint64 v \<noteq> got then Err (Msg ''expected version'') else Ok ())) (\<lambda>_.
     bindR (CrossDomainMessage_Hash X msg) (\<lambda>h.
     bindR (mg_SuccessfulMessages messengers i h) (\<lambda>relayed.
       if relayed then Ok withdrawals
       else Ok (withdrawals @ [\<lparr>pw_LegacyWithdrawal = \<lparr>lw_MessageSender = 0, lw_XDomainTarget = sl_Target ev,
                   lw_XDomainSender = sl_Sender ev, lw_XDomainData = sl_Message ev, lw_XDomainNonce = sl_MessageNonce ev\<rparr>,
                 pw_TransactionHash = sl_TxHash ev\<rparr>])))))"

definition GetPendingWithdrawals :: "abi_codec \<Rightarrow> Messengers \<Rightarrow> int option \<Rightarrow> u64 \<Rightarrow> u64 \<Rightarrow> PendingWithdrawal list result" where
  "GetPendingWithdrawals X messengers version start end_block =
     bindR (mg_FilterSentMessage messengers start (if end_block \<noteq> 0 then Some end_block else None)) (\<lambda>messages.
       foldR (pending_step X messengers version) (enumerate 0 messages) [])"


section \<open>Properties\<close>

lemma alias_uint: "uint (ApplyL1ToL2Alias a) = (uint a + uint offsetU256) mod 2 ^ 160"
  "uint (UndoL1ToL2Alias a) = (uint a - uint offsetU256) mod 2 ^ 160"
proof -
  have m: "((x mod 2 ^ 256) mod 2 ^ 160) = x mod 2 ^ 160" for x :: int
    by (rule mod_mod_cancel) (simp add: le_imp_power_dvd)
  have u: "uint (ucast a :: 256 word) = uint a"
    by (simp add: unsigned_ucast_eq take_bit_int_eq_self uint_lt2p[THEN order_less_le_trans])
  show "uint (ApplyL1ToL2Alias a) = (uint a + uint offsetU256) mod 2 ^ 160"
    using m[of "uint a + uint offsetU256"] u
    by (simp add: ApplyL1ToL2Alias_def unsigned_ucast_eq take_bit_eq_mod uint_word_ariths)
  show "uint (UndoL1ToL2Alias a) = (uint a - uint offsetU256) mod 2 ^ 160"
    using m[of "uint a - uint offsetU256"] u
    by (simp add: UndoL1ToL2Alias_def unsigned_ucast_eq take_bit_eq_mod uint_word_ariths)
qed

text \<open>The alias of an address and its inverse undo each other, for every address: the addition wraps at
  160 bits.\<close>

lemma alias_roundtrip: "UndoL1ToL2Alias (ApplyL1ToL2Alias a) = a" "ApplyL1ToL2Alias (UndoL1ToL2Alias a) = a"
proof -
  have a: "uint a mod 2 ^ 160 = uint a" using uint_lt2p[of a] by simp
  show "UndoL1ToL2Alias (ApplyL1ToL2Alias a) = a" "ApplyL1ToL2Alias (UndoL1ToL2Alias a) = a"
    using a by (simp_all add: word_uint_eq_iff alias_uint mod_simps)
qed

section \<open>Nonces\<close>

lemma xDecode_eq: "xDecodeVersionedNonce n = (nonce_value n, nonce_version n)"
proof -
  have "NonceMask = mask 240" by (simp add: NonceMask_def mask_eq_exp_minus_1)
  then have "n AND NonceMask = take_bit 240 n" by (simp only: take_bit_eq_mask)
  then show ?thesis
    by (simp add: xDecodeVersionedNonce_def nonce_value_def nonce_version_def take_bit_eq_mod drop_bit_eq_div)
qed

lemma versioned_nonce_roundtrip:
  assumes "0 \<le> nonce" "nonce < 2 ^ 240"
  shows "xDecodeVersionedNonce (EncodeVersionedNonce nonce version) = (nonce, version)"
proof -
  have t: "take_bit 240 nonce = nonce" using assms by (simp add: take_bit_int_eq_self)
  have take: "take_bit 240 (nonce OR push_bit 240 version) = nonce"
    using t by (simp add: take_bit_or take_bit_push_bit)
  have "drop_bit 240 nonce = 0" using assms by (simp add: drop_bit_eq_div)
  moreover have "drop_bit 240 (push_bit 240 version) = version" by (simp add: drop_bit_eq_div push_bit_eq_mult)
  ultimately have "drop_bit 240 (nonce OR push_bit 240 version) = version" by (simp add: drop_bit_or)
  then show ?thesis
    unfolding xDecode_eq EncodeVersionedNonce_def nonce_value_def nonce_version_def
    using take by (simp add: take_bit_eq_mod drop_bit_eq_div)
qed

text \<open>The program decodes versioned nonces in two ways, with a mask here and by slicing bytes where it reads
  the messengers' events; on nonces of 256 bits they agree except exactly on those of 30 significant
  bytes, where the other takes two bytes of the value for the version.\<close>

lemma nonce_decoders_agree:
  assumes "0 \<le> n" "n < 2 ^ 256"
  shows "DecodeVersionedNonce n = (word_of_int (snd (xDecodeVersionedNonce n)), fst (xDecodeVersionedNonce n))
    \<longleftrightarrow> \<not> (2 ^ 232 \<le> n \<and> n < 2 ^ 240)"
  using decode_versioned_nonce[OF assms] by (auto simp: xDecode_eq split: if_splits)

section \<open>Legacy withdrawals\<close>

text \<open>The encoder reduces an integer to 256 bits without an error, as math.U256Bytes does.\<close>

definition u256 :: "int \<Rightarrow> int" where
  "u256 n = n mod 2 ^ 256"

lemma u256_id: "0 \<le> n \<Longrightarrow> n < 2 ^ 256 \<Longrightarrow> u256 n = n"
  by (simp add: u256_def)

lemma u256_range: "0 \<le> u256 n" "u256 n < 2 ^ 256"
  by (simp_all add: u256_def)

fun plain :: "abi_value \<Rightarrow> abi_value" where
  "plain (AAddressPtr (Some a)) = AAddress a"
| "plain (AInt n) = AInt (map_option u256 n)"
| "plain v = v"

text \<open>What the ABI encoder promises: what it has packed it unpacks, with addresses by value and integers reduced to 256 bits, and
  a call is its selector followed by its packed arguments.\<close>

definition codec_ok :: "abi_codec \<Rightarrow> bool" where
  "codec_ok X =
     ((\<forall>ts vs b. ac_Pack X ts vs = Ok b \<longrightarrow> ac_Unpack X ts b = Ok (map plain vs))
      \<and> (\<forall>vs b. ac_relayMessage0 X vs = Ok b \<longrightarrow>
           (\<exists>d. ac_Pack X legacy_types vs = Ok d \<and> b = relayMessage_selector X @ d)))"

lemma length_selector [simp]: "length (relayMessage_selector X) = 4"
  by (simp add: relayMessage_selector_def hash_bytes_def)

lemma length_address_bytes [simp]: "length (address_bytes a) = 20"
  by (simp add: address_bytes_def)

lemma decode_encoded:
  assumes "codec_ok X" "EncodeCrossDomainMessageV0 X target sender data nonce = Ok enc"
  shows "LegacyWithdrawal_Decode X (enc @ address_bytes who)
    = Ok \<lparr>lw_MessageSender = who, lw_XDomainTarget = target, lw_XDomainSender = sender, lw_XDomainData = data,
        lw_XDomainNonce = map_option u256 nonce\<rparr>"
proof -
  let ?vs = "[AAddress target, AAddress sender, ABytes data, AInt nonce]"
  obtain d where d: "ac_Pack X legacy_types ?vs = Ok d" "enc = relayMessage_selector X @ d"
    using assms unfolding codec_ok_def EncodeCrossDomainMessageV0_def by blast
  have u: "ac_Unpack X legacy_types d = Ok [AAddress target, AAddress sender, ABytes data, AInt (map_option u256 nonce)]" using assms(1) d(1) by (auto simp: codec_ok_def)
  show ?thesis
    using u by (simp add: LegacyWithdrawal_Decode_def Let_def d(2) slice_def decoded_at_def)
qed

text \<open>C35: decoding an encoded legacy withdrawal gives every field back except the sender of the message, which
  becomes the address of the L2 messenger whoever it was, and the nonce, which is reduced to 256 bits; a nonce of 256 bits
  comes back as it was.\<close>

theorem legacy_withdrawal_roundtrip:
  assumes "codec_ok X" "LegacyWithdrawal_Encode X w = Ok b"
  shows "LegacyWithdrawal_Decode X b = Ok (w\<lparr>lw_MessageSender := L2CrossDomainMessengerAddr,
      lw_XDomainNonce := map_option u256 (lw_XDomainNonce w)\<rparr>)
    \<and> (\<forall>n. lw_XDomainNonce w = Some n \<and> 0 \<le> n \<and> n < 2 ^ 256 \<longrightarrow>
        LegacyWithdrawal_Decode X b = Ok (w\<lparr>lw_MessageSender := L2CrossDomainMessengerAddr\<rparr>))"
proof -
  obtain enc where enc: "EncodeCrossDomainMessageV0 X (lw_XDomainTarget w) (lw_XDomainSender w) (lw_XDomainData w) (lw_XDomainNonce w) = Ok enc"
    "b = enc @ address_bytes L2CrossDomainMessengerAddr"
    using assms(2) by (auto simp: LegacyWithdrawal_Encode_def)
  then show ?thesis using decode_encoded[OF assms(1) enc(1), of L2CrossDomainMessengerAddr] by (auto simp: u256_id)
qed

section \<open>Migration\<close>

lemma gas_limit:
  assumes "length data < 2 ^ 59"
  shows "uint (MigrateWithdrawalGasLimit data chainID)
    = min 25000000 (16 * int (length data) + (if chainID = 420 then 200000 else 1300873))"
proof -
  define o' :: u64 where "o' = (if chainID = 420 then 200000 else 1300873)"
  have o': "uint o' = (if chainID = 420 then 200000 else 1300873)" by (simp add: o'_def)
  have over: "RelayConstantOverhead + (MinGasDynamicOverheadNumerator * 1000000) div MinGasDynamicOverheadDenominator
     + RelayCallOverhead + RelayReservedGas + RelayGasCheckBuffer = 1300873"
    by (simp add: RelayConstantOverhead_def MinGasDynamicOverheadNumerator_def MinGasDynamicOverheadDenominator_def
        RelayCallOverhead_def RelayReservedGas_def RelayGasCheckBuffer_def)
  let ?g = "of_nat (length data) * 16 + o' :: u64"
  have "?g = word_of_int (16 * int (length data) + uint o')" by simp
  then have "uint ?g = (16 * int (length data) + uint o') mod 2 ^ 64"
    by (simp only: uint_word_of_int take_bit_eq_mod) simp
  moreover have "16 * int (length data) + uint o' < 2 ^ 64" "0 \<le> 16 * int (length data) + uint o'"
    using assms o' by auto
  ultimately have g: "uint ?g = 16 * int (length data) + uint o'" by simp
  have "MigrateWithdrawalGasLimit data chainID = (if ?g > 25000000 then 25000000 else ?g)"
    by (simp add: MigrateWithdrawalGasLimit_def over RelayPerByteDataCost_def o'_def Let_def)
  then show ?thesis using g o' by (auto simp: word_less_def min_def)
qed

text \<open>The message is a call of the bridge's method \<open>name\<close> by the L2 bridge, with the amount as its third argument.\<close>

definition finalizes :: "abi_codec \<Rightarrow> LegacyWithdrawal \<Rightarrow> string \<Rightarrow> int option \<Rightarrow> bool" where
  "finalizes X w name amount = (lw_XDomainSender w = L2StandardBridgeAddr
     \<and> (\<exists>methodById inputs args. ac_bridge_MethodById X = Ok methodById \<and> methodById (lw_XDomainData w) = Ok (name, inputs)
          \<and> ac_Unpack X inputs (drop 4 (lw_XDomainData w)) = Ok args \<and> 3 \<le> length args \<and> args ! 2 = AInt amount))"

lemma as_big_Some: "as_big v = Some n \<longleftrightarrow> v = AInt n"
  by (cases v) simp_all

lemma bridge_value_carried:
  assumes "bridge_value X name w = Ok v"
  shows "finalizes X w name a \<Longrightarrow> v = a" and "(\<nexists>a. finalizes X w name a) \<Longrightarrow> v = Some 0"
proof -
  obtain f where f: "ac_bridge_MethodById X = Ok f" using assms by (auto simp: bridge_value_def)
  show "v = a" if "finalizes X w name a" for a
    using assms that f by (auto simp: bridge_value_def finalizes_def decoded_at_def indexR_eq_Ok split: if_splits option.splits)
  show "v = Some 0" if "\<nexists>a. finalizes X w name a"
  proof (cases "f (lw_XDomainData w)")
    case (Ok x)
    then show ?thesis using assms that f
      by (cases x) (auto simp: bridge_value_def finalizes_def decoded_at_def indexR_eq_Ok as_big_Some split: if_splits option.splits)
  qed (use assms f in \<open>auto simp: bridge_value_def\<close>)
qed

lemma finalizes_one: "finalizes X w ''finalizeETHWithdrawal'' a \<Longrightarrow> \<not> finalizes X w ''finalizeMantleWithdrawal'' b"
  by (auto simp: finalizes_def)

text \<open>C16: a migrated withdrawal keeps the nonce of its message, of version zero when it has 240 bits, and is sent by the L2
  messenger to the L1 messenger. It carries the amount of ETH that a call of finalizeETHWithdrawal by the L2 bridge names and
  the amount of MNT that a call of finalizeMantleWithdrawal by it names, otherwise zero, so never both. Its data is the call
  of relayMessage with the message's nonce, sender, target and data and with these two values, MNT first, and its gas limit is the
  fixed overhead of its chain and 16 for each byte of the data, at most 25 million.\<close>

theorem migrated_withdrawal:
  assumes "CalcWithdrawalHash X w l1Messenger chainID = Ok d"
  shows "\<exists>n pack. lw_XDomainNonce w = Some n \<and> wd_Nonce d = Some n
    \<and> (0 \<le> n \<and> n < 2 ^ 240 \<longrightarrow> xDecodeVersionedNonce n = (n, 0))
    \<and> wd_Sender d = Some L2CrossDomainMessengerAddr \<and> wd_Target d = l1Messenger
    \<and> (\<forall>a. finalizes X w ''finalizeETHWithdrawal'' a \<longrightarrow> wd_ETHValue d = a \<and> wd_MNTValue d = Some 0)
    \<and> (\<forall>a. finalizes X w ''finalizeMantleWithdrawal'' a \<longrightarrow> wd_MNTValue d = a \<and> wd_ETHValue d = Some 0)
    \<and> ((\<nexists>a. finalizes X w ''finalizeETHWithdrawal'' a \<or> finalizes X w ''finalizeMantleWithdrawal'' a)
         \<longrightarrow> wd_ETHValue d = Some 0 \<and> wd_MNTValue d = Some 0)
    \<and> ac_L1relayMessage X = Ok pack
    \<and> pack [AInt (Some n), AAddress (lw_XDomainSender w), AAddress (lw_XDomainTarget w), AInt (wd_MNTValue d),
            AInt (wd_ETHValue d), AInt (Some 0), ABytes (lw_XDomainData w)] = Ok (wd_Data d)
    \<and> (length (wd_Data d) < 2 ^ 59 \<longrightarrow> wd_GasLimit d
         = Some (min 25000000 (16 * int (length (wd_Data d)) + (if chainID = 420 then 200000 else 1300873))))"
proof -
  obtain e m pack n data where c: "LegacyWithdrawal_ETHValue X w = Ok e" "LegacyWithdrawal_MNTValue X w = Ok m"
    "lw_XDomainNonce w = Some n" "ac_L1relayMessage X = Ok pack"
    "pack [AInt (Some (EncodeVersionedNonce n 0)), AAddress (lw_XDomainSender w), AAddress (lw_XDomainTarget w), AInt m, AInt e,
       AInt (Some 0), ABytes (lw_XDomainData w)] = Ok data"
    "d = NewWithdrawal (Some (EncodeVersionedNonce n 0)) (Some L2CrossDomainMessengerAddr) l1Messenger m e
           (Some (uint (MigrateWithdrawalGasLimit data chainID))) data"
    using assms by (auto simp: CalcWithdrawalHash_def Let_def)
  have n: "EncodeVersionedNonce n 0 = n" by (simp add: EncodeVersionedNonce_def)
  have e: "finalizes X w ''finalizeETHWithdrawal'' a \<Longrightarrow> e = a" "(\<nexists>a. finalizes X w ''finalizeETHWithdrawal'' a) \<Longrightarrow> e = Some 0" for a
    using bridge_value_carried[OF c(1)[unfolded LegacyWithdrawal_ETHValue_def]] by auto
  have m: "finalizes X w ''finalizeMantleWithdrawal'' a \<Longrightarrow> m = a" "(\<nexists>a. finalizes X w ''finalizeMantleWithdrawal'' a) \<Longrightarrow> m = Some 0" for a
    using bridge_value_carried[OF c(2)[unfolded LegacyWithdrawal_MNTValue_def]] by auto
  show ?thesis
    using c(3-6) n e m finalizes_one[of X w] gas_limit[of data chainID] versioned_nonce_roundtrip[of n 0]
    by (intro exI[of _ n] exI[of _ pack]) (auto simp: NewWithdrawal_def)
qed


definition migrated :: "abi_codec \<Rightarrow> address option \<Rightarrow> bool \<Rightarrow> int \<Rightarrow> evm_state \<Rightarrow> LegacyWithdrawal \<Rightarrow> hash \<Rightarrow> bool" where
  "migrated X m noCheck chainID st w slot =
     ((\<exists>d. CalcWithdrawalHash X w m chainID = Ok d \<and> Withdrawal_StorageSlot X d = Ok slot)
      \<and> (\<exists>h. LegacyWithdrawal_StorageSlot X w = Ok h \<and> (noCheck \<or> st LegacyMessagePasserAddr h = abiTrue)))"

lemma passer_addresses: "LegacyMessagePasserAddr \<noteq> L2ToL1MessagePasserAddr"
  by code_simp

lemma migrate_one_cases:
  assumes "migrate_one X m noCheck chainID w st = (r, st')"
  obtains (moved) slot where "r = Ok ()" "migrated X m noCheck chainID st w slot" "st' = SetState L2ToL1MessagePasserAddr slot abiTrue st"
    | (kept) "r \<noteq> Ok ()" "st' = st"
proof (cases "r = Ok ()")
  case True
  then obtain h d slot where "LegacyWithdrawal_StorageSlot X w = Ok h" "noCheck \<or> st LegacyMessagePasserAddr h = abiTrue"
    "CalcWithdrawalHash X w m chainID = Ok d" "Withdrawal_StorageSlot X d = Ok slot"
    "st' = SetState L2ToL1MessagePasserAddr slot abiTrue st"
    using assms by (auto simp: migrate_one_def bindG_eq_Ok go_simps errG_def putG_def liftR_def split: if_splits)
  then show ?thesis using True moved unfolding migrated_def by blast
next
  case False
  moreover have "st' = st"
    using assms False by (auto simp: migrate_one_def go_defs split: result.splits if_splits)
  ultimately show ?thesis by (rule kept)
qed

lemma migrated_SetState: "migrated X m noCheck chainID (SetState L2ToL1MessagePasserAddr slot v st) = migrated X m noCheck chainID st"
  using passer_addresses by (auto simp: migrated_def SetState_def fun_eq_iff)

lemma migrate_loop:
  assumes "MigrateWithdrawals X ws m noCheck chainID st = (r, st')"
  shows "\<exists>k slots. k \<le> length ws \<and> list_all2 (migrated X m noCheck chainID st) (take k ws) slots
    \<and> st' = fold (\<lambda>slot. SetState L2ToL1MessagePasserAddr slot abiTrue) slots st \<and> (r = Ok () \<longleftrightarrow> k = length ws)"
  using assms
proof (induction ws arbitrary: st)
  case Nil
  then show ?case by (auto simp: MigrateWithdrawals_def retG_def)
next
  case (Cons w ws)
  obtain r1 st1 where 1: "migrate_one X m noCheck chainID w st = (r1, st1)" by (cases "migrate_one X m noCheck chainID w st")
  from 1 show ?case
  proof (cases rule: migrate_one_cases)
    case (moved slot)
    then have "MigrateWithdrawals X ws m noCheck chainID st1 = (r, st')"
      using Cons.prems 1 by (simp add: MigrateWithdrawals_def thenG_def bindG_def)
    from Cons.IH[OF this] obtain k slots where k: "k \<le> length ws" "list_all2 (migrated X m noCheck chainID st1) (take k ws) slots"
      "st' = fold (\<lambda>slot. SetState L2ToL1MessagePasserAddr slot abiTrue) slots st1" "r = Ok () \<longleftrightarrow> k = length ws" by blast
    have "list_all2 (migrated X m noCheck chainID st) (take (Suc k) (w # ws)) (slot # slots)"
      using k(2) moved by (simp add: migrated_SetState)
    then show ?thesis using k moved(3) by (intro exI[of _ "Suc k"] exI[of _ "slot # slots"]) simp
  next
    case kept
    then have "r = r1" "st' = st" using Cons.prems 1
      by (cases r1; simp add: MigrateWithdrawals_def thenG_def bindG_def)+
    then show ?thesis using kept by (intro exI[of _ 0] exI[of _ "[]"]) simp
  qed
qed

lemma fold_SetState:
  "fold (\<lambda>slot. SetState a slot v) slots st = st(a := (\<lambda>s. if s \<in> set slots then v else st a s))"
  by (induction slots arbitrary: st) (auto simp: SetState_def fun_eq_iff)

text \<open>C17: migrating a list of withdrawals marks the slots of a prefix of it in the present message passer and
  changes nothing else, all of it exactly when the migration succeeds; with the check on, every
  withdrawal of that prefix was marked in the legacy message passer.\<close>

theorem migration_marks_prefix:
  assumes "MigrateWithdrawals X ws m noCheck chainID st = (r, st')"
  shows "\<exists>k slots. k \<le> length ws \<and> list_all2 (migrated X m noCheck chainID st) (take k ws) slots
    \<and> st' = st(L2ToL1MessagePasserAddr := (\<lambda>s. if s \<in> set slots then abiTrue else st L2ToL1MessagePasserAddr s))
    \<and> (r = Ok () \<longleftrightarrow> k = length ws)"
  using migrate_loop[OF assms] unfolding fold_SetState .

section \<open>A codec\<close>

text \<open>An encoder that keeps the promises: numbers of 32 bytes and addresses of 20, bytes behind their length.\<close>

fun sample_pack :: "abi_type list \<Rightarrow> abi_value list \<Rightarrow> bytes result" where
  "sample_pack [] [] = Ok []"
| "sample_pack (Uint256Type # ts) (AInt (Some n) # vs) =
     bindR (sample_pack ts vs) (\<lambda>b. Ok (be_bytes 32 (u256 n) @ b))"
| "sample_pack (AddressType # ts) (AAddress a # vs) = bindR (sample_pack ts vs) (\<lambda>b. Ok (address_bytes a @ b))"
| "sample_pack (AddressType # ts) (AAddressPtr (Some a) # vs) = bindR (sample_pack ts vs) (\<lambda>b. Ok (address_bytes a @ b))"
| "sample_pack (BytesType # ts) (ABytes d # vs) =
     (if length d < 2 ^ 32 then bindR (sample_pack ts vs) (\<lambda>b. Ok (be_bytes 4 (int (length d)) @ d @ b)) else Err (Msg ''long''))"
| "sample_pack _ _ = Err (Msg ''type'')"

fun sample_unpack :: "abi_type list \<Rightarrow> bytes \<Rightarrow> abi_value list result" where
  "sample_unpack [] b = Ok []"
| "sample_unpack (Uint256Type # ts) b =
     bindR (sample_unpack ts (drop 32 b)) (\<lambda>vs. Ok (AInt (Some (SetBytes (take 32 b))) # vs))"
| "sample_unpack (AddressType # ts) b =
     bindR (sample_unpack ts (drop 20 b)) (\<lambda>vs. Ok (AAddress (BytesToAddress (take 20 b)) # vs))"
| "sample_unpack (BytesType # ts) b =
     (let n = nat (SetBytes (take 4 b)) in
      bindR (sample_unpack ts (drop (4 + n) b)) (\<lambda>vs. Ok (ABytes (take n (drop 4 b)) # vs)))"
| "sample_unpack (Bytes32Type # ts) b = Err (Msg ''type'')"

lemma sample_unpack_pack: "sample_pack ts vs = Ok b \<Longrightarrow> sample_unpack ts b = Ok (map plain vs)"
proof (induction ts vs arbitrary: b rule: sample_pack.induct)
  case (2 ts n vs)
  have "SetBytes (be_bytes 32 (u256 n)) = u256 n" using u256_range[of n] by (intro SetBytes_be_bytes) simp_all
  then show ?case using 2 by auto
next
  case (5 ts d vs)
  then have len: "SetBytes (be_bytes 4 (int (length d))) = int (length d)"
    by (intro SetBytes_be_bytes) (simp_all split: if_splits)
  show ?case using 5 len by (auto split: if_splits)
qed (auto simp: SetBytes_be_bytes split: if_splits)

definition sample_codec :: abi_codec where
  "sample_codec = (let keccak = (\<lambda>b. word_of_int (SetBytes b)) in
     \<lparr>ac_Pack = sample_pack, ac_Unpack = sample_unpack,
      ac_relayMessage0 = (\<lambda>vs. bindR (sample_pack legacy_types vs)
        (\<lambda>d. Ok (take 4 (hash_bytes (keccak (string_bytes ''relayMessage(address,address,bytes,uint256)''))) @ d))),
      ac_relayMessage1 = sample_pack withdrawal_types, ac_L1relayMessage = Ok (sample_pack withdrawal_types),
      ac_bridge_MethodById = Ok (\<lambda>_. Ok (''finalizeETHWithdrawal'', [AddressType, AddressType, Uint256Type])),
      ac_passer_MethodById = Err (Msg ''abi''), ac_Keccak256 = keccak\<rparr>)"

lemma sample_codec_ok: "codec_ok sample_codec"
  by (auto simp: codec_ok_def sample_codec_def Let_def sample_unpack_pack relayMessage_selector_def)

definition sample_legacy :: LegacyWithdrawal where
  "sample_legacy = NewLegacyWithdrawal 1 2 L2StandardBridgeAddr
     ([1, 2, 3, 4] @ address_bytes 5 @ address_bytes 6 @ be_bytes 32 7) (Some 8)"

theorem legacy_withdrawal_roundtrip_witness:
  "\<exists>b. LegacyWithdrawal_Encode sample_codec sample_legacy = Ok b
    \<and> LegacyWithdrawal_Decode sample_codec b = Ok (sample_legacy\<lparr>lw_MessageSender := L2CrossDomainMessengerAddr\<rparr>)"
proof -
  obtain b where b: "LegacyWithdrawal_Encode sample_codec sample_legacy = Ok b"
    by (simp add: LegacyWithdrawal_Encode_def EncodeCrossDomainMessageV0_def sample_codec_def sample_legacy_def
        NewLegacyWithdrawal_def legacy_types_def)
  then show ?thesis using legacy_withdrawal_roundtrip[OF sample_codec_ok b] by (auto simp: sample_legacy_def NewLegacyWithdrawal_def u256_def)
qed

lemma sample_migrated: "\<exists>d. CalcWithdrawalHash sample_codec sample_legacy (Some 9) 5000 = Ok d \<and> wd_ETHValue d = Some 7"
  using SetBytes_be_bytes[of 7 32]
  by (simp add: CalcWithdrawalHash_def LegacyWithdrawal_ETHValue_def LegacyWithdrawal_MNTValue_def bridge_value_def
      sample_codec_def sample_legacy_def NewLegacyWithdrawal_def decoded_at_def Let_def withdrawal_types_def
      EncodeVersionedNonce_def NewWithdrawal_def del: be_bytes.simps)

lemma sample_finalizes: "finalizes sample_codec sample_legacy ''finalizeETHWithdrawal'' (Some 7)"
  using SetBytes_be_bytes[of 7 32]
  by (simp add: finalizes_def sample_codec_def sample_legacy_def NewLegacyWithdrawal_def Let_def del: be_bytes.simps)

theorem migrated_withdrawal_witness:
  "\<exists>d. CalcWithdrawalHash sample_codec sample_legacy (Some 9) 5000 = Ok d \<and> wd_ETHValue d = Some 7 \<and> wd_MNTValue d = Some 0
     \<and> sample_pack withdrawal_types [AInt (Some 8), AAddress L2StandardBridgeAddr, AAddress 2, AInt (Some 0), AInt (Some 7),
         AInt (Some 0), ABytes (lw_XDomainData sample_legacy)] = Ok (wd_Data d)"
proof -
  obtain d where d: "CalcWithdrawalHash sample_codec sample_legacy (Some 9) 5000 = Ok d"
    using sample_migrated by blast
  have s: "lw_XDomainNonce sample_legacy = Some 8" "lw_XDomainSender sample_legacy = L2StandardBridgeAddr" "lw_XDomainTarget sample_legacy = 2"
    "ac_L1relayMessage sample_codec = Ok (sample_pack withdrawal_types)"
    by (simp_all add: sample_legacy_def NewLegacyWithdrawal_def sample_codec_def Let_def)
  show ?thesis using migrated_withdrawal[OF d] sample_finalizes d by (auto simp: s)
qed

lemma sample_migration: "fst (MigrateWithdrawals sample_codec [sample_legacy] (Some 9) True 5000 (\<lambda>_ _. 0)) = Ok ()"
proof -
  have "\<exists>h. LegacyWithdrawal_StorageSlot sample_codec sample_legacy = Ok h"
    by (simp add: LegacyWithdrawal_StorageSlot_def LegacyWithdrawal_Hash_def LegacyWithdrawal_Encode_def
        EncodeCrossDomainMessageV0_def sample_codec_def sample_legacy_def NewLegacyWithdrawal_def legacy_types_def Let_def)
  moreover obtain d where d: "CalcWithdrawalHash sample_codec sample_legacy (Some 9) 5000 = Ok d"
    using sample_migrated by blast
  moreover have "\<exists>slot. Withdrawal_StorageSlot sample_codec d = Ok slot"
    using d SetBytes_be_bytes[of 7 32]
    by (auto simp: CalcWithdrawalHash_def LegacyWithdrawal_ETHValue_def LegacyWithdrawal_MNTValue_def bridge_value_def
        sample_codec_def sample_legacy_def NewLegacyWithdrawal_def decoded_at_def Let_def withdrawal_types_def
        EncodeVersionedNonce_def NewWithdrawal_def Withdrawal_StorageSlot_def Withdrawal_Hash_def Withdrawal_Encode_def
        uint_lt2p[THEN order_less_le_trans] simp del: be_bytes.simps)
  ultimately show ?thesis
    by (auto simp: MigrateWithdrawals_def migrate_one_def go_defs)
qed

theorem migration_marks_prefix_witness:
  "\<exists>slot. migrated sample_codec (Some 9) True 5000 (\<lambda>_ _. 0) sample_legacy slot
    \<and> snd (MigrateWithdrawals sample_codec [sample_legacy] (Some 9) True 5000 (\<lambda>_ _. 0)) L2ToL1MessagePasserAddr slot = abiTrue"
proof -
  obtain st' where m: "MigrateWithdrawals sample_codec [sample_legacy] (Some 9) True 5000 (\<lambda>_ _. 0) = (Ok (), st')"
    using sample_migration by (metis prod.collapse)
  from migration_marks_prefix[OF m] obtain slot where
      "migrated sample_codec (Some 9) True 5000 (\<lambda>_ _. 0) sample_legacy slot" "st' L2ToL1MessagePasserAddr slot = abiTrue"
    by (auto simp: list_all2_Cons1)
  then show ?thesis using m by (intro exI[of _ slot]) simp
qed

end
