(* ===== verification/Configuration.thy ===== *)
theory Configuration
  imports Crossdomain Retry ChainSync
begin


text \<open>
  flag/flag.go and config/config.go: the flags of the commands and the configuration that is read from them.  The
  command line library is a parameter, the context a command receives; \<open>context_ok\<close> says how it reads
  the values of the flags.
\<close>

section \<open>Flags\<close>

text \<open>The types of flags, with their values; durations are nanoseconds.\<close>

datatype flag_value =
    StringValue string | IntValue int | Uint64Value u64 | BoolValue bool | DurationValue int

record cli_flag =
  fl_Name :: string
  fl_Value :: flag_value
  fl_EnvVars :: "string list"
  fl_Required :: bool

definition envVarPrefix :: string where "envVarPrefix = ''LITHOSPHERE''"

definition prefixEnvVars :: "string \<Rightarrow> string list" where
  "prefixEnvVars name = [envVarPrefix @ ''_'' @ name]"

text \<open>The defaults of two flags that hold durations.\<close>

definition UnhealthyTimePeriodFlag_Value :: int where "UnhealthyTimePeriodFlag_Value = 120 * Second"
definition SequencerPollingSecondsFlag_Value :: int where "SequencerPollingSecondsFlag_Value = 30 * Second"

definition cli_flag_of :: "string \<Rightarrow> flag_value \<Rightarrow> string \<Rightarrow> bool \<Rightarrow> cli_flag" where
  "cli_flag_of name preset env req =
     \<lparr>fl_Name = name, fl_Value = preset, fl_EnvVars = prefixEnvVars env, fl_Required = req\<rparr>"

definition MigrationsFlag :: cli_flag where
  "MigrationsFlag = cli_flag_of ''migrations-dir'' (StringValue ''./migrations'') ''MIGRATIONS_DIR'' False"

definition L1EthRpcFlag :: cli_flag where
  "L1EthRpcFlag = cli_flag_of ''l1-eth-rpc'' (StringValue []) ''L1_RPC'' True"

definition L2EthRpcFlag :: cli_flag where
  "L2EthRpcFlag = cli_flag_of ''l2-eth-rpc'' (StringValue []) ''L2_PRC'' True"

definition HttpHostFlag :: cli_flag where
  "HttpHostFlag = cli_flag_of ''http-host'' (StringValue []) ''HTTP_HOST'' True"

definition HttpPortFlag :: cli_flag where
  "HttpPortFlag = cli_flag_of ''http-port'' (IntValue 8987) ''HTTP_PORT'' True"

definition MetricsHostFlag :: cli_flag where
  "MetricsHostFlag = cli_flag_of ''metrics-host'' (StringValue []) ''METRICS_HOST'' True"

definition MetricsPortFlag :: cli_flag where
  "MetricsPortFlag = cli_flag_of ''metrics-port'' (IntValue 7214) ''METRICS_PORT'' True"

definition SlaveDbEnableFlag :: cli_flag where
  "SlaveDbEnableFlag = cli_flag_of ''slave-db-enable'' (BoolValue False) ''SLAVE_DB_ENABLE'' True"

definition MasterDbHostFlag :: cli_flag where
  "MasterDbHostFlag = cli_flag_of ''master-db-host'' (StringValue []) ''MASTER_DB_HOST'' True"

definition MasterDbPortFlag :: cli_flag where
  "MasterDbPortFlag = cli_flag_of ''master-db-port'' (IntValue 0) ''MASTER_DB_PORT'' True"

definition MasterDbUserFlag :: cli_flag where
  "MasterDbUserFlag = cli_flag_of ''master-db-user'' (StringValue []) ''MASTER_DB_USER'' True"

definition MasterDbPasswordFlag :: cli_flag where
  "MasterDbPasswordFlag = cli_flag_of ''master-db-password'' (StringValue []) ''MASTER_DB_PASSWORD'' True"

definition MasterDbNameFlag :: cli_flag where
  "MasterDbNameFlag = cli_flag_of ''master-db-name'' (StringValue []) ''MASTER_DB_NAME'' True"

definition StartDataStoreIdFlag :: cli_flag where
  "StartDataStoreIdFlag = cli_flag_of ''start-data-store-id'' (Uint64Value 1) ''START_DATA_STORE_ID'' False"

definition L1PollingIntervalFlag :: cli_flag where
  "L1PollingIntervalFlag = cli_flag_of ''l1-polling-interval'' (DurationValue 0) ''L1_POLLING_INTERVAL'' False"

definition L1HeaderBufferSizeFlag :: cli_flag where
  "L1HeaderBufferSizeFlag = cli_flag_of ''l1-header-buffer-size'' (IntValue 0) ''L1_HEADER_BUFFER_SIZE'' False"

definition L1ConfirmationDepthFlag :: cli_flag where
  "L1ConfirmationDepthFlag = cli_flag_of ''l1-confirmation-depth'' (IntValue 0) ''L1_CONFIRMATION_DEPTH'' False"

definition L1StartingHeightFlag :: cli_flag where
  "L1StartingHeightFlag = cli_flag_of ''l1-starting-height'' (IntValue 0) ''L1_STARTING_HEIGHT'' False"

definition L2StartingHeightFlag :: cli_flag where
  "L2StartingHeightFlag = cli_flag_of ''l2-starting-height'' (IntValue 0) ''L2_STARTING_HEIGHT'' False"

definition AddressManagerFlag :: cli_flag where
  "AddressManagerFlag = cli_flag_of ''address-manager'' (StringValue []) ''ADDRESS_MANAGER'' True"

definition SystemConfigProxyFlag :: cli_flag where
  "SystemConfigProxyFlag = cli_flag_of ''system-config-proxy-address'' (StringValue []) ''SYSTEM_CONFIG_PROXY_ADDRESS'' True"

definition OptimismPortalProxyFlag :: cli_flag where
  "OptimismPortalProxyFlag = cli_flag_of ''optimism-portal-proxy-address'' (StringValue []) ''OPTIMISM_PORTAL_PROXY_ADDRESS'' True"

definition L2OutputOracleProxyFlag :: cli_flag where
  "L2OutputOracleProxyFlag = cli_flag_of ''l2-output-oracle-proxy-address'' (StringValue []) ''L2_OUTPUT_ORACLE_PROXY_ADDRESS'' True"

definition L1CrossDomainMessengerProxyFlag :: cli_flag where
  "L1CrossDomainMessengerProxyFlag = cli_flag_of ''l1-crossdomain-message-proxy-address'' (StringValue []) ''L1_CROSSDOMAIN_MESSAGE_PROXY_ADDRESS'' True"

definition L1StandardBridgeProxyFlag :: cli_flag where
  "L1StandardBridgeProxyFlag = cli_flag_of ''l2-standard-bridge-proxy-address'' (StringValue []) ''L1_STANDARD_BRIDGE_PROXY_ADDRESS'' True"

definition L1ERC721BridgeProxyFlag :: cli_flag where
  "L1ERC721BridgeProxyFlag = cli_flag_of ''l1-erc721-bridge-proxy-address'' (StringValue []) ''L1_ERC721_BRIDGE_PROXY_ADDRESS'' True"

definition DataLayrServiceManagerAddrFlag :: cli_flag where
  "DataLayrServiceManagerAddrFlag = cli_flag_of ''mantle-da-dlsm-address'' (StringValue []) ''MANTLE_DA_DLSM_ADDRESS'' True"

definition LegacyCanonicalTransactionChainFlag :: cli_flag where
  "LegacyCanonicalTransactionChainFlag = cli_flag_of ''legacy-ctc-address'' (StringValue []) ''LEGACY_CTC_ADDRESS'' True"

definition LegacyStateCommitmentChainFlag :: cli_flag where
  "LegacyStateCommitmentChainFlag = cli_flag_of ''legacy-scc-address'' (StringValue []) ''LEGACY_SCC_ADDRESS'' True"

definition L1BedrockStartingHeightFlag :: cli_flag where
  "L1BedrockStartingHeightFlag = cli_flag_of ''l1-bedrock-starting-height'' (IntValue 0) ''L1_BEDROCK_STARTING_HEIGHT'' False"

definition L2BedrockStartingHeightFlag :: cli_flag where
  "L2BedrockStartingHeightFlag = cli_flag_of ''l2-bedrock-starting-height'' (IntValue 0) ''L2_BEDROCK_STARTING_HEIGHT'' False"

definition L2PollingIntervalFlag :: cli_flag where
  "L2PollingIntervalFlag = cli_flag_of ''l2-polling-interval'' (DurationValue 0) ''L2_POLLING_INTERVAL'' False"

definition L2HeaderBufferSizeFlag :: cli_flag where
  "L2HeaderBufferSizeFlag = cli_flag_of ''l2-header-buffer-size'' (IntValue 500) ''L2_HEADER_BUFFER_SIZE'' False"

definition L2ConfirmationDepthFlag :: cli_flag where
  "L2ConfirmationDepthFlag = cli_flag_of ''l2-confirmation-depth'' (IntValue 0) ''L2_CONFIRMATION_DEPTH'' False"

definition RetrieverSocketFlag :: cli_flag where
  "RetrieverSocketFlag = cli_flag_of ''retriever-socket'' (StringValue []) ''RETRIEVER_SOCKET'' False"

definition RetrieverTimeoutFlag :: cli_flag where
  "RetrieverTimeoutFlag = cli_flag_of ''retriever-timeout'' (DurationValue 0) ''RETRIEVER_TIMEOUT'' False"

definition FraudProofWindowsFlags :: cli_flag where
  "FraudProofWindowsFlags = cli_flag_of ''fraud-proof-windows'' (Uint64Value 1800) ''FRAUD_PROOF_WINDOWS'' False"

definition DataStorePollingDurationFlag :: cli_flag where
  "DataStorePollingDurationFlag = cli_flag_of ''data-store-polling-duration'' (DurationValue 0) ''DATA_STORE_POLLING_DURATION'' False"

definition GraphProviderFlag :: cli_flag where
  "GraphProviderFlag = cli_flag_of ''graph-provider'' (StringValue []) ''GRAPH_PROVIDER'' False"

definition SlaveDbHostFlag :: cli_flag where
  "SlaveDbHostFlag = cli_flag_of ''slave-db-host'' (StringValue []) ''SLAVE_DB_HOST'' False"

definition SlaveDbPortFlag :: cli_flag where
  "SlaveDbPortFlag = cli_flag_of ''slave-db-port'' (IntValue 0) ''SLAVE_DB_PORT'' False"

definition SlaveDbUserFlag :: cli_flag where
  "SlaveDbUserFlag = cli_flag_of ''slave-db-user'' (StringValue []) ''SLAVE_DB_USER'' False"

definition SlaveDbPasswordFlag :: cli_flag where
  "SlaveDbPasswordFlag = cli_flag_of ''slave-db-password'' (StringValue []) ''SLAVE_DB_PASSWORD'' False"

definition SlaveDbNameFlag :: cli_flag where
  "SlaveDbNameFlag = cli_flag_of ''slave-db-name'' (StringValue []) ''SLAVE_DB_NAME'' False"

definition ExporterAddressFlag :: cli_flag where
  "ExporterAddressFlag = cli_flag_of ''exporter-address'' (StringValue '':9100'') ''EXPORTER_ADDRESS'' False"

definition NetworkLabelFlag :: cli_flag where
  "NetworkLabelFlag = cli_flag_of ''network-label'' (StringValue ''mainnet'') ''NETWORK_LABEL'' False"

definition VersionEnableFlag :: cli_flag where
  "VersionEnableFlag = cli_flag_of ''version'' (BoolValue False) ''VERSION_ENABLE'' False"

definition UnhealthyTimePeriodFlag :: cli_flag where
  "UnhealthyTimePeriodFlag = cli_flag_of ''unhealthy-time-period'' (DurationValue UnhealthyTimePeriodFlag_Value) ''UNHEALTHY_TIME_PERIOD'' False"

definition SequencerPollingSecondsFlag :: cli_flag where
  "SequencerPollingSecondsFlag = cli_flag_of ''sequencer-polling-seconds'' (DurationValue SequencerPollingSecondsFlag_Value) ''SEQUENCER_POLLING_SECONDS'' False"

definition EnableK8sQueryFlag :: cli_flag where
  "EnableK8sQueryFlag = cli_flag_of ''k8s-enable'' (BoolValue False) ''K8S_ENABLE_QUERY'' False"

definition EnableRollUpGasPricesFlag :: cli_flag where
  "EnableRollUpGasPricesFlag = cli_flag_of ''rollup-gas-prices-enable'' (BoolValue False) ''ROLLUP_GAS_PRICES_ENABLE'' False"

definition EnableGasBaseFeeFlag :: cli_flag where
  "EnableGasBaseFeeFlag = cli_flag_of ''gas-base-fee-enable'' (BoolValue False) ''GAS_BASE_FEE_ENABLE'' False"

definition EnableApiCacheFlag :: cli_flag where
  "EnableApiCacheFlag = cli_flag_of ''api-cache-enable'' (BoolValue False) ''API_CACHE_ENABLE'' False"

definition ApiCacheListSize :: cli_flag where
  "ApiCacheListSize = cli_flag_of ''api-cache-list-size'' (IntValue 1200000) ''API_CACHE_LIST_SIZE'' False"

definition ApiCacheDetailSize :: cli_flag where
  "ApiCacheDetailSize = cli_flag_of ''api-cache-detail-size'' (IntValue 120000) ''API_CACHE_DETAIL_SIZE'' False"

definition ApiCacheListExpireTime :: cli_flag where
  "ApiCacheListExpireTime = cli_flag_of ''api-cache-list-expire-time'' (DurationValue (2 * Second)) ''API_CACHE_LIST_EXPIRE_TIME'' False"

definition ApiCacheDetailExpireTime :: cli_flag where
  "ApiCacheDetailExpireTime = cli_flag_of ''api-cache-detail-expire-time'' (DurationValue (60 * Second)) ''API_CACHE_DETAIL_EXPIRE_TIME'' False"

definition L1AccountCheckingAddressFlag :: cli_flag where
  "L1AccountCheckingAddressFlag = cli_flag_of ''l1-account-checking-address'' (StringValue []) ''L1_ACCOUNT_CHECKING_ADDRESS'' False"

definition L2AccountCheckingAddressFlag :: cli_flag where
  "L2AccountCheckingAddressFlag = cli_flag_of ''l2-account-checking-address'' (StringValue []) ''L2_ACCOUNT_CHECKING_ADDRESS'' False"

definition EnableWithdrawCalcFlag :: cli_flag where
  "EnableWithdrawCalcFlag = cli_flag_of ''withdraw-calc-enable'' (BoolValue False) ''WITHDRAW_CALC_ENABLE'' False"

definition ChainIdFlag :: cli_flag where
  "ChainIdFlag = cli_flag_of ''chain-id'' (IntValue 5003) ''CHAIN_ID'' False"

definition TransferBigValueAddressInEthereumFlag :: cli_flag where
  "TransferBigValueAddressInEthereumFlag = cli_flag_of ''transfer-big-value-address-in-ethereum'' (StringValue []) ''TRANSFER_BIG_VALUE_ADDRESS_IN_ETHEREUM'' False"

definition TransferBigValueAddressInMantleFlag :: cli_flag where
  "TransferBigValueAddressInMantleFlag = cli_flag_of ''transfer-big-value-address-in-mantle'' (StringValue []) ''TRANSFER_BIG_VALUE_ADDRESS_IN_MANTLE'' False"

definition TransferBigValueInEthereumFlag :: cli_flag where
  "TransferBigValueInEthereumFlag = cli_flag_of ''transfer-big-value-in-ethereum'' (StringValue []) ''TRANSFER_BIG_VALUE_IN_ETHEREUM'' False"

definition TransferBigValueInMantleFlag :: cli_flag where
  "TransferBigValueInMantleFlag = cli_flag_of ''transfer-big-value-in-mantle'' (StringValue []) ''TRANSFER_BIG_VALUE_IN_MANTLE'' False"

definition WithdrawBigValueAddressFlag :: cli_flag where
  "WithdrawBigValueAddressFlag = cli_flag_of ''withdraw-big-value-address'' (StringValue []) ''WITHDRAW_BIG_VALUE_ADDRESS'' False"

definition TokenListUrlFlag :: cli_flag where
  "TokenListUrlFlag = cli_flag_of ''token-list-url'' (StringValue []) ''TOKEN_LIST_URL'' False"

definition requiredFlags :: "cli_flag list" where
  "requiredFlags =
     [MigrationsFlag, L1EthRpcFlag, L2EthRpcFlag, HttpPortFlag, HttpHostFlag, MetricsPortFlag,
     MetricsHostFlag, SlaveDbEnableFlag, MasterDbHostFlag, MasterDbPortFlag, MasterDbUserFlag,
     MasterDbPasswordFlag, MasterDbNameFlag, StartDataStoreIdFlag]"

definition optionalFlags :: "cli_flag list" where
  "optionalFlags =
     [L1PollingIntervalFlag, L1HeaderBufferSizeFlag, L1ConfirmationDepthFlag, L1StartingHeightFlag,
     L2StartingHeightFlag, L1BedrockStartingHeightFlag, L2BedrockStartingHeightFlag, FraudProofWindowsFlags,
     AddressManagerFlag, SystemConfigProxyFlag, OptimismPortalProxyFlag, L2OutputOracleProxyFlag,
     L1CrossDomainMessengerProxyFlag, L1StandardBridgeProxyFlag, L1ERC721BridgeProxyFlag,
     DataLayrServiceManagerAddrFlag, LegacyCanonicalTransactionChainFlag, LegacyStateCommitmentChainFlag,
     L2PollingIntervalFlag, L2ConfirmationDepthFlag, L2HeaderBufferSizeFlag, RetrieverTimeoutFlag,
     RetrieverSocketFlag, GraphProviderFlag, DataStorePollingDurationFlag, SlaveDbHostFlag, SlaveDbPortFlag,
     SlaveDbUserFlag, SlaveDbPasswordFlag, SlaveDbNameFlag, ExporterAddressFlag, NetworkLabelFlag,
     VersionEnableFlag, UnhealthyTimePeriodFlag, SequencerPollingSecondsFlag, EnableK8sQueryFlag,
     EnableRollUpGasPricesFlag, EnableGasBaseFeeFlag, EnableApiCacheFlag, ApiCacheListSize,
     ApiCacheDetailSize, ApiCacheListExpireTime, ApiCacheDetailExpireTime, L1AccountCheckingAddressFlag,
     L2AccountCheckingAddressFlag, EnableWithdrawCalcFlag, ChainIdFlag, TransferBigValueAddressInEthereumFlag,
     TransferBigValueAddressInMantleFlag, TransferBigValueInEthereumFlag, TransferBigValueInMantleFlag,
     WithdrawBigValueAddressFlag, TokenListUrlFlag]"

definition Flags :: "cli_flag list" where
  "Flags = requiredFlags @ optionalFlags"

section \<open>The configuration\<close>

text \<open>What the commands ask of their context.\<close>

record cli_context =
  ctx_String :: "string \<Rightarrow> string"
  ctx_Int :: "string \<Rightarrow> int"
  ctx_Uint :: "string \<Rightarrow> u64"
  ctx_Uint64 :: "string \<Rightarrow> u64"
  ctx_Bool :: "string \<Rightarrow> bool"
  ctx_Duration :: "string \<Rightarrow> int"

record RPCsConfig =
  L1RPC :: string
  L2RPC :: string

record DBConfig =
  dc_Host :: string
  dc_Port :: int
  dc_Name :: string
  dc_User :: string
  dc_Password :: string

record CacheConfig =
  ListSize :: int
  DetailSize :: int
  ListExpireTime :: int
  DetailExpireTime :: int

record ServerConfig =
  sv_Host :: string
  sv_Port :: int

record DAConfig =
  RetrieverSocket :: string
  RetrieverTimeout :: int
  GraphProvider :: string
  DataStorePollingDuration :: int

record ExporterConfig =
  xc_ExportAddress :: string
  xc_RpcProvider :: string
  xc_NetworkLabel :: string
  xc_Version :: bool
  xc_UnhealthyTimePeriod :: int
  xc_SequencerPollingSeconds :: int
  xc_EnableK8sQuery :: bool
  xc_EnableRollUpGasPrices :: bool
  xc_EnableGasBaseFee :: bool
  xc_TransferBigValueAddressInEthereum :: string
  xc_TransferBigValueInEthereum :: string
  xc_TransferBigValueAddressInMantle :: string
  xc_TransferBigValueInMantle :: string
  xc_WithdrawBigValueAddress :: string

record CheckingConfig =
  L1AccountCheckingAddress :: string
  L2AccountCheckingAddress :: string

text \<open>config.Config; the name Config is that of the synchronizer's configuration.\<close>

record AppConfig =
  cf_Migrations :: string
  cf_Chain :: ChainConfig
  cf_RPCs :: RPCsConfig
  cf_DA :: DAConfig
  cf_MasterDB :: DBConfig
  cf_SlaveDB :: DBConfig
  cf_SlaveDbEnable :: bool
  cf_ApiCacheEnable :: bool
  cf_CacheConfig :: CacheConfig
  cf_HTTPServer :: ServerConfig
  cf_MetricsServer :: ServerConfig
  cf_ExporterConfig :: ExporterConfig
  cf_StartDataStoreId :: "32 word"
  cf_FraudProofWindows :: u64
  cf_WithdrawCalcEnable :: bool
  cf_CheckingAddress :: CheckingConfig
  cf_TokenListUrl :: string

definition flag_address :: "cli_context \<Rightarrow> cli_flag \<Rightarrow> address" where
  "flag_address ctx f = HexToAddress (ctx_String ctx (fl_Name f))"

definition l1_contracts_of :: "cli_context \<Rightarrow> L1Contracts" where
  "l1_contracts_of ctx =
     \<lparr>AddressManager = flag_address ctx AddressManagerFlag, SystemConfigProxy = flag_address ctx SystemConfigProxyFlag,
      OptimismPortalProxy = flag_address ctx OptimismPortalProxyFlag, L2OutputOracleProxy = flag_address ctx L2OutputOracleProxyFlag,
      L1CrossDomainMessengerProxy = flag_address ctx L1CrossDomainMessengerProxyFlag,
      L1StandardBridgeProxy = flag_address ctx L1StandardBridgeProxyFlag, L1ERC721BridgeProxy = flag_address ctx L1ERC721BridgeProxyFlag,
      DataLayrServiceManagerAddr = flag_address ctx DataLayrServiceManagerAddrFlag,
      LegacyCanonicalTransactionChain = flag_address ctx LegacyCanonicalTransactionChainFlag,
      LegacyStateCommitmentChain = flag_address ctx LegacyStateCommitmentChainFlag\<rparr>"

text \<open>The contracts of layer 2 are left zero until LoadConfig sets them.\<close>

definition chain_config_of :: "cli_context \<Rightarrow> ChainConfig" where
  "chain_config_of ctx = (let u = (\<lambda>f. ctx_Uint ctx (fl_Name f)) in
     \<lparr>ChainID = u ChainIdFlag, L1StartingHeight = u L1StartingHeightFlag, L2StartingHeight = u L2StartingHeightFlag,
      L1BedrockStartingHeight = u L1BedrockStartingHeightFlag, L2BedrockStartingHeight = u L2BedrockStartingHeightFlag,
      cc_L1Contracts = l1_contracts_of ctx,
      cc_L2Contracts = \<lparr>L2ToL1MessagePasser = 0, L2CrossDomainMessenger = 0, L2StandardBridge = 0, L2ERC721Bridge = 0\<rparr>,
      L1ConfirmationDepth = u L1ConfirmationDepthFlag, L2ConfirmationDepth = u L2ConfirmationDepthFlag,
      L1PollingInterval = u L1PollingIntervalFlag, L2PollingInterval = u L2PollingIntervalFlag,
      L1HeaderBufferSize = u L1HeaderBufferSizeFlag, L2HeaderBufferSize = u L2HeaderBufferSizeFlag\<rparr>)"

definition db_config_of :: "cli_context \<Rightarrow> cli_flag \<Rightarrow> cli_flag \<Rightarrow> cli_flag \<Rightarrow> cli_flag \<Rightarrow> cli_flag \<Rightarrow> DBConfig" where
  "db_config_of ctx host port name user password =
     \<lparr>dc_Host = ctx_String ctx (fl_Name host), dc_Port = ctx_Int ctx (fl_Name port), dc_Name = ctx_String ctx (fl_Name name),
      dc_User = ctx_String ctx (fl_Name user), dc_Password = ctx_String ctx (fl_Name password)\<rparr>"

definition exporter_config_of :: "cli_context \<Rightarrow> ExporterConfig" where
  "exporter_config_of ctx = (let s = (\<lambda>f. ctx_String ctx (fl_Name f)); b = (\<lambda>f. ctx_Bool ctx (fl_Name f)) in
     \<lparr>xc_ExportAddress = s ExporterAddressFlag, xc_RpcProvider = s L2EthRpcFlag, xc_NetworkLabel = s NetworkLabelFlag,
      xc_Version = b VersionEnableFlag, xc_UnhealthyTimePeriod = ctx_Duration ctx (fl_Name UnhealthyTimePeriodFlag),
      xc_SequencerPollingSeconds = ctx_Duration ctx (fl_Name SequencerPollingSecondsFlag),
      xc_EnableK8sQuery = b EnableK8sQueryFlag, xc_EnableRollUpGasPrices = b EnableRollUpGasPricesFlag,
      xc_EnableGasBaseFee = b EnableGasBaseFeeFlag,
      xc_TransferBigValueAddressInEthereum = s TransferBigValueAddressInEthereumFlag,
      xc_TransferBigValueInEthereum = s TransferBigValueInEthereumFlag,
      xc_TransferBigValueAddressInMantle = s TransferBigValueAddressInMantleFlag,
      xc_TransferBigValueInMantle = s TransferBigValueInMantleFlag, xc_WithdrawBigValueAddress = s WithdrawBigValueAddressFlag\<rparr>)"

definition NewConfig :: "cli_context \<Rightarrow> AppConfig" where
  "NewConfig ctx = (let s = (\<lambda>f. ctx_String ctx (fl_Name f)); n = (\<lambda>f. ctx_Int ctx (fl_Name f));
                        b = (\<lambda>f. ctx_Bool ctx (fl_Name f)); d = (\<lambda>f. ctx_Duration ctx (fl_Name f)) in
     \<lparr>cf_Migrations = s MigrationsFlag, cf_Chain = chain_config_of ctx,
      cf_RPCs = \<lparr>L1RPC = s L1EthRpcFlag, L2RPC = s L2EthRpcFlag\<rparr>,
      cf_DA = \<lparr>RetrieverSocket = s RetrieverSocketFlag, RetrieverTimeout = d RetrieverTimeoutFlag,
        GraphProvider = s GraphProviderFlag, DataStorePollingDuration = d DataStorePollingDurationFlag\<rparr>,
      cf_MasterDB = db_config_of ctx MasterDbHostFlag MasterDbPortFlag MasterDbNameFlag MasterDbUserFlag MasterDbPasswordFlag,
      cf_SlaveDB = db_config_of ctx SlaveDbHostFlag SlaveDbPortFlag SlaveDbNameFlag SlaveDbUserFlag SlaveDbPasswordFlag,
      cf_SlaveDbEnable = b SlaveDbEnableFlag, cf_ApiCacheEnable = b EnableApiCacheFlag,
      cf_CacheConfig = \<lparr>ListSize = n ApiCacheListSize, DetailSize = n ApiCacheDetailSize,
        ListExpireTime = d ApiCacheListExpireTime, DetailExpireTime = d ApiCacheDetailExpireTime\<rparr>,
      cf_HTTPServer = \<lparr>sv_Host = s HttpHostFlag, sv_Port = n HttpPortFlag\<rparr>,
      cf_MetricsServer = \<lparr>sv_Host = s MetricsHostFlag, sv_Port = n MetricsPortFlag\<rparr>,
      cf_ExporterConfig = exporter_config_of ctx,
      cf_StartDataStoreId = ucast (ctx_Uint64 ctx (fl_Name StartDataStoreIdFlag)),
      cf_FraudProofWindows = ctx_Uint64 ctx (fl_Name FraudProofWindowsFlags), cf_WithdrawCalcEnable = b EnableWithdrawCalcFlag,
      cf_CheckingAddress = \<lparr>L1AccountCheckingAddress = s L1AccountCheckingAddressFlag,
        L2AccountCheckingAddress = s L2AccountCheckingAddressFlag\<rparr>,
      cf_TokenListUrl = s TokenListUrlFlag\<rparr>)"

definition L2ERC721BridgeAddr :: address where
  "L2ERC721BridgeAddr = HexToAddress ''0x4200000000000000000000000000000000000014''"

definition L2ContractsFromPredeploys :: L2Contracts where
  "L2ContractsFromPredeploys = \<lparr>L2ToL1MessagePasser = L2ToL1MessagePasserAddr, L2CrossDomainMessenger = L2CrossDomainMessengerAddr,
     L2StandardBridge = L2StandardBridgeAddr, L2ERC721Bridge = L2ERC721BridgeAddr\<rparr>"

text \<open>LoadConfig on the whole configuration; its error is always nil.\<close>

definition LoadAppConfig :: "cli_context \<Rightarrow> AppConfig" where
  "LoadAppConfig ctx = (let cfg = NewConfig ctx in cfg\<lparr>cf_Chain := LoadConfig L2ContractsFromPredeploys (cf_Chain cfg)\<rparr>)"


section \<open>How the library reads a value\<close>

text \<open>time.Duration.String: the digits after the point without their trailing zeros, then the unit.\<close>

definition frac_text :: "nat \<Rightarrow> nat \<Rightarrow> string" where
  "frac_text prec n = (let text = decimal (n mod 10 ^ prec);
       padded = replicate (prec - length text) CHR ''0'' @ text;
       kept = rev (dropWhile (\<lambda>c. c = CHR ''0'') (rev padded)) in
     if prec = 0 \<or> kept = [] then [] else CHR ''.'' # kept)"

definition seconds_text :: "nat \<Rightarrow> string" where
  "seconds_text n = (let t = n div 10 ^ 9 in
     (if t \<ge> 3600 then decimal (t div 3600) @ ''h'' else [])
     @ (if t \<ge> 60 then decimal (t div 60 mod 60) @ ''m'' else [])
     @ decimal (t mod 60) @ frac_text 9 n)"

definition Duration_String :: "int \<Rightarrow> string" where
  "Duration_String d = (let n = nat \<bar>d\<bar> in (if d < 0 then ''-'' else [])
     @ (if n = 0 then ''0''
        else if n < 10 ^ 3 then decimal n @ ''n''
        else if n < 10 ^ 6 then decimal (n div 10 ^ 3) @ frac_text 3 n @ [CHR 0xC2, CHR 0xB5]
        else if n < 10 ^ 9 then decimal (n div 10 ^ 6) @ frac_text 6 n @ ''m''
        else seconds_text n) @ ''s'')"

fun value_String :: "flag_value \<Rightarrow> string" where
  "value_String (StringValue s) = s"
| "value_String (IntValue i) = int_String i"
| "value_String (Uint64Value u) = decimal (unat u)"
| "value_String (BoolValue b) = (if b then ''true'' else ''false'')"
| "value_String (DurationValue d) = Duration_String d"

text \<open>strconv.ParseUint with base 0, on a text without underscores: the prefix decides the base.\<close>

fun read_base :: "nat \<Rightarrow> nat \<Rightarrow> string \<Rightarrow> nat option" where
  "read_base b acc [] = Some acc"
| "read_base b acc (c # cs) = (case hex_value c of
     None \<Rightarrow> None | Some d \<Rightarrow> if d < b then read_base b (acc * b + d) cs else None)"

definition ParseUint_any :: "string \<Rightarrow> nat option" where
  "ParseUint_any s =
     (case s of
        [] \<Rightarrow> None
      | c # cs \<Rightarrow>
          if c \<noteq> CHR ''0'' then read_base 10 0 s
          else (case cs of
              x # y # ys \<Rightarrow>
                if x = CHR ''b'' \<or> x = CHR ''B'' then read_base 2 0 (y # ys)
                else if x = CHR ''o'' \<or> x = CHR ''O'' then read_base 8 0 (y # ys)
                else if x = CHR ''x'' \<or> x = CHR ''X'' then read_base 16 0 (y # ys)
                else read_base 8 0 cs
            | _ \<Rightarrow> read_base 8 0 cs))"

definition uint_of_text :: "string \<Rightarrow> u64" where
  "uint_of_text s = (case ParseUint_any s of Some n \<Rightarrow> if n < 2 ^ 64 then of_nat n else 0 | None \<Rightarrow> 0)"

text \<open>A command's context: every flag has a value of its type, given or default; Uint parses the text of the value, and is
  zero when it is no number.  The other accessors are used on flags of their own type.\<close>

fun same_type :: "flag_value \<Rightarrow> flag_value \<Rightarrow> bool" where
  "same_type (StringValue s) (StringValue t) = True"
| "same_type (IntValue i) (IntValue j) = (- (2 ^ 63) \<le> j \<and> j < 2 ^ 63)"
| "same_type (Uint64Value u) (Uint64Value w) = True"
| "same_type (BoolValue b) (BoolValue c) = True"
| "same_type (DurationValue d) (DurationValue e) = True"
| "same_type v w = False"

definition context_ok :: "cli_context \<Rightarrow> (string \<Rightarrow> flag_value) \<Rightarrow> bool" where
  "context_ok ctx values =
     ((\<forall>f \<in> set Flags. same_type (fl_Value f) (values (fl_Name f)))
      \<and> (\<forall>n. ctx_Uint ctx n = uint_of_text (value_String (values n)))
      \<and> (\<forall>n s. values n = StringValue s \<longrightarrow> ctx_String ctx n = s)
      \<and> (\<forall>n i. values n = IntValue i \<longrightarrow> ctx_Int ctx n = i)
      \<and> (\<forall>n u. values n = Uint64Value u \<longrightarrow> ctx_Uint64 ctx n = u)
      \<and> (\<forall>n b. values n = BoolValue b \<longrightarrow> ctx_Bool ctx n = b)
      \<and> (\<forall>n d. values n = DurationValue d \<longrightarrow> ctx_Duration ctx n = d))"

fun_cases same_type_StringE: "same_type (StringValue s) v"
  and same_type_IntE: "same_type (IntValue i) v"
  and same_type_DurationE: "same_type (DurationValue d) v"

section \<open>Numbers and durations as texts\<close>

lemma hex_value_s: "hex_value CHR ''s'' = None"
  by code_simp

lemma read_base_suffix: "read_base b acc (t @ ''s'') = None"
proof (induction t arbitrary: acc)
  case Nil
  show ?case by (simp add: hex_value_s)
qed (auto split: option.splits)

text \<open>A duration is never a number: its text ends with the letter s.\<close>

lemma ParseUint_any_suffix: "ParseUint_any (t @ ''s'') = None"
proof (cases t)
  case Nil
  then show ?thesis by (simp add: ParseUint_any_def hex_value_s)
next
  case (Cons c cs)
  show ?thesis
  proof (cases cs)
    case Nil
    then show ?thesis using Cons read_base_suffix[of _ _ "[c]"] by (auto simp: ParseUint_any_def hex_value_s)
  next
    case (Cons x xs)
    then obtain y ys where t: "xs @ ''s'' = y # ys" by (cases xs) auto
    note none = read_base_suffix[of _ _ xs, unfolded t] read_base_suffix[of _ _ "x # xs"] read_base_suffix[of _ _ "c # x # xs"]
    show ?thesis
      using none \<open>t = c # cs\<close> Cons t by (simp add: ParseUint_any_def)
  qed
qed

lemma uint_of_Duration: "uint_of_text (Duration_String d) = 0"
  unfolding uint_of_text_def Duration_String_def Let_def append_assoc[symmetric] ParseUint_any_suffix by simp

text \<open>An integer is read back, unless it is negative.\<close>

lemma hex_value_decimal: "d < 10 \<Longrightarrow> hex_value (digits ! d) = Some d"
proof -
  have "\<forall>d \<in> set [0..<10]. hex_value (digits ! d) = Some d" by code_simp
  then show "d < 10 \<Longrightarrow> hex_value (digits ! d) = Some d" by simp
qed

lemma read_base_append:
  "read_base b acc (s @ t) = (case read_base b acc s of None \<Rightarrow> None | Some n \<Rightarrow> read_base b n t)"
  by (induction s arbitrary: acc) (auto split: option.splits)

lemma read_base_decimal: "read_base 10 0 (decimal n) = Some n"
proof (induction n rule: decimal.induct)
  case (1 n)
  show ?case
    by (subst decimal.simps) (use 1 in \<open>auto simp: read_base_append hex_value_decimal\<close>)
qed

lemma decimal_no_leading_zero: "0 < n \<Longrightarrow> hd (decimal n) \<noteq> CHR ''0''"
proof (induction n rule: decimal.induct)
  case (1 n)
  show ?case
  proof (cases "n < 10")
    case True
    then have "n \<in> {1, 2, 3, 4, 5, 6, 7, 8, 9}" using 1 by auto
    then show ?thesis by (subst decimal.simps) (auto simp: digits_def)
  next
    case False
    then show ?thesis using 1 by (subst decimal.simps) (simp add: hd_append)
  qed
qed

lemma ParseUint_any_decimal: "ParseUint_any (decimal n) = Some n"
proof (cases "n = 0")
  case True
  have "decimal 0 = ''0''" by code_simp
  then show ?thesis using True by (simp add: ParseUint_any_def hex_value_def hex_digits_def)
next
  case False
  then obtain c cs where d: "decimal n = c # cs" "c \<noteq> CHR ''0''"
    using decimal_no_leading_zero[of n] by (cases "decimal n") auto
  then show ?thesis using read_base_decimal[of n] by (simp add: ParseUint_any_def)
qed

lemma uint_of_int_String:
  assumes "i < 2 ^ 63"
  shows "uint_of_text (int_String i) = of_int (max 0 i)"
proof (cases "i < 0")
  case True
  have "hex_value CHR ''-'' = None" by code_simp
  then have "ParseUint_any (int_String i) = None" using True by (simp add: int_String_def ParseUint_any_def)
  then show ?thesis using True by (simp add: uint_of_text_def)
next
  case False
  then have "ParseUint_any (int_String i) = Some (nat i)" by (simp add: int_String_def ParseUint_any_decimal)
  moreover have "nat i < 2 ^ 64" using assms by (simp add: nat_less_iff)
  ultimately show ?thesis using False by (simp add: uint_of_text_def)
qed


section \<open>What the configuration holds\<close>

text \<open>No two flags have the same name.\<close>

lemma flag_names_distinct: "distinct (map fl_Name Flags)"
  by code_simp

fun given_int :: "flag_value \<Rightarrow> int" where
  "given_int (IntValue i) = i"
| "given_int v = 0"

fun given_text :: "flag_value \<Rightarrow> string" where
  "given_text (StringValue s) = s"
| "given_text v = []"

lemma context_kind:
  "context_ok ctx values \<Longrightarrow> f \<in> set Flags \<Longrightarrow> same_type (fl_Value f) (values (fl_Name f))"
  by (simp add: context_ok_def)

lemma context_Uint_of_Int:
  assumes "context_ok ctx values" "f \<in> set Flags" "fl_Value f = IntValue i"
  shows "ctx_Uint ctx (fl_Name f) = of_int (max 0 (given_int (values (fl_Name f))))"
proof -
  obtain j where "values (fl_Name f) = IntValue j" "j < 2 ^ 63"
    using context_kind[OF assms(1,2), unfolded assms(3)] by (auto elim: same_type_IntE)
  then show ?thesis using assms(1) uint_of_int_String[of j] by (simp add: context_ok_def)
qed

lemma context_Uint_of_Duration:
  assumes "context_ok ctx values" "f \<in> set Flags" "fl_Value f = DurationValue d"
  shows "ctx_Uint ctx (fl_Name f) = 0"
proof -
  obtain e where "values (fl_Name f) = DurationValue e"
    using context_kind[OF assms(1,2), unfolded assms(3)] by (auto elim: same_type_DurationE)
  then show ?thesis using assms(1) uint_of_Duration[of e] by (simp add: context_ok_def)
qed

lemma context_String:
  assumes "context_ok ctx values" "f \<in> set Flags" "fl_Value f = StringValue s"
  shows "ctx_String ctx (fl_Name f) = given_text (values (fl_Name f))"
proof -
  obtain t where "values (fl_Name f) = StringValue t"
    using context_kind[OF assms(1,2), unfolded assms(3)] by (auto elim: same_type_StringE)
  then show ?thesis using assms(1) by (simp add: context_ok_def)
qed

lemmas flag_lists = Flags_def requiredFlags_def optionalFlags_def

text \<open>C18: what the loaded configuration says of the chains.  Heights, depths and the identifier are those of their
  flags, with a negative number read as zero, and a buffer size of zero or less is five hundred; but whatever
  the flags for the polling intervals say, both intervals are the default of five seconds, since those flags hold
  durations and are read as numbers.\<close>

theorem loaded_chain_config:
  assumes "context_ok ctx values"
  shows "let c = cf_Chain (LoadAppConfig ctx); n = (\<lambda>f. of_int (max 0 (given_int (values (fl_Name f)))) :: u64) in
    L1PollingInterval c = 5000 \<and> L2PollingInterval c = 5000
    \<and> ChainID c = n ChainIdFlag \<and> L1StartingHeight c = n L1StartingHeightFlag \<and> L2StartingHeight c = n L2StartingHeightFlag
    \<and> L1BedrockStartingHeight c = n L1BedrockStartingHeightFlag \<and> L2BedrockStartingHeight c = n L2BedrockStartingHeightFlag
    \<and> L1ConfirmationDepth c = n L1ConfirmationDepthFlag \<and> L2ConfirmationDepth c = n L2ConfirmationDepthFlag
    \<and> L1HeaderBufferSize c = (if n L1HeaderBufferSizeFlag = 0 then 500 else n L1HeaderBufferSizeFlag)
    \<and> L2HeaderBufferSize c = (if n L2HeaderBufferSizeFlag = 0 then 500 else n L2HeaderBufferSizeFlag)
    \<and> OptimismPortalProxy (cc_L1Contracts c) = HexToAddress (given_text (values (fl_Name OptimismPortalProxyFlag)))
    \<and> cc_L2Contracts c = L2ContractsFromPredeploys"
proof -
  note int = context_Uint_of_Int[OF assms]
  have ints: "ctx_Uint ctx (fl_Name f) = of_int (max 0 (given_int (values (fl_Name f))))"
    if "f \<in> {ChainIdFlag, L1StartingHeightFlag, L2StartingHeightFlag, L1BedrockStartingHeightFlag, L2BedrockStartingHeightFlag,
      L1ConfirmationDepthFlag, L2ConfirmationDepthFlag, L1HeaderBufferSizeFlag, L2HeaderBufferSizeFlag}" for f
  proof (rule int)
    show "f \<in> set Flags" using that by (auto simp: flag_lists)
    show "fl_Value f = IntValue (given_int (fl_Value f))"
      using that by (auto simp: ChainIdFlag_def L1StartingHeightFlag_def L2StartingHeightFlag_def L1BedrockStartingHeightFlag_def
        L2BedrockStartingHeightFlag_def L1ConfirmationDepthFlag_def L2ConfirmationDepthFlag_def L1HeaderBufferSizeFlag_def
        L2HeaderBufferSizeFlag_def cli_flag_of_def)
  qed
  have polling: "ctx_Uint ctx (fl_Name L1PollingIntervalFlag) = 0" "ctx_Uint ctx (fl_Name L2PollingIntervalFlag) = 0"
    by (rule context_Uint_of_Duration[OF assms, where d = 0];
        simp add: flag_lists L1PollingIntervalFlag_def L2PollingIntervalFlag_def cli_flag_of_def)+
  have portal: "ctx_String ctx (fl_Name OptimismPortalProxyFlag) = given_text (values (fl_Name OptimismPortalProxyFlag))"
    by (rule context_String[OF assms, where s = "[]"]) (simp_all add: flag_lists OptimismPortalProxyFlag_def cli_flag_of_def)
  show ?thesis
    by (simp add: LoadAppConfig_def NewConfig_def chain_config_of_def LoadConfig_def Let_def ints polling portal
        l1_contracts_of_def flag_address_def defaultLoopInterval_def defaultHeaderBufferSize_def)
qed

text \<open>A context with the default of every flag, except for the two polling intervals, set to two seconds, and the
  starting height.\<close>

definition sample_values :: "string \<Rightarrow> flag_value" where
  "sample_values n =
     (if n = fl_Name L1PollingIntervalFlag \<or> n = fl_Name L2PollingIntervalFlag then DurationValue (2 * Second)
      else if n = fl_Name L1StartingHeightFlag then IntValue 17
      else case map_of (map (\<lambda>f. (fl_Name f, fl_Value f)) Flags) n of Some v \<Rightarrow> v | None \<Rightarrow> StringValue [])"

definition context_of :: "(string \<Rightarrow> flag_value) \<Rightarrow> cli_context" where
  "context_of values = \<lparr>ctx_String = (\<lambda>n. given_text (values n)), ctx_Int = (\<lambda>n. given_int (values n)),
     ctx_Uint = (\<lambda>n. uint_of_text (value_String (values n))),
     ctx_Uint64 = (\<lambda>n. case values n of Uint64Value u \<Rightarrow> u | _ \<Rightarrow> 0),
     ctx_Bool = (\<lambda>n. case values n of BoolValue b \<Rightarrow> b | _ \<Rightarrow> False),
     ctx_Duration = (\<lambda>n. case values n of DurationValue d \<Rightarrow> d | _ \<Rightarrow> 0)\<rparr>"

definition sample_context :: cli_context where
  "sample_context = context_of sample_values"

lemma default_types: "\<forall>f \<in> set Flags. same_type (fl_Value f) (fl_Value f)"
  by code_simp

lemma default_value:
  assumes "f \<in> set Flags"
  shows "map_of (map (\<lambda>f. (fl_Name f, fl_Value f)) Flags) (fl_Name f) = Some (fl_Value f)"
proof -
  have "distinct (map fst (map (\<lambda>f. (fl_Name f, fl_Value f)) Flags))"
    using flag_names_distinct by (simp only: map_map o_def fst_conv)
  then show ?thesis using assms by (intro map_of_is_SomeI) auto
qed

lemma flag_of_name: "f \<in> set Flags \<Longrightarrow> g \<in> set Flags \<Longrightarrow> fl_Name f = fl_Name g \<Longrightarrow> f = g"
  using flag_names_distinct by (metis distinct_map inj_onD)

lemma changed_flags: "{L1PollingIntervalFlag, L2PollingIntervalFlag, L1StartingHeightFlag} \<subseteq> set Flags"
  by (simp add: flag_lists)

lemma sample_types: "\<forall>f \<in> set Flags. same_type (fl_Value f) (sample_values (fl_Name f))"
proof
  fix f assume f: "f \<in> set Flags"
  note same = flag_of_name[OF f]
  note changed = changed_flags[unfolded insert_subset]
  show "same_type (fl_Value f) (sample_values (fl_Name f))"
  proof (cases "fl_Name f = fl_Name L1PollingIntervalFlag \<or> fl_Name f = fl_Name L2PollingIntervalFlag")
    case True
    then have "f = L1PollingIntervalFlag \<or> f = L2PollingIntervalFlag" using same changed by blast
    then have "fl_Value f = DurationValue 0" by (auto simp: L1PollingIntervalFlag_def L2PollingIntervalFlag_def cli_flag_of_def)
    then show ?thesis using True by (simp add: sample_values_def)
  next
    case polling: False
    show ?thesis
    proof (cases "fl_Name f = fl_Name L1StartingHeightFlag")
      case True
      then have "f = L1StartingHeightFlag" using same changed by blast
      then have "fl_Value f = IntValue 0" by (simp add: L1StartingHeightFlag_def cli_flag_of_def)
      then show ?thesis using True polling by (simp add: sample_values_def)
    next
      case False
      then show ?thesis using polling default_value[OF f] bspec[OF default_types f] by (simp add: sample_values_def)
    qed
  qed
qed

lemma sample_context_ok: "context_ok sample_context sample_values"
  using sample_types by (simp add: context_ok_def sample_context_def context_of_def)

theorem loaded_chain_config_witness:
  "L1PollingInterval (cf_Chain (LoadAppConfig sample_context)) = 5000
    \<and> ctx_Duration sample_context (fl_Name L1PollingIntervalFlag) = 2 * Second
    \<and> L1StartingHeight (cf_Chain (LoadAppConfig sample_context)) = 17"
proof -
  have "fl_Name L1StartingHeightFlag \<noteq> fl_Name L1PollingIntervalFlag \<and> fl_Name L1StartingHeightFlag \<noteq> fl_Name L2PollingIntervalFlag"
    by code_simp
  then show ?thesis
    using loaded_chain_config[OF sample_context_ok] by (simp add: Let_def sample_values_def sample_context_def context_of_def)
qed

end
