(* ===== verification/Exporter.thy ===== *)
theory Exporter
  imports Amounts Configuration "HOL-Library.AList"
begin


text \<open>
  exporter/exporter.go: the loops that publish the program's metrics and the health of the sequencer.  Each
  loop is its round: what one turn reads, which operations on the metrics it performs (collector.go) and
  how it ends.  The metrics themselves are kept by a library; its float64 values are whole numbers here,
  rounded as \<open>float64\<close> does.  The node, the cluster and the database answer with their parameters.
\<close>

section \<open>Metrics\<close>

datatype metric_op =
    GaugeSet string "string list" int
  | CounterAdd string "string list" int

definition Minute :: int where "Minute = 60 * Second"

text \<open>time.Duration(d) * unit.\<close>

definition times_unit :: "int \<Rightarrow> int \<Rightarrow> int" where
  "times_unit d unit_ns = wrap64 (d * unit_ns)"

section \<open>Quantities of the JSON-RPC interface\<close>

text \<open>strconv.ParseUint with base 16 and 64 bits: the value and the error.  A character that is no digit ends it with zero, a
  digit that does not fit any more with the largest number, whatever follows.\<close>

fun ParseUint16 :: "nat \<Rightarrow> string \<Rightarrow> u64 \<times> error option" where
  "ParseUint16 n [] = (word_of_nat n, None)"
| "ParseUint16 n (c # cs) =
     (case hex_value c of
        None \<Rightarrow> (0, Some (Msg ''invalid hex string''))
      | Some d \<Rightarrow> if n \<ge> 2 ^ 60 then (- 1, Some (Msg ''hex number > 64 bits'')) else ParseUint16 (n * 16 + d) cs)"

text \<open>hexutil.DecodeUint64, and its value when it gives no error.\<close>

definition DecodeUint64 :: "string \<Rightarrow> u64 \<times> error option" where
  "DecodeUint64 s =
     (if s = [] then (0, Some (Msg ''empty hex string''))
      else if \<not> (HasPrefix s ''0x'' \<or> HasPrefix s ''0X'') then (0, Some (Msg ''hex string without 0x prefix''))
      else let raw = drop 2 s in
        if raw = [] then (0, Some (Msg ''hex string \"0x\"''))
        else if length raw > 1 \<and> hd raw = CHR ''0'' then (0, Some (Msg ''hex number with leading zero digits''))
        else ParseUint16 0 raw)"

definition hexutil_DecodeUint64 :: "string \<Rightarrow> u64 result" where
  "hexutil_DecodeUint64 s = (case DecodeUint64 s of (n, None) \<Rightarrow> Ok n | (n, Some e) \<Rightarrow> Err e)"

lemma decoded_value: "hexutil_DecodeUint64 s = Ok n \<Longrightarrow> fst (DecodeUint64 s) = n"
  by (auto simp: hexutil_DecodeUint64_def split: prod.splits option.splits)

section \<open>Health of the sequencer\<close>

text \<open>\<open>hc_locked\<close>: the mutex is held for writing.  updateTime is the time in nanoseconds.\<close>

record healthCheck =
  hc_locked :: bool
  hc_height :: u64
  hc_healthy :: bool
  hc_updateTime :: int
  hc_version :: string

definition UnknownStatus :: string where "UnknownStatus = ''UNKNOWN''"

definition initial_health :: "int \<Rightarrow> healthCheck" where
  "initial_health now = \<lparr>hc_locked = False, hc_height = 0, hc_healthy = False, hc_updateTime = now, hc_version = UnknownStatus\<rparr>"

text \<open>How a round of a loop ends: it sleeps (not at all for a duration that is not positive), starts the next
  round at once, waits for a mutex that is held, or ends the process.\<close>

datatype round_end = SleepFor int | NextRound | Waiting | Crash

text \<open>One round of getBlockNumber, at the time \<open>now\<close>.  The reply of the node may be null, which leaves the
  pointer to the response nil.  A height that cannot be decoded ends the round with the mutex held.\<close>

definition getBlockNumber :: "ExporterConfig \<Rightarrow> string option result \<Rightarrow> int \<Rightarrow> healthCheck
    \<Rightarrow> round_end \<times> metric_op list \<times> healthCheck" where
  "getBlockNumber cfg reply now h =
     (let pause = SleepFor (times_unit (xc_SequencerPollingSeconds cfg) Second) in
      case reply of
        Panic p \<Rightarrow> (Crash, [], h)
      | Err e \<Rightarrow> if hc_locked h then (Waiting, [], h) else (pause, [], h\<lparr>hc_healthy := False\<rparr>)
      | Ok None \<Rightarrow> (Crash, [], h)
      | Ok (Some response) \<Rightarrow>
          if hc_locked h then (Waiting, [], h)
          else
            let decoded = hexutil_DecodeUint64 response;
                currentHeight = fst (DecodeUint64 response);
                seen = GaugeSet ''op_blocknumber'' [xc_NetworkLabel cfg, ''layer2''] (float64 (uint currentHeight)) in
            if \<not> is_ok decoded then (NextRound, [seen], h\<lparr>hc_locked := True\<rparr>)
            else
              let h' = (if currentHeight = hc_height h
                        then (if hc_updateTime h + times_unit (xc_UnhealthyTimePeriod cfg) Minute < now
                              then h\<lparr>hc_healthy := False\<rparr> else h)
                        else h\<lparr>hc_height := currentHeight, hc_updateTime := now, hc_healthy := True\<rparr>) in
              (pause, [seen, GaugeSet ''op_healthy_sequencer'' [xc_NetworkLabel cfg] (if hc_healthy h' then 1 else 0)], h'))"

text \<open>One round of getSequencerVersion: the names and images of the containers of the stateful set.  It writes
  the version without the mutex.\<close>

definition getSequencerVersion :: "(string \<times> string) list result \<Rightarrow> healthCheck \<Rightarrow> healthCheck" where
  "getSequencerVersion reply h =
     (case reply of
        Ok containers \<Rightarrow> fold (\<lambda>(name, image) h. if name = ''sequencer'' then h\<lparr>hc_version := image\<rparr> else h) containers h
      | _ \<Rightarrow> h\<lparr>hc_version := UnknownStatus\<rparr>)"

text \<open>The answer of healthHandler; None: it waits for the mutex.\<close>

definition healthHandler :: "healthCheck \<Rightarrow> (bool \<times> string) option" where
  "healthHandler h = (if hc_locked h then None else Some (hc_healthy h, hc_version h))"

text \<open>What happens to the health: the rounds of the two loops.  A loop that waits or has crashed has no more
  rounds; the first component says whether getBlockNumber still runs.\<close>

datatype health_input = Polled "string option result" int | Versioned "(string \<times> string) list result"

fun health_event :: "ExporterConfig \<Rightarrow> health_input \<Rightarrow> bool \<times> healthCheck \<Rightarrow> bool \<times> healthCheck" where
  "health_event cfg (Polled reply now) (runs, h) =
     (if runs then (let (e, ops, h') = getBlockNumber cfg reply now h in (e \<noteq> Waiting \<and> e \<noteq> Crash, h')) else (runs, h))"
| "health_event cfg (Versioned reply) (runs, h) = (runs, getSequencerVersion reply h)"

definition health_after :: "ExporterConfig \<Rightarrow> int \<Rightarrow> health_input list \<Rightarrow> bool \<times> healthCheck" where
  "health_after cfg start evs = fold (health_event cfg) evs (True, initial_health start)"

section \<open>Gas prices\<close>

text \<open>One round of getBaseFee: base fee and gas used of the latest block.\<close>

definition getBaseFee :: "ExporterConfig \<Rightarrow> (string \<times> string) option result \<Rightarrow> round_end \<times> metric_op list" where
  "getBaseFee cfg reply =
     (let pause = SleepFor (times_unit (xc_SequencerPollingSeconds cfg) Second) in
      case reply of
        Panic p \<Rightarrow> (Crash, [])
      | Err e \<Rightarrow> (pause, [])
      | Ok None \<Rightarrow> (Crash, [])
      | Ok (Some (baseFeePerGas, gasUsed)) \<Rightarrow>
          (pause,
           [GaugeSet ''op_baseFee'' [xc_NetworkLabel cfg, ''layer2''] (float64 (uint (fst (DecodeUint64 baseFeePerGas)))),
            GaugeSet ''op_gasUsed'' [xc_NetworkLabel cfg, ''layer2''] (float64 (uint (fst (DecodeUint64 gasUsed))))]))"

text \<open>One round of getRollupGasPrices: the prices on L1 and on L2.\<close>

definition getRollupGasPrices :: "ExporterConfig \<Rightarrow> (string \<times> string) option result \<Rightarrow> round_end \<times> metric_op list" where
  "getRollupGasPrices cfg reply =
     (case reply of
        Panic p \<Rightarrow> (Crash, [])
      | Err e \<Rightarrow> (SleepFor (30 * Second), [])
      | Ok None \<Rightarrow> (Crash, [])
      | Ok (Some (l1GasPrice, l2GasPrice)) \<Rightarrow>
          (SleepFor (30 * Second),
           [GaugeSet ''op_gasPrice'' [xc_NetworkLabel cfg, ''layer1''] (float64 (uint (fst (DecodeUint64 l1GasPrice)))),
            GaugeSet ''op_gasPrice'' [xc_NetworkLabel cfg, ''layer2''] (float64 (uint (fst (DecodeUint64 l2GasPrice))))]))"

section \<open>Amounts of the bridge\<close>

text \<open>The statements, the grouped queries and common.Address.String.\<close>

record exporter_env =
  xe_G :: gorms
  xe_deposits :: "L1ToL2 grouped"
  xe_withdraws :: "L2ToL1 grouped"
  xe_String :: "address \<Rightarrow> string"

definition BVM_ETH :: string where "BVM_ETH = ''0xdEAddEaDdeadDEadDEADDEAddEADDEAddead1111''"

text \<open>The error of the lookup is not looked at: the symbol is then empty.\<close>

definition symbol_of :: "exporter_env \<Rightarrow> string \<Rightarrow> db \<Rightarrow> string" where
  "symbol_of E token s = (case GetSymbolByAddress (xe_G E) token s of Ok symbol \<Rightarrow> symbol | _ \<Rightarrow> [])"

text \<open>The labels and the value of one row of an answer; a sum that is NULL is a nil pointer.\<close>

definition amount_of :: "exporter_env \<Rightarrow> AmountRow \<Rightarrow> int option" where
  "amount_of E g = (if xe_String E (am_L1TokenAddress g) = BVM_ETH then am_ETHAmount g else am_ERC20Amount g)"

definition amount_op :: "(string \<Rightarrow> string list \<Rightarrow> int \<Rightarrow> metric_op) \<Rightarrow> string \<Rightarrow> exporter_env \<Rightarrow> db \<Rightarrow> AmountRow \<Rightarrow> metric_op result" where
  "amount_op op metric E s g = (let token = xe_String E (am_L1TokenAddress g) in
     bindR (nonil (amount_of E g)) (\<lambda>n.
       Ok (op metric [ToLower token, symbol_of E token s] (float64 (uint (big_Uint64 n))))))"

text \<open>One round of metricDepositsAmount: the new start, and the operations.\<close>

definition metricDepositsAmount :: "exporter_env \<Rightarrow> db \<Rightarrow> int \<Rightarrow> int \<times> metric_op list result" where
  "metricDepositsAmount E s startTimestamp =
     (let endTimestamp = L1L2LatestTimestamp (xe_G E) s in
      case GetDepositsAmountByTimestamp (xe_deposits E) startTimestamp endTimestamp s of
        Err e \<Rightarrow> (startTimestamp, Ok [])
      | Panic p \<Rightarrow> (startTimestamp, Panic p)
      | Ok deposits \<Rightarrow> (endTimestamp, mapR (amount_op CounterAdd ''lithosphere_deposit_amount'' E s) deposits))"

text \<open>Without withdrawals the series of the configured addresses are set or increased by zero.\<close>

definition zero_ops :: "(string \<Rightarrow> string list \<Rightarrow> int \<Rightarrow> metric_op) \<Rightarrow> string \<Rightarrow> exporter_env \<Rightarrow> ExporterConfig \<Rightarrow> db \<Rightarrow> metric_op list" where
  "zero_ops op metric E cfg s = map (\<lambda>add. op metric [add, symbol_of E add s] 0) (Split (xc_WithdrawBigValueAddress cfg) CHR '' '')"

definition metricWithdrawUnclaimedAmount :: "exporter_env \<Rightarrow> ExporterConfig \<Rightarrow> db \<Rightarrow> metric_op list result" where
  "metricWithdrawUnclaimedAmount E cfg s =
     (let metric = ''lithosphere_withdraws_unclaimed_amount'' in
      case GetWithdrawsUnclaimedAmount (xe_withdraws E) (hash_text 0) s of
        Err e \<Rightarrow> Ok []
      | Panic p \<Rightarrow> Panic p
      | Ok withdraws \<Rightarrow>
          bindR (mapR (amount_op GaugeSet metric E s) withdraws) (\<lambda>ops.
            Ok ((if withdraws = [] then zero_ops GaugeSet metric E cfg s else []) @ ops)))"

definition metricWithdrawClaimedAmount :: "exporter_env \<Rightarrow> ExporterConfig \<Rightarrow> db \<Rightarrow> int \<Rightarrow> int \<times> metric_op list result" where
  "metricWithdrawClaimedAmount E cfg s startBlockNumber =
     (let metric = ''lithosphere_withdraws_claimed_amount''; endBlockNumber = L2L1LatestFinalizedL1BlockNumber (xe_G E) s in
      case GetWithdrawsClaimedAmount (xe_withdraws E) (hash_text 0) startBlockNumber endBlockNumber s of
        Err e \<Rightarrow> (startBlockNumber, Ok [])
      | Panic p \<Rightarrow> (startBlockNumber, Panic p)
      | Ok withdraws \<Rightarrow>
          (endBlockNumber, bindR (mapR (amount_op CounterAdd metric E s) withdraws) (\<lambda>ops.
            Ok ((if withdraws = [] then zero_ops CounterAdd metric E cfg s else []) @ ops))))"

definition metricBridgeAccountChecking :: "exporter_env \<Rightarrow> db \<Rightarrow> metric_op list" where
  "metricBridgeAccountChecking E s =
     map (\<lambda>c. GaugeSet ''bridge_account_checking''
            [bc_L1TokenAddress c, bc_L2TokenAddress c, symbol_of E (bc_L1TokenAddress c) s] (float64 (bc_Status c)))
       (GetLatestBridgeCheckpoint (xe_G E) s)"


section \<open>Big transfers\<close>

definition TransferEventABIHash :: string where
  "TransferEventABIHash = ''0xddf252ad1be2c89b69c2b068fc378daa952ba7f163c4a11628f55a4df523b3ef''"

text \<open>The transfers of one contract: a map from the sender, which is the first indexed topic, to the sum.  The first two bytes of
  the amount are dropped; when nothing is left SetString fails and the number stays zero.\<close>

definition add_transfer :: "ContractEvent \<Rightarrow> (hash \<times> int) list \<Rightarrow> (hash \<times> int) list result" where
  "add_transfer e m =
     bindR (indexR (Topics (ce_RLPLog e)) 1) (\<lambda>topic1.
     bindR (indexR (Topics (ce_RLPLog e)) 2) (\<lambda>topic2.
       if topic1 = 0 \<or> topic2 = 0 then Ok m
       else if length (Data (ce_RLPLog e)) < 2 then Panic ''slice bounds out of range''
       else
         let n = SetBytes (drop 2 (Data (ce_RLPLog e))) in
         Ok (AList.update topic1 (case map_of m topic1 of Some existingData \<Rightarrow> existingData + n | None \<Rightarrow> n) m)))"

text \<open>contractAddrTransferMap: a contract that is listed twice has its last entry.  An error of the query is
  logged and leaves the contract without transfers.\<close>

definition contract_transfers :: "(string \<Rightarrow> ContractEvent list result) \<Rightarrow> string \<Rightarrow> (string \<rightharpoonup> (hash \<times> int) list)
    \<Rightarrow> (string \<rightharpoonup> (hash \<times> int) list) result" where
  "contract_transfers query addr m =
     (case query addr of
        Panic p \<Rightarrow> Panic p
      | Err e \<Rightarrow> Ok (m(addr \<mapsto> []))
      | Ok events \<Rightarrow> bindR (foldR add_transfer events []) (\<lambda>transfers. Ok (m(addr \<mapsto> transfers))))"

text \<open>SetString with base 10; \<open>undef\<close> is the value it leaves when the text is no number.\<close>

definition threshold_of :: "(string \<Rightarrow> int) \<Rightarrow> string \<Rightarrow> int" where
  "threshold_of undef t = (case SetString t of Some n \<Rightarrow> n | None \<Rightarrow> undef t)"

definition alerts :: "int \<Rightarrow> (hash \<times> int) list \<Rightarrow> nat" where
  "alerts bigValue transfers = length (filter (\<lambda>(u, v). v \<ge> bigValue) transfers)"

definition alert_op :: "string \<Rightarrow> exporter_env \<Rightarrow> (string \<Rightarrow> int) \<Rightarrow> db \<Rightarrow> string list \<Rightarrow> (string \<rightharpoonup> (hash \<times> int) list)
    \<Rightarrow> nat \<times> string \<Rightarrow> metric_op result" where
  "alert_op metric E undef s values transfers = (\<lambda>(i, addr).
     bindR (indexR values i) (\<lambda>transferBigValue.
       Ok (GaugeSet metric [addr, symbol_of E addr s]
             (float64 (int (alerts (threshold_of undef transferBigValue)
                              (case transfers addr of Some m \<Rightarrow> m | None \<Rightarrow> [])))))))"

text \<open>One round of MetricTransferBigValueInEthereum and InMantle, which differ in the events they read.  None:
  nothing is configured and the loop ends.\<close>

definition big_transfers :: "string \<Rightarrow> (string \<Rightarrow> ContractEvent list result) \<Rightarrow> exporter_env \<Rightarrow> (string \<Rightarrow> int) \<Rightarrow> db
    \<Rightarrow> string \<Rightarrow> string \<Rightarrow> metric_op list result option" where
  "big_transfers metric query E undef s configured_addresses configured_values =
     (let addresses = Split configured_addresses CHR '' ''; values = Split configured_values CHR '' '' in
      if hd addresses = [] then None
      else Some (bindR (foldR (contract_transfers query) addresses Map.empty) (\<lambda>transfers.
             mapR (alert_op metric E undef s values transfers) (enumerate 0 addresses))))"

text \<open>The window of five minutes before now, in seconds.\<close>

definition MetricTransferBigValueInEthereum :: "exporter_env \<Rightarrow> (string \<Rightarrow> int) \<Rightarrow> ExporterConfig \<Rightarrow> db \<Rightarrow> int
    \<Rightarrow> metric_op list result option" where
  "MetricTransferBigValueInEthereum E undef cfg s tsNow =
     big_transfers ''lithosphere_transfer_big_value_in_ethereum''
       (\<lambda>addr. L1ContractEventsWithContractFilter (xe_G E) addr TransferEventABIHash (tsNow - 300) tsNow s)
       E undef s (xc_TransferBigValueAddressInEthereum cfg) (xc_TransferBigValueInEthereum cfg)"

definition MetricTransferBigValueInMantle :: "exporter_env \<Rightarrow> (string \<Rightarrow> int) \<Rightarrow> ExporterConfig \<Rightarrow> db \<Rightarrow> int
    \<Rightarrow> metric_op list result option" where
  "MetricTransferBigValueInMantle E undef cfg s tsNow =
     big_transfers ''lithosphere_transfer_big_value_in_mantle''
       (\<lambda>addr. L2ContractEventsWithContractFilter (xe_G E) addr TransferEventABIHash (tsNow - 300) tsNow s)
       E undef s (xc_TransferBigValueAddressInMantle cfg) (xc_TransferBigValueInMantle cfg)"

section \<open>The exporter\<close>

datatype exporter_loop =
    BlockNumberLoop | RollupGasPricesLoop | BaseFeeLoop | SequencerVersionLoop | AccountCheckingLoop
  | DepositsLoop | UnclaimedLoop | ClaimedLoop | BigValueEthereumLoop | BigValueMantleLoop

text \<open>The loops Start has started when it begins to listen; without a client of the cluster the process ends.\<close>

definition exporter_loops :: "ExporterConfig \<Rightarrow> unit result \<Rightarrow> exporter_loop list result" where
  "exporter_loops cfg k8s_client =
     (let before = [BlockNumberLoop] @ (if xc_EnableRollUpGasPrices cfg then [RollupGasPricesLoop] else [])
                     @ (if xc_EnableGasBaseFee cfg then [BaseFeeLoop] else []);
          after = [AccountCheckingLoop, DepositsLoop, UnclaimedLoop, ClaimedLoop, BigValueEthereumLoop, BigValueMantleLoop] in
      if xc_EnableK8sQuery cfg then bindR k8s_client (\<lambda>_. Ok (before @ [SequencerVersionLoop] @ after))
      else Ok (before @ after))"

record Exporter =
  ex_has_db :: bool
  ex_stopped :: bool

text \<open>Exporter.Stop; the first argument is the answer of closing the database.\<close>

definition Exporter_Stop :: "unit result \<Rightarrow> Exporter \<Rightarrow> unit result \<times> Exporter" where
  "Exporter_Stop close_db er =
     (let result = (if ex_has_db er then mapErr (\<lambda>e. Join [Wrap ''failed to close DB'' e]) close_db else Ok ()) in
      (result, case result of Panic p \<Rightarrow> er | _ \<Rightarrow> er\<lparr>ex_stopped := True\<rparr>))"

end
