(* ===== verification/Service.thy ===== *)
theory Service
  imports Exporter Crossdomain BusinessProcessor
begin


text \<open>
  lithosphere.go: the indexer as a service.  It constructs its parts in a fixed order, starts the two
  synchronizers and the two processors, and closes everything in Stop; api.go does the same with fewer
  parts.  The servers, the connections and the database answer with parameters when they are opened and
  closed.  A call that never returns is the outcome \<open>Hangs\<close>, one
  that ends the process \<open>Exits\<close> with its status.
\<close>

section \<open>Parts of the service\<close>

datatype 'a returns = Returns 'a | Hangs | Exits nat

text \<open>A task of a group: still running, or ended with an outcome.\<close>

datatype task_state = Running | Ended task_outcome

fun ended_with :: "task_state \<Rightarrow> task_outcome option" where
  "ended_with Running = None"
| "ended_with (Ended t) = Some t"

text \<open>tasks.Group.Wait returns when every task has ended.\<close>

definition Group_Wait :: "task_state list \<Rightarrow> unit result returns" where
  "Group_Wait ts = (if Running \<in> set ts then Hangs else Returns (EventProcessor_Close (List.map_filter ended_with ts)))"

text \<open>A part that has not been constructed is a nil pointer.  Of a connection or server the flag says whether it
  is open.\<close>

record Lithosphere =
  li_l1Client :: "bool option"
  li_l2Client :: "bool option"
  li_DB :: "bool option"
  li_L1Sync :: "ChainSyncer option"
  li_L2Sync :: "ChainSyncer option"
  li_BridgeProcessor :: "(EventProcessor \<times> task_state list) option"
  li_BusinessProcessor :: "(BusinessProcessor \<times> task_state list) option"
  li_apiServer :: "bool option"
  li_metricsServer :: "bool option"
  li_stopped :: bool

definition no_parts :: Lithosphere where
  "no_parts = \<lparr>li_l1Client = None, li_l2Client = None, li_DB = None, li_L1Sync = None, li_L2Sync = None,
     li_BridgeProcessor = None, li_BusinessProcessor = None, li_apiServer = None, li_metricsServer = None, li_stopped = False\<rparr>"

section \<open>Stop\<close>

text \<open>What the closing of the servers and of the database answers. It may never return: the shutdown of a server waits for the
  connections that are still in use, and the database waits for the queries that have begun. A part is closed as soon as its
  closing has been called, whatever that answers.\<close>

record closers =
  cl_apiServer :: "unit result returns"
  cl_DB :: "unit result returns"
  cl_metricsServer :: "unit result returns"

definition close_resource :: "unit result returns \<Rightarrow> bool option \<Rightarrow> unit result returns \<times> bool option" where
  "close_resource answer x = (case x of None \<Rightarrow> (Returns (Ok ()), None) | Some is_open \<Rightarrow> (answer, Some False))"

text \<open>One part of Stop: an error is joined to the result, and the rest follows.\<close>

definition stop_part :: "string \<Rightarrow> unit result returns \<times> 's \<Rightarrow> error option \<Rightarrow> (error option \<Rightarrow> 's \<Rightarrow> unit result returns \<times> 's)
    \<Rightarrow> unit result returns \<times> 's" where
  "stop_part msg part res k =
     (case part of
        (Hangs, s) \<Rightarrow> (Hangs, s)
      | (Exits n, s) \<Rightarrow> (Exits n, s)
      | (Returns (Panic p), s) \<Rightarrow> (Returns (Panic p), s)
      | (Returns (Err e), s) \<Rightarrow> k (join_err res (Wrap msg e)) s
      | (Returns (Ok u), s) \<Rightarrow> k res s)"

definition close_L1Sync :: "Lithosphere \<Rightarrow> unit result returns \<times> Lithosphere" where
  "close_L1Sync s = (case li_L1Sync s of None \<Rightarrow> (Returns (Ok ()), s)
     | Some c \<Rightarrow> (let (r, c') = L1Sync_Close c in (Returns r, s\<lparr>li_L1Sync := Some c'\<rparr>)))"

definition close_L2Sync :: "Lithosphere \<Rightarrow> unit result returns \<times> Lithosphere" where
  "close_L2Sync s = (case li_L2Sync s of None \<Rightarrow> (Returns (Ok ()), s)
     | Some c \<Rightarrow> (let (r, c') = L2Sync_Close c in (Returns r, s\<lparr>li_L2Sync := Some c'\<rparr>)))"

text \<open>EventProcessor.Close and BusinessProcessor.Close cancel a context that no task looks at, and wait.\<close>

definition close_processor :: "('p \<times> task_state list) option \<Rightarrow> unit result returns" where
  "close_processor x = (case x of None \<Rightarrow> Returns (Ok ()) | Some (p, ts) \<Rightarrow> Group_Wait ts)"

definition close_clients :: "Lithosphere \<Rightarrow> Lithosphere" where
  "close_clients s = s\<lparr>li_l1Client := map_option (\<lambda>_. False) (li_l1Client s), li_l2Client := map_option (\<lambda>_. False) (li_l2Client s)\<rparr>"

definition Lithosphere_Stop :: "closers \<Rightarrow> Lithosphere \<Rightarrow> unit result returns \<times> Lithosphere" where
  "Lithosphere_Stop C s0 =
     stop_part ''failed to close L1 Sync'' (close_L1Sync s0) None (\<lambda>res s.
     stop_part ''failed to close L2 Sync'' (close_L2Sync s) res (\<lambda>res s.
     stop_part ''failed to close bridge processor'' (close_processor (li_BridgeProcessor s), s) res (\<lambda>res s.
     stop_part ''failed to close business processor'' (close_processor (li_BusinessProcessor s), s) res (\<lambda>res s.
     let s = close_clients s; (r, x) = close_resource (cl_apiServer C) (li_apiServer s) in
     stop_part ''failed to close lithosphere API server'' (r, s\<lparr>li_apiServer := x\<rparr>) res (\<lambda>res s.
     let (r, x) = close_resource (cl_DB C) (li_DB s) in
     stop_part ''failed to close DB'' (r, s\<lparr>li_DB := x\<rparr>) res (\<lambda>res s.
     let (r, x) = close_resource (cl_metricsServer C) (li_metricsServer s) in
     stop_part ''failed to close metrics server'' (r, s\<lparr>li_metricsServer := x\<rparr>) res (\<lambda>res s.
     (Returns (as_result res), s\<lparr>li_stopped := True\<rparr>))))))))"

section \<open>Start\<close>

text \<open>What the starts of the synchronizers take: the hash of headers, and for each chain the batches and what
  storing them meets; for layer 2 also how the node answers while a batch is handled.\<close>

record start_env =
  se_HeaderHash :: "header \<Rightarrow> hash"
  se_env1 :: "SynchronizerBatch \<Rightarrow> sync_env"
  se_batches1 :: "SynchronizerBatch list"
  se_env2 :: "SynchronizerBatch \<Rightarrow> sync_env"
  se_client2 :: "SynchronizerBatch \<Rightarrow> EthClient"
  se_batches2 :: "SynchronizerBatch list"

text \<open>Starting a part of the service: the method of a nil pointer panics.\<close>

definition start_part :: "string \<Rightarrow> ('s \<Rightarrow> 'p option) \<Rightarrow> ('p \<Rightarrow> 's \<Rightarrow> 's) \<Rightarrow> ('p \<times> db, unit) go \<Rightarrow> ('s \<times> db, unit) go" where
  "start_part msg get put start = (\<lambda>(s, d).
     (case get s of
        None \<Rightarrow> (Panic ''invalid memory address or nil pointer dereference'', (s, d))
      | Some p \<Rightarrow> (let (r, (p', d')) = start (p, d) in (mapErr (Wrap msg) r, (put p' s, d')))))"

text \<open>The starts of the processors: two and six tasks.\<close>

definition launch :: "nat \<Rightarrow> (('p \<times> task_state list) \<times> db, unit) go" where
  "launch n = (\<lambda>((p, ts), d). (Ok (), ((p, ts @ replicate n Running), d)))"

definition Lithosphere_Start :: "start_env \<Rightarrow> (Lithosphere \<times> db, unit) go" where
  "Lithosphere_Start E =
     thenG (start_part ''failed to start L1 Sync'' li_L1Sync (\<lambda>c s. s\<lparr>li_L1Sync := Some c\<rparr>)
              (L1Sync_Start (se_HeaderHash E) (se_env1 E) (se_batches1 E)))
    (thenG (start_part ''failed to start L2 Sync'' li_L2Sync (\<lambda>c s. s\<lparr>li_L2Sync := Some c\<rparr>)
              (L2Sync_Start (se_HeaderHash E) (se_env2 E) (se_client2 E) (se_batches2 E)))
    (thenG (start_part ''failed to start bridge processor'' li_BridgeProcessor (\<lambda>p s. s\<lparr>li_BridgeProcessor := Some p\<rparr>) (launch 2))
           (start_part ''failed to start Business processor'' li_BusinessProcessor (\<lambda>p s. s\<lparr>li_BusinessProcessor := Some p\<rparr>) (launch 6))))"

section \<open>The hashes of the withdrawals before the upgrade\<close>

text \<open>The data of the message after its first two characters, as far as it can be decoded.\<close>

definition v1_withdrawal :: "L2SentMessageEvent \<Rightarrow> LegacyWithdrawal result" where
  "v1_withdrawal e =
     (if length (sm_Message e) < 2 then Panic ''slice bounds out of range''
      else Ok \<lparr>lw_MessageSender = sm_Sender e, lw_XDomainTarget = sm_Target e, lw_XDomainSender = sm_Sender e,
              lw_XDomainData = decoded_bytes (drop 2 (sm_Message e)), lw_XDomainNonce = sm_MessageNonce e\<rparr>)"

text \<open>An error is logged, and the hash is then zero.\<close>

definition v1_hash :: "abi_codec \<Rightarrow> address \<Rightarrow> int \<Rightarrow> L2SentMessageEvent \<Rightarrow> hash result" where
  "v1_hash X messenger chainID e = bindR (v1_withdrawal e) (\<lambda>w.
     case CalcTransaction X w (Some messenger) chainID of Err x \<Rightarrow> Ok 0 | r \<Rightarrow> r)"

definition logged :: "('s, unit) go \<Rightarrow> ('s, unit) go" where
  "logged m = (\<lambda>s. case m s of (Err e, s') \<Rightarrow> (Ok (), s') | r \<Rightarrow> r)"

definition v1_step :: "gorms \<Rightarrow> abi_codec \<Rightarrow> address \<Rightarrow> int \<Rightarrow> L2SentMessageEvent \<Rightarrow> (db, unit) go" where
  "v1_step G X messenger chainID e =
     bindG (liftR (v1_hash X messenger chainID e)) (\<lambda>h. logged (UpdateV1L2Tol1WithdrawalHash G (sm_TxHash e) h))"

definition initV1Withdraw :: "gorms \<Rightarrow> abi_codec \<Rightarrow> ChainConfig \<Rightarrow> (db, unit) go" where
  "initV1Withdraw G X cfg =
     bindG (getG (L2SentMessageList G))
       (forG (v1_step G X (L1CrossDomainMessengerProxy (cc_L1Contracts cfg)) (uint (ChainID cfg))))"

section \<open>Construction\<close>

text \<open>What dialling, connecting and listening answers, and the clients and statements that result.\<close>

record init_env =
  in_dialL1 :: "EthClient result"
  in_dialL2 :: "EthClient result"
  in_DB :: "DBConfig \<Rightarrow> gorms result"
  in_mantleDA :: "unit result"
  in_httpServer :: "unit result"
  in_metricsServer :: "unit result"
  in_X :: abi_codec

text \<open>Both depth and start height are converted to int64.\<close>

definition l1_sync_config :: "ChainConfig \<Rightarrow> Config" where
  "l1_sync_config c = \<lparr>LoopIntervalMsec = L1PollingInterval c, HeaderBufferSize = L1HeaderBufferSize c,
     StartHeight = sint (L1StartingHeight c), ConfirmationDepth = sint (L1ConfirmationDepth c)\<rparr>"

definition l2_sync_config :: "ChainConfig \<Rightarrow> Config" where
  "l2_sync_config c = \<lparr>LoopIntervalMsec = L2PollingInterval c, HeaderBufferSize = L2HeaderBufferSize c,
     StartHeight = sint (L2StartingHeight c), ConfirmationDepth = sint (L2ConfirmationDepth c)\<rparr>"

text \<open>One part of initFromConfig: what is made is put into the service.\<close>

definition init_part :: "string \<Rightarrow> (db \<Rightarrow> 'a result) \<Rightarrow> ('a \<Rightarrow> 's \<Rightarrow> 's) \<Rightarrow> ('a \<Rightarrow> ('s \<times> db, unit) go) \<Rightarrow> ('s \<times> db, unit) go" where
  "init_part msg mk put k = (\<lambda>(s, d).
     (case mk d of Ok a \<Rightarrow> k a (put a s, d) | Err e \<Rightarrow> (Err (Wrap msg e), (s, d)) | Panic p \<Rightarrow> (Panic p, (s, d))))"

definition initFromConfig :: "init_env \<Rightarrow> AppConfig \<Rightarrow> (Lithosphere \<times> db, unit) go" where
  "initFromConfig I cfg =
     (let chain = cf_Chain cfg in
      init_part ''failed to start RPC clients'' (\<lambda>_. mapErr (Wrap ''failed to dial L1 client'') (in_dialL1 I))
        (\<lambda>_ s. s\<lparr>li_l1Client := Some True\<rparr>) (\<lambda>l1Client.
      init_part ''failed to start RPC clients'' (\<lambda>_. mapErr (Wrap ''failed to dial L2 client'') (in_dialL2 I))
        (\<lambda>_ s. s\<lparr>li_l2Client := Some True\<rparr>) (\<lambda>l2Client.
      init_part ''failed to init DB'' (\<lambda>_. mapErr (Wrap ''failed to connect to database'') (in_DB I (cf_MasterDB cfg)))
        (\<lambda>_ s. s\<lparr>li_DB := Some True\<rparr>) (\<lambda>G.
      init_part ''failed to init L1 Sync''
        (NewL1Sync G (l1_sync_config chain) l1Client (cc_L1Contracts chain) (xc_TransferBigValueAddressInEthereum (cf_ExporterConfig cfg)))
        (\<lambda>c s. s\<lparr>li_L1Sync := Some c\<rparr>) (\<lambda>_.
      init_part ''failed to init L2 Sync''
        (NewL2Sync G (l2_sync_config chain) l2Client (cc_L2Contracts chain) (xc_TransferBigValueAddressInMantle (cf_ExporterConfig cfg)))
        (\<lambda>c s. s\<lparr>li_L2Sync := Some c\<rparr>) (\<lambda>_.
      init_part ''failed to init Bridge Processor'' (NewBridgeProcessor G chain)
        (\<lambda>p s. s\<lparr>li_BridgeProcessor := Some (p, [])\<rparr>) (\<lambda>_.
      init_part ''failed to init Business Processor'' (\<lambda>_. in_mantleDA I)
        (\<lambda>_ s. s\<lparr>li_BusinessProcessor := Some (NewBusinessProcessor (cf_FraudProofWindows cfg) (cf_StartDataStoreId cfg)
           (L1AccountCheckingAddress (cf_CheckingAddress cfg)) (L2AccountCheckingAddress (cf_CheckingAddress cfg)) (cc_L1Contracts chain) (cf_TokenListUrl cfg), [])\<rparr>) (\<lambda>_.
      init_part ''failed to start HTTP server'' (\<lambda>_. mapErr (Wrap ''http server failed to start'') (in_httpServer I))
        (\<lambda>_ s. s\<lparr>li_apiServer := Some True\<rparr>) (\<lambda>_.
      init_part ''failed to start Metrics server'' (\<lambda>_. mapErr (Wrap ''metrics server failed to start'') (in_metricsServer I))
        (\<lambda>_ s. s\<lparr>li_metricsServer := Some True\<rparr>) (\<lambda>_.
      if cf_WithdrawCalcEnable cfg
      then (\<lambda>(s, d). let (r, d') = initV1Withdraw G (in_X I) chain d in
              (mapErr (Wrap ''fialed to init v1 withdraw'') r, (s, d')))
      else retG ()))))))))))"

text \<open>NewLithosphere: after an error the parts made so far are closed.  The service is returned for the properties;
  the code returns it on success only.\<close>

definition NewLithosphere :: "init_env \<Rightarrow> closers \<Rightarrow> AppConfig \<Rightarrow> db \<Rightarrow> (unit result returns \<times> Lithosphere) \<times> db" where
  "NewLithosphere I C cfg d =
     (case initFromConfig I cfg (no_parts, d) of
        (Ok u, (s, d')) \<Rightarrow> ((Returns (Ok ()), s), d')
      | (Panic p, (s, d')) \<Rightarrow> ((Returns (Panic p), s), d')
      | (Err e, (s, d')) \<Rightarrow>
          (case Lithosphere_Stop C s of
             (Returns (Ok u), s') \<Rightarrow> ((Returns (Err (Join [e])), s'), d')
           | (Returns (Err e'), s') \<Rightarrow> ((Returns (Err (Join [e, e'])), s'), d')
           | (r, s') \<Rightarrow> ((r, s'), d')))"


section \<open>What Stop leaves\<close>

lemma stop_part_answers:
  "stop_part msg (Returns (Ok u), s) res k = k res s"
  "stop_part msg (Returns (Err e), s) res k = k (join_err res (Wrap msg e)) s"
  "stop_part msg (Hangs, s) res k = (Hangs, s)"
  by (simp_all add: stop_part_def)

text \<open>What holds however the rest of Stop ends, holds of Stop, when the part does not hang or panic.\<close>

lemma stop_part_rest:
  assumes "\<And>p. r \<noteq> Panic p" "\<And>res. Q (k res t)"
  shows "Q (stop_part msg (Returns r, t) res k)"
  using assms by (cases r) (auto simp: stop_part_def)

definition closed_part :: "bool option \<Rightarrow> bool" where
  "closed_part x = (x \<noteq> Some True)"

definition all_closed :: "Lithosphere \<Rightarrow> bool" where
  "all_closed s = (closed_part (li_l1Client s) \<and> closed_part (li_l2Client s) \<and> closed_part (li_DB s)
     \<and> closed_part (li_apiServer s) \<and> closed_part (li_metricsServer s) \<and> li_stopped s)"

text \<open>Closing the synchronizers touches nothing else.\<close>

lemma close_sync_keeps:
  "li_DB (snd (close_L1Sync s)) = li_DB s" "li_apiServer (snd (close_L1Sync s)) = li_apiServer s"
  "li_metricsServer (snd (close_L1Sync s)) = li_metricsServer s" "li_stopped (snd (close_L1Sync s)) = li_stopped s"
  "li_l1Client (snd (close_L1Sync s)) = li_l1Client s" "li_l2Client (snd (close_L1Sync s)) = li_l2Client s"
  "li_BridgeProcessor (snd (close_L1Sync s)) = li_BridgeProcessor s"
  "li_BusinessProcessor (snd (close_L1Sync s)) = li_BusinessProcessor s" "li_L2Sync (snd (close_L1Sync s)) = li_L2Sync s"
  "li_DB (snd (close_L2Sync s)) = li_DB s" "li_apiServer (snd (close_L2Sync s)) = li_apiServer s"
  "li_metricsServer (snd (close_L2Sync s)) = li_metricsServer s" "li_stopped (snd (close_L2Sync s)) = li_stopped s"
  "li_l1Client (snd (close_L2Sync s)) = li_l1Client s" "li_l2Client (snd (close_L2Sync s)) = li_l2Client s"
  "li_BridgeProcessor (snd (close_L2Sync s)) = li_BridgeProcessor s"
  "li_BusinessProcessor (snd (close_L2Sync s)) = li_BusinessProcessor s" "li_L1Sync (snd (close_L2Sync s)) = li_L1Sync s"
  by (simp_all add: close_L1Sync_def close_L2Sync_def case_prod_unfold Let_def split: option.splits)

text \<open>The second half of Stop, from the clients on, waits for the servers and the database only.\<close>

definition stop_servers :: "closers \<Rightarrow> error option \<Rightarrow> Lithosphere \<Rightarrow> unit result returns \<times> Lithosphere" where
  "stop_servers C res s0 =
    (let s = close_clients s0; (r, x) = close_resource (cl_apiServer C) (li_apiServer s) in
     stop_part ''failed to close lithosphere API server'' (r, s\<lparr>li_apiServer := x\<rparr>) res (\<lambda>res s.
     let (r, x) = close_resource (cl_DB C) (li_DB s) in
     stop_part ''failed to close DB'' (r, s\<lparr>li_DB := x\<rparr>) res (\<lambda>res s.
     let (r, x) = close_resource (cl_metricsServer C) (li_metricsServer s) in
     stop_part ''failed to close metrics server'' (r, s\<lparr>li_metricsServer := x\<rparr>) res (\<lambda>res s.
     (Returns (as_result res), s\<lparr>li_stopped := True\<rparr>)))))"

lemma Lithosphere_Stop_halves:
  "Lithosphere_Stop C s0 =
     stop_part ''failed to close L1 Sync'' (close_L1Sync s0) None (\<lambda>res s.
     stop_part ''failed to close L2 Sync'' (close_L2Sync s) res (\<lambda>res s.
     stop_part ''failed to close bridge processor'' (close_processor (li_BridgeProcessor s), s) res (\<lambda>res s.
     stop_part ''failed to close business processor'' (close_processor (li_BusinessProcessor s), s) res
       (stop_servers C))))"
  unfolding Lithosphere_Stop_def stop_servers_def ..

text \<open>A closing that returns, with an error or without.\<close>

definition closing_returns :: "unit result returns \<Rightarrow> bool" where
  "closing_returns a = (case a of Returns (Panic p) \<Rightarrow> False | Returns r \<Rightarrow> True | Hangs \<Rightarrow> False | Exits n \<Rightarrow> False)"

definition closing_answers :: "closers \<Rightarrow> bool" where
  "closing_answers C = (closing_returns (cl_apiServer C) \<and> closing_returns (cl_DB C) \<and> closing_returns (cl_metricsServer C))"

lemma close_resource_closed: "closed_part (snd (close_resource a x))"
  by (cases x) (auto simp: close_resource_def closed_part_def)

lemma close_resource_answer: "closing_returns a \<Longrightarrow> closing_returns (fst (close_resource a x))"
  by (cases x) (auto simp: close_resource_def closing_returns_def)

lemma stop_resource_rest:
  assumes "closing_returns a" "\<And>res. Q (k res t)"
  shows "Q (stop_part msg (a, t) res k)"
  using assms by (auto simp: stop_part_def closing_returns_def split: returns.splits result.splits)

lemma as_result_no_panic: "as_result r \<noteq> Panic p"
  by (cases r) (simp_all add: as_result_def)

definition ends_closed :: "unit result returns \<times> Lithosphere \<Rightarrow> bool" where
  "ends_closed out = (case out of (Returns (Panic p), t) \<Rightarrow> False | (Hangs, t) \<Rightarrow> False | (Exits n, t) \<Rightarrow> False | (Returns r, t) \<Rightarrow> all_closed t)"

lemma ends_closed_Returns: "all_closed t \<Longrightarrow> (\<And>p. r \<noteq> Panic p) \<Longrightarrow> ends_closed (Returns r, t)"
  by (cases r) (auto simp: ends_closed_def)

lemma stop_servers_closes:
  assumes "closing_answers C"
  shows "ends_closed (stop_servers C res s)"
  unfolding stop_servers_def case_prod_unfold Let_def
  apply (rule stop_resource_rest)
   apply (use assms in \<open>simp add: closing_answers_def close_resource_answer\<close>)
  apply (rule stop_resource_rest)
   apply (use assms in \<open>simp add: closing_answers_def close_resource_answer\<close>)
  apply (rule stop_resource_rest)
   apply (use assms in \<open>simp add: closing_answers_def close_resource_answer\<close>)
  apply (rule ends_closed_Returns)
   apply (simp add: all_closed_def close_resource_closed)
   apply (simp add: closed_part_def close_clients_def)
  apply (rule as_result_no_panic)
  done

text \<open>The first half, when the synchronizers can be closed and no task still runs.\<close>

definition sync_open :: "ChainSyncer option \<Rightarrow> bool" where
  "sync_open x = (case x of None \<Rightarrow> True | Some c \<Rightarrow> worker (cs_Synchronizer c) = None \<or> \<not> batchesClosed (cs_Synchronizer c))"

definition idle :: "('p \<times> task_state list) option \<Rightarrow> bool" where
  "idle x = (case x of None \<Rightarrow> True | Some (p, ts) \<Rightarrow> Running \<notin> set ts)"

lemma ChainSync_Close_no_panic:
  assumes "sync_open (Some c)"
  shows "fst (ChainSync_Close msg c) \<noteq> Panic p"
  using assms by (auto simp: ChainSync_Close_def Close_def sync_open_def Let_def as_result_no_panic split: option.splits)

lemma close_sync_Returns:
  assumes "sync_open (li_L1Sync s)"
  shows "\<exists>r. fst (close_L1Sync s) = Returns r \<and> (\<forall>p. r \<noteq> Panic p)"
  using assms ChainSync_Close_no_panic
  by (auto simp: close_L1Sync_def L1Sync_Close_def Let_def case_prod_unfold split: option.splits)

lemma close_sync2_Returns:
  assumes "sync_open (li_L2Sync s)"
  shows "\<exists>r. fst (close_L2Sync s) = Returns r \<and> (\<forall>p. r \<noteq> Panic p)"
  using assms ChainSync_Close_no_panic
  by (auto simp: close_L2Sync_def L2Sync_Close_def Let_def case_prod_unfold split: option.splits)

lemma close_processor_idle: "idle x \<Longrightarrow> \<exists>r. close_processor x = Returns r \<and> (\<forall>p. r \<noteq> Panic p)"
  by (auto simp: close_processor_def idle_def Group_Wait_def EventProcessor_Close_def as_result_no_panic split: option.splits prod.splits)

lemma close_processor_busy: "\<not> idle x \<Longrightarrow> close_processor x = Hangs"
  by (auto simp: close_processor_def idle_def Group_Wait_def split: option.splits prod.splits)

lemma stop_syncs:
  assumes "sync_open (li_L1Sync s)" "sync_open (li_L2Sync s)"
    and "\<And>res. Q (K res (snd (close_L2Sync (snd (close_L1Sync s)))))"
  shows "Q (stop_part m1 (close_L1Sync s) None (\<lambda>res s. stop_part m2 (close_L2Sync s) res K))"
proof -
  obtain r t where 1: "close_L1Sync s = (Returns r, t)" "\<And>p. r \<noteq> Panic p"
    using close_sync_Returns[OF assms(1)] by (metis prod.collapse)
  have "li_L2Sync t = li_L2Sync s" using close_sync_keeps(9)[of s] 1 by simp
  then obtain r' t' where 2: "close_L2Sync t = (Returns r', t')" "\<And>p. r' \<noteq> Panic p"
    using close_sync2_Returns[of t] assms(2) by (metis prod.collapse)
  show ?thesis
    unfolding 1 by (rule stop_part_rest[OF 1(2)]) (unfold 2, rule stop_part_rest[OF 2(2)], use assms(3) 1 2 in simp)
qed

lemma stop_idle_closes:
  assumes "closing_answers C" "sync_open (li_L1Sync s)" "sync_open (li_L2Sync s)"
    and "idle (li_BridgeProcessor s)" "idle (li_BusinessProcessor s)"
  shows "ends_closed (Lithosphere_Stop C s)"
  unfolding Lithosphere_Stop_halves
proof (rule stop_syncs[OF assms(2,3)])
  fix res
  let ?t = "snd (close_L2Sync (snd (close_L1Sync s)))"
  obtain r r' where r: "close_processor (li_BridgeProcessor ?t) = Returns r" "\<And>p. r \<noteq> Panic p"
    and r': "close_processor (li_BusinessProcessor ?t) = Returns r'" "\<And>p. r' \<noteq> Panic p"
    using close_processor_idle[OF assms(4)] close_processor_idle[OF assms(5)] by (auto simp: close_sync_keeps)
  show "ends_closed (stop_part ''failed to close bridge processor'' (close_processor (li_BridgeProcessor ?t), ?t) res
     (\<lambda>res s. stop_part ''failed to close business processor'' (close_processor (li_BusinessProcessor s), s) res (stop_servers C)))"
    unfolding r(1) by (rule stop_part_rest[OF r(2)]) (unfold r', rule stop_part_rest[OF r'(2)], rule stop_servers_closes[OF assms(1)])
qed

text \<open>With a task that runs, Stop waits after it has closed the synchronizers, and closes nothing else.\<close>

definition kept_open :: "Lithosphere \<Rightarrow> Lithosphere \<Rightarrow> bool" where
  "kept_open s t = (li_DB t = li_DB s \<and> li_apiServer t = li_apiServer s \<and> li_metricsServer t = li_metricsServer s
     \<and> li_l1Client t = li_l1Client s \<and> li_l2Client t = li_l2Client s \<and> li_stopped t = li_stopped s)"

lemma stop_busy_hangs:
  assumes "sync_open (li_L1Sync s)" "sync_open (li_L2Sync s)"
    and "\<not> (idle (li_BridgeProcessor s) \<and> idle (li_BusinessProcessor s))"
  shows "fst (Lithosphere_Stop C s) = Hangs \<and> kept_open s (snd (Lithosphere_Stop C s))"
  unfolding Lithosphere_Stop_halves
proof (rule stop_syncs[OF assms(1,2), where Q = "\<lambda>out. fst out = Hangs \<and> kept_open s (snd out)"])
  fix res
  let ?t = "snd (close_L2Sync (snd (close_L1Sync s)))"
  let ?Q = "\<lambda>out. fst out = Hangs \<and> kept_open s (snd out)"
  let ?k = "\<lambda>res s. stop_part ''failed to close business processor'' (close_processor (li_BusinessProcessor s), s) res (stop_servers C)"
  have kept: "kept_open s ?t" by (simp add: kept_open_def close_sync_keeps)
  show "?Q (stop_part ''failed to close bridge processor'' (close_processor (li_BridgeProcessor ?t), ?t) res ?k)"
  proof (cases "idle (li_BridgeProcessor ?t)")
    case False
    then show ?thesis using kept by (simp add: close_processor_busy stop_part_answers)
  next
    case True
    then have busy: "\<not> idle (li_BusinessProcessor ?t)" using assms(3) by (simp add: close_sync_keeps)
    obtain r where r: "close_processor (li_BridgeProcessor ?t) = Returns r" "\<And>p. r \<noteq> Panic p"
      using close_processor_idle[OF True] by auto
    show ?thesis
      unfolding r(1) by (rule stop_part_rest[OF r(2), where Q = ?Q])
        (use busy kept in \<open>simp add: close_processor_busy stop_part_answers\<close>)
  qed
qed


section \<open>The service that has been constructed\<close>

lemma init_part_cases:
  assumes "\<And>e. Q (Err (Wrap msg e), (s, d))" "\<And>p. Q (Panic p, (s, d))"
    and "\<And>a. mk d = Ok a \<Longrightarrow> Q (k a (put a s, d))"
  shows "Q (init_part msg mk put k (s, d))"
  using assms by (simp add: init_part_def split: result.splits)

definition new_sync :: "ChainSyncer option \<Rightarrow> bool" where
  "new_sync x = (case x of None \<Rightarrow> True | Some c \<Rightarrow> worker (cs_Synchronizer c) = None \<and> \<not> batchesClosed (cs_Synchronizer c))"

definition fresh_service :: "Lithosphere \<Rightarrow> bool" where
  "fresh_service s = (new_sync (li_L1Sync s) \<and> new_sync (li_L2Sync s) \<and> idle (li_BridgeProcessor s)
     \<and> idle (li_BusinessProcessor s) \<and> \<not> li_stopped s)"

definition complete_service :: "Lithosphere \<Rightarrow> bool" where
  "complete_service s = (li_l1Client s = Some True \<and> li_l2Client s = Some True \<and> li_DB s = Some True
     \<and> li_L1Sync s \<noteq> None \<and> li_L2Sync s \<noteq> None \<and> (\<exists>p. li_BridgeProcessor s = Some (p, []))
     \<and> (\<exists>p. li_BusinessProcessor s = Some (p, [])) \<and> li_apiServer s = Some True \<and> li_metricsServer s = Some True)"

definition well_made :: "unit result \<times> Lithosphere \<times> db \<Rightarrow> bool" where
  "well_made out = (fresh_service (fst (snd out)) \<and> (fst out = Ok () \<longrightarrow> complete_service (fst (snd out))))"

lemma new_sync_open: "new_sync x \<Longrightarrow> sync_open x"
  by (auto simp: new_sync_def sync_open_def split: option.splits)

lemma new_syncer_new: "new_sync (Some (new_syncer cfg h cs))"
  by (simp add: new_sync_def new_syncer_def NewSynchronizer_def)

lemma NewL1Sync_new: "NewL1Sync G cfg cl cts t d = Ok c \<Longrightarrow> new_sync (Some c)"
  by (auto simp: NewL1Sync_def bindR_eq_Ok new_syncer_new)

lemma NewL2Sync_new: "NewL2Sync G cfg cl cts t d = Ok c \<Longrightarrow> new_sync (Some c)"
  by (auto simp: NewL2Sync_def bindR_eq_Ok new_syncer_new)

lemma well_made_part:
  assumes "fresh_service s" "\<And>a. mk d = Ok a \<Longrightarrow> well_made (k a (put a s, d))"
  shows "well_made (init_part msg mk put k (s, d))"
  by (rule init_part_cases) (use assms in \<open>simp_all add: well_made_def\<close>)

lemma new_sync_None: "new_sync None"
  by (simp add: new_sync_def)

lemma init_end_well_made:
  assumes "fresh_service s" "complete_service s"
  shows "well_made ((if b then (\<lambda>(s, d). case f d of (r, d') \<Rightarrow> (mapErr g r, (s, d'))) else retG ()) (s, d))"
  using assms by (simp add: well_made_def retG_def case_prod_unfold)

lemma initFromConfig_well_made: "well_made (initFromConfig I cfg (no_parts, d))"
proof -
  note fresh = fresh_service_def no_parts_def new_sync_None idle_def
  show ?thesis
    unfolding initFromConfig_def Let_def
    apply (rule well_made_part, force simp: fresh dest: NewL1Sync_new NewL2Sync_new)+
    apply (rule init_end_well_made, force simp: fresh dest: NewL1Sync_new NewL2Sync_new)
    apply (simp add: complete_service_def no_parts_def)
    done
qed

lemma NewLithosphere_complete:
  assumes "NewLithosphere I C cfg d0 = ((Returns (Ok ()), s), d)"
  shows "fresh_service s" "complete_service s"
proof -
  have "initFromConfig I cfg (no_parts, d0) = (Ok (), (s, d))"
    using assms by (auto simp: NewLithosphere_def split: prod.splits result.splits returns.splits)
  then show "fresh_service s" "complete_service s"
    using initFromConfig_well_made[of I cfg d0] by (simp_all add: well_made_def)
qed

section \<open>The service that runs\<close>

lemma ChainSync_Start_open:
  assumes "ChainSync_Start m f bs (c, d) = (r, (c', d'))" "\<not> batchesClosed (cs_Synchronizer c)"
  shows "\<not> batchesClosed (cs_Synchronizer c')"
  using assms by (auto simp: ChainSync_Start_def Start_def Let_def split: if_splits)

text \<open>What Start leaves of a constructed service: the connections, the processors with their tasks, the synchronizers open.\<close>

definition running_service :: "Lithosphere \<Rightarrow> Lithosphere \<Rightarrow> bool" where
  "running_service s0 s = (kept_open s0 s \<and> sync_open (li_L1Sync s) \<and> sync_open (li_L2Sync s)
     \<and> map_option snd (li_BridgeProcessor s) = Some (replicate 2 Running)
     \<and> map_option snd (li_BusinessProcessor s) = Some (replicate 6 Running))"

lemma Lithosphere_Start_running:
  assumes "Lithosphere_Start E (s0, d) = (Ok (), (s, d'))" "fresh_service s0" "complete_service s0"
  shows "running_service s0 s"
  using assms
  by (auto simp: Lithosphere_Start_def thenG_def bindG_eq_Ok start_part_def launch_def running_service_def kept_open_def
        complete_service_def fresh_service_def new_sync_def sync_open_def L1Sync_Start_def L2Sync_Start_def Let_def
        dest: ChainSync_Start_open split: prod.splits option.splits result.splits)


section \<open>The hashes the upgrade's preparation writes\<close>

definition v1_row :: "(L2SentMessageEvent \<Rightarrow> hash) \<Rightarrow> L2SentMessageEvent list \<Rightarrow> L2ToL1 \<Rightarrow> L2ToL1" where
  "v1_row h es r = (case find (\<lambda>e. sm_TxHash e = l21_L2TransactionHash r) (rev es) of
     None \<Rightarrow> r | Some e \<Rightarrow> r\<lparr>l21_WithdrawTransactionHash := h e\<rparr>)"

lemma find_append: "find P (xs @ ys) = (case find P xs of None \<Rightarrow> find P ys | Some x \<Rightarrow> Some x)"
  by (induction xs) auto

lemma v1_row_Cons:
  "v1_row h es (if sm_TxHash e = l21_L2TransactionHash r then r\<lparr>l21_WithdrawTransactionHash := h e\<rparr> else r) = v1_row h (e # es) r"
  by (simp add: v1_row_def find_append split: option.splits)

lemma v1_step_Ok:
  assumes "gorms_ok G" "\<And>P f t. fst (g_updates (G_l21 G) P f t) = Ok ()" "v1_step G X m c e s = (Ok (), s')"
  shows "\<exists>x. v1_hash X m c e = Ok x \<and> s' = s\<lparr>l2_to_l1 :=
     map (\<lambda>r. if l21_L2TransactionHash r = sm_TxHash e then r\<lparr>l21_WithdrawTransactionHash := x\<rparr> else r) (l2_to_l1 s)\<rparr>"
proof -
  obtain x where x: "v1_hash X m c e = Ok x"
    and l: "logged (UpdateV1L2Tol1WithdrawalHash G (sm_TxHash e) x) s = (Ok (), s')"
    using assms(3) by (auto simp: v1_step_def bindG_def liftR_def split: result.splits)
  have "fst (UpdateV1L2Tol1WithdrawalHash G (sm_TxHash e) x s) = Ok ()"
    using assms(2) by (simp add: UpdateV1L2Tol1WithdrawalHash_def zoomG_def case_prod_unfold)
  with l have "UpdateV1L2Tol1WithdrawalHash G (sm_TxHash e) x s = (Ok (), s')"
    by (auto simp: logged_def split: prod.splits)
  from zoom_updates_Ok[OF gorms_okD(10)[OF assms(1)] this[unfolded UpdateV1L2Tol1WithdrawalHash_def]] x
  show ?thesis by auto
qed

lemma v1_steps_Ok:
  assumes "gorms_ok G" "\<And>P f t. fst (g_updates (G_l21 G) P f t) = Ok ()" "forG (v1_step G X m c) es s = (Ok (), s')"
  shows "(\<forall>e \<in> set es. \<exists>x. v1_hash X m c e = Ok x) \<and>
    (\<forall>h. (\<forall>e \<in> set es. v1_hash X m c e = Ok (h e)) \<longrightarrow> s' = s\<lparr>l2_to_l1 := map (v1_row h es) (l2_to_l1 s)\<rparr>)"
  using assms(3)
proof (induction es arbitrary: s)
  case Nil
  then show ?case by (simp add: retG_def v1_row_def)
next
  case (Cons e es)
  then obtain s1 where 1: "v1_step G X m c e s = (Ok (), s1)" and 2: "forG (v1_step G X m c) es s1 = (Ok (), s')"
    by (auto simp: thenG_def bindG_eq_Ok)
  obtain x where x: "v1_hash X m c e = Ok x" and s1: "s1 = s\<lparr>l2_to_l1 :=
     map (\<lambda>r. if l21_L2TransactionHash r = sm_TxHash e then r\<lparr>l21_WithdrawTransactionHash := x\<rparr> else r) (l2_to_l1 s)\<rparr>"
    using v1_step_Ok[OF assms(1,2) 1] by blast
  have "s' = s\<lparr>l2_to_l1 := map (v1_row h (e # es)) (l2_to_l1 s)\<rparr>" if h: "\<forall>a \<in> set (e # es). v1_hash X m c a = Ok (h a)" for h
  proof -
    have "x = h e" using h x by simp
    moreover have "s' = s1\<lparr>l2_to_l1 := map (v1_row h es) (l2_to_l1 s1)\<rparr>" using Cons.IH[OF 2] h by simp
    ultimately show ?thesis
      by (simp add: s1 o_def v1_row_Cons[symmetric] eq_commute[of "sm_TxHash e"])
  qed
  then show ?case using Cons.IH[OF 2] x by simp
qed

section \<open>Properties\<close>

text \<open>A service that was constructed and started cannot be stopped while one of the eight tasks of its two
  processors runs, which is until each of them has panicked: the tasks do not look at the context that Close
  cancels.  Stop then never returns, and the database, both servers and both clients stay open.\<close>

lemma running_service_never_stops:
  assumes "NewLithosphere I C cfg d0 = ((Returns (Ok ()), s0), d)"
    and "Lithosphere_Start E (s0, d) = (Ok (), (s1, d1))"
    and "Running \<in> set ts \<union> set ts'"
    and "s = s1\<lparr>li_BridgeProcessor := Some (p, ts), li_BusinessProcessor := Some (p', ts')\<rparr>"
  shows "map_option snd (li_BridgeProcessor s1) = Some (replicate 2 Running)
    \<and> map_option snd (li_BusinessProcessor s1) = Some (replicate 6 Running)
    \<and> (\<exists>t. Lithosphere_Stop C s = (Hangs, t) \<and> li_DB t = Some True \<and> li_apiServer t = Some True
        \<and> li_metricsServer t = Some True \<and> li_l1Client t = Some True \<and> li_l2Client t = Some True \<and> \<not> li_stopped t)"
proof -
  note made = NewLithosphere_complete[OF assms(1)]
  note run = Lithosphere_Start_running[OF assms(2) made, unfolded running_service_def]
  have "fst (Lithosphere_Stop C s) = Hangs \<and> kept_open s (snd (Lithosphere_Stop C s))"
    by (rule stop_busy_hangs) (use run assms(3,4) in \<open>auto simp: idle_def\<close>)
  then have "\<exists>t. Lithosphere_Stop C s = (Hangs, t) \<and> kept_open s t" by (metis prod.collapse)
  then show ?thesis
    using run made assms(4) by (fastforce simp: kept_open_def complete_service_def fresh_service_def)
qed

text \<open>C20: the construction of the service always returns when the closing calls do, and when it fails nothing of
  what it had opened stays open.\<close>

theorem failed_service_is_closed:
  assumes "closing_answers C" "NewLithosphere I C cfg d0 = ((out, s), d)"
  shows "out \<noteq> Hangs \<and> (\<forall>e. out = Returns (Err e) \<longrightarrow> all_closed s)"
proof -
  have fresh: "fresh_service (fst (snd (initFromConfig I cfg (no_parts, d0))))"
    using initFromConfig_well_made[of I cfg d0] by (simp add: well_made_def)
  then have "ends_closed (Lithosphere_Stop C (fst (snd (initFromConfig I cfg (no_parts, d0)))))"
    by (intro stop_idle_closes[OF assms(1)]) (simp_all add: fresh_service_def new_sync_open)
  then show ?thesis
    using assms(2) unfolding NewLithosphere_def ends_closed_def
    by (auto split: prod.splits result.splits returns.splits)
qed

text \<open>C34: when the rows can be written, the preparation of the upgrade gives every withdrawal the hash of the last sent
  message of its transaction (zero, when that hash could not be calculated), leaves the withdrawals without such a
  message as they are, and changes no other column and no other table.\<close>

theorem v1_hashes_filled:
  assumes "gorms_ok G" "\<And>P f t. fst (g_updates (G_l21 G) P f t) = Ok ()" "initV1Withdraw G X cfg s = (Ok (), s')"
  shows "\<exists>h. (\<forall>e \<in> set (L2SentMessageList G s).
        v1_hash X (L1CrossDomainMessengerProxy (cc_L1Contracts cfg)) (uint (ChainID cfg)) e = Ok (h e))
     \<and> s' = s\<lparr>l2_to_l1 := map (v1_row h (L2SentMessageList G s)) (l2_to_l1 s)\<rparr>"
proof -
  let ?v = "v1_hash X (L1CrossDomainMessengerProxy (cc_L1Contracts cfg)) (uint (ChainID cfg))"
  have run: "forG (v1_step G X (L1CrossDomainMessengerProxy (cc_L1Contracts cfg)) (uint (ChainID cfg))) (L2SentMessageList G s) s = (Ok (), s')"
    using assms(3) by (simp add: initV1Withdraw_def bindG_def getG_def)
  note steps = v1_steps_Ok[OF assms(1,2) run]
  obtain h where "\<forall>e \<in> set (L2SentMessageList G s). ?v e = Ok (h e)" using steps by metis
  then show ?thesis using steps by blast
qed


section \<open>Witnesses\<close>

text \<open>A context with an address for every contract of layer 1, and otherwise the defaults of the flags.\<close>

definition l1_contract_flags :: "cli_flag list" where
  "l1_contract_flags = [AddressManagerFlag, SystemConfigProxyFlag, OptimismPortalProxyFlag, L2OutputOracleProxyFlag,
     L1CrossDomainMessengerProxyFlag, L1StandardBridgeProxyFlag, L1ERC721BridgeProxyFlag, DataLayrServiceManagerAddrFlag,
     LegacyCanonicalTransactionChainFlag, LegacyStateCommitmentChainFlag]"

definition index_values :: "string \<Rightarrow> flag_value" where
  "index_values n = (if n \<in> fl_Name ` set l1_contract_flags then StringValue ''0x01''
     else case map_of (map (\<lambda>f. (fl_Name f, fl_Value f)) Flags) n of Some v \<Rightarrow> v | None \<Rightarrow> StringValue [])"

definition index_context :: cli_context where
  "index_context = context_of index_values"

lemma index_addresses: "\<forall>f \<in> set l1_contract_flags. flag_address index_context f \<noteq> 0"
proof -
  have "HexToAddress ''0x01'' \<noteq> 0" by code_simp
  then show ?thesis by (simp add: flag_address_def index_context_def context_of_def index_values_def)
qed

lemma index_given:
  "index_values (fl_Name L1StartingHeightFlag) = IntValue 0" "index_values (fl_Name L2StartingHeightFlag) = IntValue 0"
  "index_values (fl_Name EnableWithdrawCalcFlag) = BoolValue False"
  by code_simp+

lemma index_numbers:
  "ctx_Uint index_context (fl_Name L1StartingHeightFlag) = 0" "ctx_Uint index_context (fl_Name L2StartingHeightFlag) = 0"
  "ctx_Bool index_context (fl_Name EnableWithdrawCalcFlag) = False"
  using uint_of_int_String[of 0] by (simp_all add: index_context_def context_of_def index_given)

lemma predeploys_set: "L2ToL1MessagePasserAddr \<noteq> 0" "L2CrossDomainMessengerAddr \<noteq> 0" "L2StandardBridgeAddr \<noteq> 0" "L2ERC721BridgeAddr \<noteq> 0"
  by code_simp+

definition sample_service :: AppConfig where
  "sample_service = LoadAppConfig index_context"

lemma sample_service_simps:
  "L1StartingHeight (cf_Chain sample_service) = 0" "L2StartingHeight (cf_Chain sample_service) = 0"
  "cc_L1Contracts (cf_Chain sample_service) = l1_contracts_of index_context"
  "cc_L2Contracts (cf_Chain sample_service) = L2ContractsFromPredeploys"
  "cf_WithdrawCalcEnable sample_service = False"
  by (simp_all add: sample_service_def LoadAppConfig_def NewConfig_def chain_config_of_def LoadConfig_def Let_def index_numbers)

definition sample_init :: "unit result \<Rightarrow> init_env" where
  "sample_init metrics = \<lparr>in_dialL1 = Ok (sample_client 10 []), in_dialL2 = Ok (sample_client 10 []), in_DB = (\<lambda>_. Ok mem_gorms),
     in_mantleDA = Ok (), in_httpServer = Ok (), in_metricsServer = metrics, in_X = sample_codec\<rparr>"

definition sample_closers :: closers where
  "sample_closers = \<lparr>cl_apiServer = Returns (Ok ()), cl_DB = Returns (Ok ()), cl_metricsServer = Returns (Ok ())\<rparr>"

definition idle_start :: start_env where
  "idle_start = \<lparr>se_HeaderHash = sample_hash, se_env1 = (\<lambda>_. sample_env), se_batches1 = [], se_env2 = (\<lambda>_. sample_env),
     se_client2 = (\<lambda>_. sample_client 10 []), se_batches2 = []\<rparr>"

lemma sample_syncs:
  "\<exists>c. NewL1Sync mem_gorms (l1_sync_config (cf_Chain sample_service)) cl (l1_contracts_of index_context) t empty_db = Ok c"
  "\<exists>c. NewL2Sync mem_gorms (l2_sync_config (cf_Chain sample_service)) cl L2ContractsFromPredeploys t empty_db = Ok c"
  using index_addresses predeploys_set
  by (simp_all add: l1_contract_flags_def NewL1Sync_def L1Contracts_ForEach_def l1_contract_fields_def l1_contract_cb_def l1_contracts_of_def
      start_header_def l1_sync_config_def sample_service_simps L1LatestBlockHeader_def empty_db_def nil_if_not_found_def
      NewL2Sync_def L2Contracts_ForEach_def l2_contract_fields_def l2_contract_cb_def L2ContractsFromPredeploys_def
      l2_sync_config_def L2LatestBlockHeader_def)

lemma sample_bridge_processor: "\<exists>p. NewBridgeProcessor mem_gorms c empty_db = Ok p"
  by (simp add: NewBridgeProcessor_def L1L2LatestL1BlockHeader_def L1L2LatestL2BlockHeader_def L1L2LatestFinalizedL2BlockHeader_def
      StateRootL1BlockHeader_def DataStoreL1BlockHeader_def L2L1LatestBlockL2Header_def WithdrawProvenL1BlockHeader_def
      WithdrawFinalizedL1BlockHeader_def empty_db_def nil_if_not_found_def max_header_def)

lemma init_part_made: "mk d = Ok a \<Longrightarrow> init_part msg mk put k (s, d) = k a (put a s, d)"
  by (simp add: init_part_def)

lemma sample_made:
  "\<exists>s. initFromConfig (sample_init metrics) sample_service (no_parts, empty_db)
     = (mapErr (Wrap ''failed to start Metrics server'') (mapErr (Wrap ''metrics server failed to start'') metrics), (s, empty_db))"
proof -
  let ?big1 = "xc_TransferBigValueAddressInEthereum (cf_ExporterConfig sample_service)"
  let ?big2 = "xc_TransferBigValueAddressInMantle (cf_ExporterConfig sample_service)"
  obtain c1 c2 p where made:
    "NewL1Sync mem_gorms (l1_sync_config (cf_Chain sample_service)) (sample_client 10 []) (l1_contracts_of index_context) ?big1 empty_db = Ok c1"
    "NewL2Sync mem_gorms (l2_sync_config (cf_Chain sample_service)) (sample_client 10 []) L2ContractsFromPredeploys ?big2 empty_db = Ok c2"
    "NewBridgeProcessor mem_gorms (cf_Chain sample_service) empty_db = Ok p"
    using sample_syncs sample_bridge_processor by metis
  show ?thesis
    by (cases metrics) (simp_all add: initFromConfig_def Let_def sample_init_def sample_service_simps init_part_made made retG_def init_part_def[of "''failed to start Metrics server''"])
qed

lemma idle_sync_starts:
  assumes "new_sync (Some c)"
  shows "\<exists>c' d'. ChainSync_Start m f bs (c, d) = (Ok (), (c', d'))"
  using assms by (auto simp: new_sync_def ChainSync_Start_def Start_def Let_def)

lemma start_part_Ok:
  assumes "get s = Some p" "start (p, d) = (Ok (), (p', d'))"
  shows "start_part msg get put start (s, d) = (Ok (), (put p' s, d'))"
  using assms by (simp add: start_part_def)

lemma idle_starts:
  assumes "fresh_service s" "complete_service s"
  shows "\<exists>t d'. Lithosphere_Start idle_start (s, d) = (Ok (), (t, d'))"
proof -
  obtain c1 c2 p p' where parts: "li_L1Sync s = Some c1" "li_L2Sync s = Some c2" "li_BridgeProcessor s = Some (p, [])"
    "li_BusinessProcessor s = Some (p', [])" using assms(2) by (auto simp: complete_service_def)
  have new: "new_sync (Some c1)" "new_sync (Some c2)" using assms(1) parts by (simp_all add: fresh_service_def)
  obtain c1' d1 where 1: "L1Sync_Start sample_hash (\<lambda>_. sample_env) [] (c1, d) = (Ok (), (c1', d1))"
    using idle_sync_starts[OF new(1)] unfolding L1Sync_Start_def by blast
  obtain c2' d2 where 2: "L2Sync_Start sample_hash (\<lambda>_. sample_env) (\<lambda>_. sample_client 10 []) [] (c2, d1) = (Ok (), (c2', d2))"
    using idle_sync_starts[OF new(2)] unfolding L2Sync_Start_def by blast
  show ?thesis
    by (simp add: Lithosphere_Start_def idle_start_def thenG_def bindG_def start_part_Ok parts 1 2 launch_def)
qed

text \<open>The metrics server cannot listen: the database and the server that was already listening are closed.\<close>

theorem failed_service_is_closed_witness:
  "\<exists>e s d. NewLithosphere (sample_init (Err (Msg ''address already in use''))) sample_closers sample_service empty_db
     = ((Returns (Err e), s), d) \<and> all_closed s"
proof -
  let ?I = "sample_init (Err (Msg ''address already in use''))"
  obtain s d out where 1: "NewLithosphere ?I sample_closers sample_service empty_db = ((out, s), d)" by (metis prod.collapse)
  have answers: "closing_answers sample_closers" by (simp add: closing_answers_def closing_returns_def sample_closers_def)
  have h: "out \<noteq> Hangs" "\<forall>e. out = Returns (Err e) \<longrightarrow> all_closed s"
    using failed_service_is_closed[OF answers 1] by simp_all
  have "\<exists>e. out = Returns (Err e)"
  proof -
    obtain s' where 2: "initFromConfig ?I sample_service (no_parts, empty_db) = (Err (Wrap ''failed to start Metrics server''
        (Wrap ''metrics server failed to start'' (Msg ''address already in use''))), (s', empty_db))"
      using sample_made[of "Err (Msg ''address already in use'')"] by auto
    have "fresh_service s'" using initFromConfig_well_made[of ?I sample_service empty_db] 2 by (simp add: well_made_def)
    then have "ends_closed (Lithosphere_Stop sample_closers s')"
      by (intro stop_idle_closes[OF answers]) (simp_all add: fresh_service_def new_sync_open)
    then show ?thesis using 1 2
      by (auto simp: NewLithosphere_def ends_closed_def split: prod.splits returns.splits result.splits)
  qed
  then show ?thesis using 1 h(2) by blast
qed

text \<open>A withdrawal with a message of transaction 5: its hash is filled.\<close>

definition v1_event :: L2SentMessageEvent where
  "v1_event = \<lparr>sm_GUID = 1, sm_TxHash = 5, sm_BlockNumber = Some 1, sm_Target = 6, sm_Sender = 7, sm_Message = ''0x'',
     sm_MessageNonce = Some 1, sm_GasLimit = None, sm_Signature = 0, sm_L1Token = 0, sm_L2Token = 0, sm_FromAddress = 0,
     sm_ToAddress = 0, sm_Value = None, sm_Timestamp = 0\<rparr>"

definition v1_db :: db where
  "v1_db = empty_db\<lparr>l2_sent_message_events := [v1_event], l2_to_l1 := [sample_withdrawal 5 0 0]\<rparr>"

lemma v1_sent: "L2SentMessageList mem_gorms v1_db = [v1_event]"
  by (simp add: L2SentMessageList_def v1_db_def page_or_empty_def)

lemma mem_updates_Ok: "fst (g_updates (G_l21 mem_gorms) P f t) = Ok ()"
  by simp

lemma bridge_not_7: "L2StandardBridgeAddr \<noteq> 7"
  by code_simp

lemma v1_event_hash: "\<exists>h. v1_hash sample_codec m c v1_event = Ok h"
  by (auto simp: v1_hash_def v1_withdrawal_def v1_event_def CalcTransaction_def CalcWithdrawalHash_def LegacyWithdrawal_ETHValue_def
      LegacyWithdrawal_MNTValue_def bridge_value_def sample_codec_def Let_def withdrawal_types_def bridge_not_7 bridge_not_7[symmetric]
      EncodeVersionedNonce_def NewWithdrawal_def Withdrawal_Hash_def Withdrawal_Encode_def split: result.splits simp del: be_bytes.simps)

theorem v1_hashes_filled_witness:
  "\<exists>h s'. initV1Withdraw mem_gorms sample_codec (sample_config 0) v1_db = (Ok (), s')
     \<and> l2_to_l1 s' = [(sample_withdrawal 5 0 0)\<lparr>l21_WithdrawTransactionHash := h\<rparr>]"
proof -
  obtain s' where run: "initV1Withdraw mem_gorms sample_codec (sample_config 0) v1_db = (Ok (), s')"
    using v1_event_hash[of "L1CrossDomainMessengerProxy (cc_L1Contracts (sample_config 0))" "uint (ChainID (sample_config 0))"]
    by (auto simp: initV1Withdraw_def bindG_def getG_def v1_sent thenG_def retG_def v1_step_def liftR_def logged_def
        UpdateV1L2Tol1WithdrawalHash_def zoomG_def case_prod_unfold)
  from v1_hashes_filled[OF mem_gorms_ok mem_updates_Ok run] obtain h
    where "s' = v1_db\<lparr>l2_to_l1 := map (v1_row h [v1_event]) (l2_to_l1 v1_db)\<rparr>" by (auto simp: v1_sent)
  then have "l2_to_l1 s' = [(sample_withdrawal 5 0 0)\<lparr>l21_WithdrawTransactionHash := h v1_event\<rparr>]"
    by (simp add: v1_db_def v1_row_def v1_event_def sample_withdrawal_def)
  then show ?thesis using run by blast
qed

end
