(* ===== verification/Api.thy ===== *)
theory Api
  imports Checkpoints
begin


text \<open>
  api and cache: the requests the service answers from the tables.  A handler reads the parameters of the
  request, looks into the cache, asks the service and fills the cache.  The HTTP server, the router with
  its middlewares (which turn a panic into an answer with status 500) and the JSON encoder are
  libraries; the cache is a library too, of which the program uses that a key it has added is there
  until the library drops it.
\<close>

section \<open>Parameters\<close>

text \<open>strconv.Atoi.\<close>

definition Atoi :: "string \<Rightarrow> int result" where
  "Atoi s = (case SetString s of
       None \<Rightarrow> Err ErrSyntax
     | Some v \<Rightarrow> if - (2 ^ 63) \<le> v \<and> v < 2 ^ 63 then Ok v else Err ErrRange)"

text \<open>common.IsHexAddress.\<close>

definition IsHexAddress :: "string \<Rightarrow> bool" where
  "IsHexAddress s =
     (let r = (if HasPrefix s ''0x'' \<or> HasPrefix s ''0X'' then drop 2 s else s) in
      length r = 40 \<and> list_all (\<lambda>c. hex_value c \<noteq> None) r)"

definition ParseValidateAddress :: "string \<Rightarrow> address result" where
  "ParseValidateAddress addr =
     (if addr \<noteq> ''0x00'' then
        (if \<not> IsHexAddress addr then Err (Msg ''address must be represented as a valid hexadecimal string'')
         else if HexToAddress addr = HexToAddress ''0x0'' then Err (Msg ''address cannot be the zero address'')
         else Ok (HexToAddress addr))
      else Ok 0)"

definition ValidatePage :: "int \<Rightarrow> int" where
  "ValidatePage page = (if page \<le> 0 then 1 else page)"

definition ValidatePageSize :: "int \<Rightarrow> int" where
  "ValidatePageSize pageSize = (if pageSize \<le> 0 \<or> pageSize > 1000 then 20 else pageSize)"

definition ValidateOrder :: "string \<Rightarrow> string" where
  "ValidateOrder order =
     (if order = ''asc'' \<or> order = ''ASC'' \<or> order = ''DESC'' \<or> order = ''desc'' then order else ''desc'')"

definition ValidateIdOrIndex :: "u64 \<Rightarrow> unit result" where
  "ValidateIdOrIndex idOrIndex = (if idOrIndex \<le> 0 then Err (Msg ''page size must be more than 0'') else Ok ())"

record QueryDWParams =
  qd_Address :: string
  qd_Page :: int
  qd_PageSize :: int
  qd_Order :: string

record QueryPageParams =
  qp_Page :: int
  qp_PageSize :: int
  qp_Order :: string

text \<open>common.Address.String writes an address with the letters' case as a checksum: a parameter.\<close>

definition QueryDWListParams :: "(address \<Rightarrow> string) \<Rightarrow> string \<Rightarrow> string \<Rightarrow> string \<Rightarrow> string \<Rightarrow> QueryDWParams result" where
  "QueryDWListParams address_String addr page pageSize order =
     bindR (if addr = ''0x00'' then Ok ''0x00''
            else bindR (ParseValidateAddress addr) (\<lambda>a. Ok (address_String a))) (\<lambda>paraAddress.
     bindR (Atoi page) (\<lambda>pageInt.
     bindR (Atoi pageSize) (\<lambda>pageSizeInt.
     Ok \<lparr>qd_Address = paraAddress, qd_Page = ValidatePage pageInt, qd_PageSize = ValidatePageSize pageSizeInt,
         qd_Order = ValidateOrder order\<rparr>)))"

definition QueryPageListParams :: "string \<Rightarrow> string \<Rightarrow> string \<Rightarrow> QueryPageParams result" where
  "QueryPageListParams page pageSize order =
     bindR (Atoi page) (\<lambda>pageInt.
     bindR (Atoi pageSize) (\<lambda>pageSizeInt.
     Ok \<lparr>qp_Page = ValidatePage pageInt, qp_PageSize = ValidatePageSize pageSizeInt, qp_Order = ValidateOrder order\<rparr>))"

definition read_id :: "string \<Rightarrow> string \<Rightarrow> u64 result" where
  "read_id failed s =
     (case ParseUint 64 s of
        Ok n \<Rightarrow> bindR (ValidateIdOrIndex (of_nat n)) (\<lambda>_. Ok (of_nat n))
      | _ \<Rightarrow> Err (Msg failed))"

definition QueryByIdParams :: "string \<Rightarrow> u64 result" where
  "QueryByIdParams = read_id ''id must be an integer value''"

definition QueryByIndexParams :: "string \<Rightarrow> u64 result" where
  "QueryByIndexParams = read_id ''index must be an integer value''"

section \<open>Answers\<close>

record 'r list_response =
  rs_Current :: int
  rs_Size :: int
  rs_Total :: int
  rs_Records :: "'r list"

record DataStoreItem =
  li_ID :: u64
  li_DataSize :: u64
  li_Status :: bool
  li_Timestamp :: u64
  li_DaHash :: string

text \<open>The tables take the address as text; they compare it with the columns, which hold addresses in lower
  case.\<close>

definition list_address :: "string \<Rightarrow> address option" where
  "list_address s = (if s = ''0x00'' then None else Some (HexToAddress s))"

definition ascending :: "string \<Rightarrow> bool" where
  "ascending order = (ToLower order = ''asc'')"

definition GetDepositList :: "gorms \<Rightarrow> QueryDWParams \<Rightarrow> db \<Rightarrow> L1ToL2 list_response" where
  "GetDepositList G p s =
     (let (l1L2List, total) = L1ToL2List G (list_address (ToLower (qd_Address p))) (qd_Page p) (qd_PageSize p)
                                (ascending (qd_Order p)) s in
      \<lparr>rs_Current = qd_Page p, rs_Size = qd_PageSize p, rs_Total = total, rs_Records = l1L2List\<rparr>)"

definition GetWithdrawalList :: "gorms \<Rightarrow> QueryDWParams \<Rightarrow> db \<Rightarrow> L2ToL1 list_response" where
  "GetWithdrawalList G p s =
     (let (l2L1List, total) = L2ToL1List G (list_address (ToLower (qd_Address p))) (qd_Page p) (qd_PageSize p)
                                (ascending (qd_Order p)) s in
      \<lparr>rs_Current = qd_Page p, rs_Size = qd_PageSize p, rs_Total = total, rs_Records = l2L1List\<rparr>)"

text \<open>A row without a size or without a confirmation's gas is a nil dereference.\<close>

definition data_store_item :: "DataStore \<Rightarrow> DataStoreItem result" where
  "data_store_item d =
     bindR (nonil (ds_DataSize d)) (\<lambda>size. bindR (nonil (ds_ConfirmGasUsed d)) (\<lambda>gas.
     Ok \<lparr>li_ID = ds_DataStoreId d, li_DataSize = big_Uint64 size, li_Status = (big_Uint64 gas \<noteq> 0),
         li_Timestamp = ds_Timestamp d, li_DaHash = ds_DataHash d\<rparr>))"

definition GetDataStoreList :: "gorms \<Rightarrow> QueryPageParams \<Rightarrow> db \<Rightarrow> DataStoreItem list_response result" where
  "GetDataStoreList G p s =
     (let (dsList, total) = DataStoreList G (qp_Page p) (qp_PageSize p) (ascending (qp_Order p)) s in
      bindR (mapR data_store_item dsList) (\<lambda>items.
      Ok \<lparr>rs_Current = qp_Page p, rs_Size = qp_PageSize p, rs_Total = total, rs_Records = items\<rparr>))"

definition GetDataStoreById :: "gorms \<Rightarrow> u64 \<Rightarrow> db \<Rightarrow> DataStore option result" where
  "GetDataStoreById G i s = DataStoreById G (sint i) s"

definition GetDataStoreBlockByDataStoreId :: "gorms \<Rightarrow> u64 \<Rightarrow> db \<Rightarrow> DataStoreBlock list result" where
  "GetDataStoreBlockByDataStoreId G i s = DataStoreBlockById G (sint i) s"

definition GetStateRootList :: "gorms \<Rightarrow> QueryPageParams \<Rightarrow> db \<Rightarrow> StateRoot list_response" where
  "GetStateRootList G p s =
     (let (stateRootList, total) = StateRootList G (qp_Page p) (qp_PageSize p) (ascending (qp_Order p)) s in
      \<lparr>rs_Current = qp_Page p, rs_Size = qp_PageSize p, rs_Total = total, rs_Records = stateRootList\<rparr>)"

definition GetStateRootByIndex :: "gorms \<Rightarrow> u64 \<Rightarrow> db \<Rightarrow> StateRoot option result" where
  "GetStateRootByIndex G i s = StateRootByIndex G (sint i) s"

section \<open>The cache\<close>

text \<open>The values the program puts into its caches or asserts to find there.\<close>

datatype any_value =
    AnyDataStores "DataStoreItem list_response"
  | AnyDeposits "L1ToL2 list_response"
  | AnyWithdraws "L2ToL1 list_response"
  | AnyStateRoots "StateRoot list_response"
  | AnyStateRootPage "StateRoot list"  \<comment> \<open>*gplus.Page[business.StateRoot]\<close>
  | AnyDataStore "DataStore option"
  | AnyBlocks "DataStoreBlock list"
  | AnyStateRoot "StateRoot option"

record LruCache =
  lruDataStoreList :: "string \<rightharpoonup> any_value"
  lruL1ToL2List :: "string \<rightharpoonup> any_value"
  lruL2ToL1List :: "string \<rightharpoonup> any_value"
  lruStateRootList :: "string \<rightharpoonup> any_value"
  lruDataStoreById :: "string \<rightharpoonup> any_value"
  lruDataStoreBlockById :: "string \<rightharpoonup> any_value"
  lruStateRootByIndex :: "string \<rightharpoonup> any_value"

definition NewLruCache :: LruCache where
  "NewLruCache = \<lparr>lruDataStoreList = Map.empty, lruL1ToL2List = Map.empty, lruL2ToL1List = Map.empty,
     lruStateRootList = Map.empty, lruDataStoreById = Map.empty, lruDataStoreBlockById = Map.empty,
     lruStateRootByIndex = Map.empty\<rparr>"

text \<open>A lookup asserts the type of what it finds; a wrong type panics.\<close>

definition lru_get :: "(string \<rightharpoonup> any_value) \<Rightarrow> (any_value \<Rightarrow> 'v option) \<Rightarrow> string \<Rightarrow> string \<Rightarrow> 'v result" where
  "lru_get m assert failed key =
     (case m key of
        None \<Rightarrow> Err (Msg failed)
      | Some a \<Rightarrow> (case assert a of Some v \<Rightarrow> Ok v | None \<Rightarrow> Panic ''interface conversion''))"

definition lc_GetDataStoreList :: "LruCache \<Rightarrow> string \<Rightarrow> DataStoreItem list_response result" where
  "lc_GetDataStoreList lc = lru_get (lruDataStoreList lc) (\<lambda>a. case a of AnyDataStores r \<Rightarrow> Some r | _ \<Rightarrow> None)
     ''lru get store list fail''"

definition lc_GetL1ToL2List :: "LruCache \<Rightarrow> string \<Rightarrow> L1ToL2 list_response result" where
  "lc_GetL1ToL2List lc = lru_get (lruL1ToL2List lc) (\<lambda>a. case a of AnyDeposits r \<Rightarrow> Some r | _ \<Rightarrow> None)
     ''lru get L1ToL2 list fail''"

definition lc_GetL2ToL1List :: "LruCache \<Rightarrow> string \<Rightarrow> L2ToL1 list_response result" where
  "lc_GetL2ToL1List lc = lru_get (lruL2ToL1List lc) (\<lambda>a. case a of AnyWithdraws r \<Rightarrow> Some r | _ \<Rightarrow> None)
     ''lru get L2ToL1 list fail''"

definition lc_GetStateRootList :: "LruCache \<Rightarrow> string \<Rightarrow> StateRoot list result" where
  "lc_GetStateRootList lc = lru_get (lruStateRootList lc) (\<lambda>a. case a of AnyStateRootPage r \<Rightarrow> Some r | _ \<Rightarrow> None)
     ''lru get state root list fail''"

definition lc_GetDataStoreById :: "LruCache \<Rightarrow> string \<Rightarrow> DataStore option result" where
  "lc_GetDataStoreById lc = lru_get (lruDataStoreById lc) (\<lambda>a. case a of AnyDataStore r \<Rightarrow> Some r | _ \<Rightarrow> None)
     ''lru get data store by id fail''"

definition lc_GetDataStoreBlockById :: "LruCache \<Rightarrow> string \<Rightarrow> DataStoreBlock list result" where
  "lc_GetDataStoreBlockById lc = lru_get (lruDataStoreBlockById lc) (\<lambda>a. case a of AnyBlocks r \<Rightarrow> Some r | _ \<Rightarrow> None)
     ''lru get data store block by id fail''"

definition lc_GetStateRootByIndex :: "LruCache \<Rightarrow> string \<Rightarrow> StateRoot option result" where
  "lc_GetStateRootByIndex lc = lru_get (lruStateRootByIndex lc) (\<lambda>a. case a of AnyStateRoot r \<Rightarrow> Some r | _ \<Rightarrow> None)
     ''lru get state root by index fail''"

definition AddDataStoreList :: "string \<Rightarrow> DataStoreItem list_response \<Rightarrow> LruCache \<Rightarrow> LruCache" where
  "AddDataStoreList key data lc = lc\<lparr>lruDataStoreList := (lruDataStoreList lc)(key \<mapsto> AnyDataStores data)\<rparr>"

definition AddL1ToL2List :: "string \<Rightarrow> L1ToL2 list_response \<Rightarrow> LruCache \<Rightarrow> LruCache" where
  "AddL1ToL2List key data lc = lc\<lparr>lruL1ToL2List := (lruL1ToL2List lc)(key \<mapsto> AnyDeposits data)\<rparr>"

definition AddL2ToL1List :: "string \<Rightarrow> L2ToL1 list_response \<Rightarrow> LruCache \<Rightarrow> LruCache" where
  "AddL2ToL1List key data lc = lc\<lparr>lruL2ToL1List := (lruL2ToL1List lc)(key \<mapsto> AnyWithdraws data)\<rparr>"

definition AddStateRootList :: "string \<Rightarrow> StateRoot list_response \<Rightarrow> LruCache \<Rightarrow> LruCache" where
  "AddStateRootList key data lc = lc\<lparr>lruStateRootList := (lruStateRootList lc)(key \<mapsto> AnyStateRoots data)\<rparr>"

definition AddDataStoreById :: "string \<Rightarrow> DataStore option \<Rightarrow> LruCache \<Rightarrow> LruCache" where
  "AddDataStoreById key data lc = lc\<lparr>lruDataStoreById := (lruDataStoreById lc)(key \<mapsto> AnyDataStore data)\<rparr>"

definition AddDataStoreBlockById :: "string \<Rightarrow> DataStoreBlock list \<Rightarrow> LruCache \<Rightarrow> LruCache" where
  "AddDataStoreBlockById key data lc = lc\<lparr>lruDataStoreBlockById := (lruDataStoreBlockById lc)(key \<mapsto> AnyBlocks data)\<rparr>"

definition AddStateRootByIndex :: "string \<Rightarrow> StateRoot option \<Rightarrow> LruCache \<Rightarrow> LruCache" where
  "AddStateRootByIndex key data lc = lc\<lparr>lruStateRootByIndex := (lruStateRootByIndex lc)(key \<mapsto> AnyStateRoot data)\<rparr>"


section \<open>Handlers\<close>

datatype reply = Replied any_value | BadRequest | ServerError | Recovered

record Routes =
  rt_G :: gorms
  rt_address_String :: "address \<Rightarrow> string"
  rt_enableCache :: bool

text \<open>The common end of the handlers: the cached answer if there is one that is not nil, otherwise that of the
  service, which is put into the cache.\<close>

definition serve :: "bool \<Rightarrow> 'v option result \<Rightarrow> ('v \<Rightarrow> any_value) \<Rightarrow> 'v result \<Rightarrow> ('v \<Rightarrow> LruCache \<Rightarrow> LruCache)
    \<Rightarrow> LruCache \<Rightarrow> reply \<times> LruCache" where
  "serve enableCache cached body answer add lc =
     (case (if enableCache then cached else Ok None) of
        Panic p \<Rightarrow> (Recovered, lc)
      | Ok (Some response) \<Rightarrow> (Replied (body response), lc)
      | _ \<Rightarrow> (case answer of
            Panic p \<Rightarrow> (Recovered, lc)
          | Err e \<Rightarrow> (ServerError, lc)
          | Ok response \<Rightarrow> (Replied (body response), if enableCache then add response lc else lc)))"

text \<open>A parameter that does not parse is a bad request.\<close>

definition with_params :: "'p result \<Rightarrow> ('p \<Rightarrow> LruCache \<Rightarrow> reply \<times> LruCache) \<Rightarrow> LruCache \<Rightarrow> reply \<times> LruCache" where
  "with_params params k lc =
     (case params of Ok p \<Rightarrow> k p lc | Err e \<Rightarrow> (BadRequest, lc) | Panic p \<Rightarrow> (Recovered, lc))"

text \<open>A response is never a nil pointer, a single row may be one.\<close>

definition not_nil :: "'v result \<Rightarrow> 'v option result" where
  "not_nil r = bindR r (\<lambda>v. Ok (Some v))"

definition maybe_nil :: "'v option result \<Rightarrow> 'v option option result" where
  "maybe_nil r = bindR r (\<lambda>v. Ok (map_option Some v))"

definition l1ToL2ListKey :: "string \<Rightarrow> string \<Rightarrow> string \<Rightarrow> string \<Rightarrow> string" where
  "l1ToL2ListKey addr page pageSize order =
     ''l1ToL2List{'' @ addr @ '',page:'' @ page @ '',pageSize:'' @ pageSize @ '',order:'' @ order @ ''}''"

text \<open>The format of this key has the verb %, where %s was meant; Sprintf writes the address as the operand of a
  bad verb.\<close>

definition l2ToL1ListKey :: "string \<Rightarrow> string \<Rightarrow> string \<Rightarrow> string \<Rightarrow> string" where
  "l2ToL1ListKey addr page pageSize order =
     ''l2ToL1List{address:s%!,(string='' @ addr @ '')page:'' @ page @ '',pageSize:'' @ pageSize @ '',order:'' @ order @ ''}''"

definition pageKey :: "string \<Rightarrow> string \<Rightarrow> string \<Rightarrow> string \<Rightarrow> string" where
  "pageKey name page pageSize order =
     name @ ''{page:'' @ page @ '',pageSize:'' @ pageSize @ '',order:'' @ order @ ''}''"

definition L1ToL2ListHandler :: "Routes \<Rightarrow> string \<Rightarrow> string \<Rightarrow> string \<Rightarrow> string \<Rightarrow> db \<Rightarrow> LruCache \<Rightarrow> reply \<times> LruCache" where
  "L1ToL2ListHandler h addr page pageSize order s =
     with_params (QueryDWListParams (rt_address_String h) addr page pageSize order) (\<lambda>params lc.
       let key = l1ToL2ListKey addr page pageSize order in
       serve (rt_enableCache h) (not_nil (lc_GetL1ToL2List lc key)) AnyDeposits
         (Ok (GetDepositList (rt_G h) params s)) (AddL1ToL2List key) lc)"

definition L2ToL1ListHandler :: "Routes \<Rightarrow> string \<Rightarrow> string \<Rightarrow> string \<Rightarrow> string \<Rightarrow> db \<Rightarrow> LruCache \<Rightarrow> reply \<times> LruCache" where
  "L2ToL1ListHandler h addr page pageSize order s =
     with_params (QueryDWListParams (rt_address_String h) addr page pageSize order) (\<lambda>params lc.
       let key = l2ToL1ListKey addr page pageSize order in
       serve (rt_enableCache h) (not_nil (lc_GetL2ToL1List lc key)) AnyWithdraws
         (Ok (GetWithdrawalList (rt_G h) params s)) (AddL2ToL1List key) lc)"

definition DataStoreListHandler :: "Routes \<Rightarrow> string \<Rightarrow> string \<Rightarrow> string \<Rightarrow> db \<Rightarrow> LruCache \<Rightarrow> reply \<times> LruCache" where
  "DataStoreListHandler h page pageSize order s =
     with_params (QueryPageListParams page pageSize order) (\<lambda>params lc.
       let key = pageKey ''dataStoreList'' page pageSize order in
       serve (rt_enableCache h) (not_nil (lc_GetDataStoreList lc key)) AnyDataStores
         (GetDataStoreList (rt_G h) params s) (AddDataStoreList key) lc)"

definition DataStoreByIdHandler :: "Routes \<Rightarrow> string \<Rightarrow> db \<Rightarrow> LruCache \<Rightarrow> reply \<times> LruCache" where
  "DataStoreByIdHandler h idStr s =
     with_params (QueryByIdParams idStr) (\<lambda>params lc.
       let key = ''dataStore{id:'' @ idStr @ ''}'' in
       serve (rt_enableCache h) (maybe_nil (lc_GetDataStoreById lc key)) AnyDataStore
         (GetDataStoreById (rt_G h) params s) (AddDataStoreById key) lc)"

definition DataStoreBlockByIDHandler :: "Routes \<Rightarrow> string \<Rightarrow> db \<Rightarrow> LruCache \<Rightarrow> reply \<times> LruCache" where
  "DataStoreBlockByIDHandler h idStr s =
     with_params (QueryByIdParams idStr) (\<lambda>params lc.
       let key = ''dataStoreBlock{id:'' @ idStr @ ''}'' in
       serve (rt_enableCache h) (not_nil (lc_GetDataStoreBlockById lc key)) AnyBlocks
         (GetDataStoreBlockByDataStoreId (rt_G h) params s) (AddDataStoreBlockById key) lc)"

text \<open>The lookup asserts a page of another library, so its answer has another type than what is added.\<close>

definition StateRootListHandler :: "Routes \<Rightarrow> string \<Rightarrow> string \<Rightarrow> string \<Rightarrow> db \<Rightarrow> LruCache \<Rightarrow> reply \<times> LruCache" where
  "StateRootListHandler h page pageSize order s =
     with_params (QueryPageListParams page pageSize order) (\<lambda>params lc.
       let key = pageKey ''stateRootList'' page pageSize order in
       case (if rt_enableCache h then not_nil (lc_GetStateRootList lc key) else Ok None) of
         Ok (Some response) \<Rightarrow> (Replied (AnyStateRootPage response), lc)
       | Panic p \<Rightarrow> (Recovered, lc)
       | _ \<Rightarrow> serve (rt_enableCache h) (Ok None) AnyStateRoots
                (Ok (GetStateRootList (rt_G h) params s)) (AddStateRootList key) lc)"

definition StateRootByIndexHandler :: "Routes \<Rightarrow> string \<Rightarrow> db \<Rightarrow> LruCache \<Rightarrow> reply \<times> LruCache" where
  "StateRootByIndexHandler h indexStr s =
     with_params (QueryByIndexParams indexStr) (\<lambda>params lc.
       let key = ''stateRootByIndex{index:'' @ indexStr @ ''}'' in
       serve (rt_enableCache h) (maybe_nil (lc_GetStateRootByIndex lc key)) AnyStateRoot
         (GetStateRootByIndex (rt_G h) params s) (AddStateRootByIndex key) lc)"

section \<open>Requests\<close>

datatype request =
    DepositsReq string string string string
  | WithdrawalsReq string string string string
  | DataStoreListReq string string string
  | DataStoreByIdReq string
  | DataStoreTxByIdReq string
  | StateRootListReq string string string
  | StateRootByIndexReq string

text \<open>API.initRouter: the handler of each path.\<close>

fun route :: "Routes \<Rightarrow> request \<Rightarrow> db \<Rightarrow> LruCache \<Rightarrow> reply \<times> LruCache" where
  "route h (DepositsReq a p z d) = L1ToL2ListHandler h a p z d"
| "route h (WithdrawalsReq a p z d) = L2ToL1ListHandler h a p z d"
| "route h (DataStoreListReq p z d) = DataStoreListHandler h p z d"
| "route h (DataStoreByIdReq i) = DataStoreByIdHandler h i"
| "route h (DataStoreTxByIdReq i) = DataStoreBlockByIDHandler h i"
| "route h (StateRootListReq p z d) = StateRootListHandler h p z d"
| "route h (StateRootByIndexReq i) = StateRootByIndexHandler h i"

definition drop_keys :: "(string \<Rightarrow> bool) \<Rightarrow> LruCache \<Rightarrow> LruCache" where
  "drop_keys gone lc = (let f = (\<lambda>m k. if gone k then None else m k) in
     \<lparr>lruDataStoreList = f (lruDataStoreList lc), lruL1ToL2List = f (lruL1ToL2List lc), lruL2ToL1List = f (lruL2ToL1List lc),
      lruStateRootList = f (lruStateRootList lc), lruDataStoreById = f (lruDataStoreById lc),
      lruDataStoreBlockById = f (lruDataStoreBlockById lc), lruStateRootByIndex = f (lruStateRootByIndex lc)\<rparr>)"

text \<open>The requests served so far, with the database each of them found and its reply.  Between two requests
  the cache may drop keys, because they have expired or for want of room.\<close>

inductive api_run :: "Routes \<Rightarrow> (request \<times> db \<times> reply) list \<Rightarrow> LruCache \<Rightarrow> bool" for h where
  start: "api_run h [] NewLruCache"
| served: "api_run h tr lc \<Longrightarrow> route h q s lc = (r, lc') \<Longrightarrow> api_run h (tr @ [(q, s, r)]) lc'"
| dropped: "api_run h tr lc \<Longrightarrow> api_run h tr (drop_keys gone lc)"

inductive_cases api_runE: "api_run h tr lc"

text \<open>What the service itself answers.\<close>

fun answer_of :: "Routes \<Rightarrow> request \<Rightarrow> db \<Rightarrow> any_value result" where
  "answer_of h (DepositsReq a p z d) s = bindR (QueryDWListParams (rt_address_String h) a p z d)
     (\<lambda>params. Ok (AnyDeposits (GetDepositList (rt_G h) params s)))"
| "answer_of h (WithdrawalsReq a p z d) s = bindR (QueryDWListParams (rt_address_String h) a p z d)
     (\<lambda>params. Ok (AnyWithdraws (GetWithdrawalList (rt_G h) params s)))"
| "answer_of h (DataStoreListReq p z d) s = bindR (QueryPageListParams p z d)
     (\<lambda>params. bindR (GetDataStoreList (rt_G h) params s) (\<lambda>v. Ok (AnyDataStores v)))"
| "answer_of h (DataStoreByIdReq i) s = bindR (QueryByIdParams i)
     (\<lambda>params. bindR (GetDataStoreById (rt_G h) params s) (\<lambda>v. Ok (AnyDataStore v)))"
| "answer_of h (DataStoreTxByIdReq i) s = bindR (QueryByIdParams i)
     (\<lambda>params. bindR (GetDataStoreBlockByDataStoreId (rt_G h) params s) (\<lambda>v. Ok (AnyBlocks v)))"
| "answer_of h (StateRootListReq p z d) s = bindR (QueryPageListParams p z d)
     (\<lambda>params. Ok (AnyStateRoots (GetStateRootList (rt_G h) params s)))"
| "answer_of h (StateRootByIndexReq i) s = bindR (QueryByIndexParams i)
     (\<lambda>params. bindR (GetStateRootByIndex (rt_G h) params s) (\<lambda>v. Ok (AnyStateRoot v)))"


section \<open>Keys\<close>

lemma split_at_mark:
  "c \<notin> set a \<Longrightarrow> c \<notin> set a' \<Longrightarrow> a @ c # x = a' @ c # x' \<longleftrightarrow> a = a' \<and> x = x'"
  by (induction a arbitrary: a') (case_tac a'; auto)+

lemma read_digits_chars: "read_digits acc s = Some n \<Longrightarrow> c \<in> set s \<Longrightarrow> digit_value c \<noteq> None"
  by (induction acc s rule: read_digits.induct) (auto split: option.splits)

lemma Atoi_chars: "Atoi s = Ok v \<Longrightarrow> c \<in> set s \<Longrightarrow> c = CHR ''-'' \<or> c = CHR ''+'' \<or> digit_value c \<noteq> None"
  using read_digits_chars
  by (fastforce simp: Atoi_def SetString_def read_decimal_def split: option.splits list.splits if_splits)

lemma no_digit: "digit_value CHR '','' = None"
  by (simp add: digit_value_def digits_def upt_rec)

lemma Atoi_no_comma: "Atoi s = Ok v \<Longrightarrow> CHR '','' \<notin> set s"
  using Atoi_chars[of s v "CHR '',''"] no_digit by auto

lemma hex_address_chars:
  assumes "QueryDWListParams f a p z d = Ok params"
  shows "CHR '','' \<notin> set a" "CHR '')'' \<notin> set a"
proof -
  have none: "hex_value CHR '','' = None" "hex_value CHR '')'' = None"
    by (simp_all add: hex_value_def hex_digits_def upt_rec)
  have "a = ''0x00'' \<or> IsHexAddress a"
    using assms by (auto simp: QueryDWListParams_def ParseValidateAddress_def split: if_splits)
  then have "CHR '','' \<notin> set a \<and> CHR '')'' \<notin> set a"
  proof
    assume h: "IsHexAddress a"
    show ?thesis
    proof (cases "HasPrefix a ''0x'' \<or> HasPrefix a ''0X''")
      case True
      then obtain c1 r1 where a: "a = c1 # r1" by (cases a) auto
      then obtain c2 r where r: "r1 = c2 # r" using True by (cases r1) auto
      have c: "c1 = CHR ''0''" "c2 = CHR ''x'' \<or> c2 = CHR ''X''" using True a r by auto
      have "list_all (\<lambda>c. hex_value c \<noteq> None) r" using h True a r by (simp add: IsHexAddress_def)
      then have "CHR '','' \<notin> set r" "CHR '')'' \<notin> set r" using none by (auto simp: list_all_iff)
      then show ?thesis using a r c by auto
    next
      case False
      then have "list_all (\<lambda>c. hex_value c \<noteq> None) a" using h by (simp add: IsHexAddress_def)
      then show ?thesis using none by (auto simp: list_all_iff)
    qed
  qed simp
  then show "CHR '','' \<notin> set a" "CHR '')'' \<notin> set a" by auto
qed

lemma dw_no_comma:
  assumes "QueryDWListParams f a p z d = Ok params"
  shows "CHR '','' \<notin> set p" "CHR '','' \<notin> set z"
  using assms by (auto simp: QueryDWListParams_def dest: Atoi_no_comma)

lemma page_no_comma:
  assumes "QueryPageListParams p z d = Ok params"
  shows "CHR '','' \<notin> set p" "CHR '','' \<notin> set z"
  using assms by (auto simp: QueryPageListParams_def dest: Atoi_no_comma)

lemma l1ToL2ListKey_inj:
  assumes "QueryDWListParams f a p z d = Ok x" "QueryDWListParams f a' p' z' d' = Ok x'"
    and "l1ToL2ListKey a p z d = l1ToL2ListKey a' p' z' d'"
  shows "a = a' \<and> p = p' \<and> z = z' \<and> d = d'"
  using assms(3) hex_address_chars(1)[OF assms(1)] hex_address_chars(1)[OF assms(2)] dw_no_comma[OF assms(1)] dw_no_comma[OF assms(2)]
  by (simp add: l1ToL2ListKey_def split_at_mark)

lemma l2ToL1ListKey_inj:
  assumes "QueryDWListParams f a p z d = Ok x" "QueryDWListParams f a' p' z' d' = Ok x'"
    and "l2ToL1ListKey a p z d = l2ToL1ListKey a' p' z' d'"
  shows "a = a' \<and> p = p' \<and> z = z' \<and> d = d'"
  using assms(3) hex_address_chars(2)[OF assms(1)] hex_address_chars(2)[OF assms(2)] dw_no_comma[OF assms(1)] dw_no_comma[OF assms(2)]
  by (simp add: l2ToL1ListKey_def split_at_mark)

lemma pageKey_inj:
  assumes "QueryPageListParams p z d = Ok x" "QueryPageListParams p' z' d' = Ok x'"
    and "pageKey name p z d = pageKey name p' z' d'"
  shows "p = p' \<and> z = z' \<and> d = d'"
  using assms(3) page_no_comma[OF assms(1)] page_no_comma[OF assms(2)]
  by (simp add: pageKey_def split_at_mark)

section \<open>What a cache holds\<close>

definition remembered :: "('q \<Rightarrow> string) \<Rightarrow> ('q \<Rightarrow> db \<Rightarrow> any_value result) \<Rightarrow> ('q \<times> db) set \<Rightarrow> (string \<rightharpoonup> any_value) \<Rightarrow> bool" where
  "remembered key answer H m = (\<forall>k v. m k = Some v \<longrightarrow> (\<exists>q s. (q, s) \<in> H \<and> key q = k \<and> answer q s = Ok v))"

text \<open>A route with a cache: keys tell the good requests apart, and only those have answers.\<close>

locale cached_route =
  fixes key :: "'q \<Rightarrow> string" and good :: "'q \<Rightarrow> bool" and answer :: "'q \<Rightarrow> db \<Rightarrow> any_value result"
  assumes key_inj: "good q \<Longrightarrow> good q' \<Longrightarrow> key q = key q' \<Longrightarrow> q = q'"
    and answer_good: "answer q s = Ok v \<Longrightarrow> good q"
begin

lemma hit: "remembered key answer H m \<Longrightarrow> good q \<Longrightarrow> m (key q) = Some v \<Longrightarrow> \<exists>s. (q, s) \<in> H \<and> answer q s = Ok v"
  unfolding remembered_def using key_inj answer_good by metis

lemma add: "remembered key answer H m \<Longrightarrow> answer q s = Ok v \<Longrightarrow> (q, s) \<in> H' \<Longrightarrow> H \<subseteq> H' \<Longrightarrow>
    remembered key answer H' (m(key q \<mapsto> v))"
  unfolding remembered_def by (metis fun_upd_apply option.inject subsetD)

lemma more: "remembered key answer H m \<Longrightarrow> H \<subseteq> H' \<Longrightarrow> remembered key answer H' m"
  unfolding remembered_def by blast

lemma gone: "remembered key answer H m \<Longrightarrow> remembered key answer H (\<lambda>k. if g k then None else m k)"
  unfolding remembered_def by (auto split: if_splits)

end


fun kind :: "request \<Rightarrow> nat" where
  "kind (DepositsReq a p z d) = 0" | "kind (WithdrawalsReq a p z d) = 1" | "kind (DataStoreListReq p z d) = 2"
| "kind (DataStoreByIdReq i) = 3" | "kind (DataStoreTxByIdReq i) = 4" | "kind (StateRootListReq p z d) = 5"
| "kind (StateRootByIndexReq i) = 6"

fun key_of :: "request \<Rightarrow> string" where
  "key_of (DepositsReq a p z d) = l1ToL2ListKey a p z d"
| "key_of (WithdrawalsReq a p z d) = l2ToL1ListKey a p z d"
| "key_of (DataStoreListReq p z d) = pageKey ''dataStoreList'' p z d"
| "key_of (DataStoreByIdReq i) = ''dataStore{id:'' @ i @ ''}''"
| "key_of (DataStoreTxByIdReq i) = ''dataStoreBlock{id:'' @ i @ ''}''"
| "key_of (StateRootListReq p z d) = pageKey ''stateRootList'' p z d"
| "key_of (StateRootByIndexReq i) = ''stateRootByIndex{index:'' @ i @ ''}''"

fun parsed :: "Routes \<Rightarrow> request \<Rightarrow> bool" where
  "parsed h (DepositsReq a p z d) = is_ok (QueryDWListParams (rt_address_String h) a p z d)"
| "parsed h (WithdrawalsReq a p z d) = is_ok (QueryDWListParams (rt_address_String h) a p z d)"
| "parsed h (DataStoreListReq p z d) = is_ok (QueryPageListParams p z d)"
| "parsed h (DataStoreByIdReq i) = is_ok (QueryByIdParams i)"
| "parsed h (DataStoreTxByIdReq i) = is_ok (QueryByIdParams i)"
| "parsed h (StateRootListReq p z d) = is_ok (QueryPageListParams p z d)"
| "parsed h (StateRootByIndexReq i) = is_ok (QueryByIndexParams i)"

definition lru_of :: "nat \<Rightarrow> LruCache \<Rightarrow> string \<rightharpoonup> any_value" where
  "lru_of n lc = [lruL1ToL2List lc, lruL2ToL1List lc, lruDataStoreList lc, lruDataStoreById lc, lruDataStoreBlockById lc,
     lruStateRootList lc, lruStateRootByIndex lc] ! n"

definition answer_kind :: "Routes \<Rightarrow> nat \<Rightarrow> request \<Rightarrow> db \<Rightarrow> any_value result" where
  "answer_kind h n q s = (if kind q = n then answer_of h q s else Err (Msg ''kind''))"

lemma is_ok_iff: "is_ok r \<longleftrightarrow> (\<exists>a. r = Ok a)"
  by (cases r) auto

lemma same_key:
  assumes "parsed h q" "parsed h q'" "kind q = kind q'" "key_of q = key_of q'"
  shows "q = q'"
proof (cases q)
  case (DepositsReq a p z d)
  then show ?thesis using assms by (cases q') (auto simp: is_ok_iff dest: l1ToL2ListKey_inj)
next
  case (WithdrawalsReq a p z d)
  then show ?thesis using assms by (cases q') (auto simp: is_ok_iff dest: l2ToL1ListKey_inj)
next
  case (DataStoreListReq p z d)
  then show ?thesis using assms by (cases q') (auto simp: is_ok_iff dest: pageKey_inj)
next
  case (StateRootListReq p z d)
  then show ?thesis using assms by (cases q') (auto simp: is_ok_iff dest: pageKey_inj)
qed (use assms in \<open>cases q'; simp\<close>)+

lemma answer_parsed: "answer_of h q s = Ok v \<Longrightarrow> parsed h q"
  by (cases q) (auto simp: is_ok_iff)

interpretation rc: cached_route key_of "\<lambda>q. parsed h q \<and> kind q = n" "answer_kind h n" for h n
  by unfold_locales (auto simp: answer_kind_def intro: same_key answer_parsed split: if_splits)

section \<open>One request\<close>

definition fills :: "request \<Rightarrow> any_value \<Rightarrow> LruCache \<Rightarrow> LruCache \<Rightarrow> bool" where
  "fills q v lc lc' = (\<forall>n < 7. lru_of n lc' = (if n = kind q then (lru_of n lc)(key_of q \<mapsto> v) else lru_of n lc))"

text \<open>The outcomes of a request: nothing is sent from the service, a cached value is sent, or a new answer.\<close>

definition outcome :: "Routes \<Rightarrow> request \<Rightarrow> db \<Rightarrow> LruCache \<Rightarrow> reply \<Rightarrow> LruCache \<Rightarrow> bool" where
  "outcome h q s lc r lc' =
     ((lc' = lc \<and> (\<forall>v. r \<noteq> Replied v))
      \<or> (\<exists>v. r = Replied v \<and> lc' = lc \<and> parsed h q \<and> lru_of (kind q) lc (key_of q) = Some v)
      \<or> (\<exists>v. r = Replied v \<and> answer_of h q s = Ok v \<and> (lc' = lc \<or> fills q v lc lc')))"

lemma less_7: "(\<forall>n < (7::nat). P n) \<longleftrightarrow> P 0 \<and> P 1 \<and> P 2 \<and> P 3 \<and> P 4 \<and> P 5 \<and> P 6"
proof -
  have "n < 7 \<Longrightarrow> n = 0 \<or> n = 1 \<or> n = 2 \<or> n = 3 \<or> n = 4 \<or> n = 5 \<or> n = (6::nat)" for n by presburger
  then show ?thesis by auto
qed

lemma serve_outcome:
  assumes "serve en cached body answer add lc = (r, lc')" "parsed h q"
    and "\<And>v. cached = Ok (Some v) \<Longrightarrow> lru_of (kind q) lc (key_of q) = Some (body v)"
    and "\<And>v. answer = Ok v \<Longrightarrow> answer_of h q s = Ok (body v)" "\<And>v. fills q (body v) lc (add v lc)"
  shows "outcome h q s lc r lc'"
proof (cases "if en then cached else Ok None")
  case (Ok c)
  show ?thesis
  proof (cases c)
    case None
    then show ?thesis using Ok assms by (cases answer; cases en) (auto simp: serve_def outcome_def)
  next
    case (Some v)
    then have "cached = Ok (Some v)" using Ok by (cases en) auto
    then show ?thesis using Ok Some assms(1-3) by (auto simp: serve_def outcome_def)
  qed
next
  case (Err e)
  then show ?thesis using assms by (cases answer; cases en) (auto simp: serve_def outcome_def)
next
  case (Panic p)
  then show ?thesis using assms(1) by (auto simp: serve_def outcome_def)
qed

lemma with_params_outcome:
  assumes "with_params params k lc = (r, lc')" "\<And>p. params = Ok p \<Longrightarrow> k p lc = (r, lc') \<Longrightarrow> outcome h q s lc r lc'"
  shows "outcome h q s lc r lc'"
  using assms by (cases params) (auto simp: with_params_def outcome_def)

lemmas lru_simps = lru_of_def fills_def less_7 AddDataStoreList_def AddL1ToL2List_def AddL2ToL1List_def AddStateRootList_def
  AddDataStoreById_def AddDataStoreBlockById_def AddStateRootByIndex_def

lemmas get_simps = lc_GetDataStoreList_def lc_GetL1ToL2List_def lc_GetL2ToL1List_def lc_GetStateRootList_def
  lc_GetDataStoreById_def lc_GetDataStoreBlockById_def lc_GetStateRootByIndex_def lru_get_def not_nil_def maybe_nil_def

lemma route_outcome:
  assumes "route h q s lc = (r, lc')"
  shows "outcome h q s lc r lc'"
proof (cases q)
  case (DepositsReq a p z d)
  show ?thesis
    using assms unfolding DepositsReq route.simps L1ToL2ListHandler_def Let_def
    by (elim with_params_outcome serve_outcome)
       (auto simp: lru_simps get_simps split: option.splits any_value.splits)
next
  case (WithdrawalsReq a p z d)
  show ?thesis
    using assms unfolding WithdrawalsReq route.simps L2ToL1ListHandler_def Let_def
    by (elim with_params_outcome serve_outcome)
       (auto simp: lru_simps get_simps split: option.splits any_value.splits)
next
  case (DataStoreListReq p z d)
  show ?thesis
    using assms unfolding DataStoreListReq route.simps DataStoreListHandler_def Let_def
    by (elim with_params_outcome serve_outcome)
       (auto simp: lru_simps get_simps split: option.splits any_value.splits)
next
  case (DataStoreByIdReq i)
  show ?thesis
    using assms unfolding DataStoreByIdReq route.simps DataStoreByIdHandler_def Let_def
    by (elim with_params_outcome serve_outcome)
       (auto simp: lru_simps get_simps split: option.splits any_value.splits)
next
  case (DataStoreTxByIdReq i)
  show ?thesis
    using assms unfolding DataStoreTxByIdReq route.simps DataStoreBlockByIDHandler_def Let_def
    by (elim with_params_outcome serve_outcome)
       (auto simp: lru_simps get_simps split: option.splits any_value.splits)
next
  case (StateRootByIndexReq i)
  show ?thesis
    using assms unfolding StateRootByIndexReq route.simps StateRootByIndexHandler_def Let_def
    by (elim with_params_outcome serve_outcome)
       (auto simp: lru_simps get_simps split: option.splits any_value.splits)
next
  case (StateRootListReq p z d)
  show ?thesis
    using assms unfolding StateRootListReq route.simps StateRootListHandler_def Let_def
  proof (elim with_params_outcome)
    fix params
    assume ok: "QueryPageListParams p z d = Ok params"
    let ?q = "StateRootListReq p z d" and ?c = "if rt_enableCache h then not_nil (lc_GetStateRootList lc (pageKey ''stateRootList'' p z d)) else Ok None"
    let ?serve = "serve (rt_enableCache h) (Ok None) AnyStateRoots (Ok (GetStateRootList (rt_G h) params s))
       (AddStateRootList (pageKey ''stateRootList'' p z d)) lc"
    assume run: "(case ?c of Ok None \<Rightarrow> ?serve | Ok (Some response) \<Rightarrow> (Replied (AnyStateRootPage response), lc)
       | Err x \<Rightarrow> ?serve | Panic x \<Rightarrow> (Recovered, lc)) = (r, lc')"
    have miss: "outcome h ?q s lc r lc'" if "?serve = (r, lc')"
      by (rule serve_outcome[OF that]) (auto simp: ok lru_simps)
    show "outcome h ?q s lc r lc'"
    proof (cases ?c)
      case (Ok c)
      show ?thesis
      proof (cases c)
        case None
        then show ?thesis using miss run Ok by simp
      next
        case (Some v)
        then have "lru_of 5 lc (key_of ?q) = Some (AnyStateRootPage v)"
          using Ok by (auto simp: get_simps lru_of_def split: option.splits any_value.splits if_splits)
        then show ?thesis using run Ok Some ok by (auto simp: outcome_def)
      qed
    next
      case (Err e)
      then show ?thesis using miss run by simp
    next
      case (Panic e)
      then show ?thesis using run by (auto simp: outcome_def)
    qed
  qed
qed


section \<open>Many requests\<close>

definition seen :: "(request \<times> db \<times> reply) list \<Rightarrow> (request \<times> db) set" where
  "seen tr = (\<lambda>(q, s, r). (q, s)) ` set tr"

definition coherent :: "Routes \<Rightarrow> (request \<times> db \<times> reply) list \<Rightarrow> LruCache \<Rightarrow> bool" where
  "coherent h tr lc = (\<forall>n < 7. remembered key_of (answer_kind h n) (seen tr) (lru_of n lc))"

lemma seen_snoc [simp]: "seen (tr @ [(q, s, r)]) = insert (q, s) (seen tr)"
  by (auto simp: seen_def)

lemma kind_less: "kind q < 7"
  by (cases q) auto

lemma route_coherent:
  assumes "coherent h tr lc" "route h q s lc = (r, lc')"
  shows "coherent h (tr @ [(q, s, r)]) lc' \<and> (\<forall>v. r = Replied v \<longrightarrow> (\<exists>s'. (q, s') \<in> insert (q, s) (seen tr) \<and> answer_of h q s' = Ok v))"
proof -
  have more: "coherent h (tr @ [(q, s, r)]) lc"
    using assms(1) by (auto simp: coherent_def intro: rc.more[where H = "seen tr"])
  from route_outcome[OF assms(2)] consider
      "lc' = lc" "\<forall>v. r \<noteq> Replied v"
    | v where "r = Replied v" "lc' = lc" "parsed h q" "lru_of (kind q) lc (key_of q) = Some v"
    | v where "r = Replied v" "answer_of h q s = Ok v" "lc' = lc \<or> fills q v lc lc'"
    unfolding outcome_def by blast
  then show ?thesis
  proof cases
    case 1
    then show ?thesis using more by simp
  next
    case (2 v)
    have "remembered key_of (answer_kind h (kind q)) (seen tr) (lru_of (kind q) lc)"
      using assms(1) kind_less by (simp add: coherent_def)
    from rc.hit[OF this _ 2(4)] have "\<exists>s'. (q, s') \<in> seen tr \<and> answer_kind h (kind q) q s' = Ok v" using 2(3) by simp
    then show ?thesis using 2 more by (auto simp: answer_kind_def)
  next
    case (3 v)
    have "coherent h (tr @ [(q, s, r)]) lc'"
    proof (cases "lc' = lc")
      case False
      then have f: "fills q v lc lc'" using 3(3) by blast
      show ?thesis
        unfolding coherent_def
      proof (intro allI impI)
        fix n :: nat assume n: "n < 7"
        have old: "remembered key_of (answer_kind h n) (seen tr) (lru_of n lc)" using assms(1) n by (simp add: coherent_def)
        show "remembered key_of (answer_kind h n) (seen (tr @ [(q, s, r)])) (lru_of n lc')"
        proof (cases "n = kind q")
          case True
          then have "answer_kind h n q s = Ok v" using 3(2) by (simp add: answer_kind_def)
          then show ?thesis using rc.add[OF old, of q s v "insert (q, s) (seen tr)"] f n True by (auto simp: fills_def)
        next
          case False
          then show ?thesis using rc.more[OF old] f n by (auto simp: fills_def)
        qed
      qed
    qed (use more in simp)
    then show ?thesis using 3 by auto
  qed
qed

lemma lru_drop_keys: "n < 7 \<Longrightarrow> lru_of n (drop_keys gone lc) = (\<lambda>k. if gone k then None else lru_of n lc k)"
proof -
  have "\<forall>n < 7. lru_of n (drop_keys gone lc) = (\<lambda>k. if gone k then None else lru_of n lc k)"
    unfolding less_7 by (auto simp: fun_eq_iff lru_of_def drop_keys_def Let_def)
  then show "n < 7 \<Longrightarrow> lru_of n (drop_keys gone lc) = (\<lambda>k. if gone k then None else lru_of n lc k)" by simp
qed

lemma run_coherent: "api_run h tr lc \<Longrightarrow> coherent h tr lc"
proof (induction rule: api_run.induct)
  case start
  have "\<forall>n < 7. lru_of n NewLruCache = Map.empty" unfolding less_7 by (simp add: lru_of_def NewLruCache_def)
  then show ?case by (simp add: coherent_def remembered_def)
next
  case (served tr lc q s r lc')
  then show ?case using route_coherent by blast
next
  case (dropped tr lc gone)
  then show ?case by (auto simp: coherent_def lru_drop_keys intro: rc.gone)
qed

lemma run_replies:
  assumes "api_run h tr lc" "i < length tr" "tr ! i = (q, s, Replied v)"
  shows "\<exists>s'. (q, s') \<in> seen (take (Suc i) tr) \<and> answer_of h q s' = Ok v"
  using assms
proof (induction arbitrary: i rule: api_run.induct)
  case (served tr lc q' s0 r lc')
  show ?case
  proof (cases "i < length tr")
    case True
    then show ?thesis using served.IH[of i] served.prems by (simp add: nth_append)
  next
    case False
    then have "i = length tr" "q' = q" "s0 = s" "r = Replied v" using served.prems by (auto simp: nth_append)
    then show ?thesis using route_coherent[OF run_coherent[OF served.hyps(1)] served.hyps(2)] by simp
  qed
qed simp_all

text \<open>C9: whatever sequence of requests the API has served, and whatever its caches have dropped in between, an
  answer it sends is what the service answers to this request on the database of this or of an earlier
  request of the sequence: no cache ever returns what belongs to another path or to other parameters.\<close>

theorem api_answers_coherent:
  assumes "api_run h tr lc" "i < length tr" "tr ! i = (q, s, Replied v)"
  shows "\<exists>j s' r'. j \<le> i \<and> tr ! j = (q, s', r') \<and> answer_of h q s' = Ok v"
proof -
  obtain s' where s': "(q, s') \<in> seen (take (Suc i) tr)" "answer_of h q s' = Ok v" using run_replies[OF assms] by blast
  then obtain r' where "(q, s', r') \<in> set (take (Suc i) tr)" by (auto simp: seen_def)
  then obtain j where "j < length (take (Suc i) tr)" "take (Suc i) tr ! j = (q, s', r')" by (metis in_set_conv_nth)
  then show ?thesis using s'(2) by (intro exI[of _ j] exI[of _ s'] exI[of _ r']) auto
qed

text \<open>With the cache enabled, a list of state roots is served once: as long as the cache keeps it, every
  further request for the same page panics, because the lookup asserts a type that is never added.\<close>

lemma state_roots_served_once:
  assumes "rt_enableCache h" "StateRootListHandler h p z d s lc = (Replied v, lc')"
    and "lruStateRootList lc (pageKey ''stateRootList'' p z d) = None"
  shows "StateRootListHandler h p z d s' lc' = (Recovered, lc')"
proof -
  let ?k = "pageKey ''stateRootList'' p z d"
  obtain params where params: "QueryPageListParams p z d = Ok params"
    using assms(2) by (cases "QueryPageListParams p z d") (auto simp: StateRootListHandler_def with_params_def)
  have lc': "lc' = AddStateRootList ?k (GetStateRootList (rt_G h) params s) lc"
    using assms params
    by (simp add: StateRootListHandler_def with_params_def Let_def serve_def lc_GetStateRootList_def lru_get_def not_nil_def)
  show ?thesis
    using assms(1) params
    by (simp add: StateRootListHandler_def with_params_def Let_def serve_def lc_GetStateRootList_def lru_get_def not_nil_def
        lc' AddStateRootList_def)
qed

text \<open>Whatever text a request carries, the service asks the tables for a page from the first one on, of 1 to
  1000 rows, in one of the four spellings of an order.\<close>

lemma page_bounds:
  assumes "QueryDWListParams f a p z d = Ok x"
  shows "1 \<le> qd_Page x \<and> qd_Page x < 2 ^ 63 \<and> 1 \<le> qd_PageSize x \<and> qd_PageSize x \<le> 1000
    \<and> qd_Order x \<in> {''asc'', ''ASC'', ''DESC'', ''desc''}"
proof -
  obtain pageInt sizeInt where x: "Atoi p = Ok pageInt" "qd_Page x = ValidatePage pageInt"
    "qd_PageSize x = ValidatePageSize sizeInt" "qd_Order x = ValidateOrder d"
    using assms by (auto simp: QueryDWListParams_def)
  have "pageInt < 2 ^ 63" using x(1) by (simp add: Atoi_def split: option.splits if_splits)
  then show ?thesis using x(2-4) by (simp add: ValidatePage_def ValidatePageSize_def ValidateOrder_def)
qed

definition sample_routes :: Routes where
  "sample_routes = \<lparr>rt_G = mem_gorms, rt_address_String = address_text, rt_enableCache = True\<rparr>"

lemma sample_query_number: "SetString ''1'' = Some 1" "SetString ''0'' = Some 0"
  by code_simp+

lemma sample_page: "QueryPageListParams ''1'' ''0'' ''up'' = Ok \<lparr>qp_Page = 1, qp_PageSize = 20, qp_Order = ''desc''\<rparr>"
  by (simp add: QueryPageListParams_def Atoi_def sample_query_number ValidatePage_def ValidatePageSize_def ValidateOrder_def)

lemma sample_reply:
  "\<exists>v lc. StateRootListHandler sample_routes ''1'' ''0'' ''up'' empty_db NewLruCache = (Replied v, lc)"
  by (simp add: StateRootListHandler_def with_params_def sample_page Let_def serve_def lc_GetStateRootList_def lru_get_def
      not_nil_def sample_routes_def NewLruCache_def)

theorem api_answers_coherent_witness:
  "\<exists>v. answer_of sample_routes (StateRootListReq ''1'' ''0'' ''up'') empty_db = Ok v"
proof -
  let ?q = "StateRootListReq ''1'' ''0'' ''up''"
  obtain v lc where r: "route sample_routes ?q empty_db NewLruCache = (Replied v, lc)" using sample_reply by auto
  have "api_run sample_routes ([] @ [(?q, empty_db, Replied v)]) lc" by (rule api_run.served[OF api_run.start r])
  from api_answers_coherent[OF this, of 0 ?q empty_db v] show ?thesis by auto
qed

end
