(* ===== verification/Commands.thy ===== *)
theory Commands
  imports Service Api
begin


text \<open>
  cmd/lithosphere/cli.go with common/cliapp/lifecycle.go, api/api.go, api/common/httputil/server.go and the connection
  and the migrations of database/db.go: the commands of the program.  A command constructs a service, starts it,
  waits until its context ends, and stops it; the locale \<open>lifecycle\<close> is the interface of the services.
\<close>

section \<open>The life cycle of a command\<close>

text \<open>What happens around the service: the cause of the context's end when the construction or the start fails, whether
  the context ends while the service runs (by a signal or by the service's own request), and whether
  another signal comes while the service is being stopped.\<close>

record command_env =
  cm_setup_cause :: "error option"
  cm_start_cause :: "error option"
  cm_ends :: bool
  cm_interrupted :: bool

definition interruptErr :: error where "interruptErr = Msg ''interrupt signal''"
definition Canceled :: error where "Canceled = Msg ''context canceled''"

text \<open>errors.Join drops a nil error.\<close>

definition join_cause :: "error \<Rightarrow> error option \<Rightarrow> error" where
  "join_cause e cause = Join (e # (case cause of None \<Rightarrow> [] | Some c \<Rightarrow> [c]))"

definition stop_cause :: "command_env \<Rightarrow> error" where
  "stop_cause E = (if cm_interrupted E then interruptErr else Canceled)"

text \<open>The error of the context that Stop receives.\<close>

definition stop_error :: "command_env \<Rightarrow> error option" where
  "stop_error E = (if cm_interrupted E then Some Canceled else None)"

text \<open>\<open>meanwhile\<close> is what the service does between its start and its stop.\<close>

definition lifecycleCmd :: "command_env \<Rightarrow> unit result returns \<times> 's \<Rightarrow> ('s \<Rightarrow> unit result returns \<times> 's) \<Rightarrow> ('s \<Rightarrow> 's)
    \<Rightarrow> (error option \<Rightarrow> 's \<Rightarrow> unit result returns \<times> 's) \<Rightarrow> unit result returns \<times> 's" where
  "lifecycleCmd E made start meanwhile stop =
     (case made of
        (Returns (Ok u), s) \<Rightarrow>
          (case start s of
             (Returns (Ok u), s1) \<Rightarrow>
               if \<not> cm_ends E then (Hangs, s1)
               else (case stop (stop_error E) (meanwhile s1) of
                  (Returns (Err e), s2) \<Rightarrow> (Returns (Err (join_cause (Wrap ''failed to stop'' e) (Some (stop_cause E)))), s2)
                | r \<Rightarrow> r)
           | (Returns (Err e), s1) \<Rightarrow> (Returns (Err (join_cause (Wrap ''failed to start'' e) (cm_start_cause E))), s1)
           | r \<Rightarrow> r)
      | (Returns (Err e), s) \<Rightarrow> (Returns (Err (join_cause (Wrap ''failed to setup'' e) (cm_setup_cause E))), s)
      | r \<Rightarrow> r)"

text \<open>What a command relies on: a service that has stopped without an error says so and has closed its parts.\<close>

locale lifecycle =
  fixes start :: "'s \<Rightarrow> unit result returns \<times> 's"
    and stop :: "error option \<Rightarrow> 's \<Rightarrow> unit result returns \<times> 's"
    and closed :: "'s \<Rightarrow> bool"
  assumes stop_closes: "stop c s = (Returns (Ok ()), t) \<Longrightarrow> closed t"
begin

text \<open>A command that ends without an error has closed its service.\<close>

lemma success_closed:
  assumes "lifecycleCmd E made start meanwhile stop = (Returns (Ok ()), t)"
  shows "closed t"
proof -
  have "\<exists>c s. stop c s = (Returns (Ok ()), t)"
    using assms by (auto simp: lifecycleCmd_def split: prod.splits returns.splits result.splits if_splits)
  then show ?thesis using stop_closes by blast
qed

text \<open>A service that fails to start is not stopped.\<close>

lemma failed_start_keeps:
  assumes "start s = (Returns (Err e), s1)"
  shows "lifecycleCmd E (Returns (Ok ()), s) start meanwhile stop
    = (Returns (Err (join_cause (Wrap ''failed to start'' e) (cm_start_cause E))), s1)"
  using assms by (simp add: lifecycleCmd_def)

end

section \<open>Addresses\<close>

text \<open>common.ParseAddress.\<close>

definition ParseAddress :: "string \<Rightarrow> address result" where
  "ParseAddress s = (if IsHexAddress s then Ok (HexToAddress s) else Err (Msg (''invalid address: '' @ s)))"

section \<open>The database\<close>

definition dsn_of :: "DBConfig \<Rightarrow> string" where
  "dsn_of c = ''host='' @ dc_Host c @ '' dbname='' @ dc_Name c @ '' sslmode=disable''
     @ (if dc_Port c \<noteq> 0 then '' port='' @ int_String (dc_Port c) else [])
     @ (if dc_User c \<noteq> [] then '' user='' @ dc_User c else [])
     @ (if dc_Password c \<noteq> [] then '' password='' @ dc_Password c else [])"

text \<open>NewDB makes ten attempts; opening a connection is a parameter, and so are the draws of the waits.\<close>

definition NewDB :: "(int \<Rightarrow> nat) \<Rightarrow> (string \<Rightarrow> nat \<Rightarrow> ('s, 'd) go) \<Rightarrow> DBConfig \<Rightarrow> 's \<Rightarrow> 'd result \<times> int list \<times> 's" where
  "NewDB draws connect c =
     retry_Do (\<lambda>_. None) 10
       (\<lambda>a. ExponentialStrategy_Duration \<lparr>es_Min = 1000, es_Max = 20000, es_MaxJitter = 250\<rparr> (draws a) a)
       (\<lambda>i. mapErrG (Wrap ''failed to connect to database'') (connect (dsn_of c) i))"

text \<open>What the walk over the folder of migrations meets, in its order.\<close>

datatype walk_entry = WalkError error | Directory | SqlFile "string result"

fun ExecuteSQLMigration :: "(string \<Rightarrow> ('s, unit) go) \<Rightarrow> (string \<times> walk_entry) list \<Rightarrow> ('s, unit) go" where
  "ExecuteSQLMigration exec [] = retG ()"
| "ExecuteSQLMigration exec ((path, entry) # rest) = thenG
     (case entry of
        WalkError e \<Rightarrow> errG (Wrap (''Failed to process migration file: '' @ path) e)
      | Directory \<Rightarrow> retG ()
      | SqlFile content \<Rightarrow>
          bindG (liftR (mapErr (Wrap (''Error reading SQL file: '' @ path)) content)) (\<lambda>sql.
            mapErrG (Wrap (''Error executing SQL script: '' @ path)) (exec sql)))
     (ExecuteSQLMigration exec rest)"

section \<open>The API\<close>

record API =
  ap_router :: "(Routes \<times> LruCache) option"
  ap_apiServer :: "bool option"
  ap_metricsServer :: "bool option"
  ap_db :: "bool option"
  ap_stopped :: bool

definition empty_api :: API where
  "empty_api = \<lparr>ap_router = None, ap_apiServer = None, ap_metricsServer = None, ap_db = None, ap_stopped = False\<rparr>"

text \<open>What connecting and listening answers, and the checksummed text of addresses.\<close>

record api_env =
  ae_DB :: "DBConfig \<Rightarrow> gorms result"
  ae_metricsServer :: "ServerConfig \<Rightarrow> unit result"
  ae_httpServer :: "ServerConfig \<Rightarrow> unit result"
  ae_String :: "address \<Rightarrow> string"

definition API_initFromConfig :: "api_env \<Rightarrow> AppConfig \<Rightarrow> (API \<times> db, unit) go" where
  "API_initFromConfig I cfg =
     init_part ''failed to init DB'' (\<lambda>_. ae_DB I (if \<not> cf_SlaveDbEnable cfg then cf_MasterDB cfg else cf_SlaveDB cfg))
       (\<lambda>_ a. a\<lparr>ap_db := Some True\<rparr>) (\<lambda>G.
     init_part ''failed to start metrics server'' (\<lambda>_. mapErr (Wrap ''failed to start metrics server'') (ae_metricsServer I (cf_MetricsServer cfg)))
       (\<lambda>_ a. a\<lparr>ap_metricsServer := Some True,
                ap_router := Some (\<lparr>rt_G = G, rt_address_String = ae_String I, rt_enableCache = cf_ApiCacheEnable cfg\<rparr>, NewLruCache)\<rparr>) (\<lambda>_.
     init_part ''failed to start API server'' (\<lambda>_. mapErr (Wrap ''failed to start API server'') (ae_httpServer I (cf_HTTPServer cfg)))
       (\<lambda>_ a. a\<lparr>ap_apiServer := Some True\<rparr>) (\<lambda>_. retG ())))"

text \<open>HTTPServer.Stop: the server is closed by force when the shutdown ends with the error of its context. The shutdown waits
  until every connection is idle or its context ends, and that context has no deadline: it may never return. Closing by force
  does not wait.\<close>

record http_closing =
  hl_Shutdown :: "unit result returns"
  hl_Close :: "unit result"

definition HTTPServer_Stop :: "http_closing \<Rightarrow> error option \<Rightarrow> unit result returns" where
  "HTTPServer_Stop h ctx_Err =
     (case hl_Shutdown h of
        Returns (Err e) \<Rightarrow> (case ctx_Err of
            Some c \<Rightarrow> if errors_Is e c then Returns (hl_Close h) else Returns (Err e)
          | None \<Rightarrow> Returns (Err e))
      | r \<Rightarrow> r)"

record api_closers =
  ak_apiServer :: http_closing
  ak_metricsServer :: http_closing
  ak_db :: "unit result returns"

definition API_Stop :: "api_closers \<Rightarrow> error option \<Rightarrow> API \<Rightarrow> unit result returns \<times> API" where
  "API_Stop C ctx_Err a0 =
     (let (r, x) = close_resource (HTTPServer_Stop (ak_apiServer C) ctx_Err) (ap_apiServer a0) in
      stop_part ''failed to stop API server'' (r, a0\<lparr>ap_apiServer := x\<rparr>) None (\<lambda>res a.
      let (r, x) = close_resource (HTTPServer_Stop (ak_metricsServer C) ctx_Err) (ap_metricsServer a) in
      stop_part ''failed to stop metrics server'' (r, a\<lparr>ap_metricsServer := x\<rparr>) res (\<lambda>res a.
      let (r, x) = close_resource (ak_db C) (ap_db a) in
      stop_part ''failed to close DB'' (r, a\<lparr>ap_db := x\<rparr>) res (\<lambda>res a.
      (Returns (as_result res), a\<lparr>ap_stopped := True\<rparr>)))))"

definition NewApi :: "api_env \<Rightarrow> api_closers \<Rightarrow> error option \<Rightarrow> AppConfig \<Rightarrow> db \<Rightarrow> unit result returns \<times> API" where
  "NewApi I C ctx_Err cfg d =
     (case API_initFromConfig I cfg (empty_api, d) of
        (Ok u, (a, d')) \<Rightarrow> (Returns (Ok ()), a)
      | (Panic p, (a, d')) \<Rightarrow> (Returns (Panic p), a)
      | (Err e, (a, d')) \<Rightarrow>
          (case API_Stop C ctx_Err a of
             (Returns (Ok u), a') \<Rightarrow> (Returns (Err (Join [e])), a')
           | (Returns (Err e'), a') \<Rightarrow> (Returns (Err (Join [e, e'])), a')
           | r \<Rightarrow> r))"

definition API_Start :: "API \<Rightarrow> unit result returns \<times> API" where
  "API_Start a = (Returns (Ok ()), a)"

section \<open>The exporter\<close>

text \<open>Start prints the version and ends the process, or starts the loops and listens; http.ListenAndServe returns with an
  error or not at all, and log.Fatal ends the process.\<close>

definition Exporter_Start :: "ExporterConfig \<Rightarrow> unit result \<Rightarrow> error option \<Rightarrow> Exporter \<Rightarrow> unit result returns \<times> Exporter" where
  "Exporter_Start cfg k8s_client listen er =
     (if xc_Version cfg then (Exits 0, er)
      else case exporter_loops cfg k8s_client of
          Err e \<Rightarrow> (Exits 1, er)
        | Panic p \<Rightarrow> (Returns (Panic p), er)
        | Ok loops \<Rightarrow> (case listen of None \<Rightarrow> (Hangs, er) | Some e \<Rightarrow> (Exits 1, er)))"

definition NewExporter :: "bool \<Rightarrow> Exporter" where
  "NewExporter db = \<lparr>ex_has_db = db, ex_stopped = False\<rparr>"

section \<open>The commands\<close>

definition runIndexer :: "init_env \<Rightarrow> closers \<Rightarrow> cli_context \<Rightarrow> db \<Rightarrow> unit result returns \<times> (Lithosphere \<times> db)" where
  "runIndexer I C ctx d = (let ((r, s), d') = NewLithosphere I C (LoadAppConfig ctx) d in (r, (s, d')))"

definition runApi :: "api_env \<Rightarrow> api_closers \<Rightarrow> error option \<Rightarrow> cli_context \<Rightarrow> db \<Rightarrow> unit result returns \<times> API" where
  "runApi I C ctx_Err ctx = NewApi I C ctx_Err (LoadAppConfig ctx)"

definition runExporter :: "(DBConfig \<Rightarrow> unit result) \<Rightarrow> cli_context \<Rightarrow> unit result returns \<times> Exporter" where
  "runExporter connect ctx =
     (case connect (cf_MasterDB (LoadAppConfig ctx)) of
        Ok u \<Rightarrow> (Returns (Ok ()), NewExporter True)
      | Err e \<Rightarrow> (Returns (Err e), NewExporter False)
      | Panic p \<Rightarrow> (Returns (Panic p), NewExporter False))"

definition Lithosphere_start :: "start_env \<Rightarrow> Lithosphere \<times> db \<Rightarrow> unit result returns \<times> (Lithosphere \<times> db)" where
  "Lithosphere_start S x = (let (r, y) = Lithosphere_Start S x in (Returns r, y))"

definition Lithosphere_stop :: "closers \<Rightarrow> error option \<Rightarrow> Lithosphere \<times> db \<Rightarrow> unit result returns \<times> (Lithosphere \<times> db)" where
  "Lithosphere_stop C ctx_Err x = (let (r, s) = Lithosphere_Stop C (fst x) in (r, (s, snd x)))"

definition index_command :: "command_env \<Rightarrow> init_env \<Rightarrow> closers \<Rightarrow> start_env \<Rightarrow> (Lithosphere \<times> db \<Rightarrow> Lithosphere \<times> db)
    \<Rightarrow> cli_context \<Rightarrow> db \<Rightarrow> unit result returns \<times> (Lithosphere \<times> db)" where
  "index_command E I C S meanwhile ctx d =
     lifecycleCmd E (runIndexer I C ctx d) (Lithosphere_start S) meanwhile (Lithosphere_stop C)"

definition api_command :: "command_env \<Rightarrow> api_env \<Rightarrow> api_closers \<Rightarrow> (API \<Rightarrow> API) \<Rightarrow> cli_context \<Rightarrow> db \<Rightarrow> unit result returns \<times> API" where
  "api_command E I C meanwhile ctx d = lifecycleCmd E (runApi I C (map_option (\<lambda>_. Canceled) (cm_setup_cause E)) ctx d) API_Start meanwhile (API_Stop C)"

definition exporter_command :: "command_env \<Rightarrow> (DBConfig \<Rightarrow> unit result) \<Rightarrow> unit result \<Rightarrow> unit result \<Rightarrow> error option
    \<Rightarrow> cli_context \<Rightarrow> unit result returns \<times> Exporter" where
  "exporter_command E connect close_db k8s_client listen ctx =
     lifecycleCmd E (runExporter connect ctx)
       (Exporter_Start (cf_ExporterConfig (LoadAppConfig ctx)) k8s_client listen) (\<lambda>er. er)
       (\<lambda>_ er. let (r, er') = Exporter_Stop close_db er in (Returns r, er'))"

text \<open>The migrations are run on the master database, which is closed in any case.\<close>

definition runMigrations :: "('s, 'd) go \<Rightarrow> (string \<Rightarrow> ('s, unit) go) \<Rightarrow> (string \<Rightarrow> (string \<times> walk_entry) list) \<Rightarrow> cli_context \<Rightarrow> ('s, unit) go" where
  "runMigrations connect exec walk ctx = bindG connect (\<lambda>_. ExecuteSQLMigration exec (walk (cf_Migrations (LoadAppConfig ctx))))"


section \<open>Stopping without an error\<close>

lemma stop_part_Ok:
  assumes "stop_part msg part res k = (Returns (Ok ()), t)"
  shows "\<exists>res'. k res' (snd part) = (Returns (Ok ()), t)"
  using assms by (auto simp: stop_part_def split: prod.splits returns.splits result.splits)

lemma stop_servers_Ok: "stop_servers C res s = (Returns (Ok ()), t) \<Longrightarrow> all_closed t"
  unfolding stop_servers_def case_prod_unfold Let_def
  by (drule stop_part_Ok, clarsimp, drule stop_part_Ok, clarsimp, drule stop_part_Ok, clarsimp simp: all_closed_def close_resource_closed)
    (simp add: closed_part_def close_clients_def)

lemma Lithosphere_Stop_Ok: "Lithosphere_Stop C s = (Returns (Ok ()), t) \<Longrightarrow> all_closed t"
  unfolding Lithosphere_Stop_halves
  by (drule stop_part_Ok, clarsimp, drule stop_part_Ok, clarsimp, drule stop_part_Ok, clarsimp, drule stop_part_Ok, clarsimp,
      rule stop_servers_Ok)

definition api_closed :: "API \<Rightarrow> bool" where
  "api_closed a = (closed_part (ap_apiServer a) \<and> closed_part (ap_metricsServer a) \<and> closed_part (ap_db a) \<and> ap_stopped a)"

lemma API_Stop_Ok: "API_Stop C c a = (Returns (Ok ()), t) \<Longrightarrow> api_closed t"
  unfolding API_Stop_def case_prod_unfold Let_def
  by (drule stop_part_Ok, clarsimp, drule stop_part_Ok, clarsimp, drule stop_part_Ok, clarsimp simp: api_closed_def close_resource_closed)

interpretation index: lifecycle "Lithosphere_start S" "Lithosphere_stop C" "\<lambda>x. all_closed (fst x)" for S C
  by unfold_locales (auto simp: Lithosphere_stop_def Let_def case_prod_unfold prod_eq_iff intro: Lithosphere_Stop_Ok)

interpretation api: lifecycle API_Start "API_Stop C" api_closed for C
  by unfold_locales (rule API_Stop_Ok)

interpretation exporter: lifecycle "Exporter_Start cfg k8s listen" "\<lambda>c er. let (r, er') = Exporter_Stop close_db er in (Returns r, er')"
    "ex_stopped" for cfg k8s listen close_db
  by unfold_locales (auto simp: Exporter_Stop_def case_prod_unfold Let_def split: result.splits if_splits)

section \<open>Stopping the API\<close>

text \<open>The closings return or wait for ever, and do not panic.\<close>

definition closing_waits :: "unit result returns \<Rightarrow> bool" where
  "closing_waits a = (a = Hangs \<or> closing_returns a)"

definition api_closing :: "api_closers \<Rightarrow> bool" where
  "api_closing C = (closing_waits (hl_Shutdown (ak_apiServer C)) \<and> (\<forall>p. hl_Close (ak_apiServer C) \<noteq> Panic p)
     \<and> closing_waits (hl_Shutdown (ak_metricsServer C)) \<and> (\<forall>p. hl_Close (ak_metricsServer C) \<noteq> Panic p)
     \<and> closing_waits (ak_db C))"

definition api_waits :: "api_closers \<Rightarrow> bool" where
  "api_waits C = (hl_Shutdown (ak_apiServer C) = Hangs \<or> hl_Shutdown (ak_metricsServer C) = Hangs \<or> ak_db C = Hangs)"

lemma HTTPServer_Stop_answers:
  assumes "closing_waits (hl_Shutdown h)" "\<And>p. hl_Close h \<noteq> Panic p"
  shows "closing_waits (HTTPServer_Stop h c)" "HTTPServer_Stop h c = Hangs \<longleftrightarrow> hl_Shutdown h = Hangs"
  using assms
  by (auto simp: HTTPServer_Stop_def closing_waits_def closing_returns_def split: returns.splits result.splits option.splits)

lemma closing_cases:
  assumes "closing_waits a"
  obtains "a = Hangs" | "a = Returns (Ok ())" | e where "a = Returns (Err e)"
  using assms by (auto simp: closing_waits_def closing_returns_def split: returns.splits result.splits)

text \<open>What Stop answers when every part is open: nothing when one of the closings waits for ever, an error exactly when one
  of them fails.\<close>

lemma API_Stop_answer:
  assumes "api_closing C" "ap_apiServer a = Some b1" "ap_metricsServer a = Some b2" "ap_db a = Some b3" "\<not> ap_stopped a"
  shows "if api_waits C then \<exists>t. API_Stop C c a = (Hangs, t) \<and> \<not> ap_stopped t
    else \<exists>r t. API_Stop C c a = (Returns r, t) \<and> api_closed t \<and> (\<forall>p. r \<noteq> Panic p)
      \<and> (r = Ok () \<longleftrightarrow> HTTPServer_Stop (ak_apiServer C) c = Returns (Ok ())
           \<and> HTTPServer_Stop (ak_metricsServer C) c = Returns (Ok ()) \<and> ak_db C = Returns (Ok ()))"
proof -
  let ?a = "HTTPServer_Stop (ak_apiServer C) c" and ?m = "HTTPServer_Stop (ak_metricsServer C) c" and ?d = "ak_db C"
  have w: "closing_waits ?a" "closing_waits ?m" "closing_waits ?d" and h: "api_waits C \<longleftrightarrow> ?a = Hangs \<or> ?m = Hangs \<or> ?d = Hangs"
    using assms(1) HTTPServer_Stop_answers[of "ak_apiServer C" c] HTTPServer_Stop_answers[of "ak_metricsServer C" c]
    by (simp_all add: api_closing_def api_waits_def)
  show ?thesis
    unfolding h
    by (rule closing_cases[OF w(1)]; rule closing_cases[OF w(2)]; rule closing_cases[OF w(3)])
      (simp_all add: API_Stop_def assms(2-5) close_resource_def stop_part_def api_closed_def closed_part_def as_result_def join_err_def)
qed

lemma API_made:
  assumes "runApi I C c ctx d = (Returns (Ok ()), a)"
  shows "ap_apiServer a = Some True" "ap_metricsServer a = Some True" "ap_db a = Some True" "\<not> ap_stopped a"
  using assms
  by (auto simp: runApi_def NewApi_def API_initFromConfig_def init_part_def retG_def empty_api_def split: result.splits prod.splits returns.splits)

section \<open>Properties\<close>

text \<open>C21: once its context has ended, the command that runs the API waits for ever if the shutdown of one of the two servers or
  the closing of the database does, since the stop has no deadline. Otherwise it ends, whatever they answer short of a panic, with
  all of them closed, and without an error exactly when each of them was closed without one.\<close>

theorem api_command_ends:
  assumes "runApi I C (map_option (\<lambda>_. Canceled) (cm_setup_cause E)) ctx d = (Returns (Ok ()), a)" "cm_ends E" "api_closing C"
    and "meanwhile a = a\<lparr>ap_router := rt\<rparr>"
  shows "if hl_Shutdown (ak_apiServer C) = Hangs \<or> hl_Shutdown (ak_metricsServer C) = Hangs \<or> ak_db C = Hangs
    then \<exists>t. api_command E I C meanwhile ctx d = (Hangs, t) \<and> \<not> ap_stopped t
    else \<exists>r t. api_command E I C meanwhile ctx d = (Returns r, t) \<and> api_closed t
      \<and> (r = Ok () \<longleftrightarrow> HTTPServer_Stop (ak_apiServer C) (stop_error E) = Returns (Ok ())
           \<and> HTTPServer_Stop (ak_metricsServer C) (stop_error E) = Returns (Ok ()) \<and> ak_db C = Returns (Ok ()))"
proof -
  have run: "api_command E I C meanwhile ctx d = (case API_Stop C (stop_error E) (a\<lparr>ap_router := rt\<rparr>) of
      (Returns (Err e), s2) \<Rightarrow> (Returns (Err (join_cause (Wrap ''failed to stop'' e) (Some (stop_cause E)))), s2) | r \<Rightarrow> r)"
    by (simp add: api_command_def lifecycleCmd_def assms API_Start_def)
  note stop = API_Stop_answer[OF assms(3), of "a\<lparr>ap_router := rt\<rparr>" True True True "stop_error E", unfolded api_waits_def]
  show ?thesis
  proof (cases "hl_Shutdown (ak_apiServer C) = Hangs \<or> hl_Shutdown (ak_metricsServer C) = Hangs \<or> ak_db C = Hangs")
    case True
    then show ?thesis using stop API_made[OF assms(1)] unfolding run by auto
  next
    case False
    then obtain r t where "API_Stop C (stop_error E) (a\<lparr>ap_router := rt\<rparr>) = (Returns r, t)" "api_closed t" "\<forall>p. r \<noteq> Panic p"
      "r = Ok () \<longleftrightarrow> HTTPServer_Stop (ak_apiServer C) (stop_error E) = Returns (Ok ())
           \<and> HTTPServer_Stop (ak_metricsServer C) (stop_error E) = Returns (Ok ()) \<and> ak_db C = Returns (Ok ())"
      using stop API_made[OF assms(1)] by auto
    then show ?thesis using False unfolding run by (cases r) simp_all
  qed
qed

text \<open>C7: the command that runs the indexer never ends once it has started the service: no signal, and no request of the service
  itself, ends it while a task of its two processors runs.  The database, the servers and the clients stay open.\<close>

theorem index_command_never_ends:
  assumes "runIndexer I C ctx d = (Returns (Ok ()), x0)" "Lithosphere_start S x0 = (Returns (Ok ()), x1)"
    and "fst (meanwhile x1) = (fst x1)\<lparr>li_BridgeProcessor := Some (p, ts), li_BusinessProcessor := Some (p', ts')\<rparr>"
    and "Running \<in> set ts \<union> set ts'"
  shows "\<exists>t. index_command E I C S meanwhile ctx d = (Hangs, t) \<and> li_DB (fst t) = Some True \<and> li_apiServer (fst t) = Some True
    \<and> li_metricsServer (fst t) = Some True \<and> \<not> li_stopped (fst t)"
proof -
  obtain s0 d0 s1 d1 where x: "x0 = (s0, d0)" "x1 = (s1, d1)" by (cases x0, cases x1)
  have made: "NewLithosphere I C (LoadAppConfig ctx) d = ((Returns (Ok ()), s0), d0)"
    using assms(1) x by (auto simp: runIndexer_def case_prod_unfold Let_def prod_eq_iff)
  have start: "Lithosphere_Start S (s0, d0) = (Ok (), (s1, d1))"
    using assms(2) x by (auto simp: Lithosphere_start_def case_prod_unfold Let_def prod_eq_iff)
  let ?s = "s1\<lparr>li_BridgeProcessor := Some (p, ts), li_BusinessProcessor := Some (p', ts')\<rparr>"
  note never = running_service_never_stops[OF made start assms(4) refl, where p = p and p' = p']
  have s1: "li_DB s1 = Some True" "li_apiServer s1 = Some True" "li_metricsServer s1 = Some True" "\<not> li_stopped s1"
    using Lithosphere_Start_running[OF start NewLithosphere_complete[OF made]] NewLithosphere_complete[OF made]
    by (simp_all add: running_service_def kept_open_def complete_service_def fresh_service_def)
  obtain t where t: "Lithosphere_Stop C ?s = (Hangs, t)" "li_DB t = Some True" "li_apiServer t = Some True"
    "li_metricsServer t = Some True" "\<not> li_stopped t" using never by auto
  show ?thesis
    using assms(1-3) x s1 t
    by (simp add: index_command_def lifecycleCmd_def Lithosphere_stop_def case_prod_unfold Let_def)
qed

text \<open>When the command that runs the indexer does end without an error, it had closed everything it opened.\<close>

lemma index_success_closed:
  assumes "index_command E I C S meanwhile ctx d = (Returns (Ok ()), t)"
  shows "all_closed (fst t)"
  using assms unfolding index_command_def by (rule index.success_closed)

section \<open>Witnesses\<close>

definition sample_api :: api_env where
  "sample_api = \<lparr>ae_DB = (\<lambda>_. Ok mem_gorms), ae_metricsServer = (\<lambda>_. Ok ()), ae_httpServer = (\<lambda>_. Ok ()), ae_String = (\<lambda>_. [])\<rparr>"

definition sample_api_closers :: "unit result returns \<Rightarrow> api_closers" where
  "sample_api_closers shutdown = \<lparr>ak_apiServer = \<lparr>hl_Shutdown = shutdown, hl_Close = Ok ()\<rparr>,
     ak_metricsServer = \<lparr>hl_Shutdown = Returns (Ok ()), hl_Close = Ok ()\<rparr>, ak_db = Returns (Ok ())\<rparr>"

text \<open>The shutdown is cut short by a second signal, and the server is closed by force.\<close>

definition twice_interrupted :: command_env where
  "twice_interrupted = \<lparr>cm_setup_cause = None, cm_start_cause = None, cm_ends = True, cm_interrupted = True\<rparr>"

lemma sample_api_made:
  "\<exists>a. runApi sample_api C (map_option (\<lambda>_. Canceled) (cm_setup_cause twice_interrupted)) sample_context empty_db = (Returns (Ok ()), a)"
  by (simp add: runApi_def NewApi_def API_initFromConfig_def init_part_def retG_def sample_api_def)

text \<open>Without a second signal, a shutdown that waits keeps the command waiting.\<close>

definition once_interrupted :: command_env where
  "once_interrupted = twice_interrupted\<lparr>cm_interrupted := False\<rparr>"

theorem api_command_ends_witness:
  "(\<exists>t. api_command twice_interrupted sample_api (sample_api_closers (Returns (Err Canceled))) (\<lambda>a. a) sample_context empty_db
     = (Returns (Ok ()), t) \<and> api_closed t)
   \<and> (\<exists>t. api_command once_interrupted sample_api (sample_api_closers Hangs) (\<lambda>a. a) sample_context empty_db = (Hangs, t))"
proof
  have ends: "cm_ends twice_interrupted" "stop_error twice_interrupted = Some Canceled"
    by (simp_all add: twice_interrupted_def stop_error_def)
  have same: "a = a\<lparr>ap_router := ap_router a\<rparr>" for a :: API by simp
  let ?C = "sample_api_closers (Returns (Err Canceled))"
  obtain a where a: "runApi sample_api ?C (map_option (\<lambda>_. Canceled) (cm_setup_cause twice_interrupted)) sample_context empty_db
     = (Returns (Ok ()), a)" using sample_api_made by blast
  have closing: "api_closing ?C" by (simp add: api_closing_def closing_waits_def closing_returns_def sample_api_closers_def)
  show "\<exists>t. api_command twice_interrupted sample_api ?C (\<lambda>a. a) sample_context empty_db = (Returns (Ok ()), t) \<and> api_closed t"
    using api_command_ends[where meanwhile = "\<lambda>a. a", OF a ends(1) closing same]
    by (auto simp: ends(2) HTTPServer_Stop_def sample_api_closers_def Canceled_def)
  let ?H = "sample_api_closers Hangs"
  have once: "cm_setup_cause once_interrupted = cm_setup_cause twice_interrupted" "cm_ends once_interrupted"
    by (simp_all add: once_interrupted_def twice_interrupted_def)
  obtain b where b: "runApi sample_api ?H (map_option (\<lambda>_. Canceled) (cm_setup_cause once_interrupted)) sample_context empty_db
     = (Returns (Ok ()), b)" using sample_api_made unfolding once(1) by blast
  have "api_closing ?H" by (simp add: api_closing_def closing_waits_def closing_returns_def sample_api_closers_def)
  from api_command_ends[where meanwhile = "\<lambda>a. a", OF b once(2) this same]
  show "\<exists>t. api_command once_interrupted sample_api ?H (\<lambda>a. a) sample_context empty_db = (Hangs, t)"
    by (auto simp: sample_api_closers_def)
qed

text \<open>The indexer over an empty database.\<close>

lemma sample_index: "\<exists>x. runIndexer (sample_init (Ok ())) sample_closers index_context empty_db = (Returns (Ok ()), x)"
  using sample_made[of "Ok ()"] by (auto simp: runIndexer_def NewLithosphere_def sample_service_def[symmetric])

lemma sample_started:
  assumes "runIndexer (sample_init (Ok ())) sample_closers index_context empty_db = (Returns (Ok ()), x0)"
  shows "\<exists>s d p p'. Lithosphere_start idle_start x0 = (Returns (Ok ()), (s, d))
    \<and> li_BridgeProcessor s = Some (p, replicate 2 Running) \<and> li_BusinessProcessor s = Some (p', replicate 6 Running)"
proof -
  obtain s0 d0 where x0: "x0 = (s0, d0)" by (cases x0)
  have made: "NewLithosphere (sample_init (Ok ())) sample_closers (LoadAppConfig index_context) empty_db = ((Returns (Ok ()), s0), d0)"
    using assms x0 by (auto simp: runIndexer_def case_prod_unfold Let_def prod_eq_iff)
  obtain s d where s: "Lithosphere_Start idle_start (s0, d0) = (Ok (), (s, d))"
    using idle_starts[OF NewLithosphere_complete[OF made]] by blast
  then show ?thesis
    using Lithosphere_Start_running[OF s NewLithosphere_complete[OF made]] x0
    by (auto simp: running_service_def Lithosphere_start_def)
qed

theorem index_command_never_ends_witness:
  "\<exists>t. index_command twice_interrupted (sample_init (Ok ())) sample_closers idle_start (\<lambda>x. x) index_context empty_db = (Hangs, t)
     \<and> li_DB (fst t) = Some True"
proof -
  obtain x0 where 1: "runIndexer (sample_init (Ok ())) sample_closers index_context empty_db = (Returns (Ok ()), x0)"
    using sample_index by blast
  obtain s d p p' where 2: "Lithosphere_start idle_start x0 = (Returns (Ok ()), (s, d))"
    "li_BridgeProcessor s = Some (p, replicate 2 Running)" "li_BusinessProcessor s = Some (p', replicate 6 Running)"
    using sample_started[OF 1] by blast
  have "fst (s, d) = (fst (s, d))\<lparr>li_BridgeProcessor := Some (p, replicate 2 Running), li_BusinessProcessor := Some (p', replicate 6 Running)\<rparr>"
    using 2 by simp
  from index_command_never_ends[where E = twice_interrupted and meanwhile = "\<lambda>x. x", OF 1 2(1) this] show ?thesis by auto
qed

text \<open>When every task has ended, the command ends without an error.\<close>

definition tasks_end :: "Lithosphere \<times> db \<Rightarrow> Lithosphere \<times> db" where
  "tasks_end = (\<lambda>(s, d). (s\<lparr>li_BridgeProcessor := map_option (\<lambda>(p, ts). (p, [])) (li_BridgeProcessor s),
     li_BusinessProcessor := map_option (\<lambda>(p, ts). (p, [])) (li_BusinessProcessor s)\<rparr>, d))"


lemma idle_consumers: "fst (l1_consumer H env [] d) = Ok ()" "fst (l2_consumer H env cl [] d) = Ok ()"
  by (simp_all add: l1_consumer_def l2_consumer_def retG_def)

lemma idle_sync_closes:
  assumes "new_sync (Some c)" "ChainSync_Start m f [] (c, d) = (r, (c', d'))" "fst (f [] d) = Ok ()"
  shows "fst (ChainSync_Close m' c') = Ok ()"
  using assms(1,2)
  by (auto simp: ChainSync_Start_def ChainSync_Close_def Start_def Close_def new_sync_def Let_def Group_Go_def as_result_def
      case_prod_unfold assms(3))

lemma idle_start_closes:
  assumes "Lithosphere_Start idle_start (s, d) = (Ok (), (t, d'))" "fresh_service s" "complete_service s"
  shows "fst (close_L1Sync t) = Returns (Ok ())" "fst (close_L2Sync t) = Returns (Ok ())"
proof -
  obtain c1 c2 p p' where parts: "li_L1Sync s = Some c1" "li_L2Sync s = Some c2" "li_BridgeProcessor s = Some (p, [])"
    "li_BusinessProcessor s = Some (p', [])" using assms(3) by (auto simp: complete_service_def)
  obtain r1 c1' d1 where 1: "L1Sync_Start sample_hash (\<lambda>_. sample_env) [] (c1, d) = (r1, (c1', d1))" by (metis prod.collapse)
  obtain r2 c2' d2 where 2: "L2Sync_Start sample_hash (\<lambda>_. sample_env) (\<lambda>_. sample_client 10 []) [] (c2, d1) = (r2, (c2', d2))"
    by (metis prod.collapse)
  have syncs: "li_L1Sync t = Some c1'" "li_L2Sync t = Some c2'"
    using assms(1) parts 1 2
    by (auto simp: Lithosphere_Start_def idle_start_def start_part_def launch_def thenG_def bindG_def split: result.splits)
  show "fst (close_L1Sync t) = Returns (Ok ())"
    using idle_sync_closes[OF _ 1[unfolded L1Sync_Start_def] idle_consumers(1)] assms(2) parts syncs
    by (simp add: close_L1Sync_def L1Sync_Close_def Let_def case_prod_unfold fresh_service_def)
  show "fst (close_L2Sync t) = Returns (Ok ())"
    using idle_sync_closes[OF _ 2[unfolded L2Sync_Start_def] idle_consumers(2)] assms(2) parts syncs
    by (simp add: close_L2Sync_def L2Sync_Close_def Let_def case_prod_unfold fresh_service_def)
qed

lemma stop_part_done: "fst part = Returns (Ok ()) \<Longrightarrow> stop_part msg part res k = k res (snd part)"
  by (cases part) (simp add: stop_part_def)

lemma close_resource_Ok: "fst (close_resource (Returns (Ok ())) x) = Returns (Ok ())"
  by (cases x) (simp_all add: close_resource_def)

lemma stop_without_error:
  assumes "fst (close_L1Sync s) = Returns (Ok ())" "fst (close_L2Sync s) = Returns (Ok ())"
    and "li_BridgeProcessor s = Some (p, [])" "li_BusinessProcessor s = Some (p', [])"
  shows "\<exists>t. Lithosphere_Stop sample_closers s = (Returns (Ok ()), t)"
proof -
  have "li_L2Sync (snd (close_L1Sync s)) = li_L2Sync s" by (rule close_sync_keeps(9))
  then have 2: "fst (close_L2Sync (snd (close_L1Sync s))) = Returns (Ok ())"
    using assms(2) by (auto simp: close_L2Sync_def Let_def case_prod_unfold split: option.splits)
  let ?t = "snd (close_L2Sync (snd (close_L1Sync s)))"
  have idle: "close_processor (li_BridgeProcessor ?t) = Returns (Ok ())" "close_processor (li_BusinessProcessor ?t) = Returns (Ok ())"
    using assms(3,4) by (simp_all add: close_sync_keeps close_processor_def Group_Wait_def EventProcessor_Close_def as_result_def List.map_filter_def)
  have servers: "\<exists>t. stop_servers sample_closers None u = (Returns (Ok ()), t)" for u
    by (simp add: stop_servers_def sample_closers_def case_prod_unfold Let_def close_resource_Ok stop_part_done as_result_def)
  show ?thesis
    unfolding Lithosphere_Stop_halves using servers
    by (simp add: stop_part_done assms(1) 2 idle)
qed

section \<open>The exporter and the migrations\<close>

text \<open>The exporter's Start listens for ever or ends the process, so its command never reaches the stop, whatever signals come.\<close>

lemma exporter_never_stops:
  "exporter_command E connect close_db k8s_client listen ctx \<noteq> (Returns (Ok ()), t)"
  by (auto simp: exporter_command_def runExporter_def lifecycleCmd_def Exporter_Start_def NewExporter_def
      split: result.splits option.splits if_splits)

fun sql_of :: "string \<times> walk_entry \<Rightarrow> string list" where
  "sql_of (path, SqlFile (Ok sql)) = [sql]"
| "sql_of e = []"

text \<open>Migrations that end without an error were all readable, and were executed in the order of the walk.\<close>

lemma migrations_in_order:
  "ExecuteSQLMigration exec es s = (Ok (), s') \<Longrightarrow>
    forG exec (concat (map sql_of es)) s = (Ok (), s') \<and> (\<forall>(path, e) \<in> set es. e = Directory \<or> (\<exists>sql. e = SqlFile (Ok sql)))"
proof (induction es arbitrary: s)
  case (Cons x es)
  obtain path e where x: "x = (path, e)" by (cases x)
  show ?case
  proof (cases e)
    case (SqlFile content)
    then obtain sql s1 where c: "content = Ok sql" "exec sql s = (Ok (), s1)" "ExecuteSQLMigration exec es s1 = (Ok (), s')"
      using Cons.prems x by (cases content) (auto simp: thenG_def bindG_eq_Ok liftR_def mapErrG_eq_Ok)
    then show ?thesis using Cons.IH[OF c(3)] x SqlFile by (simp add: thenG_def bindG_Ok)
  qed (use Cons x in \<open>auto simp: thenG_def bindG_eq_Ok errG_def retG_def\<close>)
qed simp

end
