(* ===== verification/ExporterProperties.thy ===== *)
theory ExporterProperties
  imports Exporter
begin


text \<open>
  What the exporter reports: the age of a height that is counted as healthy, the lock that an undecodable height
  leaves held, the durations of the default flags, deposits counted once, and who is counted as a big spender.
\<close>


section \<open>The health that is reported\<close>

definition unhealthy_period :: "ExporterConfig \<Rightarrow> int" where
  "unhealthy_period cfg = times_unit (xc_UnhealthyTimePeriod cfg) Minute"

text \<open>The height that was read last, or the one before when no round reads one.\<close>

fun height_read :: "u64 \<Rightarrow> health_input list \<Rightarrow> u64" where
  "height_read n [] = n"
| "height_read n (Polled (Ok (Some response)) now # evs) =
     height_read (case hexutil_DecodeUint64 response of Ok m \<Rightarrow> m | _ \<Rightarrow> n) evs"
| "height_read n (_ # evs) = height_read n evs"

lemma height_read_append: "height_read n (evs @ evs') = height_read (height_read n evs) evs'"
  by (induction n evs rule: height_read.induct) auto

text \<open>Since a height was read at a time, every round read the same height within the period.\<close>

definition standing :: "ExporterConfig \<Rightarrow> u64 \<Rightarrow> int \<Rightarrow> health_input list \<Rightarrow> bool" where
  "standing cfg n t evs = (\<forall>ev \<in> set evs. case ev of
       Versioned r \<Rightarrow> True
     | Polled reply now \<Rightarrow> (\<exists>response. reply = Ok (Some response) \<and> hexutil_DecodeUint64 response = Ok n) \<and> now \<le> t + unhealthy_period cfg)"

lemma version_only: "\<exists>v. getSequencerVersion r h = h\<lparr>hc_version := v\<rparr>"
proof -
  let ?f = "\<lambda>(nm, img) (h :: healthCheck). if nm = ''sequencer'' then h\<lparr>hc_version := img\<rparr> else h"
  have "\<exists>v. fold ?f cs g = g\<lparr>hc_version := v\<rparr>" for cs and g :: healthCheck
  proof (induction cs arbitrary: g)
    case Nil
    show ?case by (rule exI[of _ "hc_version g"]) simp
  next
    case (Cons c cs)
    obtain v where v: "fold ?f cs (?f c g) = (?f c g)\<lparr>hc_version := v\<rparr>" using Cons.IH by blast
    show ?case by (rule exI[of _ v]) (use v in \<open>simp split: prod.splits\<close>)
  qed
  then show ?thesis unfolding getSequencerVersion_def by (cases r) auto
qed

lemma version_keeps [simp]:
  "hc_locked (getSequencerVersion r h) = hc_locked h" "hc_healthy (getSequencerVersion r h) = hc_healthy h"
  "hc_height (getSequencerVersion r h) = hc_height h" "hc_updateTime (getSequencerVersion r h) = hc_updateTime h"
  using version_only[of r h] by auto

text \<open>The invariant: the height kept is the one read last, and a health that can be read and is good comes from a height that
  was new when it was read.\<close>

definition health_inv :: "ExporterConfig \<Rightarrow> health_input list \<Rightarrow> bool \<times> healthCheck \<Rightarrow> bool" where
  "health_inv cfg evs st = (\<forall>h. st = (True, h) \<and> \<not> hc_locked h \<longrightarrow> hc_height h = height_read 0 evs \<and> (hc_healthy h \<longrightarrow>
     (\<exists>before response t after. evs = before @ Polled (Ok (Some response)) t # after
        \<and> hexutil_DecodeUint64 response = Ok (hc_height h) \<and> hc_updateTime h = t \<and> standing cfg (hc_height h) t after
        \<and> height_read 0 before \<noteq> hc_height h)))"

lemma standing_snoc: "standing cfg n t (evs @ [ev]) \<longleftrightarrow> standing cfg n t evs \<and> standing cfg n t [ev]"
  by (auto simp: standing_def)

lemma standing_Nil [simp]: "standing cfg n t []"
  by (simp add: standing_def)

lemma polled_healthy:
  assumes "getBlockNumber cfg reply now h = (e, ops, h')" "e \<noteq> Waiting" "e \<noteq> Crash" "\<not> hc_locked h'" "hc_healthy h'"
  obtains response n where "reply = Ok (Some response)" "hexutil_DecodeUint64 response = Ok n" "hc_height h' = n" "\<not> hc_locked h"
    "(n \<noteq> hc_height h \<and> hc_updateTime h' = now)
     \<or> (n = hc_height h \<and> hc_updateTime h' = hc_updateTime h \<and> hc_healthy h \<and> now \<le> hc_updateTime h + unhealthy_period cfg)"
proof -
  obtain response where r: "reply = Ok (Some response)"
    using assms by (auto simp: getBlockNumber_def Let_def split: result.splits option.splits if_splits)
  have l: "\<not> hc_locked h" using assms r by (auto simp: getBlockNumber_def Let_def split: if_splits)
  obtain n where n: "hexutil_DecodeUint64 response = Ok n"
    using assms r l by (cases "hexutil_DecodeUint64 response") (auto simp: getBlockNumber_def Let_def)
  show thesis
    using assms r l n
    by (intro that[of response n]) (auto simp: getBlockNumber_def Let_def decoded_value unhealthy_period_def split: if_splits)
qed

lemma height_kept:
  assumes "getBlockNumber cfg reply now h = (e, ops, h')" "e \<noteq> Waiting" "e \<noteq> Crash" "\<not> hc_locked h'"
  shows "\<not> hc_locked h" "hc_height h' = height_read (hc_height h) [Polled reply now]"
  using assms decoded_value
  by (auto simp: getBlockNumber_def Let_def split: result.splits option.splits if_splits)

lemma health_inv_step:
  assumes "health_inv cfg evs st"
  shows "health_inv cfg (evs @ [ev]) (health_event cfg ev st)"
  unfolding health_inv_def
proof (intro allI impI, elim conjE)
  fix h' assume st': "health_event cfg ev st = (True, h')" and free: "\<not> hc_locked h'"
  obtain runs h where st: "st = (runs, h)" by (cases st)
  have runs: "runs = True" using st' st by (cases ev) (auto split: if_splits)
  have inv: "\<not> hc_locked h \<Longrightarrow> hc_height h = height_read 0 evs \<and> (hc_healthy h \<longrightarrow>
     (\<exists>before response t after. evs = before @ Polled (Ok (Some response)) t # after
        \<and> hexutil_DecodeUint64 response = Ok (hc_height h) \<and> hc_updateTime h = t \<and> standing cfg (hc_height h) t after
        \<and> height_read 0 before \<noteq> hc_height h))"
    using assms st runs unfolding health_inv_def by blast
  show "hc_height h' = height_read 0 (evs @ [ev]) \<and> (hc_healthy h' \<longrightarrow>
     (\<exists>before response t after. evs @ [ev] = before @ Polled (Ok (Some response)) t # after
        \<and> hexutil_DecodeUint64 response = Ok (hc_height h') \<and> hc_updateTime h' = t \<and> standing cfg (hc_height h') t after
        \<and> height_read 0 before \<noteq> hc_height h'))"
  proof (cases ev)
    case (Versioned r)
    then have h': "h' = getSequencerVersion r h" using st' st by simp
    then have l: "\<not> hc_locked h" using free by simp
    show ?thesis
    proof (intro conjI impI)
      show "hc_height h' = height_read 0 (evs @ [ev])" using inv[OF l] h' Versioned by (simp add: height_read_append)
      assume "hc_healthy h'"
      then obtain before response t "after" where "evs = before @ Polled (Ok (Some response)) t # after"
          "hexutil_DecodeUint64 response = Ok (hc_height h')" "hc_updateTime h' = t" "standing cfg (hc_height h') t after"
          "height_read 0 before \<noteq> hc_height h'"
        using inv[OF l] h' by auto
      then show "\<exists>before response t after. evs @ [ev] = before @ Polled (Ok (Some response)) t # after
        \<and> hexutil_DecodeUint64 response = Ok (hc_height h') \<and> hc_updateTime h' = t \<and> standing cfg (hc_height h') t after
        \<and> height_read 0 before \<noteq> hc_height h'"
        using Versioned by (intro exI[of _ before] exI[of _ response] exI[of _ t] exI[of _ "after @ [ev]"])
          (simp add: standing_snoc, simp add: standing_def)
    qed
  next
    case (Polled reply now)
    obtain e ops h2 where g: "getBlockNumber cfg reply now h = (e, ops, h2)" by (cases "getBlockNumber cfg reply now h")
    then have h2: "h2 = h'" "e \<noteq> Waiting" "e \<noteq> Crash" using st' st runs Polled by auto
    note kept = height_kept[OF g h2(2,3), unfolded h2(1), OF free]
    show ?thesis
    proof (intro conjI impI)
      show "hc_height h' = height_read 0 (evs @ [ev])" using kept inv Polled by (simp add: height_read_append)
      assume ok: "hc_healthy h'"
      from polled_healthy[OF g h2(2,3)] ok free h2(1) obtain response n where
        r: "reply = Ok (Some response)" "hexutil_DecodeUint64 response = Ok n" "hc_height h' = n"
        and c: "(n \<noteq> hc_height h \<and> hc_updateTime h' = now)
         \<or> (n = hc_height h \<and> hc_updateTime h' = hc_updateTime h \<and> hc_healthy h \<and> now \<le> hc_updateTime h + unhealthy_period cfg)"
        by metis
      from c show "\<exists>before response t after. evs @ [ev] = before @ Polled (Ok (Some response)) t # after
        \<and> hexutil_DecodeUint64 response = Ok (hc_height h') \<and> hc_updateTime h' = t \<and> standing cfg (hc_height h') t after
        \<and> height_read 0 before \<noteq> hc_height h'"
      proof
        assume s: "n \<noteq> hc_height h \<and> hc_updateTime h' = now"
        then have "height_read 0 evs \<noteq> n" using inv[OF kept(1)] by auto
        then show ?thesis using Polled r s
          by (intro exI[of _ evs] exI[of _ response] exI[of _ now] exI[of _ "[]"]) simp
      next
        assume s: "n = hc_height h \<and> hc_updateTime h' = hc_updateTime h \<and> hc_healthy h \<and> now \<le> hc_updateTime h + unhealthy_period cfg"
        then obtain before old t "after" where "evs = before @ Polled (Ok (Some old)) t # after"
            "hexutil_DecodeUint64 old = Ok (hc_height h)" "hc_updateTime h = t" "standing cfg (hc_height h) t after"
            "height_read 0 before \<noteq> hc_height h"
          using inv[OF kept(1)] by auto
        then show ?thesis using Polled r s
          by (intro exI[of _ before] exI[of _ old] exI[of _ t] exI[of _ "after @ [ev]"])
            (simp add: standing_snoc, simp add: standing_def)
      qed
    qed
  qed
qed

lemma health_inv_run: "health_inv cfg evs (health_after cfg start evs)"
proof (induction evs rule: rev_induct)
  case Nil
  show ?case by (auto simp: health_inv_def health_after_def initial_health_def)
next
  case (snoc ev evs)
  then show ?case using health_inv_step[OF snoc.IH, of ev] by (simp add: health_after_def)
qed

text \<open>C30: as long as the loop runs, the sequencer is reported healthy only if its height was new when it was first read, other than the
  height read last before (zero at the start), and every round since has read this height again, no later
  than the configured period after that first time.\<close>

theorem healthy_height_recent:
  assumes "health_after cfg start evs = (True, h)" "healthHandler h = Some (True, v)"
  shows "\<exists>before response first after n. evs = before @ Polled (Ok (Some response)) first # after
    \<and> hexutil_DecodeUint64 response = Ok n \<and> height_read 0 before \<noteq> n
    \<and> (\<forall>reply now. Polled reply now \<in> set after \<longrightarrow> now \<le> first + unhealthy_period cfg
         \<and> (\<exists>again. reply = Ok (Some again) \<and> hexutil_DecodeUint64 again = Ok n))"
proof -
  have h: "\<not> hc_locked h" "hc_healthy h" using assms(2) by (auto simp: healthHandler_def split: if_splits)
  obtain before response t "after" where b: "evs = before @ Polled (Ok (Some response)) t # after"
      "hexutil_DecodeUint64 response = Ok (hc_height h)" "standing cfg (hc_height h) t after" "height_read 0 before \<noteq> hc_height h"
    using health_inv_run[of cfg evs start] assms(1) h unfolding health_inv_def by auto
  then have "now \<le> t + unhealthy_period cfg
         \<and> (\<exists>again. reply = Ok (Some again) \<and> hexutil_DecodeUint64 again = Ok (hc_height h))"
    if "Polled reply now \<in> set after" for reply now
    using bspec[OF b(3)[unfolded standing_def] that] by simp
  then show ?thesis using b(1,2,4) by blast
qed

lemma zero_height: "hexutil_DecodeUint64 ''0x5'' = Ok 5"
  by (simp add: hexutil_DecodeUint64_def DecodeUint64_def hex_value_def hex_digits_def upt_rec Let_def)

definition patient :: ExporterConfig where
  "patient = \<lparr>xc_ExportAddress = [], xc_RpcProvider = [], xc_NetworkLabel = [], xc_Version = False,
     xc_UnhealthyTimePeriod = 2, xc_SequencerPollingSeconds = 30, xc_EnableK8sQuery = False,
     xc_EnableRollUpGasPrices = False, xc_EnableGasBaseFee = False, xc_TransferBigValueAddressInEthereum = [],
     xc_TransferBigValueInEthereum = [], xc_TransferBigValueAddressInMantle = [], xc_TransferBigValueInMantle = [],
     xc_WithdrawBigValueAddress = []\<rparr>"

text \<open>The height 5 is read three times, the last time within two minutes of the first.\<close>

theorem healthy_height_recent_witness:
  "\<exists>before response first after n. [Polled (Ok (Some ''0x5'')) 7, Polled (Ok (Some ''0x5'')) 90, Polled (Ok (Some ''0x5'')) 100]
      = before @ Polled (Ok (Some response)) first # after
    \<and> hexutil_DecodeUint64 response = Ok n \<and> height_read 0 before \<noteq> n
    \<and> (\<forall>reply now. Polled reply now \<in> set after \<longrightarrow> now \<le> first + unhealthy_period patient
         \<and> (\<exists>again. reply = Ok (Some again) \<and> hexutil_DecodeUint64 again = Ok n))"
proof -
  have "health_after patient 0 [Polled (Ok (Some ''0x5'')) 7, Polled (Ok (Some ''0x5'')) 90, Polled (Ok (Some ''0x5'')) 100]
      = (True, \<lparr>hc_locked = False, hc_height = 5, hc_healthy = True, hc_updateTime = 7, hc_version = UnknownStatus\<rparr>)"
    by (simp add: health_after_def getBlockNumber_def zero_height decoded_value[OF zero_height] initial_health_def Let_def
        patient_def times_unit_def Minute_def Second_def wrap64_def)
  from healthy_height_recent[OF this, of UnknownStatus] show ?thesis by (simp add: healthHandler_def)
qed

section \<open>A height that cannot be decoded\<close>

lemma locked_round:
  assumes "hc_locked h"
  shows "getBlockNumber cfg reply now h = (Waiting, [], h) \<or> getBlockNumber cfg reply now h = (Crash, [], h)"
  using assms by (auto simp: getBlockNumber_def Let_def split: result.splits option.splits)

lemma locked_for_ever:
  assumes "hc_locked h"
  shows "\<exists>v. fold (health_event cfg) later (runs, h)
    = (runs \<and> (\<forall>reply now. Polled reply now \<notin> set later), h\<lparr>hc_version := v\<rparr>)"
  using assms
proof (induction later arbitrary: runs h)
  case Nil
  show ?case by (intro exI[of _ "hc_version h"]) simp
next
  case (Cons ev later)
  show ?case
  proof (cases ev)
    case (Polled reply now)
    have "health_event cfg ev (runs, h) = (False, h)" using Polled locked_round[OF Cons.prems, of cfg reply now] by auto
    moreover obtain v where "fold (health_event cfg) later (False, h) = (False, h\<lparr>hc_version := v\<rparr>)"
      using Cons.IH[OF Cons.prems, of False] by auto
    ultimately show ?thesis using Polled by (intro exI[of _ v]) (auto simp del: health_event.simps)
  next
    case (Versioned r)
    obtain v where v: "getSequencerVersion r h = h\<lparr>hc_version := v\<rparr>" using version_only by blast
    then show ?thesis using Cons.IH[of "h\<lparr>hc_version := v\<rparr>" runs] Cons.prems Versioned by auto
  qed
qed

text \<open>C31: after a height that cannot be decoded the mutex is never released: whatever happens later, a request
  for the health waits for ever, the loop does not finish another round, and what was known of the
  sequencer stays as it was.\<close>

theorem undecodable_height_hangs:
  assumes "health_after cfg start evs = (True, h)" "healthHandler h \<noteq> None" "hexutil_DecodeUint64 response = Err e"
  shows "\<exists>h'. health_after cfg start (evs @ Polled (Ok (Some response)) now # later)
      = ((\<forall>reply t. Polled reply t \<notin> set later), h')
    \<and> healthHandler h' = None \<and> hc_healthy h' = hc_healthy h \<and> hc_height h' = hc_height h"
proof -
  have l: "\<not> hc_locked h" using assms(2) by (auto simp: healthHandler_def)
  have "health_after cfg start (evs @ Polled (Ok (Some response)) now # later)
      = fold (health_event cfg) later (True, h\<lparr>hc_locked := True\<rparr>)"
    using assms(1,3) l by (simp add: health_after_def getBlockNumber_def Let_def)
  then show ?thesis
    using locked_for_ever[of "h\<lparr>hc_locked := True\<rparr>" cfg later True] by (auto simp: healthHandler_def)
qed

definition sample_exporter :: ExporterConfig where
  "sample_exporter = \<lparr>xc_ExportAddress = [], xc_RpcProvider = [], xc_NetworkLabel = ''mantle'', xc_Version = False,
     xc_UnhealthyTimePeriod = UnhealthyTimePeriodFlag_Value,
     xc_SequencerPollingSeconds = SequencerPollingSecondsFlag_Value, xc_EnableK8sQuery = False,
     xc_EnableRollUpGasPrices = False, xc_EnableGasBaseFee = False, xc_TransferBigValueAddressInEthereum = [],
     xc_TransferBigValueInEthereum = [], xc_TransferBigValueAddressInMantle = [], xc_TransferBigValueInMantle = [],
     xc_WithdrawBigValueAddress = []\<rparr>"

theorem undecodable_height_hangs_witness:
  "\<exists>h'. health_after sample_exporter 0 ([] @ Polled (Ok (Some ''5'')) 7 # [Polled (Ok (Some ''0x5'')) 8]) = (False, h')
    \<and> healthHandler h' = None \<and> \<not> hc_healthy h' \<and> hc_height h' = 0"
proof -
  have "healthHandler (initial_health 0) \<noteq> None" by (simp add: healthHandler_def initial_health_def)
  moreover have "hexutil_DecodeUint64 ''5'' = Err (Msg ''hex string without 0x prefix'')" by (simp add: hexutil_DecodeUint64_def DecodeUint64_def)
  ultimately show ?thesis
    using undecodable_height_hangs[of sample_exporter 0 "[]" "initial_health 0" "''5''" _ 7 "[Polled (Ok (Some ''0x5'')) 8]"]
    by (simp add: health_after_def initial_health_def)
qed

section \<open>The default durations\<close>

lemma default_durations:
  "times_unit UnhealthyTimePeriodFlag_Value Minute = 5769811253274869760"
  "times_unit SequencerPollingSecondsFlag_Value Second = - 6893488147419103232"
  by (simp_all add: times_unit_def wrap64_def UnhealthyTimePeriodFlag_Value_def SequencerPollingSecondsFlag_Value_def
      Minute_def Second_def)

text \<open>C40: with the default flags, whose durations are multiplied by a unit once later and overflow, a round that reads the
  standing height again leaves a healthy sequencer healthy exactly for 5769811253274869760 nanoseconds
  since the height was new, which is more than 180 years of 365 days, and the loop does not pause between its
  rounds: it is told to sleep for a negative time.\<close>

theorem default_flags_never_unhealthy:
  assumes "xc_UnhealthyTimePeriod cfg = UnhealthyTimePeriodFlag_Value"
    and "xc_SequencerPollingSeconds cfg = SequencerPollingSecondsFlag_Value"
    and "healthHandler h = Some (True, v)" "hexutil_DecodeUint64 response = Ok (hc_height h)"
  shows "\<exists>pause ops h'. getBlockNumber cfg (Ok (Some response)) now h = (SleepFor pause, ops, h') \<and> pause < 0
    \<and> (hc_healthy h' \<longleftrightarrow> now - hc_updateTime h \<le> 5769811253274869760)
    \<and> (GaugeSet ''op_healthy_sequencer'' [xc_NetworkLabel cfg] 1 \<in> set ops \<longleftrightarrow> now - hc_updateTime h \<le> 5769811253274869760)
    \<and> 180 * 365 * 24 * 60 * Minute \<le> 5769811253274869760"
proof -
  have h: "\<not> hc_locked h" "hc_healthy h" using assms(3) by (auto simp: healthHandler_def split: if_splits)
  have bound: "180 * 365 * 24 * 60 * Minute \<le> 5769811253274869760" by (simp add: Minute_def Second_def)
  show ?thesis unfolding getBlockNumber_def Let_def
    using h assms bound by (auto simp: decoded_value default_durations)
qed

theorem default_flags_never_unhealthy_witness:
  "\<exists>pause ops h'. getBlockNumber sample_exporter (Ok (Some ''0x5'')) 9 ((initial_health 0)\<lparr>hc_height := 5, hc_healthy := True\<rparr>)
      = (SleepFor pause, ops, h') \<and> pause < 0 \<and> hc_healthy h'
    \<and> GaugeSet ''op_healthy_sequencer'' [xc_NetworkLabel sample_exporter] 1 \<in> set ops"
  using default_flags_never_unhealthy[of sample_exporter "(initial_health 0)\<lparr>hc_height := 5, hc_healthy := True\<rparr>" UnknownStatus "''0x5''" 9]
  by (auto simp: sample_exporter_def healthHandler_def initial_health_def zero_height)


section \<open>Deposits are counted once\<close>

text \<open>The rounds of metricDepositsAmount on the databases they find.\<close>

fun deposits_run :: "exporter_env \<Rightarrow> int \<Rightarrow> db list \<Rightarrow> int \<times> metric_op list result" where
  "deposits_run E start [] = (start, Ok [])"
| "deposits_run E start (s # ss) =
     (let (start', r) = metricDepositsAmount E s start; (final, r') = deposits_run E start' ss in
      (final, bindR r (\<lambda>ops. bindR r' (\<lambda>rest. Ok (ops @ rest)))))"

text \<open>A later database has more deposits, with later timestamps: a run of the processor stores the deposits of whole L1 blocks in
  the order of their heights, and the timestamps of the blocks grow with the heights. The rows that are already there may have
  been changed in the meantime, as when a deposit is relayed or finalized, except for the tokens, the amounts and the timestamp.\<close>

definition counted_columns :: "L1ToL2 \<Rightarrow> (address \<times> address) \<times> int option \<times> int option \<times> int" where
  "counted_columns r = (l12_tokens r, l12_ERC20Amount r, l12_ETHAmount r, l12_Timestamp r)"

definition later_deposits :: "db \<Rightarrow> db \<Rightarrow> bool" where
  "later_deposits s s' = (\<exists>old new. l1_to_l2 s' = old @ new \<and> map counted_columns old = map counted_columns (l1_to_l2 s)
     \<and> (\<forall>r \<in> set new. \<forall>q \<in> set (l1_to_l2 s). l12_Timestamp q < l12_Timestamp r))"

lemma same_columns:
  assumes "map counted_columns old = map counted_columns rows"
  shows "l12_Timestamp ` set old = l12_Timestamp ` set rows"
    and "stored l12_ERC20Amount l12_tokens p (\<lambda>r. P (l12_Timestamp r)) old = stored l12_ERC20Amount l12_tokens p (\<lambda>r. P (l12_Timestamp r)) rows"
    and "stored l12_ETHAmount l12_tokens p (\<lambda>r. P (l12_Timestamp r)) old = stored l12_ETHAmount l12_tokens p (\<lambda>r. P (l12_Timestamp r)) rows"
proof -
  have "length old = length rows" using assms by (rule map_eq_imp_length_eq)
  then have "l12_Timestamp ` set old = l12_Timestamp ` set rows
    \<and> stored l12_ERC20Amount l12_tokens p (\<lambda>r. P (l12_Timestamp r)) old = stored l12_ERC20Amount l12_tokens p (\<lambda>r. P (l12_Timestamp r)) rows
    \<and> stored l12_ETHAmount l12_tokens p (\<lambda>r. P (l12_Timestamp r)) old = stored l12_ETHAmount l12_tokens p (\<lambda>r. P (l12_Timestamp r)) rows"
    using assms by (induction old rows rule: list_induct2) (simp_all add: stored_def counted_columns_def)
  then show "l12_Timestamp ` set old = l12_Timestamp ` set rows"
    and "stored l12_ERC20Amount l12_tokens p (\<lambda>r. P (l12_Timestamp r)) old = stored l12_ERC20Amount l12_tokens p (\<lambda>r. P (l12_Timestamp r)) rows"
    and "stored l12_ETHAmount l12_tokens p (\<lambda>r. P (l12_Timestamp r)) old = stored l12_ETHAmount l12_tokens p (\<lambda>r. P (l12_Timestamp r)) rows"
    by blast+
qed

lemma later_same: "map counted_columns (l1_to_l2 s') = map counted_columns (l1_to_l2 s) \<Longrightarrow> later_deposits s s'"
  unfolding later_deposits_def by (intro exI[of _ "l1_to_l2 s'"] exI[of _ "[]"]) simp

lemma later_first: "l1_to_l2 s = [] \<Longrightarrow> later_deposits s s'"
  unfolding later_deposits_def by (intro exI[of _ "[]"] exI[of _ "l1_to_l2 s'"]) simp

text \<open>The functions that mark deposits as relayed and as finalized are such changes.\<close>

interpretation l12counted: row_update l12_GUID counted_columns l12_by_message set_l12_relayed
  by unfold_locales (auto simp: set_l12_relayed_def counted_columns_def l12_tokens_def)

interpretation l12counted_claimed: row_update l12_GUID counted_columns l12_by_message set_l12_claimed
  by unfold_locales (auto simp: set_l12_claimed_def counted_columns_def l12_tokens_def)

lemma marking_keeps_counted:
  assumes "gorms_ok G" "distinct (map l12_GUID (l1_to_l2 s))"
  shows "later_deposits s (snd (RelayedL1ToL2Transaction G xs s))"
    and "later_deposits s (snd (MarkL1ToL2TransactionDepositFinalized G xs s))"
proof -
  have k: "map counted_columns t' = map counted_columns t"
    if "map (\<lambda>r. (l12_GUID r, counted_columns r)) t' = map (\<lambda>r. (l12_GUID r, counted_columns r)) t" for t t'
    using arg_cong[OF that, of "map snd"] by (simp add: comp_def)
  note G = gorms_okD(9)[OF assms(1)]
  show "later_deposits s (snd (RelayedL1ToL2Transaction G xs s))"
    using k[OF l12counted.loop_keeps[OF G assms(2)]]
    by (intro later_same) (simp add: RelayedL1ToL2Transaction_def zoomG_def)
  show "later_deposits s (snd (MarkL1ToL2TransactionDepositFinalized G xs s))"
    using k[OF l12counted_claimed.loop_keeps[OF G assms(2)]]
    by (intro later_same) (simp add: MarkL1ToL2TransactionDepositFinalized_def zoomG_def)
qed

text \<open>The query for the latest timestamp fails on an empty table only.\<close>

definition timestamps_read :: "exporter_env \<Rightarrow> db \<Rightarrow> bool" where
  "timestamps_read E s = (gorm_ok l12_GUID (G_l12 (xe_G E))
     \<and> (l1_to_l2 s = [] \<or> is_ok (g_take_desc (G_l12 (xe_G E)) (\<lambda>_. True) l12_Timestamp (l1_to_l2 s)))
     \<and> (\<forall>r \<in> set (l1_to_l2 s). 0 < l12_Timestamp r))"

definition deposits_ok :: "L1ToL2 grouped \<Rightarrow> bool" where
  "deposits_ok Q = grouped_ok l12_ETHAmount l12_ERC20Amount l12_tokens Q"

lemma latest_timestamp:
  assumes "timestamps_read E s"
  shows "l1_to_l2 s = [] \<Longrightarrow> L1L2LatestTimestamp (xe_G E) s = 0"
    and "l1_to_l2 s \<noteq> [] \<Longrightarrow> \<exists>r \<in> set (l1_to_l2 s). l12_Timestamp r = L1L2LatestTimestamp (xe_G E) s"
    and "\<forall>q \<in> set (l1_to_l2 s). l12_Timestamp q \<le> L1L2LatestTimestamp (xe_G E) s"
proof -
  let ?q = "g_take_desc (G_l12 (xe_G E)) (\<lambda>_. True) l12_Timestamp (l1_to_l2 s)"
  have G: "gorm_ok l12_GUID (G_l12 (xe_G E))" using assms by (simp add: timestamps_read_def)
  show "l1_to_l2 s = [] \<Longrightarrow> L1L2LatestTimestamp (xe_G E) s = 0"
    using gorm_take_desc(1)[OF G, of "\<lambda>_. True" l12_Timestamp "[]"] by (auto simp: L1L2LatestTimestamp_def split: result.splits)
  have ok: "\<exists>r. ?q = Ok r" if "l1_to_l2 s \<noteq> []" using assms that by (cases ?q) (auto simp: timestamps_read_def)
  show "l1_to_l2 s \<noteq> [] \<Longrightarrow> \<exists>r \<in> set (l1_to_l2 s). l12_Timestamp r = L1L2LatestTimestamp (xe_G E) s"
    using ok gorm_take_desc(1)[OF G] by (fastforce simp: L1L2LatestTimestamp_def)
  show "\<forall>q \<in> set (l1_to_l2 s). l12_Timestamp q \<le> L1L2LatestTimestamp (xe_G E) s"
    using ok gorm_take_desc(1)[OF G, of "\<lambda>_. True" l12_Timestamp] by (cases "l1_to_l2 s = []") (auto simp: L1L2LatestTimestamp_def)
qed

text \<open>The start of a round is zero or the timestamp of a deposit that is already there.\<close>

definition started :: "int \<Rightarrow> db \<Rightarrow> bool" where
  "started start s = (start = 0 \<or> (\<exists>r \<in> set (l1_to_l2 s). l12_Timestamp r = start))"

lemma started_later: "started start s \<Longrightarrow> later_deposits s s' \<Longrightarrow> started start s'"
  using same_columns(1)[of _ "l1_to_l2 s"] unfolding started_def later_deposits_def
  by (metis (no_types, lifting) Un_iff image_iff set_append)

abbreviation between :: "int \<Rightarrow> int \<Rightarrow> L1ToL2 \<Rightarrow> bool" where
  "between a b r \<equiv> a < l12_Timestamp r \<and> l12_Timestamp r \<le> b"

lemma stored_later:
  assumes "later_deposits s s'" "timestamps_read E s" "\<forall>r \<in> set (l1_to_l2 s'). 0 < l12_Timestamp r"
    and "amount \<in> {l12_ERC20Amount, l12_ETHAmount}"
  shows "stored amount l12_tokens p (between a (L1L2LatestTimestamp (xe_G E) s)) (l1_to_l2 s')
    = stored amount l12_tokens p (between a (L1L2LatestTimestamp (xe_G E) s)) (l1_to_l2 s)"
proof -
  obtain old new where new: "l1_to_l2 s' = old @ new" "map counted_columns old = map counted_columns (l1_to_l2 s)"
      "\<forall>r \<in> set new. \<forall>q \<in> set (l1_to_l2 s). l12_Timestamp q < l12_Timestamp r"
    using assms(1) by (auto simp: later_deposits_def)
  have "L1L2LatestTimestamp (xe_G E) s < l12_Timestamp r" if "r \<in> set new" for r
    using latest_timestamp(1,2)[OF assms(2)] new that assms(3) by (cases "l1_to_l2 s = []") fastforce+
  then have "filter (\<lambda>r. between a (L1L2LatestTimestamp (xe_G E) s) r \<and> l12_tokens r = p) new = []"
    by (fastforce simp: filter_empty_conv)
  then have "stored amount l12_tokens p (between a (L1L2LatestTimestamp (xe_G E) s)) (l1_to_l2 s')
      = stored amount l12_tokens p (between a (L1L2LatestTimestamp (xe_G E) s)) old"
    by (simp add: stored_def new(1))
  then show ?thesis
    using assms(4) same_columns(2,3)[OF new(2), of p "\<lambda>t. a < t \<and> t \<le> L1L2LatestTimestamp (xe_G E) s"] by auto
qed

lemma stored_split:
  assumes "a \<le> b" "b \<le> c"
  shows "stored amount tokens p (between a c) t = stored amount tokens p (between a b) t + stored amount tokens p (between b c) t"
  unfolding stored_def using assms by (induction t) auto

lemma round_ends:
  assumes "timestamps_read E s" "started start s"
  shows "started (L1L2LatestTimestamp (xe_G E) s) s" "start \<le> L1L2LatestTimestamp (xe_G E) s"
  using latest_timestamp[OF assms(1)] assms
  by (cases "l1_to_l2 s = []"; fastforce simp: started_def timestamps_read_def)+

definition counted :: "exporter_env \<Rightarrow> db list \<Rightarrow> AmountRow list \<Rightarrow> metric_op list \<Rightarrow> bool" where
  "counted E ss gs ops = list_all2 (\<lambda>g op. \<exists>s \<in> set ss. amount_op CounterAdd ''lithosphere_deposit_amount'' E s g = Ok op) gs ops"

lemma round_counted:
  assumes "deposits_ok (xe_deposits E)" "metricDepositsAmount E s start = (start', Ok ops)"
  obtains "start' = start" "ops = []"
  | gs where "start' = L1L2LatestTimestamp (xe_G E) s" "counted E [s] gs ops"
      "\<And>p. answered am_ERC20Amount p gs = stored l12_ERC20Amount l12_tokens p (between start start') (l1_to_l2 s)
         \<and> answered am_ETHAmount p gs = stored l12_ETHAmount l12_tokens p (between start start') (l1_to_l2 s)"
proof (cases "GetDepositsAmountByTimestamp (xe_deposits E) start (L1L2LatestTimestamp (xe_G E) s) s")
  case (Ok gs)
  then have e: "start' = L1L2LatestTimestamp (xe_G E) s" "counted E [s] gs ops"
    using assms(2) by (auto simp: metricDepositsAmount_def Let_def counted_def mapR_Ok_iff list_all2_conv_all_nth)
  have "xe_deposits E (between start start') (l1_to_l2 s) = Ok gs"
    using Ok e(1) grouped_found(1)[OF assms(1)[unfolded deposits_ok_def]] by (simp add: GetDepositsAmountByTimestamp_def)
  then show thesis using that(2)[OF e] grouped_total[OF assms(1)[unfolded deposits_ok_def]] by blast
qed (use assms(2) that(1) in \<open>auto simp: metricDepositsAmount_def Let_def\<close>)

lemma counted_mono: "counted E ss gs ops \<Longrightarrow> set ss \<subseteq> set ts \<Longrightarrow> counted E ts gs ops"
  unfolding counted_def by (erule list_all2_mono) blast

lemma deposits_run_counted:
  assumes "deposits_ok (xe_deposits E)"
  shows "ss \<noteq> [] \<Longrightarrow> \<forall>s \<in> set ss. timestamps_read E s \<Longrightarrow> sorted_wrt later_deposits ss \<Longrightarrow> started start (hd ss)
    \<Longrightarrow> deposits_run E start ss = (final, Ok ops)
    \<Longrightarrow> start \<le> final \<and> (\<exists>gs. counted E ss gs ops \<and> (\<forall>p.
          answered am_ERC20Amount p gs = stored l12_ERC20Amount l12_tokens p (between start final) (l1_to_l2 (last ss))
        \<and> answered am_ETHAmount p gs = stored l12_ETHAmount l12_tokens p (between start final) (l1_to_l2 (last ss))))"
proof (induction ss arbitrary: start ops)
  case (Cons s ss)
  obtain start' r rest where m: "metricDepositsAmount E s start = (start', r)" and d: "deposits_run E start' ss = (final, rest)"
      "bindR r (\<lambda>ops. bindR rest (\<lambda>rest. Ok (ops @ rest))) = Ok ops"
    using Cons.prems(5) by (auto split: prod.splits)
  then obtain ops1 ops2 where r: "r = Ok ops1" "rest = Ok ops2" "ops = ops1 @ ops2" by auto
  have s: "timestamps_read E s" "started start s" using Cons.prems by simp_all
  have nil: "stored amount tokens p (between a a) t = 0" for amount p a t and tokens :: "L1ToL2 \<Rightarrow> address \<times> address"
    unfolding stored_def by (induction t) auto
  have tail: "start' \<le> final \<and> (\<exists>gs. counted E ss gs ops2 \<and> (\<forall>p.
          answered am_ERC20Amount p gs = stored l12_ERC20Amount l12_tokens p (between start' final) (l1_to_l2 (last (s # ss)))
        \<and> answered am_ETHAmount p gs = stored l12_ETHAmount l12_tokens p (between start' final) (l1_to_l2 (last (s # ss)))))"
    if st: "started start' s"
  proof (cases "ss = []")
    case True
    then have "final = start'" "ops2 = []" using d r by auto
    then show ?thesis by (intro conjI exI[of _ "[]"]) (simp_all add: nil answered_def counted_def)
  next
    case False
    then have "later_deposits s (hd ss)" using Cons.prems(3) by (cases ss) auto
    then have "started start' (hd ss)" using st by (rule started_later[rotated])
    then show ?thesis using Cons.IH[OF False, of start' ops2] Cons.prems(2,3) d r False by simp
  qed
  from round_counted[OF assms m[unfolded r]] show ?case
  proof cases
    case 1
    then have "started start' s" using s(2) by simp
    from tail[OF this] obtain gs where "start' \<le> final" "counted E ss gs ops2" "\<forall>p.
          answered am_ERC20Amount p gs = stored l12_ERC20Amount l12_tokens p (between start' final) (l1_to_l2 (last (s # ss)))
        \<and> answered am_ETHAmount p gs = stored l12_ETHAmount l12_tokens p (between start' final) (l1_to_l2 (last (s # ss)))"
      by blast
    then show ?thesis using 1 r(3) counted_mono[of E ss gs ops2 "s # ss"] by (intro conjI exI[of _ gs]) auto
  next
    case (2 gs1)
    then obtain gs2 where st: "started start' s" "start \<le> start'" "start' \<le> final" and gs2: "counted E ss gs2 ops2" "\<forall>p.
          answered am_ERC20Amount p gs2 = stored l12_ERC20Amount l12_tokens p (between start' final) (l1_to_l2 (last (s # ss)))
        \<and> answered am_ETHAmount p gs2 = stored l12_ETHAmount l12_tokens p (between start' final) (l1_to_l2 (last (s # ss)))"
      using round_ends[OF s] tail by metis
    have same: "stored amount l12_tokens p (between start start') (l1_to_l2 s)
        = stored amount l12_tokens p (between start start') (l1_to_l2 (last (s # ss)))"
      if "amount \<in> {l12_ERC20Amount, l12_ETHAmount}" for amount p
    proof (cases "ss = []")
      case False
      then have "later_deposits s (last ss)" "timestamps_read E (last ss)" using Cons.prems(2,3) by auto
      then show ?thesis using False stored_later[OF _ s(1) _ that] unfolding 2(1) by (simp add: timestamps_read_def)
    qed simp
    have "counted E (s # ss) (gs1 @ gs2) ops"
      using counted_mono[OF 2(2), of "s # ss"] counted_mono[OF gs2(1), of "s # ss"] unfolding r(3)
      by (auto simp: counted_def intro: list_all2_appendI)
    then show ?thesis
      using st gs2(2) 2(3) same stored_split[OF st(2,3)]
      by (intro conjI exI[of _ "gs1 @ gs2"]) (auto simp: answered_append)
  qed
qed simp

text \<open>A deposit that appears with a timestamp the exporter has already reached is in the window of no later round.\<close>

lemma late_deposit_missed:
  assumes "deposits_ok (xe_deposits E)" "metricDepositsAmount E s start = (start', Ok ops)" "ops \<noteq> []"
  shows "\<exists>gs. counted E [s] gs ops \<and> (\<forall>p. answered am_ERC20Amount p gs
      = stored l12_ERC20Amount l12_tokens p (between start start') (filter (\<lambda>r. start < l12_Timestamp r) (l1_to_l2 s)))"
proof (cases rule: round_counted[OF assms(1,2)])
  case (2 gs)
  have "stored l12_ERC20Amount l12_tokens p (between start start') (filter (\<lambda>r. start < l12_Timestamp r) t)
      = stored l12_ERC20Amount l12_tokens p (between start start') t" for p t
    unfolding stored_def by (induction t) auto
  then show ?thesis using 2 by metis
qed (use assms(3) in simp)


definition sample_exporter_env :: exporter_env where
  "sample_exporter_env = \<lparr>xe_G = mem_gorms, xe_deposits = mem_grouped l12_ETHAmount l12_ERC20Amount l12_tokens,
     xe_withdraws = mem_grouped l21_ETHAmount l21_ERC20Amount l21_tokens, xe_String = (\<lambda>a. ''0x'')\<rparr>"

definition sample_deposits :: db where
  "sample_deposits = empty_db\<lparr>l1_to_l2 := [zero_L1ToL2\<lparr>l12_Timestamp := 9, l12_ERC20Amount := Some 5\<rparr>]\<rparr>"

text \<open>The deposit has been relayed.\<close>

definition relayed_deposits :: db where
  "relayed_deposits = sample_deposits\<lparr>l1_to_l2 := [zero_L1ToL2\<lparr>l12_Timestamp := 9, l12_ERC20Amount := Some 5,
     l12_L2TransactionHash := 3\<rparr>]\<rparr>"

lemma sample_deposits_run:
  "\<exists>op. deposits_run sample_exporter_env 0 [empty_db, sample_deposits, relayed_deposits] = (9, Ok [op])"
  by (simp add: metricDepositsAmount_def sample_exporter_env_def sample_deposits_def relayed_deposits_def empty_db_def Let_def
      L1L2LatestTimestamp_def GetDepositsAmountByTimestamp_def mem_grouped_def empty_if_not_found_def amount_op_def
      amount_of_def group_row_def sql_sum_def zero_L1ToL2_def BVM_ETH_def)



section \<open>Who is counted as a big spender\<close>

definition token_sender :: "ContractEvent \<Rightarrow> hash" where "token_sender e = Topics (ce_RLPLog e) ! 1"
definition token_receiver :: "ContractEvent \<Rightarrow> hash" where "token_receiver e = Topics (ce_RLPLog e) ! 2"

text \<open>A transfer between two users in the usual layout of the log.\<close>

definition transfer_shape :: "ContractEvent \<Rightarrow> bool" where
  "transfer_shape e = (3 \<le> length (Topics (ce_RLPLog e)) \<and> length (Data (ce_RLPLog e)) = 32)"

definition moves :: "hash \<Rightarrow> ContractEvent \<Rightarrow> bool" where
  "moves u e = (token_sender e = u \<and> u \<noteq> 0 \<and> token_receiver e \<noteq> 0)"

definition low_amount :: "ContractEvent \<Rightarrow> int" where
  "low_amount e = SetBytes (Data (ce_RLPLog e)) mod 2 ^ 240"

definition sent :: "hash \<Rightarrow> ContractEvent list \<Rightarrow> int" where
  "sent u es = (\<Sum>e\<leftarrow>filter (moves u) es. low_amount e)"

lemma SetBytes_drop2:
  assumes "length d = 32"
  shows "SetBytes (drop 2 d) = SetBytes d mod 2 ^ 240"
proof -
  have "SetBytes d = SetBytes (take 2 d) * 256 ^ 30 + SetBytes (drop 2 d)"
    using SetBytes_append[of "take 2 d" "drop 2 d"] assms by simp
  moreover have "SetBytes (drop 2 d) < 256 ^ 30" using SetBytes_less[of "drop 2 d"] assms by simp
  ultimately show ?thesis using SetBytes_nonneg[of "drop 2 d"] by simp
qed

lemma add_transfer_shape:
  assumes "transfer_shape e"
  shows "add_transfer e m = Ok (if token_sender e = 0 \<or> token_receiver e = 0 then m
    else AList.update (token_sender e) (num (map_of m (token_sender e)) + low_amount e) m)"
  using assms SetBytes_drop2[of "Data (ce_RLPLog e)"]
  by (auto simp: add_transfer_def transfer_shape_def token_sender_def token_receiver_def low_amount_def num_def Let_def split: option.splits)

lemma transfers_total:
  assumes "\<forall>e \<in> set es. transfer_shape e" "distinct (map fst m)"
  shows "\<exists>m'. foldR add_transfer es m = Ok m' \<and> distinct (map fst m')
    \<and> (\<forall>u. map_of m' u = (if \<exists>e \<in> set es. moves u e then Some (num (map_of m u) + sent u es) else map_of m u))"
  using assms
proof (induction es arbitrary: m)
  case (Cons e es)
  let ?m = "if token_sender e = 0 \<or> token_receiver e = 0 then m
    else AList.update (token_sender e) (num (map_of m (token_sender e)) + low_amount e) m"
  have e: "add_transfer e m = Ok ?m" using Cons.prems(1) by (simp add: add_transfer_shape)
  have "distinct (map fst ?m)" using Cons.prems(2) by (simp add: distinct_update)
  then obtain m' where m': "foldR add_transfer es ?m = Ok m'" "distinct (map fst m')"
      "\<forall>u. map_of m' u = (if \<exists>e \<in> set es. moves u e then Some (num (map_of ?m u) + sent u es) else map_of ?m u)"
    using Cons.IH[of ?m] Cons.prems(1) by auto
  have "map_of ?m u = (if moves u e then Some (num (map_of m u) + low_amount e) else map_of m u)" for u
    by (auto simp: moves_def update_conv')
  then have "map_of m' u = (if \<exists>x \<in> set (e # es). moves u x then Some (num (map_of m u) + sent u (e # es)) else map_of m u)" for u
    using m'(3) by (auto simp: sent_def num_def filter_empty_conv)
  then show ?case using e m'(1,2) by auto
qed (simp add: sent_def)

lemma alerts_card:
  assumes "distinct (map fst ts)"
  shows "alerts T ts = card {u. \<exists>v. map_of ts u = Some v \<and> v \<ge> T}"
proof -
  have "{u. \<exists>v. map_of ts u = Some v \<and> v \<ge> T} = fst ` set (filter (\<lambda>(u, v). v \<ge> T) ts)"
  proof (intro set_eqI iffI)
    fix u assume "u \<in> {u. \<exists>v. map_of ts u = Some v \<and> v \<ge> T}"
    then obtain v where "map_of ts u = Some v" "v \<ge> T" by auto
    with map_of_SomeD[OF this(1)] show "u \<in> fst ` set (filter (\<lambda>(u, v). v \<ge> T) ts)" by (intro image_eqI[of _ _ "(u, v)"]) auto
  next
    fix u assume "u \<in> fst ` set (filter (\<lambda>(u, v). v \<ge> T) ts)"
    then obtain v where "(u, v) \<in> set ts" "v \<ge> T" by auto
    then show "u \<in> {u. \<exists>v. map_of ts u = Some v \<and> v \<ge> T}" using assms by (intro CollectI exI[of _ v]) simp
  qed
  moreover have "distinct (map fst (filter (\<lambda>(u, v). v \<ge> T) ts))" using assms by (rule distinct_map_filter)
  ultimately show ?thesis using distinct_card[of "map fst (filter (\<lambda>(u, v). v \<ge> T) ts)"] by (simp add: alerts_def)
qed

definition transfers_of :: "(string \<Rightarrow> ContractEvent list result) \<Rightarrow> string \<Rightarrow> (hash \<times> int) list result" where
  "transfers_of query addr = (case query addr of
       Panic p \<Rightarrow> Panic p | Err e \<Rightarrow> Ok [] | Ok events \<Rightarrow> foldR add_transfer events [])"

lemma contracts_read:
  assumes "foldR (contract_transfers query) addresses m = Ok m'" "\<forall>a ts. m a = Some ts \<longrightarrow> transfers_of query a = Ok ts"
  shows "(\<forall>a ts. m' a = Some ts \<longrightarrow> transfers_of query a = Ok ts) \<and> (\<forall>a. a \<in> set addresses \<or> m a \<noteq> None \<longrightarrow> m' a \<noteq> None)"
  using assms
proof (induction addresses arbitrary: m)
  case (Cons a addresses)
  obtain ts where ts: "transfers_of query a = Ok ts" "contract_transfers query a m = Ok (m(a \<mapsto> ts))"
    using Cons.prems(1) by (cases "query a") (auto simp: contract_transfers_def transfers_of_def)
  have "\<forall>b us. (m(a \<mapsto> ts)) b = Some us \<longrightarrow> transfers_of query b = Ok us" using Cons.prems(2) ts(1) by auto
  moreover have "foldR (contract_transfers query) addresses (m(a \<mapsto> ts)) = Ok m'" using Cons.prems(1) ts(2) by simp
  ultimately have IH: "(\<forall>a ts. m' a = Some ts \<longrightarrow> transfers_of query a = Ok ts)
      \<and> (\<forall>b. b \<in> set addresses \<or> (m(a \<mapsto> ts)) b \<noteq> None \<longrightarrow> m' b \<noteq> None)"
    using Cons.IH by blast
  have "\<forall>b. b \<in> set (a # addresses) \<or> m b \<noteq> None \<longrightarrow> b \<in> set addresses \<or> (m(a \<mapsto> ts)) b \<noteq> None" by auto
  then show ?case using IH by blast
qed simp

text \<open>For a watched token whose events have the usual layout, the exporter publishes how many users have
  sent at least the threshold within the last five minutes, where only the low 240 bits of each amount
  count and transfers from or to the zero address do not.\<close>

lemma big_spenders_counted:
  assumes "MetricTransferBigValueInEthereum E undef cfg s now = Some (Ok ops)"
    and "i < length (Split (xc_TransferBigValueAddressInEthereum cfg) CHR '' '')"
    and "addr = Split (xc_TransferBigValueAddressInEthereum cfg) CHR '' '' ! i"
    and "T = threshold_of undef (Split (xc_TransferBigValueInEthereum cfg) CHR '' '' ! i)"
    and "L1ContractEventsWithContractFilter (xe_G E) addr TransferEventABIHash (now - 300) now s = Ok es"
    and "\<forall>e \<in> set es. transfer_shape e"
  shows "ops ! i = GaugeSet ''lithosphere_transfer_big_value_in_ethereum'' [addr, symbol_of E addr s]
    (float64 (int (card {u. (\<exists>e \<in> set es. moves u e) \<and> T \<le> sent u es})))"
proof -
  let ?query = "\<lambda>addr. L1ContractEventsWithContractFilter (xe_G E) addr TransferEventABIHash (now - 300) now s"
  let ?addresses = "Split (xc_TransferBigValueAddressInEthereum cfg) CHR '' ''"
  let ?limits = "Split (xc_TransferBigValueInEthereum cfg) CHR '' ''"
  obtain m where m: "foldR (contract_transfers ?query) ?addresses Map.empty = Ok m"
      "mapR (alert_op ''lithosphere_transfer_big_value_in_ethereum'' E undef s ?limits m) (enumerate 0 ?addresses) = Ok ops"
    using assms(1) by (auto simp: MetricTransferBigValueInEthereum_def big_transfers_def Let_def split: if_splits)
  have "addr \<in> set ?addresses" using assms(2,3) by simp
  then obtain ts where ts: "m addr = Some ts" "transfers_of ?query addr = Ok ts"
    using contracts_read[OF m(1)] by fastforce
  have "foldR add_transfer es [] = Ok ts" using ts(2) assms(5) by (simp add: transfers_of_def)
  then have k: "distinct (map fst ts)" "\<And>u. map_of ts u = (if \<exists>e \<in> set es. moves u e then Some (sent u es) else None)"
    using transfers_total[OF assms(6), of "[]"] by auto
  have "alerts T ts = card {u. (\<exists>e \<in> set es. moves u e) \<and> T \<le> sent u es}"
    unfolding alerts_card[OF k(1)] k(2) by (intro arg_cong[where f = card]) auto
  moreover have "alert_op ''lithosphere_transfer_big_value_in_ethereum'' E undef s ?limits m (i, addr) = Ok (ops ! i)"
    using m(2) assms(2,3) unfolding mapR_Ok_iff by (auto simp: nth_enumerate_eq)
  ultimately show ?thesis using ts(1) assms(4) by (auto simp: alert_op_def indexR_eq_Ok)
qed

definition sample_transfer :: ContractEvent where
  "sample_transfer = \<lparr>ce_GUID = 0, ce_BlockHash = 0, ce_ContractAddress = 7, ce_TransactionHash = 0, ce_LogIndex = 0,
     ce_EventSignature = 0xddf252ad1be2c89b69c2b068fc378daa952ba7f163c4a11628f55a4df523b3ef, ce_Timestamp = 1000,
     ce_RLPLog = \<lparr>Address = 7, Topics = [0, 1, 2], Data = be_bytes 32 150, BlockNumber = 0, TxHash = 0, BlockHash = 0, Index = 0\<rparr>\<rparr>"

definition sample_transfers :: db where
  "sample_transfers = empty_db\<lparr>l1_contract_events := [sample_transfer]\<rparr>"

lemma transfer_signature:
  "hash_text 0xddf252ad1be2c89b69c2b068fc378daa952ba7f163c4a11628f55a4df523b3ef = TransferEventABIHash"
  by code_simp

lemma address_7: "address_text 7 = ''0x0000000000000000000000000000000000000007''"
  by code_simp

definition watching :: ExporterConfig where
  "watching = sample_exporter\<lparr>xc_TransferBigValueAddressInEthereum := ''0x0000000000000000000000000000000000000007'',
     xc_TransferBigValueInEthereum := ''100''\<rparr>"

lemma watching_round:
  "\<exists>op. MetricTransferBigValueInEthereum sample_exporter_env (\<lambda>_. 0) watching sample_transfers 1100 = Some (Ok [op])"
  "L1ContractEventsWithContractFilter (xe_G sample_exporter_env) ''0x0000000000000000000000000000000000000007'' TransferEventABIHash
     (1100 - 300) 1100 sample_transfers = Ok [AfterFind sample_transfer]"
proof -
  show q: "L1ContractEventsWithContractFilter (xe_G sample_exporter_env) ''0x0000000000000000000000000000000000000007''
     TransferEventABIHash (1100 - 300) 1100 sample_transfers = Ok [AfterFind sample_transfer]"
    by (simp add: L1ContractEventsWithContractFilter_def sample_exporter_env_def sample_transfers_def sample_transfer_def
        empty_db_def contract_events_between_def address_7 transfer_signature empty_if_not_found_def)
  have "transfer_shape (AfterFind sample_transfer)"
    by (simp add: transfer_shape_def AfterFind_def rlp_log_def sample_transfer_def)
  then obtain m where "foldR add_transfer [AfterFind sample_transfer] [] = Ok m" using transfers_total[of "[AfterFind sample_transfer]" "[]"] by auto
  then show "\<exists>op. MetricTransferBigValueInEthereum sample_exporter_env (\<lambda>_. 0) watching sample_transfers 1100 = Some (Ok [op])"
    using q by (simp add: MetricTransferBigValueInEthereum_def big_transfers_def watching_def sample_exporter_def
        contract_transfers_def alert_op_def Let_def)
qed

lemma watched: "Split (xc_TransferBigValueAddressInEthereum watching) CHR '' '' = [''0x0000000000000000000000000000000000000007'']"
    "Split (xc_TransferBigValueInEthereum watching) CHR '' '' = [''100'']"
  by (simp_all add: watching_def)

lemma threshold_100: "threshold_of undef ''100'' = 100"
  by (simp add: threshold_of_def SetString_def read_decimal_def digit_value_def digits_def upt_rec)

lemma sample_transfer_read:
  "transfer_shape (AfterFind sample_transfer)" "moves u (AfterFind sample_transfer) \<longleftrightarrow> u = 1"
  "low_amount (AfterFind sample_transfer) = 150"
  by (auto simp: transfer_shape_def moves_def low_amount_def token_sender_def token_receiver_def AfterFind_def rlp_log_def
      sample_transfer_def SetBytes_be_bytes simp del: be_bytes.simps)

end
