(* ===== verification/Metrics.thy ===== *)
theory Metrics
  imports Complex_Main TextFormat Retry
begin


text \<open>
  metrics/: how the program registers its metrics with the Prometheus client and what it records in them.
  The client is a library: \<open>prom\<close> is what it offers, and \<open>prom_documented\<close> states what its documentation
  promises.  A metric is its kind, its full name and the names of its labels; what is recorded is a list of
  calls on metrics.  The values are float64, kept as the rational numbers they are.
\<close>

section \<open>Binary floating point\<close>

definition round_half_even :: "rat \<Rightarrow> int" where
  "round_half_even q =
     (let n = \<lfloor>q\<rfloor>; f = q - of_int n in
      if f > 1 / 2 \<or> (f = 1 / 2 \<and> odd n) then n + 1 else n)"

text \<open>2 to an integer exponent.\<close>

definition pow2 :: "int \<Rightarrow> rat" where
  "pow2 e = (if e \<ge> 0 then 2 ^ nat e else 1 / 2 ^ nat (- e))"

text \<open>big.Int.BitLen, of a number that is not negative.\<close>

fun BitLen :: "int \<Rightarrow> int" where
  "BitLen n = (if n \<le> 0 then 0 else 1 + BitLen (n div 2))"

declare BitLen.simps [simp del]

text \<open>The e with q in the interval from 2 ^ (e - 1) to 2 ^ e, for a positive q: the lengths of its numerator and its
  denominator leave two candidates.\<close>

definition magnitude :: "rat \<Rightarrow> int" where
  "magnitude q = (let (a, b) = quotient_of q; e = BitLen a - BitLen b in
                  if q < pow2 e then e else e + 1)"

text \<open>The nearest number with a significand of \<open>prec\<close> bits, ties to even: big.Float of that precision, and
  float64 for 53 bits (the amounts are far from its largest and smallest exponents).\<close>

definition round_bits :: "nat \<Rightarrow> rat \<Rightarrow> rat" where
  "round_bits prec q =
     (if q = 0 then 0
      else let m = \<bar>q\<bar>; ulp = pow2 (magnitude m - int prec); r = of_int (round_half_even (m / ulp)) * ulp in
        if q < 0 then - r else r)"

abbreviation to_float64 :: "rat \<Rightarrow> rat" where "to_float64 \<equiv> round_bits 53"

text \<open>bigint.WeiToETH, as a float64: the wei are read with 64 bits of precision and divided by 1e18.\<close>

definition WeiToETH :: "int \<Rightarrow> rat" where
  "WeiToETH wei = round_bits 64 (round_bits 64 (of_int wei) / 10 ^ 18)"

definition minted_float :: "int \<Rightarrow> rat" where
  "minted_float wei = to_float64 (WeiToETH wei)"

text \<open>metrics.weiToEther: the exact quotient, rounded once.\<close>

definition weiToEther :: "int \<Rightarrow> rat" where
  "weiToEther wei = to_float64 (of_int wei / 10 ^ 18)"

lemma pow2_pos [simp]: "0 < pow2 e"
  by (simp add: pow2_def)

lemma round_half_even_nonneg: "0 \<le> q \<Longrightarrow> 0 \<le> round_half_even q"
  by (auto simp: round_half_even_def Let_def intro: add_nonneg_nonneg)

lemma round_bits_nonneg [simp]: "0 \<le> q \<Longrightarrow> 0 \<le> round_bits prec q"
  by (auto simp: round_bits_def Let_def intro!: mult_nonneg_nonneg round_half_even_nonneg divide_nonneg_nonneg less_imp_le[OF pow2_pos])

lemma round_half_even_error: "\<bar>of_int (round_half_even q) - q\<bar> \<le> 1 / 2"
proof -
  have "0 \<le> q - of_int \<lfloor>q\<rfloor>" "q - of_int \<lfloor>q\<rfloor> < 1" by linarith+
  then show ?thesis by (auto simp: round_half_even_def Let_def)
qed

lemma round_half_even_int [simp]: "round_half_even (of_int n) = n"
  by (simp add: round_half_even_def Let_def)

lemma minted_float_nonneg: "0 \<le> wei \<Longrightarrow> 0 \<le> minted_float wei"
  by (simp add: minted_float_def WeiToETH_def)


section \<open>The client library\<close>

datatype metric_kind = CounterKind | GaugeKind | HistogramKind | SummaryKind

text \<open>prometheus.CounterOpts and the other options; the help text and the buckets decide nothing here.\<close>

record metric_opts =
  mo_Namespace :: string
  mo_Subsystem :: string
  mo_Name :: string

record metric =
  mt_kind :: metric_kind
  mt_name :: string
  mt_labels :: "string list"

text \<open>WithLabelValues on a metric, then a method on the result; Inc is Add of one.\<close>

datatype call_method = Add rat | SetTo rat | Observe rat

record metric_call =
  mc_metric :: metric
  mc_values :: "string list"
  mc_method :: call_method

definition Inc :: call_method where "Inc = Add 1"

text \<open>\<open>pm_register\<close>: what promauto.With(registry) does to make a metric with these options and label names.
  \<open>pm_call\<close>: whether a call returns.\<close>

record 'r prom =
  pm_register :: "metric_kind \<Rightarrow> metric_opts \<Rightarrow> string list \<Rightarrow> ('r, metric) go"
  pm_call :: "metric_call \<Rightarrow> unit result"

text \<open>prometheus.BuildFQName: the parts that are not empty, joined by underscores; empty without a name.\<close>

definition BuildFQName :: "metric_opts \<Rightarrow> string" where
  "BuildFQName opts =
     (if mo_Name opts = [] then []
      else (if mo_Namespace opts = [] then [] else mo_Namespace opts @ ''_'') @
           (if mo_Subsystem opts = [] then [] else mo_Subsystem opts @ ''_'') @ mo_Name opts)"

definition letters :: string where
  "letters = ''ABCDEFGHIJKLMNOPQRSTUVWXYZabcdefghijklmnopqrstuvwxyz_''"

text \<open>A name of the data model: letters, underscores and digits, no digit first.\<close>

definition valid_name :: "string \<Rightarrow> bool" where
  "valid_name s = (s \<noteq> [] \<and> hd s \<in> set letters \<and> (\<forall>c \<in> set s. c \<in> set letters \<or> c \<in> set digits))"

text \<open>A call the documentation allows: as many values as labels, a method of the metric's kind, and no
  negative amount added to a counter.\<close>

fun method_ok :: "metric_kind \<Rightarrow> call_method \<Rightarrow> bool" where
  "method_ok CounterKind (Add v) = (0 \<le> v)"
| "method_ok GaugeKind (Add v) = True"
| "method_ok GaugeKind (SetTo v) = True"
| "method_ok HistogramKind (Observe v) = True"
| "method_ok SummaryKind (Observe v) = True"
| "method_ok k m = False"

definition call_ok :: "metric_call \<Rightarrow> bool" where
  "call_ok c = (length (mc_values c) = length (mt_labels (mc_metric c)) \<and> method_ok (mt_kind (mc_metric c)) (mc_method c))"

text \<open>The documentation: a new name is registered, a name that is taken panics; a call panics unless it is
  allowed.\<close>

definition prom_documented :: "('r \<Rightarrow> string set) \<Rightarrow> 'r prom \<Rightarrow> bool" where
  "prom_documented names P =
     ((\<forall>k opts ls r. BuildFQName opts \<notin> names r \<longrightarrow> valid_name (BuildFQName opts) \<longrightarrow> list_all valid_name ls \<longrightarrow>
         (\<exists>r'. pm_register P k opts ls r = (Ok \<lparr>mt_kind = k, mt_name = BuildFQName opts, mt_labels = ls\<rparr>, r')
               \<and> names r' = insert (BuildFQName opts) (names r)))
    \<and> (\<forall>k opts ls r. BuildFQName opts \<in> names r \<longrightarrow> (\<exists>p. pm_register P k opts ls r = (Panic p, r)))
    \<and> (\<forall>c. if call_ok c then pm_call P c = Ok () else (\<exists>p. pm_call P c = Panic p)))"

section \<open>The factory\<close>

record DocumentedMetric =
  dm_Type :: string
  dm_Name :: string
  dm_Labels :: "string list"

text \<open>documentor: the metrics documented so far, over the registry.\<close>

record 'r documentor =
  dc_metrics :: "DocumentedMetric list"
  dc_registry :: 'r

definition With :: "'r \<Rightarrow> 'r documentor" where
  "With r = \<lparr>dc_metrics = [], dc_registry = r\<rparr>"

definition fullName :: "string \<Rightarrow> string \<Rightarrow> string \<Rightarrow> string" where
  "fullName ns subsystem name = ns @ (if subsystem \<noteq> [] then ''_'' @ subsystem else []) @ ''_'' @ name"

definition Document :: "'r documentor \<Rightarrow> DocumentedMetric list" where
  "Document d = dc_metrics d"

text \<open>The library's factory behind the documentor.\<close>

definition on_registry :: "('r, 'a) go \<Rightarrow> ('r documentor, 'a) go" where
  "on_registry m = (\<lambda>d. let (a, r) = m (dc_registry d) in (a, d\<lparr>dc_registry := r\<rparr>))"

definition documented :: "string \<Rightarrow> metric_opts \<Rightarrow> string list \<Rightarrow> ('r documentor, unit) go" where
  "documented type opts labels = putG (\<lambda>d. d\<lparr>dc_metrics := dc_metrics d @
     [\<lparr>dm_Type = type, dm_Name = fullName (mo_Namespace opts) (mo_Subsystem opts) (mo_Name opts), dm_Labels = labels\<rparr>]\<rparr>)"

definition NewCounter :: "'r prom \<Rightarrow> metric_opts \<Rightarrow> ('r documentor, metric) go" where
  "NewCounter P opts = thenG (documented ''counter'' opts []) (on_registry (pm_register P CounterKind opts []))"

definition NewCounterVec :: "'r prom \<Rightarrow> metric_opts \<Rightarrow> string list \<Rightarrow> ('r documentor, metric) go" where
  "NewCounterVec P opts labelNames =
     thenG (documented ''counter'' opts labelNames) (on_registry (pm_register P CounterKind opts labelNames))"

definition NewGauge :: "'r prom \<Rightarrow> metric_opts \<Rightarrow> ('r documentor, metric) go" where
  "NewGauge P opts = thenG (documented ''gauge'' opts []) (on_registry (pm_register P GaugeKind opts []))"

definition NewGaugeVec :: "'r prom \<Rightarrow> metric_opts \<Rightarrow> string list \<Rightarrow> ('r documentor, metric) go" where
  "NewGaugeVec P opts labelNames =
     thenG (documented ''gauge'' opts labelNames) (on_registry (pm_register P GaugeKind opts labelNames))"

definition NewHistogram :: "'r prom \<Rightarrow> metric_opts \<Rightarrow> ('r documentor, metric) go" where
  "NewHistogram P opts = thenG (documented ''histogram'' opts []) (on_registry (pm_register P HistogramKind opts []))"

definition NewHistogramVec :: "'r prom \<Rightarrow> metric_opts \<Rightarrow> string list \<Rightarrow> ('r documentor, metric) go" where
  "NewHistogramVec P opts labelNames =
     thenG (documented ''histogram'' opts labelNames) (on_registry (pm_register P HistogramKind opts labelNames))"

definition NewSummary :: "'r prom \<Rightarrow> metric_opts \<Rightarrow> ('r documentor, metric) go" where
  "NewSummary P opts = thenG (documented ''summary'' opts []) (on_registry (pm_register P SummaryKind opts []))"

definition NewSummaryVec :: "'r prom \<Rightarrow> metric_opts \<Rightarrow> string list \<Rightarrow> ('r documentor, metric) go" where
  "NewSummaryVec P opts labelNames =
     thenG (documented ''summary'' opts labelNames) (on_registry (pm_register P SummaryKind opts labelNames))"

lemmas factory_defs = NewCounter_def NewCounterVec_def NewGauge_def NewGaugeVec_def NewHistogram_def NewHistogramVec_def
  NewSummary_def NewSummaryVec_def

text \<open>A constructor of metrics makes a factory over the registry, which lives as long as the constructor.\<close>

definition with_factory :: "('r documentor, 'a) go \<Rightarrow> ('r, 'a) go" where
  "with_factory m = (\<lambda>r. let (a, d) = m (With r) in (a, dc_registry d))"

section \<open>Metrics of the synchronizers\<close>

definition mk_opts :: "string \<Rightarrow> string \<Rightarrow> string \<Rightarrow> metric_opts" where
  "mk_opts ns sub name = \<lparr>mo_Namespace = ns, mo_Subsystem = sub, mo_Name = name\<rparr>"

definition MetricsNamespace :: string where "MetricsNamespace = ''etl''"

record etlMetrics =
  intervalTick :: metric
  intervalDuration :: metric
  batchFailures :: metric
  batchLatestHeight :: metric
  batchHeaders :: metric
  batchLogs :: metric
  indexedLatestHeight :: metric
  indexedHeaders :: metric
  indexedLogs :: metric

definition etl_NewMetrics :: "'r prom \<Rightarrow> string \<Rightarrow> ('r, etlMetrics) go" where
  "etl_NewMetrics P subsystem = with_factory (
     let opts = mk_opts MetricsNamespace subsystem in
     bindG (NewCounter P (opts ''intervals_total'')) (\<lambda>m1.
     bindG (NewHistogram P (opts ''interval_seconds'')) (\<lambda>m2.
     bindG (NewCounter P (opts ''failures_total'')) (\<lambda>m3.
     bindG (NewGauge P (opts ''height'')) (\<lambda>m4.
     bindG (NewCounter P (opts ''headers_total'')) (\<lambda>m5.
     bindG (NewCounterVec P (opts ''logs_total'') [''contract'']) (\<lambda>m6.
     bindG (NewGauge P (opts ''indexed_height'')) (\<lambda>m7.
     bindG (NewCounter P (opts ''indexed_headers_total'')) (\<lambda>m8.
     bindG (NewCounter P (opts ''indexed_logs_total'')) (\<lambda>m9.
     retG \<lparr>intervalTick = m1, intervalDuration = m2, batchFailures = m3, batchLatestHeight = m4, batchHeaders = m5,
       batchLogs = m6, indexedLatestHeight = m7, indexedHeaders = m8, indexedLogs = m9\<rparr>))))))))))"

text \<open>The value of a counter or a gauge from an integer.\<close>

definition float_of :: "int \<Rightarrow> rat" where "float_of n = of_int (float64 n)"

text \<open>RecordInterval, and the function it returns, called with the error of the interval; \<open>secs\<close> is the time
  measured between the two.\<close>

definition RecordInterval :: "etlMetrics \<Rightarrow> metric_call list" where
  "RecordInterval m = [\<lparr>mc_metric = intervalTick m, mc_values = [], mc_method = Inc\<rparr>]"

definition interval_done :: "etlMetrics \<Rightarrow> rat \<Rightarrow> error option \<Rightarrow> metric_call list" where
  "interval_done m secs err =
     (if err \<noteq> None then [\<lparr>mc_metric = batchFailures m, mc_values = [], mc_method = Inc\<rparr>] else []) @
     [\<lparr>mc_metric = intervalDuration m, mc_values = [], mc_method = Observe secs\<rparr>]"

definition RecordBatchLatestHeight :: "etlMetrics \<Rightarrow> int \<Rightarrow> metric_call list" where
  "RecordBatchLatestHeight m height =
     [\<lparr>mc_metric = batchLatestHeight m, mc_values = [], mc_method = SetTo (float_of (uint (big_Uint64 height)))\<rparr>]"

definition RecordBatchHeaders :: "etlMetrics \<Rightarrow> nat \<Rightarrow> metric_call list" where
  "RecordBatchHeaders m n = [\<lparr>mc_metric = batchHeaders m, mc_values = [], mc_method = Add (float_of (int n))\<rparr>]"

text \<open>The label is the address as text; the checksum in its letters is that of the library.\<close>

definition RecordBatchLog :: "(address \<Rightarrow> string) \<Rightarrow> etlMetrics \<Rightarrow> address \<Rightarrow> metric_call list" where
  "RecordBatchLog address_String m contractAddress =
     [\<lparr>mc_metric = batchLogs m, mc_values = [address_String contractAddress], mc_method = Inc\<rparr>]"

definition RecordIndexedLatestHeight :: "etlMetrics \<Rightarrow> int \<Rightarrow> metric_call list" where
  "RecordIndexedLatestHeight m height =
     [\<lparr>mc_metric = indexedLatestHeight m, mc_values = [], mc_method = SetTo (float_of (uint (big_Uint64 height)))\<rparr>]"

definition RecordIndexedHeaders :: "etlMetrics \<Rightarrow> nat \<Rightarrow> metric_call list" where
  "RecordIndexedHeaders m n = [\<lparr>mc_metric = indexedHeaders m, mc_values = [], mc_method = Add (float_of (int n))\<rparr>]"

definition RecordIndexedLogs :: "etlMetrics \<Rightarrow> nat \<Rightarrow> metric_call list" where
  "RecordIndexedLogs m n = [\<lparr>mc_metric = indexedLogs m, mc_values = [], mc_method = Add (float_of (int n))\<rparr>]"


section \<open>Metrics of the node clients\<close>

definition NodeMetricsNamespace :: string where "NodeMetricsNamespace = ''rpc''"

definition batchMethod :: string where "batchMethod = ''<batch>''"

record clientMetrics =
  rpcClientRequestsTotal :: metric
  rpcClientRequestDurationSeconds :: metric
  rpcClientResponsesTotal :: metric

definition NewNodeMetrics :: "'r prom \<Rightarrow> string \<Rightarrow> ('r, clientMetrics) go" where
  "NewNodeMetrics P subsystem = with_factory (
     let opts = mk_opts NodeMetricsNamespace subsystem in
     bindG (NewCounterVec P (opts ''requests_total'') [''method'']) (\<lambda>m1.
     bindG (NewHistogramVec P (opts ''request_duration_seconds'') [''method'']) (\<lambda>m2.
     bindG (NewCounterVec P (opts ''responses_total'') [''method'', ''error'']) (\<lambda>m3.
     retG \<lparr>rpcClientRequestsTotal = m1, rpcClientRequestDurationSeconds = m2, rpcClientResponsesTotal = m3\<rparr>))))"

text \<open>What errors.As finds in an error: an rpc.Error with its code, an rpc.HTTPError with its status.\<close>

record error_views =
  as_rpc :: "error \<Rightarrow> int option"
  as_http :: "error \<Rightarrow> int option"

definition error_label :: "error_views \<Rightarrow> error option \<Rightarrow> string" where
  "error_label V err =
     (case err of
        None \<Rightarrow> ''<nil>''
      | Some e \<Rightarrow>
          (case as_rpc V e of
             Some code \<Rightarrow> ''rpc_'' @ int_String code
           | None \<Rightarrow>
               (case as_http V e of
                  Some status \<Rightarrow> ''http_'' @ int_String status
                | None \<Rightarrow> if errors_Is e NotFound then ''<not found>'' else ''<unknown>'')))"

definition recordRPCClientResponse :: "error_views \<Rightarrow> clientMetrics \<Rightarrow> string \<Rightarrow> error option \<Rightarrow> metric_call list" where
  "recordRPCClientResponse V m method err =
     [\<lparr>mc_metric = rpcClientResponsesTotal m, mc_values = [method, error_label V err], mc_method = Inc\<rparr>]"

definition RecordRPCClientRequest :: "clientMetrics \<Rightarrow> string \<Rightarrow> metric_call list" where
  "RecordRPCClientRequest m method =
     [\<lparr>mc_metric = rpcClientRequestsTotal m, mc_values = [method], mc_method = Inc\<rparr>]"

definition rpc_request_done :: "error_views \<Rightarrow> clientMetrics \<Rightarrow> string \<Rightarrow> rat \<Rightarrow> error option \<Rightarrow> metric_call list" where
  "rpc_request_done V m method secs err =
     recordRPCClientResponse V m method err @
     [\<lparr>mc_metric = rpcClientRequestDurationSeconds m, mc_values = [method], mc_method = Observe secs\<rparr>]"

text \<open>A batch is a list of elements, each with its method and, once the batch has returned, its error.\<close>

definition RecordRPCClientBatchRequest :: "clientMetrics \<Rightarrow> string list \<Rightarrow> metric_call list" where
  "RecordRPCClientBatchRequest m methods =
     \<lparr>mc_metric = rpcClientRequestsTotal m, mc_values = [batchMethod], mc_method = Add (float_of (int (length methods)))\<rparr> #
     map (\<lambda>method. \<lparr>mc_metric = rpcClientRequestsTotal m, mc_values = [method], mc_method = Inc\<rparr>) methods"

definition rpc_batch_done :: "error_views \<Rightarrow> clientMetrics \<Rightarrow> (string \<times> error option) list \<Rightarrow> rat \<Rightarrow> error option
    \<Rightarrow> metric_call list" where
  "rpc_batch_done V m elems secs err =
     recordRPCClientResponse V m batchMethod err @
     [\<lparr>mc_metric = rpcClientRequestDurationSeconds m, mc_values = [batchMethod], mc_method = Observe secs\<rparr>] @
     concat (map (\<lambda>(method, e). recordRPCClientResponse V m method e) elems)"

section \<open>Metrics of a cache\<close>

record CacheMetrics =
  SizeVec :: metric
  GetVec :: metric
  AddVec :: metric

definition NewCacheMetrics :: "'r prom \<Rightarrow> string \<Rightarrow> string \<Rightarrow> ('r documentor, CacheMetrics) go" where
  "NewCacheMetrics P ns name =
     bindG (NewGaugeVec P (mk_opts ns [] (name @ ''_size'')) [''type'']) (\<lambda>m1.
     bindG (NewCounterVec P (mk_opts ns [] (name @ ''_get'')) [''type'', ''hit'']) (\<lambda>m2.
     bindG (NewCounterVec P (mk_opts ns [] (name @ ''_add'')) [''type'', ''evicted'']) (\<lambda>m3.
     retG \<lparr>SizeVec = m1, GetVec = m2, AddVec = m3\<rparr>)))"

definition CacheAdd :: "CacheMetrics \<Rightarrow> string \<Rightarrow> nat \<Rightarrow> bool \<Rightarrow> metric_call list" where
  "CacheAdd m typeLabel typeCacheSize evicted =
     [\<lparr>mc_metric = SizeVec m, mc_values = [typeLabel], mc_method = SetTo (float_of (int typeCacheSize))\<rparr>,
      \<lparr>mc_metric = AddVec m, mc_values = [typeLabel, if evicted then ''true'' else ''false''], mc_method = Inc\<rparr>]"

definition CacheGet :: "CacheMetrics \<Rightarrow> string \<Rightarrow> bool \<Rightarrow> metric_call list" where
  "CacheGet m typeLabel hit =
     [\<lparr>mc_metric = GetVec m, mc_values = [typeLabel, if hit then ''true'' else ''false''], mc_method = Inc\<rparr>]"

section \<open>The balance of an account\<close>

text \<open>One turn of the loop of LaunchBalanceMetrics; it ends when the context does.\<close>

definition balance_opts :: "string \<Rightarrow> metric_opts" where
  "balance_opts ns = mk_opts ns [] ''balance''"

definition balance_tick :: "metric \<Rightarrow> int result \<Rightarrow> metric_call list" where
  "balance_tick balanceGauge bigBal =
     (case bigBal of
        Ok wei \<Rightarrow> [\<lparr>mc_metric = balanceGauge, mc_values = [], mc_method = SetTo (weiToEther wei)\<rparr>]
      | _ \<Rightarrow> [])"

section \<open>Metrics of the HTTP server\<close>

definition httpLabels :: "string list" where "httpLabels = [''method'', ''response_code'']"

record HTTPParams =
  hp_Method :: string
  hp_StatusCode :: int

text \<open>An HTTPRecorder: what each of its methods records.\<close>

record HTTPRecorder =
  RecordHTTPRequestDuration :: "HTTPParams \<Rightarrow> int \<Rightarrow> metric_call list"
  RecordHTTPResponseSize :: "HTTPParams \<Rightarrow> nat \<Rightarrow> metric_call list"
  RecordInflightRequest :: "HTTPParams \<Rightarrow> int \<Rightarrow> metric_call list"
  RecordHTTPRequest :: "HTTPParams \<Rightarrow> metric_call list"
  RecordHTTPResponse :: "HTTPParams \<Rightarrow> metric_call list"

definition NoopHTTPRecorder :: HTTPRecorder where
  "NoopHTTPRecorder = \<lparr>RecordHTTPRequestDuration = (\<lambda>_ _. []), RecordHTTPResponseSize = (\<lambda>_ _. []),
     RecordInflightRequest = (\<lambda>_ _. []), RecordHTTPRequest = (\<lambda>_. []), RecordHTTPResponse = (\<lambda>_. [])\<rparr>"

record PromHTTPRecorder =
  HTTPRequestDuration :: metric
  HTTPResponseSize :: metric
  HTTPInflightRequests :: metric
  HTTPRequests :: metric
  HTTPResponses :: metric

text \<open>This one registers with promauto itself, without the documentor.\<close>

definition NewPromHTTPRecorder :: "'r prom \<Rightarrow> string \<Rightarrow> ('r, PromHTTPRecorder) go" where
  "NewPromHTTPRecorder P ns =
     bindG (pm_register P HistogramKind (mk_opts ns [] ''http_request_duration_ms'') httpLabels) (\<lambda>m1.
     bindG (pm_register P HistogramKind (mk_opts ns [] ''http_response_size'') httpLabels) (\<lambda>m2.
     bindG (pm_register P GaugeKind (mk_opts ns [] ''http_inflight_requests_count'') [''method'']) (\<lambda>m3.
     bindG (pm_register P CounterKind (mk_opts ns [] ''http_requests_count_total'') [''method'']) (\<lambda>m4.
     bindG (pm_register P CounterKind (mk_opts ns [] ''http_responses_count_total'') httpLabels) (\<lambda>m5.
     retG \<lparr>HTTPRequestDuration = m1, HTTPResponseSize = m2, HTTPInflightRequests = m3, HTTPRequests = m4,
       HTTPResponses = m5\<rparr>)))))"

text \<open>The duration is given in milliseconds.\<close>

definition prom_recorder :: "PromHTTPRecorder \<Rightarrow> HTTPRecorder" where
  "prom_recorder m =
     \<lparr>RecordHTTPRequestDuration = (\<lambda>p ms. [\<lparr>mc_metric = HTTPRequestDuration m,
        mc_values = [hp_Method p, int_String (hp_StatusCode p)], mc_method = Observe (float_of ms)\<rparr>]),
      RecordHTTPResponseSize = (\<lambda>p n. [\<lparr>mc_metric = HTTPResponseSize m,
        mc_values = [hp_Method p, int_String (hp_StatusCode p)], mc_method = Observe (float_of (int n))\<rparr>]),
      RecordInflightRequest = (\<lambda>p quantity. [\<lparr>mc_metric = HTTPInflightRequests m,
        mc_values = [hp_Method p], mc_method = Add (of_int quantity)\<rparr>]),
      RecordHTTPRequest = (\<lambda>p. [\<lparr>mc_metric = HTTPRequests m, mc_values = [hp_Method p], mc_method = Inc\<rparr>]),
      RecordHTTPResponse = (\<lambda>p. [\<lparr>mc_metric = HTTPResponses m,
        mc_values = [hp_Method p, int_String (hp_StatusCode p)], mc_method = Inc\<rparr>])\<rparr>"


section \<open>Registration\<close>

text \<open>What a constructor does to a registry that has none of its names: it returns its metrics and adds the names.\<close>

definition registers :: "('r \<Rightarrow> string set) \<Rightarrow> ('r, 'a) go \<Rightarrow> 'a \<Rightarrow> string list \<Rightarrow> bool" where
  "registers names m a ns =
     (\<forall>r. set ns \<inter> names r = {} \<longrightarrow> distinct ns \<longrightarrow> (\<exists>r'. m r = (Ok a, r') \<and> names r' = names r \<union> set ns))"

lemma registers_retG: "registers names (retG a) a []"
  by (simp add: registers_def retG_def)

lemma registers_bindG:
  assumes "registers names m a ns" "registers names (f a) b ms"
  shows "registers names (bindG m f) b (ns @ ms)"
  unfolding registers_def
proof (intro allI impI)
  fix r
  assume r: "set (ns @ ms) \<inter> names r = {}" "distinct (ns @ ms)"
  then obtain r1 where r1: "m r = (Ok a, r1)" "names r1 = names r \<union> set ns"
    using assms(1) unfolding registers_def by (metis Int_Un_distrib2 Un_empty distinct_append set_append)
  then have "set ms \<inter> names r1 = {}" "distinct ms" using r by auto
  then obtain r2 where "f a r1 = (Ok b, r2)" "names r2 = names r1 \<union> set ms"
    using assms(2) unfolding registers_def by blast
  then show "\<exists>r'. bindG m f r = (Ok b, r') \<and> names r' = names r \<union> set (ns @ ms)"
    using r1 by (auto simp: bindG_def)
qed

lemmas registers_step = registers_bindG[where ns = "[n]" for n, unfolded append_Cons append_Nil]

lemma registers_factory:
  "registers (\<lambda>d. names (dc_registry d)) m a ns \<Longrightarrow> registers names (with_factory m) a ns"
  unfolding registers_def
proof (intro allI impI)
  fix r
  assume m: "\<forall>d. set ns \<inter> names (dc_registry d) = {} \<longrightarrow> distinct ns \<longrightarrow>
      (\<exists>d'. m d = (Ok a, d') \<and> names (dc_registry d') = names (dc_registry d) \<union> set ns)"
    and r: "set ns \<inter> names r = {}" "distinct ns"
  from m[rule_format, of "With r"] r show "\<exists>r'. with_factory m r = (Ok a, r') \<and> names r' = names r \<union> set ns"
    by (auto simp: with_factory_def With_def)
qed

definition metric_of :: "metric_kind \<Rightarrow> metric_opts \<Rightarrow> string list \<Rightarrow> metric" where
  "metric_of k opts ls = \<lparr>mt_kind = k, mt_name = BuildFQName opts, mt_labels = ls\<rparr>"

lemma registers_promauto:
  assumes "prom_documented names P" "valid_name (BuildFQName opts)" "list_all valid_name ls"
  shows "registers names (pm_register P k opts ls) (metric_of k opts ls) [BuildFQName opts]"
  using assms by (auto simp: registers_def prom_documented_def metric_of_def)

lemma registers_documented:
  assumes "registers names m a ns"
  shows "registers (\<lambda>d. names (dc_registry d)) (thenG (documented t opts ls) (on_registry m)) a ns"
  unfolding registers_def
proof (intro allI impI)
  fix d :: "'a documentor"
  assume d: "set ns \<inter> names (dc_registry d) = {}" "distinct ns"
  then obtain r' where "m (dc_registry d) = (Ok a, r')" "names r' = names (dc_registry d) \<union> set ns"
    using assms unfolding registers_def by blast
  then show "\<exists>d'. thenG (documented t opts ls) (on_registry m) d = (Ok a, d') \<and> names (dc_registry d') = names (dc_registry d) \<union> set ns"
    by (simp add: documented_def thenG_putG on_registry_def)
qed

lemma registers_scalars:
  assumes "prom_documented names P" "valid_name (BuildFQName opts)"
  shows "registers (\<lambda>d. names (dc_registry d)) (NewCounter P opts) (metric_of CounterKind opts []) [BuildFQName opts]"
    "registers (\<lambda>d. names (dc_registry d)) (NewGauge P opts) (metric_of GaugeKind opts []) [BuildFQName opts]"
    "registers (\<lambda>d. names (dc_registry d)) (NewHistogram P opts) (metric_of HistogramKind opts []) [BuildFQName opts]"
    "registers (\<lambda>d. names (dc_registry d)) (NewSummary P opts) (metric_of SummaryKind opts []) [BuildFQName opts]"
  unfolding factory_defs using assms by (auto intro!: registers_documented registers_promauto)

lemma registers_vectors:
  assumes "prom_documented names P" "valid_name (BuildFQName opts)" "list_all valid_name ls"
  shows "registers (\<lambda>d. names (dc_registry d)) (NewCounterVec P opts ls) (metric_of CounterKind opts ls) [BuildFQName opts]"
    "registers (\<lambda>d. names (dc_registry d)) (NewGaugeVec P opts ls) (metric_of GaugeKind opts ls) [BuildFQName opts]"
    "registers (\<lambda>d. names (dc_registry d)) (NewHistogramVec P opts ls) (metric_of HistogramKind opts ls) [BuildFQName opts]"
    "registers (\<lambda>d. names (dc_registry d)) (NewSummaryVec P opts ls) (metric_of SummaryKind opts ls) [BuildFQName opts]"
  unfolding factory_defs using assms by (auto intro!: registers_documented registers_promauto)

text \<open>The factory documents each metric under the name it is registered with, when it has a namespace and a name.\<close>

lemma fullName_BuildFQName:
  "mo_Namespace opts \<noteq> [] \<Longrightarrow> mo_Name opts \<noteq> [] \<Longrightarrow> fullName (mo_Namespace opts) (mo_Subsystem opts) (mo_Name opts) = BuildFQName opts"
  by (simp add: fullName_def BuildFQName_def)

text \<open>The metrics a constructor makes, by the name and the labels of each.\<close>

definition etl_of :: "string \<Rightarrow> etlMetrics" where
  "etl_of sub = (let opts = mk_opts MetricsNamespace sub in
     \<lparr>intervalTick = metric_of CounterKind (opts ''intervals_total'') [],
      intervalDuration = metric_of HistogramKind (opts ''interval_seconds'') [],
      batchFailures = metric_of CounterKind (opts ''failures_total'') [],
      batchLatestHeight = metric_of GaugeKind (opts ''height'') [],
      batchHeaders = metric_of CounterKind (opts ''headers_total'') [],
      batchLogs = metric_of CounterKind (opts ''logs_total'') [''contract''],
      indexedLatestHeight = metric_of GaugeKind (opts ''indexed_height'') [],
      indexedHeaders = metric_of CounterKind (opts ''indexed_headers_total'') [],
      indexedLogs = metric_of CounterKind (opts ''indexed_logs_total'') []\<rparr>)"

definition etl_names :: "string \<Rightarrow> string list" where
  "etl_names sub = map (\<lambda>n. BuildFQName (mk_opts MetricsNamespace sub n))
     [''intervals_total'', ''interval_seconds'', ''failures_total'', ''height'', ''headers_total'', ''logs_total'',
      ''indexed_height'', ''indexed_headers_total'', ''indexed_logs_total'']"

lemma underscore_letter [simp]: "CHR ''_'' \<in> set letters"
  by (simp add: letters_def)

lemma valid_fq:
  assumes "valid_name ns" "sub = [] \<or> valid_name sub" "valid_name n"
  shows "valid_name (BuildFQName (mk_opts ns sub n))"
  using assms by (auto simp: BuildFQName_def mk_opts_def valid_name_def)

text \<open>The steps of a constructor whose namespace and subsystem are valid.\<close>

lemma registers_new:
  assumes "prom_documented names P" "valid_name ns" "sub = [] \<or> valid_name sub" "valid_name n"
  shows "registers (\<lambda>d. names (dc_registry d)) (NewCounter P (mk_opts ns sub n)) (metric_of CounterKind (mk_opts ns sub n) []) [BuildFQName (mk_opts ns sub n)]"
    "registers (\<lambda>d. names (dc_registry d)) (NewGauge P (mk_opts ns sub n)) (metric_of GaugeKind (mk_opts ns sub n) []) [BuildFQName (mk_opts ns sub n)]"
    "registers (\<lambda>d. names (dc_registry d)) (NewHistogram P (mk_opts ns sub n)) (metric_of HistogramKind (mk_opts ns sub n) []) [BuildFQName (mk_opts ns sub n)]"
    "list_all valid_name ls \<Longrightarrow> registers (\<lambda>d. names (dc_registry d)) (NewCounterVec P (mk_opts ns sub n) ls) (metric_of CounterKind (mk_opts ns sub n) ls) [BuildFQName (mk_opts ns sub n)]"
    "list_all valid_name ls \<Longrightarrow> registers (\<lambda>d. names (dc_registry d)) (NewGaugeVec P (mk_opts ns sub n) ls) (metric_of GaugeKind (mk_opts ns sub n) ls) [BuildFQName (mk_opts ns sub n)]"
    "list_all valid_name ls \<Longrightarrow> registers (\<lambda>d. names (dc_registry d)) (NewHistogramVec P (mk_opts ns sub n) ls) (metric_of HistogramKind (mk_opts ns sub n) ls) [BuildFQName (mk_opts ns sub n)]"
  using registers_scalars[OF assms(1) valid_fq[OF assms(2-4)]] registers_vectors[OF assms(1) valid_fq[OF assms(2-4)]]
  by simp_all

lemmas name_defs = valid_name_def letters_def digits_def

lemma etl_registers:
  assumes "prom_documented names P" "valid_name sub"
  shows "registers names (etl_NewMetrics P sub) (etl_of sub) (etl_names sub)"
proof -
  have "valid_name MetricsNamespace" by (simp add: MetricsNamespace_def name_defs)
  note new = registers_new[OF assms(1) this disjI2[OF assms(2)]]
  show ?thesis
    unfolding etl_NewMetrics_def etl_of_def etl_names_def Let_def
    by (rule registers_factory, unfold list.map)
      (rule registers_step new registers_retG | simp add: name_defs)+
qed

definition node_of :: "string \<Rightarrow> clientMetrics" where
  "node_of sub = (let opts = mk_opts NodeMetricsNamespace sub in
     \<lparr>rpcClientRequestsTotal = metric_of CounterKind (opts ''requests_total'') [''method''],
      rpcClientRequestDurationSeconds = metric_of HistogramKind (opts ''request_duration_seconds'') [''method''],
      rpcClientResponsesTotal = metric_of CounterKind (opts ''responses_total'') [''method'', ''error'']\<rparr>)"

definition node_names :: "string \<Rightarrow> string list" where
  "node_names sub = map (\<lambda>n. BuildFQName (mk_opts NodeMetricsNamespace sub n))
     [''requests_total'', ''request_duration_seconds'', ''responses_total'']"

lemma node_registers:
  assumes "prom_documented names P" "valid_name sub"
  shows "registers names (NewNodeMetrics P sub) (node_of sub) (node_names sub)"
proof -
  have "valid_name NodeMetricsNamespace" by (simp add: NodeMetricsNamespace_def name_defs)
  note new = registers_new[OF assms(1) this disjI2[OF assms(2)]]
  show ?thesis
    unfolding NewNodeMetrics_def node_of_def node_names_def Let_def
    by (rule registers_factory, unfold list.map)
      (rule registers_step new registers_retG | simp add: name_defs)+
qed

text \<open>A client over lists of names.\<close>

definition list_prom :: "string list prom" where
  "list_prom =
     \<lparr>pm_register = (\<lambda>k opts ls r. if BuildFQName opts \<in> set r then (Panic ''duplicate metrics collector registration attempted'', r)
        else (Ok (metric_of k opts ls), BuildFQName opts # r)),
      pm_call = (\<lambda>c. if call_ok c then Ok () else Panic ''inconsistent label cardinality'')\<rparr>"

lemma list_prom_documented: "prom_documented set list_prom"
  by (simp add: prom_documented_def list_prom_def metric_of_def)

end
