(* ===== verification/ExporterCollector.thy ===== *)
theory ExporterCollector
  imports Exporter Metrics
begin


text \<open>
  exporter/collector.go: the metrics the exporter's loops write, and their registration when the package is loaded.  The
  client library is that of Metrics; an operation of a loop is a call on the metric of its name.
\<close>

definition vec :: "metric_kind \<Rightarrow> string \<Rightarrow> string list \<Rightarrow> metric" where
  "vec kind name labels = \<lparr>mt_kind = kind, mt_name = name, mt_labels = labels\<rparr>"

definition gasBaseFeeMetric :: metric where "gasBaseFeeMetric = vec GaugeKind ''op_baseFee'' [''network'', ''layer'']"
definition gasUsedMetric :: metric where "gasUsedMetric = vec GaugeKind ''op_gasUsed'' [''network'', ''layer'']"
definition gasPrice :: metric where "gasPrice = vec GaugeKind ''op_gasPrice'' [''network'', ''layer'']"
definition blockNumber :: metric where "blockNumber = vec GaugeKind ''op_blocknumber'' [''network'', ''layer'']"
definition healthySequencer :: metric where "healthySequencer = vec GaugeKind ''op_healthy_sequencer'' [''network'']"

definition opExporterVersion :: metric where
  "opExporterVersion = vec CounterKind ''op_exporter_version'' [''version'', ''commit'', ''goVersion'', ''buildDate'']"

definition bridgeAccountChecking :: metric where
  "bridgeAccountChecking = vec GaugeKind ''bridge_account_checking'' [''l1Token'', ''l2Token'', ''symbol'']"

definition depositsAmount :: metric where
  "depositsAmount = vec CounterKind ''lithosphere_deposit_amount'' [''token_address'', ''symbol'']"

definition withdrawsUnclaimedAmount :: metric where
  "withdrawsUnclaimedAmount = vec GaugeKind ''lithosphere_withdraws_unclaimed_amount'' [''token_address'', ''symbol'']"

definition withdrawsClaimedAmount :: metric where
  "withdrawsClaimedAmount = vec CounterKind ''lithosphere_withdraws_claimed_amount'' [''token_address'', ''symbol'']"

definition transferBigValueInEthereum :: metric where
  "transferBigValueInEthereum = vec GaugeKind ''lithosphere_transfer_big_value_in_ethereum'' [''token_address'', ''symbol'']"

definition transferBigValueInMantle :: metric where
  "transferBigValueInMantle = vec GaugeKind ''lithosphere_transfer_big_value_in_mantle'' [''token_address'', ''symbol'']"

lemmas collector_defs = vec_def gasBaseFeeMetric_def gasUsedMetric_def gasPrice_def blockNumber_def healthySequencer_def
  opExporterVersion_def bridgeAccountChecking_def depositsAmount_def withdrawsUnclaimedAmount_def withdrawsClaimedAmount_def
  transferBigValueInEthereum_def transferBigValueInMantle_def

text \<open>init, in its order.\<close>

definition collector_metrics :: "metric list" where
  "collector_metrics = [gasPrice, blockNumber, healthySequencer, opExporterVersion, gasBaseFeeMetric, gasUsedMetric,
     bridgeAccountChecking, depositsAmount, withdrawsUnclaimedAmount, withdrawsClaimedAmount, transferBigValueInEthereum,
     transferBigValueInMantle]"

definition MustRegister :: "'r prom \<Rightarrow> metric \<Rightarrow> ('r, unit) go" where
  "MustRegister P m = bindG (pm_register P (mt_kind m) (mk_opts [] [] (mt_name m)) (mt_labels m)) (\<lambda>_. retG ())"

definition collector_init :: "'r prom \<Rightarrow> ('r, unit) go" where
  "collector_init P = forG (MustRegister P) collector_metrics"

section \<open>The version\<close>

record build_info =
  bi_Version :: string
  bi_GitCommit :: string
  bi_BuildDate :: string
  bi_GoVersion :: string

definition Info :: "build_info \<Rightarrow> string" where
  "Info b = ''(version='' @ bi_Version b @ '', gitcommit='' @ bi_GitCommit b @ '')''"

definition BuildContext :: "build_info \<Rightarrow> string" where
  "BuildContext b = ''(go='' @ bi_GoVersion b @ '', date='' @ bi_BuildDate b @ '')''"

text \<open>strings.Trim of quotes, and the counter of the version, which Start raises once.\<close>

definition trim_quotes :: "string \<Rightarrow> string" where
  "trim_quotes s = rev (dropWhile (\<lambda>c. c = CHR 0x22) (rev (dropWhile (\<lambda>c. c = CHR 0x22) s)))"

definition version_op :: "build_info \<Rightarrow> metric_op" where
  "version_op b = CounterAdd ''op_exporter_version'' [trim_quotes (bi_Version b), bi_GitCommit b, bi_GoVersion b, bi_BuildDate b] 1"

section \<open>The loops and the metrics fit\<close>

lemma must_register_all:
  assumes "prom_documented names P"
  shows "distinct (map mt_name ms) \<Longrightarrow> names r \<inter> set (map mt_name ms) = {} \<Longrightarrow>
    list_all (\<lambda>m. valid_name (mt_name m) \<and> list_all valid_name (mt_labels m)) ms \<Longrightarrow>
    \<exists>r'. forG (MustRegister P) ms r = (Ok (), r') \<and> names r' = names r \<union> set (map mt_name ms)"
proof (induction ms arbitrary: r)
  case Nil
  then show ?case by (simp add: retG_def)
next
  case (Cons m ms)
  have n: "BuildFQName (mk_opts [] [] (mt_name m)) = mt_name m" by (simp add: BuildFQName_def mk_opts_def)
  have v: "valid_name (mt_name m)" "list_all valid_name (mt_labels m)" "mt_name m \<notin> names r" using Cons.prems by auto
  then obtain r1 x where r1: "pm_register P (mt_kind m) (mk_opts [] [] (mt_name m)) (mt_labels m) r = (Ok x, r1)"
    "names r1 = insert (mt_name m) (names r)"
    using assms unfolding prom_documented_def by (metis n)
  have d: "distinct (map mt_name ms)" "names r1 \<inter> set (map mt_name ms) = {}"
    "list_all (\<lambda>m. valid_name (mt_name m) \<and> list_all valid_name (mt_labels m)) ms"
    using Cons.prems r1(2) by auto
  obtain r' where "forG (MustRegister P) ms r1 = (Ok (), r')" "names r' = names r1 \<union> set (map mt_name ms)"
    using Cons.IH[OF d] by blast
  moreover have "MustRegister P m r = (Ok (), r1)" using r1(1) by (simp add: MustRegister_def bindG_def retG_def)
  ultimately show ?case using r1(2) by (auto simp: thenG_def bindG_def)
qed

text \<open>The registration at the start does not panic over a registry that has none of the names.\<close>

lemma collector_registers:
  assumes "prom_documented names P" "names r \<inter> set (map mt_name collector_metrics) = {}"
  shows "\<exists>r'. collector_init P r = (Ok (), r') \<and> names r' = names r \<union> set (map mt_name collector_metrics)"
proof -
  have "distinct (map mt_name collector_metrics)" by (simp add: collector_metrics_def collector_defs)
  moreover have "list_all (\<lambda>m. valid_name (mt_name m) \<and> list_all valid_name (mt_labels m)) collector_metrics"
    by (simp add: collector_metrics_def collector_defs valid_name_def letters_def digits_def)
  ultimately show ?thesis using must_register_all[OF assms(1)] assms(2) by (simp add: collector_init_def)
qed

text \<open>The call an operation makes: on the metric of its name.\<close>

fun op_call :: "metric_op \<Rightarrow> metric_call option" where
  "op_call (GaugeSet name vs x) =
     map_option (\<lambda>m. \<lparr>mc_metric = m, mc_values = vs, mc_method = SetTo (of_int x)\<rparr>) (find (\<lambda>m. mt_name m = name) collector_metrics)"
| "op_call (CounterAdd name vs x) =
     map_option (\<lambda>m. \<lparr>mc_metric = m, mc_values = vs, mc_method = Add (of_int x)\<rparr>) (find (\<lambda>m. mt_name m = name) collector_metrics)"

definition accepted :: "metric_op \<Rightarrow> bool" where
  "accepted op = (case op_call op of None \<Rightarrow> False | Some c \<Rightarrow> call_ok c)"

definition all_accepted :: "metric_op list result \<Rightarrow> bool" where
  "all_accepted r = (case r of Ok ops \<Rightarrow> list_all accepted ops | _ \<Rightarrow> True)"

lemma all_accepted_simps [simp]:
  "all_accepted (Ok ops) = list_all accepted ops" "all_accepted (Err e)" "all_accepted (Panic p)"
  "all_accepted (bindR r Ok) = all_accepted r"
  by (simp_all add: all_accepted_def) (cases r; simp)

lemma accepted_ops [simp]:
  "accepted (GaugeSet ''op_baseFee'' [a, b] x)" "accepted (GaugeSet ''op_gasUsed'' [a, b] x)"
  "accepted (GaugeSet ''op_gasPrice'' [a, b] x)" "accepted (GaugeSet ''op_blocknumber'' [a, b] x)"
  "accepted (GaugeSet ''op_healthy_sequencer'' [a] x)" "accepted (GaugeSet ''bridge_account_checking'' [a, b, c] x)"
  "accepted (GaugeSet ''lithosphere_withdraws_unclaimed_amount'' [a, b] x)"
  "accepted (GaugeSet ''lithosphere_transfer_big_value_in_ethereum'' [a, b] x)"
  "accepted (GaugeSet ''lithosphere_transfer_big_value_in_mantle'' [a, b] x)"
  "accepted (CounterAdd ''lithosphere_deposit_amount'' [a, b] x) \<longleftrightarrow> 0 \<le> x"
  "accepted (CounterAdd ''lithosphere_withdraws_claimed_amount'' [a, b] x) \<longleftrightarrow> 0 \<le> x"
  by (simp_all add: accepted_def collector_metrics_def collector_defs call_ok_def)

lemma accepted_mapR: "(\<And>x y. f x = Ok y \<Longrightarrow> accepted y) \<Longrightarrow> all_accepted (mapR f xs)"
  by (auto simp: all_accepted_def mapR_Ok_iff list_all_length split: result.splits)

lemma accepted_version: "accepted (version_op b)"
  by (simp add: version_op_def accepted_def collector_metrics_def collector_defs call_ok_def)

lemma float64_nonneg: "0 \<le> x \<Longrightarrow> 0 \<le> float64 x"
  by (auto simp: float64_def Let_def pos_imp_zdiv_nonneg_iff)

lemma accepted_bindR:
  "(\<And>a. r = Ok a \<Longrightarrow> all_accepted (f a)) \<Longrightarrow> all_accepted (bindR r f)"
  by (cases r) (auto simp: all_accepted_def)

lemma accepted_amounts [simp]:
  "all_accepted (mapR (amount_op CounterAdd ''lithosphere_deposit_amount'' E s) rows)"
  "all_accepted (mapR (amount_op CounterAdd ''lithosphere_withdraws_claimed_amount'' E s) rows)"
  "all_accepted (mapR (amount_op GaugeSet ''lithosphere_withdraws_unclaimed_amount'' E s) rows)"
  by (rule accepted_mapR; auto simp: amount_op_def Let_def float64_nonneg)+

lemma accepted_zero_ops [simp]:
  "list_all accepted (zero_ops CounterAdd ''lithosphere_withdraws_claimed_amount'' E cfg s)"
  "list_all accepted (zero_ops GaugeSet ''lithosphere_withdraws_unclaimed_amount'' E cfg s)"
  by (simp_all add: zero_ops_def list_all_iff)

lemma accepted_append: "list_all accepted z \<Longrightarrow> all_accepted r \<Longrightarrow> all_accepted (bindR r (\<lambda>ops. Ok (z @ ops)))"
  by (cases r) (auto simp: all_accepted_def)

lemma accepted_big:
  assumes "metric = ''lithosphere_transfer_big_value_in_ethereum'' \<or> metric = ''lithosphere_transfer_big_value_in_mantle''"
  shows "case big_transfers metric query E undef s as vs of None \<Rightarrow> True | Some r \<Rightarrow> all_accepted r"
proof -
  have "all_accepted (mapR (alert_op metric E undef s values transfers) xs)" for "values" transfers xs
    by (rule accepted_mapR) (use assms in \<open>auto simp: alert_op_def\<close>)
  then show ?thesis by (auto simp: big_transfers_def Let_def intro!: accepted_bindR)
qed

text \<open>C29: every operation of every loop of the exporter is a call that the client library accepts on the metric that the package
  has registered for it: the metric is of the operation's kind, it gets as many values as it has labels, and a counter is never
  lowered, whatever the node, the cluster and the database answer.\<close>

theorem exporter_calls_accepted:
  "accepted (version_op b)
   \<and> list_all accepted (fst (snd (getBlockNumber cfg reply now h)))
   \<and> list_all accepted (snd (getBaseFee cfg fees)) \<and> list_all accepted (snd (getRollupGasPrices cfg prices))
   \<and> list_all accepted (metricBridgeAccountChecking E s)
   \<and> all_accepted (snd (metricDepositsAmount E s from_time)) \<and> all_accepted (metricWithdrawUnclaimedAmount E cfg s)
   \<and> all_accepted (snd (metricWithdrawClaimedAmount E cfg s from_block))
   \<and> (case MetricTransferBigValueInEthereum E undef cfg s now of None \<Rightarrow> True | Some r \<Rightarrow> all_accepted r)
   \<and> (case MetricTransferBigValueInMantle E undef cfg s now of None \<Rightarrow> True | Some r \<Rightarrow> all_accepted r)"
proof (intro conjI)
  show "list_all accepted (fst (snd (getBlockNumber cfg reply now h)))"
    by (auto simp: getBlockNumber_def Let_def split: result.splits option.splits)
  show "list_all accepted (snd (getBaseFee cfg fees))"
    by (auto simp: getBaseFee_def Let_def split: result.splits option.splits)
  show "list_all accepted (snd (getRollupGasPrices cfg prices))"
    by (auto simp: getRollupGasPrices_def Let_def split: result.splits option.splits)
  show "list_all accepted (metricBridgeAccountChecking E s)"
    by (simp add: metricBridgeAccountChecking_def list_all_iff)
  show "all_accepted (snd (metricDepositsAmount E s from_time))"
    by (auto simp: metricDepositsAmount_def Let_def split: result.splits)
  show "all_accepted (metricWithdrawUnclaimedAmount E cfg s)"
    by (auto simp: metricWithdrawUnclaimedAmount_def Let_def
        intro!: accepted_append split: result.splits)
  show "all_accepted (snd (metricWithdrawClaimedAmount E cfg s from_block))"
    by (auto simp: metricWithdrawClaimedAmount_def Let_def
        intro!: accepted_append split: result.splits)
qed (simp_all add: accepted_version MetricTransferBigValueInEthereum_def MetricTransferBigValueInMantle_def accepted_big)

end
