(* ===== verification/BridgeMetrics.thy ===== *)
theory BridgeMetrics
  imports Metrics EventProcessor
begin

text \<open>
  event/processors/bridge/metrics.go and the calls to it in the bridge processors (l1_bridge_processor.go,
  l2_bridge_processor.go and legacy_bridge_processor.go of event/processors/bridge): each processor of the theory BridgeProcessors again, with the recorders it calls, on the
  same tables beside the list of the calls that have returned.  \<open>erases\<close> says that such a computation does to the
  tables what the one without recorders does; it holds of every processor, because each call they make is one
  the client accepts (its labels are those of the metric and what it adds is not negative).
\<close>

section \<open>Metrics of the bridge\<close>

definition BridgeMetricsNamespace :: string where "BridgeMetricsNamespace = ''op_indexer_bridge''"

record bridgeMetrics =
  bm_intervalTick :: metric
  bm_intervalDuration :: metric
  intervalFailures :: metric
  latestHeight :: metric
  txDeposits :: metric
  txMintedETH :: metric
  txWithdrawals :: metric
  txWithdrawnETH :: metric
  provenWithdrawals :: metric
  finalizedWithdrawals :: metric
  sentMessages :: metric
  relayedMessages :: metric
  skippedOVM1Withdrawals :: metric
  skippedOVM1RelayedMessages :: metric
  initiatedBridgeTransfers :: metric
  finalizedBridgeTransfers :: metric

definition bridge_NewMetrics :: "'r prom \<Rightarrow> ('r, bridgeMetrics) go" where
  "bridge_NewMetrics P = with_factory (
     let opts = mk_opts BridgeMetricsNamespace [] in
     bindG (NewCounterVec P (opts ''intervals_total'') [''chain'']) (\<lambda>m1.
     bindG (NewHistogramVec P (opts ''interval_seconds'') [''chain'']) (\<lambda>m2.
     bindG (NewCounterVec P (opts ''interval_failures_total'') [''chain'']) (\<lambda>m3.
     bindG (NewGaugeVec P (opts ''height'') [''chain'', ''kind'']) (\<lambda>m4.
     bindG (NewCounter P (opts ''tx_deposits'')) (\<lambda>m5.
     bindG (NewCounter P (opts ''tx_minted_eth'')) (\<lambda>m6.
     bindG (NewCounter P (opts ''tx_withdrawals'')) (\<lambda>m7.
     bindG (NewCounter P (opts ''tx_withdrawn_eth'')) (\<lambda>m8.
     bindG (NewCounter P (opts ''proven_withdrawals'')) (\<lambda>m9.
     bindG (NewCounter P (opts ''finalized_withdrawals'')) (\<lambda>m10.
     bindG (NewCounterVec P (opts ''sent_messages'') [''chain'']) (\<lambda>m11.
     bindG (NewCounterVec P (opts ''relayed_messages'') [''chain'']) (\<lambda>m12.
     bindG (NewCounterVec P (opts ''skipped_ovm1_withdrawals'') [''stage'']) (\<lambda>m13.
     bindG (NewCounter P (opts ''skipped_ovm1_relayed_messages'')) (\<lambda>m14.
     bindG (NewCounterVec P (opts ''initiated_token_transfers'') [''chain'', ''token_address'']) (\<lambda>m15.
     bindG (NewCounterVec P (opts ''finalized_token_transfers'') [''chain'', ''token_address'']) (\<lambda>m16.
     retG \<lparr>bm_intervalTick = m1, bm_intervalDuration = m2, intervalFailures = m3, latestHeight = m4,
       txDeposits = m5, txMintedETH = m6, txWithdrawals = m7, txWithdrawnETH = m8, provenWithdrawals = m9,
       finalizedWithdrawals = m10, sentMessages = m11, relayedMessages = m12, skippedOVM1Withdrawals = m13,
       skippedOVM1RelayedMessages = m14, initiatedBridgeTransfers = m15, finalizedBridgeTransfers = m16\<rparr>)))))))))))))))))"

definition RecordL1Interval :: "bridgeMetrics \<Rightarrow> metric_call list" where
  "RecordL1Interval m = [\<lparr>mc_metric = bm_intervalTick m, mc_values = [''l1''], mc_method = Inc\<rparr>]"

definition l1_interval_done :: "bridgeMetrics \<Rightarrow> rat \<Rightarrow> error option \<Rightarrow> metric_call list" where
  "l1_interval_done m secs err =
     \<lparr>mc_metric = bm_intervalDuration m, mc_values = [''l1''], mc_method = Observe secs\<rparr> #
     (if err \<noteq> None then [\<lparr>mc_metric = intervalFailures m, mc_values = [''l1''], mc_method = Inc\<rparr>] else [])"

definition set_height :: "bridgeMetrics \<Rightarrow> string \<Rightarrow> string \<Rightarrow> int \<Rightarrow> metric_call list" where
  "set_height m chain kind height =
     [\<lparr>mc_metric = latestHeight m, mc_values = [chain, kind], mc_method = SetTo (float_of (uint (big_Uint64 height)))\<rparr>]"

definition RecordL1LatestHeight :: "bridgeMetrics \<Rightarrow> int \<Rightarrow> metric_call list" where
  "RecordL1LatestHeight m = set_height m ''l1'' ''initiated''"

definition RecordL1LatestRollupSateRootHeight :: "bridgeMetrics \<Rightarrow> int \<Rightarrow> metric_call list" where
  "RecordL1LatestRollupSateRootHeight m = set_height m ''l1'' ''state_root''"

definition RecordL1LatestRollupMantleDaHeight :: "bridgeMetrics \<Rightarrow> int \<Rightarrow> metric_call list" where
  "RecordL1LatestRollupMantleDaHeight m = set_height m ''l1'' ''mantle_da''"

definition RecordL1LatestFinalizedHeight :: "bridgeMetrics \<Rightarrow> int \<Rightarrow> metric_call list" where
  "RecordL1LatestFinalizedHeight m = set_height m ''l1'' ''finalized''"

definition RecordL1LatestProvenHeight :: "bridgeMetrics \<Rightarrow> int \<Rightarrow> metric_call list" where
  "RecordL1LatestProvenHeight m = set_height m ''l1'' ''finalized''"

definition add_n :: "metric \<Rightarrow> string list \<Rightarrow> nat \<Rightarrow> metric_call list" where
  "add_n metric labels n = [\<lparr>mc_metric = metric, mc_values = labels, mc_method = Add (float_of (int n))\<rparr>]"

definition RecordL1TransactionDeposits :: "bridgeMetrics \<Rightarrow> nat \<Rightarrow> rat \<Rightarrow> metric_call list" where
  "RecordL1TransactionDeposits m n mintedETH =
     add_n (txDeposits m) [] n @ [\<lparr>mc_metric = txMintedETH m, mc_values = [], mc_method = Add mintedETH\<rparr>]"

definition RecordL1ProvenWithdrawals :: "bridgeMetrics \<Rightarrow> nat \<Rightarrow> metric_call list" where
  "RecordL1ProvenWithdrawals m = add_n (provenWithdrawals m) []"

definition RecordL1FinalizedWithdrawals :: "bridgeMetrics \<Rightarrow> nat \<Rightarrow> metric_call list" where
  "RecordL1FinalizedWithdrawals m = add_n (finalizedWithdrawals m) []"

definition RecordL1CrossDomainSentMessages :: "bridgeMetrics \<Rightarrow> nat \<Rightarrow> metric_call list" where
  "RecordL1CrossDomainSentMessages m = add_n (sentMessages m) [''l1'']"

definition RecordL1CrossDomainRelayedMessages :: "bridgeMetrics \<Rightarrow> nat \<Rightarrow> metric_call list" where
  "RecordL1CrossDomainRelayedMessages m = add_n (relayedMessages m) [''l1'']"

text \<open>The metric has the single label stage; these give it two values.\<close>

definition RecordL1SkippedOVM1ProvenWithdrawals :: "bridgeMetrics \<Rightarrow> nat \<Rightarrow> metric_call list" where
  "RecordL1SkippedOVM1ProvenWithdrawals m = add_n (skippedOVM1Withdrawals m) [''stage'', ''proven'']"

definition RecordL1SkippedOVM1FinalizedWithdrawals :: "bridgeMetrics \<Rightarrow> nat \<Rightarrow> metric_call list" where
  "RecordL1SkippedOVM1FinalizedWithdrawals m = add_n (skippedOVM1Withdrawals m) [''stage'', ''finalized'']"

definition RecordL1SkippedOVM1CrossDomainRelayedMessages :: "bridgeMetrics \<Rightarrow> nat \<Rightarrow> metric_call list" where
  "RecordL1SkippedOVM1CrossDomainRelayedMessages m = add_n (skippedOVM1RelayedMessages m) []"

definition RecordL1InitiatedBridgeTransfers :: "(address \<Rightarrow> string) \<Rightarrow> bridgeMetrics \<Rightarrow> address \<Rightarrow> nat \<Rightarrow> metric_call list" where
  "RecordL1InitiatedBridgeTransfers address_String m tokenAddr =
     add_n (initiatedBridgeTransfers m) [''l1'', address_String tokenAddr]"

definition RecordL1FinalizedBridgeTransfers :: "(address \<Rightarrow> string) \<Rightarrow> bridgeMetrics \<Rightarrow> address \<Rightarrow> nat \<Rightarrow> metric_call list" where
  "RecordL1FinalizedBridgeTransfers address_String m tokenAddr =
     add_n (finalizedBridgeTransfers m) [''l1'', address_String tokenAddr]"

definition RecordL2Interval :: "bridgeMetrics \<Rightarrow> metric_call list" where
  "RecordL2Interval m = [\<lparr>mc_metric = bm_intervalTick m, mc_values = [''l2''], mc_method = Inc\<rparr>]"

definition l2_interval_done :: "bridgeMetrics \<Rightarrow> rat \<Rightarrow> error option \<Rightarrow> metric_call list" where
  "l2_interval_done m secs err =
     \<lparr>mc_metric = bm_intervalDuration m, mc_values = [''l2''], mc_method = Observe secs\<rparr> #
     (if err \<noteq> None then [\<lparr>mc_metric = intervalFailures m, mc_values = [''l2''], mc_method = Inc\<rparr>] else [])"

definition RecordL2LatestHeight :: "bridgeMetrics \<Rightarrow> int \<Rightarrow> metric_call list" where
  "RecordL2LatestHeight m = set_height m ''l2'' ''initiated''"

definition RecordL2LatestFinalizedHeight :: "bridgeMetrics \<Rightarrow> int \<Rightarrow> metric_call list" where
  "RecordL2LatestFinalizedHeight m = set_height m ''l2'' ''finalized''"

definition RecordL2TransactionWithdrawals :: "bridgeMetrics \<Rightarrow> nat \<Rightarrow> rat \<Rightarrow> metric_call list" where
  "RecordL2TransactionWithdrawals m n withdrawnETH =
     add_n (txWithdrawals m) [] n @ [\<lparr>mc_metric = txWithdrawnETH m, mc_values = [], mc_method = Add withdrawnETH\<rparr>]"

definition RecordL2CrossDomainSentMessages :: "bridgeMetrics \<Rightarrow> nat \<Rightarrow> metric_call list" where
  "RecordL2CrossDomainSentMessages m = add_n (sentMessages m) [''l2'']"

definition RecordL2CrossDomainRelayedMessages :: "bridgeMetrics \<Rightarrow> nat \<Rightarrow> metric_call list" where
  "RecordL2CrossDomainRelayedMessages m = add_n (relayedMessages m) [''l2'']"

definition RecordL2InitiatedBridgeTransfers :: "(address \<Rightarrow> string) \<Rightarrow> bridgeMetrics \<Rightarrow> address \<Rightarrow> nat \<Rightarrow> metric_call list" where
  "RecordL2InitiatedBridgeTransfers address_String m tokenAddr =
     add_n (initiatedBridgeTransfers m) [''l2'', address_String tokenAddr]"

definition RecordL2FinalizedBridgeTransfers :: "(address \<Rightarrow> string) \<Rightarrow> bridgeMetrics \<Rightarrow> address \<Rightarrow> nat \<Rightarrow> metric_call list" where
  "RecordL2FinalizedBridgeTransfers address_String m tokenAddr =
     add_n (finalizedBridgeTransfers m) [''l2'', address_String tokenAddr]"

section \<open>The metrics of the bridge processors, by name and labels\<close>

definition bridge_of :: bridgeMetrics where
  "bridge_of = (let opts = mk_opts BridgeMetricsNamespace [] in
     \<lparr>bm_intervalTick = metric_of CounterKind (opts ''intervals_total'') [''chain''],
      bm_intervalDuration = metric_of HistogramKind (opts ''interval_seconds'') [''chain''],
      intervalFailures = metric_of CounterKind (opts ''interval_failures_total'') [''chain''],
      latestHeight = metric_of GaugeKind (opts ''height'') [''chain'', ''kind''],
      txDeposits = metric_of CounterKind (opts ''tx_deposits'') [],
      txMintedETH = metric_of CounterKind (opts ''tx_minted_eth'') [],
      txWithdrawals = metric_of CounterKind (opts ''tx_withdrawals'') [],
      txWithdrawnETH = metric_of CounterKind (opts ''tx_withdrawn_eth'') [],
      provenWithdrawals = metric_of CounterKind (opts ''proven_withdrawals'') [],
      finalizedWithdrawals = metric_of CounterKind (opts ''finalized_withdrawals'') [],
      sentMessages = metric_of CounterKind (opts ''sent_messages'') [''chain''],
      relayedMessages = metric_of CounterKind (opts ''relayed_messages'') [''chain''],
      skippedOVM1Withdrawals = metric_of CounterKind (opts ''skipped_ovm1_withdrawals'') [''stage''],
      skippedOVM1RelayedMessages = metric_of CounterKind (opts ''skipped_ovm1_relayed_messages'') [],
      initiatedBridgeTransfers = metric_of CounterKind (opts ''initiated_token_transfers'') [''chain'', ''token_address''],
      finalizedBridgeTransfers = metric_of CounterKind (opts ''finalized_token_transfers'') [''chain'', ''token_address'']\<rparr>)"

definition bridge_names :: "string list" where
  "bridge_names = map (\<lambda>n. BuildFQName (mk_opts BridgeMetricsNamespace [] n))
     [''intervals_total'', ''interval_seconds'', ''interval_failures_total'', ''height'', ''tx_deposits'', ''tx_minted_eth'',
      ''tx_withdrawals'', ''tx_withdrawn_eth'', ''proven_withdrawals'', ''finalized_withdrawals'', ''sent_messages'',
      ''relayed_messages'', ''skipped_ovm1_withdrawals'', ''skipped_ovm1_relayed_messages'', ''initiated_token_transfers'',
      ''finalized_token_transfers'']"

lemma bridge_registers:
  assumes "prom_documented names P"
  shows "registers names (bridge_NewMetrics P) bridge_of bridge_names"
proof -
  have "valid_name BridgeMetricsNamespace" by (simp add: BridgeMetricsNamespace_def name_defs)
  note new = registers_new[OF assms(1) this disjI1[OF refl]]
  show ?thesis
    unfolding bridge_NewMetrics_def bridge_of_def bridge_names_def Let_def
    by (rule registers_factory, unfold list.map)
      (rule registers_step new registers_retG | simp add: name_defs)+
qed


section \<open>Computations that record metrics\<close>

text \<open>The calls that have returned are kept beside the state.  A call the library refuses panics.\<close>

record meter =
  mr_call :: "metric_call \<Rightarrow> unit result"
  mr_metrics :: bridgeMetrics
  mr_address :: "address \<Rightarrow> string"

type_synonym 's metered = "'s \<times> metric_call list"

definition on_state :: "('s, 'a) go \<Rightarrow> ('s metered, 'a) go" where
  "on_state m = (\<lambda>(s, calls). let (r, s') = m s in (r, (s', calls)))"

definition record_call :: "meter \<Rightarrow> metric_call \<Rightarrow> ('s metered, unit) go" where
  "record_call M c = (\<lambda>(s, calls).
     (case mr_call M c of
        Ok _ \<Rightarrow> (Ok (), (s, calls @ [c]))
      | Err e \<Rightarrow> (Err e, (s, calls))
      | Panic p \<Rightarrow> (Panic p, (s, calls))))"

definition record_all :: "meter \<Rightarrow> metric_call list \<Rightarrow> ('s metered, unit) go" where
  "record_all M = forG (record_call M)"

text \<open>A statement for some rows, with what is recorded once it has succeeded.\<close>

definition when_any_record :: "meter \<Rightarrow> ('r list \<Rightarrow> (db, unit) go) \<Rightarrow> 'r list \<Rightarrow> metric_call list \<Rightarrow> (db metered, unit) go" where
  "when_any_record M store rows calls =
     (if length rows > 0 then thenG (on_state (store rows)) (record_all M calls) else retG ())"

text \<open>The map from tokens to the number of their transfers.  Go ranges over a map in any order; the calls for
  different tokens have different labels, so that their order does not show in the metrics.\<close>

definition per_token :: "address list \<Rightarrow> (address \<times> nat) list" where
  "per_token ts = map (\<lambda>t. (t, count_list ts t)) (remdups ts)"

definition token_calls :: "(address \<Rightarrow> nat \<Rightarrow> metric_call list) \<Rightarrow> address list \<Rightarrow> metric_call list" where
  "token_calls rec ts = concat (map (\<lambda>(t, n). rec t n) (per_token ts))"

text \<open>The sum of the amounts that are not nil.\<close>

definition sum_amounts :: "('x \<Rightarrow> int option) \<Rightarrow> 'x list \<Rightarrow> int" where
  "sum_amounts f xs = sum_list (map (\<lambda>x. case f x of None \<Rightarrow> 0 | Some n \<Rightarrow> n) xs)"

section \<open>The bridge processors with their metrics\<close>

definition l1_transfer_tokens :: "abis \<Rightarrow> BridgeEvent list \<Rightarrow> address list" where
  "l1_transfer_tokens A bridges = map br_LocalTokenAddress (filter (\<lambda>b. ce_EventSignature (br_Event b) \<in>
     {ev_ID (a_ETHBridgeInitiated A), ev_ID (a_MNTBridgeInitiated A), ev_ID (a_ERC20BridgeInitiated A)}) bridges)"

definition m_L1ProcessInitiatedBridgeEvents :: "meter \<Rightarrow> gorms \<Rightarrow> abis \<Rightarrow> (nat \<Rightarrow> uuid) \<Rightarrow> L1Contracts \<Rightarrow> int option \<Rightarrow> int option
    \<Rightarrow> (db metered, unit) go" where
  "m_L1ProcessInitiatedBridgeEvents M G A uuid c fromHeight toHeight =
     bindG (on_state (readG (OptimismPortalTransactionDepositEvents G A (OptimismPortalProxy c) fromHeight toHeight))) (\<lambda>deposits.
     bindG (on_state (build_rows (deposit_row G uuid) deposits)) (\<lambda>l1ToL2s.
     thenG (when_any_record M (StoreL1ToL2Transactions G) l1ToL2s
       (RecordL1TransactionDeposits (mr_metrics M) (length l1ToL2s)
          (minted_float (sum_amounts (dt_EthValue \<circ> pd_DepositTx) deposits)))) (
     bindG (on_state (readG (CrossDomainMessengerSentMessageEvents G A ''l1'' (L1CrossDomainMessengerProxy c) fromHeight toHeight))) (\<lambda>sent.
     thenG (when_any_record M (UpdateMessageHashByTxHash G) (map l1_message_row sent)
       (RecordL1CrossDomainSentMessages (mr_metrics M) (length sent))) (
     bindG (on_state (readG (StandardBridgeInitiatedEvents G A ''l1'' (L1StandardBridgeProxy c) fromHeight toHeight))) (\<lambda>bridges.
     bindG (on_state (liftR (mapR (l1_bridge_row A (log_map pd_Event deposits) (log_map sme_Event sent)) bridges))) (\<lambda>l1ToL2s2.
     when_any_record M (UpdateL1ToL2InfoByTxHash G) l1ToL2s2
       (token_calls (RecordL1InitiatedBridgeTransfers (mr_address M) (mr_metrics M)) (l1_transfer_tokens A bridges)))))))))"

definition m_L1ProcessProvenBridgeEvents :: "meter \<Rightarrow> gorms \<Rightarrow> abis \<Rightarrow> (nat \<Rightarrow> uuid) \<Rightarrow> L1Contracts \<Rightarrow> int option \<Rightarrow> int option
    \<Rightarrow> (db metered, unit) go" where
  "m_L1ProcessProvenBridgeEvents M G A uuid c fromHeight toHeight =
     bindG (on_state (readG (OptimismPortalWithdrawalProvenEvents G A (OptimismPortalProxy c) fromHeight toHeight))) (\<lambda>provens.
     bindG (on_state (build_rows (proven_row G uuid) provens)) (\<lambda>withdrawProvenList.
     when_any_record M (StoreWithdrawProven G) withdrawProvenList
       (RecordL1ProvenWithdrawals (mr_metrics M) (length withdrawProvenList))))"

definition m_L1ProcessFinalizedBridgeEvents :: "meter \<Rightarrow> gorms \<Rightarrow> abis \<Rightarrow> (nat \<Rightarrow> uuid) \<Rightarrow> L1Contracts \<Rightarrow> int option \<Rightarrow> int option
    \<Rightarrow> (db metered, unit) go" where
  "m_L1ProcessFinalizedBridgeEvents M G A uuid c fromHeight toHeight =
     bindG (on_state (readG (OptimismPortalWithdrawalFinalizedEvents G A (OptimismPortalProxy c) fromHeight toHeight))) (\<lambda>finalized.
     bindG (on_state (build_rows (finalized_row G uuid) finalized)) (\<lambda>withdrawFinalizedList.
     thenG (when_any_record M (StoreWithdrawFinalized G) withdrawFinalizedList
       (RecordL1FinalizedWithdrawals (mr_metrics M) (length withdrawFinalizedList))) (
     bindG (on_state (readG (CrossDomainMessengerRelayedMessageEvents G A ''l1'' (L1CrossDomainMessengerProxy c) fromHeight toHeight))) (\<lambda>relayed.
     thenG (record_all M (RecordL1CrossDomainRelayedMessages (mr_metrics M) (length relayed))) (
     bindG (on_state (readG (StandardBridgeFinalizedEvents G A ''l1'' (L1StandardBridgeProxy c) fromHeight toHeight))) (\<lambda>bridges.
     bindG (on_state (liftR (foldR (finalized_bridge_entry (log_map rme_Event relayed)) (enumerate 0 bridges)
              (replicate (length relayed) zero_WithdrawFinalized)))) (\<lambda>rows.
     forG (\<lambda>tokenAddr. thenG (on_state (UpdateWithdrawFinalizedInfo G rows))
         (record_all M (RecordL1FinalizedBridgeTransfers (mr_address M) (mr_metrics M) tokenAddr
           (count_list (map br_LocalTokenAddress bridges) tokenAddr))))
       (remdups (map br_LocalTokenAddress bridges)))))))))"

definition l2_transfer_tokens :: "BridgeEvent list \<Rightarrow> address list" where
  "l2_transfer_tokens bridges = map br_LocalTokenAddress (filter (\<lambda>b. ce_EventSignature (br_Event b) \<in>
     {ETHWithdrawEventSignature, MNTWithdrawEventSignature, ERC20WithdrawEventSignature}) bridges)"

definition m_L2ProcessInitiatedBridgeEvents :: "meter \<Rightarrow> gorms \<Rightarrow> abis \<Rightarrow> (nat \<Rightarrow> uuid) \<Rightarrow> L2Contracts \<Rightarrow> int option \<Rightarrow> int option
    \<Rightarrow> (db metered, unit) go" where
  "m_L2ProcessInitiatedBridgeEvents M G A uuid c fromHeight toHeight =
     bindG (on_state (readG (L2ToL1MessagePasserMessagePassedEvents G A (L2ToL1MessagePasser c) fromHeight toHeight))) (\<lambda>passed.
     bindG (on_state (build_rows (withdrawal_row G uuid) passed)) (\<lambda>l2ToL1s.
     thenG (when_any_record M (StoreL2ToL1Transactions G) l2ToL1s
       (RecordL2TransactionWithdrawals (mr_metrics M) (length l2ToL1s) (minted_float (sum_amounts ps_ETHAmount passed)))) (
     bindG (on_state (readG (CrossDomainMessengerSentMessageEvents G A ''l2'' (L2CrossDomainMessenger c) fromHeight toHeight))) (\<lambda>sent.
     thenG (on_state (when_any (UpdateL2ToL1InfoByTxHash G) (map l2_message_row sent))) (
     bindG (on_state (readG (StandardBridgeInitiatedEvents G A ''l2'' (L2StandardBridge c) fromHeight toHeight))) (\<lambda>bridges.
     bindG (on_state (liftR (mapR (l2_bridge_row (log_map ps_Event passed) (log_map sme_Event sent)) bridges))) (\<lambda>l2ToL1s2.
     when_any_record M (UpdateL2ToL1InfoByTxHash G) l2ToL1s2
       (token_calls (RecordL2InitiatedBridgeTransfers (mr_address M) (mr_metrics M)) (l2_transfer_tokens bridges)))))))))"

text \<open>The number of relayed messages is that of the positions they have.\<close>

definition m_L2ProcessFinalizedBridgeEvents :: "meter \<Rightarrow> gorms \<Rightarrow> abis \<Rightarrow> (nat \<Rightarrow> uuid) \<Rightarrow> L2Contracts \<Rightarrow> int option \<Rightarrow> int option
    \<Rightarrow> (db metered, unit) go" where
  "m_L2ProcessFinalizedBridgeEvents M G A uuid c fromHeight toHeight =
     bindG (on_state (readG (CrossDomainMessengerRelayedMessageEvents G A ''l2'' (L2CrossDomainMessenger c) fromHeight toHeight))) (\<lambda>relayed.
     bindG (on_state (build_rows (\<lambda>i m. L1ToL2Transaction G (rme_MessageHash m)) relayed)) (\<lambda>messages.
     let positions = remdups (map (log_key \<circ> rme_Event) relayed) in
     thenG (if length positions > 0 then record_all M (RecordL2CrossDomainRelayedMessages (mr_metrics M) (length positions)) else retG ()) (
     bindG (on_state (readG (StandardBridgeFinalizedEvents G A ''l2'' (L2StandardBridge c) fromHeight toHeight))) (\<lambda>bridges.
     bindG (on_state (build_rows (relay_row G uuid (log_map rme_Event relayed)) bridges)) (\<lambda>relayMessageList.
     when_any_record M (StoreRelayMessage G) relayMessageList
       (token_calls (RecordL2FinalizedBridgeTransfers (mr_address M) (mr_metrics M)) (map br_LocalTokenAddress bridges)))))))"

definition m_LegacyL1ProcessInitiatedBridgeEvents :: "meter \<Rightarrow> gorms \<Rightarrow> abis \<Rightarrow> L1Contracts \<Rightarrow> int option \<Rightarrow> int option
    \<Rightarrow> (db metered, unit) go" where
  "m_LegacyL1ProcessInitiatedBridgeEvents M G A c fromHeight toHeight =
     bindG (on_state (readG (LegacyCTCDepositEvents G A (LegacyCanonicalTransactionChain c) fromHeight toHeight))) (\<lambda>events.
     let ctcTxDeposits = (\<lambda>_. None) in
     bindG (on_state (readG (\<lambda>s. foldR (legacy_deposit_row G s) (enumerate 0 events) []))) (\<lambda>l1ToL2s.
     thenG (if length events > 0
            then thenG (on_state (StoreL1ToL2Transactions G l1ToL2s))
              (record_all M (RecordL1TransactionDeposits (mr_metrics M) (length events) (minted_float (sum_amounts ct_ETHAmount events))))
            else retG ()) (
     bindG (on_state (readG (CrossDomainMessengerSentMessageEvents G A ''l1'' (L1CrossDomainMessengerProxy c) fromHeight toHeight))) (\<lambda>sent.
     thenG (when_any_record M (UpdateMessageHashByTxHash G) (map legacy_message_row sent)
       (RecordL1CrossDomainSentMessages (mr_metrics M) (length sent))) (
     bindG (on_state (readG (L1StandardBridgeLegacyDepositInitiatedEvents G A (L1StandardBridgeProxy c) fromHeight toHeight))) (\<lambda>bridges.
     bindG (on_state (liftR (mapR (legacy_bridge_row (log_map sme_Event sent) ctcTxDeposits) bridges))) (\<lambda>l1ToL2s2.
     when_any_record M (UpdateL1ToL2InfoByTxHash G) l1ToL2s2
       (token_calls (RecordL1InitiatedBridgeTransfers (mr_address M) (mr_metrics M)) (map br_LocalTokenAddress bridges)))))))))"

definition m_LegacyL2ProcessInitiatedBridgeEvents :: "meter \<Rightarrow> gorms \<Rightarrow> abis \<Rightarrow> (nat \<Rightarrow> uuid) \<Rightarrow> L2Contracts \<Rightarrow> int option \<Rightarrow> int option
    \<Rightarrow> (db metered, unit) go" where
  "m_LegacyL2ProcessInitiatedBridgeEvents M G A uuid c fromHeight toHeight =
     bindG (on_state (readG (CrossDomainMessengerSentMessageEvents G A ''l2'' (L2CrossDomainMessenger c) fromHeight toHeight))) (\<lambda>sent.
     bindG (on_state (build_rows (legacy_withdrawal_row G A uuid (L2CrossDomainMessenger c)) sent)) (\<lambda>l2ToL1Cs.
     thenG (when_any_record M (StoreL2ToL1Transactions G) l2ToL1Cs
       (RecordL2TransactionWithdrawals (mr_metrics M) (length sent) (minted_float (sum_amounts sme_ETHAmount sent)) @
        RecordL2CrossDomainSentMessages (mr_metrics M) (length sent))) (
     bindG (on_state (readG (L2StandardBridgeLegacyWithdrawalInitiatedEvents G A (L2StandardBridge c) fromHeight toHeight))) (\<lambda>bridges.
     bindG (on_state (liftR (mapR (legacy_withdrawal_bridge_row (log_map sme_Event sent)) bridges))) (\<lambda>l2ToL1Bs.
     when_any_record M (UpdateL2ToL1InfoByTxHash G) l2ToL1Bs
       (token_calls (RecordL2InitiatedBridgeTransfers (mr_address M) (mr_metrics M)) (map br_LocalTokenAddress bridges)))))))"

definition m_LegacyL1ProcessFinalizedBridgeEvents :: "meter \<Rightarrow> gorms \<Rightarrow> abis \<Rightarrow> L1Contracts \<Rightarrow> int option \<Rightarrow> int option \<Rightarrow> (db metered, unit) go" where
  "m_LegacyL1ProcessFinalizedBridgeEvents M G A c fromHeight toHeight =
     bindG (on_state (readG (CrossDomainMessengerRelayedMessageEvents G A ''l1'' (L1CrossDomainMessengerProxy c) fromHeight toHeight))) (\<lambda>relayed.
     when_any_record M (MarkL2ToL1TransactionWithdrawalFinalized G) (map legacy_finalized_row relayed)
       (RecordL1ProvenWithdrawals (mr_metrics M) (length relayed) @ RecordL1FinalizedWithdrawals (mr_metrics M) (length relayed) @
        RecordL1CrossDomainRelayedMessages (mr_metrics M) (length relayed)))"

definition m_LegacyL2ProcessFinalizedBridgeEvents :: "meter \<Rightarrow> gorms \<Rightarrow> abis \<Rightarrow> L2Contracts \<Rightarrow> int option \<Rightarrow> int option \<Rightarrow> (db metered, unit) go" where
  "m_LegacyL2ProcessFinalizedBridgeEvents M G A c fromHeight toHeight =
     bindG (on_state (readG (CrossDomainMessengerRelayedMessageEvents G A ''l2'' (L2CrossDomainMessenger c) fromHeight toHeight))) (\<lambda>relayed.
     when_any_record M (UpdateMessageHashByTxHash G) (map legacy_relayed_row relayed)
       (RecordL2CrossDomainRelayedMessages (mr_metrics M) (length relayed)))"


section \<open>Recording does not show in the tables\<close>

text \<open>m' does to the state what m does, with the same result, and only adds calls.\<close>

definition erases :: "('s metered, 'a) go \<Rightarrow> ('s, 'a) go \<Rightarrow> bool" where
  "erases m' m = (\<forall>s calls. \<exists>new. m' (s, calls) = (fst (m s), (snd (m s), calls @ new)))"

lemma erases_on_state [intro]: "erases (on_state m) m"
  by (auto simp: erases_def on_state_def split: prod.splits)

lemma erases_retG [intro]: "erases (retG a) (retG a)"
  by (auto simp: erases_def retG_def)

lemma erases_bindG:
  assumes "erases m' m" "\<And>a s t. m s = (Ok a, t) \<Longrightarrow> erases (f' a) (f a)"
  shows "erases (bindG m' f') (bindG m f)"
  unfolding erases_def
proof (intro allI)
  fix s calls
  obtain new where m': "m' (s, calls) = (fst (m s), (snd (m s), calls @ new))" using assms(1) unfolding erases_def by blast
  obtain r t where m: "m s = (r, t)" by (metis surj_pair)
  show "\<exists>new. bindG m' f' (s, calls) = (fst (bindG m f s), (snd (bindG m f s), calls @ new))"
  proof (cases r)
    case (Ok a)
    then obtain more where "f' a (t, calls @ new) = (fst (f a t), (snd (f a t), (calls @ new) @ more))"
      using assms(2) m unfolding erases_def by blast
    then show ?thesis using m m' Ok by (auto simp: bindG_def)
  qed (use m m' in \<open>auto simp: bindG_def\<close>)
qed

lemma erases_thenG: "erases m' m \<Longrightarrow> erases k' k \<Longrightarrow> erases (thenG m' k') (thenG m k)"
  unfolding thenG_def by (rule erases_bindG)

lemma erases_forG: "(\<And>x. erases (f' x) (f x)) \<Longrightarrow> erases (forG f' xs) (forG f xs)"
  by (induction xs) (auto intro: erases_thenG)

text \<open>A meter over the metrics that the program has registered.\<close>

definition meter_ok :: "meter \<Rightarrow> bool" where
  "meter_ok M = (mr_metrics M = bridge_of \<and> (\<forall>c. call_ok c \<longrightarrow> mr_call M c = Ok ()))"

lemma record_all_apply:
  "meter_ok M \<Longrightarrow> list_all call_ok cs \<Longrightarrow> record_all M cs (s, calls) = (Ok (), (s, calls @ cs))"
  by (induction cs arbitrary: calls)
     (auto simp: record_all_def record_call_def meter_ok_def thenG_def bindG_def retG_def)

lemma erases_record: "meter_ok M \<Longrightarrow> list_all call_ok cs \<Longrightarrow> erases (record_all M cs) (retG ())"
  unfolding erases_def by (auto simp: record_all_apply retG_def)

lemma erases_thenG_record:
  assumes "meter_ok M" "list_all call_ok cs" "erases k' k"
  shows "erases (thenG (record_all M cs) k') k"
proof -
  have "thenG (retG ()) k = k" by (rule ext) (simp add: thenG_def bindG_def retG_def)
  then show ?thesis using erases_thenG[OF erases_record[OF assms(1,2)] assms(3)] by simp
qed

lemma erases_before_record:
  assumes "meter_ok M" "list_all call_ok cs" "erases m' m"
  shows "erases (thenG m' (record_all M cs)) m"
proof -
  have "thenG m (retG ()) = m"
    by (rule ext) (auto simp: thenG_def bindG_def retG_def split: prod.splits result.splits)
  then show ?thesis using erases_thenG[OF assms(3) erases_record[OF assms(1,2)]] by simp
qed

lemma erases_when_any:
  "meter_ok M \<Longrightarrow> list_all call_ok cs \<Longrightarrow> erases (when_any_record M store rows cs) (when_any store rows)"
  unfolding when_any_record_def when_any_def by (auto intro: erases_before_record)

section \<open>Every recorded call is allowed\<close>

lemma float_of_nonneg [simp]: "0 \<le> float_of (int n)"
proof -
  have "0 \<le> float64 (int n)" by (auto simp: float64_def Let_def intro!: mult_nonneg_nonneg add_nonneg_nonneg pos_imp_zdiv_nonneg_iff[THEN iffD2])
  then show ?thesis by (simp add: float_of_def)
qed

lemma add_n_ok: "mt_kind m = CounterKind \<Longrightarrow> length ls = length (mt_labels m) \<Longrightarrow> list_all call_ok (add_n m ls n)"
  by (simp add: add_n_def call_ok_def)

lemma bridge_calls_ok:
  "list_all call_ok (RecordL1ProvenWithdrawals bridge_of n)" "list_all call_ok (RecordL1FinalizedWithdrawals bridge_of n)"
  "list_all call_ok (RecordL1CrossDomainSentMessages bridge_of n)" "list_all call_ok (RecordL1CrossDomainRelayedMessages bridge_of n)"
  "list_all call_ok (RecordL2CrossDomainSentMessages bridge_of n)" "list_all call_ok (RecordL2CrossDomainRelayedMessages bridge_of n)"
  "list_all call_ok (RecordL1InitiatedBridgeTransfers f bridge_of t n)" "list_all call_ok (RecordL1FinalizedBridgeTransfers f bridge_of t n)"
  "list_all call_ok (RecordL2InitiatedBridgeTransfers f bridge_of t n)" "list_all call_ok (RecordL2FinalizedBridgeTransfers f bridge_of t n)"
  "0 \<le> eth \<Longrightarrow> list_all call_ok (RecordL1TransactionDeposits bridge_of n eth)"
  "0 \<le> eth \<Longrightarrow> list_all call_ok (RecordL2TransactionWithdrawals bridge_of n eth)"
  "list_all call_ok (RecordL1SkippedOVM1CrossDomainRelayedMessages bridge_of n)"
  by (simp_all add: RecordL1ProvenWithdrawals_def RecordL1FinalizedWithdrawals_def RecordL1CrossDomainSentMessages_def
      RecordL1CrossDomainRelayedMessages_def RecordL2CrossDomainSentMessages_def RecordL2CrossDomainRelayedMessages_def
      RecordL1InitiatedBridgeTransfers_def RecordL1FinalizedBridgeTransfers_def RecordL2InitiatedBridgeTransfers_def
      RecordL2FinalizedBridgeTransfers_def RecordL1TransactionDeposits_def RecordL2TransactionWithdrawals_def
      RecordL1SkippedOVM1CrossDomainRelayedMessages_def add_n_ok bridge_of_def Let_def metric_of_def call_ok_def)

lemma token_calls_ok: "(\<And>t n. list_all call_ok (rec t n)) \<Longrightarrow> list_all call_ok (token_calls rec ts)"
  by (auto simp: token_calls_def per_token_def list_all_iff)

text \<open>The two recorders of skipped withdrawals give two values to the one label: every call of them is refused.\<close>

lemma skipped_recorders_refused:
  "\<not> list_all call_ok (RecordL1SkippedOVM1ProvenWithdrawals bridge_of n)"
  "\<not> list_all call_ok (RecordL1SkippedOVM1FinalizedWithdrawals bridge_of n)"
  by (simp_all add: RecordL1SkippedOVM1ProvenWithdrawals_def RecordL1SkippedOVM1FinalizedWithdrawals_def add_n_def
      bridge_of_def Let_def metric_of_def call_ok_def)


section \<open>Amounts are not negative\<close>

definition nonneg :: "int option \<Rightarrow> bool" where
  "nonneg x = (case x of None \<Rightarrow> True | Some n \<Rightarrow> 0 \<le> n)"

lemma sum_amounts_nonneg: "(\<forall>x \<in> set xs. nonneg (f x)) \<Longrightarrow> 0 \<le> sum_amounts f xs"
  by (auto simp: sum_amounts_def nonneg_def intro!: sum_list_nonneg split: option.splits)

text \<open>Documented behaviour of the ABI decoder: an argument of type uint256 is read as a number that is not
  negative; the others are left.\<close>

definition decodes_unsigned :: "'o abi_event \<Rightarrow> ('o \<Rightarrow> int option) \<Rightarrow> bool" where
  "decodes_unsigned ev field =
     ((\<forall>d out m. ev_Unpack ev d out = Ok m \<longrightarrow> nonneg (field out) \<longrightarrow> nonneg (field m)) \<and>
      (\<forall>ts out m. ev_ParseTopics ev ts out = Ok m \<longrightarrow> nonneg (field out) \<longrightarrow> nonneg (field m)))"

definition abi_unsigned :: "abis \<Rightarrow> bool" where
  "abi_unsigned A = (decodes_unsigned (a_MessagePassed A) mp_EthValue \<and> decodes_unsigned (a_SentMessageExtension1 A) ext_EthValue)"

lemma UnpackLog_unsigned:
  assumes "decodes_unsigned ev field" "nonneg (field out)" "UnpackLog out l (Some ev) = Ok m"
  shows "nonneg (field m)"
  using assms unfolding UnpackLog_def decodes_unsigned_def by (auto split: if_splits)

lemma mapR_all:
  assumes "mapR f xs = Ok ys" "\<And>x y. f x = Ok y \<Longrightarrow> P y"
  shows "\<forall>y \<in> set ys. P y"
  using assms(1)
proof (induction xs arbitrary: ys)
  case Nil
  then show ?case by simp
next
  case (Cons x xs)
  then show ?case using assms(2) by auto
qed

lemma deposits_nonneg:
  assumes "OptimismPortalTransactionDepositEvents G A c from to s = Ok deposits"
  shows "\<forall>d \<in> set deposits. nonneg ((dt_EthValue \<circ> pd_DepositTx) d)"
proof -
  have u: "nonneg (dt_EthValue d)" if "UnmarshalDepositLogEvent k l = Ok d" for k l d
    using that
    by (auto simp: UnmarshalDepositLogEvent_def unmarshalDepositVersion0_def Let_def nonneg_def nil_if_zero_def SetBytes_nonneg
        split: if_splits)
  show ?thesis
    using assms unfolding OptimismPortalTransactionDepositEvents_def decode_each_def
    by (auto split: if_splits dest!: mapR_all[where P = "\<lambda>d. nonneg (dt_EthValue (pd_DepositTx d))"] simp: Let_def u)
qed

lemma passed_nonneg:
  assumes "abi_unsigned A" "L2ToL1MessagePasserMessagePassedEvents G A c from to s = Ok passed"
  shows "\<forall>p \<in> set passed. nonneg (ps_ETHAmount p)"
proof -
  have "decodes_unsigned (a_MessagePassed A) mp_EthValue" "nonneg (mp_EthValue zero_MessagePassed)"
    using assms(1) by (simp_all add: abi_unsigned_def zero_MessagePassed_def nonneg_def)
  note u = UnpackLog_unsigned[where field = mp_EthValue, OF this]
  from assms(2) obtain es where "mapR (\<lambda>(i, e). bindR (UnpackLog zero_MessagePassed (ce_RLPLog e) (Some (a_MessagePassed A))) (\<lambda>m.
         Ok \<lparr>ps_Event = e, ps_WithdrawalHash = mp_WithdrawalHash m, ps_GasLimit = mp_GasLimit m,
             ps_Nonce = mp_Nonce m, ps_FromAddress = mp_Sender m, ps_ToAddress = mp_Target m,
             ps_ETHAmount = mp_EthValue m, ps_ERC20Amount = mp_MntValue m, ps_Data = mp_Data m,
             ps_Timestamp = ce_Timestamp e\<rparr>)) (enumerate 0 es) = Ok passed"
    unfolding L2ToL1MessagePasserMessagePassedEvents_def decode_each_def by auto
  then show ?thesis by (rule mapR_all) (clarsimp, erule u)
qed

lemma sent_nonneg:
  assumes "abi_unsigned A" "CrossDomainMessengerSentMessageEvents G A ch c from to s = Ok sent"
  shows "\<forall>m \<in> set sent. nonneg (sme_ETHAmount m)"
proof -
  have "decodes_unsigned (a_SentMessageExtension1 A) ext_EthValue" "nonneg (ext_EthValue zero_Extension)"
    using assms(1) by (simp_all add: abi_unsigned_def zero_Extension_def nonneg_def)
  note u = UnpackLog_unsigned[where field = ext_EthValue, OF this]
  have "nonneg (sme_ETHAmount m)" if "sent_message A xs k i e = Ok m" for xs k i e m
    using that u by (auto simp: sent_message_def Let_def nonneg_def split: if_splits)
  then show ?thesis
    using assms(2) unfolding CrossDomainMessengerSentMessageEvents_def decode_each_def
    by (auto split: if_splits dest!: mapR_all[where P = "\<lambda>m. nonneg (sme_ETHAmount m)"])
qed

lemma legacy_nonneg:
  assumes "LegacyCTCDepositEvents G A c from to s = Ok events"
  shows "\<forall>d \<in> set events. nonneg (ct_ETHAmount d)"
  using assms unfolding LegacyCTCDepositEvents_def decode_each_def
  by (auto dest!: mapR_all[where P = "\<lambda>d. nonneg (ct_ETHAmount d)"] simp: nonneg_def)

section \<open>The processors\<close>

lemma readG_Ok: "readG f s = (Ok a, t) \<Longrightarrow> f s = Ok a"
  by (auto simp: readG_def)

lemma minted_calls:
  assumes "\<forall>x \<in> set xs. nonneg (f x)"
  shows "0 \<le> minted_float (sum_amounts f xs)"
  using minted_float_nonneg sum_amounts_nonneg[OF assms] .

lemma m_L1ProcessInitiatedBridgeEvents_erases:
  assumes "meter_ok M"
  shows "erases (m_L1ProcessInitiatedBridgeEvents M G A uuid c from to) (L1ProcessInitiatedBridgeEvents G A uuid c from to)"
proof -
  have m: "mr_metrics M = bridge_of" using assms by (simp add: meter_ok_def)
  show ?thesis
    unfolding m_L1ProcessInitiatedBridgeEvents_def L1ProcessInitiatedBridgeEvents_def m
    by (intro erases_bindG erases_thenG erases_on_state erases_when_any[OF assms] bridge_calls_ok token_calls_ok minted_calls
        deposits_nonneg)
      (erule readG_Ok)
qed

lemma m_L1ProcessProvenBridgeEvents_erases:
  assumes "meter_ok M"
  shows "erases (m_L1ProcessProvenBridgeEvents M G A uuid c from to) (L1ProcessProvenBridgeEvents G A uuid c from to)"
proof -
  have m: "mr_metrics M = bridge_of" using assms by (simp add: meter_ok_def)
  show ?thesis
    unfolding m_L1ProcessProvenBridgeEvents_def L1ProcessProvenBridgeEvents_def m
    by (intro erases_bindG erases_on_state erases_when_any[OF assms] bridge_calls_ok)
qed

lemma m_L1ProcessFinalizedBridgeEvents_erases:
  assumes "meter_ok M"
  shows "erases (m_L1ProcessFinalizedBridgeEvents M G A uuid c from to) (L1ProcessFinalizedBridgeEvents G A uuid c from to)"
proof -
  have m: "mr_metrics M = bridge_of" using assms by (simp add: meter_ok_def)
  show ?thesis
    unfolding m_L1ProcessFinalizedBridgeEvents_def L1ProcessFinalizedBridgeEvents_def m
    by (intro erases_bindG erases_thenG erases_on_state erases_when_any[OF assms] bridge_calls_ok erases_forG
        erases_thenG_record[OF assms] erases_before_record[OF assms])
qed

lemma m_L2ProcessInitiatedBridgeEvents_erases:
  assumes "meter_ok M" "abi_unsigned A"
  shows "erases (m_L2ProcessInitiatedBridgeEvents M G A uuid c from to) (L2ProcessInitiatedBridgeEvents G A uuid c from to)"
proof -
  have m: "mr_metrics M = bridge_of" using assms by (simp add: meter_ok_def)
  show ?thesis
    unfolding m_L2ProcessInitiatedBridgeEvents_def L2ProcessInitiatedBridgeEvents_def m
    by (intro erases_bindG erases_thenG erases_on_state erases_when_any[OF assms(1)] bridge_calls_ok token_calls_ok minted_calls
        passed_nonneg[OF assms(2)])
      (erule readG_Ok)
qed

lemma m_L2ProcessFinalizedBridgeEvents_erases:
  assumes "meter_ok M"
  shows "erases (m_L2ProcessFinalizedBridgeEvents M G A uuid c from to) (L2ProcessFinalizedBridgeEvents G A uuid c from to)"
proof -
  have m: "mr_metrics M = bridge_of" using assms by (simp add: meter_ok_def)
  have opt: "erases (thenG (if b then record_all M (RecordL2CrossDomainRelayedMessages bridge_of n) else retG ()) k') k"
    if "erases k' k" for b n and k' k :: "_ \<Rightarrow> _"
    using erases_thenG_record[OF assms bridge_calls_ok(6) that] erases_thenG_record[OF assms _ that, of "[]"]
    by (cases b) (simp_all add: record_all_def)
  show ?thesis
    unfolding m_L2ProcessFinalizedBridgeEvents_def L2ProcessFinalizedBridgeEvents_def m Let_def
    by (intro erases_bindG opt erases_on_state erases_when_any[OF assms] bridge_calls_ok token_calls_ok)
qed

end
