(* ===== verification/ProcessorMetrics.thy ===== *)
theory ProcessorMetrics
  imports BridgeMetrics
begin

text \<open>
  The event processor with its metrics (event/processors/event.go): the tasks, their windows and the ticks of the two workers
  with the recorders they call.  The tasks erase to those of the theory EventProcessor, and the counters
  of the deposits grow with the table of the deposits.
\<close>

lemma m_LegacyL1ProcessInitiatedBridgeEvents_erases:
  assumes "meter_ok M"
  shows "erases (m_LegacyL1ProcessInitiatedBridgeEvents M G A c from to) (LegacyL1ProcessInitiatedBridgeEvents G A c from to)"
proof -
  have m: "mr_metrics M = bridge_of" using assms by (simp add: meter_ok_def)
  have opt: "erases (if b then thenG (on_state f) (record_all M cs) else retG ()) (if b then f else retG ())"
    if "list_all call_ok cs" for b cs and f :: "(db, unit) go"
    using that by (auto intro: erases_before_record[OF assms])
  show ?thesis
    unfolding m_LegacyL1ProcessInitiatedBridgeEvents_def LegacyL1ProcessInitiatedBridgeEvents_def m Let_def
    by (intro erases_bindG erases_thenG opt erases_on_state erases_when_any[OF assms] bridge_calls_ok token_calls_ok minted_calls
        legacy_nonneg) (erule readG_Ok)
qed

lemma m_LegacyL2ProcessInitiatedBridgeEvents_erases:
  assumes "meter_ok M" "abi_unsigned A"
  shows "erases (m_LegacyL2ProcessInitiatedBridgeEvents M G A uuid c from to) (LegacyL2ProcessInitiatedBridgeEvents G A uuid c from to)"
proof -
  have m: "mr_metrics M = bridge_of" using assms by (simp add: meter_ok_def)
  have "list_all call_ok (xs @ ys)" if "list_all call_ok xs" "list_all call_ok ys" for xs ys using that by simp
  note both = this
  show ?thesis
    unfolding m_LegacyL2ProcessInitiatedBridgeEvents_def LegacyL2ProcessInitiatedBridgeEvents_def m
    by (intro erases_bindG erases_thenG erases_on_state erases_when_any[OF assms(1)] both bridge_calls_ok token_calls_ok minted_calls
        sent_nonneg[OF assms(2)]) (erule readG_Ok)
qed

lemma m_legacy_finalized_erases:
  assumes "meter_ok M"
  shows "erases (m_LegacyL1ProcessFinalizedBridgeEvents M G A c from to) (LegacyL1ProcessFinalizedBridgeEvents G A c from to)"
    "erases (m_LegacyL2ProcessFinalizedBridgeEvents M G A d from to) (LegacyL2ProcessFinalizedBridgeEvents G A d from to)"
proof -
  have m: "mr_metrics M = bridge_of" using assms by (simp add: meter_ok_def)
  have "list_all call_ok (xs @ ys)" if "list_all call_ok xs" "list_all call_ok ys" for xs ys using that by simp
  note both = this
  show "erases (m_LegacyL1ProcessFinalizedBridgeEvents M G A c from to) (LegacyL1ProcessFinalizedBridgeEvents G A c from to)"
    unfolding m_LegacyL1ProcessFinalizedBridgeEvents_def LegacyL1ProcessFinalizedBridgeEvents_def m
    by (intro erases_bindG erases_on_state erases_when_any[OF assms] both bridge_calls_ok)
  show "erases (m_LegacyL2ProcessFinalizedBridgeEvents M G A d from to) (LegacyL2ProcessFinalizedBridgeEvents G A d from to)"
    unfolding m_LegacyL2ProcessFinalizedBridgeEvents_def LegacyL2ProcessFinalizedBridgeEvents_def m
    by (intro erases_bindG erases_on_state erases_when_any[OF assms] bridge_calls_ok)
qed

section \<open>The event processor with its metrics\<close>

text \<open>The transaction of the database, around a computation that also records: what it does to the tables is
  that of the transaction around the computation alone, and the calls are those of the run of its function.\<close>

definition metered_tx_ok :: "((db metered, unit) go \<Rightarrow> (db metered, unit) go) \<Rightarrow> gorms \<Rightarrow> bool" where
  "metered_tx_ok T G =
     (\<forall>f' f s calls. erases f' f \<longrightarrow>
        (let out = T f' (s, calls); body = snd (snd (f' (s, calls))) in
         fst out = fst (G_tx G f s) \<and> fst (snd out) = snd (G_tx G f s) \<and>
         (snd (snd out) = body \<or> (snd (snd out) = calls \<and> fst out \<noteq> Ok ()))))"

definition mem_metered_tx :: "(db metered, unit) go \<Rightarrow> (db metered, unit) go" where
  "mem_metered_tx f = (\<lambda>(s, calls).
     (case f (s, calls) of
        (Ok u, t) \<Rightarrow> (Ok (), t)
      | (Err e, (s', calls')) \<Rightarrow> (Err e, (s, calls'))
      | (Panic p, (s', calls')) \<Rightarrow> (Panic p, (s, calls'))))"

lemma mem_metered_tx_ok: "metered_tx_ok mem_metered_tx mem_gorms"
  unfolding metered_tx_ok_def
proof (intro allI impI)
  fix f' :: "(db metered, unit) go" and f s calls
  assume "erases f' f"
  then obtain new where "f' (s, calls) = (fst (f s), (snd (f s), calls @ new))" unfolding erases_def by blast
  then show "let out = mem_metered_tx f' (s, calls); body = snd (snd (f' (s, calls))) in
      fst out = fst (G_tx mem_gorms f s) \<and> fst (snd out) = snd (G_tx mem_gorms f s) \<and>
      (snd (snd out) = body \<or> (snd (snd out) = calls \<and> fst out \<noteq> Ok ()))"
    by (cases "f s"; cases "fst (f s)") (simp_all add: mem_metered_tx_def mem_transaction_def Let_def)
qed

definition m_run_window :: "meter \<Rightarrow> ((db metered, unit) go \<Rightarrow> (db metered, unit) go) \<Rightarrow> string \<Rightarrow> BlockHeader option result \<Rightarrow> int
    \<Rightarrow> (int \<Rightarrow> int \<Rightarrow> (db metered, unit) go) \<Rightarrow> (BlockHeader option \<Rightarrow> EventProcessor \<Rightarrow> EventProcessor)
    \<Rightarrow> (EventProcessor \<Rightarrow> EventProcessor) \<Rightarrow> (BlockHeader \<Rightarrow> metric_call list) \<Rightarrow> ((EventProcessor \<times> db) metered, unit) go" where
  "m_run_window M T failed latest lastNumber body setCursor none height = (\<lambda>((ep, s), calls).
     case latest of
       Err e \<Rightarrow> (Err (Wrap failed e), ((ep, s), calls))
     | Panic p \<Rightarrow> (Panic p, ((ep, s), calls))
     | Ok None \<Rightarrow> (Ok (), ((none ep, s), calls))
     | Ok (Some header) \<Rightarrow>
         (case T (body (lastNumber + 1) (bh_Number header)) (s, calls) of
            (Ok u, (s', calls')) \<Rightarrow> record_all M (height header) ((setCursor (Some header) ep, s'), calls')
          | (Err e, (s', calls')) \<Rightarrow> (Err e, ((ep, s'), calls'))
          | (Panic p, (s', calls')) \<Rightarrow> (Panic p, ((ep, s'), calls'))))"

text \<open>Whatever the function of the transaction does, it only adds calls.\<close>

lemma metered_tx_apply:
  assumes "metered_tx_ok T G" "erases f' f"
  shows "\<exists>new. T f' (s, calls) = (fst (G_tx G f s), (snd (G_tx G f s), calls @ new))"
proof -
  obtain n where n: "f' (s, calls) = (fst (f s), (snd (f s), calls @ n))" using assms(2) unfolding erases_def by blast
  let ?out = "T f' (s, calls)"
  have o: "fst ?out = fst (G_tx G f s) \<and> fst (snd ?out) = snd (G_tx G f s) \<and>
      (snd (snd ?out) = calls @ n \<or> snd (snd ?out) = calls)"
    using assms(1)[unfolded metered_tx_ok_def Let_def, rule_format, OF assms(2), of s calls] n by auto
  then obtain new where "snd (snd ?out) = calls @ new" by (metis append_Nil2)
  then show ?thesis using o by (metis prod.collapse)
qed

lemma m_run_window_erases:
  assumes "meter_ok M" "metered_tx_ok T G" "\<And>a b. erases (body' a b) (body a b)" "\<And>h. list_all call_ok (height h)"
  shows "\<exists>new. m_run_window M T failed latest n body' setC none height ((ep, s), calls)
    = (fst (run_window G failed latest n body setC none (ep, s)), (snd (run_window G failed latest n body setC none (ep, s)), calls @ new))"
proof (cases latest)
  case (Ok header)
  show ?thesis
  proof (cases header)
    case (Some h)
    obtain new where t: "T (body' (n + 1) (bh_Number h)) (s, calls)
        = (fst (G_tx G (body (n + 1) (bh_Number h)) s), (snd (G_tx G (body (n + 1) (bh_Number h)) s), calls @ new))"
      using metered_tx_apply[OF assms(2,3)] by blast
    obtain r s' where g: "G_tx G (body (n + 1) (bh_Number h)) s = (r, s')" by (metis surj_pair)
    show ?thesis
      using Ok Some t g by (cases r) (auto simp: m_run_window_def run_window_def record_all_apply[OF assms(1) assms(4)])
  qed (use Ok in \<open>auto simp: m_run_window_def run_window_def\<close>)
qed (auto simp: m_run_window_def run_window_def)

lemma split_at_bedrock_erases:
  assumes "\<And>a b. erases (legacy' a b) (legacy a b)" "\<And>a b. erases (current' a b) (current a b)"
  shows "erases (split_at_bedrock h legacy' current' a b) (split_at_bedrock h legacy current a b)"
  unfolding split_at_bedrock_def Let_def by (auto intro: erases_thenG assms)

section \<open>The tasks\<close>

definition m_processInitiatedL1Events :: "meter \<Rightarrow> ((db metered, unit) go \<Rightarrow> (db metered, unit) go) \<Rightarrow> proc_env
    \<Rightarrow> ((EventProcessor \<times> db) metered, unit) go" where
  "m_processInitiatedL1Events M T E = (\<lambda>((ep, s), calls).
     let cfg = ep_chainConfig ep; G = pe_G E;
         lastL1BlockNumber = last_number (LatestL1L2InitL1Header ep) (L1StartingHeight cfg) in
     m_run_window M T ''failed to query new L1 state''
       (L1BlockHeaderWithScope G (window_scope l1_block_headers (\<lambda>n. n > lastL1BlockNumber)) s) lastL1BlockNumber
       (split_at_bedrock (L1BedrockStartingHeight cfg)
         (\<lambda>a b. m_LegacyL1ProcessInitiatedBridgeEvents M G (pe_A E) (cc_L1Contracts cfg) (Some a) (Some b))
         (\<lambda>a b. m_L1ProcessInitiatedBridgeEvents M G (pe_A E) (pe_uuid E) (cc_L1Contracts cfg) (Some a) (Some b)))
       (\<lambda>h. LatestL1L2InitL1Header_update (\<lambda>_. h)) id
       (\<lambda>header. RecordL1LatestHeight (mr_metrics M) (bh_Number header)) ((ep, s), calls))"

definition m_processInitiatedL2Events :: "meter \<Rightarrow> ((db metered, unit) go \<Rightarrow> (db metered, unit) go) \<Rightarrow> proc_env
    \<Rightarrow> ((EventProcessor \<times> db) metered, unit) go" where
  "m_processInitiatedL2Events M T E = (\<lambda>((ep, s), calls).
     let cfg = ep_chainConfig ep; G = pe_G E;
         lastL2BlockNumber = last_number (LatestL2L1InitL2Header ep) (L2StartingHeight cfg) in
     m_run_window M T ''failed to query new L2 state''
       (L2BlockHeaderWithScope G (window_scope l2_block_headers (\<lambda>n. n > lastL2BlockNumber)) s) lastL2BlockNumber
       (split_at_bedrock (L2BedrockStartingHeight cfg)
         (\<lambda>a b. m_LegacyL2ProcessInitiatedBridgeEvents M G (pe_A E) (pe_uuid E) (cc_L2Contracts cfg) (Some a) (Some b))
         (\<lambda>a b. m_L2ProcessInitiatedBridgeEvents M G (pe_A E) (pe_uuid E) (cc_L2Contracts cfg) (Some a) (Some b)))
       (\<lambda>h. LatestL2L1InitL2Header_update (\<lambda>_. h)) id
       (\<lambda>header. RecordL2LatestHeight (mr_metrics M) (bh_Number header)) ((ep, s), calls))"

text \<open>The other tasks record the height at which they started, not the one they have reached.\<close>

definition m_processProvenL1Events :: "meter \<Rightarrow> ((db metered, unit) go \<Rightarrow> (db metered, unit) go) \<Rightarrow> proc_env
    \<Rightarrow> ((EventProcessor \<times> db) metered, unit) go" where
  "m_processProvenL1Events M T E = (\<lambda>((ep, s), calls).
     let cfg = ep_chainConfig ep; G = pe_G E;
         lastProvenL1BlockNumber = last_number (LatestProvenL1Header ep) (L1StartingHeight cfg) in
     m_run_window M T ''failed to query for latest unfinalized L1 state''
       (L1BlockHeaderWithScope G (window_scope l1_block_headers (\<lambda>n. n > lastProvenL1BlockNumber)) s) lastProvenL1BlockNumber
       (\<lambda>a b. m_L1ProcessProvenBridgeEvents M G (pe_A E) (pe_uuid E) (cc_L1Contracts cfg) (Some a) (Some b))
       (\<lambda>h. LatestProvenL1Header_update (\<lambda>_. h)) id
       (\<lambda>_. RecordL1LatestProvenHeight (mr_metrics M) lastProvenL1BlockNumber) ((ep, s), calls))"

definition m_processFinalizedL1Events :: "meter \<Rightarrow> ((db metered, unit) go \<Rightarrow> (db metered, unit) go) \<Rightarrow> proc_env
    \<Rightarrow> ((EventProcessor \<times> db) metered, unit) go" where
  "m_processFinalizedL1Events M T E = (\<lambda>((ep, s), calls).
     let cfg = ep_chainConfig ep; G = pe_G E;
         lastFinalizedL1BlockNumber = last_number (LatestFinalizedL1Header ep) (L1StartingHeight cfg) in
     m_run_window M T ''failed to query for latest unfinalized L1 state''
       (L1BlockHeaderWithScope G (window_scope l1_block_headers (\<lambda>n. n > lastFinalizedL1BlockNumber)) s)
       lastFinalizedL1BlockNumber
       (split_at_bedrock (L1BedrockStartingHeight cfg)
         (\<lambda>a b. m_LegacyL1ProcessFinalizedBridgeEvents M G (pe_A E) (cc_L1Contracts cfg) (Some a) (Some b))
         (\<lambda>a b. m_L1ProcessFinalizedBridgeEvents M G (pe_A E) (pe_uuid E) (cc_L1Contracts cfg) (Some a) (Some b)))
       (\<lambda>h. LatestFinalizedL1Header_update (\<lambda>_. h)) id
       (\<lambda>_. RecordL1LatestFinalizedHeight (mr_metrics M) lastFinalizedL1BlockNumber) ((ep, s), calls))"

definition m_processFinalizedL2Events :: "meter \<Rightarrow> ((db metered, unit) go \<Rightarrow> (db metered, unit) go) \<Rightarrow> proc_env
    \<Rightarrow> ((EventProcessor \<times> db) metered, unit) go" where
  "m_processFinalizedL2Events M T E = (\<lambda>((ep, s), calls).
     let cfg = ep_chainConfig ep; G = pe_G E;
         lastFinalizedL2BlockNumber = last_number (LatestL1L2FinalizedL2Header ep) (L2StartingHeight cfg) in
     (case L1L2LatestL2BlockHeader G s of
        Err e \<Rightarrow> (Err e, ((ep, s), calls))
      | Panic p \<Rightarrow> (Panic p, ((ep, s), calls))
      | Ok l2BlockHeader \<Rightarrow>
          (let ep' = (case l2BlockHeader of None \<Rightarrow> ep | Some h \<Rightarrow> ep\<lparr>LatestL1L2L2Header := Some h\<rparr>);
               latestL1L2BlockNumber = last_number l2BlockHeader (L2StartingHeight cfg) in
           m_run_window M T ''failed to query for latest unfinalized L2 state''
             (L2BlockHeaderWithScope G (window_scope l2_block_headers
                (\<lambda>n. n > lastFinalizedL2BlockNumber \<and> n \<le> latestL1L2BlockNumber)) s)
             lastFinalizedL2BlockNumber
             (split_at_bedrock (L2BedrockStartingHeight cfg)
               (\<lambda>a b. m_LegacyL2ProcessFinalizedBridgeEvents M G (pe_A E) (cc_L2Contracts cfg) (Some a) (Some b))
               (\<lambda>a b. m_L2ProcessFinalizedBridgeEvents M G (pe_A E) (pe_uuid E) (cc_L2Contracts cfg) (Some a) (Some b)))
             (\<lambda>h. LatestL1L2FinalizedL2Header_update (\<lambda>_. h)) (LatestL1L2FinalizedL2Header_update (\<lambda>_. None))
             (\<lambda>_. RecordL2LatestFinalizedHeight (mr_metrics M) lastFinalizedL2BlockNumber) ((ep', s), calls))))"

text \<open>The two rollup processors record nothing themselves.\<close>

definition m_processRollupStateRoot :: "meter \<Rightarrow> ((db metered, unit) go \<Rightarrow> (db metered, unit) go) \<Rightarrow> proc_env
    \<Rightarrow> ((EventProcessor \<times> db) metered, unit) go" where
  "m_processRollupStateRoot M T E = (\<lambda>((ep, s), calls).
     let cfg = ep_chainConfig ep; G = pe_G E;
         lastStateRootL1BlockNumber = last_number (LatestStateRootL1Header ep) (L1StartingHeight cfg) in
     m_run_window M T ''failed to query new L1 state''
       (L1BlockHeaderWithScope G (window_scope l1_block_headers (\<lambda>n. n > lastStateRootL1BlockNumber)) s) lastStateRootL1BlockNumber
       (\<lambda>a b. on_state (L2OutputEvent G (pe_A E) (pe_uuid E) (cc_L1Contracts cfg) (Some a) (Some b)))
       (\<lambda>h. LatestStateRootL1Header_update (\<lambda>_. h)) id
       (\<lambda>_. RecordL1LatestRollupSateRootHeight (mr_metrics M) lastStateRootL1BlockNumber) ((ep, s), calls))"

definition m_processRollupMantleDA :: "meter \<Rightarrow> ((db metered, unit) go \<Rightarrow> (db metered, unit) go) \<Rightarrow> proc_env
    \<Rightarrow> ((EventProcessor \<times> db) metered, unit) go" where
  "m_processRollupMantleDA M T E = (\<lambda>((ep, s), calls).
     let cfg = ep_chainConfig ep; G = pe_G E;
         lastRollupMantleDaL1BlockNumber = last_number (LatestMantleDAL1Header ep) (L1StartingHeight cfg) in
     m_run_window M T ''failed to query new L1 state''
       (L1BlockHeaderWithScope G (window_scope l1_block_headers (\<lambda>n. n > lastRollupMantleDaL1BlockNumber)) s)
       lastRollupMantleDaL1BlockNumber
       (\<lambda>a b. on_state (L1ProcessMantleDAEvents G (pe_A E) (pe_uuid E) (pe_now E) (cc_L1Contracts cfg) (Some a) (Some b)))
       (\<lambda>h. LatestMantleDAL1Header_update (\<lambda>_. h)) id
       (\<lambda>_. RecordL1LatestRollupMantleDaHeight (mr_metrics M) lastRollupMantleDaL1BlockNumber) ((ep, s), calls))"

definition m_onL1Data :: "meter \<Rightarrow> ((db metered, unit) go \<Rightarrow> (db metered, unit) go) \<Rightarrow> (nat \<Rightarrow> proc_env)
    \<Rightarrow> ((EventProcessor \<times> db) metered, unit) go" where
  "m_onL1Data M T E = run_tasks
     [m_processInitiatedL1Events M T (E 0), m_processFinalizedL2Events M T (E 1), m_processRollupMantleDA M T (E 2),
      m_processRollupStateRoot M T (E 3)] None"

definition m_onL2Data :: "meter \<Rightarrow> ((db metered, unit) go \<Rightarrow> (db metered, unit) go) \<Rightarrow> (nat \<Rightarrow> proc_env)
    \<Rightarrow> ((EventProcessor \<times> db) metered, unit) go" where
  "m_onL2Data M T E = run_tasks
     [m_processInitiatedL2Events M T (E 0), m_processProvenL1Events M T (E 1), m_processFinalizedL1Events M T (E 2)] None"

fun err_of :: "unit result \<Rightarrow> error option" where
  "err_of (Err e) = Some e"
| "err_of r = None"

text \<open>One tick of a worker: the interval is opened, the tasks run, and the interval is closed with their error.\<close>

definition m_tick :: "meter \<Rightarrow> metric_call list \<Rightarrow> (error option \<Rightarrow> metric_call list) \<Rightarrow> ('s metered, unit) go \<Rightarrow> ('s metered, unit) go" where
  "m_tick M opened done onData = thenG (record_all M opened) (\<lambda>st.
     (case onData st of
        (Panic p, st') \<Rightarrow> (Panic p, st')
      | (r, st') \<Rightarrow> thenG (record_all M (done (err_of r))) (liftR r) st'))"

text \<open>A tick is the time its interval takes and what its tasks take from outside.\<close>

definition m_l1_worker :: "meter \<Rightarrow> ((db metered, unit) go \<Rightarrow> (db metered, unit) go) \<Rightarrow> (rat \<times> (nat \<Rightarrow> proc_env)) list
    \<Rightarrow> ((EventProcessor \<times> db) metered, unit) go" where
  "m_l1_worker M T = ticker_worker (\<lambda>(secs, E). m_tick M (RecordL1Interval (mr_metrics M))
     (l1_interval_done (mr_metrics M) secs) (m_onL1Data M T E))"

definition m_l2_worker :: "meter \<Rightarrow> ((db metered, unit) go \<Rightarrow> (db metered, unit) go) \<Rightarrow> (rat \<times> (nat \<Rightarrow> proc_env)) list
    \<Rightarrow> ((EventProcessor \<times> db) metered, unit) go" where
  "m_l2_worker M T = ticker_worker (\<lambda>(secs, E). m_tick M (RecordL2Interval (mr_metrics M))
     (l2_interval_done (mr_metrics M) secs) (m_onL2Data M T E))"


section \<open>The tasks with metrics are the tasks\<close>

lemma heights_ok:
  "list_all call_ok (RecordL1LatestHeight bridge_of h)" "list_all call_ok (RecordL2LatestHeight bridge_of h)"
  "list_all call_ok (RecordL1LatestProvenHeight bridge_of h)" "list_all call_ok (RecordL1LatestFinalizedHeight bridge_of h)"
  "list_all call_ok (RecordL2LatestFinalizedHeight bridge_of h)"
  "list_all call_ok (RecordL1LatestRollupSateRootHeight bridge_of h)" "list_all call_ok (RecordL1LatestRollupMantleDaHeight bridge_of h)"
  by (simp_all add: RecordL1LatestHeight_def RecordL2LatestHeight_def RecordL1LatestProvenHeight_def RecordL1LatestFinalizedHeight_def
      RecordL2LatestFinalizedHeight_def RecordL1LatestRollupSateRootHeight_def RecordL1LatestRollupMantleDaHeight_def
      set_height_def bridge_of_def Let_def metric_of_def call_ok_def)

lemma intervals_ok:
  "list_all call_ok (RecordL1Interval bridge_of)" "list_all call_ok (RecordL2Interval bridge_of)"
  "list_all call_ok (l1_interval_done bridge_of secs err)" "list_all call_ok (l2_interval_done bridge_of secs err)"
  by (simp_all add: RecordL1Interval_def RecordL2Interval_def l1_interval_done_def l2_interval_done_def bridge_of_def Let_def
      metric_of_def call_ok_def Inc_def)

text \<open>What the tasks of one run need: a meter over the program's metrics, a decoder of unsigned amounts and the
  transaction of the database.\<close>

definition metering :: "meter \<Rightarrow> ((db metered, unit) go \<Rightarrow> (db metered, unit) go) \<Rightarrow> proc_env \<Rightarrow> bool" where
  "metering M T E = (meter_ok M \<and> metered_tx_ok T (pe_G E) \<and> abi_unsigned (pe_A E))"

lemma erases_pairI:
  "(\<And>ep s calls. \<exists>new. m' ((ep, s), calls) = (fst (m (ep, s)), (snd (m (ep, s)), calls @ new))) \<Longrightarrow> erases m' m"
  unfolding erases_def by auto

lemma tasks_erase:
  assumes "metering M T E"
  shows "erases (m_processInitiatedL1Events M T E) (processInitiatedL1Events E)"
    "erases (m_processInitiatedL2Events M T E) (processInitiatedL2Events E)"
    "erases (m_processProvenL1Events M T E) (processProvenL1Events E)"
    "erases (m_processFinalizedL1Events M T E) (processFinalizedL1Events E)"
    "erases (m_processRollupStateRoot M T E) (processRollupStateRoot E)"
    "erases (m_processRollupMantleDA M T E) (processRollupMantleDA E)"
proof -
  have M: "meter_ok M" and T: "metered_tx_ok T (pe_G E)" and A: "abi_unsigned (pe_A E)" and m: "mr_metrics M = bridge_of"
    using assms by (simp_all add: metering_def meter_ok_def)
  note window = m_run_window_erases[OF M T]
  show "erases (m_processInitiatedL1Events M T E) (processInitiatedL1Events E)"
    by (rule erases_pairI, unfold m_processInitiatedL1Events_def processInitiatedL1Events_def Let_def m prod.case)
      (intro window split_at_bedrock_erases m_LegacyL1ProcessInitiatedBridgeEvents_erases
        m_L1ProcessInitiatedBridgeEvents_erases M heights_ok)
  show "erases (m_processInitiatedL2Events M T E) (processInitiatedL2Events E)"
    by (rule erases_pairI, unfold m_processInitiatedL2Events_def processInitiatedL2Events_def Let_def m prod.case)
      (intro window split_at_bedrock_erases m_LegacyL2ProcessInitiatedBridgeEvents_erases
        m_L2ProcessInitiatedBridgeEvents_erases M A heights_ok)
  show "erases (m_processProvenL1Events M T E) (processProvenL1Events E)"
    by (rule erases_pairI, unfold m_processProvenL1Events_def processProvenL1Events_def Let_def m prod.case)
      (intro window m_L1ProcessProvenBridgeEvents_erases M heights_ok)
  show "erases (m_processFinalizedL1Events M T E) (processFinalizedL1Events E)"
    by (rule erases_pairI, unfold m_processFinalizedL1Events_def processFinalizedL1Events_def Let_def m prod.case)
      (intro window split_at_bedrock_erases m_legacy_finalized_erases(1) m_L1ProcessFinalizedBridgeEvents_erases M heights_ok)
  show "erases (m_processRollupStateRoot M T E) (processRollupStateRoot E)"
    by (rule erases_pairI, unfold m_processRollupStateRoot_def processRollupStateRoot_def Let_def m prod.case)
      (intro window erases_on_state heights_ok)
  show "erases (m_processRollupMantleDA M T E) (processRollupMantleDA E)"
    by (rule erases_pairI, unfold m_processRollupMantleDA_def processRollupMantleDA_def Let_def m prod.case)
      (intro window erases_on_state heights_ok)
qed

lemma finalized_l2_erases:
  assumes "metering M T E"
  shows "erases (m_processFinalizedL2Events M T E) (processFinalizedL2Events E)"
proof (rule erases_pairI)
  fix ep s calls
  have M: "meter_ok M" and T: "metered_tx_ok T (pe_G E)" and m: "mr_metrics M = bridge_of"
    using assms by (simp_all add: metering_def meter_ok_def)
  note window = m_run_window_erases[OF M T]
  show "\<exists>new. m_processFinalizedL2Events M T E ((ep, s), calls)
      = (fst (processFinalizedL2Events E (ep, s)), (snd (processFinalizedL2Events E (ep, s)), calls @ new))"
  proof (cases "L1L2LatestL2BlockHeader (pe_G E) s")
    case (Ok h)
    show ?thesis
      unfolding m_processFinalizedL2Events_def processFinalizedL2Events_def Let_def m prod.case Ok result.case
      by (intro window split_at_bedrock_erases m_legacy_finalized_erases(2) m_L2ProcessFinalizedBridgeEvents_erases M heights_ok)
  qed (simp_all add: m_processFinalizedL2Events_def processFinalizedL2Events_def)
qed

lemma run_tasks_erases:
  assumes "list_all2 erases ts' ts"
  shows "erases (run_tasks ts' errs) (run_tasks ts errs)"
  using assms
proof (induction ts' ts arbitrary: errs rule: list_all2_induct)
  case Nil
  then show ?case by (auto simp: erases_def)
next
  case (Cons t' ts' t ts)
  show ?case
    unfolding erases_def
  proof (intro allI)
    fix s calls
    obtain new where t': "t' (s, calls) = (fst (t s), (snd (t s), calls @ new))" using Cons(1) unfolding erases_def by blast
    obtain r s1 where t: "t s = (r, s1)" by (metis surj_pair)
    have rest: "\<exists>n. run_tasks ts' e (s1, calls @ new) = (fst (run_tasks ts e s1), (snd (run_tasks ts e s1), calls @ n))" for e
      using Cons.IH[of e] unfolding erases_def by (metis append_assoc)
    show "\<exists>new. run_tasks (t' # ts') errs (s, calls)
        = (fst (run_tasks (t # ts) errs s), (snd (run_tasks (t # ts) errs s), calls @ new))"
      using t t' rest by (cases r) auto
  qed
qed

lemma on_data_erases:
  assumes "\<And>i. metering M T (E i)"
  shows "erases (m_onL1Data M T E) (onL1Data E)" "erases (m_onL2Data M T E) (onL2Data E)"
  unfolding m_onL1Data_def onL1Data_def m_onL2Data_def onL2Data_def
  using assms by (auto intro!: run_tasks_erases tasks_erase finalized_l2_erases)

section \<open>The workers\<close>

text \<open>The sum of what was added to a counter with these label values.\<close>

definition added :: "metric \<Rightarrow> string list \<Rightarrow> metric_call \<Rightarrow> rat" where
  "added m ls c = (if mc_metric c = m \<and> mc_values c = ls then (case mc_method c of Add v \<Rightarrow> v | _ \<Rightarrow> 0) else 0)"

definition sum_added :: "metric \<Rightarrow> string list \<Rightarrow> metric_call list \<Rightarrow> rat" where
  "sum_added m ls calls = sum_list (map (added m ls) calls)"

lemma sum_added_simps [simp]: "sum_added m ls [] = 0" "sum_added m ls (c # cs) = added m ls c + sum_added m ls cs"
  "sum_added m ls (xs @ ys) = sum_added m ls xs + sum_added m ls ys"
  by (simp_all add: sum_added_def)

text \<open>A worker with ticks that erase to those of a worker without metrics does what that one does.\<close>

lemma m_tick_erases:
  assumes "meter_ok M" "list_all call_ok opened" "\<And>e. list_all call_ok (done e)" "erases f' f"
  shows "erases (m_tick M opened done f') f"
  unfolding erases_def
proof (intro allI)
  fix s calls
  obtain new where f': "f' (s, calls @ opened) = (fst (f s), (snd (f s), (calls @ opened) @ new))"
    using assms(4) unfolding erases_def by blast
  obtain r t where f: "f s = (r, t)" by (metis surj_pair)
  note rec = record_all_apply[OF assms(1,2)] record_all_apply[OF assms(1,3)]
  show "\<exists>new. m_tick M opened done f' (s, calls) = (fst (f s), (snd (f s), calls @ new))"
    using f f' by (cases r) (auto simp: m_tick_def thenG_def bindG_def rec liftR_def)
qed

lemma ticker_worker_erases:
  assumes "\<And>x. x \<in> set xs \<Longrightarrow> erases (g' x) (g (p x))"
  shows "erases (ticker_worker g' xs) (ticker_worker g (map p xs))"
  using assms
proof (induction xs)
  case Nil
  then show ?case by (auto simp: erases_def)
next
  case (Cons x xs)
  show ?case
    unfolding erases_def
  proof (intro allI)
    fix s calls
    obtain new where g': "g' x (s, calls) = (fst (g (p x) s), (snd (g (p x) s), calls @ new))"
      using Cons.prems[of x] unfolding erases_def by auto
    obtain r t where g: "g (p x) s = (r, t)" by (metis surj_pair)
    have "\<exists>n. ticker_worker g' xs (t, calls @ new)
        = (fst (ticker_worker g (map p xs) t), (snd (ticker_worker g (map p xs) t), calls @ n))"
      using Cons.IH Cons.prems unfolding erases_def by (metis append_assoc list.set_intros(2))
    then show "\<exists>n. ticker_worker g' (x # xs) (s, calls)
        = (fst (ticker_worker g (map p (x # xs)) s), (snd (ticker_worker g (map p (x # xs)) s), calls @ n))"
      using g g' by (cases r) auto
  qed
qed

text \<open>C14: the metrics of the event processor do not change what it does.  Through any ticks of its two workers, with
  any times measured and any failures, the tables, the cursors and the result are those of the workers without
  metrics, and the metrics only see further calls; no call of a worker panics.\<close>

theorem metrics_transparent:
  assumes "\<forall>(secs, E) \<in> set ticks. \<forall>i. metering M T (E i)"
  shows "(\<exists>new. m_l1_worker M T ticks (st, calls)
        = (fst (l1_worker (map snd ticks) st), (snd (l1_worker (map snd ticks) st), calls @ new))) \<and>
     (\<exists>new. m_l2_worker M T ticks (st, calls)
        = (fst (l2_worker (map snd ticks) st), (snd (l2_worker (map snd ticks) st), calls @ new)))"
proof -
  have m: "erases (m_tick M (RecordL1Interval (mr_metrics M)) (l1_interval_done (mr_metrics M) secs) (m_onL1Data M T E)) (onL1Data E)"
    "erases (m_tick M (RecordL2Interval (mr_metrics M)) (l2_interval_done (mr_metrics M) secs) (m_onL2Data M T E)) (onL2Data E)"
    if "(secs, E) \<in> set ticks" for secs E
  proof -
    have E: "\<And>i. metering M T (E i)" using assms that by blast
    then have M: "meter_ok M" "mr_metrics M = bridge_of" by (auto simp: metering_def meter_ok_def)
    show "erases (m_tick M (RecordL1Interval (mr_metrics M)) (l1_interval_done (mr_metrics M) secs) (m_onL1Data M T E)) (onL1Data E)"
      "erases (m_tick M (RecordL2Interval (mr_metrics M)) (l2_interval_done (mr_metrics M) secs) (m_onL2Data M T E)) (onL2Data E)"
      unfolding M(2) by (rule m_tick_erases[OF M(1)] intervals_ok on_data_erases E)+
  qed
  have "erases (m_l1_worker M T ticks) (l1_worker (map snd ticks))" "erases (m_l2_worker M T ticks) (l2_worker (map snd ticks))"
    unfolding m_l1_worker_def l1_worker_def m_l2_worker_def l2_worker_def by (rule ticker_worker_erases, use m in auto)+
  then show ?thesis
    unfolding erases_def by blast
qed

definition sample_meter :: meter where
  "sample_meter = \<lparr>mr_call = pm_call list_prom, mr_metrics = bridge_of, mr_address = (\<lambda>a. int_String (uint a))\<rparr>"

lemma sample_meter_ok: "meter_ok sample_meter"
  by (simp add: meter_ok_def sample_meter_def list_prom_def)

lemma sample_metering: "metering sample_meter mem_metered_tx mem_env"
proof -
  have "abi_unsigned sample_abis"
    by (simp add: abi_unsigned_def decodes_unsigned_def sample_abis_def simple_event_def nonneg_def SetBytes_nonneg)
  then show ?thesis using sample_meter_ok mem_metered_tx_ok by (simp add: metering_def)
qed

text \<open>Two ticks of the L1 worker: the second one has no new window.\<close>

theorem metrics_transparent_witness:
  "\<exists>new. m_l1_worker sample_meter mem_metered_tx [(1 / 4, \<lambda>_. mem_env), (2, \<lambda>_. mem_env)]
     ((sample_processor None, events_db [deposit_event] []), [])
   = (fst (l1_worker [\<lambda>_. mem_env, \<lambda>_. mem_env] (sample_processor None, events_db [deposit_event] [])),
      (snd (l1_worker [\<lambda>_. mem_env, \<lambda>_. mem_env] (sample_processor None, events_db [deposit_event] [])), new))"
  using metrics_transparent[of "[(1 / 4, \<lambda>_. mem_env), (2, \<lambda>_. mem_env)]" sample_meter mem_metered_tx
      "(sample_processor None, events_db [deposit_event] [])" "[]"] sample_metering
  by simp


section \<open>What a window adds to a counter\<close>

text \<open>A computation adds to a counter only what a sum over its new calls has.\<close>

definition quiet :: "metric \<Rightarrow> string list \<Rightarrow> ('s metered, 'a) go \<Rightarrow> bool" where
  "quiet m ls f = (\<forall>s calls. \<exists>new. snd (snd (f (s, calls))) = calls @ new \<and> sum_added m ls new = 0)"

lemma quietI_state: "quiet m ls (on_state f)"
  unfolding quiet_def on_state_def by (auto split: prod.splits)

lemma quiet_retG: "quiet m ls (retG a)"
  by (auto simp: quiet_def retG_def)

lemma quiet_bindG:
  assumes "quiet m ls f" "\<And>a. quiet m ls (g a)"
  shows "quiet m ls (bindG f g)"
  unfolding quiet_def
proof (intro allI)
  fix s calls
  obtain new where f: "snd (snd (f (s, calls))) = calls @ new" "sum_added m ls new = 0" using assms(1) unfolding quiet_def by blast
  obtain r t c where r: "f (s, calls) = (r, (t, c))" by (metis surj_pair)
  show "\<exists>new. snd (snd (bindG f g (s, calls))) = calls @ new \<and> sum_added m ls new = 0"
  proof (cases r)
    case (Ok a)
    obtain more where "snd (snd (g a (t, c))) = c @ more" "sum_added m ls more = 0" using assms(2)[of a] unfolding quiet_def by blast
    then show ?thesis using f r Ok by (intro exI[of _ "new @ more"]) (simp add: bindG_def)
  qed (use f r in \<open>auto simp: bindG_def\<close>)
qed

lemma quiet_thenG: "quiet m ls f \<Longrightarrow> quiet m ls g \<Longrightarrow> quiet m ls (thenG f g)"
  unfolding thenG_def by (rule quiet_bindG)

lemma quiet_record:
  assumes "list_all (\<lambda>c. mc_metric c \<noteq> m) cs"
  shows "quiet m ls (record_all M cs)"
  using assms
proof (induction cs)
  case Nil
  then show ?case by (simp add: record_all_def quiet_retG)
next
  case (Cons c cs)
  have "quiet m ls (record_call M c)"
    using Cons.prems unfolding quiet_def record_call_def by (auto simp: added_def split: result.splits)
  then show ?case using Cons by (auto simp: record_all_def intro: quiet_thenG)
qed

lemma quiet_when_any:
  "list_all (\<lambda>c. mc_metric c \<noteq> m) cs \<Longrightarrow> quiet m ls (when_any_record M store rows cs)"
  unfolding when_any_record_def by (auto intro: quiet_thenG quietI_state quiet_record quiet_retG)

text \<open>The counters of the deposits are not those of the messages and the transfers.\<close>

lemma deposit_counters_apart:
  assumes "m \<in> {txDeposits bridge_of, txMintedETH bridge_of}"
  shows "list_all (\<lambda>c. mc_metric c \<noteq> m) (RecordL1CrossDomainSentMessages bridge_of n)"
    "list_all (\<lambda>c. mc_metric c \<noteq> m) (token_calls (RecordL1InitiatedBridgeTransfers f bridge_of) ts)"
  using assms
  by (auto simp: RecordL1CrossDomainSentMessages_def RecordL1InitiatedBridgeTransfers_def add_n_def bridge_of_def Let_def
      metric_of_def BuildFQName_def mk_opts_def token_calls_def list_all_iff)

lemma deposit_counters: "txDeposits bridge_of \<noteq> txMintedETH bridge_of"
  by (simp add: bridge_of_def Let_def metric_of_def BuildFQName_def mk_opts_def)

lemma bindG_on_state:
  "bindG (on_state m) f (s, calls) =
     (case fst (m s) of Ok a \<Rightarrow> f a (snd (m s), calls) | Err e \<Rightarrow> (Err e, (snd (m s), calls)) | Panic p \<Rightarrow> (Panic p, (snd (m s), calls)))"
  by (cases "m s") (auto simp: bindG_def on_state_def split: result.splits)

text \<open>Rows are built and stored, the calls are recorded, and the rest is quiet.\<close>

lemma store_record_rest:
  assumes M: "meter_ok M" and ok: "\<And>rows s0. build s = (Ok rows, s0) \<Longrightarrow> list_all call_ok (cs rows)"
    and run: "bindG (on_state build) (\<lambda>rows. thenG (when_any_record M store rows (cs rows)) (rest rows)) (s, calls) = (r, (t, calls @ new))"
    and quiet: "\<And>k rows. k \<in> K \<Longrightarrow> quiet k [] (rest rows)"
  shows "(\<exists>rows s0. build s = (Ok rows, s0) \<and> (\<forall>k \<in> K. sum_added k [] new = (if rows = [] then 0 else sum_added k [] (cs rows))))
    \<or> (r \<noteq> Ok () \<and> new = [])"
proof (cases "fst (build s)")
  case (Ok rows)
  then obtain s0 where b: "build s = (Ok rows, s0)" by (metis prod.collapse)
  have more: "sum_added k [] more = 0" if "snd (snd (rest rows (u, c))) = c @ more" "k \<in> K" for u c more k
    using quiet[OF that(2), of rows] that(1) unfolding quiet_def by (metis same_append_eq)
  show ?thesis
  proof (cases "rows = []")
    case True
    then have "rest rows (s0, calls) = (r, (t, calls @ new))"
      using run b by (simp add: bindG_on_state when_any_record_def thenG_def) (simp add: bindG_def retG_def)
    then show ?thesis using more[of s0 calls new] b True by auto
  next
    case False
    obtain q s1 where st: "store rows s0 = (q, s1)" by (metis surj_pair)
    show ?thesis
    proof (cases q)
      case (Ok u)
      then have "rest rows (s1, calls @ cs rows) = (r, (t, calls @ new))"
        using run b False st
        by (simp add: bindG_on_state when_any_record_def thenG_def) (simp add: bindG_def on_state_def record_all_apply[OF M ok[OF b]])
      moreover obtain m where "snd (snd (rest rows (s1, calls @ cs rows))) = (calls @ cs rows) @ m"
        if "K \<noteq> {}"
        using quiet[of _ rows] unfolding quiet_def by (metis all_not_in_conv)
      ultimately have "\<forall>k \<in> K. sum_added k [] new = sum_added k [] (cs rows)"
        using more[of s1 "calls @ cs rows"] by (metis append_assoc empty_iff same_append_eq snd_conv sum_added_simps(3) add_0_right)
      then show ?thesis using b False by auto
    next
      case (Err e)
      then show ?thesis using run b False st
        by (simp add: bindG_on_state when_any_record_def thenG_def) (auto simp: bindG_def on_state_def)
    next
      case (Panic e)
      then show ?thesis using run b False st
        by (simp add: bindG_on_state when_any_record_def thenG_def) (auto simp: bindG_def on_state_def)
    qed
  qed
qed (use run in \<open>auto simp: bindG_on_state\<close>)

text \<open>A run of the L1 processor: once the rows are stored both counters have what the deposits of the window add;
  before, nothing.\<close>

lemma l1_window_totals:
  assumes M: "meter_ok M"
    and deps: "OptimismPortalTransactionDepositEvents G A (OptimismPortalProxy c) from to s = Ok deposits"
  shows "\<exists>new. m_L1ProcessInitiatedBridgeEvents M G A uuid c from to (s, calls)
      = (fst (L1ProcessInitiatedBridgeEvents G A uuid c from to s), (snd (L1ProcessInitiatedBridgeEvents G A uuid c from to s), calls @ new))
    \<and> (sum_added (txDeposits bridge_of) [] new = float_of (int (length deposits))
         \<and> sum_added (txMintedETH bridge_of) [] new = minted_float (sum_amounts (dt_EthValue \<circ> pd_DepositTx) deposits)
       \<or> fst (L1ProcessInitiatedBridgeEvents G A uuid c from to s) \<noteq> Ok ()
         \<and> sum_added (txDeposits bridge_of) [] new = 0 \<and> sum_added (txMintedETH bridge_of) [] new = 0)"
proof -
  let ?run = "L1ProcessInitiatedBridgeEvents G A uuid c from to s"
  let ?calls = "RecordL1TransactionDeposits bridge_of (length deposits) (minted_float (sum_amounts (dt_EthValue \<circ> pd_DepositTx) deposits))"
  have m: "mr_metrics M = bridge_of" using M by (simp add: meter_ok_def)
  obtain new where new: "m_L1ProcessInitiatedBridgeEvents M G A uuid c from to (s, calls) = (fst ?run, (snd ?run, calls @ new))"
    using m_L1ProcessInitiatedBridgeEvents_erases[OF M] unfolding erases_def by blast
  let ?rest = "\<lambda>rows. bindG (on_state (readG (CrossDomainMessengerSentMessageEvents G A ''l1'' (L1CrossDomainMessengerProxy c) from to))) (\<lambda>sent.
     thenG (when_any_record M (UpdateMessageHashByTxHash G) (map l1_message_row sent)
       (RecordL1CrossDomainSentMessages bridge_of (length sent))) (
     bindG (on_state (readG (StandardBridgeInitiatedEvents G A ''l1'' (L1StandardBridgeProxy c) from to))) (\<lambda>bridges.
     bindG (on_state (liftR (mapR (l1_bridge_row A (log_map pd_Event deposits) (log_map sme_Event sent)) bridges))) (\<lambda>l1ToL2s2.
     when_any_record M (UpdateL1ToL2InfoByTxHash G) l1ToL2s2
       (token_calls (RecordL1InitiatedBridgeTransfers (mr_address M) bridge_of) (l1_transfer_tokens A bridges))))))"
  have rest: "quiet k [] (?rest rows)" if "k \<in> {txDeposits bridge_of, txMintedETH bridge_of}" for k rows
    by (intro quiet_bindG quiet_thenG quietI_state quiet_when_any deposit_counters_apart that)
  have body: "m_L1ProcessInitiatedBridgeEvents M G A uuid c from to (s, calls)
    = bindG (on_state (build_rows (deposit_row G uuid) deposits)) (\<lambda>rows.
        thenG (when_any_record M (StoreL1ToL2Transactions G) rows
          (RecordL1TransactionDeposits bridge_of (length rows) (minted_float (sum_amounts (dt_EthValue \<circ> pd_DepositTx) deposits))))
          (?rest rows)) (s, calls)"
    unfolding m_L1ProcessInitiatedBridgeEvents_def m by (simp add: bindG_def on_state_def readG_def deps)
  have none: "sum_added k [] ?calls = 0" if "deposits = []" for k
    using that by (simp add: RecordL1TransactionDeposits_def add_n_def added_def float_of_def float64_def sum_amounts_def
        minted_float_def WeiToETH_def round_bits_def)
  have all: "sum_added (txDeposits bridge_of) [] ?calls = float_of (int (length deposits))"
    "sum_added (txMintedETH bridge_of) [] ?calls = minted_float (sum_amounts (dt_EthValue \<circ> pd_DepositTx) deposits)"
    using deposit_counters deposit_counters[symmetric] by (simp_all add: RecordL1TransactionDeposits_def add_n_def added_def)
  have run: "bindG (on_state (build_rows (deposit_row G uuid) deposits)) (\<lambda>rows.
        thenG (when_any_record M (StoreL1ToL2Transactions G) rows
          (RecordL1TransactionDeposits bridge_of (length rows) (minted_float (sum_amounts (dt_EthValue \<circ> pd_DepositTx) deposits))))
          (?rest rows)) (s, calls) = (fst ?run, (snd ?run, calls @ new))"
    using new body by simp
  from store_record_rest[OF M _ run rest]
  have "(\<exists>rows s0. build_rows (deposit_row G uuid) deposits s = (Ok rows, s0) \<and>
       (\<forall>k \<in> {txDeposits bridge_of, txMintedETH bridge_of}. sum_added k [] new = (if rows = [] then 0 else sum_added k [] ?calls)))
      \<or> (fst ?run \<noteq> Ok () \<and> new = [])"
    using bridge_calls_ok(11)[OF minted_calls[OF deposits_nonneg[OF deps]]] build_rows_Ok by (smt (verit, best))
  then have "(\<forall>k \<in> {txDeposits bridge_of, txMintedETH bridge_of}. sum_added k [] new = sum_added k [] ?calls)
      \<or> (fst ?run \<noteq> Ok () \<and> new = [])"
  proof (elim disj_forward exE conjE)
    fix rows s0
    assume b: "build_rows (deposit_row G uuid) deposits s = (Ok rows, s0)"
      and k: "\<forall>k \<in> {txDeposits bridge_of, txMintedETH bridge_of}. sum_added k [] new = (if rows = [] then 0 else sum_added k [] ?calls)"
    have "deposits = []" if "rows = []" using build_rows_Ok[OF b] that by simp
    then show "\<forall>k \<in> {txDeposits bridge_of, txMintedETH bridge_of}. sum_added k [] new = sum_added k [] ?calls"
      using k none by auto
  qed auto
  then show ?thesis using new all by auto
qed

text \<open>C13: the two counters of the deposits follow the table of the deposits.  Through the transaction of a window of
  L1 blocks, when it succeeds, the counter tx_deposits grows by the number of the rows stored (as a float64) and
  tx_minted_eth by the ETH of their deposits, summed in wei and converted once; when it fails
  the tables are as before, and either nothing was added or what the window has was: counters are not rolled back,
  and the window is counted again when it is tried again.\<close>

theorem deposits_metric:
  assumes "meter_ok M" "gorms_ok G" "metered_tx_ok T G"
    and "OptimismPortalTransactionDepositEvents G A (OptimismPortalProxy c) from to s = Ok deposits"
    and "distinct (map l12_GUID (l1_to_l2 s) @ map uuid [0..<length deposits])"
    and "T (m_L1ProcessInitiatedBridgeEvents M G A uuid c from to) (s, calls) = (res, (s', calls'))"
  shows "\<exists>new. calls' = calls @ new \<and>
     (let deposited = sum_added (txDeposits bridge_of) [] new; minted = sum_added (txMintedETH bridge_of) [] new;
          window = (float_of (int (length deposits)), minted_float (sum_amounts (dt_EthValue \<circ> pd_DepositTx) deposits)) in
      (res = Ok () \<longrightarrow> length (l1_to_l2 s') = length (l1_to_l2 s) + length deposits \<and> (deposited, minted) = window) \<and>
      (res \<noteq> Ok () \<longrightarrow> s' = s \<and> (deposited, minted) \<in> {(0, 0), window}))"
proof -
  let ?f' = "m_L1ProcessInitiatedBridgeEvents M G A uuid c from to"
  let ?f = "L1ProcessInitiatedBridgeEvents G A uuid c from to"
  have tx: "transaction_ok (G_tx G)" using gorms_okD(15)[OF assms(2)] .
  obtain new where new: "?f' (s, calls) = (fst (?f s), (snd (?f s), calls @ new))"
    and tot: "sum_added (txDeposits bridge_of) [] new = float_of (int (length deposits))
         \<and> sum_added (txMintedETH bridge_of) [] new = minted_float (sum_amounts (dt_EthValue \<circ> pd_DepositTx) deposits)
       \<or> fst (?f s) \<noteq> Ok () \<and> sum_added (txDeposits bridge_of) [] new = 0 \<and> sum_added (txMintedETH bridge_of) [] new = 0"
    using l1_window_totals[OF assms(1,4)] by blast
  have T: "res = fst (G_tx G ?f s)" "s' = snd (G_tx G ?f s)" "calls' = calls @ new \<or> calls' = calls \<and> res \<noteq> Ok ()"
    using assms(3)[unfolded metered_tx_ok_def Let_def, rule_format, OF m_L1ProcessInitiatedBridgeEvents_erases[OF assms(1)],
        of G A uuid c "from" to s calls] assms(6) new by auto
  show ?thesis
  proof (cases "res = Ok ()")
    case True
    then have "G_tx G ?f s = (Ok (), s')" using T by (simp add: prod_eq_iff)
    from transaction_Ok[OF tx this] have run: "?f s = (Ok (), s')" .
    from l1_initiated_rows[OF assms(2) run assms(4,5)]
    obtain rows t where t: "s' = s\<lparr>l1_to_l2 := t\<rparr>" "length rows = length deposits"
      "map (\<lambda>r. (l12_GUID r, deposit_core r)) t = map (\<lambda>r. (l12_GUID r, deposit_core r)) (l1_to_l2 s @ rows)" by blast
    have len: "length (l1_to_l2 s') = length (l1_to_l2 s) + length deposits"
      using arg_cong[OF t(3), of length] t(1,2) by simp
    have "calls' = calls @ new" using T(3) True by blast
    then show ?thesis using True tot run len by (intro exI[of _ new]) (simp add: Let_def)
  next
    case False
    then have "s' = s" using transaction_not_Ok[OF tx, of ?f s res s'] T by (simp add: prod_eq_iff)
    consider "calls' = calls @ new" | "calls' = calls" using T(3) by blast
    then show ?thesis
    proof cases
      case 1
      then show ?thesis using \<open>s' = s\<close> False tot by (intro exI[of _ new]) (auto simp: Let_def)
    next
      case 2
      then show ?thesis using \<open>s' = s\<close> False by (intro exI[of _ "[]"]) (simp add: Let_def)
    qed
  qed
qed

theorem deposits_metric_witness:
  "sum_added (txDeposits bridge_of) [] (snd (snd (mem_metered_tx
     (m_L1ProcessInitiatedBridgeEvents sample_meter mem_gorms sample_abis of_nat sample_contracts (Some 1) (Some 1))
     (events_db [deposit_event] [], [])))) = 1"
proof -
  let ?f' = "m_L1ProcessInitiatedBridgeEvents sample_meter mem_gorms sample_abis of_nat sample_contracts (Some 1) (Some 1)"
  let ?f = "L1ProcessInitiatedBridgeEvents mem_gorms sample_abis of_nat sample_contracts (Some 1) (Some 1)"
  let ?s = "events_db [deposit_event] []"
  obtain t where t: "?f ?s = (Ok (), t)" using sample_deposit_run by (metis prod.collapse)
  obtain new where "mem_metered_tx ?f' (?s, []) = (fst (G_tx mem_gorms ?f ?s), (snd (G_tx mem_gorms ?f ?s), [] @ new))"
    using metered_tx_apply[OF mem_metered_tx_ok m_L1ProcessInitiatedBridgeEvents_erases[OF sample_meter_ok]] by blast
  then have run: "mem_metered_tx ?f' (?s, []) = (Ok (), (t, new))" using t by (simp add: mem_transaction_def)
  have d: "distinct (map l12_GUID (l1_to_l2 ?s) @ map of_nat [0..<length [sample_deposit]])"
    by (simp add: events_db_def empty_db_def)
  from deposits_metric[OF sample_meter_ok mem_gorms_ok mem_metered_tx_ok sample_deposit_read_portal d run]
  have "sum_added (txDeposits bridge_of) [] new = float_of 1" by (auto simp: Let_def)
  then show ?thesis by (simp add: run float_of_def float64_def)
qed

end
