(* ===== verification/ServiceMetrics.thy ===== *)
theory ServiceMetrics
  imports ProcessorMetrics Service
begin

text \<open>
  The registry of the service (lithosphere.go): the parts of its construction, each with the metrics it registers
  first, on the service of the theory Service beside the registry.
\<close>

section \<open>The registry of the service\<close>

text \<open>lithosphere.go, the parts of initFromConfig that register metrics before they make something.  The service
  is the model's of the theory Service beside the registry; the constructors are its own.\<close>

definition register :: "('r, 'm) go \<Rightarrow> (('s \<times> 'r) \<times> db, unit) go \<Rightarrow> (('s \<times> 'r) \<times> db, unit) go" where
  "register new k = (\<lambda>((s, r), d).
     (case new r of
        (Ok m, r') \<Rightarrow> k ((s, r'), d)
      | (Err e, r') \<Rightarrow> (Err e, ((s, r'), d))
      | (Panic p, r') \<Rightarrow> (Panic p, ((s, r'), d))))"

abbreviation "put_in f \<equiv> (\<lambda>a. apfst (f a))"

definition initRPCClients :: "'r prom \<Rightarrow> init_env \<Rightarrow> (EthClient \<Rightarrow> EthClient \<Rightarrow> ((Lithosphere \<times> 'r) \<times> db, unit) go)
    \<Rightarrow> ((Lithosphere \<times> 'r) \<times> db, unit) go" where
  "initRPCClients P I k =
     register (NewNodeMetrics P ''l1'') (
     init_part ''failed to start RPC clients'' (\<lambda>_. mapErr (Wrap ''failed to dial L1 client'') (in_dialL1 I))
       (put_in (\<lambda>_ s. s\<lparr>li_l1Client := Some True\<rparr>)) (\<lambda>l1Client.
     register (NewNodeMetrics P ''l2'') (
     init_part ''failed to start RPC clients'' (\<lambda>_. mapErr (Wrap ''failed to dial L2 client'') (in_dialL2 I))
       (put_in (\<lambda>_ s. s\<lparr>li_l2Client := Some True\<rparr>)) (\<lambda>l2Client.
     k l1Client l2Client))))"

definition initDB :: "init_env \<Rightarrow> AppConfig \<Rightarrow> (gorms \<Rightarrow> ((Lithosphere \<times> 'r) \<times> db, unit) go) \<Rightarrow> ((Lithosphere \<times> 'r) \<times> db, unit) go" where
  "initDB I cfg = init_part ''failed to init DB'' (\<lambda>_. mapErr (Wrap ''failed to connect to database'') (in_DB I (cf_MasterDB cfg)))
     (put_in (\<lambda>_ s. s\<lparr>li_DB := Some True\<rparr>))"

definition initL1Syncer :: "'r prom \<Rightarrow> AppConfig \<Rightarrow> gorms \<Rightarrow> EthClient \<Rightarrow> ((Lithosphere \<times> 'r) \<times> db, unit) go
    \<Rightarrow> ((Lithosphere \<times> 'r) \<times> db, unit) go" where
  "initL1Syncer P cfg G l1Client k =
     register (etl_NewMetrics P ''l1'') (
     init_part ''failed to init L1 Sync''
       (NewL1Sync G (l1_sync_config (cf_Chain cfg)) l1Client (cc_L1Contracts (cf_Chain cfg))
          (xc_TransferBigValueAddressInEthereum (cf_ExporterConfig cfg)))
       (put_in (\<lambda>c s. s\<lparr>li_L1Sync := Some c\<rparr>)) (\<lambda>_. k))"

definition initL2ETL :: "'r prom \<Rightarrow> AppConfig \<Rightarrow> gorms \<Rightarrow> EthClient \<Rightarrow> ((Lithosphere \<times> 'r) \<times> db, unit) go
    \<Rightarrow> ((Lithosphere \<times> 'r) \<times> db, unit) go" where
  "initL2ETL P cfg G l2Client k =
     register (etl_NewMetrics P ''l2'') (
     init_part ''failed to init L2 Sync''
       (NewL2Sync G (l2_sync_config (cf_Chain cfg)) l2Client (cc_L2Contracts (cf_Chain cfg))
          (xc_TransferBigValueAddressInMantle (cf_ExporterConfig cfg)))
       (put_in (\<lambda>c s. s\<lparr>li_L2Sync := Some c\<rparr>)) (\<lambda>_. k))"

definition initBridgeProcessor :: "'r prom \<Rightarrow> AppConfig \<Rightarrow> gorms \<Rightarrow> ((Lithosphere \<times> 'r) \<times> db, unit) go
    \<Rightarrow> ((Lithosphere \<times> 'r) \<times> db, unit) go" where
  "initBridgeProcessor P cfg G k =
     register (bridge_NewMetrics P) (
     init_part ''failed to init Bridge Processor'' (NewBridgeProcessor G (cf_Chain cfg))
       (put_in (\<lambda>p s. s\<lparr>li_BridgeProcessor := Some (p, [])\<rparr>)) (\<lambda>_. k))"

definition initBusinessProcessor :: "init_env \<Rightarrow> AppConfig \<Rightarrow> ((Lithosphere \<times> 'r) \<times> db, unit) go
    \<Rightarrow> ((Lithosphere \<times> 'r) \<times> db, unit) go" where
  "initBusinessProcessor I cfg k =
     init_part ''failed to init Business Processor'' (\<lambda>_. in_mantleDA I)
       (put_in (\<lambda>_ s. s\<lparr>li_BusinessProcessor := Some (NewBusinessProcessor (cf_FraudProofWindows cfg) (cf_StartDataStoreId cfg)
          (L1AccountCheckingAddress (cf_CheckingAddress cfg)) (L2AccountCheckingAddress (cf_CheckingAddress cfg))
          (cc_L1Contracts (cf_Chain cfg)) (cf_TokenListUrl cfg), [])\<rparr>)) (\<lambda>_. k)"

definition startHttpServer :: "init_env \<Rightarrow> ((Lithosphere \<times> 'r) \<times> db, unit) go \<Rightarrow> ((Lithosphere \<times> 'r) \<times> db, unit) go" where
  "startHttpServer I k =
     init_part ''failed to start HTTP server'' (\<lambda>_. mapErr (Wrap ''http server failed to start'') (in_httpServer I))
       (put_in (\<lambda>_ s. s\<lparr>li_apiServer := Some True\<rparr>)) (\<lambda>_. k)"

definition startMetricsServer :: "init_env \<Rightarrow> ((Lithosphere \<times> 'r) \<times> db, unit) go \<Rightarrow> ((Lithosphere \<times> 'r) \<times> db, unit) go" where
  "startMetricsServer I k =
     init_part ''failed to start Metrics server'' (\<lambda>_. mapErr (Wrap ''metrics server failed to start'') (in_metricsServer I))
       (put_in (\<lambda>_ s. s\<lparr>li_metricsServer := Some True\<rparr>)) (\<lambda>_. k)"

definition service_init :: "'r prom \<Rightarrow> init_env \<Rightarrow> AppConfig \<Rightarrow> ((Lithosphere \<times> 'r) \<times> db, unit) go" where
  "service_init P I cfg =
     initRPCClients P I (\<lambda>l1Client l2Client.
     initDB I cfg (\<lambda>G.
     initL1Syncer P cfg G l1Client (
     initL2ETL P cfg G l2Client (
     initBridgeProcessor P cfg G (
     initBusinessProcessor I cfg (
     startHttpServer I (
     startMetricsServer I (
     if cf_WithdrawCalcEnable cfg
     then (\<lambda>((s, r), d). let (res, d') = initV1Withdraw G (in_X I) (cf_Chain cfg) d in
             (mapErr (Wrap ''fialed to init v1 withdraw'') res, ((s, r), d')))
     else retG ()))))))))"

section \<open>The registration does not show\<close>

text \<open>\<open>k'\<close> does what \<open>k\<close> does and moreover takes the registry from the names N through some of ns, through all of
  them when it ends without an error.\<close>

definition sim :: "('r \<Rightarrow> string set) \<Rightarrow> (('s \<times> 'r) \<times> db, unit) go \<Rightarrow> ('s \<times> db, unit) go \<Rightarrow> string list \<Rightarrow> string set \<Rightarrow> bool" where
  "sim names k' k ns N =
     (\<forall>s d r. names r = N \<longrightarrow> (let (res, (s', d')) = k (s, d) in
        \<exists>r'. k' ((s, r), d) = (res, ((s', r'), d')) \<and> N \<subseteq> names r' \<and> names r' \<subseteq> N \<union> set ns \<and>
          (res = Ok () \<longrightarrow> names r' = N \<union> set ns)))"

lemma sim_part:
  assumes "\<And>a. sim names (k' a) (k a) ns N"
  shows "sim names (init_part msg mk (put_in put) k') (init_part msg mk put k) ns N"
  using assms by (auto simp: sim_def init_part_def split: result.splits prod.splits)

lemma sim_register:
  assumes "registers names new a ms" "distinct ms" "set ms \<inter> N = {}" "sim names k' k ns (N \<union> set ms)"
  shows "sim names (register new k') k (ms @ ns) N"
  unfolding sim_def
proof (intro allI impI)
  fix s d r
  assume r: "names r = N"
  then obtain r1 where r1: "new r = (Ok a, r1)" "names r1 = N \<union> set ms"
    using assms(1-3) unfolding registers_def by (metis Int_commute)
  obtain res s' d' where k: "k (s, d) = (res, (s', d'))" by (metis surj_pair)
  have "let (res, (s', d')) = k (s, d) in \<exists>r'. k' ((s, r1), d) = (res, ((s', r'), d')) \<and> N \<union> set ms \<subseteq> names r'
      \<and> names r' \<subseteq> N \<union> set ms \<union> set ns \<and> (res = Ok () \<longrightarrow> names r' = N \<union> set ms \<union> set ns)"
    using assms(4) r1(2) unfolding sim_def by blast
  then obtain r' where "k' ((s, r1), d) = (res, ((s', r'), d'))" "N \<union> set ms \<subseteq> names r'"
    "names r' \<subseteq> N \<union> set ms \<union> set ns" "res = Ok () \<longrightarrow> names r' = N \<union> set ms \<union> set ns"
    using k by auto
  then show "let (res, (s', d')) = k (s, d) in \<exists>r'. register new k' ((s, r), d) = (res, ((s', r'), d')) \<and> N \<subseteq> names r'
      \<and> names r' \<subseteq> N \<union> set (ms @ ns) \<and> (res = Ok () \<longrightarrow> names r' = N \<union> set (ms @ ns))"
    using k r1(1) by (auto simp: register_def)
qed

lemma sim_end:
  "sim names (if b then (\<lambda>((s, r), d). let (res, d') = f d in (mapErr g res, ((s, r), d'))) else retG ())
     (if b then (\<lambda>(s, d). let (res, d') = f d in (mapErr g res, (s, d'))) else retG ()) [] N"
  by (auto simp: sim_def retG_def split: prod.splits)

definition service_names :: "string list" where
  "service_names = node_names ''l1'' @ node_names ''l2'' @ etl_names ''l1'' @ etl_names ''l2'' @ bridge_names @ []"

lemma service_names_distinct: "distinct service_names"
  by code_simp

lemma valid_subsystems: "valid_name ''l1''" "valid_name ''l2''"
  by (simp_all add: name_defs)

text \<open>Five constructors of distinct names, over a registry that has none of them.\<close>

lemma disjoint_groups:
  assumes "distinct (a @ b @ c @ d @ e)" "set (a @ b @ c @ d @ e) \<inter> N = {}"
  shows "distinct a" "distinct b" "distinct c" "distinct d" "distinct e" "set a \<inter> N = {}" "set b \<inter> (N \<union> set a) = {}"
    "set c \<inter> (N \<union> set a \<union> set b) = {}" "set d \<inter> (N \<union> set a \<union> set b \<union> set c) = {}"
    "set e \<inter> (N \<union> set a \<union> set b \<union> set c \<union> set d) = {}"
  using assms by auto

lemma service_sim:
  assumes "prom_documented names P" "set service_names \<inter> N = {}"
  shows "sim names (service_init P I cfg) (initFromConfig I cfg) service_names N"
proof -
  have "distinct (node_names ''l1'' @ node_names ''l2'' @ etl_names ''l1'' @ etl_names ''l2'' @ bridge_names)"
    "set (node_names ''l1'' @ node_names ''l2'' @ etl_names ''l1'' @ etl_names ''l2'' @ bridge_names) \<inter> N = {}"
    using service_names_distinct assms(2) by (simp_all only: service_names_def append_Nil2)
  note g = disjoint_groups[OF this]
  note l1 = valid_subsystems(1) and l2 = valid_subsystems(2)
  note node = sim_register[OF node_registers[OF assms(1)]] and etl = sim_register[OF etl_registers[OF assms(1)]]
  show ?thesis
    unfolding service_init_def initFromConfig_def service_names_def initRPCClients_def initDB_def initL1Syncer_def
      initL2ETL_def initBridgeProcessor_def initBusinessProcessor_def startHttpServer_def startMetricsServer_def Let_def
    by (rule node[OF l1 g(1) g(6)] sim_part node[OF l2 g(2) g(7)] etl[OF l1 g(3) g(8)] etl[OF l2 g(4) g(9)]
        sim_register[OF bridge_registers[OF assms(1)] g(5) g(10)] sim_end[unfolded Let_def])+
qed


lemma registers_taken:
  assumes "prom_documented names P" "BuildFQName opts \<in> names (dc_registry d)"
  shows "\<exists>p d'. fst (NewCounterVec P opts ls d) = Panic p"
proof -
  obtain p where "pm_register P CounterKind opts ls (dc_registry d) = (Panic p, dc_registry d)"
    using assms unfolding prom_documented_def by blast
  then show ?thesis by (simp add: NewCounterVec_def documented_def thenG_putG on_registry_def)
qed

lemma node_taken:
  assumes "prom_documented names P" "set (node_names sub) \<subseteq> names r"
  shows "\<exists>p. fst (NewNodeMetrics P sub r) = Panic p"
proof -
  have "BuildFQName (mk_opts NodeMetricsNamespace sub ''requests_total'') \<in> names r"
    using assms(2) by (simp add: node_names_def)
  then obtain p d' where "NewCounterVec P (mk_opts NodeMetricsNamespace sub ''requests_total'') [''method''] (With r) = (Panic p, d')"
    using registers_taken[OF assms(1), of "mk_opts NodeMetricsNamespace sub ''requests_total''" "With r"]
    by (metis With_def documentor.select_convs(2) prod.collapse)
  then show ?thesis by (simp add: NewNodeMetrics_def with_factory_def Let_def bindG_Panic)
qed

text \<open>C22: over a registry that has none of their names, the construction of the service with its metrics does what it
  does without them: no registration panics, because no two of its 40 metrics have the same name; when it succeeds
  the registry has exactly their names besides its own.  A second service over that registry panics before it dials.\<close>

theorem service_metrics_registered:
  assumes "prom_documented names P" "set service_names \<inter> names r = {}"
    and "initFromConfig I cfg (no_parts, d) = (res, (s, d'))"
  shows "\<exists>r'. service_init P I cfg ((no_parts, r), d) = (res, ((s, r'), d')) \<and>
     (res = Ok () \<longrightarrow> names r' = names r \<union> set service_names \<and> card (set service_names) = 40 \<and>
        (\<forall>I' cfg' t e. \<exists>p r''. service_init P I' cfg' ((t, r'), e) = (Panic p, ((t, r''), e))))"
proof -
  have "sim names (service_init P I cfg) (initFromConfig I cfg) service_names (names r)"
    by (rule service_sim[OF assms(1,2)])
  from this[unfolded sim_def, rule_format, of r no_parts d] assms(3)
  obtain r' where r': "service_init P I cfg ((no_parts, r), d) = (res, ((s, r'), d'))"
    "res = Ok () \<longrightarrow> names r' = names r \<union> set service_names" by auto
  have c: "card (set service_names) = 40"
    using distinct_card[OF service_names_distinct]
    by (simp add: service_names_def node_names_def etl_names_def bridge_names_def)
  have "\<exists>p r''. service_init P I' cfg' ((t, r'), e) = (Panic p, ((t, r''), e))" if "res = Ok ()" for I' cfg' t e
  proof -
    have "set (node_names ''l1'') \<subseteq> names r'" using that r'(2) by (auto simp: service_names_def)
    then obtain p r'' where "NewNodeMetrics P ''l1'' r' = (Panic p, r'')" using node_taken[OF assms(1)] by (metis prod.collapse)
    then show ?thesis by (simp add: service_init_def initRPCClients_def register_def)
  qed
  then show ?thesis using r' c by blast
qed

theorem service_metrics_registered_witness:
  "\<exists>s r'. service_init list_prom (sample_init (Ok ())) sample_service ((no_parts, [''go_goroutines'']), empty_db)
     = (Ok (), ((s, r'), empty_db)) \<and> set r' = insert ''go_goroutines'' (set service_names)"
proof -
  obtain s where "initFromConfig (sample_init (Ok ())) sample_service (no_parts, empty_db) = (Ok (), (s, empty_db))"
    using sample_made[of "Ok ()"] by auto
  moreover have "set service_names \<inter> set [''go_goroutines''] = {}" by code_simp
  ultimately show ?thesis
    using service_metrics_registered[OF list_prom_documented, of "[''go_goroutines'']" "sample_init (Ok ())" sample_service empty_db]
    by auto
qed

end
