(* ===== verification/WebServer.thy ===== *)
theory WebServer
  imports Api ProcessorMetrics
begin


text \<open>
  The web server around the handlers: what they write to the connection, the wrapped writer that remembers it, the
  middlewares that record and log it (api/common/httputil, metrics/http.go, common/log/http.go,
  api/routes/common.go), and the server's construction and end.  net/http's writer is the interface
  \<open>response_writer\<close>, with what its documentation promises; the wrapped writer keeps that promise over any other.
  The router and the middlewares of the chi library are a parameter.
\<close>

section \<open>Writing a response\<close>

text \<open>An http.ResponseWriter over connections of any kind, and what a handler does with one: the answer to a Write
  decides how it goes on.\<close>

record 'w writer_ops =
  rw_SetHeader :: "string \<Rightarrow> string \<Rightarrow> 'w \<Rightarrow> 'w"
  rw_WriteHeader :: "int \<Rightarrow> ('w, unit) go"
  rw_Write :: "bytes \<Rightarrow> ('w, nat \<times> error option) go"

datatype http_act =
    Served
  | Panics string
  | SetHeader string string http_act
  | WriteHeader int http_act
  | WriteBytes bytes "nat \<times> error option \<Rightarrow> http_act"

primrec run_act :: "http_act \<Rightarrow> 'w writer_ops \<Rightarrow> ('w, unit) go" where
  "run_act Served W = retG ()"
| "run_act (Panics p) W = liftR (Panic p)"
| "run_act (SetHeader k v a) W = (\<lambda>w. run_act a W (rw_SetHeader W k v w))"
| "run_act (WriteHeader c a) W = thenG (rw_WriteHeader W c) (run_act a W)"
| "run_act (WriteBytes bs f) W = bindG (rw_Write W bs) (\<lambda>r. run_act (f r) W)"

text \<open>http.Error of the standard library, and what follows it.\<close>

definition http_Error :: "string \<Rightarrow> int \<Rightarrow> http_act" where
  "http_Error message code =
     SetHeader ''Content-Type'' ''text/plain; charset=utf-8''
       (SetHeader ''X-Content-Type-Options'' ''nosniff''
         (WriteHeader code (WriteBytes (string_bytes (message @ [CHR 0x0A])) (\<lambda>_. Served))))"

definition InternalServerError :: string where "InternalServerError = ''Internal server error''"

text \<open>jsonResponse; the encoder's answer for the value is given.\<close>

definition jsonResponse :: "bytes result \<Rightarrow> int \<Rightarrow> http_act" where
  "jsonResponse jsonData statusCode =
     SetHeader ''Content-Type'' ''application/json''
       (case jsonData of
          Err e \<Rightarrow> http_Error InternalServerError 500
        | Panic p \<Rightarrow> Panics p
        | Ok bs \<Rightarrow> WriteHeader statusCode (WriteBytes bs (\<lambda>(n, err).
            if err \<noteq> None then http_Error InternalServerError 500 else Served)))"

section \<open>The wrapped writer\<close>

record 'w WrappedResponseWriter =
  StatusCode :: int
  ResponseLen :: nat
  ww_w :: 'w
  wroteHeader :: bool

definition NewWrappedResponseWriter :: "'w \<Rightarrow> 'w WrappedResponseWriter" where
  "NewWrappedResponseWriter w = \<lparr>StatusCode = 200, ResponseLen = 0, ww_w = w, wroteHeader = False\<rparr>"

definition wrapped_WriteHeader :: "'w writer_ops \<Rightarrow> int \<Rightarrow> ('w WrappedResponseWriter, unit) go" where
  "wrapped_WriteHeader W statusCode = (\<lambda>ww.
     if wroteHeader ww then (Ok (), ww)
     else (let (r, w') = rw_WriteHeader W statusCode (ww_w ww) in
       (r, ww\<lparr>wroteHeader := True, StatusCode := statusCode, ww_w := w'\<rparr>)))"

definition wrapped_Write :: "'w writer_ops \<Rightarrow> bytes \<Rightarrow> ('w WrappedResponseWriter, nat \<times> error option) go" where
  "wrapped_Write W bs = (\<lambda>ww.
     (case rw_Write W bs (ww_w ww) of
        (Ok (n, err), w') \<Rightarrow> (Ok (n, err), ww\<lparr>ww_w := w', ResponseLen := ResponseLen ww + n\<rparr>)
      | (Err e, w') \<Rightarrow> (Err e, ww\<lparr>ww_w := w'\<rparr>)
      | (Panic p, w') \<Rightarrow> (Panic p, ww\<lparr>ww_w := w'\<rparr>)))"

definition wrapped :: "'w writer_ops \<Rightarrow> 'w WrappedResponseWriter writer_ops" where
  "wrapped W =
     \<lparr>rw_SetHeader = (\<lambda>k v ww. ww\<lparr>ww_w := rw_SetHeader W k v (ww_w ww)\<rparr>),
      rw_WriteHeader = wrapped_WriteHeader W, rw_Write = wrapped_Write W\<rparr>"

section \<open>The middlewares\<close>

text \<open>NewHTTPRecordingMiddleware, around what the rest of the chain does with the request.  After a panic of the
  rest nothing more is recorded.\<close>

definition NewHTTPRecordingMiddleware :: "meter \<Rightarrow> HTTPRecorder \<Rightarrow> 'w writer_ops \<Rightarrow> string \<Rightarrow> int \<Rightarrow> http_act \<Rightarrow> ('w metered, unit) go" where
  "NewHTTPRecordingMiddleware M rec W meth dur next =
     (let params = (\<lambda>code. \<lparr>hp_Method = meth, hp_StatusCode = code\<rparr>) in
      thenG (record_all M (RecordInflightRequest rec (params 0) 1 @ RecordHTTPRequest rec (params 0)))
        (\<lambda>(w, calls).
           (case run_act next (wrapped W) (NewWrappedResponseWriter w) of
              (Panic p, ww) \<Rightarrow> (Panic p, (ww_w ww, calls))
            | (r, ww) \<Rightarrow>
                record_all M (RecordHTTPResponse rec (params (StatusCode ww)) @
                    RecordHTTPResponseSize rec (params (StatusCode ww)) (ResponseLen ww) @
                    RecordHTTPRequestDuration rec (params (StatusCode ww)) dur @
                    RecordInflightRequest rec (params (StatusCode ww)) (- 1)) (ww_w ww, calls))))"

text \<open>NewLoggingMiddleware writes one line for a request that does not panic.\<close>

record http_log_line =
  hll_status :: int
  hll_response_len :: nat
  hll_path :: string
  hll_duration :: int
  hll_remote_addr :: string

definition NewLoggingMiddleware :: "'w writer_ops \<Rightarrow> string \<Rightarrow> int \<Rightarrow> string \<Rightarrow> http_act \<Rightarrow> ('w \<times> http_log_line list, unit) go" where
  "NewLoggingMiddleware W path dur addr next = (\<lambda>(w, lines).
     (case run_act next (wrapped W) (NewWrappedResponseWriter w) of
        (Panic p, ww) \<Rightarrow> (Panic p, (ww_w ww, lines))
      | (r, ww) \<Rightarrow> (Ok (), (ww_w ww, lines @ [\<lparr>hll_status = StatusCode ww, hll_response_len = ResponseLen ww,
           hll_path = path, hll_duration = dur, hll_remote_addr = addr\<rparr>]))))"

section \<open>The answers of the API on the connection\<close>

text \<open>The text of an answer with status 500, by the handler.\<close>

fun error_text :: "request \<Rightarrow> string" where
  "error_text (WithdrawalsReq a p z d) = ''Internal server error reading l2tol1 list''"
| "error_text (DataStoreListReq p z d) = ''Internal server error reading data store list''"
| "error_text (DataStoreByIdReq i) = ''Internal server error reading data store by id''"
| "error_text (DataStoreTxByIdReq i) = ''Internal server error reading data store block by id''"
| "error_text (StateRootListReq p z d) = ''Internal server error reading state root list''"
| "error_text (StateRootByIndexReq i) = ''Internal server error reading state root list''"
| "error_text (DepositsReq a p z d) = []"

text \<open>A handler panics, if it does, before it writes.\<close>

fun respond :: "(any_value \<Rightarrow> bytes result) \<Rightarrow> request \<Rightarrow> reply \<Rightarrow> http_act" where
  "respond json q (Replied v) = jsonResponse (json v) 200"
| "respond json q BadRequest = http_Error ''invalid query params'' 400"
| "respond json q ServerError = http_Error (error_text q) 500"
| "respond json q Recovered = Panics ''handler''"

text \<open>The chain of API.initRouter: the recorder, and inside it chi with its timeout, its recoverer, its heartbeat and
  the handler of the path.\<close>

definition serve_http :: "meter \<Rightarrow> PromHTTPRecorder \<Rightarrow> (http_act \<Rightarrow> http_act) \<Rightarrow> (any_value \<Rightarrow> bytes result) \<Rightarrow> Routes \<Rightarrow> 'w writer_ops
    \<Rightarrow> string \<Rightarrow> int \<Rightarrow> request \<Rightarrow> db \<Rightarrow> LruCache \<Rightarrow> 'w metered \<Rightarrow> unit result \<times> 'w metered \<times> LruCache" where
  "serve_http M m chi json h W meth dur q s lc st =
     (let (r, lc') = route h q s lc;
          (res, st') = NewHTTPRecordingMiddleware M (prom_recorder m) W meth dur (chi (respond json q r)) st in
      (res, st', lc'))"


section \<open>What a writer promises\<close>

locale response_writer =
  fixes W :: "'w writer_ops" and valid :: "'w \<Rightarrow> bool" and status :: "'w \<Rightarrow> int option" and sent :: "'w \<Rightarrow> nat"
  assumes header_set: "valid w \<Longrightarrow> valid (rw_SetHeader W k v w) \<and> status (rw_SetHeader W k v w) = status w
      \<and> sent (rw_SetHeader W k v w) = sent w"
    and header_written: "valid w \<Longrightarrow> 200 \<le> c \<Longrightarrow> c \<le> 599 \<Longrightarrow> \<exists>w'. rw_WriteHeader W c w = (Ok (), w') \<and> valid w'
      \<and> status w' = Some (case status w of None \<Rightarrow> c | Some d \<Rightarrow> d) \<and> sent w' = sent w"
    and body_written: "valid w \<Longrightarrow> \<exists>n err w'. rw_Write W bs w = (Ok (n, err), w') \<and> n \<le> length bs \<and> valid w'
      \<and> status w' = Some (case status w of None \<Rightarrow> 200 | Some d \<Rightarrow> d) \<and> sent w' = sent w + n"

text \<open>How far a response is: nothing is written, the header is, or the body has begun without one.\<close>

datatype phase = Fresh | Headed | Implicit

text \<open>A handler that does not panic, sends final statuses only, and does not write a header after the body has begun
  without one.\<close>

primrec orderly :: "http_act \<Rightarrow> phase \<Rightarrow> bool" where
  "orderly Served ph = True"
| "orderly (Panics p) ph = False"
| "orderly (SetHeader k v a) ph = orderly a ph"
| "orderly (WriteHeader c a) ph = (200 \<le> c \<and> c \<le> 599 \<and> ph \<noteq> Implicit \<and> orderly a Headed)"
| "orderly (WriteBytes bs f) ph = (\<forall>r. orderly (f r) (if ph = Fresh then Implicit else ph))"

text \<open>The status a handler sends first.\<close>

primrec first_code :: "http_act \<Rightarrow> int option" where
  "first_code Served = None"
| "first_code (Panics p) = None"
| "first_code (SetHeader k v a) = first_code a"
| "first_code (WriteHeader c a) = Some c"
| "first_code (WriteBytes bs f) = Some 200"

context response_writer
begin

text \<open>The status the client gets: net/http sends 200 for a handler that has written nothing.\<close>

definition final_status :: "'w \<Rightarrow> int" where
  "final_status w = (case status w of None \<Rightarrow> 200 | Some c \<Rightarrow> c)"

fun in_phase :: "phase \<Rightarrow> 'w WrappedResponseWriter \<Rightarrow> bool" where
  "in_phase Fresh ww = (valid (ww_w ww) \<and> \<not> wroteHeader ww \<and> StatusCode ww = 200 \<and> status (ww_w ww) = None)"
| "in_phase Headed ww = (valid (ww_w ww) \<and> wroteHeader ww \<and> status (ww_w ww) = Some (StatusCode ww))"
| "in_phase Implicit ww = (valid (ww_w ww) \<and> \<not> wroteHeader ww \<and> StatusCode ww = 200 \<and> status (ww_w ww) = Some 200)"

lemma phase_valid: "in_phase ph ww \<Longrightarrow> valid (ww_w ww)"
  by (cases ph) auto

lemma phase_status: "in_phase ph ww \<Longrightarrow> StatusCode ww = final_status (ww_w ww)"
  by (cases ph) (auto simp: final_status_def)

lemma wrapped_writes:
  assumes "in_phase ph ww"
  shows "\<exists>n err ww'. wrapped_Write W bs ww = (Ok (n, err), ww') \<and> in_phase (if ph = Fresh then Implicit else ph) ww'
    \<and> ResponseLen ww' = ResponseLen ww + n \<and> sent (ww_w ww') = sent (ww_w ww) + n
    \<and> status (ww_w ww') = Some (case status (ww_w ww) of None \<Rightarrow> 200 | Some d \<Rightarrow> d)"
proof -
  obtain n err w' where w: "rw_Write W bs (ww_w ww) = (Ok (n, err), w')" "valid w'" "sent w' = sent (ww_w ww) + n"
    "status w' = Some (case status (ww_w ww) of None \<Rightarrow> 200 | Some d \<Rightarrow> d)" using body_written[OF phase_valid[OF assms]] by blast
  then show ?thesis using assms by (cases ph) (auto simp: wrapped_Write_def)
qed

lemma wrapped_headers:
  assumes "in_phase ph ww" "ph \<noteq> Implicit" "200 \<le> c" "c \<le> 599"
  shows "\<exists>ww'. wrapped_WriteHeader W c ww = (Ok (), ww') \<and> in_phase Headed ww' \<and> ResponseLen ww' = ResponseLen ww
    \<and> sent (ww_w ww') = sent (ww_w ww) \<and> status (ww_w ww') = Some (case status (ww_w ww) of None \<Rightarrow> c | Some d \<Rightarrow> d)"
proof -
  obtain w' where w: "rw_WriteHeader W c (ww_w ww) = (Ok (), w')" "valid w'" "sent w' = sent (ww_w ww)"
    "status w' = Some (case status (ww_w ww) of None \<Rightarrow> c | Some d \<Rightarrow> d)" using header_written[OF phase_valid[OF assms(1)] assms(3,4)] by blast
  then show ?thesis using assms(1,2) by (cases ph) (auto simp: wrapped_WriteHeader_def)
qed

text \<open>An orderly handler on a wrapped writer: the status and the length it remembers are those that were sent.\<close>

lemma orderly_recorded:
  assumes "orderly a ph" "in_phase ph ww"
  shows "\<exists>ww' ph'. run_act a (wrapped W) ww = (Ok (), ww') \<and> in_phase ph' ww'
    \<and> ResponseLen ww' + sent (ww_w ww) = ResponseLen ww + sent (ww_w ww')
    \<and> status (ww_w ww') = (case status (ww_w ww) of None \<Rightarrow> first_code a | s \<Rightarrow> s)"
  using assms
proof (induction a arbitrary: ph ww)
  case (WriteHeader c a)
  from WriteHeader.prems obtain ww1 where w1: "wrapped_WriteHeader W c ww = (Ok (), ww1)" "in_phase Headed ww1"
      "ResponseLen ww1 = ResponseLen ww" "sent (ww_w ww1) = sent (ww_w ww)"
      "status (ww_w ww1) = Some (case status (ww_w ww) of None \<Rightarrow> c | Some d \<Rightarrow> d)"
    using wrapped_headers[of ph ww c] by auto
  from WriteHeader.IH[OF _ w1(2)] WriteHeader.prems(1) obtain ww' ph' where
      "run_act a (wrapped W) ww1 = (Ok (), ww')" "in_phase ph' ww'" "ResponseLen ww' + sent (ww_w ww1) = ResponseLen ww1 + sent (ww_w ww')"
      "status (ww_w ww') = (case status (ww_w ww1) of None \<Rightarrow> first_code a | s \<Rightarrow> s)" by auto
  then show ?case using w1 by (auto simp: thenG_def bindG_def wrapped_def split: option.splits)
next
  case (WriteBytes bs f)
  from wrapped_writes[OF WriteBytes.prems(2)] obtain n err ww1 where w1: "wrapped_Write W bs ww = (Ok (n, err), ww1)"
      "in_phase (if ph = Fresh then Implicit else ph) ww1" "ResponseLen ww1 = ResponseLen ww + n" "sent (ww_w ww1) = sent (ww_w ww) + n"
      "status (ww_w ww1) = Some (case status (ww_w ww) of None \<Rightarrow> 200 | Some d \<Rightarrow> d)" by blast
  have "orderly (f (n, err)) (if ph = Fresh then Implicit else ph)" using WriteBytes.prems(1) by simp
  from WriteBytes.IH[OF _ this w1(2)] obtain ww' ph' where
      "run_act (f (n, err)) (wrapped W) ww1 = (Ok (), ww')" "in_phase ph' ww'"
      "ResponseLen ww' + sent (ww_w ww1) = ResponseLen ww1 + sent (ww_w ww')"
      "status (ww_w ww') = (case status (ww_w ww1) of None \<Rightarrow> first_code (f (n, err)) | s \<Rightarrow> s)" by auto
  then show ?case using w1 by (auto simp: bindG_def wrapped_def split: option.splits)
next
  case (SetHeader k v a)
  let ?w1 = "ww\<lparr>ww_w := rw_SetHeader W k v (ww_w ww)\<rparr>"
  note keeps = header_set[OF phase_valid[OF SetHeader.prems(2)], of k v]
  have "in_phase ph ?w1" using SetHeader.prems(2) keeps by (cases ph) simp_all
  from SetHeader.IH[OF _ this] SetHeader.prems(1) show ?case unfolding first_code.simps by (simp add: wrapped_def keeps)
qed (auto simp: retG_def split: option.splits)

text \<open>The wrapped writer is a writer again.\<close>

definition wrapped_valid :: "'w WrappedResponseWriter \<Rightarrow> bool" where
  "wrapped_valid ww = (valid (ww_w ww) \<and> (wroteHeader ww \<longrightarrow> status (ww_w ww) \<noteq> None))"

lemma wrapped_keeps: "response_writer (wrapped W) wrapped_valid (status \<circ> ww_w) (sent \<circ> ww_w)"
proof
  fix c :: int and ww
  assume ww: "wrapped_valid ww" and c: "200 \<le> c" "c \<le> 599"
  then obtain w' where "rw_WriteHeader W c (ww_w ww) = (Ok (), w')" "valid w'"
      "status w' = Some (case status (ww_w ww) of None \<Rightarrow> c | Some d \<Rightarrow> d)" "sent w' = sent (ww_w ww)"
    using header_written[of "ww_w ww" c] by (auto simp: wrapped_valid_def)
  then show "\<exists>w'. rw_WriteHeader (wrapped W) c ww = (Ok (), w') \<and> wrapped_valid w'
      \<and> (status \<circ> ww_w) w' = Some (case (status \<circ> ww_w) ww of None \<Rightarrow> c | Some d \<Rightarrow> d) \<and> (sent \<circ> ww_w) w' = (sent \<circ> ww_w) ww"
    using ww by (auto simp: wrapped_def wrapped_WriteHeader_def wrapped_valid_def)
next
  fix bs and ww
  assume ww: "wrapped_valid ww"
  then obtain n err w' where "rw_Write W bs (ww_w ww) = (Ok (n, err), w')" "n \<le> length bs" "valid w'"
      "status w' = Some (case status (ww_w ww) of None \<Rightarrow> 200 | Some d \<Rightarrow> d)" "sent w' = sent (ww_w ww) + n"
    using body_written[of "ww_w ww" bs] by (auto simp: wrapped_valid_def)
  then show "\<exists>n err w'. rw_Write (wrapped W) bs ww = (Ok (n, err), w') \<and> n \<le> length bs \<and> wrapped_valid w'
      \<and> (status \<circ> ww_w) w' = Some (case (status \<circ> ww_w) ww of None \<Rightarrow> 200 | Some d \<Rightarrow> d) \<and> (sent \<circ> ww_w) w' = (sent \<circ> ww_w) ww + n"
    by (auto simp: wrapped_def wrapped_Write_def wrapped_valid_def)
qed (auto simp: wrapped_def wrapped_valid_def header_set)

end

text \<open>The writer of the server itself ignores a header after the first.\<close>

locale server_writer = response_writer +
  assumes header_again: "valid w \<Longrightarrow> status w = Some d \<Longrightarrow> 200 \<le> c \<Longrightarrow> c \<le> 599 \<Longrightarrow> rw_WriteHeader W c w = (Ok (), w)"
begin

text \<open>Behind the wrapped writer the connection sees what the handler does, and nothing else.\<close>

lemma wrapped_transparent:
  assumes "orderly a ph" "in_phase ph ww"
  shows "run_act a W (ww_w ww) = (Ok (), ww_w (snd (run_act a (wrapped W) ww)))"
  using assms
proof (induction a arbitrary: ph ww)
  case (WriteHeader c a)
  from WriteHeader.prems obtain ww1 where w1: "wrapped_WriteHeader W c ww = (Ok (), ww1)" "in_phase Headed ww1"
    using wrapped_headers[of ph ww c] by auto
  have "rw_WriteHeader W c (ww_w ww) = (Ok (), ww_w ww1)"
  proof (cases "wroteHeader ww")
    case True
    then have "valid (ww_w ww)" "status (ww_w ww) = Some (StatusCode ww)" using WriteHeader.prems(2) by (cases ph; simp)+
    then have "rw_WriteHeader W c (ww_w ww) = (Ok (), ww_w ww)" using header_again WriteHeader.prems(1) by simp
    then show ?thesis using w1(1) True by (simp add: wrapped_WriteHeader_def)
  next
    case False
    then show ?thesis using w1(1) by (auto simp: wrapped_WriteHeader_def Let_def split: prod.splits)
  qed
  moreover have "run_act a W (ww_w ww1) = (Ok (), ww_w (snd (run_act a (wrapped W) ww1)))"
    using WriteHeader.IH[OF _ w1(2)] WriteHeader.prems(1) by simp
  ultimately show ?case using w1(1) by (simp add: thenG_def bindG_def wrapped_def)
next
  case (WriteBytes bs f)
  from wrapped_writes[OF WriteBytes.prems(2)] obtain n err ww1 where w1: "wrapped_Write W bs ww = (Ok (n, err), ww1)"
      "in_phase (if ph = Fresh then Implicit else ph) ww1" by blast
  have "rw_Write W bs (ww_w ww) = (Ok (n, err), ww_w ww1)"
    using w1(1) by (auto simp: wrapped_Write_def split: prod.splits result.splits)
  moreover have "orderly (f (n, err)) (if ph = Fresh then Implicit else ph)" using WriteBytes.prems(1) by simp
  then have "run_act (f (n, err)) W (ww_w ww1) = (Ok (), ww_w (snd (run_act (f (n, err)) (wrapped W) ww1)))"
    by (intro WriteBytes.IH[OF _ _ w1(2)]) simp_all
  ultimately show ?case using w1(1) by (simp add: bindG_def wrapped_def)
next
  case (SetHeader k v a)
  let ?w1 = "ww\<lparr>ww_w := rw_SetHeader W k v (ww_w ww)\<rparr>"
  note keeps = header_set[OF phase_valid[OF SetHeader.prems(2)], of k v]
  have "in_phase ph ?w1" using SetHeader.prems(2) keeps by (cases ph) simp_all
  from SetHeader.IH[OF _ this] SetHeader.prems(1) show ?case by (simp add: wrapped_def)
qed (auto simp: retG_def)

end

text \<open>A connection in memory, which takes only so many bytes; a header set after the status has no effect.\<close>

record connection =
  cn_header :: "(string \<times> string) list"
  cn_status :: "int option"
  cn_body :: bytes
  cn_room :: nat

definition status_line :: "int \<Rightarrow> connection \<Rightarrow> connection" where
  "status_line c w = (case cn_status w of None \<Rightarrow> w\<lparr>cn_status := Some c\<rparr> | Some d \<Rightarrow> w)"

definition mem_writer :: "connection writer_ops" where
  "mem_writer =
     \<lparr>rw_SetHeader = (\<lambda>k v w. if cn_status w = None then w\<lparr>cn_header := (k, v) # filter (\<lambda>(k', _). k' \<noteq> k) (cn_header w)\<rparr> else w),
      rw_WriteHeader = (\<lambda>c w. if 100 \<le> c \<and> c \<le> 999 then (Ok (), status_line c w) else (Panic ''invalid WriteHeader code'', w)),
      rw_Write = (\<lambda>bs w. let n = min (length bs) (cn_room w - length (cn_body w)) in
        (Ok (n, if n < length bs then Some (Msg ''short write'') else None),
         (status_line 200 w)\<lparr>cn_body := cn_body w @ take n bs\<rparr>))\<rparr>"

interpretation conn: server_writer mem_writer "\<lambda>_. True" cn_status "length \<circ> cn_body"
  by unfold_locales (auto simp: mem_writer_def status_line_def Let_def split: option.splits)

interpretation wrapped_conn: response_writer "wrapped mem_writer" conn.wrapped_valid "cn_status \<circ> ww_w" "(length \<circ> cn_body) \<circ> ww_w"
  by (rule conn.wrapped_keeps)

section \<open>The metrics of the API\<close>

definition http_of :: "string \<Rightarrow> PromHTTPRecorder" where
  "http_of ns =
     \<lparr>HTTPRequestDuration = metric_of HistogramKind (mk_opts ns [] ''http_request_duration_ms'') httpLabels,
      HTTPResponseSize = metric_of HistogramKind (mk_opts ns [] ''http_response_size'') httpLabels,
      HTTPInflightRequests = metric_of GaugeKind (mk_opts ns [] ''http_inflight_requests_count'') [''method''],
      HTTPRequests = metric_of CounterKind (mk_opts ns [] ''http_requests_count_total'') [''method''],
      HTTPResponses = metric_of CounterKind (mk_opts ns [] ''http_responses_count_total'') httpLabels\<rparr>"

definition http_names :: "string \<Rightarrow> string list" where
  "http_names ns = map (\<lambda>n. BuildFQName (mk_opts ns [] n))
     [''http_request_duration_ms'', ''http_response_size'', ''http_inflight_requests_count'', ''http_requests_count_total'',
      ''http_responses_count_total'']"

lemma http_registers:
  assumes "prom_documented names P" "valid_name ns"
  shows "registers names (NewPromHTTPRecorder P ns) (http_of ns) (http_names ns)"
proof -
  note new = registers_promauto[OF assms(1) valid_fq[OF assms(2) disjI1[OF refl]]]
  show ?thesis
    unfolding NewPromHTTPRecorder_def http_of_def http_names_def list.map
    by (rule registers_step new registers_retG | simp add: name_defs httpLabels_def)+
qed

lemma http_calls_ok:
  "list_all call_ok (RecordInflightRequest (prom_recorder (http_of ns)) p n)"
  "list_all call_ok (RecordHTTPRequest (prom_recorder (http_of ns)) p)"
  "list_all call_ok (RecordHTTPResponse (prom_recorder (http_of ns)) p)"
  "list_all call_ok (RecordHTTPResponseSize (prom_recorder (http_of ns)) p k)"
  "list_all call_ok (RecordHTTPRequestDuration (prom_recorder (http_of ns)) p ms)"
  by (simp_all add: prom_recorder_def http_of_def metric_of_def httpLabels_def call_ok_def Inc_def)

lemma http_apart:
  "HTTPResponses (http_of ns) \<noteq> HTTPRequestDuration (http_of ns)" "HTTPResponses (http_of ns) \<noteq> HTTPResponseSize (http_of ns)"
  "HTTPResponses (http_of ns) \<noteq> HTTPInflightRequests (http_of ns)" "HTTPResponses (http_of ns) \<noteq> HTTPRequests (http_of ns)"
  "HTTPResponseSize (http_of ns) \<noteq> HTTPRequestDuration (http_of ns)" "HTTPResponseSize (http_of ns) \<noteq> HTTPInflightRequests (http_of ns)"
  "HTTPResponseSize (http_of ns) \<noteq> HTTPRequests (http_of ns)" "HTTPInflightRequests (http_of ns) \<noteq> HTTPRequestDuration (http_of ns)"
  "HTTPInflightRequests (http_of ns) \<noteq> HTTPRequests (http_of ns)"
  by (simp_all add: http_of_def metric_of_def BuildFQName_def mk_opts_def)

lemma record_all_calls:
  assumes "\<forall>c. call_ok c \<longrightarrow> mr_call M c = Ok ()" "list_all call_ok cs"
  shows "record_all M cs (u, calls) = (Ok (), (u, calls @ cs))"
  using assms(2)
  by (induction cs arbitrary: calls) (auto simp: record_all_def record_call_def assms(1) thenG_def bindG_def retG_def)

section \<open>Every response is recorded as it was sent\<close>

primrec and_then :: "http_act \<Rightarrow> http_act \<Rightarrow> http_act" where
  "and_then Served b = b"
| "and_then (Panics p) b = Panics p"
| "and_then (SetHeader k v a) b = SetHeader k v (and_then a b)"
| "and_then (WriteHeader c a) b = WriteHeader c (and_then a b)"
| "and_then (WriteBytes bs f) b = WriteBytes bs (\<lambda>r. and_then (f r) b)"

text \<open>Documented behaviour of the middlewares of chi: a panic becomes a response with status 500, and a request that
  takes longer than the timeout ends with a header of status 504 after what the handler has written.\<close>

definition timed_out :: http_act where "timed_out = WriteHeader 504 Served"

definition chi_documented :: "(http_act \<Rightarrow> http_act) \<Rightarrow> bool" where
  "chi_documented chi =
     ((\<forall>p. chi (Panics p) \<in> {WriteHeader 500 Served, WriteHeader 500 timed_out}) \<and>
      (\<forall>a. orderly a Fresh \<longrightarrow> chi a \<in> {a, and_then a timed_out}))"

text \<open>A handler that writes a header before anything else.\<close>

primrec header_first :: "http_act \<Rightarrow> bool" where
  "header_first Served = False"
| "header_first (Panics p) = False"
| "header_first (SetHeader k v a) = header_first a"
| "header_first (WriteHeader c a) = True"
| "header_first (WriteBytes bs f) = False"

lemma headed_timed_out: "orderly a Headed \<Longrightarrow> orderly (and_then a timed_out) Headed"
  by (induction a) (auto simp: timed_out_def)

lemma orderly_timed_out:
  "orderly a Fresh \<Longrightarrow> header_first a \<Longrightarrow> orderly (and_then a timed_out) Fresh \<and> first_code (and_then a timed_out) = first_code a"
  by (induction a) (auto intro: headed_timed_out)

fun reply_code :: "(any_value \<Rightarrow> bytes result) \<Rightarrow> reply \<Rightarrow> int" where
  "reply_code json (Replied v) = (if is_ok (json v) then 200 else 500)"
| "reply_code json BadRequest = 400"
| "reply_code json ServerError = 500"
| "reply_code json Recovered = 500"

lemma http_Error_orderly:
  "200 \<le> c \<Longrightarrow> c \<le> 599 \<Longrightarrow> ph \<noteq> Implicit \<Longrightarrow> orderly (http_Error m c) ph \<and> header_first (http_Error m c) \<and> first_code (http_Error m c) = Some c"
  by (simp add: http_Error_def)

lemma respond_orderly:
  assumes "\<forall>v p. json v \<noteq> Panic p" "\<forall>p. a \<noteq> Recovered"
  shows "orderly (respond json q a) Fresh \<and> header_first (respond json q a) \<and> first_code (respond json q a) = Some (reply_code json a)"
proof (cases a)
  case (Replied v)
  then show ?thesis using assms(1) http_Error_orderly[of 500 _ InternalServerError]
    by (cases "json v") (auto simp: jsonResponse_def split: prod.split)
qed (use assms(2) in \<open>auto simp: http_Error_def\<close>)

text \<open>What the chain does with an answer of a handler.\<close>

lemma chi_orderly:
  assumes "chi_documented chi" "\<forall>v p. json v \<noteq> Panic p"
  shows "orderly (chi (respond json q a)) Fresh \<and> first_code (chi (respond json q a)) = Some (reply_code json a)"
proof (cases "a = Recovered")
  case True
  then have "chi (respond json q a) \<in> {WriteHeader 500 Served, WriteHeader 500 timed_out}"
    using assms(1) by (simp add: chi_documented_def)
  then show ?thesis using True by (auto simp: timed_out_def)
next
  case False
  note r = respond_orderly[OF assms(2), of a q]
  have "chi (respond json q a) \<in> {respond json q a, and_then (respond json q a) timed_out}"
    using assms(1) r False by (simp add: chi_documented_def)
  then show ?thesis using r orderly_timed_out[of "respond json q a"] False by auto
qed

text \<open>C23: every request of the API is recorded as it was answered.  Whatever the handler does (an answer, an answer
  that cannot be encoded, bad parameters, an error, a panic), however much of the body the connection takes and whether
  or not the request ends in time, serving it does not panic and leaves the connection, its headers and its body included, exactly
  as the handler within the chain would without the recorder; the client's status is that of the handler's answer, and the
  metrics see exactly one response with the method and this status and one size, which is the number of bytes sent,
  while the gauge of the requests in flight is back where it was.\<close>

theorem responses_recorded:
  assumes "server_writer W valid status sent" "valid w" "status w = None"
    and "\<forall>c. call_ok c \<longrightarrow> mr_call M c = Ok ()"
    and "chi_documented chi" "\<forall>v p. json v \<noteq> Panic p"
    and "serve_http M (http_of ns) chi json h W meth dur q s lc (w, calls) = (res, (w', calls'), lc')"
  shows "\<exists>a new. route h q s lc = (a, lc') \<and> res = Ok () \<and> run_act (chi (respond json q a)) W w = (Ok (), w')
     \<and> status w' = Some (reply_code json a) \<and> calls' = calls @ new \<and>
     (let labels = [meth, int_String (reply_code json a)] in
      filter (\<lambda>c. mc_metric c = HTTPResponses (http_of ns)) new
        = [\<lparr>mc_metric = HTTPResponses (http_of ns), mc_values = labels, mc_method = Inc\<rparr>] \<and>
      filter (\<lambda>c. mc_metric c = HTTPResponseSize (http_of ns)) new
        = [\<lparr>mc_metric = HTTPResponseSize (http_of ns), mc_values = labels, mc_method = Observe (float_of (int (sent w' - sent w)))\<rparr>] \<and>
      sum_added (HTTPInflightRequests (http_of ns)) [meth] new = 0)"
proof -
  have rw: "response_writer W valid status sent" using assms(1) by (simp add: server_writer_def)
  let ?rec = "prom_recorder (http_of ns)"
  let ?p = "\<lambda>code. \<lparr>hp_Method = meth, hp_StatusCode = code\<rparr>"
  obtain a where a: "route h q s lc = (a, lc')" using assms(7) by (auto simp: serve_http_def split: prod.splits)
  let ?code = "reply_code json a"
  have rec: "record_all M cs (u, c) = (Ok (), (u, c @ cs))" if "list_all call_ok cs" for cs u c
    using that assms(4) record_all_calls by metis
  let ?ww = "NewWrappedResponseWriter w"
  have start: "response_writer.in_phase valid status Fresh ?ww"
    using assms(2,3) by (simp add: response_writer.in_phase.simps[OF rw] NewWrappedResponseWriter_def)
  from response_writer.orderly_recorded[OF rw conjunct1[OF chi_orderly[OF assms(5,6), of q a]] start]
  obtain ww ph where run: "run_act (chi (respond json q a)) (wrapped W) ?ww = (Ok (), ww)"
    and ph: "response_writer.in_phase valid status ph ww" and len: "ResponseLen ww + sent w = sent (ww_w ww)"
    and st: "status (ww_w ww) = Some ?code"
    using chi_orderly[OF assms(5,6), of q a] assms(3) by (auto simp: NewWrappedResponseWriter_def)
  have code: "StatusCode ww = ?code"
    using response_writer.phase_status[OF rw ph] st by (simp add: response_writer.final_status_def[OF rw])
  have same: "run_act (chi (respond json q a)) W w = (Ok (), ww_w ww)"
    using server_writer.wrapped_transparent[OF assms(1) conjunct1[OF chi_orderly[OF assms(5,6), of q a]] start] run
    by (simp add: NewWrappedResponseWriter_def)
  have size: "ResponseLen ww = sent (ww_w ww) - sent w" using len by simp
  define new where "new = (RecordInflightRequest ?rec (?p 0) 1 @ RecordHTTPRequest ?rec (?p 0)) @
      RecordHTTPResponse ?rec (?p ?code) @ RecordHTTPResponseSize ?rec (?p ?code) (sent (ww_w ww) - sent w) @
      RecordHTTPRequestDuration ?rec (?p ?code) dur @ RecordInflightRequest ?rec (?p ?code) (- 1)"
  have before: "list_all call_ok (RecordInflightRequest ?rec (?p 0) 1 @ RecordHTTPRequest ?rec (?p 0))"
    and after: "list_all call_ok (RecordHTTPResponse ?rec (?p c) @ RecordHTTPResponseSize ?rec (?p c) n @
      RecordHTTPRequestDuration ?rec (?p c) dur @ RecordInflightRequest ?rec (?p c) (- 1))" for c n
    using http_calls_ok by simp_all
  have "NewHTTPRecordingMiddleware M ?rec W meth dur (chi (respond json q a)) (w, calls) = (Ok (), (ww_w ww, calls @ new))"
    unfolding NewHTTPRecordingMiddleware_def Let_def thenG_def bindG_def rec[OF before]
    by (simp add: run code size rec[OF after] new_def)
  then have out: "res = Ok ()" "w' = ww_w ww" "calls' = calls @ new" using assms(7) a by (auto simp: serve_http_def)
  have "filter (\<lambda>c. mc_metric c = HTTPResponses (http_of ns)) new
      = [\<lparr>mc_metric = HTTPResponses (http_of ns), mc_values = [meth, int_String ?code], mc_method = Inc\<rparr>]"
    "filter (\<lambda>c. mc_metric c = HTTPResponseSize (http_of ns)) new
      = [\<lparr>mc_metric = HTTPResponseSize (http_of ns), mc_values = [meth, int_String ?code],
          mc_method = Observe (float_of (int (sent (ww_w ww) - sent w)))\<rparr>]"
    "sum_added (HTTPInflightRequests (http_of ns)) [meth] new = 0"
    using http_apart[of ns] http_apart[of ns, symmetric] by (simp_all add: new_def prom_recorder_def added_def)
  then show ?thesis using a out st same by (intro exI[of _ a] exI[of _ new]) (simp add: Let_def)
qed

text \<open>A writer that has sent the body without a header forgets nothing but records a later header, which the client
  never sees.\<close>

lemma late_header_recorded:
  "let (r, ww) = run_act (WriteBytes [1] (\<lambda>_. WriteHeader 500 Served)) (wrapped mem_writer)
       (NewWrappedResponseWriter \<lparr>cn_header = [], cn_status = None, cn_body = [], cn_room = 9\<rparr>)
   in StatusCode ww = 500 \<and> cn_status (ww_w ww) = Some 200"
  by code_simp

definition sample_chi :: "http_act \<Rightarrow> http_act" where
  "sample_chi a = (case a of Panics p \<Rightarrow> WriteHeader 500 Served | _ \<Rightarrow> a)"

lemma sample_chi_documented: "chi_documented sample_chi"
  unfolding chi_documented_def by (auto simp: sample_chi_def split: http_act.splits)

text \<open>The connection breaks after the first byte of the body.\<close>

theorem responses_recorded_witness:
  "\<exists>t new lc'. serve_http sample_meter (http_of ''lithosphere_api'') sample_chi (\<lambda>_. Ok [123, 125]) sample_routes mem_writer ''GET'' 5
       (StateRootListReq ''1'' ''0'' ''up'') empty_db NewLruCache (\<lparr>cn_header = [], cn_status = None, cn_body = [], cn_room = 1\<rparr>, [])
     = (Ok (), (t, new), lc') \<and> t = \<lparr>cn_header = [(''Content-Type'', ''application/json'')], cn_status = Some 200, cn_body = [123], cn_room = 1\<rparr> \<and>
     \<lparr>mc_metric = HTTPResponses (http_of ''lithosphere_api''), mc_values = [''GET'', int_String 200], mc_method = Inc\<rparr> \<in> set new"
    (is "\<exists>t new lc'. ?run = _ \<and> _")
proof -
  obtain res t new lc' where run: "?run = (res, (t, new), lc')" by (metis prod.collapse)
  obtain v lc where r: "route sample_routes (StateRootListReq ''1'' ''0'' ''up'') empty_db NewLruCache = (Replied v, lc)"
    using sample_reply by auto
  have m: "\<forall>c. call_ok c \<longrightarrow> mr_call sample_meter c = Ok ()" by (simp add: sample_meter_def list_prom_def)
  have j: "\<forall>v p. (\<lambda>_ :: any_value. Ok [123, 125] :: bytes result) v \<noteq> Panic p" by simp
  let ?w = "\<lparr>cn_header = [], cn_status = None, cn_body = [], cn_room = 1\<rparr>"
  from responses_recorded[OF conn.server_writer_axioms _ _ m sample_chi_documented j run] r
  have out: "res = Ok ()" "run_act (sample_chi (respond (\<lambda>_. Ok [123, 125]) (StateRootListReq ''1'' ''0'' ''up'') (Replied v))) mem_writer ?w = (Ok (), t)"
    "filter (\<lambda>c. mc_metric c = HTTPResponses (http_of ''lithosphere_api'')) new
      = [\<lparr>mc_metric = HTTPResponses (http_of ''lithosphere_api''), mc_values = [''GET'', int_String 200], mc_method = Inc\<rparr>]"
    by (auto simp: Let_def)
  have "\<lparr>mc_metric = HTTPResponses (http_of ''lithosphere_api''), mc_values = [''GET'', int_String 200], mc_method = Inc\<rparr>
      \<in> set (filter (\<lambda>c. mc_metric c = HTTPResponses (http_of ''lithosphere_api'')) new)" using out(3) by simp
  moreover have "t = \<lparr>cn_header = [(''Content-Type'', ''application/json'')], cn_status = Some 200, cn_body = [123], cn_room = 1\<rparr>"
    using out(2) by (simp add: sample_chi_def jsonResponse_def http_Error_def mem_writer_def status_line_def thenG_def bindG_def retG_def Let_def)
  ultimately show ?thesis using run out(1) by auto
qed


section \<open>The server\<close>

text \<open>Durations are in nanoseconds; the default timeouts of the RPC library, which NewHttpServer takes, are given.\<close>

record HTTPTimeouts =
  ht_ReadTimeout :: int
  ht_ReadHeaderTimeout :: int
  ht_WriteTimeout :: int
  ht_IdleTimeout :: int

definition Second :: int where "Second = 1000000000"

definition DefaultTimeouts :: HTTPTimeouts where
  "DefaultTimeouts = \<lparr>ht_ReadTimeout = 30 * Second, ht_ReadHeaderTimeout = 30 * Second, ht_WriteTimeout = 30 * Second,
     ht_IdleTimeout = 120 * Second\<rparr>"

text \<open>The settings of an http.Server that the program sets.\<close>

record http_settings =
  hs_timeouts :: HTTPTimeouts
  hs_MaxHeaderBytes :: int

definition NewHttpServer :: "HTTPTimeouts \<Rightarrow> http_settings" where
  "NewHttpServer timeouts = \<lparr>hs_timeouts = timeouts, hs_MaxHeaderBytes = 0\<rparr>"

record HTTPServer =
  sr_listening :: bool
  sr_srv :: http_settings
  sr_closed :: bool

type_synonym HTTPOption = "(HTTPServer, unit) go"

definition WithTimeouts :: "HTTPTimeouts \<Rightarrow> HTTPOption" where
  "WithTimeouts timeouts = (\<lambda>s. (Ok (), s\<lparr>sr_srv := (sr_srv s)\<lparr>hs_timeouts := timeouts\<rparr>\<rparr>))"

definition WithMaxHeaderBytes :: "int \<Rightarrow> HTTPOption" where
  "WithMaxHeaderBytes n = (\<lambda>s. (Ok (), s\<lparr>sr_srv := (sr_srv s)\<lparr>hs_MaxHeaderBytes := n\<rparr>\<rparr>))"

text \<open>StartHTTPServer, with what net.Listen and the closing of its listener answer; the second component says
  whether the address is bound.\<close>

definition StartHTTPServer :: "unit result \<Rightarrow> unit result \<Rightarrow> HTTPOption list \<Rightarrow> HTTPServer result \<times> bool" where
  "StartHTTPServer listen close_listener opts =
     (case listen of
        Err e \<Rightarrow> (Err (Wrap ''failed to bind to address'' e), False)
      | Panic p \<Rightarrow> (Panic p, False)
      | Ok _ \<Rightarrow>
          (case forG id opts \<lparr>sr_listening = True, sr_srv = \<lparr>hs_timeouts = DefaultTimeouts, hs_MaxHeaderBytes = 0\<rparr>, sr_closed = False\<rparr> of
             (Ok _, out) \<Rightarrow> (Ok out, True)
           | (Panic p, out) \<Rightarrow> (Panic p, True)
           | (Err e, out) \<Rightarrow>
               (case close_listener of
                  Panic p \<Rightarrow> (Panic p, True)
                | Ok _ \<Rightarrow> (Err (Join [Wrap ''failed to apply HTTP option'' e]), False)
                | Err c \<Rightarrow> (Err (Join [Wrap ''failed to apply HTTP option'' e, c]), False))))"

text \<open>The goroutine of the server, once Serve has returned its error: the end of a closed server is noted, any other
  end brings the program down.\<close>

definition serve_ended :: "error \<Rightarrow> error \<Rightarrow> (HTTPServer, unit) go" where
  "serve_ended ErrServerClosed err = (\<lambda>s.
     if errors_Is err ErrServerClosed then (Ok (), s\<lparr>sr_closed := True\<rparr>) else (Panic ''unexpected serve error'', s))"

definition HTTPServer_Closed :: "HTTPServer \<Rightarrow> bool" where
  "HTTPServer_Closed s = sr_closed s"

text \<open>The options are applied in order to the default settings; a server that is not made has released its
  address.\<close>

lemma http_server_started:
  "StartHTTPServer listen close_listener opts = (Ok s, b) \<Longrightarrow> b \<and> listen = Ok () \<and> forG id opts
     \<lparr>sr_listening = True, sr_srv = \<lparr>hs_timeouts = DefaultTimeouts, hs_MaxHeaderBytes = 0\<rparr>, sr_closed = False\<rparr> = (Ok (), s)"
  "StartHTTPServer listen close_listener opts = (Err e, b) \<Longrightarrow> \<not> b"
  by (auto simp: StartHTTPServer_def split: result.splits prod.splits)

lemma later_option_wins:
  "StartHTTPServer (Ok ()) close_listener [WithTimeouts t, WithMaxHeaderBytes n, WithTimeouts u]
   = (Ok \<lparr>sr_listening = True, sr_srv = \<lparr>hs_timeouts = u, hs_MaxHeaderBytes = n\<rparr>, sr_closed = False\<rparr>, True)"
  by (simp add: StartHTTPServer_def WithTimeouts_def WithMaxHeaderBytes_def thenG_def bindG_def retG_def)

text \<open>The program goes on only when the server was closed.\<close>

lemma serve_ended_closed:
  "serve_ended c err s = (Ok (), t) \<Longrightarrow> errors_Is err c \<and> HTTPServer_Closed t"
  by (auto simp: serve_ended_def HTTPServer_Closed_def split: if_splits)

end
