(* ===== verification/Interrupts.thy ===== *)
theory Interrupts
  imports Commands "HOL-Library.Sublist"
begin


text \<open>
  Signals (common/opio/interrupts.go, CloseAction of common/util.go, and the goroutines of common/cliapp/lifecycle.go that
  wait for them).  The runtime's delivery is modelled as os/signal documents it: a signal is put into every channel that
  was registered for it and has room, and into none otherwise; a signal that no channel is registered for ends the
  process, and so does SIGKILL always.  The goroutines are a step relation; contexts are numbered.
\<close>

section \<open>Channels and delivery\<close>

datatype os_signal = SIGINT | SIGKILL | SIGTERM | SIGQUIT | OtherSignal nat

record sig_channel =
  sc_cap :: nat
  sc_signals :: "os_signal list"
  sc_registered :: bool
  sc_buffer :: "os_signal list"

record os_proc =
  pr_alive :: bool
  pr_channels :: "sig_channel list"

definition listens :: "os_signal \<Rightarrow> sig_channel \<Rightarrow> bool" where
  "listens s c = (sc_registered c \<and> s \<in> set (sc_signals c))"

definition offer :: "os_signal \<Rightarrow> sig_channel \<Rightarrow> sig_channel" where
  "offer s c = (if listens s c \<and> length (sc_buffer c) < sc_cap c then c\<lparr>sc_buffer := sc_buffer c @ [s]\<rparr> else c)"

definition deliver :: "os_signal \<Rightarrow> os_proc \<Rightarrow> os_proc" where
  "deliver s p =
     (if s = SIGKILL \<or> \<not> list_ex (listens s) (pr_channels p) then p\<lparr>pr_alive := False\<rparr>
      else p\<lparr>pr_channels := map (offer s) (pr_channels p)\<rparr>)"

text \<open>A new channel with signal.Notify, and signal.Stop.\<close>

definition signal_Notify :: "nat \<Rightarrow> os_signal list \<Rightarrow> os_proc \<Rightarrow> nat \<times> os_proc" where
  "signal_Notify cap signals p =
     (length (pr_channels p),
      p\<lparr>pr_channels := pr_channels p @ [\<lparr>sc_cap = cap, sc_signals = signals, sc_registered = True, sc_buffer = []\<rparr>]\<rparr>)"

definition signal_Stop :: "nat \<Rightarrow> os_proc \<Rightarrow> os_proc" where
  "signal_Stop i p = p\<lparr>pr_channels := (pr_channels p)[i := (pr_channels p ! i)\<lparr>sc_registered := False\<rparr>]\<rparr>"

definition receive :: "nat \<Rightarrow> os_proc \<Rightarrow> (os_signal \<times> os_proc) option" where
  "receive i p =
     (case sc_buffer (pr_channels p ! i) of
        [] \<Rightarrow> None
      | s # rest \<Rightarrow> Some (s, p\<lparr>pr_channels := (pr_channels p)[i := (pr_channels p ! i)\<lparr>sc_buffer := rest\<rparr>]\<rparr>))"

definition DefaultInterruptSignals :: "os_signal list" where
  "DefaultInterruptSignals = [SIGINT, SIGKILL, SIGTERM, SIGQUIT]"

section \<open>Waiting for signals\<close>

text \<open>A goroutine that waits on a channel until a signal comes or its context ends, and then cancels another context.
  One that has made its channel itself takes it back when its context has ended, but not after a signal.\<close>

record waiter =
  wt_channel :: nat
  wt_ctx :: nat
  wt_cancels :: nat
  wt_own :: bool

record world =
  w_proc :: os_proc
  w_blocker :: "nat option"
  w_cancelled :: "nat list"
  w_waiters :: "waiter list"

text \<open>WithInterruptBlocker: the catcher's channel has room for ten signals and is made once; its place is kept in
  the context.\<close>

definition WithInterruptBlocker :: "world \<Rightarrow> world" where
  "WithInterruptBlocker w =
     (if w_blocker w \<noteq> None then w
      else (let (i, p) = signal_Notify 10 DefaultInterruptSignals (w_proc w) in w\<lparr>w_proc := p, w_blocker := Some i\<rparr>))"

definition BlockerFromContext :: "world \<Rightarrow> nat option" where
  "BlockerFromContext w = w_blocker w"

text \<open>A goroutine blocks in BlockOnInterruptsContext, with the signals it is given or the default ones, or in the
  catcher's Block, and then cancels a context.\<close>

definition BlockOnInterruptsContext :: "os_signal list \<Rightarrow> nat \<Rightarrow> nat \<Rightarrow> world \<Rightarrow> world" where
  "BlockOnInterruptsContext signals ctx cancels w =
     (let (i, p) = signal_Notify 1 (if length signals = 0 then DefaultInterruptSignals else signals) (w_proc w) in
      w\<lparr>w_proc := p, w_waiters := w_waiters w @ [\<lparr>wt_channel = i, wt_ctx = ctx, wt_cancels = cancels, wt_own = True\<rparr>]\<rparr>)"

definition catcher_Block :: "nat \<Rightarrow> nat \<Rightarrow> nat \<Rightarrow> world \<Rightarrow> world" where
  "catcher_Block i ctx cancels w =
     w\<lparr>w_waiters := w_waiters w @ [\<lparr>wt_channel = i, wt_ctx = ctx, wt_cancels = cancels, wt_own = False\<rparr>]\<rparr>"

text \<open>CancelOnInterrupt takes the blocker of the context if it has one; lifecycleCmd never does.\<close>

definition CancelOnInterrupt :: "nat \<Rightarrow> nat \<Rightarrow> world \<Rightarrow> world" where
  "CancelOnInterrupt ctx inner w =
     (case BlockerFromContext w of
        None \<Rightarrow> BlockOnInterruptsContext [] ctx inner w
      | Some i \<Rightarrow> catcher_Block i ctx inner w)"

definition lifecycle_watch :: "nat \<Rightarrow> world \<Rightarrow> world" where
  "lifecycle_watch ctx w = BlockOnInterruptsContext [] ctx ctx w"

definition drop_nth :: "nat \<Rightarrow> 'a list \<Rightarrow> 'a list" where
  "drop_nth k xs = take k xs @ drop (Suc k) xs"

text \<open>The two ways in which the wait ends.\<close>

definition wait_signal :: "nat \<Rightarrow> world \<Rightarrow> (os_signal \<times> world) option" where
  "wait_signal k w =
     (if k < length (w_waiters w) then
        (let g = w_waiters w ! k in
         map_option (\<lambda>(s, p). (s, w\<lparr>w_proc := p, w_cancelled := w_cancelled w @ [wt_cancels g], w_waiters := drop_nth k (w_waiters w)\<rparr>))
           (receive (wt_channel g) (w_proc w)))
      else None)"

definition wait_context :: "nat \<Rightarrow> world \<Rightarrow> world option" where
  "wait_context k w =
     (if k < length (w_waiters w) \<and> wt_ctx (w_waiters w ! k) \<in> set (w_cancelled w) then
        (let g = w_waiters w ! k in
         Some (w\<lparr>w_proc := (if wt_own g then signal_Stop (wt_channel g) (w_proc w) else w_proc w),
           w_cancelled := w_cancelled w @ [wt_cancels g], w_waiters := drop_nth k (w_waiters w)\<rparr>))
      else None)"

text \<open>What has happened, from the start of main on: the process with no channel, then the catcher of main.\<close>

datatype happening =
    Arrives os_signal
  | CommandBlocks nat nat
  | LifecycleBlocks nat
  | TakesSignal nat os_signal
  | SeesContext
  | Cancels nat

definition main_world :: world where
  "main_world = WithInterruptBlocker \<lparr>w_proc = \<lparr>pr_alive = True, pr_channels = []\<rparr>, w_blocker = None, w_cancelled = [], w_waiters = []\<rparr>"

inductive signals_run :: "happening list \<Rightarrow> world \<Rightarrow> bool" where
  started: "signals_run [] main_world"
| arrives: "signals_run hs w \<Longrightarrow> pr_alive (w_proc w) \<Longrightarrow> signals_run (hs @ [Arrives s]) (w\<lparr>w_proc := deliver s (w_proc w)\<rparr>)"
| command: "signals_run hs w \<Longrightarrow> pr_alive (w_proc w) \<Longrightarrow> signals_run (hs @ [CommandBlocks ctx inner]) (CancelOnInterrupt ctx inner w)"
| lifecycle: "signals_run hs w \<Longrightarrow> pr_alive (w_proc w) \<Longrightarrow> signals_run (hs @ [LifecycleBlocks ctx]) (lifecycle_watch ctx w)"
| takes: "signals_run hs w \<Longrightarrow> pr_alive (w_proc w) \<Longrightarrow> k < length (w_waiters w) \<Longrightarrow> wait_signal k w = Some (s, w')
    \<Longrightarrow> signals_run (hs @ [TakesSignal (wt_channel (w_waiters w ! k)) s]) w'"
| sees: "signals_run hs w \<Longrightarrow> pr_alive (w_proc w) \<Longrightarrow> wait_context k w = Some w' \<Longrightarrow> signals_run (hs @ [SeesContext]) w'"
| cancels: "signals_run hs w \<Longrightarrow> pr_alive (w_proc w) \<Longrightarrow> signals_run (hs @ [Cancels c]) (w\<lparr>w_cancelled := w_cancelled w @ [c]\<rparr>)"

definition caught :: "os_signal list" where "caught = [SIGINT, SIGTERM, SIGQUIT]"

text \<open>The signals that have come, and those a channel's waiters have taken.\<close>

definition arrived :: "happening list \<Rightarrow> os_signal list" where
  "arrived hs = List.map_filter (\<lambda>h. case h of Arrives s \<Rightarrow> Some s | _ \<Rightarrow> None) hs"

definition taken :: "nat \<Rightarrow> happening list \<Rightarrow> os_signal list" where
  "taken i hs = List.map_filter (\<lambda>h. case h of TakesSignal j s \<Rightarrow> if j = i then Some s else None | _ \<Rightarrow> None) hs"


section \<open>Interrupts reach the program and do not end it\<close>

text \<open>What holds of the catcher of main, the first channel.\<close>

definition catcher :: "world \<Rightarrow> sig_channel" where
  "catcher w = pr_channels (w_proc w) ! 0"

definition catching :: "world \<Rightarrow> bool" where
  "catching w =
     (pr_alive (w_proc w) \<and> w_blocker w = Some 0 \<and> 0 < length (pr_channels (w_proc w)) \<and>
      sc_cap (catcher w) = 10 \<and> sc_signals (catcher w) = DefaultInterruptSignals \<and> sc_registered (catcher w) \<and>
      list_all (\<lambda>g. wt_channel g < length (pr_channels (w_proc w)) \<and> (wt_own g \<longrightarrow> 0 < wt_channel g)) (w_waiters w))"

definition kept :: "happening list \<Rightarrow> world \<Rightarrow> bool" where
  "kept hs w = (subseq (taken 0 hs @ sc_buffer (catcher w)) (arrived hs) \<and> length (sc_buffer (catcher w)) \<le> 10 \<and>
     (length (arrived hs) \<le> 10 \<longrightarrow> taken 0 hs @ sc_buffer (catcher w) = arrived hs))"

lemma map_filter_snoc: "List.map_filter f (xs @ [x]) = List.map_filter f xs @ (case f x of None \<Rightarrow> [] | Some y \<Rightarrow> [y])"
  by (simp add: List.map_filter_def split: option.splits)

lemma arrived_snoc [simp]: "arrived [] = []"
  "arrived (hs @ [h]) = arrived hs @ (case h of Arrives s \<Rightarrow> [s] | _ \<Rightarrow> [])"
  by (simp_all add: arrived_def map_filter_snoc List.map_filter_def split: happening.splits)

lemma taken_snoc [simp]: "taken i [] = []"
  "taken i (hs @ [h]) = taken i hs @ (case h of TakesSignal j s \<Rightarrow> if j = i then [s] else [] | _ \<Rightarrow> [])"
  by (simp_all add: taken_def map_filter_snoc List.map_filter_def split: happening.splits)

lemma drop_nth_all: "list_all P xs \<Longrightarrow> list_all P (drop_nth k xs)"
  by (auto simp: drop_nth_def list_all_iff dest: in_set_takeD in_set_dropD)

lemma main_catching: "catching main_world \<and> kept [] main_world"
  by (simp add: main_world_def WithInterruptBlocker_def signal_Notify_def catching_def kept_def catcher_def)

text \<open>A new waiter has a channel of its own, behind the catcher's.\<close>

lemma block_catching:
  assumes "catching w"
  shows "catching (BlockOnInterruptsContext sigs c d w) \<and> catcher (BlockOnInterruptsContext sigs c d w) = catcher w"
proof -
  have "catcher (BlockOnInterruptsContext sigs c d w) = catcher w"
    using assms by (simp add: BlockOnInterruptsContext_def Let_def signal_Notify_def catcher_def catching_def nth_append)
  then show ?thesis using assms unfolding catching_def
    by (simp add: BlockOnInterruptsContext_def Let_def signal_Notify_def list_all_iff) force
qed

lemma command_catching:
  assumes "catching w"
  shows "catching (CancelOnInterrupt c d w) \<and> catcher (CancelOnInterrupt c d w) = catcher w"
  using assms
  by (simp add: CancelOnInterrupt_def BlockerFromContext_def catching_def catcher_Block_def catcher_def)

text \<open>A caught signal goes to the catcher, which puts it behind the others if it has room.\<close>

lemma deliver_catching:
  assumes "catching w" "s \<in> set caught"
  shows "catching (w\<lparr>w_proc := deliver s (w_proc w)\<rparr>) \<and>
     sc_buffer (catcher (w\<lparr>w_proc := deliver s (w_proc w)\<rparr>))
       = sc_buffer (catcher w) @ (if length (sc_buffer (catcher w)) < 10 then [s] else [])"
proof -
  obtain c cs where c: "pr_channels (w_proc w) = c # cs" using assms(1) by (cases "pr_channels (w_proc w)") (auto simp: catching_def)
  have l: "listens s c" "sc_cap c = 10" using assms c
    by (auto simp: catching_def catcher_def listens_def DefaultInterruptSignals_def caught_def)
  then have "deliver s (w_proc w) = (w_proc w)\<lparr>pr_channels := map (offer s) (pr_channels (w_proc w))\<rparr>"
    using assms(2) c by (auto simp: deliver_def caught_def)
  then show ?thesis using assms(1) c l by (auto simp: catching_def catcher_def offer_def)
qed

lemma kept_arrives:
  assumes "kept hs w" "sc_buffer (catcher w') = sc_buffer (catcher w) @ (if length (sc_buffer (catcher w)) < 10 then [s] else [])"
  shows "kept (hs @ [Arrives s]) w'"
proof (cases "length (sc_buffer (catcher w)) < 10")
  case True
  have "subseq ((taken 0 hs @ sc_buffer (catcher w)) @ [s]) (arrived hs @ [s])"
    using assms(1) by (intro list_emb_append_mono) (auto simp: kept_def)
  then show ?thesis using assms True by (auto simp: kept_def)
next
  case False
  have "length (arrived hs) \<noteq> length (arrived hs @ [s])" by simp
  moreover have "10 \<le> length (arrived hs)"
    using assms(1) False list_emb_length[of "(=)" "taken 0 hs @ sc_buffer (catcher w)" "arrived hs"] by (auto simp: kept_def)
  ultimately show ?thesis using assms False by (auto simp: kept_def intro: list_emb_append2)
qed

lemma takes_catching:
  assumes "catching w" "k < length (w_waiters w)" "wait_signal k w = Some (s, w')"
  shows "catching w' \<and> sc_buffer (catcher w) = (if wt_channel (w_waiters w ! k) = 0 then [s] else []) @ sc_buffer (catcher w')"
proof -
  let ?i = "wt_channel (w_waiters w ! k)"
  obtain rest where r: "sc_buffer (pr_channels (w_proc w) ! ?i) = s # rest"
    and w': "w' = w\<lparr>w_proc := (w_proc w)\<lparr>pr_channels := (pr_channels (w_proc w))[?i := (pr_channels (w_proc w) ! ?i)\<lparr>sc_buffer := rest\<rparr>]\<rparr>,
        w_cancelled := w_cancelled w @ [wt_cancels (w_waiters w ! k)], w_waiters := drop_nth k (w_waiters w)\<rparr>"
    using assms(2,3) by (auto simp: wait_signal_def receive_def Let_def split: list.splits)
  show ?thesis using assms(1) r unfolding w' by (auto simp: catching_def catcher_def nth_list_update drop_nth_all)
qed

lemma sees_catching:
  assumes "catching w" "wait_context k w = Some w'"
  shows "catching w' \<and> catcher w' = catcher w"
proof -
  let ?g = "w_waiters w ! k"
  have k: "k < length (w_waiters w)" and w': "w' = w\<lparr>w_proc := (if wt_own ?g then signal_Stop (wt_channel ?g) (w_proc w) else w_proc w),
      w_cancelled := w_cancelled w @ [wt_cancels ?g], w_waiters := drop_nth k (w_waiters w)\<rparr>"
    using assms(2) by (auto simp: wait_context_def Let_def split: if_splits)
  have "wt_own ?g \<longrightarrow> 0 < wt_channel ?g" using assms(1) k by (auto simp: catching_def list_all_length)
  then have c: "catcher w' = catcher w" by (auto simp: w' catcher_def signal_Stop_def)
  have len: "length (pr_channels (w_proc w')) = length (pr_channels (w_proc w))" by (simp add: w' signal_Stop_def)
  show ?thesis using assms(1) c len drop_nth_all unfolding catching_def by (auto simp: w' signal_Stop_def)
qed

text \<open>C24: from the start of main on, however the commands wait for interrupts and their contexts end, the signals INT, TERM
  and QUIT do not end the process; the catcher of main holds at most ten of them, and its waiters take them in the
  order in which they came, each once, and without a gap as long as no more than ten have come.\<close>

theorem interrupts_kept:
  assumes "signals_run hs w" "set (arrived hs) \<subseteq> set caught"
  shows "pr_alive (w_proc w) \<and> length (sc_buffer (pr_channels (w_proc w) ! 0)) \<le> 10 \<and>
     subseq (taken 0 hs @ sc_buffer (pr_channels (w_proc w) ! 0)) (arrived hs) \<and>
     (length (arrived hs) \<le> 10 \<longrightarrow> taken 0 hs @ sc_buffer (pr_channels (w_proc w) ! 0) = arrived hs)"
proof -
  have "catching w \<and> kept hs w"
    using assms
  proof (induction rule: signals_run.induct)
    case started
    then show ?case using main_catching by simp
  next
    case (arrives hs w s)
    then have "catching w" "kept hs w" "s \<in> set caught" by auto
    then show ?case using deliver_catching[of w s] kept_arrives[of hs w _ s] by blast
  next
    case (command hs w ctx inner)
    then show ?case using command_catching[of w ctx inner] by (auto simp: kept_def)
  next
    case (lifecycle hs w ctx)
    then show ?case using block_catching[of w "[]" ctx ctx] by (auto simp: kept_def lifecycle_watch_def)
  next
    case (takes hs w k s w')
    then show ?case using takes_catching[of w k s w'] by (auto simp: kept_def split: if_splits)
  next
    case (sees hs w k w')
    then show ?case using sees_catching[of w k w'] by (auto simp: kept_def)
  next
    case (cancels hs w c)
    then show ?case by (auto simp: kept_def catching_def catcher_def)
  qed
  then show ?thesis by (simp add: catching_def kept_def catcher_def)
qed


lemma run_takes:
  "signals_run hs w \<Longrightarrow> pr_alive (w_proc w) \<Longrightarrow> k < length (w_waiters w) \<Longrightarrow> wait_signal k w = Some (s, w')
    \<Longrightarrow> i = wt_channel (w_waiters w ! k) \<Longrightarrow> signals_run (hs @ [TakesSignal i s]) w'"
  using signals_run.takes by simp

lemmas world_simps = main_world_def WithInterruptBlocker_def signal_Notify_def CancelOnInterrupt_def BlockerFromContext_def
  catcher_Block_def deliver_def listens_def offer_def DefaultInterruptSignals_def wait_signal_def receive_def drop_nth_def
  lifecycle_watch_def BlockOnInterruptsContext_def

text \<open>A second interrupt that comes before the first one has been taken is lost to the command: the goroutine that waits
  during the stop has a new channel, and the old one holds one signal.\<close>

lemma quick_second_interrupt_lost:
  "\<exists>w. signals_run [LifecycleBlocks 1, Arrives SIGINT, Arrives SIGINT, TakesSignal 1 SIGINT, LifecycleBlocks 2] w
     \<and> w_cancelled w = [1] \<and> length (w_waiters w) = 1 \<and> wait_signal 0 w = None"
proof -
  let ?w1 = "lifecycle_watch 1 main_world"
  let ?w2 = "?w1\<lparr>w_proc := deliver SIGINT (w_proc ?w1)\<rparr>"
  let ?w3 = "?w2\<lparr>w_proc := deliver SIGINT (w_proc ?w2)\<rparr>"
  have r1: "signals_run [LifecycleBlocks 1] ?w1"
    using signals_run.lifecycle[OF signals_run.started, of 1] by (simp add: world_simps)
  have r2: "signals_run ([LifecycleBlocks 1] @ [Arrives SIGINT]) ?w2"
    by (rule signals_run.arrives[OF r1]) (simp add: world_simps)
  have r3: "signals_run (([LifecycleBlocks 1] @ [Arrives SIGINT]) @ [Arrives SIGINT]) ?w3"
    by (rule signals_run.arrives[OF r2]) (simp add: world_simps)
  obtain w4 where t: "wait_signal 0 ?w3 = Some (SIGINT, w4)" by (simp add: world_simps)
  have r4: "signals_run ((([LifecycleBlocks 1] @ [Arrives SIGINT]) @ [Arrives SIGINT]) @ [TakesSignal 1 SIGINT]) w4"
    by (rule run_takes[OF r3 _ _ t]) (simp_all add: world_simps)
  have "pr_alive (w_proc w4)" "w_cancelled (lifecycle_watch 2 w4) = [1]" "length (w_waiters (lifecycle_watch 2 w4)) = 1"
    "wait_signal 0 (lifecycle_watch 2 w4) = None"
    using t by (auto simp: world_simps)
  then show ?thesis using signals_run.lifecycle[OF r4, of 2] by (intro exI[of _ "lifecycle_watch 2 w4"]) simp
qed

theorem interrupts_kept_witness:
  "\<exists>w. signals_run [CommandBlocks 1 2, Arrives SIGINT, Arrives SIGTERM, TakesSignal 0 SIGINT] w \<and> pr_alive (w_proc w)
     \<and> sc_buffer (pr_channels (w_proc w) ! 0) = [SIGTERM]"
proof -
  let ?w1 = "CancelOnInterrupt 1 2 main_world"
  let ?w2 = "?w1\<lparr>w_proc := deliver SIGINT (w_proc ?w1)\<rparr>"
  let ?w3 = "?w2\<lparr>w_proc := deliver SIGTERM (w_proc ?w2)\<rparr>"
  have r1: "signals_run [CommandBlocks 1 2] ?w1"
    using signals_run.command[OF signals_run.started, of 1 2] by (simp add: world_simps)
  have r2: "signals_run ([CommandBlocks 1 2] @ [Arrives SIGINT]) ?w2"
    by (rule signals_run.arrives[OF r1]) (simp add: world_simps)
  have r3: "signals_run (([CommandBlocks 1 2] @ [Arrives SIGINT]) @ [Arrives SIGTERM]) ?w3"
    by (rule signals_run.arrives[OF r2]) (simp add: world_simps)
  obtain w4 where t: "wait_signal 0 ?w3 = Some (SIGINT, w4)" by (simp add: world_simps)
  have r4: "signals_run ((([CommandBlocks 1 2] @ [Arrives SIGINT]) @ [Arrives SIGTERM]) @ [TakesSignal 0 SIGINT]) w4"
    by (rule run_takes[OF r3 _ _ t]) (simp_all add: world_simps)
  from interrupts_kept[OF r4] r4 show ?thesis
    by (intro exI[of _ w4]) (simp add: arrived_def taken_def List.map_filter_def caught_def)
qed

section \<open>CloseAction\<close>

text \<open>The action ends at some time with a result when nobody asks it to stop, and, when it is asked to at some time, at
  another time or never.  Times are in seconds; a signal may come.\<close>

record close_action =
  ca_ends :: "(int \<times> unit result) option"
  ca_stopped :: "int \<Rightarrow> (int \<times> unit result) option"

definition unresponsive :: error where
  "unresponsive = Msg ''command action is unresponsive for more than 10 seconds... shutting down''"

definition after_signal :: "close_action \<Rightarrow> int \<Rightarrow> int \<times> unit result" where
  "after_signal fn t =
     (case ca_stopped fn t of
        Some (e, r) \<Rightarrow> if e \<le> t + 10 then (e, r) else (t + 10, Err unresponsive)
      | None \<Rightarrow> (t + 10, Err unresponsive))"

definition CloseAction :: "close_action \<Rightarrow> int option \<Rightarrow> (int \<times> unit result) option" where
  "CloseAction fn signal =
     (case signal of
        None \<Rightarrow> ca_ends fn
      | Some t \<Rightarrow>
          (case ca_ends fn of
             Some (e, r) \<Rightarrow> if e < t then Some (e, r) else Some (after_signal fn t)
           | None \<Rightarrow> Some (after_signal fn t)))"

text \<open>After a signal it returns within ten seconds, whatever the action does.\<close>

lemma close_action_bounded:
  "\<exists>e r. CloseAction fn (Some t) = Some (e, r) \<and> e \<le> t + 10"
  by (auto simp: CloseAction_def after_signal_def split: option.splits)

end
