(* ===== verification/Operators.thy ===== *)
theory Operators
  imports GraphView
begin


text \<open>
  The rest of synchronizer/mantle-da/common/graphView: the operators of the data availability layer at a
  block, the loops that poll the graph node and the wait for it.  The node's answers are parameters, the
  base field of the curve too.
\<close>

section \<open>Operators\<close>

definition ErrSubgraphTimeout :: error where "ErrSubgraphTimeout = Msg ''timed out while waiting for subgraph''"
definition ErrOperatorNotFound :: error where "ErrOperatorNotFound = Msg ''operator does not exist''"
definition ErrEmptyTotalStakes :: error where "ErrEmptyTotalStakes = Msg ''empty response about TotalStake''"
definition ErrEmptyTotalOperators :: error where "ErrEmptyTotalOperators = Msg ''empty response about TotalOperators''"
definition ErrMantleFirstStakedStringNotParseable :: error where
  "ErrMantleFirstStakedStringNotParseable = Msg ''eth staked string not ok''"
definition ErrMantleSencodStakedStringNotParseable :: error where
  "ErrMantleSencodStakedStringNotParseable = Msg ''eigen staked string not ok''"
definition ErrInvalidG1PubkeyLength :: error where "ErrInvalidG1PubkeyLength = Msg ''invalid G1 pk length''"
definition ErrInvalidG2PubkeyLength :: error where "ErrInvalidG2PubkeyLength = Msg ''invalid G2 pk length''"

text \<open>Points of the curve bn254, over its base field, which is a library: zero, and SetString, which leaves an
  element as it is when the text is no number.\<close>

record 'f base_field =
  fp_zero :: 'f
  fp_SetString :: "string \<Rightarrow> 'f option"

record 'f G1Affine =
  g1_X :: 'f
  g1_Y :: 'f

record 'f G2Affine =
  g2_X_A0 :: 'f
  g2_X_A1 :: 'f
  g2_Y_A0 :: 'f
  g2_Y_A1 :: 'f

definition element_of :: "'f base_field \<Rightarrow> string \<Rightarrow> 'f" where
  "element_of F s = (case fp_SetString F s of Some x \<Rightarrow> x | None \<Rightarrow> fp_zero F)"

definition ConvertStringsToG1Point :: "'f base_field \<Rightarrow> string list \<Rightarrow> 'f G1Affine" where
  "ConvertStringsToG1Point F data = \<lparr>g1_X = element_of F (data ! 0), g1_Y = element_of F (data ! 1)\<rparr>"

definition ConvertStringsToG2Point :: "'f base_field \<Rightarrow> string list \<Rightarrow> 'f G2Affine" where
  "ConvertStringsToG2Point F data = \<lparr>g2_X_A0 = element_of F (data ! 0), g2_X_A1 = element_of F (data ! 1),
     g2_Y_A0 = element_of F (data ! 2), g2_Y_A1 = element_of F (data ! 3)\<rparr>"

record OperatorPubkeys =
  pk_PubkeyHash :: string
  pk_PubkeyG1 :: "string list"
  pk_PubkeyG2 :: "string list"

record OperatorGql =
  og_Id :: string
  og_Pubkeys :: OperatorPubkeys
  og_FromBlockNumber :: string
  og_ToBlockNumber :: string
  og_Socket :: string

text \<open>An operator at a block: the histories hold the first entry the node has from that block on, if any.\<close>

record OperatorBlockView =
  ov_Id :: string
  ov_Pubkeys :: OperatorPubkeys
  ov_Socket :: string
  ov_StakeHistory :: "(string \<times> string) list"
  ov_IndexHistory :: "string list"

record TotalOperatorGql =
  tq_ToBlockNumber :: string
  tq_Count :: string
  tq_AggPubKeyHash :: string
  tq_AggPubKey :: "string list"
  tq_Index :: "32 word"

record TotalStakeGql =
  sq_ToBlockNumber :: string
  sq_MantleFirstStake :: string
  sq_MantleSencodStake :: string
  sq_Index :: "32 word"

record 'f Registrant =
  rg_Address :: address
  rg_Socket :: string
  rg_PubkeyG1 :: "'f G1Affine"
  rg_PubkeyG2 :: "'f G2Affine"
  rg_FromBlockNumber :: "32 word"
  rg_ToBlockNumber :: "32 word"

record TotalStake =
  tst_ToBlockNumber :: u64
  tst_QuorumStakes :: "int list"
  tst_Index :: "32 word"

record 'f TotalOperator =
  tot_ToBlockNumber :: u64
  tot_Count :: u64
  tot_AggPubKeyHash :: hash
  tot_AggPubKey :: "'f G1Affine"
  tot_Index :: "32 word"

record 'f RegistrantView =
  rv_Registrant :: "'f Registrant"
  rv_QuorumStakes :: "int list"
  rv_Index :: "32 word"

record 'f StateView =
  sv_Registrants :: "'f RegistrantView list"
  sv_RegistrantMap :: "address \<rightharpoonup> 'f RegistrantView"
  sv_BlockNumber :: "32 word"
  sv_TotalStake :: TotalStake
  sv_TotalOperator :: "'f TotalOperator"

definition QueryOperator :: "OperatorGql result \<Rightarrow> OperatorGql result" where
  "QueryOperator answer = bindR answer (\<lambda>op. if og_Id op = [] then Err ErrOperatorNotFound else Ok op)"

definition TotalOperatorGql_Convert :: "'f base_field \<Rightarrow> TotalOperatorGql \<Rightarrow> 'f TotalOperator result" where
  "TotalOperatorGql_Convert C d =
     bindR (read_u32 (tq_ToBlockNumber d)) (\<lambda>toBlockNumber.
     bindR (read_u32 (tq_Count d)) (\<lambda>count.
     bindR (read_array (tq_AggPubKeyHash d)) (\<lambda>aggPubKeyHashArray.
     if length (tq_AggPubKey d) \<noteq> 2 then Err ErrInvalidG1PubkeyLength
     else Ok \<lparr>tot_ToBlockNumber = ucast toBlockNumber, tot_Count = ucast count, tot_AggPubKeyHash = aggPubKeyHashArray,
             tot_AggPubKey = ConvertStringsToG1Point C (tq_AggPubKey d), tot_Index = tq_Index d\<rparr>)))"

definition TotalStakeGql_Convert :: "TotalStakeGql \<Rightarrow> TotalStake result" where
  "TotalStakeGql_Convert d =
     bindR (read_u32 (sq_ToBlockNumber d)) (\<lambda>toBlockNumber.
     bindR (read_big ErrMantleFirstStakedStringNotParseable (sq_MantleFirstStake d)) (\<lambda>mantleFirstStake.
     bindR (read_big ErrEigenSignedStringNotParseable (sq_MantleSencodStake d)) (\<lambda>mantleSencodStake.
     Ok \<lparr>tst_ToBlockNumber = ucast toBlockNumber, tst_QuorumStakes = [mantleFirstStake, mantleSencodStake],
         tst_Index = sq_Index d\<rparr>)))"

text \<open>OperatorBlockView.RegistrantView: an empty history is an index out of range.\<close>

definition Operator_RegistrantView :: "'f base_field \<Rightarrow> OperatorBlockView \<Rightarrow> 'f RegistrantView result" where
  "Operator_RegistrantView C d =
     (let address = HexToAddress (ov_Id d) in
      if length (pk_PubkeyG2 (ov_Pubkeys d)) \<noteq> 4 then Err ErrInvalidG2PubkeyLength
      else if length (pk_PubkeyG1 (ov_Pubkeys d)) \<noteq> 2 then Err ErrInvalidG1PubkeyLength
      else
        bindR (indexR (ov_StakeHistory d) 0) (\<lambda>stakes.
        bindR (read_big ErrMantleFirstStakedStringNotParseable (fst stakes)) (\<lambda>mantleFirstStake.
        bindR (read_big ErrMantleSencodStakedStringNotParseable (snd stakes)) (\<lambda>mantleSencodStake.
        bindR (indexR (ov_IndexHistory d) 0) (\<lambda>i.
        bindR (read_u32 i) (\<lambda>index.
        Ok \<lparr>rv_Registrant = \<lparr>rg_Address = address, rg_Socket = ov_Socket d, rg_PubkeyG1 = ConvertStringsToG1Point C (pk_PubkeyG1 (ov_Pubkeys d)),
              rg_PubkeyG2 = ConvertStringsToG2Point C (pk_PubkeyG2 (ov_Pubkeys d)), rg_FromBlockNumber = 0, rg_ToBlockNumber = 0\<rparr>,
            rv_QuorumStakes = [mantleFirstStake, mantleSencodStake], rv_Index = index\<rparr>))))))"

definition QueryOperatorTotalsByBlock :: "'f base_field \<Rightarrow> TotalStakeGql list result \<Rightarrow> TotalOperatorGql list result
    \<Rightarrow> (TotalStake \<times> 'f TotalOperator) result" where
  "QueryOperatorTotalsByBlock C stakes ops =
     bindR stakes (\<lambda>totalStakes.
     case totalStakes of [] \<Rightarrow> Err ErrEmptyTotalStakes | st # _ \<Rightarrow>
     bindR (TotalStakeGql_Convert st) (\<lambda>totalStake.
     bindR ops (\<lambda>totalOperators.
     case totalOperators of [] \<Rightarrow> Err ErrEmptyTotalOperators | op # _ \<Rightarrow>
     bindR (TotalOperatorGql_Convert C op) (\<lambda>totalOps. Ok (totalStake, totalOps)))))"

text \<open>The address of a registrant is a key of the map; of two with one address the later one stays.\<close>

definition GetStateView :: "'f base_field \<Rightarrow> OperatorBlockView list result \<Rightarrow> TotalStakeGql list result \<Rightarrow> TotalOperatorGql list result
    \<Rightarrow> 32 word \<Rightarrow> 'f StateView result" where
  "GetStateView C answer stakes totals blockNumber =
     bindR answer (\<lambda>ops.
     bindR (mapR (Operator_RegistrantView C) ops) (\<lambda>registrants.
     bindR (QueryOperatorTotalsByBlock C stakes totals) (\<lambda>(totalStake, totalOp).
     Ok \<lparr>sv_Registrants = registrants,
         sv_RegistrantMap = fold (\<lambda>v m. m(rg_Address (rv_Registrant v) \<mapsto> v)) registrants Map.empty,
         sv_BlockNumber = blockNumber, sv_TotalStake = totalStake, sv_TotalOperator = totalOp\<rparr>)))"

section \<open>Polling\<close>

text \<open>One round of PollingInitDataStore: the answer to the query, then whether the polling duration is over.
  None: the loop still runs when the rounds are over.\<close>

definition zero_DataStoreInit :: DataStoreInit where
  "zero_DataStoreInit = \<lparr>di_StoreNumber = 0, di_DurationDataStoreId = 0, di_Index = 0, di_DataCommitment = 0, di_MsgHash = 0,
     di_ReferenceBlockNumber = 0, di_InitTime = 0, di_ExpireTime = 0, di_Duration = 0, di_StorePeriodLength = 0, di_Fee = 0,
     di_Header = [], di_Confirmer = [], di_InitTxHash = 0, di_InitGasUsed = 0, di_InitBlockNumber = 0\<rparr>"

fun PollingInitDataStore :: "(DataStoreInit result \<times> bool) list \<Rightarrow> (DataStoreInit \<times> bool) result option" where
  "PollingInitDataStore [] = None"
| "PollingInitDataStore ((answer, exit) # rounds) =
     (case answer of
        Ok ds \<Rightarrow> Some (Ok (ds, True))
      | Panic p \<Rightarrow> Some (Panic p)
      | Err e \<Rightarrow> if exit then Some (Ok (zero_DataStoreInit, False)) else PollingInitDataStore rounds)"

text \<open>PollingConfirmDataStore counts the ticks of a second and asks nothing.  The first argument is the
  number of ticks that are still to come.\<close>

fun confirm_loop :: "nat \<Rightarrow> 32 word \<Rightarrow> 32 word \<Rightarrow> (DataStoreConfirm option \<times> bool) option" where
  "confirm_loop 0 retry done_ticks = None"
| "confirm_loop (Suc n) retry done_ticks =
     (let count' = done_ticks + 1 in if count' = retry then Some (None, False) else confirm_loop n retry count')"

definition PollingConfirmDataStore :: "nat \<Rightarrow> 32 word \<Rightarrow> (DataStoreConfirm option \<times> bool) option" where
  "PollingConfirmDataStore ticks retry = confirm_loop ticks retry 0"

section \<open>Waiting for the node\<close>

record GraphClient =
  gc_Endpoint :: string

definition NewGraphClient :: "string \<Rightarrow> GraphClient" where
  "NewGraphClient e = \<lparr>gc_Endpoint = e\<rparr>"

definition SetEndpoint :: "string \<Rightarrow> GraphClient \<Rightarrow> GraphClient" where
  "SetEndpoint e g = g\<lparr>gc_Endpoint := e\<rparr>"

text \<open>Durations in nanoseconds; int64 does not overflow here, the interval stays below 600 seconds.\<close>

definition second :: int where "second = 1000000000"
definition maxInterval :: int where "maxInterval = 5 * 60 * second"

text \<open>The loop of WaitForSubgraph: the i-th check, the interval, the intervals slept so far.\<close>

partial_function (option) wait_loop :: "(nat \<Rightarrow> unit result) \<Rightarrow> nat \<Rightarrow> int \<Rightarrow> int list \<Rightarrow> (unit result \<times> int list) option" where
  "wait_loop check i interval slept =
     (case check i of
        Ok u \<Rightarrow> Some (Ok (), slept)
      | Panic p \<Rightarrow> Some (Panic p, slept)
      | Err e \<Rightarrow>
          (let interval' = interval * 2 in
           if interval' > maxInterval then Some (Err ErrSubgraphTimeout, slept)
           else wait_loop check (i + 1) interval' (slept @ [interval'])))"

definition WaitForSubgraph :: "(nat \<Rightarrow> unit result) \<Rightarrow> (unit result \<times> int list) option" where
  "WaitForSubgraph check = wait_loop check 0 second []"

section \<open>Properties\<close>

lemma confirm_loop_ticks:
  "confirm_loop n retry c = (if unat (retry - c - 1) < n then Some (None, False) else None)"
proof (induction n arbitrary: c)
  case (Suc n)
  show ?case
  proof (cases "c + 1 = retry")
    case True
    then have "retry - c - 1 = 0" by auto
    then show ?thesis using True by simp
  next
    case False
    then have x: "retry - c - 1 \<noteq> 0" by (auto simp: algebra_simps)
    have "retry - (c + 1) - 1 = (retry - c - 1) - 1" by (simp add: algebra_simps)
    then have "Suc (unat (retry - (c + 1) - 1)) = unat (retry - c - 1)" using x unat_minus_one[OF x] unat_gt_0[of "retry - c - 1"] by simp
    then show ?thesis using False Suc.IH[of "c + 1"] by (auto simp: Let_def)
  qed
qed simp

text \<open>Polling for a confirmation returns at the tick of its retry count, or only after two to the 32 ticks
  when that is zero, and what it returns is always that there is none: it never asks the node.\<close>

lemma polling_confirm:
  "PollingConfirmDataStore ticks retry
    = (if (if retry = 0 then 2 ^ 32 else unat retry) \<le> ticks then Some (None, False) else None)"
proof -
  have "Suc (unat (retry - 1)) = (if retry = 0 then 2 ^ 32 else unat retry)"
  proof (cases "retry = 0")
    case True
    have "unat (- 1 :: 32 word) = 4294967295" by (simp add: unsigned_minus_1_eq_mask mask_eq_exp_minus_1)
    then show ?thesis using True by simp
  next
    case False
    then show ?thesis using unat_minus_one[OF False] unat_gt_0[of retry] by simp
  qed
  then show ?thesis by (simp add: PollingConfirmDataStore_def confirm_loop_ticks Suc_le_eq[symmetric])
qed

lemma wait_loop_fails:
  assumes "\<And>j. j < k \<Longrightarrow> \<exists>e. check (i + j) = Err e" "2 ^ k * interval \<le> maxInterval" "0 < interval"
  shows "wait_loop check i interval slept
    = wait_loop check (i + k) (2 ^ k * interval) (slept @ map (\<lambda>j. 2 ^ Suc j * interval) [0..<k])"
  using assms
proof (induction k)
  case (Suc k)
  have "(2::int) ^ k * interval \<le> maxInterval" using Suc.prems(2,3) by (auto intro: order_trans[rotated])
  then have IH: "wait_loop check i interval slept
    = wait_loop check (i + k) (2 ^ k * interval) (slept @ map (\<lambda>j. 2 ^ Suc j * interval) [0..<k])"
    using Suc by (intro Suc.IH) auto
  obtain e where e: "check (i + k) = Err e" using Suc.prems(1)[of k] by auto
  show ?case
    unfolding IH by (subst wait_loop.simps) (use e Suc.prems(2) in \<open>simp add: Let_def mult.commute mult.left_commute\<close>)
qed simp

text \<open>Waiting for the graph node ends after at most nine checks: at the first check that succeeds, after
  waits that double from two seconds on, or with a timeout when nine checks have failed.\<close>

lemma wait_for_subgraph:
  assumes "n \<le> 9" "\<forall>j < n. \<exists>e. check j = Err e" "n \<le> 8 \<longrightarrow> check n = Ok ()"
  shows "WaitForSubgraph check
    = Some (if n \<le> 8 then Ok () else Err ErrSubgraphTimeout, map (\<lambda>j. 2 ^ Suc j * second) [0..<min n 8])"
proof -
  have pow: "(2::int) ^ min n 8 \<le> 256"
    using power_increasing[of "min n 8" 8 "2::int"] by simp
  have "WaitForSubgraph check = wait_loop check (min n 8) (2 ^ min n 8 * second) (map (\<lambda>j. 2 ^ Suc j * second) [0..<min n 8])"
    using wait_loop_fails[of "min n 8" check 0 second "[]"] assms pow
    by (simp add: WaitForSubgraph_def second_def maxInterval_def)
  also have "\<dots> = Some (if n \<le> 8 then Ok () else Err ErrSubgraphTimeout, map (\<lambda>j. 2 ^ Suc j * second) [0..<min n 8])"
  proof (cases "n \<le> 8")
    case True
    then show ?thesis using assms(3) by (subst wait_loop.simps) (simp add: min_def)
  next
    case False
    then have n: "n = 9" using assms(1) by simp
    obtain e where "check 8 = Err e" using assms(2)[rule_format, of 8] n by auto
    then show ?thesis using n by (subst wait_loop.simps) (simp add: second_def maxInterval_def Let_def)
  qed
  finally show ?thesis .
qed

end
