(* ===== verification/Keys.thy ===== *)
theory Keys
  imports Operators Deposit
begin


text \<open>
  synchronizer/mantle-da/common/crypto/bls: keys on the curve bn254, hashing to the curve, signatures, registrations and the
  points as bytes.  The arithmetic of the curve is a library: \<open>curve_lib\<close> is what the code calls of it.  An element
  of the base field is the number below the modulus that it stands for, and so is one of the scalars.
\<close>

section \<open>The curve\<close>

type_synonym point1 = "int G1Affine"
type_synonym point2 = "int G2Affine"

record curve_lib =
  fp_Modulus :: int
  fr_Modulus :: int
  ModSqrt :: "int \<Rightarrow> int \<Rightarrow> int option"
  ScalarMultiplication1 :: "point1 \<Rightarrow> int \<Rightarrow> point1"
  ScalarMultiplication2 :: "point2 \<Rightarrow> int \<Rightarrow> point2"
  Neg1 :: "point1 \<Rightarrow> point1"
  PairingCheck :: "point1 list \<Rightarrow> point2 list \<Rightarrow> bool result"
  bls_Keccak256 :: "bytes \<Rightarrow> bytes"
  PointBytes :: "point1 \<Rightarrow> bytes"

definition GetG1Generator :: point1 where "GetG1Generator = \<lparr>g1_X = 1, g1_Y = 2\<rparr>"

definition GetG2Generator :: point2 where
  "GetG2Generator =
     \<lparr>g2_X_A0 = 10857046999023057135944570762232829481370756359578518086990519993285655852781,
      g2_X_A1 = 11559732032986387107991004021392285783925812861821192530917403151452391805634,
      g2_Y_A0 = 8495653923123431417604973247489272438418190587263600148770280649306958101930,
      g2_Y_A1 = 4082367875863433681332203403145435568316851327593401208105741076214120093531\<rparr>"

definition mulByGeneratorG1 :: "curve_lib \<Rightarrow> int \<Rightarrow> point1" where
  "mulByGeneratorG1 C a = ScalarMultiplication1 C GetG1Generator a"

definition mulByGeneratorG2 :: "curve_lib \<Rightarrow> int \<Rightarrow> point2" where
  "mulByGeneratorG2 C a = ScalarMultiplication2 C GetG2Generator a"

section \<open>Keys\<close>

record BlsKeyPair =
  secretKey :: int
  PublicKey :: point1

definition BlsKeysFromSecretKey :: "curve_lib \<Rightarrow> int \<Rightarrow> BlsKeyPair result" where
  "BlsKeysFromSecretKey C sk = Ok \<lparr>secretKey = sk, PublicKey = mulByGeneratorG1 C sk\<rparr>"

text \<open>The text of a key is read by the library; an element is a number reduced to the field.\<close>

definition BlsKeysFromString :: "curve_lib \<Rightarrow> (string \<Rightarrow> int result) \<Rightarrow> string \<Rightarrow> BlsKeyPair result" where
  "BlsKeysFromString C read sk = bindR (read sk) (\<lambda>n. BlsKeysFromSecretKey C (n mod fr_Modulus C))"

definition max_secret :: int where
  "max_secret = 21888242871839275222246405745257275088548364400416034343698204186575808495617"

text \<open>rand.Int draws a number below \<open>max_secret\<close>.\<close>

definition GenRandomBlsKeys :: "curve_lib \<Rightarrow> (int \<Rightarrow> int result) \<Rightarrow> BlsKeyPair result" where
  "GenRandomBlsKeys C rand = bindR (rand max_secret) (\<lambda>n. BlsKeysFromSecretKey C (n mod fr_Modulus C))"

definition GetPubKeyG1Bytes :: "curve_lib \<Rightarrow> BlsKeyPair \<Rightarrow> bytes" where
  "GetPubKeyG1Bytes C k = PointBytes C (PublicKey k)"

definition GetPubKeyPointG2 :: "curve_lib \<Rightarrow> BlsKeyPair \<Rightarrow> point2" where
  "GetPubKeyPointG2 C k = mulByGeneratorG2 C (secretKey k)"

section \<open>Hashing to the curve\<close>

text \<open>The loop of MapToCurve; None if it never ends.\<close>

definition curve_y2 :: "curve_lib \<Rightarrow> int \<Rightarrow> int" where
  "curve_y2 C x = (x ^ 3 mod fp_Modulus C + 3) mod fp_Modulus C"

partial_function (option) map_loop :: "curve_lib \<Rightarrow> int \<Rightarrow> point1 option" where
  "map_loop C x =
     (case ModSqrt C (curve_y2 C x) (fp_Modulus C) of
        None \<Rightarrow> map_loop C ((x + 1) mod fp_Modulus C)
      | Some y \<Rightarrow> Some \<lparr>g1_X = x mod fp_Modulus C, g1_Y = y mod fp_Modulus C\<rparr>)"

definition MapToCurve :: "curve_lib \<Rightarrow> bytes \<Rightarrow> point1 result option" where
  "MapToCurve C digest =
     (if length digest \<noteq> 32 then Some (Panic ''exit status 1'')
      else map_option Ok (map_loop C (SetBytes digest)))"

definition HashToCurve :: "curve_lib \<Rightarrow> bytes \<Rightarrow> point1 result option" where
  "HashToCurve C data = MapToCurve C (bls_Keccak256 C data)"

section \<open>Signatures\<close>

definition SignMessage :: "curve_lib \<Rightarrow> BlsKeyPair \<Rightarrow> bytes \<Rightarrow> point1 result option" where
  "SignMessage C k headerHash =
     (if length headerHash \<noteq> 32 then Some (Panic ''exit status 1'')
      else map_option (\<lambda>r. bindR r (\<lambda>H. Ok (ScalarMultiplication1 C H (secretKey k)))) (MapToCurve C headerHash))"

definition VerifyBlsSig :: "curve_lib \<Rightarrow> point1 \<Rightarrow> point2 \<Rightarrow> bytes \<Rightarrow> bool result option" where
  "VerifyBlsSig C sig pubkey msgBytes =
     map_option (\<lambda>r. bindR r (\<lambda>msgPoint.
       (case PairingCheck C [msgPoint, Neg1 C sig] [pubkey, GetG2Generator] of
          Ok b \<Rightarrow> Ok b
        | Err e \<Rightarrow> Ok False
        | Panic p \<Rightarrow> Panic p))) (MapToCurve C msgBytes)"

definition CheckG1AndG2DiscreteLogEquality :: "curve_lib \<Rightarrow> point1 \<Rightarrow> point2 \<Rightarrow> bool result" where
  "CheckG1AndG2DiscreteLogEquality C pointG1 pointG2 =
     PairingCheck C [pointG1, Neg1 C GetG1Generator] [GetG2Generator, pointG2]"

section \<open>Points as bytes\<close>

definition SerializeG1 :: "point1 \<Rightarrow> bytes" where
  "SerializeG1 p = be_bytes 32 (g1_X p) @ be_bytes 32 (g1_Y p)"

text \<open>Element.SetBytes reduces the number; a slice past the end panics.\<close>

definition element_bytes :: "curve_lib \<Rightarrow> bytes \<Rightarrow> int" where
  "element_bytes C b = SetBytes b mod fp_Modulus C"

definition sliceR :: "nat \<Rightarrow> nat \<Rightarrow> bytes \<Rightarrow> bytes result" where
  "sliceR i j b = (if j \<le> length b then Ok (take (j - i) (drop i b)) else Panic ''slice bounds out of range'')"

definition DeserializeG1 :: "curve_lib \<Rightarrow> bytes \<Rightarrow> point1 result" where
  "DeserializeG1 C b =
     bindR (sliceR 0 32 b) (\<lambda>x. bindR (sliceR 32 64 b) (\<lambda>y.
     Ok \<lparr>g1_X = element_bytes C x, g1_Y = element_bytes C y\<rparr>))"

definition SerializeG2 :: "point2 \<Rightarrow> bytes" where
  "SerializeG2 p = be_bytes 32 (g2_X_A0 p) @ be_bytes 32 (g2_X_A1 p) @ be_bytes 32 (g2_Y_A0 p) @ be_bytes 32 (g2_Y_A1 p)"

definition DeserializeG2 :: "curve_lib \<Rightarrow> bytes \<Rightarrow> point2 result" where
  "DeserializeG2 C b =
     bindR (sliceR 0 32 b) (\<lambda>a. bindR (sliceR 32 64 b) (\<lambda>c. bindR (sliceR 64 96 b) (\<lambda>d. bindR (sliceR 96 128 b) (\<lambda>e.
     Ok \<lparr>g2_X_A0 = element_bytes C a, g2_X_A1 = element_bytes C c, g2_Y_A0 = element_bytes C d, g2_Y_A1 = element_bytes C e\<rparr>))))"

definition ConvertFrameBlsKzgToBytes :: "point1 \<Rightarrow> bytes" where
  "ConvertFrameBlsKzgToBytes p = take 64 (SerializeG1 p)"

record G1Point =
  G1_X :: int
  G1_Y :: int

record G2Point =
  G2_X :: "int \<times> int"
  G2_Y :: "int \<times> int"

definition ToG1Point :: "point1 \<Rightarrow> G1Point" where
  "ToG1Point p = \<lparr>G1_X = g1_X p, G1_Y = g1_Y p\<rparr>"

text \<open>The contracts take the parts of an element of the extension in the other order.\<close>

definition ToG2Point :: "point2 \<Rightarrow> G2Point" where
  "ToG2Point p = \<lparr>G2_X = (g2_X_A1 p, g2_X_A0 p), G2_Y = (g2_Y_A1 p, g2_Y_A0 p)\<rparr>"

section \<open>Registration\<close>

definition scalar_bytes :: "curve_lib \<Rightarrow> bytes \<Rightarrow> int" where
  "scalar_bytes C b = SetBytes b mod fr_Modulus C"

definition generateSchnorrChallenge :: "curve_lib \<Rightarrow> address \<Rightarrow> point1 \<Rightarrow> point1 \<Rightarrow> int" where
  "generateSchnorrChallenge C operator pubkey R =
     scalar_bytes C (bls_Keccak256 C (address_bytes operator @ be_bytes 32 (g1_X pubkey) @ be_bytes 32 (g1_Y pubkey) @
       be_bytes 32 (g1_X R) @ be_bytes 32 (g1_Y R)))"

definition schnorr_nonce :: "curve_lib \<Rightarrow> BlsKeyPair \<Rightarrow> int" where
  "schnorr_nonce C k =
     scalar_bytes C (bls_Keccak256 C (be_bytes 32 (secretKey k) @ string_bytes ''registration with bls pubkey registry''))"

definition MakeRegistrationData :: "curve_lib \<Rightarrow> BlsKeyPair \<Rightarrow> address \<Rightarrow> int \<times> G1Point \<times> G2Point" where
  "MakeRegistrationData C k operator =
     (let r = schnorr_nonce C k;
          c = generateSchnorrChallenge C operator (PublicKey k) (mulByGeneratorG1 C r);
          cx = c * secretKey k mod fr_Modulus C;
          s = (r + cx) mod fr_Modulus C in
      (s, ToG1Point (mulByGeneratorG1 C r), ToG2Point (mulByGeneratorG2 C (secretKey k))))"


section \<open>MapToCurve returns\<close>

text \<open>Documented behaviour of ModSqrt: a square root when there is one, and nil otherwise.\<close>

definition modsqrt_documented :: "curve_lib \<Rightarrow> bool" where
  "modsqrt_documented C =
     (\<forall>a. case ModSqrt C a (fp_Modulus C) of
        Some y \<Rightarrow> 0 \<le> y \<and> y < fp_Modulus C \<and> y ^ 2 mod fp_Modulus C = a mod fp_Modulus C
      | None \<Rightarrow> \<not> (\<exists>y. y ^ 2 mod fp_Modulus C = a mod fp_Modulus C))"

definition has_root :: "curve_lib \<Rightarrow> int \<Rightarrow> bool" where
  "has_root C x = (\<exists>y. y ^ 2 mod fp_Modulus C = (x ^ 3 + 3) mod fp_Modulus C)"

lemma curve_y2_mod: "curve_y2 C x mod fp_Modulus C = (x ^ 3 + 3) mod fp_Modulus C"
  by (simp add: curve_y2_def mod_simps)

lemma has_root_mod: "has_root C (x mod fp_Modulus C) = has_root C x"
proof -
  have "((x mod fp_Modulus C) ^ 3 + 3) mod fp_Modulus C = (x ^ 3 + 3) mod fp_Modulus C"
    by (metis mod_add_left_eq power_mod)
  then show ?thesis by (simp add: has_root_def)
qed

lemma modsqrt_cases:
  assumes "modsqrt_documented C"
  shows "(\<not> has_root C x \<and> ModSqrt C (curve_y2 C x) (fp_Modulus C) = None) \<or>
     (\<exists>y. ModSqrt C (curve_y2 C x) (fp_Modulus C) = Some y \<and> 0 \<le> y \<and> y < fp_Modulus C \<and>
        y ^ 2 mod fp_Modulus C = (x ^ 3 + 3) mod fp_Modulus C)"
  using assms[unfolded modsqrt_documented_def, rule_format, of "curve_y2 C x"] curve_y2_mod[of C x]
  by (auto simp: has_root_def split: option.splits)

text \<open>The first number from x on, in the cycle of the field, that has a root: there is one at 1.\<close>

lemma root_at_one: "has_root C 1"
  unfolding has_root_def by (rule exI[of _ 2]) simp

lemma map_loop_returns:
  assumes "modsqrt_documented C" "4 < fp_Modulus C"
  shows "\<exists>k p. map_loop C x = Some p \<and> g1_X p = (x + int k) mod fp_Modulus C \<and> (\<forall>j < k. \<not> has_root C (x + int j)) \<and>
     0 \<le> g1_Y p \<and> g1_Y p < fp_Modulus C \<and> g1_Y p ^ 2 mod fp_Modulus C = (g1_X p ^ 3 + 3) mod fp_Modulus C"
proof (induction "nat ((1 - x) mod fp_Modulus C)" arbitrary: x rule: less_induct)
  case less
  let ?m = "fp_Modulus C"
  from modsqrt_cases[OF assms(1), of x] show ?case
  proof (elim disjE exE conjE)
    fix y assume y: "ModSqrt C (curve_y2 C x) ?m = Some y" "0 \<le> y" "y < ?m" "y ^ 2 mod ?m = (x ^ 3 + 3) mod ?m"
    have "map_loop C x = Some \<lparr>g1_X = x mod ?m, g1_Y = y\<rparr>" using y by (subst map_loop.simps) simp
    moreover have "((x mod ?m) ^ 3 + 3) mod ?m = (x ^ 3 + 3) mod ?m" by (metis mod_add_left_eq power_mod)
    ultimately show ?thesis using y by (intro exI[of _ 0]) auto
  next
    assume none: "\<not> has_root C x" "ModSqrt C (curve_y2 C x) ?m = None"
    let ?x = "(x + 1) mod ?m"
    have "(1 - x) mod ?m \<noteq> 0"
    proof
      assume "(1 - x) mod ?m = 0"
      then have "x mod ?m = 1 mod ?m" by (metis mod_eq_dvd_iff dvd_eq_mod_eq_0 mod_minus_eq minus_diff_eq)
      then show False using none(1) has_root_mod[of C x] has_root_mod[of C 1] root_at_one by simp
    qed
    moreover have "(1 - ?x) mod ?m = ((1 - x) mod ?m - 1) mod ?m" by (simp add: mod_simps algebra_simps)
    moreover have "0 \<le> (1 - x) mod ?m" "(1 - x) mod ?m < ?m" using assms(2) by simp_all
    ultimately have "nat ((1 - ?x) mod ?m) < nat ((1 - x) mod ?m)" by (simp add: mod_pos_pos_trivial)
    from less[OF this] obtain k p where p: "map_loop C ?x = Some p" "g1_X p = (?x + int k) mod ?m"
      "\<forall>j < k. \<not> has_root C (?x + int j)" "0 \<le> g1_Y p" "g1_Y p < ?m" "g1_Y p ^ 2 mod ?m = (g1_X p ^ 3 + 3) mod ?m" by blast
    have "map_loop C x = Some p" using none(2) p(1) by (subst map_loop.simps) simp
    moreover have "g1_X p = (x + int (Suc k)) mod ?m" using p(2) by (simp add: mod_simps algebra_simps)
    moreover have "\<not> has_root C (x + int j)" if "j < Suc k" for j
    proof (cases j)
      case (Suc i)
      have "(?x + int i) mod ?m = (x + int j) mod ?m" using Suc by (simp add: mod_simps algebra_simps)
      then show ?thesis using p(3) that Suc has_root_mod by (metis Suc_less_eq)
    qed (use none(1) in simp)
    ultimately show ?thesis using p(4-6) by blast
  qed
qed

text \<open>C26: MapToCurve returns for every digest of 32 bytes: the loop ends at the first number, counted on from the digest and around the
  field, at which the curve has a point, and that point is on the curve.\<close>

theorem map_to_curve_returns:
  assumes "modsqrt_documented C" "4 < fp_Modulus C" "length digest = 32"
  shows "\<exists>k p. MapToCurve C digest = Some (Ok p) \<and> g1_X p = (SetBytes digest + int k) mod fp_Modulus C \<and>
     (\<forall>j < k. \<not> has_root C (SetBytes digest + int j)) \<and>
     0 \<le> g1_Y p \<and> g1_Y p < fp_Modulus C \<and> g1_Y p ^ 2 mod fp_Modulus C = (g1_X p ^ 3 + 3) mod fp_Modulus C"
  using map_loop_returns[OF assms(1,2), of "SetBytes digest"] assms(3) by (auto simp: MapToCurve_def)

section \<open>Points as bytes\<close>

definition in_field :: "curve_lib \<Rightarrow> int \<Rightarrow> bool" where
  "in_field C x = (0 \<le> x \<and> x < fp_Modulus C)"

lemma element_roundtrip:
  "in_field C x \<Longrightarrow> fp_Modulus C \<le> 2 ^ 256 \<Longrightarrow> element_bytes C (be_bytes 32 x) = x"
  by (simp add: in_field_def element_bytes_def SetBytes_be_bytes)

lemma bytes_roundtrip:
  assumes "length b = 32" "0 < fp_Modulus C" "fp_Modulus C \<le> 2 ^ 256"
  shows "be_bytes 32 (element_bytes C b) = b \<longleftrightarrow> SetBytes b < fp_Modulus C"
proof
  assume "SetBytes b < fp_Modulus C"
  then have "element_bytes C b = SetBytes b" using SetBytes_nonneg[of b] by (simp add: element_bytes_def)
  then show "be_bytes 32 (element_bytes C b) = b" using be_bytes_SetBytes[of b] assms(1) by simp
next
  assume e: "be_bytes 32 (element_bytes C b) = b"
  have r: "0 \<le> element_bytes C b" "element_bytes C b < fp_Modulus C" using assms(2) by (simp_all add: element_bytes_def)
  then have "SetBytes (be_bytes 32 (element_bytes C b)) = element_bytes C b" using assms(3) by (intro SetBytes_be_bytes) auto
  then show "SetBytes b < fp_Modulus C" using e r by simp
qed

text \<open>A point of either group is read back from its bytes.  The other way round, 64 bytes are the bytes of the point read from
  them exactly when both numbers in them are below the modulus: the reading reduces larger ones, so that a point
  has several encodings that are accepted.  Fewer bytes panic.\<close>

lemma point_bytes_roundtrip:
  assumes "4 < fp_Modulus C" "fp_Modulus C \<le> 2 ^ 256"
  shows "(in_field C (g1_X p) \<and> in_field C (g1_Y p) \<longrightarrow> DeserializeG1 C (SerializeG1 p) = Ok p) \<and>
     (in_field C (g2_X_A0 q) \<and> in_field C (g2_X_A1 q) \<and> in_field C (g2_Y_A0 q) \<and> in_field C (g2_Y_A1 q)
        \<longrightarrow> DeserializeG2 C (SerializeG2 q) = Ok q) \<and>
     (length b = 64 \<longrightarrow> (\<exists>u. DeserializeG1 C b = Ok u \<and>
        (SerializeG1 u = b \<longleftrightarrow> SetBytes (take 32 b) < fp_Modulus C \<and> SetBytes (drop 32 b) < fp_Modulus C))) \<and>
     (length b < 64 \<longrightarrow> (\<exists>e. DeserializeG1 C b = Panic e))"
proof (intro conjI impI)
  assume "in_field C (g1_X p) \<and> in_field C (g1_Y p)"
  then show "DeserializeG1 C (SerializeG1 p) = Ok p"
    using assms by (simp add: DeserializeG1_def SerializeG1_def sliceR_def element_roundtrip)
next
  assume "in_field C (g2_X_A0 q) \<and> in_field C (g2_X_A1 q) \<and> in_field C (g2_Y_A0 q) \<and> in_field C (g2_Y_A1 q)"
  then show "DeserializeG2 C (SerializeG2 q) = Ok q"
    using assms by (simp add: DeserializeG2_def SerializeG2_def sliceR_def element_roundtrip)
next
  assume b: "length b = 64"
  let ?x = "take 32 b" and ?y = "drop 32 b"
  let ?u = "\<lparr>g1_X = element_bytes C ?x, g1_Y = element_bytes C ?y\<rparr>"
  have d: "DeserializeG1 C b = Ok ?u" using b by (simp add: DeserializeG1_def sliceR_def)
  have "SerializeG1 ?u = ?x @ ?y \<longleftrightarrow> be_bytes 32 (element_bytes C ?x) = ?x \<and> be_bytes 32 (element_bytes C ?y) = ?y"
    using b by (simp add: SerializeG1_def append_eq_append_conv del: append_take_drop_id)
  then have "SerializeG1 ?u = b \<longleftrightarrow> be_bytes 32 (element_bytes C ?x) = ?x \<and> be_bytes 32 (element_bytes C ?y) = ?y"
    by (simp only: append_take_drop_id)
  then show "\<exists>u. DeserializeG1 C b = Ok u \<and>
        (SerializeG1 u = b \<longleftrightarrow> SetBytes ?x < fp_Modulus C \<and> SetBytes ?y < fp_Modulus C)"
    using d b bytes_roundtrip[of ?x C] bytes_roundtrip[of ?y C] assms by (intro exI[of _ ?u]) simp
next
  assume "length b < 64"
  then show "\<exists>e. DeserializeG1 C b = Panic e" by (simp add: DeserializeG1_def sliceR_def bindR_eq_Panic)
qed


section \<open>A signature is accepted, and nothing else\<close>

text \<open>The points of a curve over the field.\<close>

definition on_curve :: "curve_lib \<Rightarrow> point1 set" where
  "on_curve C = {p. in_field C (g1_X p) \<and> in_field C (g1_Y p) \<and> g1_Y p ^ 2 mod fp_Modulus C = (g1_X p ^ 3 + 3) mod fp_Modulus C}"

text \<open>Documented behaviour of the pairing, with its values as exponents of a generator: \<open>S\<close> is the first group, which has all
  points of the curve, \<open>T\<close> the second, the subgroup of the twist that its generator spans.  On points of the two groups, and
  nothing is said of others, the pairing is linear in both places, and with the generator of the second group it tells the
  points of the first apart.  PairingCheck asks whether the product is one.\<close>

definition pairing_documented :: "curve_lib \<Rightarrow> point1 set \<Rightarrow> point2 set \<Rightarrow> (point1 \<Rightarrow> point2 \<Rightarrow> int) \<Rightarrow> bool" where
  "pairing_documented C S T pl =
     (let r = fr_Modulus C in
      on_curve C \<subseteq> S \<and> GetG2Generator \<in> T \<and> (\<forall>Q \<in> T. \<forall>a. ScalarMultiplication2 C Q a \<in> T) \<and>
      (\<forall>P \<in> S. \<forall>a. ScalarMultiplication1 C P a \<in> S) \<and> (\<forall>P \<in> S. Neg1 C P \<in> S) \<and>
      (\<forall>P \<in> S. \<forall>Q \<in> T. \<forall>a. pl (ScalarMultiplication1 C P a) Q mod r = a * pl P Q mod r) \<and>
      (\<forall>P \<in> S. \<forall>Q \<in> T. pl (Neg1 C P) Q mod r = - pl P Q mod r) \<and>
      (\<forall>P \<in> S. \<forall>Q \<in> T. \<forall>a. pl P (ScalarMultiplication2 C Q a) mod r = a * pl P Q mod r) \<and>
      (\<forall>P \<in> S. \<forall>P' \<in> S. pl P GetG2Generator mod r = pl P' GetG2Generator mod r \<longrightarrow> P = P') \<and>
      (\<forall>P \<in> S. \<forall>P' \<in> S. \<forall>Q \<in> T. \<forall>Q' \<in> T. PairingCheck C [P, P'] [Q, Q'] = Ok ((pl P Q + pl P' Q') mod r = 0)))"

lemma pairingD:
  assumes "pairing_documented C S T pl" "P \<in> S" "Q \<in> T"
  shows "ScalarMultiplication1 C P a \<in> S" "pl (ScalarMultiplication1 C P a) Q mod fr_Modulus C = a * pl P Q mod fr_Modulus C"
    "Neg1 C P \<in> S" "pl (Neg1 C P) Q mod fr_Modulus C = - pl P Q mod fr_Modulus C"
    "ScalarMultiplication2 C Q a \<in> T" "pl P (ScalarMultiplication2 C Q a) mod fr_Modulus C = a * pl P Q mod fr_Modulus C"
    "P' \<in> S \<Longrightarrow> pl P GetG2Generator mod fr_Modulus C = pl P' GetG2Generator mod fr_Modulus C \<Longrightarrow> P = P'"
    "P' \<in> S \<Longrightarrow> Q' \<in> T \<Longrightarrow> PairingCheck C [P, P'] [Q, Q'] = Ok ((pl P Q + pl P' Q') mod fr_Modulus C = 0)"
  using assms unfolding pairing_documented_def Let_def by blast+

text \<open>C27: a key signs every digest of 32 bytes, and against the key's point of the second group exactly this signature is accepted
  of all points of the first group.\<close>

theorem signature_verifies:
  assumes "modsqrt_documented C" "4 < fp_Modulus C" "pairing_documented C S T pl" "length digest = 32"
  shows "\<exists>sig. SignMessage C k digest = Some (Ok sig) \<and> sig \<in> S \<and>
     (\<forall>p \<in> S. VerifyBlsSig C p (GetPubKeyPointG2 C k) digest = Some (Ok (p = sig)))"
proof -
  let ?r = "fr_Modulus C" and ?g = GetG2Generator
  from map_loop_returns[OF assms(1,2), of "SetBytes digest"] obtain H where
    H: "map_loop C (SetBytes digest) = Some H" "H \<in> on_curve C"
    using assms(2) by (auto simp: on_curve_def in_field_def)
  then have m: "MapToCurve C digest = Some (Ok H)" using assms(4) by (simp add: MapToCurve_def)
  have HS: "H \<in> S" using H(2) assms(3) by (auto simp: pairing_documented_def Let_def)
  let ?sig = "ScalarMultiplication1 C H (secretKey k)"
  have G: "?g \<in> T" using assms(3) by (auto simp: pairing_documented_def Let_def)
  note P = pairingD[OF assms(3) _ G]
  have "VerifyBlsSig C p (GetPubKeyPointG2 C k) digest = Some (Ok (p = ?sig))" if p: "p \<in> S" for p
  proof -
    have "pl H (GetPubKeyPointG2 C k) mod ?r = pl ?sig ?g mod ?r"
      using P(2,6)[OF HS] by (simp add: GetPubKeyPointG2_def mulByGeneratorG2_def)
    then have "(pl H (GetPubKeyPointG2 C k) + pl (Neg1 C p) ?g) mod ?r = (pl ?sig ?g - pl p ?g) mod ?r"
      using mod_add_cong[OF _ P(4)[OF p]] by simp
    moreover have "(pl ?sig ?g - pl p ?g) mod ?r = 0 \<longleftrightarrow> pl ?sig ?g mod ?r = pl p ?g mod ?r"
      by (simp add: mod_eq_dvd_iff dvd_eq_mod_eq_0)
    moreover have "pl ?sig ?g mod ?r = pl p ?g mod ?r \<longleftrightarrow> p = ?sig"
      using P(7)[OF p P(1)[OF HS], of "secretKey k"] by auto
    ultimately show ?thesis
      using pairingD(8)[OF assms(3) HS P(5)[OF HS, of "secretKey k"] P(3)[OF p] G]
      by (simp add: VerifyBlsSig_def m GetPubKeyPointG2_def mulByGeneratorG2_def)
  qed
  then show ?thesis using m assms(4) P(1)[OF HS] by (auto simp: SignMessage_def)
qed

text \<open>A registration proves that the key is known: in a group with addition the answer \<open>s\<close> satisfies what the contract
  checks.\<close>

lemma registration_proves_key:
  assumes "\<And>a b. mulByGeneratorG1 C ((a + b) mod fr_Modulus C) = padd (mulByGeneratorG1 C a) (mulByGeneratorG1 C b)"
    and "\<And>a b. mulByGeneratorG1 C (a * b mod fr_Modulus C) = ScalarMultiplication1 C (mulByGeneratorG1 C b) a"
    and "PublicKey k = mulByGeneratorG1 C (secretKey k)" "MakeRegistrationData C k operator = (s, R, pk2)"
  shows "\<exists>Rp. R = ToG1Point Rp \<and> pk2 = ToG2Point (GetPubKeyPointG2 C k) \<and>
     mulByGeneratorG1 C s = padd Rp (ScalarMultiplication1 C (PublicKey k) (generateSchnorrChallenge C operator (PublicKey k) Rp))"
proof -
  let ?Rp = "mulByGeneratorG1 C (schnorr_nonce C k)"
  let ?c = "generateSchnorrChallenge C operator (PublicKey k) ?Rp"
  have d: "s = (schnorr_nonce C k + ?c * secretKey k mod fr_Modulus C) mod fr_Modulus C" "R = ToG1Point ?Rp"
    "pk2 = ToG2Point (GetPubKeyPointG2 C k)"
    using assms(4) by (auto simp: MakeRegistrationData_def Let_def GetPubKeyPointG2_def)
  have "mulByGeneratorG1 C s = padd ?Rp (mulByGeneratorG1 C (?c * secretKey k mod fr_Modulus C))"
    unfolding d(1) by (rule assms(1))
  also have "mulByGeneratorG1 C (?c * secretKey k mod fr_Modulus C) = ScalarMultiplication1 C (PublicKey k) ?c"
    unfolding assms(2,3) by (rule refl)
  finally show ?thesis using d by blast
qed

section \<open>A small curve\<close>

text \<open>The same equation over the field of seven elements has twelve points, which with the one at infinity, written (0, 0), are a
  cyclic group of order 13; the table gives them by their logarithm.\<close>

definition toy_points :: "point1 list" where
  "toy_points = map (\<lambda>(x, y). \<lparr>g1_X = x, g1_Y = y\<rparr>)
     [(0, 0), (1, 2), (6, 3), (2, 2), (4, 5), (3, 4), (5, 4), (5, 3), (3, 3), (4, 2), (2, 5), (6, 4), (1, 5)]"

fun position :: "point1 list \<Rightarrow> point1 \<Rightarrow> int" where
  "position [] p = 0"
| "position (q # qs) p = (if p = q then 0 else 1 + position qs p)"

definition toy_log :: "point1 \<Rightarrow> int" where "toy_log p = position toy_points p"
definition toy_at :: "int \<Rightarrow> point1" where "toy_at n = toy_points ! nat (n mod 13)"
definition toy_log2 :: "point2 \<Rightarrow> int" where "toy_log2 q = (if q = GetG2Generator then 1 else g2_X_A0 q)"

definition toy_curve :: curve_lib where
  "toy_curve = \<lparr>fp_Modulus = 7, fr_Modulus = 13,
     ModSqrt = (\<lambda>a p. find (\<lambda>y. y ^ 2 mod p = a mod p) [0..p - 1]),
     ScalarMultiplication1 = (\<lambda>p a. toy_at (toy_log p * a)),
     ScalarMultiplication2 = (\<lambda>q a. \<lparr>g2_X_A0 = toy_log2 q * a, g2_X_A1 = 0, g2_Y_A0 = 0, g2_Y_A1 = 0\<rparr>),
     Neg1 = (\<lambda>p. toy_at (- toy_log p)),
     PairingCheck = (\<lambda>ps qs. Ok (sum_list (map2 (\<lambda>p q. toy_log p * toy_log2 q) ps qs) mod 13 = 0)),
     bls_Keccak256 = (\<lambda>b. replicate 32 1), PointBytes = SerializeG1\<rparr>"

lemma toy_log_at: "toy_log (toy_at n) = n mod 13"
proof -
  have "\<forall>i \<in> set [0..12]. toy_log (toy_points ! nat i) = i" by code_simp
  moreover have "n mod 13 \<in> set [0..12]" by simp
  ultimately show ?thesis unfolding toy_at_def by (metis (no_types, lifting))
qed

lemma toy_at_log: "p \<in> set toy_points \<Longrightarrow> toy_at (toy_log p) = p \<and> 0 \<le> toy_log p \<and> toy_log p < 13"
proof -
  have "\<forall>p \<in> set toy_points. toy_at (toy_log p) = p \<and> 0 \<le> toy_log p \<and> toy_log p < 13" by code_simp
  then show "p \<in> set toy_points \<Longrightarrow> toy_at (toy_log p) = p \<and> 0 \<le> toy_log p \<and> toy_log p < 13" by blast
qed

lemma toy_at_point: "toy_at n \<in> set toy_points"
  unfolding toy_at_def by (rule nth_mem) (simp add: toy_points_def nat_less_iff)

lemma toy_roots: "modsqrt_documented toy_curve"
proof -
  have f: "fp_Modulus toy_curve = 7" by (simp add: toy_curve_def)
  have m: "ModSqrt toy_curve a 7 = find (\<lambda>y. y ^ 2 mod 7 = a mod 7) [0..6]" for a by (simp add: toy_curve_def)
  have "(case find (\<lambda>y. y ^ 2 mod 7 = a mod 7) [0..6] of
        Some y \<Rightarrow> 0 \<le> y \<and> y < 7 \<and> y ^ 2 mod 7 = a mod 7
      | None \<Rightarrow> \<not> (\<exists>y. y ^ 2 mod 7 = a mod 7))" for a :: int
  proof (cases "find (\<lambda>y. y ^ 2 mod 7 = a mod 7) [0..6]")
    case None
    then have n: "\<forall>y \<in> set [0..6]. y ^ 2 mod 7 \<noteq> a mod 7" by (simp add: find_None_iff)
    have "y ^ 2 mod 7 \<noteq> a mod 7" for y :: int
    proof -
      have "y mod 7 \<in> set [0..6]" by simp
      from n[rule_format, OF this] show ?thesis by (simp add: power_mod)
    qed
    then show ?thesis using None by simp
  next
    case (Some y)
    then obtain i where "i < length [0..6::int]" "[0..6] ! i = y" "y ^ 2 mod 7 = a mod 7" by (auto simp: find_Some_iff)
    then have "y \<in> set [0..6]" by (metis nth_mem)
    then show ?thesis using Some \<open>y ^ 2 mod 7 = a mod 7\<close> by simp
  qed
  then show ?thesis unfolding modsqrt_documented_def f m by blast
qed

text \<open>The second group: the multiples of the generator, by their logarithm.\<close>

definition toy_points2 :: "point2 set" where
  "toy_points2 = insert GetG2Generator (range (\<lambda>a. \<lparr>g2_X_A0 = a, g2_X_A1 = 0, g2_Y_A0 = 0, g2_Y_A1 = 0\<rparr>))"

lemma toy_pairing: "pairing_documented toy_curve (set toy_points) toy_points2 (\<lambda>p q. toy_log p * toy_log2 q)"
proof -
  have points: "on_curve toy_curve \<subseteq> set toy_points"
  proof
    fix p assume "p \<in> on_curve toy_curve"
    then have p: "g1_X p \<in> set [0..6]" "g1_Y p \<in> set [0..6]" "g1_Y p ^ 2 mod 7 = (g1_X p ^ 3 + 3) mod 7"
      by (auto simp: on_curve_def in_field_def toy_curve_def)
    have "\<forall>x \<in> set [0..6]. \<forall>y \<in> set [0..6]. y ^ 2 mod 7 = (x ^ 3 + 3) mod 7 \<longrightarrow> \<lparr>g1_X = x, g1_Y = y\<rparr> \<in> set toy_points" by code_simp
    from this[rule_format, OF p] show "p \<in> set toy_points" by (cases p) simp
  qed
  have g: "toy_log2 GetG2Generator = 1" by (simp add: toy_log2_def)
  have "p = p'" if "p \<in> set toy_points" "p' \<in> set toy_points" "toy_log p mod 13 = toy_log p' mod 13" for p p'
    using toy_at_log[OF that(1)] toy_at_log[OF that(2)] that(3) by (metis mod_pos_pos_trivial)
  moreover have "toy_log2 (ScalarMultiplication2 toy_curve q a) = toy_log2 q * a" "ScalarMultiplication2 toy_curve q a \<in> toy_points2" for q a
    by (simp_all add: toy_curve_def toy_log2_def GetG2Generator_def toy_points2_def)
  moreover have "GetG2Generator \<in> toy_points2" by (simp add: toy_points2_def)
  ultimately show ?thesis
    unfolding pairing_documented_def Let_def using points g toy_at_point
    by (auto simp: toy_curve_def toy_log_at mod_simps algebra_simps)
qed

theorem map_to_curve_returns_witness:
  "\<exists>p. MapToCurve toy_curve (replicate 31 0 @ [5]) = Some (Ok p) \<and> g1_Y p ^ 2 mod 7 = (g1_X p ^ 3 + 3) mod 7"
  using map_to_curve_returns[OF toy_roots, of "replicate 31 0 @ [5]"] by (auto simp: toy_curve_def)

theorem signature_verifies_witness:
  "\<exists>sig. SignMessage toy_curve \<lparr>secretKey = 5, PublicKey = toy_at 5\<rparr> (replicate 32 9) = Some (Ok sig) \<and>
     VerifyBlsSig toy_curve (toy_at 0) (GetPubKeyPointG2 toy_curve \<lparr>secretKey = 5, PublicKey = toy_at 5\<rparr>) (replicate 32 9) = Some (Ok (toy_at 0 = sig))"
  using signature_verifies[OF toy_roots _ toy_pairing, of "replicate 32 9" "\<lparr>secretKey = 5, PublicKey = toy_at 5\<rparr>"] toy_at_point
  by (auto simp: toy_curve_def)

end
