(* ===== verification/Logging.thy ===== *)
theory Logging
  imports Configuration
begin


text \<open>
  Logging: common/log (the level and the format of the log from the flags, the handler whose level can be changed, the writer
  that logs what is written to it line by line), common/cliapp/flag.go (copies of flags), and of
  synchronizer/mantle-da/common the logger with its two outputs and the correlation identifiers of its calls.
  The logging libraries are parameters: how they read a level, and what they do with a line.
\<close>

section \<open>The writer\<close>

text \<open>A logger has one method for each level.  Text is a list of bytes.\<close>

record 'o logger =
  lg_Trace :: "bytes \<Rightarrow> ('o, unit) go"
  lg_Debug :: "bytes \<Rightarrow> ('o, unit) go"
  lg_Info :: "bytes \<Rightarrow> ('o, unit) go"
  lg_Warn :: "bytes \<Rightarrow> ('o, unit) go"
  lg_Error :: "bytes \<Rightarrow> ('o, unit) go"
  lg_Crit :: "bytes \<Rightarrow> ('o, unit) go"

text \<open>The levels of go-ethereum's log package: the lower the more critical.\<close>

definition LvlCrit :: int where "LvlCrit = 0"
definition LvlError :: int where "LvlError = 1"
definition LvlWarn :: int where "LvlWarn = 2"
definition LvlInfo :: int where "LvlInfo = 3"
definition LvlDebug :: int where "LvlDebug = 4"
definition LvlTrace :: int where "LvlTrace = 5"

lemmas lvl_defs = LvlCrit_def LvlError_def LvlWarn_def LvlInfo_def LvlDebug_def LvlTrace_def

record 'o log_Writer =
  lw_log :: "bytes \<Rightarrow> ('o, unit) go"
  lw_pending :: bytes

definition unknown_level :: bytes where "unknown_level = string_bytes ''Unknown log level. Using Error''"

definition NewWriter :: "'o logger \<Rightarrow> int \<Rightarrow> ('o, 'o log_Writer) go" where
  "NewWriter l lvl =
     (if lvl = LvlTrace then retG \<lparr>lw_log = lg_Trace l, lw_pending = []\<rparr>
      else if lvl = LvlDebug then retG \<lparr>lw_log = lg_Debug l, lw_pending = []\<rparr>
      else if lvl = LvlInfo then retG \<lparr>lw_log = lg_Info l, lw_pending = []\<rparr>
      else if lvl = LvlWarn then retG \<lparr>lw_log = lg_Warn l, lw_pending = []\<rparr>
      else if lvl = LvlError then retG \<lparr>lw_log = lg_Error l, lw_pending = []\<rparr>
      else if lvl = LvlCrit then retG \<lparr>lw_log = lg_Crit l, lw_pending = []\<rparr>
      else thenG (lg_Error l unknown_level) (retG \<lparr>lw_log = lg_Error l, lw_pending = []\<rparr>))"

text \<open>The writer's lines go to the logger; the state is the writer's pending bytes beside the logger's.\<close>

definition newline :: byte where "newline = 10"

definition write_byte :: "(bytes \<Rightarrow> ('o, unit) go) \<Rightarrow> byte \<Rightarrow> (bytes \<times> 'o, unit) go" where
  "write_byte log c = (\<lambda>(pending, out).
     if c = newline then (let (r, out') = log pending out in
       (r, (case r of Ok _ \<Rightarrow> [] | _ \<Rightarrow> pending, out')))
     else (Ok (), (pending @ [c], out)))"

definition Writer_Write :: "(bytes \<Rightarrow> ('o, unit) go) \<Rightarrow> bytes \<Rightarrow> (bytes \<times> 'o, nat) go" where
  "Writer_Write log b = thenG (forG (write_byte log) b) (retG (length b))"

definition Writer_Close :: "(bytes \<Rightarrow> ('o, unit) go) \<Rightarrow> (bytes \<times> 'o, unit) go" where
  "Writer_Close log = (\<lambda>(pending, out).
     if length pending > 0 then (let (r, out') = log pending out in
       (r, (case r of Ok _ \<Rightarrow> [] | _ \<Rightarrow> pending, out')))
     else (Ok (), (pending, out)))"

text \<open>The texts written and the close.\<close>

definition write_chunk :: "(bytes \<Rightarrow> ('o, unit) go) \<Rightarrow> bytes \<Rightarrow> (bytes \<times> 'o, unit) go" where
  "write_chunk log b = bindG (Writer_Write log b) (\<lambda>_. retG ())"

definition write_all :: "(bytes \<Rightarrow> ('o, unit) go) \<Rightarrow> bytes list \<Rightarrow> (bytes \<times> 'o, unit) go" where
  "write_all log chunks = thenG (forG (write_chunk log) chunks) (Writer_Close log)"

definition appends :: "(bytes \<Rightarrow> (bytes list, unit) go) \<Rightarrow> bool" where
  "appends log = (\<forall>line out. log line out = (Ok (), out @ [line]))"

text \<open>The lines of a text, and what follows the last newline.\<close>

fun lines_from :: "bytes \<Rightarrow> bytes \<Rightarrow> bytes list \<times> bytes" where
  "lines_from pending [] = ([], pending)"
| "lines_from pending (c # cs) =
     (if c = newline then (let (ls, rest) = lines_from [] cs in (pending # ls, rest)) else lines_from (pending @ [c]) cs)"

lemma write_bytes:
  assumes "appends log"
  shows "forG (write_byte log) b (pending, out)
    = (Ok (), (snd (lines_from pending b), out @ fst (lines_from pending b)))"
proof (induction b arbitrary: pending out)
  case Nil
  then show ?case by (simp add: retG_def)
next
  case (Cons c b)
  have "log pending out = (Ok (), out @ [pending])" using assms by (simp add: appends_def)
  then show ?case using Cons.IH by (auto simp: thenG_def bindG_def write_byte_def split: prod.splits)
qed

lemma lines_from_append:
  "lines_from p (xs @ ys) = (fst (lines_from p xs) @ fst (lines_from (snd (lines_from p xs)) ys), snd (lines_from (snd (lines_from p xs)) ys))"
  by (induction p xs rule: lines_from.induct) (auto split: prod.splits)

lemma write_chunks:
  assumes "appends log"
  shows "forG (write_chunk log) chunks (pending, out)
    = (Ok (), (snd (lines_from pending (concat chunks)), out @ fst (lines_from pending (concat chunks))))"
proof (induction chunks arbitrary: pending out)
  case Nil
  then show ?case by (simp add: retG_def)
next
  case (Cons b chunks)
  have "write_chunk log b (pending, out) = (Ok (), (snd (lines_from pending b), out @ fst (lines_from pending b)))"
    by (simp add: write_chunk_def Writer_Write_def thenG_def bindG_def write_bytes[OF assms] retG_def)
  then show ?case by (simp add: thenG_def bindG_def Cons.IH lines_from_append retG_def)
qed

lemma lines_from_text:
  assumes "newline \<notin> set p"
  shows "concat (map (\<lambda>l. l @ [newline]) (fst (lines_from p b))) @ snd (lines_from p b) = p @ b
    \<and> (\<forall>l \<in> set (fst (lines_from p b)). newline \<notin> set l) \<and> newline \<notin> set (snd (lines_from p b))"
  using assms by (induction p b rule: lines_from.induct) (auto split: prod.splits)

text \<open>What is written to the writer is logged as the lines of its text, however it is divided into writes: no line has
  a newline in it, the lines in order, each followed by one, are the text, where the close ends a last line that
  is not ended, and nothing is left pending.\<close>

lemma writer_logs_lines:
  assumes "appends log"
  shows "\<exists>ls. write_all log chunks ([], out) = (Ok (), ([], out @ ls)) \<and> (\<forall>l \<in> set ls. newline \<notin> set l) \<and>
     concat (map (\<lambda>l. l @ [newline]) ls)
       = concat chunks @ (if concat chunks = [] \<or> last (concat chunks) = newline then [] else [newline])"
proof -
  let ?b = "concat chunks"
  let ?ls = "fst (lines_from [] ?b)" and ?rest = "snd (lines_from [] ?b)"
  let ?all = "?ls @ (if ?rest = [] then [] else [?rest])"
  have t: "concat (map (\<lambda>l. l @ [newline]) ?ls) @ ?rest = ?b" "\<forall>l \<in> set ?ls. newline \<notin> set l" "newline \<notin> set ?rest"
    using lines_from_text[of "[]" ?b] by simp_all
  have e: "(?b = [] \<or> last ?b = newline) = (?rest = [])"
  proof (cases "?rest = []")
    case True
    then have "?b = concat (map (\<lambda>l. l @ [newline]) ?ls)" using t(1) by simp
    then show ?thesis using True by (cases ?ls rule: rev_cases) auto
  next
    case False
    then have "last ?b = last ?rest" using t(1) by (metis last_appendR)
    then show ?thesis using False t(1,3) by (metis append_is_Nil_conv last_in_set)
  qed
  have "log ?rest (out @ ?ls) = (Ok (), (out @ ?ls) @ [?rest])" using assms by (simp add: appends_def)
  then have "write_all log chunks ([], out) = (Ok (), ([], out @ ?all))"
    by (simp add: write_all_def thenG_def bindG_def write_chunks[OF assms] Writer_Close_def)
  moreover have "concat (map (\<lambda>l. l @ [newline]) ?all) = ?b @ (if ?b = [] \<or> last ?b = newline then [] else [newline])"
    unfolding e using t(1) by (auto simp: append_assoc[symmetric] simp del: append_assoc)
  ultimately show ?thesis using t(2,3) by (intro exI[of _ ?all]) auto
qed

section \<open>Handlers\<close>

record log_record =
  lr_Lvl :: int
  lr_Msg :: string

record 'o DynamicLogHandler =
  dh_Handler :: "log_record \<Rightarrow> ('o, unit) go"
  dh_maxLvl :: int

definition NewDynamicLogHandler :: "int \<Rightarrow> (log_record \<Rightarrow> ('o, unit) go) \<Rightarrow> 'o DynamicLogHandler" where
  "NewDynamicLogHandler lvl h = \<lparr>dh_Handler = h, dh_maxLvl = lvl\<rparr>"

definition SetLogLevel :: "int \<Rightarrow> 'o DynamicLogHandler \<Rightarrow> 'o DynamicLogHandler" where
  "SetLogLevel lvl d = d\<lparr>dh_maxLvl := lvl\<rparr>"

definition Dynamic_Log :: "'o DynamicLogHandler \<Rightarrow> log_record \<Rightarrow> ('o, unit) go" where
  "Dynamic_Log d r = (if lr_Lvl r > dh_maxLvl d then retG () else dh_Handler d r)"

section \<open>Flags of the log\<close>

definition LevelFlagName :: string where "LevelFlagName = ''log.level''"
definition FormatFlagName :: string where "FormatFlagName = ''log.format''"
definition ColorFlagName :: string where "ColorFlagName = ''log.color''"

text \<open>What the log library reads and writes of levels.\<close>

record lvl_lib =
  LvlFromString :: "string \<Rightarrow> int result"
  Lvl_String :: "int \<Rightarrow> string result"

text \<open>The value of a generic flag: a level, a format, or one that cannot be cloned.\<close>

datatype generic_value = LvlValue int | FormatValue string | OtherGeneric nat

definition LvlFlagValue_Set :: "lvl_lib \<Rightarrow> string \<Rightarrow> (int, unit) go" where
  "LvlFlagValue_Set L value = (\<lambda>fv.
     (case LvlFromString L (ToLower value) of
        Ok lvl \<Rightarrow> (Ok (), lvl)
      | Err e \<Rightarrow> (Err e, fv)
      | Panic p \<Rightarrow> (Panic p, fv)))"

definition LvlFlagValue_String :: "lvl_lib \<Rightarrow> int \<Rightarrow> string result" where
  "LvlFlagValue_String L fv = Lvl_String L fv"

definition FormatText :: string where "FormatText = ''text''"
definition FormatTerminal :: string where "FormatTerminal = ''terminal''"
definition FormatLogFmt :: string where "FormatLogFmt = ''logfmt''"
definition FormatJSON :: string where "FormatJSON = ''json''"
definition FormatJSONPretty :: string where "FormatJSONPretty = ''json-pretty''"

lemmas format_defs = FormatText_def FormatTerminal_def FormatLogFmt_def FormatJSON_def FormatJSONPretty_def

definition FormatFlagValue_Set :: "string \<Rightarrow> (string, unit) go" where
  "FormatFlagValue_Set value = (\<lambda>fv.
     if value \<in> {FormatText, FormatTerminal, FormatLogFmt, FormatJSON, FormatJSONPretty} then (Ok (), value)
     else (Err (Msg (''unrecognized log-format: '' @ value)), fv))"

text \<open>The formats of the log library.\<close>

datatype log_format = JSONFormat | JSONFormatEx bool bool | TerminalFormat bool | LogfmtFormat

definition Formatter :: "bool \<Rightarrow> string \<Rightarrow> bool \<Rightarrow> log_format result" where
  "Formatter stdout_is_terminal ft color =
     (if ft = FormatJSON then Ok JSONFormat
      else if ft = FormatJSONPretty then Ok (JSONFormatEx True True)
      else if ft = FormatText then Ok (if stdout_is_terminal then TerminalFormat color else LogfmtFormat)
      else if ft = FormatTerminal then Ok (TerminalFormat color)
      else if ft = FormatLogFmt then Ok LogfmtFormat
      else Panic ''failed to create `log.Format` for format-type'')"

record CLIConfig =
  lc_Level :: int
  lc_Color :: bool
  lc_Format :: string

definition DefaultCLIConfig :: "bool \<Rightarrow> CLIConfig" where
  "DefaultCLIConfig stdout_is_terminal = \<lparr>lc_Level = LvlInfo, lc_Color = stdout_is_terminal, lc_Format = FormatText\<rparr>"

text \<open>ReadCLIConfig asserts the types of the values it finds under the names of the flags.\<close>

fun as_level :: "generic_value option \<Rightarrow> int result" where
  "as_level (Some (LvlValue n)) = Ok n"
| "as_level _ = Panic ''interface conversion''"

fun as_format :: "generic_value option \<Rightarrow> string result" where
  "as_format (Some (FormatValue f)) = Ok f"
| "as_format _ = Panic ''interface conversion''"

definition ReadCLIConfig :: "bool \<Rightarrow> (string \<Rightarrow> generic_value option) \<Rightarrow> (string \<Rightarrow> bool option) \<Rightarrow> CLIConfig result" where
  "ReadCLIConfig stdout_is_terminal generics bools =
     bindR (as_level (generics LevelFlagName)) (\<lambda>level.
     bindR (as_format (generics FormatFlagName)) (\<lambda>format.
     let cfg = (DefaultCLIConfig stdout_is_terminal)\<lparr>lc_Level := level, lc_Format := format\<rparr> in
     Ok (case bools ColorFlagName of None \<Rightarrow> cfg | Some b \<Rightarrow> cfg\<lparr>lc_Color := b\<rparr>)))"

text \<open>The handler of a logger; \<open>stream\<close> is what the library writes of a record in a format.\<close>

definition NewLogHandler :: "bool \<Rightarrow> (log_format \<Rightarrow> log_record \<Rightarrow> ('o, unit) go) \<Rightarrow> CLIConfig \<Rightarrow> 'o DynamicLogHandler result" where
  "NewLogHandler stdout_is_terminal stream cfg =
     bindR (Formatter stdout_is_terminal (lc_Format cfg) (lc_Color cfg)) (\<lambda>f. Ok (NewDynamicLogHandler (lc_Level cfg) (stream f)))"

text \<open>A format that the flag has accepted makes a handler, whatever the flag held before.\<close>

lemma accepted_format_works:
  assumes "FormatFlagValue_Set value old = (Ok (), f)"
  shows "\<exists>fmt. Formatter term f color = Ok fmt"
proof -
  have "f \<in> {FormatText, FormatTerminal, FormatLogFmt, FormatJSON, FormatJSONPretty}"
    using assms by (auto simp: FormatFlagValue_Set_def split: if_splits)
  then show ?thesis by (auto simp: Formatter_def)
qed

text \<open>A refused value leaves the flag as it was.\<close>

lemma refused_value_keeps:
  "FormatFlagValue_Set value old = (r, f) \<Longrightarrow> r \<noteq> Ok () \<Longrightarrow> f = old"
  "LvlFlagValue_Set L value lvl = (r', l) \<Longrightarrow> r' \<noteq> Ok () \<Longrightarrow> l = lvl"
  by (auto simp: FormatFlagValue_Set_def LvlFlagValue_Set_def split: if_splits result.splits)

text \<open>What a logger writes follows the level as it is when the record comes.\<close>

lemma level_decides:
  assumes "NewLogHandler term stream cfg = Ok d"
  shows "Dynamic_Log (SetLogLevel lvl d) r = (if lr_Lvl r \<le> lvl then dh_Handler d r else retG ())"
    "Dynamic_Log d r = (if lr_Lvl r \<le> lc_Level cfg then dh_Handler d r else retG ())"
  using assms by (auto simp: NewLogHandler_def Dynamic_Log_def SetLogLevel_def NewDynamicLogHandler_def bindR_eq_Ok)

section \<open>Copies of flags\<close>

text \<open>A generic flag points to its value.  The values are in cells, addressed by their place.\<close>

datatype app_flag = GenericFlag string nat | PlainFlag string

text \<open>CLIFlags of common/log makes a flag of each kind, with values of its own.\<close>

definition log_CLIFlags :: "(generic_value list, app_flag list) go" where
  "log_CLIFlags = (\<lambda>cells. (Ok [GenericFlag LevelFlagName (length cells), GenericFlag FormatFlagName (Suc (length cells)),
      PlainFlag ColorFlagName], cells @ [LvlValue LvlInfo, FormatValue FormatText]))"

fun Clone :: "generic_value \<Rightarrow> generic_value option" where
  "Clone (LvlValue n) = Some (LvlValue n)"
| "Clone (FormatValue f) = Some (FormatValue f)"
| "Clone (OtherGeneric n) = None"

fun cloneFlag :: "app_flag \<Rightarrow> (generic_value list, app_flag) go" where
  "cloneFlag (GenericFlag name a) = (\<lambda>cells.
     (case Clone (cells ! a) of
        Some v \<Rightarrow> (Ok (GenericFlag name (length cells)), cells @ [v])
      | None \<Rightarrow> (Err (Msg ''cannot clone Generic value''), cells)))"
| "cloneFlag (PlainFlag name) = retG (PlainFlag name)"

fun ProtectFlags :: "app_flag list \<Rightarrow> (generic_value list, app_flag list) go" where
  "ProtectFlags [] = retG []"
| "ProtectFlags (f # fs) = (\<lambda>cells.
     (case cloneFlag f cells of
        (Ok fCopy, cells') \<Rightarrow> bindG (ProtectFlags fs) (\<lambda>out. retG (fCopy # out)) cells'
      | (Err e, cells') \<Rightarrow> (Panic ''failed to clone flag'', cells')
      | (Panic p, cells') \<Rightarrow> (Panic p, cells')))"

text \<open>A run of the app sets the values of some of its flags.\<close>

fun set_flag :: "app_flag \<times> generic_value \<Rightarrow> generic_value list \<Rightarrow> generic_value list" where
  "set_flag (GenericFlag name a, v) cells = cells[a := v]"
| "set_flag (PlainFlag name, v) cells = cells"

definition run_app :: "(app_flag \<times> generic_value) list \<Rightarrow> generic_value list \<Rightarrow> generic_value list" where
  "run_app sets cells = foldl (\<lambda>cs s. set_flag s cs) cells sets"

fun flag_preset :: "generic_value list \<Rightarrow> app_flag \<Rightarrow> generic_value option" where
  "flag_preset cells (GenericFlag name a) = Some (cells ! a)"
| "flag_preset cells (PlainFlag name) = None"

fun flag_at :: "app_flag \<Rightarrow> nat \<Rightarrow> bool" where
  "flag_at (GenericFlag name a) n = (a < n)"
| "flag_at (PlainFlag name) n = True"

fun flag_fresh :: "nat \<Rightarrow> app_flag \<Rightarrow> bool" where
  "flag_fresh n (GenericFlag name a) = (n \<le> a)"
| "flag_fresh n (PlainFlag name) = True"

lemma Clone_same: "Clone v = Some u \<Longrightarrow> u = v"
  by (cases v) auto

lemma flag_preset_append: "flag_at f (length cells) \<Longrightarrow> flag_preset (cells @ new) f = flag_preset cells f"
  by (cases f) (auto simp: nth_append)

lemma ProtectFlags_copies:
  assumes "ProtectFlags fs cells = (Ok out, cells')" "\<forall>f \<in> set fs. flag_at f (length cells)"
  shows "\<exists>new. cells' = cells @ new \<and> (\<forall>f \<in> set out. flag_fresh (length cells) f \<and> flag_at f (length cells'))
    \<and> map (flag_preset cells') out = map (flag_preset cells) fs"
  using assms
proof (induction fs arbitrary: cells out)
  case Nil
  then show ?case by (auto simp: retG_def)
next
  case (Cons f fs)
  obtain fCopy c1 where c: "cloneFlag f cells = (Ok fCopy, c1)"
    using Cons.prems(1) by (auto split: prod.splits result.splits)
  have one: "\<exists>n1. c1 = cells @ n1 \<and> flag_fresh (length cells) fCopy \<and> flag_at fCopy (length c1) \<and> flag_preset c1 fCopy = flag_preset cells f"
    using c by (cases f) (auto simp: retG_def dest: Clone_same split: option.splits)
  then obtain n1 where n1: "c1 = cells @ n1" by blast
  obtain out' where o: "ProtectFlags fs c1 = (Ok out', cells')" "out = fCopy # out'"
    using Cons.prems(1) c by (auto simp: bindG_def retG_def split: prod.splits result.splits)
  have "\<forall>f \<in> set fs. flag_at f (length c1)"
  proof
    fix g assume "g \<in> set fs"
    then have "flag_at g (length cells)" using Cons.prems(2) by simp
    then show "flag_at g (length c1)" using n1 by (cases g) auto
  qed
  from Cons.IH[OF o(1) this] obtain new where r: "cells' = c1 @ new"
    "\<forall>f \<in> set out'. flag_fresh (length c1) f \<and> flag_at f (length cells')" "map (flag_preset cells') out' = map (flag_preset c1) fs" by blast
  have "flag_fresh (length cells) f" if "flag_fresh (length c1) f" for f using that n1 by (cases f) auto
  moreover have "flag_at fCopy (length cells')" using one r(1) by (cases fCopy) auto
  moreover have "flag_preset cells' fCopy = flag_preset cells f" using one r(1) flag_preset_append by metis
  moreover have "map (flag_preset c1) fs = map (flag_preset cells) fs" using Cons.prems(2) n1 by (auto intro: flag_preset_append)
  ultimately show ?case using r n1 o(2) one by auto
qed

lemma run_app_keeps:
  assumes "\<forall>s \<in> set sets. flag_fresh n (fst s)" "a < n"
  shows "run_app sets cells ! a = cells ! a"
  using assms
proof (induction sets arbitrary: cells)
  case Nil
  then show ?case by (simp add: run_app_def)
next
  case (Cons s sets)
  obtain f v where s: "s = (f, v)" by (metis surj_pair)
  have "set_flag s cells ! a = cells ! a" using Cons.prems s by (cases f) auto
  then show ?case using Cons.IH[of "set_flag s cells"] Cons.prems by (simp add: run_app_def)
qed

text \<open>A copy of the flags that ProtectFlags has made starts with the values of the flags, and whatever an app that runs with
  the copy sets, the flags keep their own values, so that the next run starts with them again.\<close>

lemma protected_flags_keep:
  assumes "ProtectFlags fs cells = (Ok out, cells')" "\<forall>f \<in> set fs. flag_at f (length cells)" "\<forall>s \<in> set sets. fst s \<in> set out"
  shows "map (flag_preset cells') out = map (flag_preset cells) fs \<and>
     map (flag_preset (run_app sets cells')) fs = map (flag_preset cells) fs"
proof -
  obtain new where p: "cells' = cells @ new" "\<forall>f \<in> set out. flag_fresh (length cells) f \<and> flag_at f (length cells')"
    "map (flag_preset cells') out = map (flag_preset cells) fs" using ProtectFlags_copies[OF assms(1,2)] by blast
  have "flag_preset (run_app sets cells') f = flag_preset cells f" if "f \<in> set fs" for f
  proof (cases f)
    case (GenericFlag name a)
    then have "a < length cells" using assms(2) that by auto
    moreover have "run_app sets cells' ! a = cells' ! a"
      by (rule run_app_keeps[of _ "length cells"]) (use p(2) assms(3) \<open>a < length cells\<close> in auto)
    ultimately show ?thesis using GenericFlag p(1) by (simp add: nth_append)
  qed simp
  then show ?thesis using p(3) by simp
qed

text \<open>Without the copy a run changes what the next one starts with.\<close>

lemma unprotected_flag_changes:
  "let (r, cells) = log_CLIFlags [] in
     flag_preset (run_app [(GenericFlag LevelFlagName 0, LvlValue LvlTrace)] cells) (GenericFlag LevelFlagName 0) \<noteq> Some (LvlValue LvlInfo)"
  by (simp add: log_CLIFlags_def run_app_def lvl_defs)

section \<open>Correlation identifiers\<close>

text \<open>The fields of a context are keys and values in turn, of any type.\<close>

datatype any_field = StringField string | NilField | OtherField nat

type_synonym metadata = "string \<rightharpoonup> string list"

record grpc_ctx =
  gc_fields :: "any_field list"
  gc_outgoing :: "metadata option"
  gc_incoming :: "metadata option"

definition CorrelationIDKey :: string where "CorrelationIDKey = ''correlation-id''"

text \<open>The library's operations on fields: AppendUnique, and what InjectFields stores over the fields that are there.\<close>

record fields_lib =
  AppendUnique :: "any_field list \<Rightarrow> any_field list \<Rightarrow> any_field list"
  InjectFields :: "any_field list \<Rightarrow> any_field list \<Rightarrow> any_field list"

text \<open>Sixteen random bytes, when the system gives them.\<close>

definition generateCorrelationID :: "bytes option \<Rightarrow> string" where
  "generateCorrelationID random = (case random of None \<Rightarrow> [] | Some b \<Rightarrow> EncodeToString b)"

text \<open>The loop of the client's interceptors over the fields.\<close>

fun correlation_in :: "any_field list \<Rightarrow> string result" where
  "correlation_in [] = Ok []"
| "correlation_in [k] = (if k = StringField CorrelationIDKey then Panic ''index out of range'' else Ok [])"
| "correlation_in (k # v # rest) =
     (if k = StringField CorrelationIDKey then (case v of StringField c \<Rightarrow> Ok c | _ \<Rightarrow> Panic ''interface conversion'')
      else correlation_in rest)"

definition or_empty :: "metadata option \<Rightarrow> metadata" where
  "or_empty m = (case m of None \<Rightarrow> Map.empty | Some md \<Rightarrow> md)"

definition client_ctx :: "bytes option \<Rightarrow> grpc_ctx \<Rightarrow> grpc_ctx result" where
  "client_ctx random ctx =
     bindR (correlation_in (gc_fields ctx)) (\<lambda>found.
     let correlationID = (if found = [] then generateCorrelationID random else found) in
     Ok (ctx\<lparr>gc_outgoing := Some ((or_empty (gc_outgoing ctx))(CorrelationIDKey \<mapsto> [correlationID]))\<rparr>))"

definition correlationIdUnaryClientInterceptor :: "bytes option \<Rightarrow> (grpc_ctx \<Rightarrow> 'a result) \<Rightarrow> grpc_ctx \<Rightarrow> 'a result" where
  "correlationIdUnaryClientInterceptor random invoker ctx = bindR (client_ctx random ctx) invoker"

definition correlationIdStreamClientInterceptor :: "bytes option \<Rightarrow> (grpc_ctx \<Rightarrow> 'a result) \<Rightarrow> grpc_ctx \<Rightarrow> 'a result" where
  "correlationIdStreamClientInterceptor random streamer ctx = bindR (client_ctx random ctx) streamer"

definition md_Get :: "metadata \<Rightarrow> string \<Rightarrow> string list" where
  "md_Get md k = (case md k of None \<Rightarrow> [] | Some vs \<Rightarrow> vs)"

definition server_ctx :: "fields_lib \<Rightarrow> bytes option \<Rightarrow> grpc_ctx \<Rightarrow> grpc_ctx" where
  "server_ctx F random ctx =
     (let md = or_empty (gc_incoming ctx);
          (correlationID, md') =
            (case md_Get md CorrelationIDKey of
               [] \<Rightarrow> (generateCorrelationID random, md(CorrelationIDKey \<mapsto> [generateCorrelationID random]))
             | c # _ \<Rightarrow> (c, md));
          fields = AppendUnique F (gc_fields ctx) [StringField CorrelationIDKey, StringField correlationID] in
      ctx\<lparr>gc_fields := InjectFields F (gc_fields ctx) fields, gc_incoming := Some md'\<rparr>)"

definition correlationIdUnaryServerInterceptor :: "fields_lib \<Rightarrow> bytes option \<Rightarrow> (grpc_ctx \<Rightarrow> 'a result) \<Rightarrow> grpc_ctx \<Rightarrow> 'a result" where
  "correlationIdUnaryServerInterceptor F random handler ctx = handler (server_ctx F random ctx)"

definition correlationIdStreamServerInterceptor :: "fields_lib \<Rightarrow> bytes option \<Rightarrow> (grpc_ctx \<Rightarrow> 'a result) \<Rightarrow> grpc_ctx \<Rightarrow> 'a result" where
  "correlationIdStreamServerInterceptor F random handler ctx = handler (server_ctx F random ctx)"

section \<open>The logger with two outputs\<close>

text \<open>zerolog: a level is a number, the higher the more critical; a logger writes a line to its outputs with its
  level, and has fields of its own.\<close>

record LevelWriter =
  lv_level :: int

definition LevelWriter_WriteLevel :: "LevelWriter \<Rightarrow> int \<Rightarrow> bytes \<Rightarrow> (bytes list, nat) go" where
  "LevelWriter_WriteLevel w level p = (\<lambda>out. if level \<ge> lv_level w then (Ok (length p), out @ [p]) else (Ok (length p), out))"

definition LevelWriter_Write :: "LevelWriter \<Rightarrow> bytes \<Rightarrow> (bytes list, nat) go" where
  "LevelWriter_Write w p = (\<lambda>out. (Ok (length p), out @ [p]))"

record log_Config =
  lo_Path :: string
  lo_Prefix :: string
  lo_FileLevel :: string
  lo_StdLevel :: string

definition logging_DefaultCLIConfig :: log_Config where
  "logging_DefaultCLIConfig = \<lparr>lo_Path = [], lo_Prefix = [], lo_FileLevel = ''debug'', lo_StdLevel = ''debug''\<rparr>"

definition Config_Check :: "(string \<Rightarrow> int result) \<Rightarrow> log_Config \<Rightarrow> unit result" where
  "Config_Check ParseLevel cfg =
     (case ParseLevel (lo_FileLevel cfg) of
        Err e \<Rightarrow> Err (Msg ''unrecognized file log level'')
      | Panic p \<Rightarrow> Panic p
      | Ok _ \<Rightarrow> (case ParseLevel (lo_StdLevel cfg) of
            Err e \<Rightarrow> Err (Msg ''unrecognized stdout log level'')
          | Panic p \<Rightarrow> Panic p
          | Ok _ \<Rightarrow> Ok ()))"

definition PathFlagName :: string where "PathFlagName = ''log.path''"
definition FileLevelFlagName :: string where "FileLevelFlagName = ''log.level-file''"
definition StdLevelFlagName :: string where "StdLevelFlagName = ''log.level-std''"

definition logging_ReadCLIConfig :: "(string \<Rightarrow> string) \<Rightarrow> log_Config" where
  "logging_ReadCLIConfig GlobalString = logging_DefaultCLIConfig
     \<lparr>lo_StdLevel := GlobalString StdLevelFlagName, lo_FileLevel := GlobalString FileLevelFlagName, lo_Path := GlobalString PathFlagName\<rparr>"

text \<open>The flags and their presets: the preset of the path is the word text.\<close>

definition logging_CLIFlags :: "string \<Rightarrow> (string \<times> string \<times> string) list" where
  "logging_CLIFlags envPrefix =
     [(StdLevelFlagName, ''info'', envPrefix @ ''_STD_LOG_LEVEL''), (FileLevelFlagName, ''info'', envPrefix @ ''_FILE_LOG_LEVEL''),
      (PathFlagName, ''text'', envPrefix @ ''_LOG_PATH'')]"

text \<open>A logger: the level below which it drops lines, its writer for the file if it has one, its writer for the standard error
  if it filters there, and its fields.\<close>

record zlog =
  zl_level :: "int option"
  zl_file :: "LevelWriter option"
  zl_std :: "LevelWriter option"
  zl_fields :: "(string \<times> string) list"

definition GetLogger :: "(string \<Rightarrow> int result) \<Rightarrow> (string \<Rightarrow> unit result) \<Rightarrow> (string \<Rightarrow> unit result) \<Rightarrow> log_Config \<Rightarrow> zlog result" where
  "GetLogger ParseLevel MkdirAll OpenFile cfg =
     bindR (ParseLevel (lo_FileLevel cfg)) (\<lambda>fileLevel.
     bindR (ParseLevel (lo_StdLevel cfg)) (\<lambda>stdLevel.
     if lo_Path cfg \<noteq> [] then
       (case MkdirAll (lo_Path cfg) of
          Err e \<Rightarrow> Panic ''Could not create logger directory''
        | Panic p \<Rightarrow> Panic p
        | Ok _ \<Rightarrow> bindR (OpenFile (lo_Path cfg)) (\<lambda>_.
            Ok \<lparr>zl_level = None, zl_file = Some \<lparr>lv_level = fileLevel\<rparr>, zl_std = Some \<lparr>lv_level = stdLevel\<rparr>, zl_fields = []\<rparr>))
     else Ok \<lparr>zl_level = Some stdLevel, zl_file = None, zl_std = None, zl_fields = []\<rparr>))"

text \<open>What a line of a level does to the file and the standard error.\<close>

definition log_line :: "zlog \<Rightarrow> int \<Rightarrow> bytes \<Rightarrow> bytes list \<times> bytes list \<Rightarrow> bytes list \<times> bytes list" where
  "log_line l level p = (\<lambda>(file, std).
     if (case zl_level l of None \<Rightarrow> False | Some n \<Rightarrow> level < n) then (file, std)
     else ((case zl_file l of None \<Rightarrow> file | Some w \<Rightarrow> snd (LevelWriter_WriteLevel w level p file)),
           (case zl_std l of None \<Rightarrow> std @ [p] | Some w \<Rightarrow> snd (LevelWriter_WriteLevel w level p std))))"

definition Sublogger :: "string \<Rightarrow> zlog \<Rightarrow> zlog" where
  "Sublogger loc l = l\<lparr>zl_fields := zl_fields l @ [(''loc'', loc)]\<rparr>"

text \<open>SubloggerId: a key that is not a string and a key without a value panic; a logger that is nil stays nil
  when the context has no identifier, and panics when it has one.\<close>

fun field_values :: "any_field list \<Rightarrow> (string \<rightharpoonup> any_field) \<Rightarrow> (string \<rightharpoonup> any_field) result" where
  "field_values [] vals = Ok vals"
| "field_values [k] vals = Panic ''index out of range''"
| "field_values (k # v # rest) vals =
     (case k of StringField s \<Rightarrow> field_values rest (vals(s \<mapsto> v)) | _ \<Rightarrow> Panic ''interface conversion'')"

definition SubloggerId :: "grpc_ctx \<Rightarrow> zlog option \<Rightarrow> zlog option result" where
  "SubloggerId ctx l =
     bindR (field_values (gc_fields ctx) Map.empty) (\<lambda>vals.
     (case vals CorrelationIDKey of
        None \<Rightarrow> Ok l
      | Some NilField \<Rightarrow> Ok l
      | Some (OtherField n) \<Rightarrow> Panic ''interface conversion''
      | Some (StringField c) \<Rightarrow>
          (case l of
             None \<Rightarrow> Panic ''nil dereference''
           | Some z \<Rightarrow> Ok (Some (z\<lparr>zl_fields := zl_fields z @ [(CorrelationIDKey, c)]\<rparr>)))))"

text \<open>Each output gets the lines of its level and above.\<close>

lemma two_outputs:
  assumes "GetLogger ParseLevel MkdirAll OpenFile cfg = Ok l" "ParseLevel (lo_FileLevel cfg) = Ok f" "ParseLevel (lo_StdLevel cfg) = Ok s"
  shows "log_line l level p (file, std) =
     ((if lo_Path cfg \<noteq> [] \<and> level \<ge> f then file @ [p] else file), (if level \<ge> s then std @ [p] else std))"
  using assms by (auto simp: GetLogger_def bindR_eq_Ok log_line_def LevelWriter_WriteLevel_def split: if_splits result.splits)

lemma nil_logger: "SubloggerId ctx None = Ok l \<Longrightarrow> l = None"
proof -
  assume "SubloggerId ctx None = Ok l"
  then obtain vals where "(case vals CorrelationIDKey of None \<Rightarrow> Ok None | Some NilField \<Rightarrow> Ok None | Some (OtherField n) \<Rightarrow> Panic ''interface conversion''
      | Some (StringField c) \<Rightarrow> Panic ''nil dereference'') = Ok l" by (auto simp: SubloggerId_def bindR_eq_Ok cong: option.case_cong any_field.case_cong)
  then show ?thesis by (cases "vals CorrelationIDKey") (auto split: any_field.splits)
qed

section \<open>An identifier goes with a request\<close>

fun field_of :: "any_field list \<Rightarrow> string \<Rightarrow> any_field option" where
  "field_of (k # v # rest) key = (if k = StringField key then Some v else field_of rest key)"
| "field_of _ key = None"

text \<open>Fields as the library keeps them: keys are strings, each with a value, and no key twice.\<close>

fun field_keys :: "any_field list \<Rightarrow> string list option" where
  "field_keys [] = Some []"
| "field_keys (StringField k # v # rest) = map_option (\<lambda>ks. k # ks) (field_keys rest)"
| "field_keys _ = None"

definition proper_fields :: "any_field list \<Rightarrow> bool" where
  "proper_fields fs = (case field_keys fs of None \<Rightarrow> False | Some ks \<Rightarrow> distinct ks)"

lemma proper_keys: "proper_fields f \<Longrightarrow> \<exists>ks. field_keys f = Some ks \<and> distinct ks"
  by (cases "field_keys f") (auto simp: proper_fields_def)

text \<open>Documented behaviour of the library: AppendUnique keeps the fields that are there and adds those with new keys, and
  the fields injected over some that they extend are found in the context.\<close>

definition fields_documented :: "fields_lib \<Rightarrow> bool" where
  "fields_documented F =
     (\<forall>f g. proper_fields f \<longrightarrow> proper_fields g \<longrightarrow>
        proper_fields (AppendUnique F f g) \<and>
        (\<forall>k. field_of (AppendUnique F f g) k = (case field_of f k of None \<Rightarrow> field_of g k | s \<Rightarrow> s)) \<and>
        ((\<forall>k. field_of f k \<noteq> None \<longrightarrow> field_of g k = field_of f k) \<longrightarrow>
           proper_fields (InjectFields F f g) \<and> (\<forall>k. field_of (InjectFields F f g) k = field_of g k)))"

lemma correlation_in_field:
  "field_keys fs = Some ks \<Longrightarrow> correlation_in fs =
     (case field_of fs CorrelationIDKey of None \<Rightarrow> Ok [] | Some (StringField c) \<Rightarrow> Ok c | Some _ \<Rightarrow> Panic ''interface conversion'')"
  by (induction fs arbitrary: ks rule: field_keys.induct) (auto split: any_field.splits)

lemma field_of_keys: "field_keys fs = Some ks \<Longrightarrow> field_of fs k \<noteq> None \<longleftrightarrow> k \<in> set ks"
  by (induction fs arbitrary: ks rule: field_keys.induct) auto

lemma field_values_lookup:
  "field_keys fs = Some ks \<Longrightarrow> distinct ks \<Longrightarrow> \<exists>vals. field_values fs m = Ok vals
    \<and> (\<forall>k. vals k = (case field_of fs k of None \<Rightarrow> m k | s \<Rightarrow> s))"
proof (induction fs arbitrary: ks m rule: field_keys.induct)
  case (2 k v rest)
  then obtain ks' where ks: "field_keys rest = Some ks'" "ks = k # ks'" by auto
  then have d: "distinct ks'" "k \<notin> set ks'" using 2(3) by auto
  from 2(1)[OF ks(1) d(1), of "m(k \<mapsto> v)"] obtain vals where
    vals: "field_values rest (m(k \<mapsto> v)) = Ok vals" "\<And>j. vals j = (case field_of rest j of None \<Rightarrow> (m(k \<mapsto> v)) j | s \<Rightarrow> s)" by blast
  have "field_of rest k = None" using field_of_keys[OF ks(1), of k] d(2) by simp
  then have "vals j = (case field_of (StringField k # v # rest) j of None \<Rightarrow> m j | s \<Rightarrow> s)" for j
    using vals(2)[of j] by (auto split: option.splits)
  then show ?case using vals(1) by auto
qed auto

text \<open>The call as the server's side sees it; \<open>wire\<close> is what the connection does to the metadata.\<close>

definition received :: "(metadata \<Rightarrow> metadata) \<Rightarrow> grpc_ctx \<Rightarrow> grpc_ctx \<Rightarrow> grpc_ctx" where
  "received wire base client = base\<lparr>gc_incoming := map_option wire (gc_outgoing client)\<rparr>"

text \<open>The identifier of a context: that of its fields, or a new one.\<close>

definition correlation_of :: "bytes option \<Rightarrow> grpc_ctx \<Rightarrow> string" where
  "correlation_of random ctx =
     (case field_of (gc_fields ctx) CorrelationIDKey of
        Some (StringField c) \<Rightarrow> if c = [] then generateCorrelationID random else c
      | _ \<Rightarrow> generateCorrelationID random)"

text \<open>C28: the identifier of a context, or a new one when it has none, goes with every call: the handler's context on the
  server has it, the handler's logger writes it, and the calls the handler makes through the client's
  interceptor send it on, whatever is drawn there.\<close>

theorem correlation_carried:
  assumes "fields_documented F" "proper_fields (gc_fields ctx)" "field_of (gc_fields ctx) CorrelationIDKey \<in> {None} \<union> Some ` range StringField"
    and "proper_fields (gc_fields base)" "field_of (gc_fields base) CorrelationIDKey = None"
    and "\<forall>m. wire m CorrelationIDKey = m CorrelationIDKey" "correlation_of random ctx \<noteq> []"
  shows "\<exists>sent. correlationIdUnaryClientInterceptor random Ok ctx = Ok sent \<and>
     (let handled = server_ctx F r1 (received wire base sent) in
      SubloggerId handled (Some l) = Ok (Some (l\<lparr>zl_fields := zl_fields l @ [(CorrelationIDKey, correlation_of random ctx)]\<rparr>)) \<and>
      (\<exists>next. correlationIdUnaryClientInterceptor r2 Ok handled = Ok next \<and>
         md_Get (or_empty (gc_outgoing next)) CorrelationIDKey = [correlation_of random ctx]))"
proof -
  let ?c = "correlation_of random ctx"
  obtain ks where ks: "field_keys (gc_fields ctx) = Some ks" using assms(2) by (auto simp: proper_fields_def split: option.splits)
  define sent where "sent = ctx\<lparr>gc_outgoing := Some ((or_empty (gc_outgoing ctx))(CorrelationIDKey \<mapsto> [?c]))\<rparr>"
  have one: "client_ctx random ctx = Ok sent"
    using correlation_in_field[OF ks] assms(3)
    by (auto simp: client_ctx_def sent_def correlation_of_def Let_def split: option.splits any_field.splits)
  define handled where "handled = server_ctx F r1 (received wire base sent)"
  let ?new = "[StringField CorrelationIDKey, StringField ?c]"
  let ?app = "AppendUnique F (gc_fields base) ?new"
  have fields: "gc_fields handled = InjectFields F (gc_fields base) ?app"
    using assms(6) by (simp add: handled_def server_ctx_def received_def sent_def or_empty_def md_Get_def Let_def)
  have "proper_fields ?new" by (simp add: proper_fields_def)
  with assms(1,4) have app: "proper_fields ?app"
    "\<forall>k. field_of ?app k = (case field_of (gc_fields base) k of None \<Rightarrow> field_of ?new k | s \<Rightarrow> s)"
    unfolding fields_documented_def by blast+
  then have "\<forall>k. field_of (gc_fields base) k \<noteq> None \<longrightarrow> field_of ?app k = field_of (gc_fields base) k" by auto
  with assms(1,4) app(1) have inj: "proper_fields (gc_fields handled)" "\<forall>k. field_of (gc_fields handled) k = field_of ?app k"
    unfolding fields_documented_def fields by blast+
  have found: "field_of (gc_fields handled) CorrelationIDKey = Some (StringField ?c)" using inj(2) app(2) assms(5) by simp
  obtain hs where hs: "field_keys (gc_fields handled) = Some hs" "distinct hs"
    using inj(1) by (auto simp: proper_fields_def split: option.splits)
  obtain vals where "field_values (gc_fields handled) Map.empty = Ok vals" "vals CorrelationIDKey = Some (StringField ?c)"
    using field_values_lookup[OF hs, of Map.empty] found by auto
  then have "SubloggerId handled (Some l) = Ok (Some (l\<lparr>zl_fields := zl_fields l @ [(CorrelationIDKey, ?c)]\<rparr>))"
    by (simp add: SubloggerId_def)
  moreover have "\<exists>next. client_ctx r2 handled = Ok next \<and> md_Get (or_empty (gc_outgoing next)) CorrelationIDKey = [?c]"
    using correlation_in_field[OF hs(1)] found assms(7) by (simp add: client_ctx_def Let_def or_empty_def md_Get_def)
  ultimately show ?thesis
    using one by (auto simp: correlationIdUnaryClientInterceptor_def handled_def Let_def bindR_eq_Ok)
qed

text \<open>A library that keeps lists of fields.\<close>

fun new_fields :: "any_field list \<Rightarrow> any_field list \<Rightarrow> any_field list" where
  "new_fields f (StringField k # v # rest) =
     (if field_of f k = None then StringField k # v # new_fields f rest else new_fields f rest)"
| "new_fields f _ = []"

definition list_fields :: fields_lib where
  "list_fields = \<lparr>AppendUnique = (\<lambda>f g. f @ new_fields f g), InjectFields = (\<lambda>f g. g)\<rparr>"

lemma field_keys_append: "field_keys f = Some ks \<Longrightarrow> field_keys g = Some gs \<Longrightarrow> field_keys (f @ g) = Some (ks @ gs)"
  by (induction f arbitrary: ks rule: field_keys.induct) auto

lemma field_of_append: "field_keys f = Some ks \<Longrightarrow> field_of (f @ g) k = (case field_of f k of None \<Rightarrow> field_of g k | s \<Rightarrow> s)"
  by (induction f arbitrary: ks rule: field_keys.induct) auto

lemma new_fields_keys: "field_keys g = Some gs \<Longrightarrow> field_keys (new_fields f g) = Some (filter (\<lambda>k. field_of f k = None) gs)"
  by (induction g arbitrary: gs rule: field_keys.induct) auto

lemma new_fields_of: "field_keys g = Some gs \<Longrightarrow> field_of f k = None \<Longrightarrow> field_of (new_fields f g) k = field_of g k"
  by (induction g arbitrary: gs rule: field_keys.induct) auto

lemma list_fields_documented: "fields_documented list_fields"
proof -
  have "proper_fields (f @ new_fields f g) \<and>
      (\<forall>k. field_of (f @ new_fields f g) k = (case field_of f k of None \<Rightarrow> field_of g k | s \<Rightarrow> s))"
    if "proper_fields f" "proper_fields g" for f g
  proof -
    note proper = that
    obtain ks gs where ks: "field_keys f = Some ks" "distinct ks" and gs: "field_keys g = Some gs" "distinct gs"
      using proper_keys[OF proper(1)] proper_keys[OF proper(2)] by blast
    have "field_of f k = None \<longleftrightarrow> k \<notin> set ks" for k using field_of_keys[OF ks(1), of k] by auto
    then have "distinct (ks @ filter (\<lambda>k. field_of f k = None) gs)" using ks gs by auto
    then have "proper_fields (f @ new_fields f g)"
      using field_keys_append[OF ks(1) new_fields_keys[OF gs(1), of f]] by (simp add: proper_fields_def)
    then show ?thesis using field_of_append[OF ks(1)] new_fields_of[OF gs(1), of f] by (auto split: option.splits)
  qed
  then show ?thesis by (simp add: fields_documented_def list_fields_def)
qed

theorem correlation_carried_witness:
  "\<exists>sent next. correlationIdUnaryClientInterceptor (Some [18, 52]) Ok \<lparr>gc_fields = [StringField ''loc'', StringField ''da''], gc_outgoing = None, gc_incoming = None\<rparr> = Ok sent \<and>
     correlationIdUnaryClientInterceptor None Ok
       (server_ctx list_fields None (received id \<lparr>gc_fields = [], gc_outgoing = None, gc_incoming = None\<rparr> sent)) = Ok next \<and>
     md_Get (or_empty (gc_outgoing next)) CorrelationIDKey = [''1234'']"
proof -
  let ?ctx = "\<lparr>gc_fields = [StringField ''loc'', StringField ''da''], gc_outgoing = None, gc_incoming = None\<rparr>"
  let ?base = "\<lparr>gc_fields = [], gc_outgoing = None, gc_incoming = None\<rparr>"
  have c: "correlation_of (Some [18, 52]) ?ctx = ''1234''" by code_simp
  have "proper_fields (gc_fields ?ctx)" "field_of (gc_fields ?ctx) CorrelationIDKey \<in> {None} \<union> Some ` range StringField"
    "proper_fields (gc_fields ?base)" "field_of (gc_fields ?base) CorrelationIDKey = None"
    by (simp_all add: proper_fields_def CorrelationIDKey_def)
  from correlation_carried[OF list_fields_documented this, of id "Some [18, 52]" None undefined None] show ?thesis
    unfolding c by (auto simp: Let_def)
qed

end
