(* ===== verification/GraphQueries.thy ===== *)
theory GraphQueries
  imports Operators Logging
begin


text \<open>
  Queries to the graph node that log what they find (synchronizer/mantle-da/common/graphView/operator.go, polling.go,
  dataStore.go, dataStoreConfirm.go) and the client for data stores (business/mantle_da/datastore.go).  A method of a logger
  that is nil panics.  The answers of the node and of the retriever are parameters.
\<close>

section \<open>Queries that log\<close>

definition write_log :: "zlog option \<Rightarrow> unit result" where
  "write_log l = (case l of None \<Rightarrow> Panic ''nil dereference'' | Some _ \<Rightarrow> Ok ())"

definition QueryOperatorsByStatus :: "zlog option \<Rightarrow> OperatorGql list result \<Rightarrow> OperatorGql list result" where
  "QueryOperatorsByStatus Logger answer =
     (case answer of
        Err e \<Rightarrow> bindR (write_log Logger) (\<lambda>_. Err e)
      | Panic p \<Rightarrow> Panic p
      | Ok ops \<Rightarrow> bindR (write_log Logger) (\<lambda>_. Ok ops))"

definition QueryOperators :: "zlog option \<Rightarrow> OperatorGql list result \<Rightarrow> OperatorGql list result" where
  "QueryOperators Logger answer =
     (case answer of
        Err e \<Rightarrow> bindR (write_log Logger) (\<lambda>_. Err e)
      | Panic p \<Rightarrow> Panic p
      | Ok ops \<Rightarrow> bindR (write_log Logger) (\<lambda>_. Ok ops))"

text \<open>The block goes into the query as text.\<close>

definition QueryOperatorsViewByBlock :: "zlog option \<Rightarrow> grpc_ctx \<Rightarrow> (string \<Rightarrow> OperatorBlockView list result) \<Rightarrow> 32 word
    \<Rightarrow> OperatorBlockView list result" where
  "QueryOperatorsViewByBlock Logger ctx ask blockNumber =
     bindR (SubloggerId ctx Logger) (\<lambda>log.
     (case ask (decimal (unat blockNumber)) of
        Err e \<Rightarrow> bindR (write_log log) (\<lambda>_. Err e)
      | Panic p \<Rightarrow> Panic p
      | Ok ops \<Rightarrow> Ok ops))"

text \<open>The answer of a confirmation is read and dropped.\<close>

definition QueryDataStoreConfirmation :: "zlog option \<Rightarrow> (string \<Rightarrow> DataStoreConfirmGql result) \<Rightarrow> bytes \<Rightarrow> unit result" where
  "QueryDataStoreConfirmation Logger ask headerHash =
     (case ask (EncodeToString headerHash) of
        Err e \<Rightarrow> bindR (write_log Logger) (\<lambda>_. Err e)
      | Panic p \<Rightarrow> Panic p
      | Ok _ \<Rightarrow> Ok ())"

text \<open>The data stores an operator has signed while it was registered.\<close>

definition GetParticipatingDataStores :: "zlog option \<Rightarrow> (string \<Rightarrow> OperatorGql result) \<Rightarrow> (string list \<Rightarrow> string \<Rightarrow> string \<Rightarrow> DataStoreGql list result)
    \<Rightarrow> string \<Rightarrow> GraphDataStore list result" where
  "GetParticipatingDataStores Logger ask_operator ask addr =
     bindR (QueryOperator (ask_operator addr)) (\<lambda>operator.
     (case ask [pk_PubkeyHash (og_Pubkeys operator)] (og_FromBlockNumber operator) (og_ToBlockNumber operator) of
        Err e \<Rightarrow> bindR (write_log Logger) (\<lambda>_. Err e)
      | Panic p \<Rightarrow> Panic p
      | Ok found \<Rightarrow> mapR (\<lambda>dsGql. case DataStoreGql_Convert dsGql of
            Err e \<Rightarrow> bindR (write_log Logger) (\<lambda>_. Err e)
          | r \<Rightarrow> r) found))"

text \<open>PollingInitDataStoreByMsgHash, on the rounds as PollingInitDataStore has them; every round logs.\<close>

fun poll_rounds :: "zlog option \<Rightarrow> (DataStoreInit result \<times> bool) list \<Rightarrow> (DataStoreInit \<times> bool) result option" where
  "poll_rounds log [] = None"
| "poll_rounds log ((answer, exit) # rounds) =
     (case answer of
        Panic p \<Rightarrow> Some (Panic p)
      | Ok ds \<Rightarrow> Some (bindR (write_log log) (\<lambda>_. Ok (ds, True)))
      | Err e \<Rightarrow>
          (case write_log log of
             Ok _ \<Rightarrow> if exit then Some (Ok (zero_DataStoreInit, False)) else poll_rounds log rounds
           | Err e \<Rightarrow> Some (Err e)
           | Panic p \<Rightarrow> Some (Panic p)))"

definition PollingInitDataStoreByMsgHash :: "zlog option \<Rightarrow> grpc_ctx \<Rightarrow> (DataStoreInit result \<times> bool) list \<Rightarrow> (DataStoreInit \<times> bool) result option" where
  "PollingInitDataStoreByMsgHash Logger ctx rounds =
     (case SubloggerId ctx Logger of
        Ok log \<Rightarrow> poll_rounds log rounds
      | Err e \<Rightarrow> Some (Err e)
      | Panic p \<Rightarrow> Some (Panic p))"

section \<open>The client for data stores\<close>

record MantleDataStore =
  mds_Cfg :: DAConfig
  mds_GraphClient :: GraphClient
  mds_Logger :: "zlog option"

definition NewMantleDataStoreConfig :: "DAConfig \<Rightarrow> DAConfig" where
  "NewMantleDataStoreConfig config =
     \<lparr>RetrieverSocket = RetrieverSocket config, RetrieverTimeout = RetrieverTimeout config, GraphProvider = GraphProvider config,
      DataStorePollingDuration = DataStorePollingDuration config\<rparr>"

text \<open>The graph client gets no logger.\<close>

definition NewMantleDataStore :: "DAConfig \<Rightarrow> MantleDataStore result" where
  "NewMantleDataStore cfg = Ok \<lparr>mds_Cfg = cfg, mds_GraphClient = NewGraphClient (GraphProvider cfg), mds_Logger = None\<rparr>"

text \<open>The frames of a data store from the retriever: a connection, and one request on it with room for an answer of
  MAX_RPC_MESSAGE_SIZE bytes. The request has no deadline (the configured RetrieverTimeout is never used): None when it is never
  answered.\<close>

definition MAX_RPC_MESSAGE_SIZE :: nat where "MAX_RPC_MESSAGE_SIZE = 1024 * 1024 * 300"

definition getFramesByDataStoreId :: "(string \<Rightarrow> 'c result) \<Rightarrow> ('c \<Rightarrow> nat \<Rightarrow> 32 word \<Rightarrow> bytes result option) \<Rightarrow> MantleDataStore \<Rightarrow> 32 word
    \<Rightarrow> bytes result option" where
  "getFramesByDataStoreId Dial RetrieveFramesAndData mda dataStoreId =
     (case Dial (RetrieverSocket (mds_Cfg mda)) of
        Ok conn \<Rightarrow> RetrieveFramesAndData conn MAX_RPC_MESSAGE_SIZE dataStoreId
      | Err e \<Rightarrow> Some (Err e)
      | Panic p \<Rightarrow> Some (Panic p))"

section \<open>With a logger and without\<close>

lemma SubloggerId_no_error: "SubloggerId ctx l \<noteq> Err e"
proof -
  have "field_values fs vals \<noteq> Err e" for fs and vals :: "string \<rightharpoonup> any_field"
    by (induction fs vals rule: field_values.induct) (auto split: any_field.splits simp del: fun_upd_apply)
  then show ?thesis by (auto simp: SubloggerId_def bindR_eq_Err split: option.splits any_field.splits)
qed

text \<open>With a logger the two pollings are one, whatever they log.\<close>

lemma polls_agree:
  assumes "SubloggerId ctx (Some l) = Ok log"
  shows "PollingInitDataStoreByMsgHash (Some l) ctx rounds = PollingInitDataStore rounds"
proof -
  obtain vals where "(case vals CorrelationIDKey of None \<Rightarrow> Ok (Some l) | Some NilField \<Rightarrow> Ok (Some l)
      | Some (OtherField n) \<Rightarrow> Panic ''interface conversion''
      | Some (StringField c) \<Rightarrow> Ok (Some (l\<lparr>zl_fields := zl_fields l @ [(CorrelationIDKey, c)]\<rparr>))) = Ok log"
    using assms by (auto simp: SubloggerId_def bindR_eq_Ok cong: option.case_cong any_field.case_cong)
  then obtain z where z: "log = Some z" by (cases "vals CorrelationIDKey") (auto split: any_field.splits)
  have "poll_rounds (Some z) rounds = PollingInitDataStore rounds"
    by (induction rounds rule: PollingInitDataStore.induct) (auto simp: write_log_def split: result.splits)
  then show ?thesis using assms z by (simp add: PollingInitDataStoreByMsgHash_def)
qed

text \<open>The client as the program makes it has no logger, and then no query for operators ever returns: an answer and an
  error of the node both end in a panic, unless the query itself panics; a polling by the message's hash panics in its first round.\<close>

lemma client_without_logger:
  "case NewMantleDataStore cfg of
     Ok mda \<Rightarrow> (\<exists>p. QueryOperators (mds_Logger mda) answer = Panic p) \<and> (\<exists>p. QueryOperatorsByStatus (mds_Logger mda) answer = Panic p) \<and>
       (\<exists>p. QueryOperatorsViewByBlock (mds_Logger mda) ctx (\<lambda>_. Err e) b = Panic p) \<and>
       (\<exists>p. PollingInitDataStoreByMsgHash (mds_Logger mda) ctx (round # rounds) = Some (Panic p))
   | _ \<Rightarrow> False"
proof -
  have "\<exists>p. f (None :: zlog option) = Panic p" if "f = (\<lambda>l. QueryOperators l answer) \<or> f = (\<lambda>l. QueryOperatorsByStatus l answer)" for f
    using that by (auto simp: QueryOperators_def QueryOperatorsByStatus_def write_log_def split: result.splits)
  then have 1: "\<exists>p. QueryOperators None answer = Panic p" "\<exists>p. QueryOperatorsByStatus None answer = Panic p" by auto
  have s: "SubloggerId ctx None = Ok None \<or> (\<exists>p. SubloggerId ctx None = Panic p)"
    using nil_logger[of ctx] SubloggerId_no_error[of ctx None] by (cases "SubloggerId ctx None") auto
  then have "\<exists>p. QueryOperatorsViewByBlock None ctx (\<lambda>_. Err e) b = Panic p"
    by (auto simp: QueryOperatorsViewByBlock_def write_log_def)
  moreover have "\<exists>p. PollingInitDataStoreByMsgHash None ctx (round # rounds) = Some (Panic p)"
    using s by (cases round; cases "fst round") (auto simp: PollingInitDataStoreByMsgHash_def write_log_def)
  ultimately show ?thesis using 1 by (simp add: NewMantleDataStore_def)
qed

end
