(* ===== verification/Migration.thy ===== *)
theory Migration
  imports Crossdomain Complex_Main
begin

text \<open>
  The inputs of the migration (event/processors/bridge/ovm1/crossdomain/witness.go, params.go) and the receipts of the
  legacy chain (legacy.go).  The files' contents, the JSON decoder and the RLP decoder are parameters.
\<close>

section \<open>Files\<close>

text \<open>A file is read and decoded; only a file that cannot be read has its own words.\<close>

definition read_json :: "string \<Rightarrow> bytes result \<Rightarrow> (bytes \<Rightarrow> 'a result) \<Rightarrow> 'a result" where
  "read_json what file unmarshal = bindR (mapErr (Wrap what) file) unmarshal"

definition NewSentMessageFromJSON :: "bytes result \<Rightarrow> (bytes \<Rightarrow> WitnessMessage list result) \<Rightarrow> WitnessMessage list result" where
  "NewSentMessageFromJSON file unmarshal = read_json ''cannot find sent message json'' file unmarshal"

definition NewAddresses :: "bytes result \<Rightarrow> (bytes \<Rightarrow> address list result) \<Rightarrow> OVMETHAddresses result" where
  "NewAddresses file unmarshal =
     bindR (read_json ''cannot find addresses json'' file unmarshal) (\<lambda>addresses.
       Ok (fold (\<lambda>addr ovmeth. ovmeth(addr \<mapsto> True)) addresses Map.empty))"

definition NewAllowances :: "bytes result \<Rightarrow> (bytes \<Rightarrow> Allowance list result) \<Rightarrow> Allowance list result" where
  "NewAllowances file unmarshal = read_json ''cannot find allowances json'' file unmarshal"

record L1SystemContracts =
  L1StandardBridgeProxy :: address
  L1CrossDomainMessengerProxy :: address
  L1ERC721BridgeProxy :: address
  SystemConfigProxy :: address
  OptimismPortalProxy :: address

definition NewL1SystemContracts :: "bytes result \<Rightarrow> (bytes \<Rightarrow> L1SystemContracts result) \<Rightarrow> L1SystemContracts result" where
  "NewL1SystemContracts file unmarshal = read_json ''cannot find l1-system-contracts json'' file unmarshal"

text \<open>The addresses of a migration, in the order the runtime goes through a map, which is a parameter.\<close>

definition MigrationData_Addresses :: "(OVMETHAddresses \<Rightarrow> address list) \<Rightarrow> MigrationData \<Rightarrow> address list" where
  "MigrationData_Addresses keys d = keys (md_EvmAddresses d) @ keys (md_OvmAddresses d)"

text \<open>The parameters of a migration, for the chains that have them.\<close>

record Params =
  ExpectedSupplyDelta :: int

definition ParamsByChainID :: "int \<rightharpoonup> Params" where
  "ParamsByChainID =
     [1 \<mapsto> \<lparr>ExpectedSupplyDelta = 0\<rparr>, 5 \<mapsto> \<lparr>ExpectedSupplyDelta = 0\<rparr>, 11155111 \<mapsto> \<lparr>ExpectedSupplyDelta = 0\<rparr>,
      31337 \<mapsto> \<lparr>ExpectedSupplyDelta = 1000000000000000000 * (- 600000)\<rparr>]"

section \<open>Receipts of the legacy chain\<close>

record LegacyReceipt =
  lr_PostState :: bytes
  lr_Status :: u64
  lr_CumulativeGasUsed :: u64
  lr_Bloom :: bytes
  lr_Logs :: "log list"
  lr_TxHash :: hash
  lr_ContractAddress :: address
  lr_GasUsed :: u64
  lr_BlockHash :: hash
  lr_BlockNumber :: "int option"
  lr_TransactionIndex :: u64
  lr_L1GasPrice :: "int option"
  lr_L1GasUsed :: "int option"
  lr_L1Fee :: "int option"
  lr_FeeScalar :: "rat option"

definition zero_receipt :: LegacyReceipt where
  "zero_receipt = \<lparr>lr_PostState = [], lr_Status = 0, lr_CumulativeGasUsed = 0, lr_Bloom = replicate 256 0, lr_Logs = [], lr_TxHash = 0,
     lr_ContractAddress = 0, lr_GasUsed = 0, lr_BlockHash = 0, lr_BlockNumber = None, lr_TransactionIndex = 0, lr_L1GasPrice = None,
     lr_L1GasUsed = None, lr_L1Fee = None, lr_FeeScalar = None\<rparr>"

record storedReceiptRLP =
  sr_PostStateOrStatus :: bytes
  sr_CumulativeGasUsed :: u64
  sr_Logs :: "log list"
  sr_L1GasUsed :: "int option"
  sr_L1GasPrice :: "int option"
  sr_L1Fee :: "int option"
  sr_FeeScalar :: string

text \<open>The RLP decoder: what the stream gives for the elements of a list in turn, with what it says at its end, and a
  receipt as it is stored.\<close>

record rlp_lib =
  rlp_Elements :: "bytes \<Rightarrow> bytes result list \<times> unit result"
  rlp_Stored :: "bytes \<Rightarrow> storedReceiptRLP result"

definition decodeStoredReceiptRLP :: "rlp_lib \<Rightarrow> LegacyReceipt \<Rightarrow> bytes \<Rightarrow> LegacyReceipt result" where
  "decodeStoredReceiptRLP L r blob = bindR (rlp_Stored L blob) (\<lambda>stored. Ok (r\<lparr>lr_Logs := sr_Logs stored\<rparr>))"

definition LegacyReceipt_DecodeRLP :: "rlp_lib \<Rightarrow> LegacyReceipt \<Rightarrow> bytes result \<Rightarrow> LegacyReceipt result" where
  "LegacyReceipt_DecodeRLP L r raw =
     bindR raw (\<lambda>blob. mapErr (\<lambda>_. Msg ''invalid receipt'') (decodeStoredReceiptRLP L r blob))"

definition ReadLegacyReceipts :: "rlp_lib \<Rightarrow> (hash \<Rightarrow> u64 \<Rightarrow> bytes) \<Rightarrow> hash \<Rightarrow> u64 \<Rightarrow> LegacyReceipt list option result" where
  "ReadLegacyReceipts L ReadReceiptsRLP h number =
     (let data = ReadReceiptsRLP h number; (raws, ended) = rlp_Elements L data in
      if length data = 0 then Ok None
      else mapErr (Wrap ''error decoding legacy receipts'')
        (bindR (mapR (LegacyReceipt_DecodeRLP L zero_receipt) raws) (\<lambda>storageReceipts.
         bindR ended (\<lambda>_. Ok (Some storageReceipts)))))"

text \<open>A receipt has nothing but its logs: the status, the gas and the fees that are stored with it are dropped.\<close>

lemma legacy_receipts_logs:
  assumes "ReadLegacyReceipts L ReadReceiptsRLP h number = Ok (Some rs)"
  shows "list_all2 (\<lambda>raw r. \<exists>blob stored. raw = Ok blob \<and> rlp_Stored L blob = Ok stored
      \<and> r = zero_receipt\<lparr>lr_Logs := sr_Logs stored\<rparr>) (fst (rlp_Elements L (ReadReceiptsRLP h number))) rs"
  using assms
  by (auto simp: ReadLegacyReceipts_def Let_def LegacyReceipt_DecodeRLP_def decodeStoredReceiptRLP_def mapR_Ok_iff list_all2_conv_all_nth
      split: if_splits prod.splits)

section \<open>The messages of a migration\<close>

lemma addresses_of_file:
  assumes "NewAddresses (Ok file) unmarshal = Ok m"
  shows "\<exists>addrs. unmarshal file = Ok addrs \<and> m = (\<lambda>a. if a \<in> set addrs then Some True else None)"
proof -
  have "fold (\<lambda>addr m. m(addr \<mapsto> True)) addrs m0 = (\<lambda>a. if a \<in> set addrs then Some True else m0 a)" for addrs and m0 :: OVMETHAddresses
    by (induction addrs arbitrary: m0) (auto simp: fun_eq_iff)
  then show ?thesis using assms by (auto simp: NewAddresses_def read_json_def)
qed

definition withdrawals_of :: "abi_codec \<Rightarrow> WitnessMessage list \<Rightarrow> LegacyWithdrawal list" where
  "withdrawals_of X ms = List.map_filter (\<lambda>m. case ToLegacyWithdrawal X m of Ok w \<Rightarrow> Some w | _ \<Rightarrow> None) ms"

definition never_panics :: "abi_codec \<Rightarrow> WitnessMessage list \<Rightarrow> bool" where
  "never_panics X = list_all (\<lambda>m. case ToLegacyWithdrawal X m of Panic p \<Rightarrow> False | _ \<Rightarrow> True)"

lemma ovm_messages:
  "mapR (\<lambda>m. mapErr (Wrap e) (ToLegacyWithdrawal X m)) ms = Ok ws
    \<longleftrightarrow> list_all (\<lambda>m. is_ok (ToLegacyWithdrawal X m)) ms \<and> ws = withdrawals_of X ms"
proof (induction ms arbitrary: ws)
  case (Cons m ms)
  then show ?case by (cases "ToLegacyWithdrawal X m") (auto simp: withdrawals_of_def List.map_filter_simps)
qed (auto simp: withdrawals_of_def List.map_filter_simps)

lemma evm_messages:
  "foldR (evm_message X) ms (ws0, bad0) = Ok (ws, bad)
    \<longleftrightarrow> never_panics X ms \<and> ws = ws0 @ withdrawals_of X ms \<and> bad = bad0 @ filter (\<lambda>m. \<not> is_ok (ToLegacyWithdrawal X m)) ms"
proof (induction ms arbitrary: ws0 bad0)
  case (Cons m ms)
  then show ?case
    by (cases "ToLegacyWithdrawal X m") (auto simp: evm_message_def never_panics_def withdrawals_of_def List.map_filter_simps)
qed (auto simp: never_panics_def withdrawals_of_def List.map_filter_simps)

text \<open>C25: the messages of a migration become withdrawals exactly when every message from before the upgrade decodes:
  they then come first, the later messages that decode follow in their order, and those that do not are given back as
  invalid, none lost and none twice.  Only a decoder that panics on a later message stops it.\<close>

theorem migration_messages:
  "ToWithdrawals X d = Ok (ws, bad) \<longleftrightarrow>
     list_all (\<lambda>m. is_ok (ToLegacyWithdrawal X m)) (md_OvmMessages d) \<and> never_panics X (md_EvmMessages d)
     \<and> ws = withdrawals_of X (md_OvmMessages d) @ withdrawals_of X (md_EvmMessages d)
     \<and> bad = filter (\<lambda>m. \<not> is_ok (ToLegacyWithdrawal X m)) (md_EvmMessages d)"
  by (auto simp: ToWithdrawals_def ovm_messages evm_messages)

end
