(* ===== verification/DatabaseUtils.thy ===== *)
theory DatabaseUtils
  imports Logging
begin


text \<open>
  database/utils: what the database library logs of its statements (logger.go), and the header of a block as a column
  stores it (types.go).  The block's RLP encoder is a parameter.
\<close>

section \<open>The log of the statements\<close>

text \<open>strings.Index of a text that is not empty.\<close>

fun Index_of :: "string \<Rightarrow> string \<Rightarrow> nat option" where
  "Index_of [] sub = None"
| "Index_of (c # cs) sub = (if HasPrefix (c # cs) sub then Some 0 else map_option Suc (Index_of cs sub))"

record sql_line =
  sq_Lvl :: int
  sq_duration_ms :: int
  sq_rows_affected :: int
  sq_sql :: string

definition trace_sql :: "string \<Rightarrow> string" where
  "trace_sql sql =
     (case Index_of (ToLower sql) ''values'' of
        Some i \<Rightarrow> if i > 0 then take i sql @ ''VALUES (...)'' else sql
      | None \<Rightarrow> sql)"

definition db_Trace :: "int \<Rightarrow> string \<times> int \<Rightarrow> sql_line" where
  "db_Trace elapsedMs fc =
     (let (sql, rows) = fc in
      \<lparr>sq_Lvl = (if elapsedMs < 200 then LvlDebug else LvlWarn), sq_duration_ms = elapsedMs, sq_rows_affected = rows,
       sq_sql = trace_sql sql\<rparr>)"

lemma Index_of_first:
  "Index_of s sub = Some i \<Longrightarrow> i < length s \<and> HasPrefix (drop i s) sub \<and> (\<forall>j < i. \<not> HasPrefix (drop j s) sub)"
proof (induction s arbitrary: i)
  case (Cons c cs)
  show ?case
  proof (cases "HasPrefix (c # cs) sub")
    case False
    then obtain k where k: "Index_of cs sub = Some k" "i = Suc k" using Cons.prems by auto
    have "\<not> HasPrefix (drop j (c # cs)) sub" if "j < i" for j
      using that Cons.IH[OF k(1)] False k(2) by (cases j) auto
    then show ?thesis using Cons.IH[OF k(1)] k(2) by auto
  qed (use Cons.prems in auto)
qed simp

text \<open>Of a statement with values nothing is logged from their keyword on, in whatever letters it is written, and the keyword that ends
  the text is the first.  A statement that begins with the keyword is logged whole.\<close>

lemma values_not_logged:
  assumes "Index_of (ToLower sql) ''values'' = Some i" "0 < i"
  shows "trace_sql sql = take i sql @ ''VALUES (...)''"
    "i < length sql" "\<forall>j < i. \<not> HasPrefix (drop j (ToLower sql)) ''values''"
  using assms Index_of_first[OF assms(1)] by (auto simp: trace_sql_def ToLower_def)

text \<open>A slow statement is a warning.\<close>

lemma slow_is_warning: "sq_Lvl (db_Trace ms fc) = LvlWarn \<longleftrightarrow> 200 \<le> ms"
  by (auto simp: db_Trace_def case_prod_unfold Let_def LvlWarn_def LvlDebug_def)

section \<open>Stored headers\<close>

record ('h, 'b) block_lib =
  NewBlockWithHeader :: "'h \<Rightarrow> 'b"
  Block_Header :: "'b \<Rightarrow> 'h"
  Block_EncodeRLP :: "'b \<Rightarrow> bytes result"
  Block_DecodeRLP :: "bytes \<Rightarrow> 'b result"

definition RLPHeader_EncodeRLP :: "('h, 'b) block_lib \<Rightarrow> 'h \<Rightarrow> bytes result" where
  "RLPHeader_EncodeRLP L h = Block_EncodeRLP L (NewBlockWithHeader L h)"

definition RLPHeader_DecodeRLP :: "('h, 'b) block_lib \<Rightarrow> bytes \<Rightarrow> ('h, unit) go" where
  "RLPHeader_DecodeRLP L s = (\<lambda>h.
     (case Block_DecodeRLP L s of
        Ok block \<Rightarrow> (Ok (), Block_Header L block)
      | Err e \<Rightarrow> (Err e, h)
      | Panic p \<Rightarrow> (Panic p, h)))"

text \<open>The decoder of blocks gives the header back that was encoded, and a block made with a header has it.\<close>

definition block_documented :: "('h, 'b) block_lib \<Rightarrow> bool" where
  "block_documented L =
     ((\<forall>b bs. Block_EncodeRLP L b = Ok bs \<longrightarrow> (\<exists>b'. Block_DecodeRLP L bs = Ok b' \<and> Block_Header L b' = Block_Header L b)) \<and>
      (\<forall>h. Block_Header L (NewBlockWithHeader L h) = h))"

lemma stored_header_roundtrip:
  "block_documented L \<Longrightarrow> RLPHeader_EncodeRLP L h = Ok bs \<Longrightarrow> RLPHeader_DecodeRLP L bs old = (Ok (), h)"
  unfolding block_documented_def RLPHeader_EncodeRLP_def RLPHeader_DecodeRLP_def by (force split: result.splits)

end
