(* ===== verification/Spec2Isabelle.thy ===== *)
theory Spec2Isabelle
  imports Lifecycle Commands Serializers ExporterProperties ExporterCollector ServiceMetrics WebServer Interrupts Keys GraphQueries
    Migration DatabaseUtils
begin

text \<open>
  Lithosphere is an indexer for the Mantle rollup: one process follows the chains of layer 1 and layer 2,
  stores their headers and the events of the bridge's contracts in a PostgreSQL database, and derives from
  them the deposits, the withdrawals, the state roots and the data stores; a second process serves
  these tables over HTTP, and a third publishes metrics.  This development models the Go code of the
  repository and proves what its parts promise.

  Parts and theories (file names are those under src/).

  Libraries.  Prelude: results of Go calls (a value, an error, a panic), computations on a state that end
  in such a result, wrap-around of the 64-bit integers.  Chain: headers, logs, transactions, receipts.
  TextFormat: numbers, hashes and addresses as text, with their round trips.  Gorm: the statements sent to the database,
  as a record of parameters with their documented behaviour (\<open>gorm_ok\<close>, \<open>transaction_ok\<close>) and an instance
  in memory.  Model: the rows of every table and the state \<open>db\<close>.  UpdateLoop: the loop that updates rows
  one by one, as the locale \<open>row_update\<close>, interpreted for every such loop of the tables.

  Tables.  EventTables (database/common, database/event), BusinessTables and RootTables (database/business,
  database/v1), Checkpoints (database/exporter, database/business/token_list.go and the balance check of
  business/run.go, judged against a ledger of the deposits locked and minted and the withdrawals burned and paid out), Amounts (the grouped sums), Serializers (database/utils/serializers), DatabaseUtils (database/utils: the log
  of the statements, the stored header).

  Following the chains.  BigintUtil (common/bigint), Retry (synchronizer/retry), EthClient and HeaderTraversal
  (synchronizer/node), Synchronizer (synchronizer/synchronizer.go) as a step relation over the ticks of its
  loop, ChainSync (l1_sync.go, l2_sync.go, common/tasks): headers are fetched in order, confirmed and without
  gaps, delivered exactly once, and stored a batch at a time in a transaction.

  Deriving the bridge's tables.  Deposit (event/processors/common), Contracts (event/processors/contracts),
  BridgeProcessors and BridgeProperties (event/processors/bridge, event/processors/stateroot), EventProcessor
  (event/processors/event.go): seven tasks with a cursor each, and what a window of blocks changes.
  GraphView, Operators and GraphQueries (synchronizer/mantle-da/common/graphView), Keys (crypto/bls), MantleDA (business/mantle_da,
  event/processors/mantle-da), BusinessProcessor (business/run.go).  Lifecycle composes the event processor, the business processor and
  the synchronizers into one program and shows that every withdrawal moves along the machine
  \<open>life_step\<close>, whatever the order of the runs.  Crossdomain (event/processors/bridge/ovm1): the withdrawals from
  before the upgrade, their hashes and their migration; Migration: the files a migration reads, the messages it makes
  withdrawals of, and the receipts of the legacy chain.

  Serving and running.  Api (api, cache): parameters, answers and caches of every path.  WebServer (api/common/httputil,
  common/log/http.go, metrics/http.go): the writer that records what a handler writes, the middlewares and the servers, over the
  locale \<open>response_writer\<close>, interpreted for a connection and for the wrapped writer itself, and its extension \<open>server_writer\<close>, the
  writer of the server, behind which the wrapped writer is transparent.  Configuration (flag/flag.go,
  config/config.go): every flag and the configuration that is read from them.  Exporter and ExporterProperties
  (exporter): the rounds of the exporter's loops, as the operations they make on the metrics; ExporterCollector: the metrics
  themselves, and that every operation fits its metric.  Service (lithosphere.go):
  construction, start and stop of the indexer.  Commands (cmd/lithosphere, common/cliapp, api/api.go, database/db.go): the life
  cycle of the commands over the locale \<open>lifecycle\<close>, interpreted for the indexer, the API and the exporter.  Interrupts
  (common/opio, common/util.go): the signals, as a step relation over deliveries and waiting goroutines.

  Measuring and logging.  Metrics (metrics/): registration through the factory and every recorder, over the client library
  \<open>prom\<close>.  BridgeMetrics and ProcessorMetrics (event/processors/bridge/metrics.go and its callers): the processors and the workers
  with their metrics, and that these change nothing else.  ServiceMetrics: the construction of the service with all it
  registers.  Logging (common/log, common/cliapp/flag.go, synchronizer/mantle-da/common/logging and middleware): writers, levels, flags and
  the correlation identifiers of calls.

  How state and operations correspond.  A struct is a record with the source's fields (prefixed where two
  structs share a name), a method is a definition with the method's name.  A method with a result and an error
  is a function into \<open>result\<close>; one that writes is a computation \<open>go\<close> on the state it changes.  A panic is
  an outcome of its own, and the tasks that recover from it say so.  Statements, connections, the ABI decoder,
  Keccak-256, clocks, uuids and random draws are parameters; where a theorem needs something of them, the hypothesis
  states their documented behaviour and the witness supplies an instance that computes.  The theories of the
  tables, the chains and the processors leave metrics and log lines out; \<open>metrics_transparent\<close> of ProcessorMetrics justifies it for the workers' metrics.

  What the lemmas show.  For each table: what a statement stores, updates or returns, on every branch.  For the
  chains: order, completeness, confirmation and consistency of what is delivered and stored, and how errors
  are retried.  For the processors: the rows each window appends, the columns an update keeps, the
  cursors after success, error and panic.  For the program: the life cycle of withdrawals as a refinement of an abstract machine,
  well-formedness of their rows, the countdown of the challenge period.  For the encodings: round trips and agreement of two decoders.  For the
  services: coherence of the caches, the counting of deposits, termination of the commands, what is recorded of a
  request, which interrupts are kept.  For the libraries the program calls: what is registered, recorded and logged is what they accept.

  Bounds and fuel.  Loops over lists are structural.  The polling loops recurse on the number of ticks
  that remain, which their durations and counters bound: nine checks for the wait for the graph node, the retry count, or two to the power of
  32 ticks when it is zero, for the polls.  A loop that may wait for ever is an option or the outcome
  \<open>Hangs\<close>, and the properties say when it ends; so is a call to the outside that the program makes without a deadline (the graph node
  and the retriever, the shutdown of a server, the closing of the database), and the properties say what then waits with it.  Integers keep their width: uint64 is a 64-bit word, time.Duration is
  reduced by \<open>wrap64\<close>.

  Not modelled.  Code generated from contracts and protocol descriptions (event/op-bindings, crossdomain/legacy_abi.go,
  synchronizer/mantle-da/common/interfaces), which is most of the repository's lines and has no logic of the program's own: what the
  program reads through it is a parameter.  The logger for tests (common/testlog) and the command that prints metrics
  (metrics/doc), which the program does not offer.  The transport of HTTP and of gRPC, the parsing of the command line and the scheduling of
  goroutines appear as parameters and as orders of steps.
\<close>

end
